theory Spec2Isabelle
  imports Complex_Main
begin

section \<open>Configuration (constants.ts)\<close>

text \<open>
  JavaScript numbers are modelled as mathematical reals where they hold coordinates,
  velocities and sizes, and as naturals where the code only ever counts up from 0
  (score, streak, jump count, shake timer).  Rounding of IEEE doubles is not modelled.
\<close>

definition NEON_CYAN :: string where "NEON_CYAN = ''#00f3ff''"
definition NEON_MAGENTA :: string where "NEON_MAGENTA = ''#ff00ff''"
definition NEON_LIME :: string where "NEON_LIME = ''#00ff9d''"
definition NEON_YELLOW :: string where "NEON_YELLOW = ''#ffea00''"
definition WHITE :: string where "WHITE = ''#ffffff''"

definition PLATFORM_COLORS :: "string list" where
  "PLATFORM_COLORS = [NEON_CYAN, NEON_MAGENTA, NEON_LIME, NEON_YELLOW]"

definition GRAVITY :: real where "GRAVITY = 0.5"
definition JUMP_FORCE :: real where "JUMP_FORCE = - 15"
definition DOUBLE_JUMP_FORCE :: real where "DOUBLE_JUMP_FORCE = - 12"
definition MOVE_SPEED_INITIAL :: real where "MOVE_SPEED_INITIAL = 3"
definition PLATFORM_SPACING :: real where "PLATFORM_SPACING = 150"
definition PLATFORM_WIDTH_MIN :: real where "PLATFORM_WIDTH_MIN = 80"
definition PLATFORM_WIDTH_MAX :: real where "PLATFORM_WIDTH_MAX = 180"
definition PLATFORM_HEIGHT :: real where "PLATFORM_HEIGHT = 20"
definition PLAYER_SIZE :: real where "PLAYER_SIZE = 40"
definition PERFECT_TOLERANCE :: real where "PERFECT_TOLERANCE = 15"
definition FEVER_THRESHOLD :: nat where "FEVER_THRESHOLD = 3"
definition FEVER_MULTIPLIER :: nat where "FEVER_MULTIPLIER = 2"

section \<open>Data model (types.ts, GameEngine.ts)\<close>

datatype GameState = Start | Playing | GameOver

datatype ParticleType = Confetti | Trail | Shatter

record Particle =
  prt_x :: real
  prt_y :: real
  prt_vx :: real
  prt_vy :: real
  prt_life :: real
  prt_maxLife :: real
  prt_color :: string
  prt_size :: real
  prt_type :: ParticleType

record FloatingText =
  ft_x :: real
  ft_y :: real
  ft_text :: string
  ft_life :: real
  ft_color :: string
  ft_scale :: real

text \<open>
  The fields of the classes \<open>Platform\<close> and \<open>Player\<close> that share a name (\<open>x\<close>, \<open>y\<close>,
  \<open>vx\<close>, \<open>width\<close>, \<open>height\<close>, \<open>color\<close>) carry the prefix \<open>plat_\<close> resp. \<open>ply_\<close>.
\<close>

record Platform =
  plat_x :: real
  plat_y :: real
  plat_width :: real
  plat_height :: real
  plat_color :: string
  plat_vx :: real
  passed :: bool
  landedOn :: bool

text \<open>
  Platforms are objects that the engine's array and \<open>player.currentPlatform\<close> both
  refer to, and the code compares them by identity (\<open>currentPlatform === p\<close>).  The model
  keeps every platform object ever constructed in a store; a reference is the index of the
  object in the store.
\<close>

type_synonym ref = nat

record Player =
  ply_x :: real
  ply_y :: real
  ply_vx :: real
  ply_vy :: real
  ply_width :: real
  ply_height :: real
  ply_color :: string
  jumps :: nat
  currentPlatform :: "ref option"
  scaleX :: real
  scaleY :: real
  targetScaleX :: real
  targetScaleY :: real

text \<open>
  The four callbacks handed to the constructor are modelled by a log of the calls made to
  them, in order; the calls to the audio controller by a second log.
\<close>

datatype Notification =
    ScoreUpdate nat
  | GameStateChange GameState
  | FeverChange bool
  | ComboChange nat

datatype Sound = AudioInit | PlayJump | PlayLand | PlayPerfect | PlayShatter

datatype error = TypeError

text \<open>
  \<open>Math.random()\<close> is an oracle \<open>R :: nat \<Rightarrow> real\<close> handed to every function that
  draws; the field \<open>rix\<close> counts the draws made so far, so the \<open>k\<close>-th draw of a run returns
  \<open>R k\<close>.  The canvas, the rendering context and the animation frame handle are left out:
  \<open>draw\<close> reads the state and never writes it.
\<close>

record Engine =
  player :: Player
  platforms :: "ref list"
  store :: "Platform list"
  particles :: "Particle list"
  floatingTexts :: "FloatingText list"
  state :: GameState
  score :: nat
  gameSpeed :: real
  shakeTimer :: nat
  perfectStreak :: nat
  isFever :: bool
  viewportWidth :: real
  viewportHeight :: real
  lastTime :: real
  rix :: nat
  notifications :: "Notification list"
  sounds :: "Sound list"

section \<open>Platform and Player\<close>

definition new_Platform :: "real \<Rightarrow> real \<Rightarrow> real \<Rightarrow> string \<Rightarrow> Platform" where
  "new_Platform x y width color =
     \<lparr> plat_x = x, plat_y = y, plat_width = width, plat_height = PLATFORM_HEIGHT,
       plat_color = color, plat_vx = 0, passed = False, landedOn = False \<rparr>"

definition new_Player :: "real \<Rightarrow> real \<Rightarrow> Player" where
  "new_Player startX startY =
     \<lparr> ply_x = startX, ply_y = startY, ply_vx = 0, ply_vy = 0,
       ply_width = PLAYER_SIZE, ply_height = PLAYER_SIZE, ply_color = WHITE,
       jumps = 0, currentPlatform = None,
       scaleX = 1, scaleY = 1, targetScaleX = 1, targetScaleY = 1 \<rparr>"

text \<open>
  \<open>Player.update\<close>.  The argument \<open>now\<close> is the value of \<open>Date.now()\<close>, \<open>st\<close> the store
  through which \<open>currentPlatform\<close> is dereferenced.
\<close>

definition Player_physics :: "Platform list \<Rightarrow> Player \<Rightarrow> Player" where
  "Player_physics st pl =
     (case currentPlatform pl of
        Some r \<Rightarrow>
          (let cp = st ! r;
               pl1 = pl\<lparr> ply_vy := 0, ply_y := plat_y cp - ply_height pl / 2 \<rparr>;
               edgeTolerance = 5
           in if ply_x pl1 < plat_x cp - edgeTolerance \<or>
                 ply_x pl1 > plat_x cp + plat_width cp + edgeTolerance
              then pl1\<lparr> currentPlatform := None \<rparr>
              else pl1)
      | None \<Rightarrow>
          (let pl1 = pl\<lparr> ply_vy := ply_vy pl + GRAVITY \<rparr>
           in pl1\<lparr> ply_y := ply_y pl1 + ply_vy pl1 \<rparr>))"

definition Player_juice :: "real \<Rightarrow> Player \<Rightarrow> Player" where
  "Player_juice now pl =
     (let pl1 = pl\<lparr> scaleX := scaleX pl + (targetScaleX pl - scaleX pl) * 0.2 \<rparr>;
          pl2 = pl1\<lparr> scaleY := scaleY pl1 + (targetScaleY pl1 - scaleY pl1) * 0.2 \<rparr>;
          pl3 = pl2\<lparr> targetScaleX := 1 + sin (now / 100) * 0.05 \<rparr>;
          pl4 = pl3\<lparr> targetScaleY := 1 + cos (now / 100) * 0.05 \<rparr>
      in if \<bar>ply_vy pl4\<bar> > 1
         then pl4\<lparr> scaleY := 1 + \<bar>ply_vy pl4\<bar> * 0.05, scaleX := 1 - \<bar>ply_vy pl4\<bar> * 0.03 \<rparr>
         else pl4)"

definition Player_update :: "real \<Rightarrow> Platform list \<Rightarrow> Player \<Rightarrow> Player" where
  "Player_update now st pl = Player_juice now (Player_physics st pl)"

text \<open>
  \<open>Player.jump\<close> and \<open>Player.land\<close>; the sound each of them plays is logged by the engine
  function that calls it.
\<close>

definition jump :: "real \<Rightarrow> Player \<Rightarrow> Player" where
  "jump force pl =
     pl\<lparr> currentPlatform := None, ply_vy := force, jumps := jumps pl + 1,
        scaleX := 0.6, scaleY := 1.4 \<rparr>"

definition land :: "ref \<Rightarrow> Platform list \<Rightarrow> Player \<Rightarrow> Player" where
  "land r st pl =
     pl\<lparr> currentPlatform := Some r, ply_vy := 0, jumps := 0,
        ply_y := plat_y (st ! r) - ply_height pl / 2,
        scaleX := 1.5, scaleY := 0.5 \<rparr>"

section \<open>GameEngine\<close>

definition notify :: "Notification \<Rightarrow> Engine \<Rightarrow> Engine" where
  "notify n e = e\<lparr> notifications := notifications e @ [n] \<rparr>"

definition playSound :: "Sound \<Rightarrow> Engine \<Rightarrow> Engine" where
  "playSound s e = e\<lparr> sounds := sounds e @ [s] \<rparr>"

text \<open>The constructor, with \<open>window.innerWidth\<close> and \<open>window.innerHeight\<close> as arguments.\<close>

definition GameEngine :: "real \<Rightarrow> real \<Rightarrow> Engine" where
  "GameEngine w h =
     \<lparr> player = new_Player 0 0, platforms = [], store = [], particles = [],
       floatingTexts = [], state = Start, score = 0, gameSpeed = MOVE_SPEED_INITIAL,
       shakeTimer = 0, perfectStreak = 0, isFever = False,
       viewportWidth = w, viewportHeight = h, lastTime = 0, rix = 0,
       notifications = [], sounds = [] \<rparr>"

definition resize :: "real \<Rightarrow> real \<Rightarrow> Engine \<Rightarrow> Engine" where
  "resize w h e = e\<lparr> viewportWidth := w, viewportHeight := h \<rparr>"

definition startLoop :: "real \<Rightarrow> Engine \<Rightarrow> Engine" where
  "startLoop t e = e\<lparr> lastTime := t \<rparr>"

definition spawnPlatform :: "(nat \<Rightarrow> real) \<Rightarrow> real \<Rightarrow> Engine \<Rightarrow> Engine" where
  "spawnPlatform R y e =
     (let k = rix e;
          width = PLATFORM_WIDTH_MIN + R k * (PLATFORM_WIDTH_MAX - PLATFORM_WIDTH_MIN);
          x = R (k + 1) * (viewportWidth e - width);
          color = PLATFORM_COLORS ! nat \<lfloor>R (k + 2) * real (length PLATFORM_COLORS)\<rfloor>;
          p = new_Platform x y width color;
          p1 = p\<lparr> plat_vx := (if R (k + 3) > 0.5 then 1 else - 1) * (2 + R (k + 4) * 3) \<rparr>
      in e\<lparr> store := store e @ [p1], platforms := platforms e @ [length (store e)],
            rix := k + 5 \<rparr>)"

fun createParticles ::
  "(nat \<Rightarrow> real) \<Rightarrow> real \<Rightarrow> real \<Rightarrow> nat \<Rightarrow> string \<Rightarrow> Engine \<Rightarrow> Engine" where
  "createParticles R x y 0 color e = e"
| "createParticles R x y (Suc n) color e =
     createParticles R x y n color
       (e\<lparr> particles := particles e @
              [\<lparr> prt_x = x, prt_y = y,
                 prt_vx = (R (rix e) - 0.5) * 10,
                 prt_vy = (R (rix e + 1) - 0.5) * 10 - 5,
                 prt_life = 1, prt_maxLife = 1, prt_color = color,
                 prt_size = R (rix e + 2) * 6 + 2, prt_type = Confetti \<rparr>],
           rix := rix e + 3 \<rparr>)"

definition resetGame :: "(nat \<Rightarrow> real) \<Rightarrow> Engine \<Rightarrow> Engine" where
  "resetGame R e =
     (let e1 = notify (ScoreUpdate 0) (e\<lparr> score := 0 \<rparr>);
          e2 = e1\<lparr> gameSpeed := MOVE_SPEED_INITIAL \<rparr>;
          e3 = notify (ComboChange 0) (e2\<lparr> perfectStreak := 0 \<rparr>);
          e4 = notify (FeverChange False) (e3\<lparr> isFever := False \<rparr>);
          e5 = e4\<lparr> particles := [], floatingTexts := [] \<rparr>;
          pl = (new_Player (viewportWidth e5 / 2) (viewportHeight e5 * 0.8))
                 \<lparr> ply_color := NEON_CYAN \<rparr>;
          basePlatformY = viewportHeight e5 * 0.8 + 40;
          basePlat = new_Platform (viewportWidth e5 / 2 - 100) basePlatformY 200 NEON_MAGENTA;
          b = length (store e5);
          e6 = e5\<lparr> player := pl\<lparr> currentPlatform := Some b,
                                  ply_y := plat_y basePlat - ply_height pl / 2 \<rparr>,
                   platforms := [b], store := store e5 @ [basePlat] \<rparr>
      in fold (\<lambda>i. spawnPlatform R (basePlatformY - real i * PLATFORM_SPACING)) [1..<6] e6)"

definition startGame :: "(nat \<Rightarrow> real) \<Rightarrow> Engine \<Rightarrow> Engine" where
  "startGame R e =
     playSound AudioInit (notify (GameStateChange Playing) ((resetGame R e)\<lparr> state := Playing \<rparr>))"

datatype InputEvent = KeyDown | TouchStart | MouseDown

definition handleInput :: "(nat \<Rightarrow> real) \<Rightarrow> InputEvent \<Rightarrow> Engine \<Rightarrow> Engine" where
  "handleInput R ev e =
     (if state e = Start then e
      else if state e = Playing then
        (if jumps (player e) < 2 then
           (let force = (if jumps (player e) = 0 then JUMP_FORCE else DOUBLE_JUMP_FORCE);
                e1 = playSound PlayJump (e\<lparr> player := jump force (player e) \<rparr>)
            in createParticles R (ply_x (player e1))
                 (ply_y (player e1) + ply_height (player e1) / 2) 5 WHITE e1)
         else e)
      else e)"

subsection \<open>The tick: \<open>update\<close>\<close>

definition speedMultiplier :: "Engine \<Rightarrow> real" where
  "speedMultiplier e = 1 + real (score e) * 0.05"

text \<open>The body of the first \<open>forEach\<close> of \<open>update\<close>, for the platform with reference \<open>r\<close>.\<close>

definition movePlatform :: "real \<Rightarrow> ref \<Rightarrow> Engine \<Rightarrow> Engine" where
  "movePlatform sm r e =
     (let p = store e ! r in
      if plat_vx p \<noteq> 0 then
        (let moveX = plat_vx p * sm;
             p1 = p\<lparr> plat_x := plat_x p + moveX \<rparr>;
             pl = (if currentPlatform (player e) = Some r
                   then (player e)\<lparr> ply_x := ply_x (player e) + moveX \<rparr>
                   else player e);
             p2 = (if plat_x p1 \<le> 0
                   then p1\<lparr> plat_x := 0, plat_vx := plat_vx p1 * - 1 \<rparr>
                   else if plat_x p1 + plat_width p1 \<ge> viewportWidth e
                   then p1\<lparr> plat_x := viewportWidth e - plat_width p1,
                            plat_vx := plat_vx p1 * - 1 \<rparr>
                   else p1)
         in e\<lparr> store := (store e)[r := p2], player := pl \<rparr>)
      else e)"

definition update_platforms :: "Engine \<Rightarrow> Engine" where
  "update_platforms e = fold (movePlatform (speedMultiplier e)) (platforms e) e"

text \<open>
  World scrolling with clean-up and spawn.  \<open>this.platforms[0].y\<close> on an empty array and
  \<open>lastP.y\<close> after shifting the only element are reads of a property of \<open>undefined\<close>.
\<close>

definition shiftDown :: "real \<Rightarrow> ref \<Rightarrow> Platform list \<Rightarrow> Platform list" where
  "shiftDown diff r st = st[r := (st ! r)\<lparr> plat_y := plat_y (st ! r) + diff \<rparr>]"

definition update_scroll :: "(nat \<Rightarrow> real) \<Rightarrow> Engine \<Rightarrow> error + Engine" where
  "update_scroll R e =
     (let threshold = viewportHeight e * 0.6 in
      if ply_y (player e) < threshold then
        (let diff = threshold - ply_y (player e);
             e1 = e\<lparr> player := (player e)\<lparr> ply_y := threshold \<rparr> \<rparr>;
             e2 = e1\<lparr> store := fold (shiftDown diff) (platforms e1) (store e1) \<rparr>
         in case platforms e2 of
              [] \<Rightarrow> Inl TypeError
            | r0 # rest \<Rightarrow>
                if plat_y (store e2 ! r0) > viewportHeight e2 + 100 then
                  (case rest of
                     [] \<Rightarrow> Inl TypeError
                   | _ # _ \<Rightarrow>
                       Inr (spawnPlatform R
                              (plat_y (store e2 ! last rest) - PLATFORM_SPACING)
                              (e2\<lparr> platforms := rest \<rparr>)))
                else Inr e2)
      else Inr e)"

text \<open>Collision detection: the test made for platform \<open>r\<close> inside the \<open>for\<close> loop.\<close>

definition hits :: "Engine \<Rightarrow> ref \<Rightarrow> bool" where
  "hits e r =
     (let p = store e ! r;
          pl = player e;
          pLeft = plat_x p;
          pRight = plat_x p + plat_width p;
          playerBottom = ply_y pl + ply_height pl / 2;
          playerLeft = ply_x pl - ply_width pl / 4;
          playerRight = ply_x pl + ply_width pl / 4;
          prevY = ply_y pl - ply_vy pl;
          crossedPlatform = (prevY + ply_height pl / 2 \<le> plat_y p + 15 \<and> playerBottom \<ge> plat_y p)
      in crossedPlatform \<and> playerRight > pLeft \<and> playerLeft < pRight)"

definition triggerPerfect :: "(nat \<Rightarrow> real) \<Rightarrow> ref \<Rightarrow> Engine \<Rightarrow> Engine" where
  "triggerPerfect R r e =
     (let platform = store e ! r;
          e1 = e\<lparr> perfectStreak := perfectStreak e + 1 \<rparr>;
          e2 = notify (ComboChange (perfectStreak e1)) e1;
          e3 = playSound PlayPerfect e2;
          e4 = e3\<lparr> player := (player e3)\<lparr> ply_color := plat_color platform \<rparr> \<rparr>;
          e5 = e4\<lparr> shakeTimer := 10 \<rparr>;
          e6 = createParticles R (ply_x (player e5))
                 (ply_y (player e5) + ply_height (player e5) / 2) 20 (plat_color platform) e5;
          e7 = e6\<lparr> floatingTexts := floatingTexts e6 @
                     [\<lparr> ft_x = ply_x (player e6), ft_y = ply_y (player e6) - 50,
                        ft_text = ''PERFECT!'', ft_life = 1,
                        ft_color = plat_color platform, ft_scale = 1 \<rparr>] \<rparr>
      in if perfectStreak e7 \<ge> FEVER_THRESHOLD
         then notify (FeverChange True) (e7\<lparr> isFever := True \<rparr>)
         else e7)"

text \<open>The body of the \<open>if\<close> that found the platform \<open>r\<close> under the player.\<close>

definition landed :: "(nat \<Rightarrow> real) \<Rightarrow> ref \<Rightarrow> Engine \<Rightarrow> Engine" where
  "landed R r e =
     (let e1 = playSound PlayLand (e\<lparr> player := land r (store e) (player e) \<rparr>);
          p = store e1 ! r
      in if \<not> landedOn p then
           (let e2 = e1\<lparr> store := (store e1)[r := p\<lparr> landedOn := True \<rparr>] \<rparr>;
                e3 = e2\<lparr> score := score e2 + 1 \<rparr>;
                e4 = notify (ScoreUpdate
                               (score e3 * (if isFever e3 then FEVER_MULTIPLIER else 1))) e3;
                pCenter = plat_x p + plat_width p / 2;
                dist = \<bar>ply_x (player e4) - pCenter\<bar>
            in if dist < PERFECT_TOLERANCE then triggerPerfect R r e4
               else
                 (let e5 = (if perfectStreak e4 > 0
                            then notify (ComboChange 0) (e4\<lparr> perfectStreak := 0 \<rparr>)
                            else e4)
                  in if isFever e5
                     then notify (FeverChange False) (e5\<lparr> isFever := False \<rparr>)
                     else e5))
         else e1)"

text \<open>The \<open>for\<close> loop over the platforms, left at the first platform that is hit.\<close>

fun collide :: "(nat \<Rightarrow> real) \<Rightarrow> ref list \<Rightarrow> Engine \<Rightarrow> Engine" where
  "collide R [] e = e"
| "collide R (r # rs) e = (if hits e r then landed R r e else collide R rs e)"

definition update_collision :: "(nat \<Rightarrow> real) \<Rightarrow> Engine \<Rightarrow> Engine" where
  "update_collision R e =
     (if ply_vy (player e) > 0 \<and> currentPlatform (player e) = None
      then collide R (platforms e) e
      else e)"

definition gameOver :: "(nat \<Rightarrow> real) \<Rightarrow> Engine \<Rightarrow> Engine" where
  "gameOver R e =
     (let e1 = e\<lparr> state := GameOver \<rparr>;
          e2 = notify (GameStateChange GameOver) e1;
          e3 = playSound PlayShatter e2
      in createParticles R (ply_x (player e3)) (ply_y (player e3)) 50
           (ply_color (player e3)) e3)"

definition update_fall :: "(nat \<Rightarrow> real) \<Rightarrow> Engine \<Rightarrow> Engine" where
  "update_fall R e =
     (if ply_y (player e) > viewportHeight e + 100 then gameOver R e else e)"

text \<open>
  The two cosmetic loops run backwards over the array and splice the dead entries out, so
  every entry is advanced exactly once and the survivors keep their order.
\<close>

definition stepParticle :: "Particle \<Rightarrow> Particle" where
  "stepParticle p =
     p\<lparr> prt_life := prt_life p - 0.02, prt_x := prt_x p + prt_vx p,
        prt_y := prt_y p + prt_vy p, prt_vy := prt_vy p + 0.2 \<rparr>"

definition stepText :: "FloatingText \<Rightarrow> FloatingText" where
  "stepText t = t\<lparr> ft_life := ft_life t - 0.02, ft_y := ft_y t - 1, ft_scale := ft_scale t + 0.01 \<rparr>"

definition update_cosmetics :: "Engine \<Rightarrow> Engine" where
  "update_cosmetics e =
     (let e1 = e\<lparr> particles := filter (\<lambda>p. \<not> prt_life p \<le> 0) (map stepParticle (particles e)) \<rparr>;
          e2 = e1\<lparr> floatingTexts :=
                     filter (\<lambda>t. \<not> ft_life t \<le> 0) (map stepText (floatingTexts e1)) \<rparr>
      in if shakeTimer e2 > 0 then e2\<lparr> shakeTimer := shakeTimer e2 - 1 \<rparr> else e2)"

text \<open>
  \<open>update\<close> runs the phases in the order of the source: platforms, player, world scroll,
  collision, fall-out test, cosmetics.  \<open>update_move\<close> names the first two, after which the
  scroll may fail.  The argument \<open>dt\<close> is not used by the source either.
\<close>

definition update_move :: "real \<Rightarrow> Engine \<Rightarrow> Engine" where
  "update_move now e =
     (let e1 = update_platforms e
      in e1\<lparr> player := Player_update now (store e1) (player e1) \<rparr>)"

definition update :: "(nat \<Rightarrow> real) \<Rightarrow> real \<Rightarrow> real \<Rightarrow> Engine \<Rightarrow> error + Engine" where
  "update R dt now e =
     (case update_scroll R (update_move now e) of
        Inl err \<Rightarrow> Inl err
      | Inr e3 \<Rightarrow> Inr (update_cosmetics (update_fall R (update_collision R e3))))"

text \<open>
  \<open>loop\<close>, without the call of \<open>draw\<close> and the request for the next frame.  \<open>time\<close> is the
  frame's timestamp, \<open>now\<close> the wall clock read by \<open>Player.update\<close>.
\<close>

definition loop :: "(nat \<Rightarrow> real) \<Rightarrow> real \<Rightarrow> real \<Rightarrow> Engine \<Rightarrow> error + Engine" where
  "loop R time now e =
     (let deltaTime = (time - lastTime e) / 16.67;
          e1 = e\<lparr> lastTime := time \<rparr>
      in if state e1 = Playing then update R deltaTime now e1 else Inr e1)"

subsection \<open>Runs of the engine\<close>

text \<open>
  The calls the page makes on an engine: \<open>resize\<close> (with the window's inner size),
  \<open>startLoop\<close>, \<open>startGame\<close>, an input event, and one animation frame.  The window's size
  is never negative.
\<close>

datatype Op =
    Resize real real
  | StartLoop real
  | StartGame
  | Input InputEvent
  | Frame real real

fun exec :: "(nat \<Rightarrow> real) \<Rightarrow> Op \<Rightarrow> Engine \<Rightarrow> error + Engine" where
  "exec R (Resize w h) e = Inr (resize w h e)"
| "exec R (StartLoop t) e = Inr (startLoop t e)"
| "exec R StartGame e = Inr (startGame R e)"
| "exec R (Input ev) e = Inr (handleInput R ev e)"
| "exec R (Frame time now) e = loop R time now e"

fun run :: "(nat \<Rightarrow> real) \<Rightarrow> Op list \<Rightarrow> Engine \<Rightarrow> error + Engine" where
  "run R [] e = Inr e"
| "run R (op # ops) e = (case exec R op e of Inl err \<Rightarrow> Inl err | Inr e' \<Rightarrow> run R ops e')"

fun valid_op :: "Op \<Rightarrow> bool" where
  "valid_op (Resize w h) = (0 \<le> w \<and> 0 \<le> h)"
| "valid_op _ = True"

inductive reachable :: "(nat \<Rightarrow> real) \<Rightarrow> Engine \<Rightarrow> bool" for R where
  init: "0 \<le> w \<Longrightarrow> 0 \<le> h \<Longrightarrow> reachable R (GameEngine w h)"
| step: "reachable R e \<Longrightarrow> valid_op op \<Longrightarrow> exec R op e = Inr e' \<Longrightarrow> reachable R e'"

section \<open>Notions used to state the properties\<close>

text \<open>
  What the first \<open>forEach\<close> of \<open>update\<close> does to one platform (\<open>advance\<close>) and to the player
  (\<open>carry\<close>), as functions of the state before the loop; \<open>sm\<close> is the speed multiplier and
  \<open>vw\<close> the viewport width.
\<close>

definition advance :: "real \<Rightarrow> real \<Rightarrow> Platform \<Rightarrow> Platform" where
  "advance sm vw p =
     (if plat_vx p \<noteq> 0 then
        (let x1 = plat_x p + plat_vx p * sm
         in if x1 \<le> 0 then p\<lparr> plat_x := 0, plat_vx := - plat_vx p \<rparr>
            else if x1 + plat_width p \<ge> vw
            then p\<lparr> plat_x := vw - plat_width p, plat_vx := - plat_vx p \<rparr>
            else p\<lparr> plat_x := x1 \<rparr>)
      else p)"

definition carry :: "real \<Rightarrow> ref list \<Rightarrow> Platform list \<Rightarrow> Player \<Rightarrow> Player" where
  "carry sm rs st pl =
     (case currentPlatform pl of
        None \<Rightarrow> pl
      | Some c \<Rightarrow>
          if c \<in> set rs \<and> plat_vx (st ! c) \<noteq> 0
          then pl\<lparr> ply_x := ply_x pl + plat_vx (st ! c) * sm \<rparr>
          else pl)"

text \<open>The platform, if any, that the collision loop of a tick lands the player on.\<close>

definition landingPlatform :: "Engine \<Rightarrow> ref option" where
  "landingPlatform e =
     (if ply_vy (player e) > 0 \<and> currentPlatform (player e) = None
      then find (hits e) (platforms e)
      else None)"

text \<open>
  Well-formedness of a state: the array holds distinct references to constructed platforms,
  the player rests on a platform of the array, the player's size is the configured one, the
  viewport height is not negative, and outside the start phase there are six platforms.
\<close>

definition refs_ok :: "Engine \<Rightarrow> bool" where
  "refs_ok e \<longleftrightarrow> distinct (platforms e) \<and> (\<forall>r \<in> set (platforms e). r < length (store e))"

definition pinned :: "Engine \<Rightarrow> bool" where
  "pinned e \<longleftrightarrow>
     (\<forall>r. currentPlatform (player e) = Some r \<longrightarrow>
        ply_vy (player e) = 0 \<and>
        ply_y (player e) = plat_y (store e ! r) - ply_height (player e) / 2)"

definition wf :: "Engine \<Rightarrow> bool" where
  "wf e \<longleftrightarrow>
     refs_ok e \<and>
     (\<forall>r. currentPlatform (player e) = Some r \<longrightarrow> r \<in> set (platforms e)) \<and>
     ply_height (player e) = PLAYER_SIZE \<and> ply_width (player e) = PLAYER_SIZE \<and>
     0 \<le> viewportHeight e \<and>
     (state e \<noteq> Start \<longrightarrow> length (platforms e) = 6)"

text \<open>
  The world scroll of a tick, read off the state \<open>e\<close> that \<open>update_move\<close> produced: whether it
  happens, by how much, the state it leaves before the clean-up, and whether the clean-up
  removes the bottom-most platform.  \<open>spawned\<close> is the platform object that \<open>spawnPlatform\<close>
  constructs from the draws \<open>R k, \<dots>, R (k + 4)\<close>.
\<close>

definition scrolls :: "Engine \<Rightarrow> bool" where
  "scrolls e \<longleftrightarrow> ply_y (player e) < viewportHeight e * 0.6"

definition scrollDiff :: "Engine \<Rightarrow> real" where
  "scrollDiff e = viewportHeight e * 0.6 - ply_y (player e)"

definition scrolled :: "Engine \<Rightarrow> Engine" where
  "scrolled e =
     e\<lparr> player := (player e)\<lparr> ply_y := viewportHeight e * 0.6 \<rparr>,
        store := fold (shiftDown (scrollDiff e)) (platforms e) (store e) \<rparr>"

definition recycles :: "Engine \<Rightarrow> bool" where
  "recycles e \<longleftrightarrow>
     scrolls e \<and>
     plat_y (store e ! hd (platforms e)) + scrollDiff e > viewportHeight e + 100"

definition spawned :: "(nat \<Rightarrow> real) \<Rightarrow> nat \<Rightarrow> real \<Rightarrow> real \<Rightarrow> Platform" where
  "spawned R k vw y =
     (let width = PLATFORM_WIDTH_MIN + R k * (PLATFORM_WIDTH_MAX - PLATFORM_WIDTH_MIN)
      in (new_Platform (R (k + 1) * (vw - width)) y width
            (PLATFORM_COLORS ! nat \<lfloor>R (k + 2) * real (length PLATFORM_COLORS)\<rfloor>))
         \<lparr> plat_vx := (if R (k + 3) > 0.5 then 1 else - 1) * (2 + R (k + 4) * 3) \<rparr>)"

text \<open>
  The state that the world scroll leaves when it does not fail, and with it the state of a
  frame in the playing phase just before the collision loop.
\<close>

definition afterScroll :: "(nat \<Rightarrow> real) \<Rightarrow> Engine \<Rightarrow> Engine" where
  "afterScroll R e =
     (if scrolls e then
        (if recycles e
         then spawnPlatform R
                (plat_y (store (scrolled e) ! last (platforms e)) - PLATFORM_SPACING)
                ((scrolled e)\<lparr> platforms := tl (platforms e) \<rparr>)
         else scrolled e)
      else e)"

definition preCollision :: "(nat \<Rightarrow> real) \<Rightarrow> real \<Rightarrow> real \<Rightarrow> Engine \<Rightarrow> Engine" where
  "preCollision R time now e = afterScroll R (update_move now (e\<lparr> lastTime := time \<rparr>))"

text \<open>
  A landing on platform \<open>r\<close> is perfect when the player's centre is within the tolerance of
  the platform's centre.  \<open>landingNotes\<close> lists the notifications that the landing branch of
  \<open>update\<close> sends, in order, as a function of the state before the landing.
\<close>

definition perfectHit :: "Engine \<Rightarrow> ref \<Rightarrow> bool" where
  "perfectHit e r \<longleftrightarrow>
     \<bar>ply_x (player e) - (plat_x (store e ! r) + plat_width (store e ! r) / 2)\<bar>
       < PERFECT_TOLERANCE"

definition landingNotes :: "Engine \<Rightarrow> ref \<Rightarrow> Notification list" where
  "landingNotes e r =
     (if landedOn (store e ! r) then []
      else ScoreUpdate ((score e + 1) * (if isFever e then FEVER_MULTIPLIER else 1)) #
           (if perfectHit e r
            then ComboChange (perfectStreak e + 1) #
                 (if perfectStreak e + 1 \<ge> FEVER_THRESHOLD then [FeverChange True] else [])
            else (if perfectStreak e > 0 then [ComboChange 0] else []) @
                 (if isFever e then [FeverChange False] else [])))"

text \<open>The state that a frame in the playing phase leaves when the scroll does not fail.\<close>

definition afterFrame :: "(nat \<Rightarrow> real) \<Rightarrow> real \<Rightarrow> real \<Rightarrow> Engine \<Rightarrow> Engine" where
  "afterFrame R time now e =
     update_cosmetics (update_fall R (update_collision R (preCollision R time now e)))"

text \<open>The player and the base platform that \<open>resetGame\<close> constructs for a viewport.\<close>

definition startPlayer :: "real \<Rightarrow> real \<Rightarrow> ref \<Rightarrow> Player" where
  "startPlayer vw vh b =
     (new_Player (vw / 2) (vh * 0.8))
       \<lparr> ply_color := NEON_CYAN, currentPlatform := Some b,
         ply_y := (vh * 0.8 + 40) - PLAYER_SIZE / 2 \<rparr>"

definition basePlatform :: "real \<Rightarrow> real \<Rightarrow> Platform" where
  "basePlatform vw vh = new_Platform (vw / 2 - 100) (vh * 0.8 + 40) 200 NEON_MAGENTA"

text \<open>
  A concrete engine for the examples: a window of 800 by 600, every random draw equal to
  \<open>1/2\<close>, and the game started once.
\<close>

definition R0 :: "nat \<Rightarrow> real" where
  "R0 = (\<lambda>_. 1 / 2)"

definition G0 :: Engine where
  "G0 = GameEngine 800 600"

definition E0 :: Engine where
  "E0 = startGame R0 G0"

text \<open>The example engine after one frame (timestamp 16, wall clock 0).\<close>

definition E1 :: Engine where
  "E1 = (case loop R0 16 0 E0 of Inr e \<Rightarrow> e | Inl _ \<Rightarrow> E0)"

text \<open>
  The example engine after the window has shrunk to 800 by 300, and the state one frame
  later.
\<close>

definition E0r :: Engine where
  "E0r = resize 800 300 E0"

definition E1r :: Engine where
  "E1r = afterFrame R0 16 0 E0r"

text \<open>
  A hand-made world for the examples of landings: four narrow static platforms (width 2)
  stacked half a unit apart at x = 399, and a falling player at x = 410, ten units to the
  right of their centres.  The player lands on the highest of them, walks off it in the
  next frame (it stands more than 5 units beyond the right edge), drops onto the next one,
  and so on.  \<open>W1\<close>, \<dots>, \<open>W7\<close> are the states after one to seven frames.
\<close>

definition W0 :: Engine where
  "W0 =
     \<lparr> player =
         \<lparr> ply_x = 410, ply_y = 941 / 2, ply_vx = 0, ply_vy = 9,
           ply_width = 40, ply_height = 40, ply_color = NEON_CYAN,
           jumps = 1, currentPlatform = None,
           scaleX = 1, scaleY = 1, targetScaleX = 1, targetScaleY = 1 \<rparr>,
       platforms = [0, 1, 2, 3, 4, 5],
       store =
     [\<lparr> plat_x = 399, plat_y = 1003 / 2, plat_width = 2, plat_height = 20,
        plat_color = NEON_MAGENTA, plat_vx = 0, passed = False, landedOn = False \<rparr>,
      \<lparr> plat_x = 399, plat_y = 501, plat_width = 2, plat_height = 20,
        plat_color = NEON_YELLOW, plat_vx = 0, passed = False, landedOn = False \<rparr>,
      \<lparr> plat_x = 399, plat_y = 1001 / 2, plat_width = 2, plat_height = 20,
        plat_color = NEON_LIME, plat_vx = 0, passed = False, landedOn = False \<rparr>,
      \<lparr> plat_x = 399, plat_y = 500, plat_width = 2, plat_height = 20,
        plat_color = NEON_MAGENTA, plat_vx = 0, passed = False, landedOn = False \<rparr>,
      \<lparr> plat_x = 335, plat_y = 350, plat_width = 130, plat_height = 20,
        plat_color = NEON_LIME, plat_vx = - (7 / 2), passed = False, landedOn = False \<rparr>,
      \<lparr> plat_x = 335, plat_y = 200, plat_width = 130, plat_height = 20,
        plat_color = NEON_LIME, plat_vx = - (7 / 2), passed = False, landedOn = False \<rparr>],
       particles = [], floatingTexts = [], state = Playing, score = 0,
       gameSpeed = MOVE_SPEED_INITIAL, shakeTimer = 0, perfectStreak = 0,
       isFever = False,
       viewportWidth = 800, viewportHeight = 600, lastTime = 0, rix = 0,
       notifications = [], sounds = [] \<rparr>"

definition W1 :: Engine where
  "W1 = afterFrame R0 16 0 W0"

definition W2 :: Engine where
  "W2 = afterFrame R0 32 0 W1"

definition W3 :: Engine where
  "W3 = afterFrame R0 48 0 W2"

definition W4 :: Engine where
  "W4 = afterFrame R0 64 0 W3"

definition W5 :: Engine where
  "W5 = afterFrame R0 80 0 W4"

definition W6 :: Engine where
  "W6 = afterFrame R0 96 0 W5"

definition W7 :: Engine where
  "W7 = afterFrame R0 112 0 W6"

text \<open>
  Two more hand-made states.  In \<open>P0\<close> the score is 2, the player rests on the moving
  platform 1, platform 2 is about to reach the left edge and platform 3 the right edge.
  \<open>V0\<close> is \<open>W0\<close> with the platform under the player already landed on.  \<open>P1\<close> and \<open>V1\<close>
  are the states one frame later.
\<close>

definition P0 :: Engine where
  "P0 =
     \<lparr> player =
         \<lparr> ply_x = 400, ply_y = 390, ply_vx = 0, ply_vy = 0,
           ply_width = 40, ply_height = 40, ply_color = NEON_CYAN,
           jumps = 0, currentPlatform = Some 1,
           scaleX = 1, scaleY = 1, targetScaleX = 1, targetScaleY = 1 \<rparr>,
       platforms = [0, 1, 2, 3, 4, 5],
       store =
     [\<lparr> plat_x = 300, plat_y = 520, plat_width = 200, plat_height = 20,
        plat_color = NEON_MAGENTA, plat_vx = 0, passed = False, landedOn = True \<rparr>,
      \<lparr> plat_x = 335, plat_y = 410, plat_width = 130, plat_height = 20,
        plat_color = NEON_LIME, plat_vx = - (7 / 2), passed = False, landedOn = True \<rparr>,
      \<lparr> plat_x = 2, plat_y = 220, plat_width = 130, plat_height = 20,
        plat_color = NEON_CYAN, plat_vx = - (7 / 2), passed = False, landedOn = False \<rparr>,
      \<lparr> plat_x = 668, plat_y = 70, plat_width = 130, plat_height = 20,
        plat_color = NEON_YELLOW, plat_vx = 7 / 2, passed = False, landedOn = False \<rparr>,
      \<lparr> plat_x = 335, plat_y = - 80, plat_width = 130, plat_height = 20,
        plat_color = NEON_LIME, plat_vx = - (7 / 2), passed = False, landedOn = False \<rparr>,
      \<lparr> plat_x = 335, plat_y = - 230, plat_width = 130, plat_height = 20,
        plat_color = NEON_LIME, plat_vx = - (7 / 2), passed = False, landedOn = False \<rparr>],
       particles = [], floatingTexts = [], state = Playing, score = 2,
       gameSpeed = MOVE_SPEED_INITIAL, shakeTimer = 0, perfectStreak = 0,
       isFever = False,
       viewportWidth = 800, viewportHeight = 600, lastTime = 0, rix = 0,
       notifications = [ScoreUpdate 0, ComboChange 0, FeverChange False, GameStateChange Playing, ScoreUpdate 1, ScoreUpdate 2], sounds = [] \<rparr>"

definition P1 :: Engine where
  "P1 = afterFrame R0 16 0 P0"

definition V0 :: Engine where
  "V0 =
     \<lparr> player =
         \<lparr> ply_x = 410, ply_y = 941 / 2, ply_vx = 0, ply_vy = 9,
           ply_width = 40, ply_height = 40, ply_color = NEON_CYAN,
           jumps = 1, currentPlatform = None,
           scaleX = 1, scaleY = 1, targetScaleX = 1, targetScaleY = 1 \<rparr>,
       platforms = [0, 1, 2, 3, 4, 5],
       store =
     [\<lparr> plat_x = 399, plat_y = 1003 / 2, plat_width = 2, plat_height = 20,
        plat_color = NEON_MAGENTA, plat_vx = 0, passed = False, landedOn = False \<rparr>,
      \<lparr> plat_x = 399, plat_y = 501, plat_width = 2, plat_height = 20,
        plat_color = NEON_YELLOW, plat_vx = 0, passed = False, landedOn = False \<rparr>,
      \<lparr> plat_x = 399, plat_y = 1001 / 2, plat_width = 2, plat_height = 20,
        plat_color = NEON_LIME, plat_vx = 0, passed = False, landedOn = False \<rparr>,
      \<lparr> plat_x = 399, plat_y = 500, plat_width = 2, plat_height = 20,
        plat_color = NEON_MAGENTA, plat_vx = 0, passed = False, landedOn = True \<rparr>,
      \<lparr> plat_x = 335, plat_y = 350, plat_width = 130, plat_height = 20,
        plat_color = NEON_LIME, plat_vx = - (7 / 2), passed = False, landedOn = False \<rparr>,
      \<lparr> plat_x = 335, plat_y = 200, plat_width = 130, plat_height = 20,
        plat_color = NEON_LIME, plat_vx = - (7 / 2), passed = False, landedOn = False \<rparr>],
       particles = [], floatingTexts = [], state = Playing, score = 1,
       gameSpeed = MOVE_SPEED_INITIAL, shakeTimer = 0, perfectStreak = 0,
       isFever = False,
       viewportWidth = 800, viewportHeight = 600, lastTime = 0, rix = 0,
       notifications = [ScoreUpdate 1], sounds = [] \<rparr>"

definition V1 :: Engine where
  "V1 = afterFrame R0 16 0 V0"

text \<open>
  A platform is moving when the magnitude of its horizontal velocity lies in \<open>[2, 5)\<close>.
  \<open>speeds_ok\<close>: every platform of the array but the first is moving, and the first is
  either moving or a stationary platform of width 200 (the base platform of a reset).
\<close>

definition moving :: "Platform \<Rightarrow> bool" where
  "moving p \<longleftrightarrow> 2 \<le> \<bar>plat_vx p\<bar> \<and> \<bar>plat_vx p\<bar> < 5"

definition speeds_ok :: "Engine \<Rightarrow> bool" where
  "speeds_ok e \<longleftrightarrow>
     (\<forall>r \<in> set (tl (platforms e)). moving (store e ! r)) \<and>
     (platforms e \<noteq> [] \<longrightarrow>
        (plat_vx (store e ! hd (platforms e)) = 0 \<and>
         plat_width (store e ! hd (platforms e)) = 200) \<or>
        moving (store e ! hd (platforms e)))"

text \<open>
  The values reported on each of the four notification channels, in order, and the test
  that a channel never reports the same value twice in a row.
\<close>

fun scoreReports :: "Notification list \<Rightarrow> nat list" where
  "scoreReports [] = []"
| "scoreReports (ScoreUpdate v # ns) = v # scoreReports ns"
| "scoreReports (_ # ns) = scoreReports ns"

fun comboReports :: "Notification list \<Rightarrow> nat list" where
  "comboReports [] = []"
| "comboReports (ComboChange v # ns) = v # comboReports ns"
| "comboReports (_ # ns) = comboReports ns"

fun feverReports :: "Notification list \<Rightarrow> bool list" where
  "feverReports [] = []"
| "feverReports (FeverChange v # ns) = v # feverReports ns"
| "feverReports (_ # ns) = feverReports ns"

fun phaseReports :: "Notification list \<Rightarrow> GameState list" where
  "phaseReports [] = []"
| "phaseReports (GameStateChange v # ns) = v # phaseReports ns"
| "phaseReports (_ # ns) = phaseReports ns"

fun no_repeat :: "'a list \<Rightarrow> bool" where
  "no_repeat (x # y # xs) = (x \<noteq> y \<and> no_repeat (y # xs))"
| "no_repeat _ = True"

definition changes_only :: "Notification list \<Rightarrow> bool" where
  "changes_only ns \<longleftrightarrow>
     no_repeat (scoreReports ns) \<and> no_repeat (phaseReports ns) \<and>
     no_repeat (feverReports ns) \<and> no_repeat (comboReports ns)"

text \<open>
  \<open>fresh prev vs\<close>: each value of \<open>vs\<close> differs from the one before it, the first from the
  value \<open>prev\<close> reported last before \<open>vs\<close> (if any).
\<close>

fun lastOf :: "'a list \<Rightarrow> 'a option" where
  "lastOf [] = None"
| "lastOf [x] = Some x"
| "lastOf (x # y # xs) = lastOf (y # xs)"

fun fresh :: "'a option \<Rightarrow> 'a list \<Rightarrow> bool" where
  "fresh prev [] = True"
| "fresh prev (v # vs) = (prev \<noteq> Some v \<and> fresh (Some v) vs)"

text \<open>
  What the log of notifications says about the state: the value last reported on a channel
  is the current one (for the score: the raw score, or twice the raw score when that is at
  least 4), fever implies a streak of at least 3, and the streak never exceeds the score.
\<close>

definition log_ok :: "Engine \<Rightarrow> bool" where
  "log_ok e \<longleftrightarrow>
     (case lastOf (scoreReports (notifications e)) of
        None \<Rightarrow> True
      | Some v \<Rightarrow> v = score e \<or> (v = 2 * score e \<and> 4 \<le> score e)) \<and>
     (case lastOf (comboReports (notifications e)) of
        None \<Rightarrow> True | Some v \<Rightarrow> v = perfectStreak e) \<and>
     (case lastOf (feverReports (notifications e)) of
        None \<Rightarrow> True | Some v \<Rightarrow> v = isFever e) \<and>
     (case lastOf (phaseReports (notifications e)) of
        None \<Rightarrow> True | Some v \<Rightarrow> v = state e) \<and>
     (isFever e \<longrightarrow> 3 \<le> perfectStreak e) \<and>
     perfectStreak e \<le> score e"

text \<open>
  Whether an operation makes a first landing, and if so whether it is perfect; the first
  landings of a run, in order; and the notifications other than those of the phase.
\<close>

fun firstLanding :: "(nat \<Rightarrow> real) \<Rightarrow> Op \<Rightarrow> Engine \<Rightarrow> bool option" where
  "firstLanding R (Frame time now) e =
     (if state e = Playing then
        (case landingPlatform (preCollision R time now e) of
           None \<Rightarrow> None
         | Some r \<Rightarrow>
             if landedOn (store (preCollision R time now e) ! r) then None
             else Some (perfectHit (preCollision R time now e) r))
      else None)"
| "firstLanding R _ e = None"

fun landings :: "(nat \<Rightarrow> real) \<Rightarrow> Op list \<Rightarrow> Engine \<Rightarrow> bool list" where
  "landings R [] e = []"
| "landings R (op # ops) e =
     (case firstLanding R op e of None \<Rightarrow> [] | Some b \<Rightarrow> [b]) @
     (case exec R op e of Inl _ \<Rightarrow> [] | Inr e' \<Rightarrow> landings R ops e')"

fun isPhaseNote :: "Notification \<Rightarrow> bool" where
  "isPhaseNote (GameStateChange _) = True"
| "isPhaseNote _ = False"

text \<open>
  The notifications, other than those of the phase, that a sequence of first landings
  sends (\<open>True\<close> for a perfect one), from raw score \<open>s\<close>, streak \<open>k\<close> and fever flag \<open>f\<close>; and
  the score, streak and flag it ends with.
\<close>

fun landingOut :: "bool \<Rightarrow> nat \<Rightarrow> nat \<Rightarrow> bool \<Rightarrow> Notification list" where
  "landingOut b s k f =
     ScoreUpdate ((s + 1) * (if f then FEVER_MULTIPLIER else 1)) #
     (if b then ComboChange (k + 1) # (if k + 1 \<ge> FEVER_THRESHOLD then [FeverChange True] else [])
      else (if k > 0 then [ComboChange 0] else []) @ (if f then [FeverChange False] else []))"

fun notesOf :: "bool list \<Rightarrow> nat \<Rightarrow> nat \<Rightarrow> bool \<Rightarrow> Notification list" where
  "notesOf [] s k f = []"
| "notesOf (b # bs) s k f =
     landingOut b s k f @
     notesOf bs (s + 1) (if b then k + 1 else 0) (b \<and> (f \<or> k + 1 \<ge> FEVER_THRESHOLD))"

fun scoringAfter :: "bool list \<Rightarrow> nat \<times> nat \<times> bool \<Rightarrow> nat \<times> nat \<times> bool" where
  "scoringAfter [] skf = skf"
| "scoringAfter (b # bs) (s, k, f) =
     scoringAfter bs (s + 1, if b then k + 1 else 0, b \<and> (f \<or> k + 1 \<ge> FEVER_THRESHOLD))"


subsection \<open>The simulation state\<close>

text \<open>
  The engine without the time stamp of the last frame and without the window size, the
  three fields that \<open>loop\<close> and \<open>resize\<close> write in every phase.
\<close>

definition simulation :: "Engine \<Rightarrow> Engine" where
  "simulation e = e\<lparr> lastTime := 0, viewportWidth := 0, viewportHeight := 0 \<rparr>"

text \<open>
  A played game, for the examples on a run of the engine from its construction.  The window
  is 800 by 600.  Every random draw is \<open>1/2\<close> but for the three that place the first three
  spawned platforms, chosen so that each of them passes under the player at the moment the
  player's jump comes down on it.  The player starts the game and jumps at once (\<open>Q0j\<close>);
  \<open>Qn\<close> is the state after frame \<open>n\<close>, and \<open>Q46j\<close> and \<open>Q92j\<close> are the states after the
  jumps that follow the landings of frames 46 and 92.
\<close>

definition R1 :: "nat \<Rightarrow> real" where
  "R1 k = (if k = 1 then 189 / 256 else if k = 6 then 507 / 512
           else if k = 11 then 129 / 512 else 1 / 2)"

definition Q0 :: Engine where
  "Q0 = startGame R1 G0"

definition Q0j :: Engine where
  "Q0j = handleInput R1 KeyDown Q0"

definition Q1 :: Engine where
  "Q1 = afterFrame R1 16 0 Q0j"

definition Q2 :: Engine where
  "Q2 = afterFrame R1 32 0 Q1"

definition Q3 :: Engine where
  "Q3 = afterFrame R1 48 0 Q2"

definition Q4 :: Engine where
  "Q4 = afterFrame R1 64 0 Q3"

definition Q5 :: Engine where
  "Q5 = afterFrame R1 80 0 Q4"

definition Q6 :: Engine where
  "Q6 = afterFrame R1 96 0 Q5"

definition Q7 :: Engine where
  "Q7 = afterFrame R1 112 0 Q6"

definition Q8 :: Engine where
  "Q8 = afterFrame R1 128 0 Q7"

definition Q9 :: Engine where
  "Q9 = afterFrame R1 144 0 Q8"

definition Q10 :: Engine where
  "Q10 = afterFrame R1 160 0 Q9"

definition Q11 :: Engine where
  "Q11 = afterFrame R1 176 0 Q10"

definition Q12 :: Engine where
  "Q12 = afterFrame R1 192 0 Q11"

definition Q13 :: Engine where
  "Q13 = afterFrame R1 208 0 Q12"

definition Q14 :: Engine where
  "Q14 = afterFrame R1 224 0 Q13"

definition Q15 :: Engine where
  "Q15 = afterFrame R1 240 0 Q14"

definition Q16 :: Engine where
  "Q16 = afterFrame R1 256 0 Q15"

definition Q17 :: Engine where
  "Q17 = afterFrame R1 272 0 Q16"

definition Q18 :: Engine where
  "Q18 = afterFrame R1 288 0 Q17"

definition Q19 :: Engine where
  "Q19 = afterFrame R1 304 0 Q18"

definition Q20 :: Engine where
  "Q20 = afterFrame R1 320 0 Q19"

definition Q21 :: Engine where
  "Q21 = afterFrame R1 336 0 Q20"

definition Q22 :: Engine where
  "Q22 = afterFrame R1 352 0 Q21"

definition Q23 :: Engine where
  "Q23 = afterFrame R1 368 0 Q22"

definition Q24 :: Engine where
  "Q24 = afterFrame R1 384 0 Q23"

definition Q25 :: Engine where
  "Q25 = afterFrame R1 400 0 Q24"

definition Q26 :: Engine where
  "Q26 = afterFrame R1 416 0 Q25"

definition Q27 :: Engine where
  "Q27 = afterFrame R1 432 0 Q26"

definition Q28 :: Engine where
  "Q28 = afterFrame R1 448 0 Q27"

definition Q29 :: Engine where
  "Q29 = afterFrame R1 464 0 Q28"

definition Q30 :: Engine where
  "Q30 = afterFrame R1 480 0 Q29"

definition Q31 :: Engine where
  "Q31 = afterFrame R1 496 0 Q30"

definition Q32 :: Engine where
  "Q32 = afterFrame R1 512 0 Q31"

definition Q33 :: Engine where
  "Q33 = afterFrame R1 528 0 Q32"

definition Q34 :: Engine where
  "Q34 = afterFrame R1 544 0 Q33"

definition Q35 :: Engine where
  "Q35 = afterFrame R1 560 0 Q34"

definition Q36 :: Engine where
  "Q36 = afterFrame R1 576 0 Q35"

definition Q37 :: Engine where
  "Q37 = afterFrame R1 592 0 Q36"

definition Q38 :: Engine where
  "Q38 = afterFrame R1 608 0 Q37"

definition Q39 :: Engine where
  "Q39 = afterFrame R1 624 0 Q38"

definition Q40 :: Engine where
  "Q40 = afterFrame R1 640 0 Q39"

definition Q41 :: Engine where
  "Q41 = afterFrame R1 656 0 Q40"

definition Q42 :: Engine where
  "Q42 = afterFrame R1 672 0 Q41"

definition Q43 :: Engine where
  "Q43 = afterFrame R1 688 0 Q42"

definition Q44 :: Engine where
  "Q44 = afterFrame R1 704 0 Q43"

definition Q45 :: Engine where
  "Q45 = afterFrame R1 720 0 Q44"

definition Q46 :: Engine where
  "Q46 = afterFrame R1 736 0 Q45"

definition Q46j :: Engine where
  "Q46j = handleInput R1 KeyDown Q46"

definition Q47 :: Engine where
  "Q47 = afterFrame R1 752 0 Q46j"

definition Q48 :: Engine where
  "Q48 = afterFrame R1 768 0 Q47"

definition Q49 :: Engine where
  "Q49 = afterFrame R1 784 0 Q48"

definition Q50 :: Engine where
  "Q50 = afterFrame R1 800 0 Q49"

definition Q51 :: Engine where
  "Q51 = afterFrame R1 816 0 Q50"

definition Q52 :: Engine where
  "Q52 = afterFrame R1 832 0 Q51"

definition Q53 :: Engine where
  "Q53 = afterFrame R1 848 0 Q52"

definition Q54 :: Engine where
  "Q54 = afterFrame R1 864 0 Q53"

definition Q55 :: Engine where
  "Q55 = afterFrame R1 880 0 Q54"

definition Q56 :: Engine where
  "Q56 = afterFrame R1 896 0 Q55"

definition Q57 :: Engine where
  "Q57 = afterFrame R1 912 0 Q56"

definition Q58 :: Engine where
  "Q58 = afterFrame R1 928 0 Q57"

definition Q59 :: Engine where
  "Q59 = afterFrame R1 944 0 Q58"

definition Q60 :: Engine where
  "Q60 = afterFrame R1 960 0 Q59"

definition Q61 :: Engine where
  "Q61 = afterFrame R1 976 0 Q60"

definition Q62 :: Engine where
  "Q62 = afterFrame R1 992 0 Q61"

definition Q63 :: Engine where
  "Q63 = afterFrame R1 1008 0 Q62"

definition Q64 :: Engine where
  "Q64 = afterFrame R1 1024 0 Q63"

definition Q65 :: Engine where
  "Q65 = afterFrame R1 1040 0 Q64"

definition Q66 :: Engine where
  "Q66 = afterFrame R1 1056 0 Q65"

definition Q67 :: Engine where
  "Q67 = afterFrame R1 1072 0 Q66"

definition Q68 :: Engine where
  "Q68 = afterFrame R1 1088 0 Q67"

definition Q69 :: Engine where
  "Q69 = afterFrame R1 1104 0 Q68"

definition Q70 :: Engine where
  "Q70 = afterFrame R1 1120 0 Q69"

definition Q71 :: Engine where
  "Q71 = afterFrame R1 1136 0 Q70"

definition Q72 :: Engine where
  "Q72 = afterFrame R1 1152 0 Q71"

definition Q73 :: Engine where
  "Q73 = afterFrame R1 1168 0 Q72"

definition Q74 :: Engine where
  "Q74 = afterFrame R1 1184 0 Q73"

definition Q75 :: Engine where
  "Q75 = afterFrame R1 1200 0 Q74"

definition Q76 :: Engine where
  "Q76 = afterFrame R1 1216 0 Q75"

definition Q77 :: Engine where
  "Q77 = afterFrame R1 1232 0 Q76"

definition Q78 :: Engine where
  "Q78 = afterFrame R1 1248 0 Q77"

definition Q79 :: Engine where
  "Q79 = afterFrame R1 1264 0 Q78"

definition Q80 :: Engine where
  "Q80 = afterFrame R1 1280 0 Q79"

definition Q81 :: Engine where
  "Q81 = afterFrame R1 1296 0 Q80"

definition Q82 :: Engine where
  "Q82 = afterFrame R1 1312 0 Q81"

definition Q83 :: Engine where
  "Q83 = afterFrame R1 1328 0 Q82"

definition Q84 :: Engine where
  "Q84 = afterFrame R1 1344 0 Q83"

definition Q85 :: Engine where
  "Q85 = afterFrame R1 1360 0 Q84"

definition Q86 :: Engine where
  "Q86 = afterFrame R1 1376 0 Q85"

definition Q87 :: Engine where
  "Q87 = afterFrame R1 1392 0 Q86"

definition Q88 :: Engine where
  "Q88 = afterFrame R1 1408 0 Q87"

definition Q89 :: Engine where
  "Q89 = afterFrame R1 1424 0 Q88"

definition Q90 :: Engine where
  "Q90 = afterFrame R1 1440 0 Q89"

definition Q91 :: Engine where
  "Q91 = afterFrame R1 1456 0 Q90"

definition Q92 :: Engine where
  "Q92 = afterFrame R1 1472 0 Q91"

definition Q92j :: Engine where
  "Q92j = handleInput R1 KeyDown Q92"

definition Q93 :: Engine where
  "Q93 = afterFrame R1 1488 0 Q92j"

definition Q94 :: Engine where
  "Q94 = afterFrame R1 1504 0 Q93"

definition Q95 :: Engine where
  "Q95 = afterFrame R1 1520 0 Q94"

definition Q96 :: Engine where
  "Q96 = afterFrame R1 1536 0 Q95"

definition Q97 :: Engine where
  "Q97 = afterFrame R1 1552 0 Q96"

definition Q98 :: Engine where
  "Q98 = afterFrame R1 1568 0 Q97"

definition Q99 :: Engine where
  "Q99 = afterFrame R1 1584 0 Q98"

definition Q100 :: Engine where
  "Q100 = afterFrame R1 1600 0 Q99"

definition Q101 :: Engine where
  "Q101 = afterFrame R1 1616 0 Q100"

definition Q102 :: Engine where
  "Q102 = afterFrame R1 1632 0 Q101"

definition Q103 :: Engine where
  "Q103 = afterFrame R1 1648 0 Q102"

definition Q104 :: Engine where
  "Q104 = afterFrame R1 1664 0 Q103"

definition Q105 :: Engine where
  "Q105 = afterFrame R1 1680 0 Q104"

definition Q106 :: Engine where
  "Q106 = afterFrame R1 1696 0 Q105"

definition Q107 :: Engine where
  "Q107 = afterFrame R1 1712 0 Q106"

definition Q108 :: Engine where
  "Q108 = afterFrame R1 1728 0 Q107"

definition Q109 :: Engine where
  "Q109 = afterFrame R1 1744 0 Q108"

definition Q110 :: Engine where
  "Q110 = afterFrame R1 1760 0 Q109"

definition Q111 :: Engine where
  "Q111 = afterFrame R1 1776 0 Q110"

definition Q112 :: Engine where
  "Q112 = afterFrame R1 1792 0 Q111"

definition Q113 :: Engine where
  "Q113 = afterFrame R1 1808 0 Q112"

definition Q114 :: Engine where
  "Q114 = afterFrame R1 1824 0 Q113"

definition Q115 :: Engine where
  "Q115 = afterFrame R1 1840 0 Q114"

definition Q116 :: Engine where
  "Q116 = afterFrame R1 1856 0 Q115"

definition Q117 :: Engine where
  "Q117 = afterFrame R1 1872 0 Q116"

definition Q118 :: Engine where
  "Q118 = afterFrame R1 1888 0 Q117"

definition Q119 :: Engine where
  "Q119 = afterFrame R1 1904 0 Q118"

definition Q120 :: Engine where
  "Q120 = afterFrame R1 1920 0 Q119"

definition Q121 :: Engine where
  "Q121 = afterFrame R1 1936 0 Q120"

definition Q122 :: Engine where
  "Q122 = afterFrame R1 1952 0 Q121"

definition Q123 :: Engine where
  "Q123 = afterFrame R1 1968 0 Q122"

definition Q124 :: Engine where
  "Q124 = afterFrame R1 1984 0 Q123"

definition Q125 :: Engine where
  "Q125 = afterFrame R1 2000 0 Q124"

definition Q126 :: Engine where
  "Q126 = afterFrame R1 2016 0 Q125"

definition Q127 :: Engine where
  "Q127 = afterFrame R1 2032 0 Q126"

definition Q128 :: Engine where
  "Q128 = afterFrame R1 2048 0 Q127"

definition Q129 :: Engine where
  "Q129 = afterFrame R1 2064 0 Q128"

definition Q130 :: Engine where
  "Q130 = afterFrame R1 2080 0 Q129"

definition Q131 :: Engine where
  "Q131 = afterFrame R1 2096 0 Q130"

definition Q132 :: Engine where
  "Q132 = afterFrame R1 2112 0 Q131"

definition Q133 :: Engine where
  "Q133 = afterFrame R1 2128 0 Q132"

definition Q134 :: Engine where
  "Q134 = afterFrame R1 2144 0 Q133"

definition Q135 :: Engine where
  "Q135 = afterFrame R1 2160 0 Q134"

definition Q136 :: Engine where
  "Q136 = afterFrame R1 2176 0 Q135"

definition Q137 :: Engine where
  "Q137 = afterFrame R1 2192 0 Q136"

definition Q138 :: Engine where
  "Q138 = afterFrame R1 2208 0 Q137"



text \<open>
  The operations of the played game, from the construction of the engine: start, jump, and
  frames 16 ms apart, with a jump after each of the landings of frames 46 and 92.
\<close>

definition frames :: "nat \<Rightarrow> nat \<Rightarrow> Op list" where
  "frames a b = map (\<lambda>n. Frame (16 * real n) 0) [a..<b]"

definition played :: "Op list" where
  "played = StartGame # Input KeyDown # frames 1 47 @
            Input KeyDown # frames 47 93 @ Input KeyDown # frames 93 139"
section \<open>Basic facts\<close>

lemmas config =
  GRAVITY_def JUMP_FORCE_def DOUBLE_JUMP_FORCE_def MOVE_SPEED_INITIAL_def
  PLATFORM_SPACING_def PLATFORM_WIDTH_MIN_def PLATFORM_WIDTH_MAX_def PLATFORM_HEIGHT_def
  PLAYER_SIZE_def PERFECT_TOLERANCE_def FEVER_THRESHOLD_def FEVER_MULTIPLIER_def

lemma createParticles_fields_aux:
  "player (createParticles R x y n c e) = player e \<and>
   platforms (createParticles R x y n c e) = platforms e \<and>
   store (createParticles R x y n c e) = store e \<and>
   floatingTexts (createParticles R x y n c e) = floatingTexts e \<and>
   state (createParticles R x y n c e) = state e \<and>
   score (createParticles R x y n c e) = score e \<and>
   gameSpeed (createParticles R x y n c e) = gameSpeed e \<and>
   shakeTimer (createParticles R x y n c e) = shakeTimer e \<and>
   perfectStreak (createParticles R x y n c e) = perfectStreak e \<and>
   isFever (createParticles R x y n c e) = isFever e \<and>
   viewportWidth (createParticles R x y n c e) = viewportWidth e \<and>
   viewportHeight (createParticles R x y n c e) = viewportHeight e \<and>
   lastTime (createParticles R x y n c e) = lastTime e \<and>
   notifications (createParticles R x y n c e) = notifications e \<and>
   sounds (createParticles R x y n c e) = sounds e \<and>
   rix (createParticles R x y n c e) = rix e + 3 * n"
  by (induction n arbitrary: e) simp_all

lemma createParticles_fields [simp]:
  "player (createParticles R x y n c e) = player e"
  "platforms (createParticles R x y n c e) = platforms e"
  "store (createParticles R x y n c e) = store e"
  "floatingTexts (createParticles R x y n c e) = floatingTexts e"
  "state (createParticles R x y n c e) = state e"
  "score (createParticles R x y n c e) = score e"
  "gameSpeed (createParticles R x y n c e) = gameSpeed e"
  "shakeTimer (createParticles R x y n c e) = shakeTimer e"
  "perfectStreak (createParticles R x y n c e) = perfectStreak e"
  "isFever (createParticles R x y n c e) = isFever e"
  "viewportWidth (createParticles R x y n c e) = viewportWidth e"
  "viewportHeight (createParticles R x y n c e) = viewportHeight e"
  "lastTime (createParticles R x y n c e) = lastTime e"
  "notifications (createParticles R x y n c e) = notifications e"
  "sounds (createParticles R x y n c e) = sounds e"
  "rix (createParticles R x y n c e) = rix e + 3 * n"
  using createParticles_fields_aux[of R x y n c e] by simp_all

subsection \<open>Updating the objects of the array in the store\<close>

lemma fold_update_length [simp]:
  "length (fold (\<lambda>r st. st[r := f (st ! r)]) rs st) = length st"
  by (induction rs arbitrary: st) simp_all

lemma fold_update_nth:
  "distinct rs \<Longrightarrow> \<forall>r \<in> set rs. r < length st \<Longrightarrow>
   fold (\<lambda>r st. st[r := f (st ! r)]) rs st ! k = (if k \<in> set rs then f (st ! k) else st ! k)"
proof (induction rs arbitrary: st)
  case Nil
  show ?case by simp
next
  case (Cons r rs)
  have "fold (\<lambda>r st. st[r := f (st ! r)]) rs (st[r := f (st ! r)]) ! k =
        (if k \<in> set rs then f (st[r := f (st ! r)] ! k) else st[r := f (st ! r)] ! k)"
    using Cons.prems by (intro Cons.IH) simp_all
  then show ?case using Cons.prems by (auto simp: nth_list_update)
qed

lemma movePlatform_eq:
  "movePlatform sm r e =
     e\<lparr> store := (store e)[r := advance sm (viewportWidth e) (store e ! r)],
        player := carry sm [r] (store e) (player e) \<rparr>"
  by (simp add: movePlatform_def advance_def carry_def Let_def split: option.splits)

lemma fold_movePlatform:
  "distinct rs \<Longrightarrow> \<forall>r \<in> set rs. r < length (store e) \<Longrightarrow>
   fold (movePlatform sm) rs e =
     e\<lparr> store := fold (\<lambda>r st. st[r := advance sm (viewportWidth e) (st ! r)]) rs (store e),
        player := carry sm rs (store e) (player e) \<rparr>"
proof (induction rs arbitrary: e)
  case Nil
  show ?case by (simp add: carry_def split: option.splits)
next
  case (Cons r rs)
  let ?e1 = "movePlatform sm r e"
  have st1: "store ?e1 = (store e)[r := advance sm (viewportWidth e) (store e ! r)]"
    and pl1: "player ?e1 = carry sm [r] (store e) (player e)"
    and vw1: "viewportWidth ?e1 = viewportWidth e"
    by (simp_all add: movePlatform_eq)
  have IH: "fold (movePlatform sm) rs ?e1 =
     ?e1\<lparr> store := fold (\<lambda>r st. st[r := advance sm (viewportWidth ?e1) (st ! r)]) rs (store ?e1),
          player := carry sm rs (store ?e1) (player ?e1) \<rparr>"
    using Cons.prems by (intro Cons.IH) (simp_all add: st1)
  have cur: "currentPlatform (carry sm [r] (store e) (player e)) = currentPlatform (player e)"
    by (simp add: carry_def split: option.splits)
  have pl: "carry sm rs (store ?e1) (player ?e1) = carry sm (r # rs) (store e) (player e)"
    using Cons.prems
    by (auto simp: pl1 st1 carry_def nth_list_update split: option.splits)
  show ?case
    unfolding fold_simps IH pl by (simp add: movePlatform_eq)
qed


subsection \<open>The phases of a tick\<close>

lemma Player_juice_fields [simp]:
  "ply_x (Player_juice now pl) = ply_x pl"
  "ply_y (Player_juice now pl) = ply_y pl"
  "ply_vx (Player_juice now pl) = ply_vx pl"
  "ply_vy (Player_juice now pl) = ply_vy pl"
  "ply_width (Player_juice now pl) = ply_width pl"
  "ply_height (Player_juice now pl) = ply_height pl"
  "ply_color (Player_juice now pl) = ply_color pl"
  "jumps (Player_juice now pl) = jumps pl"
  "currentPlatform (Player_juice now pl) = currentPlatform pl"
  by (simp_all add: Player_juice_def Let_def)

lemma Player_physics_fields [simp]:
  "ply_x (Player_physics st pl) = ply_x pl"
  "ply_vx (Player_physics st pl) = ply_vx pl"
  "ply_width (Player_physics st pl) = ply_width pl"
  "ply_height (Player_physics st pl) = ply_height pl"
  "ply_color (Player_physics st pl) = ply_color pl"
  "jumps (Player_physics st pl) = jumps pl"
  by (simp_all add: Player_physics_def Let_def split: option.splits)

lemma Player_physics_attached:
  "currentPlatform (Player_physics st pl) = Some r \<Longrightarrow>
     currentPlatform pl = Some r \<and> ply_vy (Player_physics st pl) = 0 \<and>
     ply_y (Player_physics st pl) = plat_y (st ! r) - ply_height pl / 2"
  by (auto simp: Player_physics_def Let_def split: option.splits if_splits)

lemma carry_fields [simp]:
  "ply_y (carry sm rs st pl) = ply_y pl"
  "ply_vx (carry sm rs st pl) = ply_vx pl"
  "ply_vy (carry sm rs st pl) = ply_vy pl"
  "ply_width (carry sm rs st pl) = ply_width pl"
  "ply_height (carry sm rs st pl) = ply_height pl"
  "ply_color (carry sm rs st pl) = ply_color pl"
  "jumps (carry sm rs st pl) = jumps pl"
  "currentPlatform (carry sm rs st pl) = currentPlatform pl"
  by (simp_all add: carry_def split: option.splits)

lemma advance_fields [simp]:
  "plat_y (advance sm vw p) = plat_y p"
  "plat_width (advance sm vw p) = plat_width p"
  "plat_height (advance sm vw p) = plat_height p"
  "plat_color (advance sm vw p) = plat_color p"
  "passed (advance sm vw p) = passed p"
  "landedOn (advance sm vw p) = landedOn p"
  by (simp_all add: advance_def Let_def)

lemma update_platforms_eq:
  "refs_ok e \<Longrightarrow>
   update_platforms e =
     e\<lparr> store := fold (\<lambda>r st. st[r := advance (speedMultiplier e) (viewportWidth e) (st ! r)])
                    (platforms e) (store e),
        player := carry (speedMultiplier e) (platforms e) (store e) (player e) \<rparr>"
  unfolding update_platforms_def refs_ok_def by (rule fold_movePlatform) simp_all

lemma update_move_eq:
  "refs_ok e \<Longrightarrow>
   update_move now e =
     e\<lparr> store := fold (\<lambda>r st. st[r := advance (speedMultiplier e) (viewportWidth e) (st ! r)])
                    (platforms e) (store e),
        player := Player_update now
          (fold (\<lambda>r st. st[r := advance (speedMultiplier e) (viewportWidth e) (st ! r)])
                    (platforms e) (store e))
          (carry (speedMultiplier e) (platforms e) (store e) (player e)) \<rparr>"
  by (simp add: update_move_def update_platforms_eq Let_def)

lemma update_move_fields [simp]:
  assumes "refs_ok e"
  shows "platforms (update_move now e) = platforms e"
    and "particles (update_move now e) = particles e"
    and "floatingTexts (update_move now e) = floatingTexts e"
    and "state (update_move now e) = state e"
    and "score (update_move now e) = score e"
    and "gameSpeed (update_move now e) = gameSpeed e"
    and "shakeTimer (update_move now e) = shakeTimer e"
    and "perfectStreak (update_move now e) = perfectStreak e"
    and "isFever (update_move now e) = isFever e"
    and "viewportWidth (update_move now e) = viewportWidth e"
    and "viewportHeight (update_move now e) = viewportHeight e"
    and "lastTime (update_move now e) = lastTime e"
    and "rix (update_move now e) = rix e"
    and "notifications (update_move now e) = notifications e"
    and "sounds (update_move now e) = sounds e"
    and "length (store (update_move now e)) = length (store e)"
  using assms by (simp_all add: update_move_eq)

lemma update_move_store:
  assumes "refs_ok e"
  shows "store (update_move now e) ! k =
           (if k \<in> set (platforms e)
            then advance (speedMultiplier e) (viewportWidth e) (store e ! k)
            else store e ! k)"
  using assms by (simp add: update_move_eq refs_ok_def fold_update_nth)

lemma update_move_player:
  assumes "refs_ok e"
  shows "ply_x (player (update_move now e)) =
           ply_x (carry (speedMultiplier e) (platforms e) (store e) (player e))"
    and "ply_width (player (update_move now e)) = ply_width (player e)"
    and "ply_height (player (update_move now e)) = ply_height (player e)"
    and "ply_color (player (update_move now e)) = ply_color (player e)"
    and "jumps (player (update_move now e)) = jumps (player e)"
  using assms by (simp_all add: update_move_eq Player_update_def)

lemma update_move_player_eq:
  assumes "refs_ok e"
  shows "player (update_move now e) =
           Player_juice now (Player_physics (store (update_move now e))
             (carry (speedMultiplier e) (platforms e) (store e) (player e)))"
  using assms by (simp add: update_move_eq Player_update_def)

lemma update_move_attached:
  assumes "refs_ok e" "currentPlatform (player (update_move now e)) = Some r"
  shows "currentPlatform (player e) = Some r"
    and "ply_vy (player (update_move now e)) = 0"
    and "ply_y (player (update_move now e)) =
           plat_y (store (update_move now e) ! r) - ply_height (player e) / 2"
proof -
  let ?pl = "carry (speedMultiplier e) (platforms e) (store e) (player e)"
  let ?st = "store (update_move now e)"
  have "currentPlatform (Player_physics ?st ?pl) = Some r"
    using assms by (simp add: update_move_player_eq)
  from Player_physics_attached[OF this]
  show "currentPlatform (player e) = Some r"
    and "ply_vy (player (update_move now e)) = 0"
    and "ply_y (player (update_move now e)) =
           plat_y (store (update_move now e) ! r) - ply_height (player e) / 2"
    using assms(1) by (simp_all add: update_move_player_eq)
qed

lemma update_move_pinned:
  assumes "refs_ok e"
  shows "pinned (update_move now e)"
  unfolding pinned_def
  using update_move_attached[OF assms] update_move_player(3)[OF assms] by simp

lemma update_move_wf:
  assumes "wf e"
  shows "wf (update_move now e)"
proof -
  have r: "refs_ok e" using assms by (simp add: wf_def)
  have "refs_ok (update_move now e)"
    using r unfolding refs_ok_def by (simp add: r)
  moreover have "\<forall>r. currentPlatform (player (update_move now e)) = Some r \<longrightarrow> r \<in> set (platforms e)"
    using update_move_attached[OF r] assms by (auto simp: wf_def)
  ultimately show ?thesis
    using assms r by (simp add: wf_def update_move_player)
qed


lemma spawnPlatform_eq:
  "spawnPlatform R y e =
     e\<lparr> store := store e @ [spawned R (rix e) (viewportWidth e) y],
        platforms := platforms e @ [length (store e)],
        rix := rix e + 5 \<rparr>"
  by (simp add: spawnPlatform_def spawned_def Let_def)

lemma spawned_fields [simp]:
  "plat_y (spawned R k vw y) = y"
  "plat_height (spawned R k vw y) = PLATFORM_HEIGHT"
  "landedOn (spawned R k vw y) = False"
  "passed (spawned R k vw y) = False"
  "plat_width (spawned R k vw y) =
     PLATFORM_WIDTH_MIN + R k * (PLATFORM_WIDTH_MAX - PLATFORM_WIDTH_MIN)"
  "plat_vx (spawned R k vw y) = (if R (k + 3) > 0.5 then 1 else - 1) * (2 + R (k + 4) * 3)"
  by (simp_all add: spawned_def new_Platform_def Let_def)

lemma fold_shiftDown_length [simp]: "length (fold (shiftDown d) rs st) = length st"
  by (induction rs arbitrary: st) (simp_all add: shiftDown_def)

lemma fold_shiftDown_nth:
  "distinct rs \<Longrightarrow> \<forall>r \<in> set rs. r < length st \<Longrightarrow>
   fold (shiftDown d) rs st ! k =
     (if k \<in> set rs then (st ! k)\<lparr> plat_y := plat_y (st ! k) + d \<rparr> else st ! k)"
proof -
  have "shiftDown d = (\<lambda>r st. st[r := (\<lambda>p. p\<lparr> plat_y := plat_y p + d \<rparr>) (st ! r)])"
    by (intro ext) (simp add: shiftDown_def)
  then show "distinct rs \<Longrightarrow> \<forall>r \<in> set rs. r < length st \<Longrightarrow> ?thesis"
    using fold_update_nth[of rs st "\<lambda>p. p\<lparr> plat_y := plat_y p + d \<rparr>" k] by simp
qed

lemma scrolled_fields [simp]:
  "platforms (scrolled e) = platforms e"
  "particles (scrolled e) = particles e"
  "floatingTexts (scrolled e) = floatingTexts e"
  "state (scrolled e) = state e"
  "score (scrolled e) = score e"
  "gameSpeed (scrolled e) = gameSpeed e"
  "shakeTimer (scrolled e) = shakeTimer e"
  "perfectStreak (scrolled e) = perfectStreak e"
  "isFever (scrolled e) = isFever e"
  "viewportWidth (scrolled e) = viewportWidth e"
  "viewportHeight (scrolled e) = viewportHeight e"
  "lastTime (scrolled e) = lastTime e"
  "rix (scrolled e) = rix e"
  "notifications (scrolled e) = notifications e"
  "sounds (scrolled e) = sounds e"
  "length (store (scrolled e)) = length (store e)"
  "player (scrolled e) = (player e)\<lparr> ply_y := viewportHeight e * 0.6 \<rparr>"
  by (simp_all add: scrolled_def)

lemma scrolled_store:
  "refs_ok e \<Longrightarrow>
   store (scrolled e) ! k =
     (if k \<in> set (platforms e)
      then (store e ! k)\<lparr> plat_y := plat_y (store e ! k) + scrollDiff e \<rparr>
      else store e ! k)"
  by (simp add: scrolled_def refs_ok_def fold_shiftDown_nth)

lemma update_scroll_unfold:
  "update_scroll R e =
     (if scrolls e then
        (case platforms e of
           [] \<Rightarrow> Inl TypeError
         | r0 # rest \<Rightarrow>
             if plat_y (store (scrolled e) ! r0) > viewportHeight e + 100 then
               (case rest of
                  [] \<Rightarrow> Inl TypeError
                | _ # _ \<Rightarrow>
                    Inr (spawnPlatform R
                           (plat_y (store (scrolled e) ! last rest) - PLATFORM_SPACING)
                           ((scrolled e)\<lparr> platforms := rest \<rparr>)))
             else Inr (scrolled e))
      else Inr e)"
  unfolding update_scroll_def scrolls_def scrolled_def scrollDiff_def Let_def
  by (simp split: list.splits)

lemma update_scroll_eq:
  assumes "refs_ok e" "2 \<le> length (platforms e)"
  shows "update_scroll R e = Inr (afterScroll R e)"
proof -
  obtain r0 r1 rest where ps: "platforms e = r0 # r1 # rest"
    using assms(2) by (cases "platforms e"; cases "tl (platforms e)") auto
  have y0: "plat_y (store (scrolled e) ! r0) = plat_y (store e ! r0) + scrollDiff e"
    using assms(1) ps by (simp add: scrolled_store)
  show ?thesis
    unfolding update_scroll_unfold afterScroll_def by (simp add: ps y0 recycles_def)
qed

lemma recycles_not_resting:
  assumes "wf e" "pinned e" "recycles e"
  shows "currentPlatform (player e) \<noteq> Some (hd (platforms e))"
proof
  assume c: "currentPlatform (player e) = Some (hd (platforms e))"
  then have "ply_y (player e) = plat_y (store e ! hd (platforms e)) - ply_height (player e) / 2"
    using assms(2) by (simp add: pinned_def)
  moreover have "ply_height (player e) = 40" "0 \<le> viewportHeight e"
    using assms(1) by (simp_all add: wf_def config)
  ultimately show False
    using assms(3) by (simp add: recycles_def scrollDiff_def)
qed

lemma afterScroll_fields:
  "particles (afterScroll R e) = particles e"
  "floatingTexts (afterScroll R e) = floatingTexts e"
  "state (afterScroll R e) = state e"
  "score (afterScroll R e) = score e"
  "gameSpeed (afterScroll R e) = gameSpeed e"
  "shakeTimer (afterScroll R e) = shakeTimer e"
  "perfectStreak (afterScroll R e) = perfectStreak e"
  "isFever (afterScroll R e) = isFever e"
  "viewportWidth (afterScroll R e) = viewportWidth e"
  "viewportHeight (afterScroll R e) = viewportHeight e"
  "lastTime (afterScroll R e) = lastTime e"
  "notifications (afterScroll R e) = notifications e"
  "sounds (afterScroll R e) = sounds e"
  "player (afterScroll R e) =
     (if scrolls e then (player e)\<lparr> ply_y := viewportHeight e * 0.6 \<rparr> else player e)"
  "platforms (afterScroll R e) =
     (if recycles e then tl (platforms e) @ [length (store e)] else platforms e)"
  "length (store (afterScroll R e)) = length (store e) + (if recycles e then 1 else 0)"
  by (simp_all add: afterScroll_def spawnPlatform_eq recycles_def)

lemma afterScroll_store:
  assumes "refs_ok e" "k < length (store e)"
  shows "store (afterScroll R e) ! k =
           (if scrolls e \<and> k \<in> set (platforms e)
            then (store e ! k)\<lparr> plat_y := plat_y (store e ! k) + scrollDiff e \<rparr>
            else store e ! k)"
  using assms
  by (simp add: afterScroll_def spawnPlatform_eq scrolled_store nth_append)

lemma afterScroll_new:
  assumes "refs_ok e" "recycles e" "platforms e \<noteq> []"
  shows "plat_y (store (afterScroll R e) ! length (store e)) =
           plat_y (store (afterScroll R e) ! last (platforms e)) - PLATFORM_SPACING"
    and "store (afterScroll R e) ! length (store e) =
           spawned R (rix e) (viewportWidth e)
             (plat_y (store e ! last (platforms e)) + scrollDiff e - PLATFORM_SPACING)"
proof -
  have l: "last (platforms e) \<in> set (platforms e)" using assms(3) by simp
  then have "last (platforms e) < length (store e)"
    using assms(1) by (simp add: refs_ok_def)
  then show "plat_y (store (afterScroll R e) ! length (store e)) =
           plat_y (store (afterScroll R e) ! last (platforms e)) - PLATFORM_SPACING"
    and "store (afterScroll R e) ! length (store e) =
           spawned R (rix e) (viewportWidth e)
             (plat_y (store e ! last (platforms e)) + scrollDiff e - PLATFORM_SPACING)"
    using assms l
    by (simp_all add: afterScroll_def recycles_def spawnPlatform_eq nth_append scrolled_store)
qed

lemma afterScroll_inv:
  assumes "wf e" "pinned e" "state e \<noteq> Start"
  shows "wf (afterScroll R e)" "pinned (afterScroll R e)"
proof -
  have r: "refs_ok e" and len: "length (platforms e) = 6"
    using assms by (simp_all add: wf_def)
  obtain r0 rest where ps: "platforms e = r0 # rest"
    using len by (cases "platforms e") auto
  have wf_sc: "wf (scrolled e)"
    using assms(1) by (simp add: wf_def refs_ok_def)
  have pin_sc: "pinned (scrolled e)" if "scrolls e"
    using assms(1,2) r by (auto simp: pinned_def wf_def scrolled_store scrollDiff_def)
  let ?e' = "spawnPlatform R
                (plat_y (store (scrolled e) ! last (platforms e)) - PLATFORM_SPACING)
                ((scrolled e)\<lparr> platforms := tl (platforms e) \<rparr>)"
  have nf: "currentPlatform (player e) \<noteq> Some r0" if "recycles e"
    using recycles_not_resting[OF assms(1,2) that] ps by simp
  have w': "wf ?e'" if "recycles e"
    using assms(1,3) ps nf[OF that]
    by (auto simp: wf_def refs_ok_def spawnPlatform_eq)
  have p': "pinned ?e'" if "recycles e"
    using pin_sc assms(1) ps that
    by (auto simp: pinned_def spawnPlatform_eq nth_append wf_def refs_ok_def recycles_def)
  show "wf (afterScroll R e)"
    using assms(1) wf_sc w' by (simp add: afterScroll_def)
  show "pinned (afterScroll R e)"
    using assms(2) pin_sc p' by (simp add: afterScroll_def)
qed


subsection \<open>Landing\<close>

lemma mark_landed_id: "landedOn p \<Longrightarrow> p\<lparr> landedOn := True \<rparr> = p"
  by (cases p) simp

lemma nth_update_field:
  assumes "\<And>p. g (f p) = g p"
  shows "g (xs[r := f (xs ! r)] ! k) = g (xs ! k)"
proof (cases "r < length xs")
  case True
  then show ?thesis by (cases "k = r") (simp_all add: assms)
next
  case False
  then have "xs[r := f (xs ! r)] = xs" by (intro list_update_beyond) simp
  then show ?thesis by simp
qed

lemma nth_mark_landed:
  "plat_x (xs[r := (xs ! r)\<lparr> landedOn := True \<rparr>] ! k) = plat_x (xs ! k)"
  "plat_y (xs[r := (xs ! r)\<lparr> landedOn := True \<rparr>] ! k) = plat_y (xs ! k)"
  "plat_width (xs[r := (xs ! r)\<lparr> landedOn := True \<rparr>] ! k) = plat_width (xs ! k)"
  "plat_color (xs[r := (xs ! r)\<lparr> landedOn := True \<rparr>] ! k) = plat_color (xs ! k)"
  "plat_vx (xs[r := (xs ! r)\<lparr> landedOn := True \<rparr>] ! k) = plat_vx (xs ! k)"
  using nth_update_field[of plat_x "\<lambda>p. p\<lparr> landedOn := True \<rparr>" xs r k]
        nth_update_field[of plat_y "\<lambda>p. p\<lparr> landedOn := True \<rparr>" xs r k]
        nth_update_field[of plat_width "\<lambda>p. p\<lparr> landedOn := True \<rparr>" xs r k]
        nth_update_field[of plat_color "\<lambda>p. p\<lparr> landedOn := True \<rparr>" xs r k]
        nth_update_field[of plat_vx "\<lambda>p. p\<lparr> landedOn := True \<rparr>" xs r k]
  by simp_all

lemma triggerPerfect_fields:
  "platforms (triggerPerfect R r e) = platforms e"
  "store (triggerPerfect R r e) = store e"
  "state (triggerPerfect R r e) = state e"
  "score (triggerPerfect R r e) = score e"
  "gameSpeed (triggerPerfect R r e) = gameSpeed e"
  "viewportWidth (triggerPerfect R r e) = viewportWidth e"
  "viewportHeight (triggerPerfect R r e) = viewportHeight e"
  "lastTime (triggerPerfect R r e) = lastTime e"
  "perfectStreak (triggerPerfect R r e) = perfectStreak e + 1"
  "isFever (triggerPerfect R r e) = (isFever e \<or> perfectStreak e + 1 \<ge> FEVER_THRESHOLD)"
  "notifications (triggerPerfect R r e) =
     notifications e @ ComboChange (perfectStreak e + 1) #
       (if perfectStreak e + 1 \<ge> FEVER_THRESHOLD then [FeverChange True] else [])"
  "player (triggerPerfect R r e) = (player e)\<lparr> ply_color := plat_color (store e ! r) \<rparr>"
  "sounds (triggerPerfect R r e) = sounds e @ [PlayPerfect]"
  by (simp_all add: triggerPerfect_def notify_def playSound_def Let_def)

lemma landed_fields:
  "platforms (landed R r e) = platforms e"
  "state (landed R r e) = state e"
  "gameSpeed (landed R r e) = gameSpeed e"
  "viewportWidth (landed R r e) = viewportWidth e"
  "viewportHeight (landed R r e) = viewportHeight e"
  "lastTime (landed R r e) = lastTime e"
  by (simp_all add: landed_def triggerPerfect_fields notify_def playSound_def Let_def)

lemma landed_store:
  "store (landed R r e) = (store e)[r := (store e ! r)\<lparr> landedOn := True \<rparr>]"
  by (simp add: landed_def triggerPerfect_fields notify_def playSound_def Let_def mark_landed_id)

lemma landed_score:
  "score (landed R r e) = score e + (if landedOn (store e ! r) then 0 else 1)"
  by (simp add: landed_def triggerPerfect_fields notify_def playSound_def Let_def)

lemma landed_perfectStreak:
  "perfectStreak (landed R r e) =
     (if landedOn (store e ! r) then perfectStreak e
      else if perfectHit e r then perfectStreak e + 1 else 0)"
  by (simp add: landed_def triggerPerfect_fields notify_def playSound_def Let_def
        perfectHit_def land_def)

lemma landed_isFever:
  "isFever (landed R r e) =
     (if landedOn (store e ! r) then isFever e
      else if perfectHit e r then (isFever e \<or> perfectStreak e + 1 \<ge> FEVER_THRESHOLD)
      else False)"
  by (simp add: landed_def triggerPerfect_fields notify_def playSound_def Let_def
        perfectHit_def land_def)

lemma landed_notifications:
  "notifications (landed R r e) = notifications e @ landingNotes e r"
  by (simp add: landed_def triggerPerfect_fields notify_def playSound_def Let_def
        perfectHit_def land_def landingNotes_def)

lemma landed_player:
  "player (landed R r e) =
     (land r (store e) (player e))
       \<lparr> ply_color := (if \<not> landedOn (store e ! r) \<and> perfectHit e r
                        then plat_color (store e ! r) else ply_color (player e)) \<rparr>"
  by (simp add: landed_def triggerPerfect_fields notify_def playSound_def Let_def
        perfectHit_def land_def nth_mark_landed)

lemma collide_eq:
  "collide R rs e = (case find (hits e) rs of None \<Rightarrow> e | Some r \<Rightarrow> landed R r e)"
  by (induction rs) simp_all

lemma update_collision_eq:
  "update_collision R e = (case landingPlatform e of None \<Rightarrow> e | Some r \<Rightarrow> landed R r e)"
  by (simp add: update_collision_def landingPlatform_def collide_eq)

lemma landingPlatform_Some:
  assumes "landingPlatform e = Some r"
  shows "r \<in> set (platforms e)" "hits e r" "ply_vy (player e) > 0"
        "currentPlatform (player e) = None"
  using assms
  by (auto simp: landingPlatform_def find_Some_iff split: if_splits)

lemma update_collision_fields:
  "platforms (update_collision R e) = platforms e"
  "state (update_collision R e) = state e"
  "gameSpeed (update_collision R e) = gameSpeed e"
  "viewportWidth (update_collision R e) = viewportWidth e"
  "viewportHeight (update_collision R e) = viewportHeight e"
  "lastTime (update_collision R e) = lastTime e"
  "length (store (update_collision R e)) = length (store e)"
  by (simp_all add: update_collision_eq landed_fields landed_store split: option.splits)

lemma update_collision_inv:
  assumes "wf e" "pinned e"
  shows "wf (update_collision R e) \<and> pinned (update_collision R e)"
proof (cases "landingPlatform e")
  case None
  then show ?thesis using assms by (simp add: update_collision_eq)
next
  case (Some r)
  have r: "r \<in> set (platforms e)" using landingPlatform_Some(1)[OF Some] .
  have eq: "update_collision R e = landed R r e" using Some by (simp add: update_collision_eq)
  have "wf (landed R r e)"
    using assms(1) r
    by (simp add: wf_def refs_ok_def landed_fields landed_store landed_player land_def)
  moreover have "pinned (landed R r e)"
    by (simp add: pinned_def landed_player landed_store land_def nth_mark_landed)
  ultimately show ?thesis using eq by simp
qed

subsection \<open>Fall-out test and cosmetics\<close>

lemma gameOver_fields:
  "player (gameOver R e) = player e"
  "platforms (gameOver R e) = platforms e"
  "store (gameOver R e) = store e"
  "floatingTexts (gameOver R e) = floatingTexts e"
  "state (gameOver R e) = GameOver"
  "score (gameOver R e) = score e"
  "gameSpeed (gameOver R e) = gameSpeed e"
  "shakeTimer (gameOver R e) = shakeTimer e"
  "perfectStreak (gameOver R e) = perfectStreak e"
  "isFever (gameOver R e) = isFever e"
  "viewportWidth (gameOver R e) = viewportWidth e"
  "viewportHeight (gameOver R e) = viewportHeight e"
  "lastTime (gameOver R e) = lastTime e"
  "notifications (gameOver R e) = notifications e @ [GameStateChange GameOver]"
  "sounds (gameOver R e) = sounds e @ [PlayShatter]"
  by (simp_all add: gameOver_def notify_def playSound_def Let_def)

lemma update_fall_fields:
  "player (update_fall R e) = player e"
  "platforms (update_fall R e) = platforms e"
  "store (update_fall R e) = store e"
  "floatingTexts (update_fall R e) = floatingTexts e"
  "state (update_fall R e) =
     (if ply_y (player e) > viewportHeight e + 100 then GameOver else state e)"
  "score (update_fall R e) = score e"
  "gameSpeed (update_fall R e) = gameSpeed e"
  "shakeTimer (update_fall R e) = shakeTimer e"
  "perfectStreak (update_fall R e) = perfectStreak e"
  "isFever (update_fall R e) = isFever e"
  "viewportWidth (update_fall R e) = viewportWidth e"
  "viewportHeight (update_fall R e) = viewportHeight e"
  "lastTime (update_fall R e) = lastTime e"
  "notifications (update_fall R e) =
     notifications e @
       (if ply_y (player e) > viewportHeight e + 100 then [GameStateChange GameOver] else [])"
  by (simp_all add: update_fall_def gameOver_fields)

lemma update_cosmetics_fields:
  "player (update_cosmetics e) = player e"
  "platforms (update_cosmetics e) = platforms e"
  "store (update_cosmetics e) = store e"
  "state (update_cosmetics e) = state e"
  "score (update_cosmetics e) = score e"
  "gameSpeed (update_cosmetics e) = gameSpeed e"
  "perfectStreak (update_cosmetics e) = perfectStreak e"
  "isFever (update_cosmetics e) = isFever e"
  "viewportWidth (update_cosmetics e) = viewportWidth e"
  "viewportHeight (update_cosmetics e) = viewportHeight e"
  "lastTime (update_cosmetics e) = lastTime e"
  "rix (update_cosmetics e) = rix e"
  "notifications (update_cosmetics e) = notifications e"
  "sounds (update_cosmetics e) = sounds e"
  by (simp_all add: update_cosmetics_def Let_def)

lemmas tail_fields = update_cosmetics_fields update_fall_fields

lemma update_tail_inv:
  assumes "wf e" "pinned e" "state e \<noteq> Start"
  shows "wf (update_cosmetics (update_fall R e)) \<and> pinned (update_cosmetics (update_fall R e))"
  using assms by (simp add: wf_def refs_ok_def pinned_def tail_fields)

subsection \<open>The tick as a whole\<close>

lemma preCollision_inv:
  assumes "wf e" "state e \<noteq> Start"
  shows "wf (preCollision R time now e)" "pinned (preCollision R time now e)"
    and "update_scroll R (update_move now (e\<lparr> lastTime := time \<rparr>)) =
           Inr (preCollision R time now e)"
proof -
  let ?e1 = "e\<lparr> lastTime := time \<rparr>"
  have w1: "wf ?e1" and s1: "state ?e1 \<noteq> Start"
    using assms by (simp_all add: wf_def refs_ok_def)
  have r1: "refs_ok ?e1" using w1 by (simp add: wf_def)
  have w2: "wf (update_move now ?e1)" using w1 by (rule update_move_wf)
  have p2: "pinned (update_move now ?e1)" using r1 by (rule update_move_pinned)
  have s2: "state (update_move now ?e1) \<noteq> Start" using s1 r1 by simp
  show "wf (preCollision R time now e)" "pinned (preCollision R time now e)"
    unfolding preCollision_def using afterScroll_inv[OF w2 p2 s2] by simp_all
  have "refs_ok (update_move now ?e1)" "2 \<le> length (platforms (update_move now ?e1))"
    using w2 s2 by (simp_all add: wf_def)
  then show "update_scroll R (update_move now ?e1) = Inr (preCollision R time now e)"
    unfolding preCollision_def by (rule update_scroll_eq)
qed

lemma loop_playing:
  assumes "wf e" "state e = Playing"
  shows "loop R time now e =
           Inr (update_cosmetics (update_fall R (update_collision R (preCollision R time now e))))"
  using preCollision_inv(3)[of e R now time] assms
  by (simp add: loop_def update_def Let_def)

lemma loop_idle:
  assumes "state e \<noteq> Playing"
  shows "loop R time now e = Inr (e\<lparr> lastTime := time \<rparr>)"
  using assms by (simp add: loop_def Let_def)

lemma preCollision_fields:
  assumes "wf e"
  shows "particles (preCollision R time now e) = particles e"
    and "floatingTexts (preCollision R time now e) = floatingTexts e"
    and "state (preCollision R time now e) = state e"
    and "score (preCollision R time now e) = score e"
    and "gameSpeed (preCollision R time now e) = gameSpeed e"
    and "shakeTimer (preCollision R time now e) = shakeTimer e"
    and "perfectStreak (preCollision R time now e) = perfectStreak e"
    and "isFever (preCollision R time now e) = isFever e"
    and "viewportWidth (preCollision R time now e) = viewportWidth e"
    and "viewportHeight (preCollision R time now e) = viewportHeight e"
    and "lastTime (preCollision R time now e) = time"
    and "notifications (preCollision R time now e) = notifications e"
    and "sounds (preCollision R time now e) = sounds e"
proof -
  have "refs_ok (e\<lparr> lastTime := time \<rparr>)" using assms by (simp add: wf_def refs_ok_def)
  then show "particles (preCollision R time now e) = particles e"
    and "floatingTexts (preCollision R time now e) = floatingTexts e"
    and "state (preCollision R time now e) = state e"
    and "score (preCollision R time now e) = score e"
    and "gameSpeed (preCollision R time now e) = gameSpeed e"
    and "shakeTimer (preCollision R time now e) = shakeTimer e"
    and "perfectStreak (preCollision R time now e) = perfectStreak e"
    and "isFever (preCollision R time now e) = isFever e"
    and "viewportWidth (preCollision R time now e) = viewportWidth e"
    and "viewportHeight (preCollision R time now e) = viewportHeight e"
    and "lastTime (preCollision R time now e) = time"
    and "notifications (preCollision R time now e) = notifications e"
    and "sounds (preCollision R time now e) = sounds e"
    by (simp_all add: preCollision_def afterScroll_fields)
qed

lemma loop_inv:
  assumes "wf e" "pinned e"
  shows "\<exists>e'. loop R time now e = Inr e' \<and> wf e' \<and> pinned e'"
proof (cases "state e = Playing")
  case True
  let ?e3 = "preCollision R time now e"
  have 3: "wf ?e3" "pinned ?e3"
    using preCollision_inv[of e R time now] assms True by simp_all
  then have 4: "wf (update_collision R ?e3) \<and> pinned (update_collision R ?e3)"
    by (intro update_collision_inv)
  moreover have "state (update_collision R ?e3) \<noteq> Start"
    using True assms by (simp add: update_collision_fields preCollision_fields)
  ultimately have "wf (update_cosmetics (update_fall R (update_collision R ?e3))) \<and>
                   pinned (update_cosmetics (update_fall R (update_collision R ?e3)))"
    by (intro update_tail_inv) simp_all
  then show ?thesis using loop_playing[OF assms(1) True] by simp
next
  case False
  then show ?thesis
    using assms by (simp add: loop_idle wf_def refs_ok_def pinned_def)
qed


subsection \<open>Reset, start and input\<close>

lemma upt_1_6: "[Suc 0..<6] = [1, 2, 3, 4, 5]"
  by code_simp

lemma resetGame_fields:
  "score (resetGame R e) = 0"
  "gameSpeed (resetGame R e) = MOVE_SPEED_INITIAL"
  "perfectStreak (resetGame R e) = 0"
  "isFever (resetGame R e) = False"
  "particles (resetGame R e) = []"
  "floatingTexts (resetGame R e) = []"
  "notifications (resetGame R e) =
     notifications e @ [ScoreUpdate 0, ComboChange 0, FeverChange False]"
  "player (resetGame R e) = startPlayer (viewportWidth e) (viewportHeight e) (length (store e))"
  "platforms (resetGame R e) = map (\<lambda>i. length (store e) + i) [0, 1, 2, 3, 4, 5]"
  "store (resetGame R e) =
     store e @
       basePlatform (viewportWidth e) (viewportHeight e) #
       map (\<lambda>i. spawned R (rix e + 5 * (i - 1)) (viewportWidth e)
                  (viewportHeight e * 0.8 + 40 - real i * PLATFORM_SPACING)) [1, 2, 3, 4, 5]"
  "rix (resetGame R e) = rix e + 25"
  "state (resetGame R e) = state e"
  "shakeTimer (resetGame R e) = shakeTimer e"
  "viewportWidth (resetGame R e) = viewportWidth e"
  "viewportHeight (resetGame R e) = viewportHeight e"
  "lastTime (resetGame R e) = lastTime e"
  "sounds (resetGame R e) = sounds e"
  by (simp_all add: resetGame_def notify_def Let_def upt_1_6 spawnPlatform_eq startPlayer_def
        basePlatform_def new_Player_def new_Platform_def PLAYER_SIZE_def add.commute)

lemma startGame_fields:
  "score (startGame R e) = 0"
  "gameSpeed (startGame R e) = MOVE_SPEED_INITIAL"
  "perfectStreak (startGame R e) = 0"
  "isFever (startGame R e) = False"
  "particles (startGame R e) = []"
  "floatingTexts (startGame R e) = []"
  "notifications (startGame R e) =
     notifications e @
       [ScoreUpdate 0, ComboChange 0, FeverChange False, GameStateChange Playing]"
  "player (startGame R e) = startPlayer (viewportWidth e) (viewportHeight e) (length (store e))"
  "platforms (startGame R e) = map (\<lambda>i. length (store e) + i) [0, 1, 2, 3, 4, 5]"
  "store (startGame R e) =
     store e @
       basePlatform (viewportWidth e) (viewportHeight e) #
       map (\<lambda>i. spawned R (rix e + 5 * (i - 1)) (viewportWidth e)
                  (viewportHeight e * 0.8 + 40 - real i * PLATFORM_SPACING)) [1, 2, 3, 4, 5]"
  "rix (startGame R e) = rix e + 25"
  "state (startGame R e) = Playing"
  "shakeTimer (startGame R e) = shakeTimer e"
  "viewportWidth (startGame R e) = viewportWidth e"
  "viewportHeight (startGame R e) = viewportHeight e"
  "lastTime (startGame R e) = lastTime e"
  "sounds (startGame R e) = sounds e @ [AudioInit]"
  by (simp_all add: startGame_def notify_def playSound_def resetGame_fields)

lemma startPlayer_fields [simp]:
  "ply_x (startPlayer vw vh b) = vw / 2"
  "ply_y (startPlayer vw vh b) = vh * 0.8 + 40 - PLAYER_SIZE / 2"
  "ply_vy (startPlayer vw vh b) = 0"
  "ply_width (startPlayer vw vh b) = PLAYER_SIZE"
  "ply_height (startPlayer vw vh b) = PLAYER_SIZE"
  "ply_color (startPlayer vw vh b) = NEON_CYAN"
  "jumps (startPlayer vw vh b) = 0"
  "currentPlatform (startPlayer vw vh b) = Some b"
  by (simp_all add: startPlayer_def new_Player_def)

lemma basePlatform_fields [simp]:
  "plat_x (basePlatform vw vh) = vw / 2 - 100"
  "plat_y (basePlatform vw vh) = vh * 0.8 + 40"
  "plat_width (basePlatform vw vh) = 200"
  "plat_vx (basePlatform vw vh) = 0"
  "landedOn (basePlatform vw vh) = False"
  "plat_color (basePlatform vw vh) = NEON_MAGENTA"
  by (simp_all add: basePlatform_def new_Platform_def)

lemma startGame_inv:
  assumes "0 \<le> viewportHeight e"
  shows "wf (startGame R e)" "pinned (startGame R e)"
  using assms
  by (simp_all add: wf_def refs_ok_def pinned_def startGame_fields nth_append)

lemma handleInput_fields:
  "platforms (handleInput R ev e) = platforms e"
  "store (handleInput R ev e) = store e"
  "floatingTexts (handleInput R ev e) = floatingTexts e"
  "state (handleInput R ev e) = state e"
  "score (handleInput R ev e) = score e"
  "gameSpeed (handleInput R ev e) = gameSpeed e"
  "shakeTimer (handleInput R ev e) = shakeTimer e"
  "perfectStreak (handleInput R ev e) = perfectStreak e"
  "isFever (handleInput R ev e) = isFever e"
  "viewportWidth (handleInput R ev e) = viewportWidth e"
  "viewportHeight (handleInput R ev e) = viewportHeight e"
  "lastTime (handleInput R ev e) = lastTime e"
  "notifications (handleInput R ev e) = notifications e"
  "player (handleInput R ev e) =
     (if state e = Playing \<and> jumps (player e) < 2
      then jump (if jumps (player e) = 0 then JUMP_FORCE else DOUBLE_JUMP_FORCE) (player e)
      else player e)"
  by (simp_all add: handleInput_def playSound_def Let_def)

lemma handleInput_inv:
  assumes "wf e" "pinned e"
  shows "wf (handleInput R ev e)" "pinned (handleInput R ev e)"
  using assms
  by (simp_all add: wf_def refs_ok_def pinned_def handleInput_fields jump_def)

lemma exec_inv:
  assumes "wf e" "pinned e" "valid_op op" "exec R op e = Inr e'"
  shows "wf e' \<and> pinned e'"
proof (cases op)
  case (Resize w h)
  then show ?thesis
    using assms by (auto simp: resize_def wf_def refs_ok_def pinned_def)
next
  case (StartLoop t)
  then show ?thesis
    using assms by (auto simp: startLoop_def wf_def refs_ok_def pinned_def)
next
  case StartGame
  then show ?thesis
    using assms startGame_inv[of e R] by (auto simp: wf_def)
next
  case (Input ev)
  then show ?thesis
    using assms handleInput_inv[of e R ev] by auto
next
  case (Frame time now)
  then show ?thesis
    using assms loop_inv[of e R time now] by auto
qed

lemma GameEngine_inv:
  assumes "0 \<le> h"
  shows "wf (GameEngine w h)" "pinned (GameEngine w h)"
  using assms
  by (simp_all add: GameEngine_def wf_def refs_ok_def pinned_def new_Player_def)

lemma reachable_inv:
  assumes "reachable R e"
  shows "wf e \<and> pinned e"
  using assms
proof (induction rule: reachable.induct)
  case (init w h)
  then show ?case by (simp add: GameEngine_inv)
next
  case (step e op e')
  then show ?case using exec_inv by blast
qed

lemma reachable_no_error:
  assumes "reachable R e"
  shows "\<exists>e'. exec R op e = Inr e'"
proof (cases op)
  case (Frame time now)
  then show ?thesis
    using reachable_inv[OF assms] loop_inv[of e R time now] by auto
qed simp_all


subsection \<open>The example engine\<close>

lemma G0_fields:
  "state G0 = Start" "jumps (player G0) = 0" "ply_vy (player G0) = 0" "store G0 = []"
  "viewportWidth G0 = 800" "viewportHeight G0 = 600" "notifications G0 = []"
  "score G0 = 0" "perfectStreak G0 = 0" "isFever G0 = False" "rix G0 = 0"
  by (simp_all add: G0_def GameEngine_def new_Player_def)

lemma reachable_G0: "reachable R G0"
  unfolding G0_def by (rule reachable.init) simp_all

lemma reachable_E0: "reachable R0 E0"
  unfolding E0_def by (rule reachable.step[OF reachable_G0, of StartGame]) simp_all

lemma spawned_R0:
  "spawned R0 k 800 y =
     \<lparr> plat_x = 335, plat_y = y, plat_width = 130, plat_height = 20,
       plat_color = NEON_LIME, plat_vx = - (7 / 2), passed = False, landedOn = False \<rparr>"
  by (simp add: spawned_def R0_def new_Platform_def Let_def config PLATFORM_COLORS_def)

lemma E0_fields:
  "state E0 = Playing"
  "score E0 = 0" "perfectStreak E0 = 0" "isFever E0 = False"
  "viewportWidth E0 = 800" "viewportHeight E0 = 600"
  "platforms E0 = [0, 1, 2, 3, 4, 5]"
  "store E0 =
     [\<lparr> plat_x = 300, plat_y = 520, plat_width = 200, plat_height = 20,
        plat_color = NEON_MAGENTA, plat_vx = 0, passed = False, landedOn = False \<rparr>,
      \<lparr> plat_x = 335, plat_y = 370, plat_width = 130, plat_height = 20,
        plat_color = NEON_LIME, plat_vx = - (7 / 2), passed = False, landedOn = False \<rparr>,
      \<lparr> plat_x = 335, plat_y = 220, plat_width = 130, plat_height = 20,
        plat_color = NEON_LIME, plat_vx = - (7 / 2), passed = False, landedOn = False \<rparr>,
      \<lparr> plat_x = 335, plat_y = 70, plat_width = 130, plat_height = 20,
        plat_color = NEON_LIME, plat_vx = - (7 / 2), passed = False, landedOn = False \<rparr>,
      \<lparr> plat_x = 335, plat_y = - 80, plat_width = 130, plat_height = 20,
        plat_color = NEON_LIME, plat_vx = - (7 / 2), passed = False, landedOn = False \<rparr>,
      \<lparr> plat_x = 335, plat_y = - 230, plat_width = 130, plat_height = 20,
        plat_color = NEON_LIME, plat_vx = - (7 / 2), passed = False, landedOn = False \<rparr>]"
  "notifications E0 =
     [ScoreUpdate 0, ComboChange 0, FeverChange False, GameStateChange Playing]"
  by (simp_all add: E0_def startGame_fields G0_fields spawned_R0 basePlatform_def
        new_Platform_def config)

lemma E0_player:
  "ply_x (player E0) = 400" "ply_y (player E0) = 500" "ply_vy (player E0) = 0"
  "ply_width (player E0) = 40" "ply_height (player E0) = 40"
  "jumps (player E0) = 0" "currentPlatform (player E0) = Some 0"
  "ply_color (player E0) = NEON_CYAN"
  by (simp_all add: E0_def startGame_fields G0_fields config)

section \<open>C7: the jump command\<close>

text \<open>
  C7, as the specification has it: a jump command is consumed exactly when the jump count is below 2.
  The engine looks at the phase first: before the first start (and after game over) an input
  event changes nothing, although the jump count is 0.
\<close>

theorem jump_ignored_outside_playing:
  "jumps (player G0) < 2 \<and>
   ply_vy (player (handleInput R0 KeyDown G0)) \<noteq> JUMP_FORCE \<and>
   jumps (player (handleInput R0 KeyDown G0)) = 0"
  by (simp add: handleInput_fields G0_fields config)

text \<open>
  C7, as the code has it: while the phase is Playing, a jump command is consumed exactly when the jump
  count is below 2: from count 0 it sets the vertical velocity to the first-jump force
  (-15) and the count to 1, from count 1 it sets the velocity to the double-jump force (-12)
  and the count to 2, and from count 2 on it leaves the whole state unchanged.  In the
  phases Start and GameOver it leaves the state unchanged whatever the count.
\<close>

theorem handleInput_jump:
  "(state e = Playing \<and> jumps (player e) = 0 \<longrightarrow>
      ply_vy (player (handleInput R ev e)) = JUMP_FORCE \<and>
      jumps (player (handleInput R ev e)) = 1) \<and>
   (state e = Playing \<and> jumps (player e) = 1 \<longrightarrow>
      ply_vy (player (handleInput R ev e)) = DOUBLE_JUMP_FORCE \<and>
      jumps (player (handleInput R ev e)) = 2) \<and>
   (state e \<noteq> Playing \<or> 2 \<le> jumps (player e) \<longrightarrow> handleInput R ev e = e) \<and>
   JUMP_FORCE = - 15 \<and> DOUBLE_JUMP_FORCE = - 12"
  by (cases "state e") (auto simp: handleInput_def jump_def playSound_def Let_def config)

theorem handleInput_jump_witness:
  "ply_vy (player (handleInput R0 KeyDown E0)) = - 15 \<and>
   jumps (player (handleInput R0 KeyDown E0)) = 1 \<and>
   ply_vy (player (handleInput R0 KeyDown (handleInput R0 KeyDown E0))) = - 12 \<and>
   jumps (player (handleInput R0 KeyDown (handleInput R0 KeyDown E0))) = 2 \<and>
   handleInput R0 KeyDown (handleInput R0 KeyDown (handleInput R0 KeyDown E0)) =
     handleInput R0 KeyDown (handleInput R0 KeyDown E0)"
proof -
  let ?e1 = "handleInput R0 KeyDown E0"
  let ?e2 = "handleInput R0 KeyDown ?e1"
  have s0: "state E0 = Playing \<and> jumps (player E0) = 0"
    by (simp add: E0_fields E0_player)
  have j1: "ply_vy (player ?e1) = JUMP_FORCE \<and> jumps (player ?e1) = 1"
    using handleInput_jump[of E0 R0 KeyDown] s0 by simp
  have s1: "state ?e1 = Playing \<and> jumps (player ?e1) = 1"
    using j1 by (simp add: handleInput_fields(4) E0_fields)
  have j2: "ply_vy (player ?e2) = DOUBLE_JUMP_FORCE \<and> jumps (player ?e2) = 2"
    using handleInput_jump[of ?e1 R0 KeyDown] s1 by simp
  have j3: "handleInput R0 KeyDown ?e2 = ?e2"
    using handleInput_jump[of ?e2 R0 KeyDown] j2 by simp
  show ?thesis using j1 j2 j3 by (simp add: config)
qed


lemma wf_E0: "wf E0"
  using reachable_inv[OF reachable_E0] by simp

lemma E0_move:
  "platforms (update_move 0 (E0\<lparr> lastTime := 16 \<rparr>)) = [0, 1, 2, 3, 4, 5]"
  "viewportHeight (update_move 0 (E0\<lparr> lastTime := 16 \<rparr>)) = 600"
  "currentPlatform (player (update_move 0 (E0\<lparr> lastTime := 16 \<rparr>))) = Some 0"
  "ply_x (player (update_move 0 (E0\<lparr> lastTime := 16 \<rparr>))) = 400"
  "ply_y (player (update_move 0 (E0\<lparr> lastTime := 16 \<rparr>))) = 500"
  "ply_vy (player (update_move 0 (E0\<lparr> lastTime := 16 \<rparr>))) = 0"
  "map plat_x (store (update_move 0 (E0\<lparr> lastTime := 16 \<rparr>))) =
     [300, 663 / 2, 663 / 2, 663 / 2, 663 / 2, 663 / 2]"
  "map plat_vx (store (update_move 0 (E0\<lparr> lastTime := 16 \<rparr>))) =
     [0, - (7 / 2), - (7 / 2), - (7 / 2), - (7 / 2), - (7 / 2)]"
  "map plat_y (store (update_move 0 (E0\<lparr> lastTime := 16 \<rparr>))) =
     [520, 370, 220, 70, - 80, - 230]"
proof -
  have r: "refs_ok (E0\<lparr> lastTime := 16 \<rparr>)"
    by (simp add: refs_ok_def E0_fields)
  have st: "store (update_move 0 (E0\<lparr> lastTime := 16 \<rparr>)) =
     [\<lparr> plat_x = 300, plat_y = 520, plat_width = 200, plat_height = 20,
        plat_color = NEON_MAGENTA, plat_vx = 0, passed = False, landedOn = False \<rparr>,
      \<lparr> plat_x = 663 / 2, plat_y = 370, plat_width = 130, plat_height = 20,
        plat_color = NEON_LIME, plat_vx = - (7 / 2), passed = False, landedOn = False \<rparr>,
      \<lparr> plat_x = 663 / 2, plat_y = 220, plat_width = 130, plat_height = 20,
        plat_color = NEON_LIME, plat_vx = - (7 / 2), passed = False, landedOn = False \<rparr>,
      \<lparr> plat_x = 663 / 2, plat_y = 70, plat_width = 130, plat_height = 20,
        plat_color = NEON_LIME, plat_vx = - (7 / 2), passed = False, landedOn = False \<rparr>,
      \<lparr> plat_x = 663 / 2, plat_y = - 80, plat_width = 130, plat_height = 20,
        plat_color = NEON_LIME, plat_vx = - (7 / 2), passed = False, landedOn = False \<rparr>,
      \<lparr> plat_x = 663 / 2, plat_y = - 230, plat_width = 130, plat_height = 20,
        plat_color = NEON_LIME, plat_vx = - (7 / 2), passed = False, landedOn = False \<rparr>]"
    by (simp add: update_move_eq[OF r] E0_fields advance_def speedMultiplier_def Let_def)
  show "platforms (update_move 0 (E0\<lparr> lastTime := 16 \<rparr>)) = [0, 1, 2, 3, 4, 5]"
    "viewportHeight (update_move 0 (E0\<lparr> lastTime := 16 \<rparr>)) = 600"
    using r by (simp_all add: E0_fields)
  show "currentPlatform (player (update_move 0 (E0\<lparr> lastTime := 16 \<rparr>))) = Some 0"
    "ply_x (player (update_move 0 (E0\<lparr> lastTime := 16 \<rparr>))) = 400"
    "ply_y (player (update_move 0 (E0\<lparr> lastTime := 16 \<rparr>))) = 500"
    "ply_vy (player (update_move 0 (E0\<lparr> lastTime := 16 \<rparr>))) = 0"
    unfolding update_move_player_eq[OF r] st
    by (simp_all add: E0_fields E0_player Player_physics_def carry_def Let_def)
  show "map plat_x (store (update_move 0 (E0\<lparr> lastTime := 16 \<rparr>))) =
       [300, 663 / 2, 663 / 2, 663 / 2, 663 / 2, 663 / 2]"
    "map plat_vx (store (update_move 0 (E0\<lparr> lastTime := 16 \<rparr>))) =
       [0, - (7 / 2), - (7 / 2), - (7 / 2), - (7 / 2), - (7 / 2)]"
    "map plat_y (store (update_move 0 (E0\<lparr> lastTime := 16 \<rparr>))) =
       [520, 370, 220, 70, - 80, - 230]"
    unfolding st by simp_all
qed

lemma E0_preCollision:
  "preCollision R0 16 0 E0 = update_move 0 (E0\<lparr> lastTime := 16 \<rparr>)"
  by (simp add: preCollision_def afterScroll_def scrolls_def E0_move)

lemma E0_loop:
  "loop R0 16 0 E0 =
     Inr (update_cosmetics (update_fall R0 (update_move 0 (E0\<lparr> lastTime := 16 \<rparr>))))"
  using loop_playing[OF wf_E0 E0_fields(1), of R0 16 0]
  by (simp add: E0_preCollision update_collision_eq landingPlatform_def E0_move)

lemma E1_eq: "E1 = update_cosmetics (update_fall R0 (update_move 0 (E0\<lparr> lastTime := 16 \<rparr>)))"
  by (simp add: E1_def E0_loop)

lemma E1_fields:
  "platforms E1 = [0, 1, 2, 3, 4, 5]"
  "currentPlatform (player E1) = Some 0"
  "ply_x (player E1) = 400" "ply_y (player E1) = 500" "ply_vy (player E1) = 0"
  "state E1 = Playing"
  "map plat_x (store E1) = [300, 663 / 2, 663 / 2, 663 / 2, 663 / 2, 663 / 2]"
  "map plat_vx (store E1) = [0, - (7 / 2), - (7 / 2), - (7 / 2), - (7 / 2), - (7 / 2)]"
  "map plat_y (store E1) = [520, 370, 220, 70, - 80, - 230]"
proof -
  have r: "refs_ok (E0\<lparr> lastTime := 16 \<rparr>)"
    by (simp add: refs_ok_def E0_fields)
  show "platforms E1 = [0, 1, 2, 3, 4, 5]"
    "currentPlatform (player E1) = Some 0"
    "ply_x (player E1) = 400" "ply_y (player E1) = 500" "ply_vy (player E1) = 0"
    "state E1 = Playing"
    "map plat_x (store E1) = [300, 663 / 2, 663 / 2, 663 / 2, 663 / 2, 663 / 2]"
    "map plat_vx (store E1) = [0, - (7 / 2), - (7 / 2), - (7 / 2), - (7 / 2), - (7 / 2)]"
    "map plat_y (store E1) = [520, 370, 220, 70, - 80, - 230]"
    by (simp_all add: E1_eq tail_fields E0_move update_move_fields[OF r] E0_fields)
qed

section \<open>The resting player is pinned to its platform, in exact arithmetic\<close>

text \<open>
  The invariant of C4, over exact real arithmetic (the source computes in double precision,
  whose rounding this development does not model: there the world scroll adds the same
  difference to the player's and to the platform's \<open>y\<close> and rounds the two sums separately,
  so the equality below is a statement about the model only): in every state that a tick
  leaves (from a reachable state), if the player rests on a platform (\<open>currentPlatform\<close> is
  not null) then its vertical velocity is 0 and its vertical position is the platform's \<open>y\<close>
  minus half the player's height.
\<close>

theorem resting_player_pinned:
  assumes "reachable R e" "exec R (Frame time now) e = Inr e'"
    and "currentPlatform (player e') = Some r"
  shows "ply_vy (player e') = 0 \<and>
         ply_y (player e') = plat_y (store e' ! r) - ply_height (player e') / 2"
proof -
  have "reachable R e'"
    using assms(1,2) by (intro reachable.step[of R e "Frame time now" e']) simp_all
  then have "pinned e'" using reachable_inv by blast
  then show ?thesis using assms(3) by (simp add: pinned_def)
qed

theorem resting_player_pinned_witness:
  "currentPlatform (player E1) = Some 0 \<and> ply_vy (player E1) = 0 \<and>
   ply_y (player E1) = plat_y (store E1 ! 0) - ply_height (player E1) / 2"
proof -
  have "exec R0 (Frame 16 0) E0 = Inr E1"
    by (simp add: E0_loop E1_eq)
  from resting_player_pinned[OF reachable_E0 this E1_fields(2)]
  show ?thesis by (simp add: E1_fields)
qed


subsection \<open>What a frame does to each field\<close>

lemma loop_afterFrame:
  assumes "wf e" "state e = Playing"
  shows "loop R time now e = Inr (afterFrame R time now e)"
  using loop_playing[OF assms] by (simp add: afterFrame_def)

lemma preCollision_platforms:
  assumes "wf e"
  shows "platforms (preCollision R time now e) =
           (if recycles (update_move now (e\<lparr> lastTime := time \<rparr>))
            then tl (platforms e) @ [length (store e)] else platforms e)"
    and "length (store (preCollision R time now e)) =
           length (store e) + (if recycles (update_move now (e\<lparr> lastTime := time \<rparr>)) then 1 else 0)"
proof -
  have "refs_ok (e\<lparr> lastTime := time \<rparr>)" using assms by (simp add: wf_def refs_ok_def)
  then show "platforms (preCollision R time now e) =
           (if recycles (update_move now (e\<lparr> lastTime := time \<rparr>))
            then tl (platforms e) @ [length (store e)] else platforms e)"
    and "length (store (preCollision R time now e)) =
           length (store e) + (if recycles (update_move now (e\<lparr> lastTime := time \<rparr>)) then 1 else 0)"
    by (simp_all add: preCollision_def afterScroll_fields)
qed

lemma preCollision_store:
  assumes "wf e" "k < length (store e)"
  shows "store (preCollision R time now e) ! k =
           (if k \<in> set (platforms e)
            then (let p = advance (speedMultiplier e) (viewportWidth e) (store e ! k)
                  in if scrolls (update_move now (e\<lparr> lastTime := time \<rparr>))
                     then p\<lparr> plat_y := plat_y p +
                                scrollDiff (update_move now (e\<lparr> lastTime := time \<rparr>)) \<rparr>
                     else p)
            else store e ! k)"
proof -
  let ?e1 = "e\<lparr> lastTime := time \<rparr>"
  let ?e2 = "update_move now ?e1"
  have r1: "refs_ok ?e1" using assms by (simp add: wf_def refs_ok_def)
  have "wf ?e1" using assms by (simp add: wf_def refs_ok_def)
  from update_move_wf[OF this, of now]
  have r2: "refs_ok ?e2" by (simp add: wf_def)
  have k2: "k < length (store ?e2)" using assms(2) r1 by simp
  have p2: "platforms ?e2 = platforms e" using r1 by simp
  have sm: "speedMultiplier ?e1 = speedMultiplier e" by (simp add: speedMultiplier_def)
  have m: "store ?e2 ! k =
           (if k \<in> set (platforms e)
            then advance (speedMultiplier e) (viewportWidth e) (store e ! k)
            else store e ! k)"
    unfolding update_move_store[OF r1] sm by simp
  have "store (preCollision R time now e) ! k =
           (if scrolls ?e2 \<and> k \<in> set (platforms ?e2)
            then (store ?e2 ! k)\<lparr> plat_y := plat_y (store ?e2 ! k) + scrollDiff ?e2 \<rparr>
            else store ?e2 ! k)"
    unfolding preCollision_def by (rule afterScroll_store[OF r2 k2])
  then show ?thesis
    unfolding m p2 by (simp add: Let_def)
qed

lemma preCollision_landedOn:
  assumes "wf e" "state e \<noteq> Start" "k < length (store (preCollision R time now e))"
  shows "landedOn (store (preCollision R time now e) ! k) =
           (k < length (store e) \<and> landedOn (store e ! k))"
proof (cases "k < length (store e)")
  case True
  then show ?thesis by (simp add: preCollision_store[OF assms(1)] Let_def)
next
  case False
  let ?e2 = "update_move now (e\<lparr> lastTime := time \<rparr>)"
  have w1: "wf (e\<lparr> lastTime := time \<rparr>)" using assms by (simp add: wf_def refs_ok_def)
  then have r1: "refs_ok (e\<lparr> lastTime := time \<rparr>)" by (simp add: wf_def)
  have w2: "wf ?e2" using w1 by (rule update_move_wf)
  then have r2: "refs_ok ?e2" by (simp add: wf_def)
  have rc: "recycles ?e2" and k: "k = length (store ?e2)"
    using False assms(3) r1 by (auto simp: preCollision_platforms[OF assms(1)] split: if_splits)
  have "platforms ?e2 \<noteq> []" using w2 assms(2) r1 by (auto simp: wf_def)
  from afterScroll_new(2)[OF r2 rc this, of R]
  show ?thesis using False k by (simp add: preCollision_def)
qed

lemma update_collision_store:
  "store (update_collision R e) =
     (case landingPlatform e of
        None \<Rightarrow> store e
      | Some r \<Rightarrow> (store e)[r := (store e ! r)\<lparr> landedOn := True \<rparr>])"
  by (simp add: update_collision_eq landed_store split: option.splits)

lemma update_collision_store_fields:
  "plat_x (store (update_collision R e) ! k) = plat_x (store e ! k)"
  "plat_y (store (update_collision R e) ! k) = plat_y (store e ! k)"
  "plat_width (store (update_collision R e) ! k) = plat_width (store e ! k)"
  "plat_color (store (update_collision R e) ! k) = plat_color (store e ! k)"
  "plat_vx (store (update_collision R e) ! k) = plat_vx (store e ! k)"
  by (simp_all add: update_collision_store nth_mark_landed split: option.splits)

lemma update_collision_landedOn:
  assumes "refs_ok e" "k < length (store e)"
  shows "landedOn (store (update_collision R e) ! k) =
           (landedOn (store e ! k) \<or> landingPlatform e = Some k)"
proof (cases "landingPlatform e")
  case None
  then show ?thesis by (simp add: update_collision_store)
next
  case (Some r)
  then have "r < length (store e)"
    using landingPlatform_Some(1)[OF Some] assms(1) by (simp add: refs_ok_def)
  then show ?thesis
    using Some assms(2) by (auto simp: update_collision_store nth_list_update)
qed

lemma update_collision_scoring:
  "score (update_collision R e) =
     score e + (case landingPlatform e of
                  None \<Rightarrow> 0 | Some r \<Rightarrow> if landedOn (store e ! r) then 0 else 1)"
  "notifications (update_collision R e) =
     notifications e @ (case landingPlatform e of None \<Rightarrow> [] | Some r \<Rightarrow> landingNotes e r)"
  "perfectStreak (update_collision R e) =
     (case landingPlatform e of
        None \<Rightarrow> perfectStreak e
      | Some r \<Rightarrow> if landedOn (store e ! r) then perfectStreak e
                  else if perfectHit e r then perfectStreak e + 1 else 0)"
  "isFever (update_collision R e) =
     (case landingPlatform e of
        None \<Rightarrow> isFever e
      | Some r \<Rightarrow> if landedOn (store e ! r) then isFever e
                  else if perfectHit e r
                  then (isFever e \<or> perfectStreak e + 1 \<ge> FEVER_THRESHOLD) else False)"
  by (simp_all add: update_collision_eq landed_score landed_notifications landed_perfectStreak
        landed_isFever split: option.splits)

lemma update_collision_player:
  "ply_x (player (update_collision R e)) = ply_x (player e)"
  "ply_width (player (update_collision R e)) = ply_width (player e)"
  "ply_height (player (update_collision R e)) = ply_height (player e)"
  "ply_color (player (update_collision R e)) =
     (case landingPlatform e of
        None \<Rightarrow> ply_color (player e)
      | Some r \<Rightarrow> if \<not> landedOn (store e ! r) \<and> perfectHit e r
                  then plat_color (store e ! r) else ply_color (player e))"
  by (simp_all add: update_collision_eq landed_player land_def split: option.splits)

lemma afterFrame_fields:
  "platforms (afterFrame R time now e) = platforms (preCollision R time now e)"
  "store (afterFrame R time now e) = store (update_collision R (preCollision R time now e))"
  "player (afterFrame R time now e) = player (update_collision R (preCollision R time now e))"
  "score (afterFrame R time now e) = score (update_collision R (preCollision R time now e))"
  "perfectStreak (afterFrame R time now e) =
     perfectStreak (update_collision R (preCollision R time now e))"
  "isFever (afterFrame R time now e) = isFever (update_collision R (preCollision R time now e))"
  "viewportWidth (afterFrame R time now e) = viewportWidth (preCollision R time now e)"
  "viewportHeight (afterFrame R time now e) = viewportHeight (preCollision R time now e)"
  "state (afterFrame R time now e) =
     (if ply_y (player (afterFrame R time now e)) > viewportHeight (afterFrame R time now e) + 100
      then GameOver else state (preCollision R time now e))"
  "notifications (afterFrame R time now e) =
     notifications (update_collision R (preCollision R time now e)) @
     (if ply_y (player (afterFrame R time now e)) > viewportHeight (afterFrame R time now e) + 100
      then [GameStateChange GameOver] else [])"
  by (simp_all add: afterFrame_def tail_fields update_collision_fields)


subsection \<open>The example engine, one frame on\<close>

lemma reachable_E0r: "reachable R0 E0r"
  unfolding E0r_def by (rule reachable.step[OF reachable_E0, of "Resize 800 300"]) simp_all

lemma wf_E0r: "wf E0r"
  using reachable_inv[OF reachable_E0r] by simp

lemma E0r_fields:
  "state E0r = Playing" "viewportWidth E0r = 800" "viewportHeight E0r = 300"
  "platforms E0r = platforms E0" "store E0r = store E0" "player E0r = player E0"
  "score E0r = 0" "notifications E0r = notifications E0"
  by (simp_all add: E0r_def resize_def E0_fields)

lemma E0r_move:
  "platforms (update_move 0 (E0r\<lparr> lastTime := 16 \<rparr>)) = [0, 1, 2, 3, 4, 5]"
  "viewportHeight (update_move 0 (E0r\<lparr> lastTime := 16 \<rparr>)) = 300"
  "currentPlatform (player (update_move 0 (E0r\<lparr> lastTime := 16 \<rparr>))) = Some 0"
  "ply_y (player (update_move 0 (E0r\<lparr> lastTime := 16 \<rparr>))) = 500"
  "map plat_y (store (update_move 0 (E0r\<lparr> lastTime := 16 \<rparr>))) =
     [520, 370, 220, 70, - 80, - 230]"
proof -
  have r: "refs_ok (E0r\<lparr> lastTime := 16 \<rparr>)"
    by (simp add: refs_ok_def E0r_fields E0_fields)
  have st: "map plat_y (store (update_move 0 (E0r\<lparr> lastTime := 16 \<rparr>))) =
              [520, 370, 220, 70, - 80, - 230] \<and>
            map plat_x (store (update_move 0 (E0r\<lparr> lastTime := 16 \<rparr>))) =
              [300, 663 / 2, 663 / 2, 663 / 2, 663 / 2, 663 / 2] \<and>
            map plat_width (store (update_move 0 (E0r\<lparr> lastTime := 16 \<rparr>))) =
              [200, 130, 130, 130, 130, 130]"
    by (simp add: update_move_eq[OF r] E0r_fields E0_fields advance_def speedMultiplier_def
          Let_def)
  have len: "length (store (update_move 0 (E0r\<lparr> lastTime := 16 \<rparr>))) = 6"
    using r by (simp add: E0r_fields E0_fields)
  have b: "plat_y (store (update_move 0 (E0r\<lparr> lastTime := 16 \<rparr>)) ! 0) = 520"
    "plat_x (store (update_move 0 (E0r\<lparr> lastTime := 16 \<rparr>)) ! 0) = 300"
    "plat_width (store (update_move 0 (E0r\<lparr> lastTime := 16 \<rparr>)) ! 0) = 200"
    using st len
      nth_map[of 0 "store (update_move 0 (E0r\<lparr> lastTime := 16 \<rparr>))" plat_y]
      nth_map[of 0 "store (update_move 0 (E0r\<lparr> lastTime := 16 \<rparr>))" plat_x]
      nth_map[of 0 "store (update_move 0 (E0r\<lparr> lastTime := 16 \<rparr>))" plat_width]
    by simp_all
  show "platforms (update_move 0 (E0r\<lparr> lastTime := 16 \<rparr>)) = [0, 1, 2, 3, 4, 5]"
    "viewportHeight (update_move 0 (E0r\<lparr> lastTime := 16 \<rparr>)) = 300"
    using r by (simp_all add: E0r_fields E0_fields)
  show "currentPlatform (player (update_move 0 (E0r\<lparr> lastTime := 16 \<rparr>))) = Some 0"
    "ply_y (player (update_move 0 (E0r\<lparr> lastTime := 16 \<rparr>))) = 500"
    unfolding update_move_player_eq[OF r]
    by (simp_all add: b E0r_fields E0_fields E0_player Player_physics_def carry_def Let_def)
  show "map plat_y (store (update_move 0 (E0r\<lparr> lastTime := 16 \<rparr>))) =
       [520, 370, 220, 70, - 80, - 230]"
    using st by simp
qed

lemma E0r_preCollision:
  "preCollision R0 16 0 E0r = update_move 0 (E0r\<lparr> lastTime := 16 \<rparr>)"
  by (simp add: preCollision_def afterScroll_def scrolls_def E0r_move)

lemma E0r_no_landing: "update_collision R0 (preCollision R0 16 0 E0r) = preCollision R0 16 0 E0r"
  by (simp add: E0r_preCollision update_collision_eq landingPlatform_def E0r_move)

lemma E1r_fields:
  "platforms E1r = [0, 1, 2, 3, 4, 5]"
  "viewportHeight E1r = 300"
  "ply_y (player E1r) = 500"
  "map plat_y (store E1r) = [520, 370, 220, 70, - 80, - 230]"
  "state E1r = GameOver"
  "notifications E1r = notifications E0 @ [GameStateChange GameOver]"
proof -
  have a: "platforms E1r = [0, 1, 2, 3, 4, 5]" "viewportHeight E1r = 300"
    "ply_y (player E1r) = 500"
    "map plat_y (store E1r) = [520, 370, 220, 70, - 80, - 230]"
    unfolding E1r_def afterFrame_fields E0r_no_landing
    by (simp_all add: E0r_preCollision E0r_move)
  then show "platforms E1r = [0, 1, 2, 3, 4, 5]" "viewportHeight E1r = 300"
    "ply_y (player E1r) = 500"
    "map plat_y (store E1r) = [520, 370, 220, 70, - 80, - 230]"
    by simp_all
  have s: "state E1r =
     (if ply_y (player E1r) > viewportHeight E1r + 100
      then GameOver else state (preCollision R0 16 0 E0r))"
    unfolding E1r_def by (rule afterFrame_fields(9))
  show "state E1r = GameOver" unfolding s by (simp add: a)
  have n: "notifications E1r =
     notifications (update_collision R0 (preCollision R0 16 0 E0r)) @
     (if ply_y (player E1r) > viewportHeight E1r + 100
      then [GameStateChange GameOver] else [])"
    unfolding E1r_def by (rule afterFrame_fields(10))
  show "notifications E1r = notifications E0 @ [GameStateChange GameOver]"
    unfolding n E0r_no_landing
    by (simp add: a preCollision_fields[OF wf_E0r] E0r_fields)
qed

lemma E1_afterFrame: "E1 = afterFrame R0 16 0 E0"
  by (simp add: E1_def loop_afterFrame[OF wf_E0 E0_fields(1)])


section \<open>A played game\<close>

subsection \<open>The random draws spent by a frame, and the store after the world scroll\<close>

lemma triggerPerfect_rix: "rix (triggerPerfect R r e) = rix e + 60"
  by (simp add: triggerPerfect_def notify_def playSound_def Let_def createParticles_fields)

lemma landed_rix:
  "rix (landed R r e) =
     rix e + (if \<not> landedOn (store e ! r) \<and> perfectHit e r then 60 else 0)"
  by (simp add: landed_def triggerPerfect_rix notify_def playSound_def Let_def
        perfectHit_def land_def)

lemma update_fall_rix:
  "rix (update_fall R e) =
     rix e + (if ply_y (player e) > viewportHeight e + 100 then 150 else 0)"
  by (simp add: update_fall_def gameOver_def notify_def playSound_def Let_def
        createParticles_fields)

lemma afterScroll_rix:
  "rix (afterScroll R e) = rix e + (if recycles e then 5 else 0)"
  by (simp add: afterScroll_def spawnPlatform_eq recycles_def)

lemma handleInput_rix:
  "rix (handleInput R ev e) =
     rix e + (if state e = Playing \<and> jumps (player e) < 2 then 15 else 0)"
  by (simp add: handleInput_def playSound_def Let_def createParticles_fields)

lemma afterScroll_store_list:
  assumes "refs_ok e" "platforms e \<noteq> []"
  shows "store (afterScroll R e) =
     (if scrolls e then
        map (\<lambda>k. if k \<in> set (platforms e)
                 then (store e ! k)\<lparr> plat_y := plat_y (store e ! k) + scrollDiff e \<rparr>
                 else store e ! k) [0..<length (store e)] @
        (if recycles e
         then [spawned R (rix e) (viewportWidth e)
                 (plat_y (store e ! last (platforms e)) + scrollDiff e - PLATFORM_SPACING)]
         else [])
      else store e)"
proof (cases "scrolls e")
  case False
  then show ?thesis by (simp add: afterScroll_def)
next
  case True
  let ?f = "\<lambda>k. if k \<in> set (platforms e)
                 then (store e ! k)\<lparr> plat_y := plat_y (store e ! k) + scrollDiff e \<rparr>
                 else store e ! k"
  let ?new = "spawned R (rix e) (viewportWidth e)
                 (plat_y (store e ! last (platforms e)) + scrollDiff e - PLATFORM_SPACING)"
  have "store (afterScroll R e) =
          map ?f [0..<length (store e)] @ (if recycles e then [?new] else [])"
  proof (rule nth_equalityI)
    show "length (store (afterScroll R e)) =
            length (map ?f [0..<length (store e)] @ (if recycles e then [?new] else []))"
      by (simp add: afterScroll_fields)
  next
    fix i
    assume "i < length (store (afterScroll R e))"
    then have i: "i < length (store e) + (if recycles e then 1 else 0)"
      by (simp add: afterScroll_fields)
    show "store (afterScroll R e) ! i =
            (map ?f [0..<length (store e)] @ (if recycles e then [?new] else [])) ! i"
    proof (cases "i < length (store e)")
      case True
      then show ?thesis
        using afterScroll_store[OF assms(1) True, of R] \<open>scrolls e\<close>
        by (simp add: nth_append)
    next
      case False
      then have r: "recycles e" and il: "i = length (store e)"
        using i by (simp_all split: if_splits)
      show ?thesis
        using afterScroll_new(2)[OF assms(1) r assms(2), of R]
        by (simp add: il r nth_append)
    qed
  qed
  then show ?thesis using True by simp
qed

subsection \<open>The start of the played game\<close>

lemma spawned_R1:
  "spawned R1 0 800 y =
     \<lparr> plat_x = 63315 / 128, plat_y = y, plat_width = 130, plat_height = 20,
       plat_color = NEON_LIME, plat_vx = - (7 / 2), passed = False, landedOn = False \<rparr>"
  "spawned R1 5 800 y =
     \<lparr> plat_x = 169845 / 256, plat_y = y, plat_width = 130, plat_height = 20,
       plat_color = NEON_LIME, plat_vx = - (7 / 2), passed = False, landedOn = False \<rparr>"
  "spawned R1 10 800 y =
     \<lparr> plat_x = 43215 / 256, plat_y = y, plat_width = 130, plat_height = 20,
       plat_color = NEON_LIME, plat_vx = - (7 / 2), passed = False, landedOn = False \<rparr>"
  "12 \<le> k \<Longrightarrow> spawned R1 k 800 y =
     \<lparr> plat_x = 335, plat_y = y, plat_width = 130, plat_height = 20,
       plat_color = NEON_LIME, plat_vx = - (7 / 2), passed = False, landedOn = False \<rparr>"
  by (simp_all add: spawned_def R1_def new_Platform_def Let_def config PLATFORM_COLORS_def)

lemma reachable_Q0: "reachable R1 Q0"
  unfolding Q0_def by (rule reachable.step[OF reachable_G0, of StartGame]) simp_all

lemma reachable_Q0j: "reachable R1 Q0j"
  unfolding Q0j_def by (rule reachable.step[OF reachable_Q0, of "Input KeyDown"]) simp_all

subsection \<open>The played game, frame by frame\<close>

lemma Q0_fields:
  "state Q0 = Playing"
  "score Q0 = 0"
  "perfectStreak Q0 = 0"
  "isFever Q0 = False"
  "viewportWidth Q0 = 800"
  "viewportHeight Q0 = 600"
  "platforms Q0 = [0, 1, 2, 3, 4, 5]"
  "notifications Q0 = [ScoreUpdate 0, ComboChange 0, FeverChange False, GameStateChange Playing]"
  "store Q0 =
     [\<lparr> plat_x = 300, plat_y = 520, plat_width = 200, plat_height = 20,
        plat_color = NEON_MAGENTA, plat_vx = 0, passed = False, landedOn = False \<rparr>,
      \<lparr> plat_x = 63315 / 128, plat_y = 370, plat_width = 130, plat_height = 20,
        plat_color = NEON_LIME, plat_vx = - (7 / 2), passed = False, landedOn = False \<rparr>,
      \<lparr> plat_x = 169845 / 256, plat_y = 220, plat_width = 130, plat_height = 20,
        plat_color = NEON_LIME, plat_vx = - (7 / 2), passed = False, landedOn = False \<rparr>,
      \<lparr> plat_x = 43215 / 256, plat_y = 70, plat_width = 130, plat_height = 20,
        plat_color = NEON_LIME, plat_vx = - (7 / 2), passed = False, landedOn = False \<rparr>,
      \<lparr> plat_x = 335, plat_y = - 80, plat_width = 130, plat_height = 20,
        plat_color = NEON_LIME, plat_vx = - (7 / 2), passed = False, landedOn = False \<rparr>,
      \<lparr> plat_x = 335, plat_y = - 230, plat_width = 130, plat_height = 20,
        plat_color = NEON_LIME, plat_vx = - (7 / 2), passed = False, landedOn = False \<rparr>]"
  "ply_x (player Q0) = 400"
  "ply_y (player Q0) = 500"
  "ply_vy (player Q0) = 0"
  "ply_width (player Q0) = 40"
  "ply_height (player Q0) = 40"
  "ply_color (player Q0) = NEON_CYAN"
  "jumps (player Q0) = 0"
  "currentPlatform (player Q0) = Some 0"
  "rix Q0 = 25"
  by (simp_all add: Q0_def startGame_fields G0_fields spawned_R1 basePlatform_def
        new_Platform_def config)

lemma Q0j_fields:
  "state Q0j = Playing"
  "score Q0j = 0"
  "perfectStreak Q0j = 0"
  "isFever Q0j = False"
  "viewportWidth Q0j = 800"
  "viewportHeight Q0j = 600"
  "platforms Q0j = [0, 1, 2, 3, 4, 5]"
  "notifications Q0j = [ScoreUpdate 0, ComboChange 0, FeverChange False, GameStateChange Playing]"
  "store Q0j =
     [\<lparr> plat_x = 300, plat_y = 520, plat_width = 200, plat_height = 20,
        plat_color = NEON_MAGENTA, plat_vx = 0, passed = False, landedOn = False \<rparr>,
      \<lparr> plat_x = 63315 / 128, plat_y = 370, plat_width = 130, plat_height = 20,
        plat_color = NEON_LIME, plat_vx = - (7 / 2), passed = False, landedOn = False \<rparr>,
      \<lparr> plat_x = 169845 / 256, plat_y = 220, plat_width = 130, plat_height = 20,
        plat_color = NEON_LIME, plat_vx = - (7 / 2), passed = False, landedOn = False \<rparr>,
      \<lparr> plat_x = 43215 / 256, plat_y = 70, plat_width = 130, plat_height = 20,
        plat_color = NEON_LIME, plat_vx = - (7 / 2), passed = False, landedOn = False \<rparr>,
      \<lparr> plat_x = 335, plat_y = - 80, plat_width = 130, plat_height = 20,
        plat_color = NEON_LIME, plat_vx = - (7 / 2), passed = False, landedOn = False \<rparr>,
      \<lparr> plat_x = 335, plat_y = - 230, plat_width = 130, plat_height = 20,
        plat_color = NEON_LIME, plat_vx = - (7 / 2), passed = False, landedOn = False \<rparr>]"
  "ply_x (player Q0j) = 400"
  "ply_y (player Q0j) = 500"
  "ply_vy (player Q0j) = - 15"
  "ply_width (player Q0j) = 40"
  "ply_height (player Q0j) = 40"
  "ply_color (player Q0j) = NEON_CYAN"
  "jumps (player Q0j) = 1"
  "currentPlatform (player Q0j) = None"
  "rix Q0j = 40"
  by (simp_all add: Q0j_def handleInput_fields handleInput_rix jump_def Q0_fields config)


lemma Q0j_refs: "refs_ok (Q0j\<lparr> lastTime := 16 \<rparr>)"
  by (simp add: refs_ok_def Q0j_fields)

lemma Q0j_store:
  "store (update_move 0 (Q0j\<lparr> lastTime := 16 \<rparr>)) =
     [\<lparr> plat_x = 300, plat_y = 520, plat_width = 200, plat_height = 20,
        plat_color = NEON_MAGENTA, plat_vx = 0, passed = False, landedOn = False \<rparr>,
      \<lparr> plat_x = 62867 / 128, plat_y = 370, plat_width = 130, plat_height = 20,
        plat_color = NEON_LIME, plat_vx = - (7 / 2), passed = False, landedOn = False \<rparr>,
      \<lparr> plat_x = 168949 / 256, plat_y = 220, plat_width = 130, plat_height = 20,
        plat_color = NEON_LIME, plat_vx = - (7 / 2), passed = False, landedOn = False \<rparr>,
      \<lparr> plat_x = 42319 / 256, plat_y = 70, plat_width = 130, plat_height = 20,
        plat_color = NEON_LIME, plat_vx = - (7 / 2), passed = False, landedOn = False \<rparr>,
      \<lparr> plat_x = 663 / 2, plat_y = - 80, plat_width = 130, plat_height = 20,
        plat_color = NEON_LIME, plat_vx = - (7 / 2), passed = False, landedOn = False \<rparr>,
      \<lparr> plat_x = 663 / 2, plat_y = - 230, plat_width = 130, plat_height = 20,
        plat_color = NEON_LIME, plat_vx = - (7 / 2), passed = False, landedOn = False \<rparr>]"
  by (simp add: update_move_eq[OF Q0j_refs] Q0j_fields advance_def speedMultiplier_def Let_def)

lemma Q0j_player:
  "ply_x (player (update_move 0 (Q0j\<lparr> lastTime := 16 \<rparr>))) = 400"
  "ply_y (player (update_move 0 (Q0j\<lparr> lastTime := 16 \<rparr>))) = 971 / 2"
  "ply_vy (player (update_move 0 (Q0j\<lparr> lastTime := 16 \<rparr>))) = - (29 / 2)"
  "ply_width (player (update_move 0 (Q0j\<lparr> lastTime := 16 \<rparr>))) = 40"
  "ply_height (player (update_move 0 (Q0j\<lparr> lastTime := 16 \<rparr>))) = 40"
  "ply_color (player (update_move 0 (Q0j\<lparr> lastTime := 16 \<rparr>))) = NEON_CYAN"
  "jumps (player (update_move 0 (Q0j\<lparr> lastTime := 16 \<rparr>))) = 1"
  "currentPlatform (player (update_move 0 (Q0j\<lparr> lastTime := 16 \<rparr>))) = None"
  unfolding update_move_player_eq[OF Q0j_refs] Q0j_store
  by (simp_all add: Q0j_fields Player_physics_def carry_def speedMultiplier_def Let_def config)

lemmas Q0j_move = Q0j_store Q0j_player update_move_fields[OF Q0j_refs] Q0j_fields

lemma Q0j_preCollision:
  "preCollision R1 16 0 Q0j = update_move 0 (Q0j\<lparr> lastTime := 16 \<rparr>)"
  by (simp add: preCollision_def afterScroll_def scrolls_def Q0j_move)

lemma Q0j_landing:
  "landingPlatform (preCollision R1 16 0 Q0j) = None"
  by (simp add: Q0j_preCollision landingPlatform_def hits_def Let_def Q0j_move)

lemma Q1_eq:
  "Q1 = update_cosmetics (update_fall R1 (update_move 0 (Q0j\<lparr> lastTime := 16 \<rparr>)))"
  using Q0j_landing
  by (simp add: Q1_def afterFrame_def update_collision_eq Q0j_preCollision)

lemma Q1_fields:
  "state Q1 = Playing"
  "score Q1 = 0"
  "perfectStreak Q1 = 0"
  "isFever Q1 = False"
  "viewportWidth Q1 = 800"
  "viewportHeight Q1 = 600"
  "platforms Q1 = [0, 1, 2, 3, 4, 5]"
  "notifications Q1 = [ScoreUpdate 0, ComboChange 0, FeverChange False, GameStateChange Playing]"
  "store Q1 =
     [\<lparr> plat_x = 300, plat_y = 520, plat_width = 200, plat_height = 20,
        plat_color = NEON_MAGENTA, plat_vx = 0, passed = False, landedOn = False \<rparr>,
      \<lparr> plat_x = 62867 / 128, plat_y = 370, plat_width = 130, plat_height = 20,
        plat_color = NEON_LIME, plat_vx = - (7 / 2), passed = False, landedOn = False \<rparr>,
      \<lparr> plat_x = 168949 / 256, plat_y = 220, plat_width = 130, plat_height = 20,
        plat_color = NEON_LIME, plat_vx = - (7 / 2), passed = False, landedOn = False \<rparr>,
      \<lparr> plat_x = 42319 / 256, plat_y = 70, plat_width = 130, plat_height = 20,
        plat_color = NEON_LIME, plat_vx = - (7 / 2), passed = False, landedOn = False \<rparr>,
      \<lparr> plat_x = 663 / 2, plat_y = - 80, plat_width = 130, plat_height = 20,
        plat_color = NEON_LIME, plat_vx = - (7 / 2), passed = False, landedOn = False \<rparr>,
      \<lparr> plat_x = 663 / 2, plat_y = - 230, plat_width = 130, plat_height = 20,
        plat_color = NEON_LIME, plat_vx = - (7 / 2), passed = False, landedOn = False \<rparr>]"
  "ply_x (player Q1) = 400"
  "ply_y (player Q1) = 971 / 2"
  "ply_vy (player Q1) = - (29 / 2)"
  "ply_width (player Q1) = 40"
  "ply_height (player Q1) = 40"
  "ply_color (player Q1) = NEON_CYAN"
  "jumps (player Q1) = 1"
  "currentPlatform (player Q1) = None"
  "rix Q1 = 40"
  unfolding Q1_eq
  by (simp_all add: tail_fields update_fall_rix landed_fields landed_store landed_score
        landed_perfectStreak landed_isFever landed_notifications landed_player landed_rix
        land_def landingNotes_def perfectHit_def Q0j_move config)

lemma Q0j_first: "firstLanding R1 (Frame 16 0) Q0j = None"
  by (simp add: Q0j_fields(1) Q0j_landing)

lemma wf_Q0j: "wf Q0j" and pinned_Q0j: "pinned Q0j"
  using reachable_inv[OF reachable_Q0j] by simp_all

lemma Q0j_loop: "loop R1 16 0 Q0j = Inr Q1"
  by (simp add: Q1_def loop_afterFrame[OF wf_Q0j Q0j_fields(1)])

lemma reachable_Q1: "reachable R1 Q1"
  by (rule reachable.step[OF reachable_Q0j, of "Frame 16 0"]) (simp_all add: Q0j_loop)

lemma Q1_refs: "refs_ok (Q1\<lparr> lastTime := 32 \<rparr>)"
  by (simp add: refs_ok_def Q1_fields)

lemma Q1_store:
  "store (update_move 0 (Q1\<lparr> lastTime := 32 \<rparr>)) =
     [\<lparr> plat_x = 300, plat_y = 520, plat_width = 200, plat_height = 20,
        plat_color = NEON_MAGENTA, plat_vx = 0, passed = False, landedOn = False \<rparr>,
      \<lparr> plat_x = 62419 / 128, plat_y = 370, plat_width = 130, plat_height = 20,
        plat_color = NEON_LIME, plat_vx = - (7 / 2), passed = False, landedOn = False \<rparr>,
      \<lparr> plat_x = 168053 / 256, plat_y = 220, plat_width = 130, plat_height = 20,
        plat_color = NEON_LIME, plat_vx = - (7 / 2), passed = False, landedOn = False \<rparr>,
      \<lparr> plat_x = 41423 / 256, plat_y = 70, plat_width = 130, plat_height = 20,
        plat_color = NEON_LIME, plat_vx = - (7 / 2), passed = False, landedOn = False \<rparr>,
      \<lparr> plat_x = 328, plat_y = - 80, plat_width = 130, plat_height = 20,
        plat_color = NEON_LIME, plat_vx = - (7 / 2), passed = False, landedOn = False \<rparr>,
      \<lparr> plat_x = 328, plat_y = - 230, plat_width = 130, plat_height = 20,
        plat_color = NEON_LIME, plat_vx = - (7 / 2), passed = False, landedOn = False \<rparr>]"
  by (simp add: update_move_eq[OF Q1_refs] Q1_fields advance_def speedMultiplier_def Let_def)

lemma Q1_player:
  "ply_x (player (update_move 0 (Q1\<lparr> lastTime := 32 \<rparr>))) = 400"
  "ply_y (player (update_move 0 (Q1\<lparr> lastTime := 32 \<rparr>))) = 943 / 2"
  "ply_vy (player (update_move 0 (Q1\<lparr> lastTime := 32 \<rparr>))) = - 14"
  "ply_width (player (update_move 0 (Q1\<lparr> lastTime := 32 \<rparr>))) = 40"
  "ply_height (player (update_move 0 (Q1\<lparr> lastTime := 32 \<rparr>))) = 40"
  "ply_color (player (update_move 0 (Q1\<lparr> lastTime := 32 \<rparr>))) = NEON_CYAN"
  "jumps (player (update_move 0 (Q1\<lparr> lastTime := 32 \<rparr>))) = 1"
  "currentPlatform (player (update_move 0 (Q1\<lparr> lastTime := 32 \<rparr>))) = None"
  unfolding update_move_player_eq[OF Q1_refs] Q1_store
  by (simp_all add: Q1_fields Player_physics_def carry_def speedMultiplier_def Let_def config)

lemmas Q1_move = Q1_store Q1_player update_move_fields[OF Q1_refs] Q1_fields

lemma Q1_preCollision:
  "preCollision R1 32 0 Q1 = update_move 0 (Q1\<lparr> lastTime := 32 \<rparr>)"
  by (simp add: preCollision_def afterScroll_def scrolls_def Q1_move)

lemma Q1_landing:
  "landingPlatform (preCollision R1 32 0 Q1) = None"
  by (simp add: Q1_preCollision landingPlatform_def hits_def Let_def Q1_move)

lemma Q2_eq:
  "Q2 = update_cosmetics (update_fall R1 (update_move 0 (Q1\<lparr> lastTime := 32 \<rparr>)))"
  using Q1_landing
  by (simp add: Q2_def afterFrame_def update_collision_eq Q1_preCollision)

lemma Q2_fields:
  "state Q2 = Playing"
  "score Q2 = 0"
  "perfectStreak Q2 = 0"
  "isFever Q2 = False"
  "viewportWidth Q2 = 800"
  "viewportHeight Q2 = 600"
  "platforms Q2 = [0, 1, 2, 3, 4, 5]"
  "notifications Q2 = [ScoreUpdate 0, ComboChange 0, FeverChange False, GameStateChange Playing]"
  "store Q2 =
     [\<lparr> plat_x = 300, plat_y = 520, plat_width = 200, plat_height = 20,
        plat_color = NEON_MAGENTA, plat_vx = 0, passed = False, landedOn = False \<rparr>,
      \<lparr> plat_x = 62419 / 128, plat_y = 370, plat_width = 130, plat_height = 20,
        plat_color = NEON_LIME, plat_vx = - (7 / 2), passed = False, landedOn = False \<rparr>,
      \<lparr> plat_x = 168053 / 256, plat_y = 220, plat_width = 130, plat_height = 20,
        plat_color = NEON_LIME, plat_vx = - (7 / 2), passed = False, landedOn = False \<rparr>,
      \<lparr> plat_x = 41423 / 256, plat_y = 70, plat_width = 130, plat_height = 20,
        plat_color = NEON_LIME, plat_vx = - (7 / 2), passed = False, landedOn = False \<rparr>,
      \<lparr> plat_x = 328, plat_y = - 80, plat_width = 130, plat_height = 20,
        plat_color = NEON_LIME, plat_vx = - (7 / 2), passed = False, landedOn = False \<rparr>,
      \<lparr> plat_x = 328, plat_y = - 230, plat_width = 130, plat_height = 20,
        plat_color = NEON_LIME, plat_vx = - (7 / 2), passed = False, landedOn = False \<rparr>]"
  "ply_x (player Q2) = 400"
  "ply_y (player Q2) = 943 / 2"
  "ply_vy (player Q2) = - 14"
  "ply_width (player Q2) = 40"
  "ply_height (player Q2) = 40"
  "ply_color (player Q2) = NEON_CYAN"
  "jumps (player Q2) = 1"
  "currentPlatform (player Q2) = None"
  "rix Q2 = 40"
  unfolding Q2_eq
  by (simp_all add: tail_fields update_fall_rix landed_fields landed_store landed_score
        landed_perfectStreak landed_isFever landed_notifications landed_player landed_rix
        land_def landingNotes_def perfectHit_def Q1_move config)

lemma Q1_first: "firstLanding R1 (Frame 32 0) Q1 = None"
  by (simp add: Q1_fields(1) Q1_landing)

lemma wf_Q1: "wf Q1" and pinned_Q1: "pinned Q1"
  using reachable_inv[OF reachable_Q1] by simp_all

lemma Q1_loop: "loop R1 32 0 Q1 = Inr Q2"
  by (simp add: Q2_def loop_afterFrame[OF wf_Q1 Q1_fields(1)])

lemma reachable_Q2: "reachable R1 Q2"
  by (rule reachable.step[OF reachable_Q1, of "Frame 32 0"]) (simp_all add: Q1_loop)

lemma Q2_refs: "refs_ok (Q2\<lparr> lastTime := 48 \<rparr>)"
  by (simp add: refs_ok_def Q2_fields)

lemma Q2_store:
  "store (update_move 0 (Q2\<lparr> lastTime := 48 \<rparr>)) =
     [\<lparr> plat_x = 300, plat_y = 520, plat_width = 200, plat_height = 20,
        plat_color = NEON_MAGENTA, plat_vx = 0, passed = False, landedOn = False \<rparr>,
      \<lparr> plat_x = 61971 / 128, plat_y = 370, plat_width = 130, plat_height = 20,
        plat_color = NEON_LIME, plat_vx = - (7 / 2), passed = False, landedOn = False \<rparr>,
      \<lparr> plat_x = 167157 / 256, plat_y = 220, plat_width = 130, plat_height = 20,
        plat_color = NEON_LIME, plat_vx = - (7 / 2), passed = False, landedOn = False \<rparr>,
      \<lparr> plat_x = 40527 / 256, plat_y = 70, plat_width = 130, plat_height = 20,
        plat_color = NEON_LIME, plat_vx = - (7 / 2), passed = False, landedOn = False \<rparr>,
      \<lparr> plat_x = 649 / 2, plat_y = - 80, plat_width = 130, plat_height = 20,
        plat_color = NEON_LIME, plat_vx = - (7 / 2), passed = False, landedOn = False \<rparr>,
      \<lparr> plat_x = 649 / 2, plat_y = - 230, plat_width = 130, plat_height = 20,
        plat_color = NEON_LIME, plat_vx = - (7 / 2), passed = False, landedOn = False \<rparr>]"
  by (simp add: update_move_eq[OF Q2_refs] Q2_fields advance_def speedMultiplier_def Let_def)

lemma Q2_player:
  "ply_x (player (update_move 0 (Q2\<lparr> lastTime := 48 \<rparr>))) = 400"
  "ply_y (player (update_move 0 (Q2\<lparr> lastTime := 48 \<rparr>))) = 458"
  "ply_vy (player (update_move 0 (Q2\<lparr> lastTime := 48 \<rparr>))) = - (27 / 2)"
  "ply_width (player (update_move 0 (Q2\<lparr> lastTime := 48 \<rparr>))) = 40"
  "ply_height (player (update_move 0 (Q2\<lparr> lastTime := 48 \<rparr>))) = 40"
  "ply_color (player (update_move 0 (Q2\<lparr> lastTime := 48 \<rparr>))) = NEON_CYAN"
  "jumps (player (update_move 0 (Q2\<lparr> lastTime := 48 \<rparr>))) = 1"
  "currentPlatform (player (update_move 0 (Q2\<lparr> lastTime := 48 \<rparr>))) = None"
  unfolding update_move_player_eq[OF Q2_refs] Q2_store
  by (simp_all add: Q2_fields Player_physics_def carry_def speedMultiplier_def Let_def config)

lemmas Q2_move = Q2_store Q2_player update_move_fields[OF Q2_refs] Q2_fields

lemma Q2_preCollision:
  "preCollision R1 48 0 Q2 = update_move 0 (Q2\<lparr> lastTime := 48 \<rparr>)"
  by (simp add: preCollision_def afterScroll_def scrolls_def Q2_move)

lemma Q2_landing:
  "landingPlatform (preCollision R1 48 0 Q2) = None"
  by (simp add: Q2_preCollision landingPlatform_def hits_def Let_def Q2_move)

lemma Q3_eq:
  "Q3 = update_cosmetics (update_fall R1 (update_move 0 (Q2\<lparr> lastTime := 48 \<rparr>)))"
  using Q2_landing
  by (simp add: Q3_def afterFrame_def update_collision_eq Q2_preCollision)

lemma Q3_fields:
  "state Q3 = Playing"
  "score Q3 = 0"
  "perfectStreak Q3 = 0"
  "isFever Q3 = False"
  "viewportWidth Q3 = 800"
  "viewportHeight Q3 = 600"
  "platforms Q3 = [0, 1, 2, 3, 4, 5]"
  "notifications Q3 = [ScoreUpdate 0, ComboChange 0, FeverChange False, GameStateChange Playing]"
  "store Q3 =
     [\<lparr> plat_x = 300, plat_y = 520, plat_width = 200, plat_height = 20,
        plat_color = NEON_MAGENTA, plat_vx = 0, passed = False, landedOn = False \<rparr>,
      \<lparr> plat_x = 61971 / 128, plat_y = 370, plat_width = 130, plat_height = 20,
        plat_color = NEON_LIME, plat_vx = - (7 / 2), passed = False, landedOn = False \<rparr>,
      \<lparr> plat_x = 167157 / 256, plat_y = 220, plat_width = 130, plat_height = 20,
        plat_color = NEON_LIME, plat_vx = - (7 / 2), passed = False, landedOn = False \<rparr>,
      \<lparr> plat_x = 40527 / 256, plat_y = 70, plat_width = 130, plat_height = 20,
        plat_color = NEON_LIME, plat_vx = - (7 / 2), passed = False, landedOn = False \<rparr>,
      \<lparr> plat_x = 649 / 2, plat_y = - 80, plat_width = 130, plat_height = 20,
        plat_color = NEON_LIME, plat_vx = - (7 / 2), passed = False, landedOn = False \<rparr>,
      \<lparr> plat_x = 649 / 2, plat_y = - 230, plat_width = 130, plat_height = 20,
        plat_color = NEON_LIME, plat_vx = - (7 / 2), passed = False, landedOn = False \<rparr>]"
  "ply_x (player Q3) = 400"
  "ply_y (player Q3) = 458"
  "ply_vy (player Q3) = - (27 / 2)"
  "ply_width (player Q3) = 40"
  "ply_height (player Q3) = 40"
  "ply_color (player Q3) = NEON_CYAN"
  "jumps (player Q3) = 1"
  "currentPlatform (player Q3) = None"
  "rix Q3 = 40"
  unfolding Q3_eq
  by (simp_all add: tail_fields update_fall_rix landed_fields landed_store landed_score
        landed_perfectStreak landed_isFever landed_notifications landed_player landed_rix
        land_def landingNotes_def perfectHit_def Q2_move config)

lemma Q2_first: "firstLanding R1 (Frame 48 0) Q2 = None"
  by (simp add: Q2_fields(1) Q2_landing)

lemma wf_Q2: "wf Q2" and pinned_Q2: "pinned Q2"
  using reachable_inv[OF reachable_Q2] by simp_all

lemma Q2_loop: "loop R1 48 0 Q2 = Inr Q3"
  by (simp add: Q3_def loop_afterFrame[OF wf_Q2 Q2_fields(1)])

lemma reachable_Q3: "reachable R1 Q3"
  by (rule reachable.step[OF reachable_Q2, of "Frame 48 0"]) (simp_all add: Q2_loop)

lemma Q3_refs: "refs_ok (Q3\<lparr> lastTime := 64 \<rparr>)"
  by (simp add: refs_ok_def Q3_fields)

lemma Q3_store:
  "store (update_move 0 (Q3\<lparr> lastTime := 64 \<rparr>)) =
     [\<lparr> plat_x = 300, plat_y = 520, plat_width = 200, plat_height = 20,
        plat_color = NEON_MAGENTA, plat_vx = 0, passed = False, landedOn = False \<rparr>,
      \<lparr> plat_x = 61523 / 128, plat_y = 370, plat_width = 130, plat_height = 20,
        plat_color = NEON_LIME, plat_vx = - (7 / 2), passed = False, landedOn = False \<rparr>,
      \<lparr> plat_x = 166261 / 256, plat_y = 220, plat_width = 130, plat_height = 20,
        plat_color = NEON_LIME, plat_vx = - (7 / 2), passed = False, landedOn = False \<rparr>,
      \<lparr> plat_x = 39631 / 256, plat_y = 70, plat_width = 130, plat_height = 20,
        plat_color = NEON_LIME, plat_vx = - (7 / 2), passed = False, landedOn = False \<rparr>,
      \<lparr> plat_x = 321, plat_y = - 80, plat_width = 130, plat_height = 20,
        plat_color = NEON_LIME, plat_vx = - (7 / 2), passed = False, landedOn = False \<rparr>,
      \<lparr> plat_x = 321, plat_y = - 230, plat_width = 130, plat_height = 20,
        plat_color = NEON_LIME, plat_vx = - (7 / 2), passed = False, landedOn = False \<rparr>]"
  by (simp add: update_move_eq[OF Q3_refs] Q3_fields advance_def speedMultiplier_def Let_def)

lemma Q3_player:
  "ply_x (player (update_move 0 (Q3\<lparr> lastTime := 64 \<rparr>))) = 400"
  "ply_y (player (update_move 0 (Q3\<lparr> lastTime := 64 \<rparr>))) = 445"
  "ply_vy (player (update_move 0 (Q3\<lparr> lastTime := 64 \<rparr>))) = - 13"
  "ply_width (player (update_move 0 (Q3\<lparr> lastTime := 64 \<rparr>))) = 40"
  "ply_height (player (update_move 0 (Q3\<lparr> lastTime := 64 \<rparr>))) = 40"
  "ply_color (player (update_move 0 (Q3\<lparr> lastTime := 64 \<rparr>))) = NEON_CYAN"
  "jumps (player (update_move 0 (Q3\<lparr> lastTime := 64 \<rparr>))) = 1"
  "currentPlatform (player (update_move 0 (Q3\<lparr> lastTime := 64 \<rparr>))) = None"
  unfolding update_move_player_eq[OF Q3_refs] Q3_store
  by (simp_all add: Q3_fields Player_physics_def carry_def speedMultiplier_def Let_def config)

lemmas Q3_move = Q3_store Q3_player update_move_fields[OF Q3_refs] Q3_fields

lemma Q3_preCollision:
  "preCollision R1 64 0 Q3 = update_move 0 (Q3\<lparr> lastTime := 64 \<rparr>)"
  by (simp add: preCollision_def afterScroll_def scrolls_def Q3_move)

lemma Q3_landing:
  "landingPlatform (preCollision R1 64 0 Q3) = None"
  by (simp add: Q3_preCollision landingPlatform_def hits_def Let_def Q3_move)

lemma Q4_eq:
  "Q4 = update_cosmetics (update_fall R1 (update_move 0 (Q3\<lparr> lastTime := 64 \<rparr>)))"
  using Q3_landing
  by (simp add: Q4_def afterFrame_def update_collision_eq Q3_preCollision)

lemma Q4_fields:
  "state Q4 = Playing"
  "score Q4 = 0"
  "perfectStreak Q4 = 0"
  "isFever Q4 = False"
  "viewportWidth Q4 = 800"
  "viewportHeight Q4 = 600"
  "platforms Q4 = [0, 1, 2, 3, 4, 5]"
  "notifications Q4 = [ScoreUpdate 0, ComboChange 0, FeverChange False, GameStateChange Playing]"
  "store Q4 =
     [\<lparr> plat_x = 300, plat_y = 520, plat_width = 200, plat_height = 20,
        plat_color = NEON_MAGENTA, plat_vx = 0, passed = False, landedOn = False \<rparr>,
      \<lparr> plat_x = 61523 / 128, plat_y = 370, plat_width = 130, plat_height = 20,
        plat_color = NEON_LIME, plat_vx = - (7 / 2), passed = False, landedOn = False \<rparr>,
      \<lparr> plat_x = 166261 / 256, plat_y = 220, plat_width = 130, plat_height = 20,
        plat_color = NEON_LIME, plat_vx = - (7 / 2), passed = False, landedOn = False \<rparr>,
      \<lparr> plat_x = 39631 / 256, plat_y = 70, plat_width = 130, plat_height = 20,
        plat_color = NEON_LIME, plat_vx = - (7 / 2), passed = False, landedOn = False \<rparr>,
      \<lparr> plat_x = 321, plat_y = - 80, plat_width = 130, plat_height = 20,
        plat_color = NEON_LIME, plat_vx = - (7 / 2), passed = False, landedOn = False \<rparr>,
      \<lparr> plat_x = 321, plat_y = - 230, plat_width = 130, plat_height = 20,
        plat_color = NEON_LIME, plat_vx = - (7 / 2), passed = False, landedOn = False \<rparr>]"
  "ply_x (player Q4) = 400"
  "ply_y (player Q4) = 445"
  "ply_vy (player Q4) = - 13"
  "ply_width (player Q4) = 40"
  "ply_height (player Q4) = 40"
  "ply_color (player Q4) = NEON_CYAN"
  "jumps (player Q4) = 1"
  "currentPlatform (player Q4) = None"
  "rix Q4 = 40"
  unfolding Q4_eq
  by (simp_all add: tail_fields update_fall_rix landed_fields landed_store landed_score
        landed_perfectStreak landed_isFever landed_notifications landed_player landed_rix
        land_def landingNotes_def perfectHit_def Q3_move config)

lemma Q3_first: "firstLanding R1 (Frame 64 0) Q3 = None"
  by (simp add: Q3_fields(1) Q3_landing)

lemma wf_Q3: "wf Q3" and pinned_Q3: "pinned Q3"
  using reachable_inv[OF reachable_Q3] by simp_all

lemma Q3_loop: "loop R1 64 0 Q3 = Inr Q4"
  by (simp add: Q4_def loop_afterFrame[OF wf_Q3 Q3_fields(1)])

lemma reachable_Q4: "reachable R1 Q4"
  by (rule reachable.step[OF reachable_Q3, of "Frame 64 0"]) (simp_all add: Q3_loop)

lemma Q4_refs: "refs_ok (Q4\<lparr> lastTime := 80 \<rparr>)"
  by (simp add: refs_ok_def Q4_fields)

lemma Q4_store:
  "store (update_move 0 (Q4\<lparr> lastTime := 80 \<rparr>)) =
     [\<lparr> plat_x = 300, plat_y = 520, plat_width = 200, plat_height = 20,
        plat_color = NEON_MAGENTA, plat_vx = 0, passed = False, landedOn = False \<rparr>,
      \<lparr> plat_x = 61075 / 128, plat_y = 370, plat_width = 130, plat_height = 20,
        plat_color = NEON_LIME, plat_vx = - (7 / 2), passed = False, landedOn = False \<rparr>,
      \<lparr> plat_x = 165365 / 256, plat_y = 220, plat_width = 130, plat_height = 20,
        plat_color = NEON_LIME, plat_vx = - (7 / 2), passed = False, landedOn = False \<rparr>,
      \<lparr> plat_x = 38735 / 256, plat_y = 70, plat_width = 130, plat_height = 20,
        plat_color = NEON_LIME, plat_vx = - (7 / 2), passed = False, landedOn = False \<rparr>,
      \<lparr> plat_x = 635 / 2, plat_y = - 80, plat_width = 130, plat_height = 20,
        plat_color = NEON_LIME, plat_vx = - (7 / 2), passed = False, landedOn = False \<rparr>,
      \<lparr> plat_x = 635 / 2, plat_y = - 230, plat_width = 130, plat_height = 20,
        plat_color = NEON_LIME, plat_vx = - (7 / 2), passed = False, landedOn = False \<rparr>]"
  by (simp add: update_move_eq[OF Q4_refs] Q4_fields advance_def speedMultiplier_def Let_def)

lemma Q4_player:
  "ply_x (player (update_move 0 (Q4\<lparr> lastTime := 80 \<rparr>))) = 400"
  "ply_y (player (update_move 0 (Q4\<lparr> lastTime := 80 \<rparr>))) = 865 / 2"
  "ply_vy (player (update_move 0 (Q4\<lparr> lastTime := 80 \<rparr>))) = - (25 / 2)"
  "ply_width (player (update_move 0 (Q4\<lparr> lastTime := 80 \<rparr>))) = 40"
  "ply_height (player (update_move 0 (Q4\<lparr> lastTime := 80 \<rparr>))) = 40"
  "ply_color (player (update_move 0 (Q4\<lparr> lastTime := 80 \<rparr>))) = NEON_CYAN"
  "jumps (player (update_move 0 (Q4\<lparr> lastTime := 80 \<rparr>))) = 1"
  "currentPlatform (player (update_move 0 (Q4\<lparr> lastTime := 80 \<rparr>))) = None"
  unfolding update_move_player_eq[OF Q4_refs] Q4_store
  by (simp_all add: Q4_fields Player_physics_def carry_def speedMultiplier_def Let_def config)

lemmas Q4_move = Q4_store Q4_player update_move_fields[OF Q4_refs] Q4_fields

lemma Q4_preCollision:
  "preCollision R1 80 0 Q4 = update_move 0 (Q4\<lparr> lastTime := 80 \<rparr>)"
  by (simp add: preCollision_def afterScroll_def scrolls_def Q4_move)

lemma Q4_landing:
  "landingPlatform (preCollision R1 80 0 Q4) = None"
  by (simp add: Q4_preCollision landingPlatform_def hits_def Let_def Q4_move)

lemma Q5_eq:
  "Q5 = update_cosmetics (update_fall R1 (update_move 0 (Q4\<lparr> lastTime := 80 \<rparr>)))"
  using Q4_landing
  by (simp add: Q5_def afterFrame_def update_collision_eq Q4_preCollision)

lemma Q5_fields:
  "state Q5 = Playing"
  "score Q5 = 0"
  "perfectStreak Q5 = 0"
  "isFever Q5 = False"
  "viewportWidth Q5 = 800"
  "viewportHeight Q5 = 600"
  "platforms Q5 = [0, 1, 2, 3, 4, 5]"
  "notifications Q5 = [ScoreUpdate 0, ComboChange 0, FeverChange False, GameStateChange Playing]"
  "store Q5 =
     [\<lparr> plat_x = 300, plat_y = 520, plat_width = 200, plat_height = 20,
        plat_color = NEON_MAGENTA, plat_vx = 0, passed = False, landedOn = False \<rparr>,
      \<lparr> plat_x = 61075 / 128, plat_y = 370, plat_width = 130, plat_height = 20,
        plat_color = NEON_LIME, plat_vx = - (7 / 2), passed = False, landedOn = False \<rparr>,
      \<lparr> plat_x = 165365 / 256, plat_y = 220, plat_width = 130, plat_height = 20,
        plat_color = NEON_LIME, plat_vx = - (7 / 2), passed = False, landedOn = False \<rparr>,
      \<lparr> plat_x = 38735 / 256, plat_y = 70, plat_width = 130, plat_height = 20,
        plat_color = NEON_LIME, plat_vx = - (7 / 2), passed = False, landedOn = False \<rparr>,
      \<lparr> plat_x = 635 / 2, plat_y = - 80, plat_width = 130, plat_height = 20,
        plat_color = NEON_LIME, plat_vx = - (7 / 2), passed = False, landedOn = False \<rparr>,
      \<lparr> plat_x = 635 / 2, plat_y = - 230, plat_width = 130, plat_height = 20,
        plat_color = NEON_LIME, plat_vx = - (7 / 2), passed = False, landedOn = False \<rparr>]"
  "ply_x (player Q5) = 400"
  "ply_y (player Q5) = 865 / 2"
  "ply_vy (player Q5) = - (25 / 2)"
  "ply_width (player Q5) = 40"
  "ply_height (player Q5) = 40"
  "ply_color (player Q5) = NEON_CYAN"
  "jumps (player Q5) = 1"
  "currentPlatform (player Q5) = None"
  "rix Q5 = 40"
  unfolding Q5_eq
  by (simp_all add: tail_fields update_fall_rix landed_fields landed_store landed_score
        landed_perfectStreak landed_isFever landed_notifications landed_player landed_rix
        land_def landingNotes_def perfectHit_def Q4_move config)

lemma Q4_first: "firstLanding R1 (Frame 80 0) Q4 = None"
  by (simp add: Q4_fields(1) Q4_landing)

lemma wf_Q4: "wf Q4" and pinned_Q4: "pinned Q4"
  using reachable_inv[OF reachable_Q4] by simp_all

lemma Q4_loop: "loop R1 80 0 Q4 = Inr Q5"
  by (simp add: Q5_def loop_afterFrame[OF wf_Q4 Q4_fields(1)])

lemma reachable_Q5: "reachable R1 Q5"
  by (rule reachable.step[OF reachable_Q4, of "Frame 80 0"]) (simp_all add: Q4_loop)

lemma Q5_refs: "refs_ok (Q5\<lparr> lastTime := 96 \<rparr>)"
  by (simp add: refs_ok_def Q5_fields)

lemma Q5_store:
  "store (update_move 0 (Q5\<lparr> lastTime := 96 \<rparr>)) =
     [\<lparr> plat_x = 300, plat_y = 520, plat_width = 200, plat_height = 20,
        plat_color = NEON_MAGENTA, plat_vx = 0, passed = False, landedOn = False \<rparr>,
      \<lparr> plat_x = 60627 / 128, plat_y = 370, plat_width = 130, plat_height = 20,
        plat_color = NEON_LIME, plat_vx = - (7 / 2), passed = False, landedOn = False \<rparr>,
      \<lparr> plat_x = 164469 / 256, plat_y = 220, plat_width = 130, plat_height = 20,
        plat_color = NEON_LIME, plat_vx = - (7 / 2), passed = False, landedOn = False \<rparr>,
      \<lparr> plat_x = 37839 / 256, plat_y = 70, plat_width = 130, plat_height = 20,
        plat_color = NEON_LIME, plat_vx = - (7 / 2), passed = False, landedOn = False \<rparr>,
      \<lparr> plat_x = 314, plat_y = - 80, plat_width = 130, plat_height = 20,
        plat_color = NEON_LIME, plat_vx = - (7 / 2), passed = False, landedOn = False \<rparr>,
      \<lparr> plat_x = 314, plat_y = - 230, plat_width = 130, plat_height = 20,
        plat_color = NEON_LIME, plat_vx = - (7 / 2), passed = False, landedOn = False \<rparr>]"
  by (simp add: update_move_eq[OF Q5_refs] Q5_fields advance_def speedMultiplier_def Let_def)

lemma Q5_player:
  "ply_x (player (update_move 0 (Q5\<lparr> lastTime := 96 \<rparr>))) = 400"
  "ply_y (player (update_move 0 (Q5\<lparr> lastTime := 96 \<rparr>))) = 841 / 2"
  "ply_vy (player (update_move 0 (Q5\<lparr> lastTime := 96 \<rparr>))) = - 12"
  "ply_width (player (update_move 0 (Q5\<lparr> lastTime := 96 \<rparr>))) = 40"
  "ply_height (player (update_move 0 (Q5\<lparr> lastTime := 96 \<rparr>))) = 40"
  "ply_color (player (update_move 0 (Q5\<lparr> lastTime := 96 \<rparr>))) = NEON_CYAN"
  "jumps (player (update_move 0 (Q5\<lparr> lastTime := 96 \<rparr>))) = 1"
  "currentPlatform (player (update_move 0 (Q5\<lparr> lastTime := 96 \<rparr>))) = None"
  unfolding update_move_player_eq[OF Q5_refs] Q5_store
  by (simp_all add: Q5_fields Player_physics_def carry_def speedMultiplier_def Let_def config)

lemmas Q5_move = Q5_store Q5_player update_move_fields[OF Q5_refs] Q5_fields

lemma Q5_preCollision:
  "preCollision R1 96 0 Q5 = update_move 0 (Q5\<lparr> lastTime := 96 \<rparr>)"
  by (simp add: preCollision_def afterScroll_def scrolls_def Q5_move)

lemma Q5_landing:
  "landingPlatform (preCollision R1 96 0 Q5) = None"
  by (simp add: Q5_preCollision landingPlatform_def hits_def Let_def Q5_move)

lemma Q6_eq:
  "Q6 = update_cosmetics (update_fall R1 (update_move 0 (Q5\<lparr> lastTime := 96 \<rparr>)))"
  using Q5_landing
  by (simp add: Q6_def afterFrame_def update_collision_eq Q5_preCollision)

lemma Q6_fields:
  "state Q6 = Playing"
  "score Q6 = 0"
  "perfectStreak Q6 = 0"
  "isFever Q6 = False"
  "viewportWidth Q6 = 800"
  "viewportHeight Q6 = 600"
  "platforms Q6 = [0, 1, 2, 3, 4, 5]"
  "notifications Q6 = [ScoreUpdate 0, ComboChange 0, FeverChange False, GameStateChange Playing]"
  "store Q6 =
     [\<lparr> plat_x = 300, plat_y = 520, plat_width = 200, plat_height = 20,
        plat_color = NEON_MAGENTA, plat_vx = 0, passed = False, landedOn = False \<rparr>,
      \<lparr> plat_x = 60627 / 128, plat_y = 370, plat_width = 130, plat_height = 20,
        plat_color = NEON_LIME, plat_vx = - (7 / 2), passed = False, landedOn = False \<rparr>,
      \<lparr> plat_x = 164469 / 256, plat_y = 220, plat_width = 130, plat_height = 20,
        plat_color = NEON_LIME, plat_vx = - (7 / 2), passed = False, landedOn = False \<rparr>,
      \<lparr> plat_x = 37839 / 256, plat_y = 70, plat_width = 130, plat_height = 20,
        plat_color = NEON_LIME, plat_vx = - (7 / 2), passed = False, landedOn = False \<rparr>,
      \<lparr> plat_x = 314, plat_y = - 80, plat_width = 130, plat_height = 20,
        plat_color = NEON_LIME, plat_vx = - (7 / 2), passed = False, landedOn = False \<rparr>,
      \<lparr> plat_x = 314, plat_y = - 230, plat_width = 130, plat_height = 20,
        plat_color = NEON_LIME, plat_vx = - (7 / 2), passed = False, landedOn = False \<rparr>]"
  "ply_x (player Q6) = 400"
  "ply_y (player Q6) = 841 / 2"
  "ply_vy (player Q6) = - 12"
  "ply_width (player Q6) = 40"
  "ply_height (player Q6) = 40"
  "ply_color (player Q6) = NEON_CYAN"
  "jumps (player Q6) = 1"
  "currentPlatform (player Q6) = None"
  "rix Q6 = 40"
  unfolding Q6_eq
  by (simp_all add: tail_fields update_fall_rix landed_fields landed_store landed_score
        landed_perfectStreak landed_isFever landed_notifications landed_player landed_rix
        land_def landingNotes_def perfectHit_def Q5_move config)

lemma Q5_first: "firstLanding R1 (Frame 96 0) Q5 = None"
  by (simp add: Q5_fields(1) Q5_landing)

lemma wf_Q5: "wf Q5" and pinned_Q5: "pinned Q5"
  using reachable_inv[OF reachable_Q5] by simp_all

lemma Q5_loop: "loop R1 96 0 Q5 = Inr Q6"
  by (simp add: Q6_def loop_afterFrame[OF wf_Q5 Q5_fields(1)])

lemma reachable_Q6: "reachable R1 Q6"
  by (rule reachable.step[OF reachable_Q5, of "Frame 96 0"]) (simp_all add: Q5_loop)

lemma Q6_refs: "refs_ok (Q6\<lparr> lastTime := 112 \<rparr>)"
  by (simp add: refs_ok_def Q6_fields)

lemma Q6_store:
  "store (update_move 0 (Q6\<lparr> lastTime := 112 \<rparr>)) =
     [\<lparr> plat_x = 300, plat_y = 520, plat_width = 200, plat_height = 20,
        plat_color = NEON_MAGENTA, plat_vx = 0, passed = False, landedOn = False \<rparr>,
      \<lparr> plat_x = 60179 / 128, plat_y = 370, plat_width = 130, plat_height = 20,
        plat_color = NEON_LIME, plat_vx = - (7 / 2), passed = False, landedOn = False \<rparr>,
      \<lparr> plat_x = 163573 / 256, plat_y = 220, plat_width = 130, plat_height = 20,
        plat_color = NEON_LIME, plat_vx = - (7 / 2), passed = False, landedOn = False \<rparr>,
      \<lparr> plat_x = 36943 / 256, plat_y = 70, plat_width = 130, plat_height = 20,
        plat_color = NEON_LIME, plat_vx = - (7 / 2), passed = False, landedOn = False \<rparr>,
      \<lparr> plat_x = 621 / 2, plat_y = - 80, plat_width = 130, plat_height = 20,
        plat_color = NEON_LIME, plat_vx = - (7 / 2), passed = False, landedOn = False \<rparr>,
      \<lparr> plat_x = 621 / 2, plat_y = - 230, plat_width = 130, plat_height = 20,
        plat_color = NEON_LIME, plat_vx = - (7 / 2), passed = False, landedOn = False \<rparr>]"
  by (simp add: update_move_eq[OF Q6_refs] Q6_fields advance_def speedMultiplier_def Let_def)

lemma Q6_player:
  "ply_x (player (update_move 0 (Q6\<lparr> lastTime := 112 \<rparr>))) = 400"
  "ply_y (player (update_move 0 (Q6\<lparr> lastTime := 112 \<rparr>))) = 409"
  "ply_vy (player (update_move 0 (Q6\<lparr> lastTime := 112 \<rparr>))) = - (23 / 2)"
  "ply_width (player (update_move 0 (Q6\<lparr> lastTime := 112 \<rparr>))) = 40"
  "ply_height (player (update_move 0 (Q6\<lparr> lastTime := 112 \<rparr>))) = 40"
  "ply_color (player (update_move 0 (Q6\<lparr> lastTime := 112 \<rparr>))) = NEON_CYAN"
  "jumps (player (update_move 0 (Q6\<lparr> lastTime := 112 \<rparr>))) = 1"
  "currentPlatform (player (update_move 0 (Q6\<lparr> lastTime := 112 \<rparr>))) = None"
  unfolding update_move_player_eq[OF Q6_refs] Q6_store
  by (simp_all add: Q6_fields Player_physics_def carry_def speedMultiplier_def Let_def config)

lemmas Q6_move = Q6_store Q6_player update_move_fields[OF Q6_refs] Q6_fields

lemma Q6_preCollision:
  "preCollision R1 112 0 Q6 = update_move 0 (Q6\<lparr> lastTime := 112 \<rparr>)"
  by (simp add: preCollision_def afterScroll_def scrolls_def Q6_move)

lemma Q6_landing:
  "landingPlatform (preCollision R1 112 0 Q6) = None"
  by (simp add: Q6_preCollision landingPlatform_def hits_def Let_def Q6_move)

lemma Q7_eq:
  "Q7 = update_cosmetics (update_fall R1 (update_move 0 (Q6\<lparr> lastTime := 112 \<rparr>)))"
  using Q6_landing
  by (simp add: Q7_def afterFrame_def update_collision_eq Q6_preCollision)

lemma Q7_fields:
  "state Q7 = Playing"
  "score Q7 = 0"
  "perfectStreak Q7 = 0"
  "isFever Q7 = False"
  "viewportWidth Q7 = 800"
  "viewportHeight Q7 = 600"
  "platforms Q7 = [0, 1, 2, 3, 4, 5]"
  "notifications Q7 = [ScoreUpdate 0, ComboChange 0, FeverChange False, GameStateChange Playing]"
  "store Q7 =
     [\<lparr> plat_x = 300, plat_y = 520, plat_width = 200, plat_height = 20,
        plat_color = NEON_MAGENTA, plat_vx = 0, passed = False, landedOn = False \<rparr>,
      \<lparr> plat_x = 60179 / 128, plat_y = 370, plat_width = 130, plat_height = 20,
        plat_color = NEON_LIME, plat_vx = - (7 / 2), passed = False, landedOn = False \<rparr>,
      \<lparr> plat_x = 163573 / 256, plat_y = 220, plat_width = 130, plat_height = 20,
        plat_color = NEON_LIME, plat_vx = - (7 / 2), passed = False, landedOn = False \<rparr>,
      \<lparr> plat_x = 36943 / 256, plat_y = 70, plat_width = 130, plat_height = 20,
        plat_color = NEON_LIME, plat_vx = - (7 / 2), passed = False, landedOn = False \<rparr>,
      \<lparr> plat_x = 621 / 2, plat_y = - 80, plat_width = 130, plat_height = 20,
        plat_color = NEON_LIME, plat_vx = - (7 / 2), passed = False, landedOn = False \<rparr>,
      \<lparr> plat_x = 621 / 2, plat_y = - 230, plat_width = 130, plat_height = 20,
        plat_color = NEON_LIME, plat_vx = - (7 / 2), passed = False, landedOn = False \<rparr>]"
  "ply_x (player Q7) = 400"
  "ply_y (player Q7) = 409"
  "ply_vy (player Q7) = - (23 / 2)"
  "ply_width (player Q7) = 40"
  "ply_height (player Q7) = 40"
  "ply_color (player Q7) = NEON_CYAN"
  "jumps (player Q7) = 1"
  "currentPlatform (player Q7) = None"
  "rix Q7 = 40"
  unfolding Q7_eq
  by (simp_all add: tail_fields update_fall_rix landed_fields landed_store landed_score
        landed_perfectStreak landed_isFever landed_notifications landed_player landed_rix
        land_def landingNotes_def perfectHit_def Q6_move config)

lemma Q6_first: "firstLanding R1 (Frame 112 0) Q6 = None"
  by (simp add: Q6_fields(1) Q6_landing)

lemma wf_Q6: "wf Q6" and pinned_Q6: "pinned Q6"
  using reachable_inv[OF reachable_Q6] by simp_all

lemma Q6_loop: "loop R1 112 0 Q6 = Inr Q7"
  by (simp add: Q7_def loop_afterFrame[OF wf_Q6 Q6_fields(1)])

lemma reachable_Q7: "reachable R1 Q7"
  by (rule reachable.step[OF reachable_Q6, of "Frame 112 0"]) (simp_all add: Q6_loop)

lemma Q7_refs: "refs_ok (Q7\<lparr> lastTime := 128 \<rparr>)"
  by (simp add: refs_ok_def Q7_fields)

lemma Q7_store:
  "store (update_move 0 (Q7\<lparr> lastTime := 128 \<rparr>)) =
     [\<lparr> plat_x = 300, plat_y = 520, plat_width = 200, plat_height = 20,
        plat_color = NEON_MAGENTA, plat_vx = 0, passed = False, landedOn = False \<rparr>,
      \<lparr> plat_x = 59731 / 128, plat_y = 370, plat_width = 130, plat_height = 20,
        plat_color = NEON_LIME, plat_vx = - (7 / 2), passed = False, landedOn = False \<rparr>,
      \<lparr> plat_x = 162677 / 256, plat_y = 220, plat_width = 130, plat_height = 20,
        plat_color = NEON_LIME, plat_vx = - (7 / 2), passed = False, landedOn = False \<rparr>,
      \<lparr> plat_x = 36047 / 256, plat_y = 70, plat_width = 130, plat_height = 20,
        plat_color = NEON_LIME, plat_vx = - (7 / 2), passed = False, landedOn = False \<rparr>,
      \<lparr> plat_x = 307, plat_y = - 80, plat_width = 130, plat_height = 20,
        plat_color = NEON_LIME, plat_vx = - (7 / 2), passed = False, landedOn = False \<rparr>,
      \<lparr> plat_x = 307, plat_y = - 230, plat_width = 130, plat_height = 20,
        plat_color = NEON_LIME, plat_vx = - (7 / 2), passed = False, landedOn = False \<rparr>]"
  by (simp add: update_move_eq[OF Q7_refs] Q7_fields advance_def speedMultiplier_def Let_def)

lemma Q7_player:
  "ply_x (player (update_move 0 (Q7\<lparr> lastTime := 128 \<rparr>))) = 400"
  "ply_y (player (update_move 0 (Q7\<lparr> lastTime := 128 \<rparr>))) = 398"
  "ply_vy (player (update_move 0 (Q7\<lparr> lastTime := 128 \<rparr>))) = - 11"
  "ply_width (player (update_move 0 (Q7\<lparr> lastTime := 128 \<rparr>))) = 40"
  "ply_height (player (update_move 0 (Q7\<lparr> lastTime := 128 \<rparr>))) = 40"
  "ply_color (player (update_move 0 (Q7\<lparr> lastTime := 128 \<rparr>))) = NEON_CYAN"
  "jumps (player (update_move 0 (Q7\<lparr> lastTime := 128 \<rparr>))) = 1"
  "currentPlatform (player (update_move 0 (Q7\<lparr> lastTime := 128 \<rparr>))) = None"
  unfolding update_move_player_eq[OF Q7_refs] Q7_store
  by (simp_all add: Q7_fields Player_physics_def carry_def speedMultiplier_def Let_def config)

lemmas Q7_move = Q7_store Q7_player update_move_fields[OF Q7_refs] Q7_fields

lemma Q7_preCollision:
  "preCollision R1 128 0 Q7 = update_move 0 (Q7\<lparr> lastTime := 128 \<rparr>)"
  by (simp add: preCollision_def afterScroll_def scrolls_def Q7_move)

lemma Q7_landing:
  "landingPlatform (preCollision R1 128 0 Q7) = None"
  by (simp add: Q7_preCollision landingPlatform_def hits_def Let_def Q7_move)

lemma Q8_eq:
  "Q8 = update_cosmetics (update_fall R1 (update_move 0 (Q7\<lparr> lastTime := 128 \<rparr>)))"
  using Q7_landing
  by (simp add: Q8_def afterFrame_def update_collision_eq Q7_preCollision)

lemma Q8_fields:
  "state Q8 = Playing"
  "score Q8 = 0"
  "perfectStreak Q8 = 0"
  "isFever Q8 = False"
  "viewportWidth Q8 = 800"
  "viewportHeight Q8 = 600"
  "platforms Q8 = [0, 1, 2, 3, 4, 5]"
  "notifications Q8 = [ScoreUpdate 0, ComboChange 0, FeverChange False, GameStateChange Playing]"
  "store Q8 =
     [\<lparr> plat_x = 300, plat_y = 520, plat_width = 200, plat_height = 20,
        plat_color = NEON_MAGENTA, plat_vx = 0, passed = False, landedOn = False \<rparr>,
      \<lparr> plat_x = 59731 / 128, plat_y = 370, plat_width = 130, plat_height = 20,
        plat_color = NEON_LIME, plat_vx = - (7 / 2), passed = False, landedOn = False \<rparr>,
      \<lparr> plat_x = 162677 / 256, plat_y = 220, plat_width = 130, plat_height = 20,
        plat_color = NEON_LIME, plat_vx = - (7 / 2), passed = False, landedOn = False \<rparr>,
      \<lparr> plat_x = 36047 / 256, plat_y = 70, plat_width = 130, plat_height = 20,
        plat_color = NEON_LIME, plat_vx = - (7 / 2), passed = False, landedOn = False \<rparr>,
      \<lparr> plat_x = 307, plat_y = - 80, plat_width = 130, plat_height = 20,
        plat_color = NEON_LIME, plat_vx = - (7 / 2), passed = False, landedOn = False \<rparr>,
      \<lparr> plat_x = 307, plat_y = - 230, plat_width = 130, plat_height = 20,
        plat_color = NEON_LIME, plat_vx = - (7 / 2), passed = False, landedOn = False \<rparr>]"
  "ply_x (player Q8) = 400"
  "ply_y (player Q8) = 398"
  "ply_vy (player Q8) = - 11"
  "ply_width (player Q8) = 40"
  "ply_height (player Q8) = 40"
  "ply_color (player Q8) = NEON_CYAN"
  "jumps (player Q8) = 1"
  "currentPlatform (player Q8) = None"
  "rix Q8 = 40"
  unfolding Q8_eq
  by (simp_all add: tail_fields update_fall_rix landed_fields landed_store landed_score
        landed_perfectStreak landed_isFever landed_notifications landed_player landed_rix
        land_def landingNotes_def perfectHit_def Q7_move config)

lemma Q7_first: "firstLanding R1 (Frame 128 0) Q7 = None"
  by (simp add: Q7_fields(1) Q7_landing)

lemma wf_Q7: "wf Q7" and pinned_Q7: "pinned Q7"
  using reachable_inv[OF reachable_Q7] by simp_all

lemma Q7_loop: "loop R1 128 0 Q7 = Inr Q8"
  by (simp add: Q8_def loop_afterFrame[OF wf_Q7 Q7_fields(1)])

lemma reachable_Q8: "reachable R1 Q8"
  by (rule reachable.step[OF reachable_Q7, of "Frame 128 0"]) (simp_all add: Q7_loop)

lemma Q8_refs: "refs_ok (Q8\<lparr> lastTime := 144 \<rparr>)"
  by (simp add: refs_ok_def Q8_fields)

lemma Q8_store:
  "store (update_move 0 (Q8\<lparr> lastTime := 144 \<rparr>)) =
     [\<lparr> plat_x = 300, plat_y = 520, plat_width = 200, plat_height = 20,
        plat_color = NEON_MAGENTA, plat_vx = 0, passed = False, landedOn = False \<rparr>,
      \<lparr> plat_x = 59283 / 128, plat_y = 370, plat_width = 130, plat_height = 20,
        plat_color = NEON_LIME, plat_vx = - (7 / 2), passed = False, landedOn = False \<rparr>,
      \<lparr> plat_x = 161781 / 256, plat_y = 220, plat_width = 130, plat_height = 20,
        plat_color = NEON_LIME, plat_vx = - (7 / 2), passed = False, landedOn = False \<rparr>,
      \<lparr> plat_x = 35151 / 256, plat_y = 70, plat_width = 130, plat_height = 20,
        plat_color = NEON_LIME, plat_vx = - (7 / 2), passed = False, landedOn = False \<rparr>,
      \<lparr> plat_x = 607 / 2, plat_y = - 80, plat_width = 130, plat_height = 20,
        plat_color = NEON_LIME, plat_vx = - (7 / 2), passed = False, landedOn = False \<rparr>,
      \<lparr> plat_x = 607 / 2, plat_y = - 230, plat_width = 130, plat_height = 20,
        plat_color = NEON_LIME, plat_vx = - (7 / 2), passed = False, landedOn = False \<rparr>]"
  by (simp add: update_move_eq[OF Q8_refs] Q8_fields advance_def speedMultiplier_def Let_def)

lemma Q8_player:
  "ply_x (player (update_move 0 (Q8\<lparr> lastTime := 144 \<rparr>))) = 400"
  "ply_y (player (update_move 0 (Q8\<lparr> lastTime := 144 \<rparr>))) = 775 / 2"
  "ply_vy (player (update_move 0 (Q8\<lparr> lastTime := 144 \<rparr>))) = - (21 / 2)"
  "ply_width (player (update_move 0 (Q8\<lparr> lastTime := 144 \<rparr>))) = 40"
  "ply_height (player (update_move 0 (Q8\<lparr> lastTime := 144 \<rparr>))) = 40"
  "ply_color (player (update_move 0 (Q8\<lparr> lastTime := 144 \<rparr>))) = NEON_CYAN"
  "jumps (player (update_move 0 (Q8\<lparr> lastTime := 144 \<rparr>))) = 1"
  "currentPlatform (player (update_move 0 (Q8\<lparr> lastTime := 144 \<rparr>))) = None"
  unfolding update_move_player_eq[OF Q8_refs] Q8_store
  by (simp_all add: Q8_fields Player_physics_def carry_def speedMultiplier_def Let_def config)

lemmas Q8_move = Q8_store Q8_player update_move_fields[OF Q8_refs] Q8_fields

lemma Q8_preCollision:
  "preCollision R1 144 0 Q8 = update_move 0 (Q8\<lparr> lastTime := 144 \<rparr>)"
  by (simp add: preCollision_def afterScroll_def scrolls_def Q8_move)

lemma Q8_landing:
  "landingPlatform (preCollision R1 144 0 Q8) = None"
  by (simp add: Q8_preCollision landingPlatform_def hits_def Let_def Q8_move)

lemma Q9_eq:
  "Q9 = update_cosmetics (update_fall R1 (update_move 0 (Q8\<lparr> lastTime := 144 \<rparr>)))"
  using Q8_landing
  by (simp add: Q9_def afterFrame_def update_collision_eq Q8_preCollision)

lemma Q9_fields:
  "state Q9 = Playing"
  "score Q9 = 0"
  "perfectStreak Q9 = 0"
  "isFever Q9 = False"
  "viewportWidth Q9 = 800"
  "viewportHeight Q9 = 600"
  "platforms Q9 = [0, 1, 2, 3, 4, 5]"
  "notifications Q9 = [ScoreUpdate 0, ComboChange 0, FeverChange False, GameStateChange Playing]"
  "store Q9 =
     [\<lparr> plat_x = 300, plat_y = 520, plat_width = 200, plat_height = 20,
        plat_color = NEON_MAGENTA, plat_vx = 0, passed = False, landedOn = False \<rparr>,
      \<lparr> plat_x = 59283 / 128, plat_y = 370, plat_width = 130, plat_height = 20,
        plat_color = NEON_LIME, plat_vx = - (7 / 2), passed = False, landedOn = False \<rparr>,
      \<lparr> plat_x = 161781 / 256, plat_y = 220, plat_width = 130, plat_height = 20,
        plat_color = NEON_LIME, plat_vx = - (7 / 2), passed = False, landedOn = False \<rparr>,
      \<lparr> plat_x = 35151 / 256, plat_y = 70, plat_width = 130, plat_height = 20,
        plat_color = NEON_LIME, plat_vx = - (7 / 2), passed = False, landedOn = False \<rparr>,
      \<lparr> plat_x = 607 / 2, plat_y = - 80, plat_width = 130, plat_height = 20,
        plat_color = NEON_LIME, plat_vx = - (7 / 2), passed = False, landedOn = False \<rparr>,
      \<lparr> plat_x = 607 / 2, plat_y = - 230, plat_width = 130, plat_height = 20,
        plat_color = NEON_LIME, plat_vx = - (7 / 2), passed = False, landedOn = False \<rparr>]"
  "ply_x (player Q9) = 400"
  "ply_y (player Q9) = 775 / 2"
  "ply_vy (player Q9) = - (21 / 2)"
  "ply_width (player Q9) = 40"
  "ply_height (player Q9) = 40"
  "ply_color (player Q9) = NEON_CYAN"
  "jumps (player Q9) = 1"
  "currentPlatform (player Q9) = None"
  "rix Q9 = 40"
  unfolding Q9_eq
  by (simp_all add: tail_fields update_fall_rix landed_fields landed_store landed_score
        landed_perfectStreak landed_isFever landed_notifications landed_player landed_rix
        land_def landingNotes_def perfectHit_def Q8_move config)

lemma Q8_first: "firstLanding R1 (Frame 144 0) Q8 = None"
  by (simp add: Q8_fields(1) Q8_landing)

lemma wf_Q8: "wf Q8" and pinned_Q8: "pinned Q8"
  using reachable_inv[OF reachable_Q8] by simp_all

lemma Q8_loop: "loop R1 144 0 Q8 = Inr Q9"
  by (simp add: Q9_def loop_afterFrame[OF wf_Q8 Q8_fields(1)])

lemma reachable_Q9: "reachable R1 Q9"
  by (rule reachable.step[OF reachable_Q8, of "Frame 144 0"]) (simp_all add: Q8_loop)

lemma Q9_refs: "refs_ok (Q9\<lparr> lastTime := 160 \<rparr>)"
  by (simp add: refs_ok_def Q9_fields)

lemma Q9_store:
  "store (update_move 0 (Q9\<lparr> lastTime := 160 \<rparr>)) =
     [\<lparr> plat_x = 300, plat_y = 520, plat_width = 200, plat_height = 20,
        plat_color = NEON_MAGENTA, plat_vx = 0, passed = False, landedOn = False \<rparr>,
      \<lparr> plat_x = 58835 / 128, plat_y = 370, plat_width = 130, plat_height = 20,
        plat_color = NEON_LIME, plat_vx = - (7 / 2), passed = False, landedOn = False \<rparr>,
      \<lparr> plat_x = 160885 / 256, plat_y = 220, plat_width = 130, plat_height = 20,
        plat_color = NEON_LIME, plat_vx = - (7 / 2), passed = False, landedOn = False \<rparr>,
      \<lparr> plat_x = 34255 / 256, plat_y = 70, plat_width = 130, plat_height = 20,
        plat_color = NEON_LIME, plat_vx = - (7 / 2), passed = False, landedOn = False \<rparr>,
      \<lparr> plat_x = 300, plat_y = - 80, plat_width = 130, plat_height = 20,
        plat_color = NEON_LIME, plat_vx = - (7 / 2), passed = False, landedOn = False \<rparr>,
      \<lparr> plat_x = 300, plat_y = - 230, plat_width = 130, plat_height = 20,
        plat_color = NEON_LIME, plat_vx = - (7 / 2), passed = False, landedOn = False \<rparr>]"
  by (simp add: update_move_eq[OF Q9_refs] Q9_fields advance_def speedMultiplier_def Let_def)

lemma Q9_player:
  "ply_x (player (update_move 0 (Q9\<lparr> lastTime := 160 \<rparr>))) = 400"
  "ply_y (player (update_move 0 (Q9\<lparr> lastTime := 160 \<rparr>))) = 755 / 2"
  "ply_vy (player (update_move 0 (Q9\<lparr> lastTime := 160 \<rparr>))) = - 10"
  "ply_width (player (update_move 0 (Q9\<lparr> lastTime := 160 \<rparr>))) = 40"
  "ply_height (player (update_move 0 (Q9\<lparr> lastTime := 160 \<rparr>))) = 40"
  "ply_color (player (update_move 0 (Q9\<lparr> lastTime := 160 \<rparr>))) = NEON_CYAN"
  "jumps (player (update_move 0 (Q9\<lparr> lastTime := 160 \<rparr>))) = 1"
  "currentPlatform (player (update_move 0 (Q9\<lparr> lastTime := 160 \<rparr>))) = None"
  unfolding update_move_player_eq[OF Q9_refs] Q9_store
  by (simp_all add: Q9_fields Player_physics_def carry_def speedMultiplier_def Let_def config)

lemmas Q9_move = Q9_store Q9_player update_move_fields[OF Q9_refs] Q9_fields

lemma Q9_preCollision:
  "preCollision R1 160 0 Q9 = update_move 0 (Q9\<lparr> lastTime := 160 \<rparr>)"
  by (simp add: preCollision_def afterScroll_def scrolls_def Q9_move)

lemma Q9_landing:
  "landingPlatform (preCollision R1 160 0 Q9) = None"
  by (simp add: Q9_preCollision landingPlatform_def hits_def Let_def Q9_move)

lemma Q10_eq:
  "Q10 = update_cosmetics (update_fall R1 (update_move 0 (Q9\<lparr> lastTime := 160 \<rparr>)))"
  using Q9_landing
  by (simp add: Q10_def afterFrame_def update_collision_eq Q9_preCollision)

lemma Q10_fields:
  "state Q10 = Playing"
  "score Q10 = 0"
  "perfectStreak Q10 = 0"
  "isFever Q10 = False"
  "viewportWidth Q10 = 800"
  "viewportHeight Q10 = 600"
  "platforms Q10 = [0, 1, 2, 3, 4, 5]"
  "notifications Q10 = [ScoreUpdate 0, ComboChange 0, FeverChange False, GameStateChange Playing]"
  "store Q10 =
     [\<lparr> plat_x = 300, plat_y = 520, plat_width = 200, plat_height = 20,
        plat_color = NEON_MAGENTA, plat_vx = 0, passed = False, landedOn = False \<rparr>,
      \<lparr> plat_x = 58835 / 128, plat_y = 370, plat_width = 130, plat_height = 20,
        plat_color = NEON_LIME, plat_vx = - (7 / 2), passed = False, landedOn = False \<rparr>,
      \<lparr> plat_x = 160885 / 256, plat_y = 220, plat_width = 130, plat_height = 20,
        plat_color = NEON_LIME, plat_vx = - (7 / 2), passed = False, landedOn = False \<rparr>,
      \<lparr> plat_x = 34255 / 256, plat_y = 70, plat_width = 130, plat_height = 20,
        plat_color = NEON_LIME, plat_vx = - (7 / 2), passed = False, landedOn = False \<rparr>,
      \<lparr> plat_x = 300, plat_y = - 80, plat_width = 130, plat_height = 20,
        plat_color = NEON_LIME, plat_vx = - (7 / 2), passed = False, landedOn = False \<rparr>,
      \<lparr> plat_x = 300, plat_y = - 230, plat_width = 130, plat_height = 20,
        plat_color = NEON_LIME, plat_vx = - (7 / 2), passed = False, landedOn = False \<rparr>]"
  "ply_x (player Q10) = 400"
  "ply_y (player Q10) = 755 / 2"
  "ply_vy (player Q10) = - 10"
  "ply_width (player Q10) = 40"
  "ply_height (player Q10) = 40"
  "ply_color (player Q10) = NEON_CYAN"
  "jumps (player Q10) = 1"
  "currentPlatform (player Q10) = None"
  "rix Q10 = 40"
  unfolding Q10_eq
  by (simp_all add: tail_fields update_fall_rix landed_fields landed_store landed_score
        landed_perfectStreak landed_isFever landed_notifications landed_player landed_rix
        land_def landingNotes_def perfectHit_def Q9_move config)

lemma Q9_first: "firstLanding R1 (Frame 160 0) Q9 = None"
  by (simp add: Q9_fields(1) Q9_landing)

lemma wf_Q9: "wf Q9" and pinned_Q9: "pinned Q9"
  using reachable_inv[OF reachable_Q9] by simp_all

lemma Q9_loop: "loop R1 160 0 Q9 = Inr Q10"
  by (simp add: Q10_def loop_afterFrame[OF wf_Q9 Q9_fields(1)])

lemma reachable_Q10: "reachable R1 Q10"
  by (rule reachable.step[OF reachable_Q9, of "Frame 160 0"]) (simp_all add: Q9_loop)

lemma Q10_refs: "refs_ok (Q10\<lparr> lastTime := 176 \<rparr>)"
  by (simp add: refs_ok_def Q10_fields)

lemma Q10_store:
  "store (update_move 0 (Q10\<lparr> lastTime := 176 \<rparr>)) =
     [\<lparr> plat_x = 300, plat_y = 520, plat_width = 200, plat_height = 20,
        plat_color = NEON_MAGENTA, plat_vx = 0, passed = False, landedOn = False \<rparr>,
      \<lparr> plat_x = 58387 / 128, plat_y = 370, plat_width = 130, plat_height = 20,
        plat_color = NEON_LIME, plat_vx = - (7 / 2), passed = False, landedOn = False \<rparr>,
      \<lparr> plat_x = 159989 / 256, plat_y = 220, plat_width = 130, plat_height = 20,
        plat_color = NEON_LIME, plat_vx = - (7 / 2), passed = False, landedOn = False \<rparr>,
      \<lparr> plat_x = 33359 / 256, plat_y = 70, plat_width = 130, plat_height = 20,
        plat_color = NEON_LIME, plat_vx = - (7 / 2), passed = False, landedOn = False \<rparr>,
      \<lparr> plat_x = 593 / 2, plat_y = - 80, plat_width = 130, plat_height = 20,
        plat_color = NEON_LIME, plat_vx = - (7 / 2), passed = False, landedOn = False \<rparr>,
      \<lparr> plat_x = 593 / 2, plat_y = - 230, plat_width = 130, plat_height = 20,
        plat_color = NEON_LIME, plat_vx = - (7 / 2), passed = False, landedOn = False \<rparr>]"
  by (simp add: update_move_eq[OF Q10_refs] Q10_fields advance_def speedMultiplier_def Let_def)

lemma Q10_player:
  "ply_x (player (update_move 0 (Q10\<lparr> lastTime := 176 \<rparr>))) = 400"
  "ply_y (player (update_move 0 (Q10\<lparr> lastTime := 176 \<rparr>))) = 368"
  "ply_vy (player (update_move 0 (Q10\<lparr> lastTime := 176 \<rparr>))) = - (19 / 2)"
  "ply_width (player (update_move 0 (Q10\<lparr> lastTime := 176 \<rparr>))) = 40"
  "ply_height (player (update_move 0 (Q10\<lparr> lastTime := 176 \<rparr>))) = 40"
  "ply_color (player (update_move 0 (Q10\<lparr> lastTime := 176 \<rparr>))) = NEON_CYAN"
  "jumps (player (update_move 0 (Q10\<lparr> lastTime := 176 \<rparr>))) = 1"
  "currentPlatform (player (update_move 0 (Q10\<lparr> lastTime := 176 \<rparr>))) = None"
  unfolding update_move_player_eq[OF Q10_refs] Q10_store
  by (simp_all add: Q10_fields Player_physics_def carry_def speedMultiplier_def Let_def config)

lemmas Q10_move = Q10_store Q10_player update_move_fields[OF Q10_refs] Q10_fields

lemma Q10_preCollision:
  "preCollision R1 176 0 Q10 = update_move 0 (Q10\<lparr> lastTime := 176 \<rparr>)"
  by (simp add: preCollision_def afterScroll_def scrolls_def Q10_move)

lemma Q10_landing:
  "landingPlatform (preCollision R1 176 0 Q10) = None"
  by (simp add: Q10_preCollision landingPlatform_def hits_def Let_def Q10_move)

lemma Q11_eq:
  "Q11 = update_cosmetics (update_fall R1 (update_move 0 (Q10\<lparr> lastTime := 176 \<rparr>)))"
  using Q10_landing
  by (simp add: Q11_def afterFrame_def update_collision_eq Q10_preCollision)

lemma Q11_fields:
  "state Q11 = Playing"
  "score Q11 = 0"
  "perfectStreak Q11 = 0"
  "isFever Q11 = False"
  "viewportWidth Q11 = 800"
  "viewportHeight Q11 = 600"
  "platforms Q11 = [0, 1, 2, 3, 4, 5]"
  "notifications Q11 = [ScoreUpdate 0, ComboChange 0, FeverChange False, GameStateChange Playing]"
  "store Q11 =
     [\<lparr> plat_x = 300, plat_y = 520, plat_width = 200, plat_height = 20,
        plat_color = NEON_MAGENTA, plat_vx = 0, passed = False, landedOn = False \<rparr>,
      \<lparr> plat_x = 58387 / 128, plat_y = 370, plat_width = 130, plat_height = 20,
        plat_color = NEON_LIME, plat_vx = - (7 / 2), passed = False, landedOn = False \<rparr>,
      \<lparr> plat_x = 159989 / 256, plat_y = 220, plat_width = 130, plat_height = 20,
        plat_color = NEON_LIME, plat_vx = - (7 / 2), passed = False, landedOn = False \<rparr>,
      \<lparr> plat_x = 33359 / 256, plat_y = 70, plat_width = 130, plat_height = 20,
        plat_color = NEON_LIME, plat_vx = - (7 / 2), passed = False, landedOn = False \<rparr>,
      \<lparr> plat_x = 593 / 2, plat_y = - 80, plat_width = 130, plat_height = 20,
        plat_color = NEON_LIME, plat_vx = - (7 / 2), passed = False, landedOn = False \<rparr>,
      \<lparr> plat_x = 593 / 2, plat_y = - 230, plat_width = 130, plat_height = 20,
        plat_color = NEON_LIME, plat_vx = - (7 / 2), passed = False, landedOn = False \<rparr>]"
  "ply_x (player Q11) = 400"
  "ply_y (player Q11) = 368"
  "ply_vy (player Q11) = - (19 / 2)"
  "ply_width (player Q11) = 40"
  "ply_height (player Q11) = 40"
  "ply_color (player Q11) = NEON_CYAN"
  "jumps (player Q11) = 1"
  "currentPlatform (player Q11) = None"
  "rix Q11 = 40"
  unfolding Q11_eq
  by (simp_all add: tail_fields update_fall_rix landed_fields landed_store landed_score
        landed_perfectStreak landed_isFever landed_notifications landed_player landed_rix
        land_def landingNotes_def perfectHit_def Q10_move config)

lemma Q10_first: "firstLanding R1 (Frame 176 0) Q10 = None"
  by (simp add: Q10_fields(1) Q10_landing)

lemma wf_Q10: "wf Q10" and pinned_Q10: "pinned Q10"
  using reachable_inv[OF reachable_Q10] by simp_all

lemma Q10_loop: "loop R1 176 0 Q10 = Inr Q11"
  by (simp add: Q11_def loop_afterFrame[OF wf_Q10 Q10_fields(1)])

lemma reachable_Q11: "reachable R1 Q11"
  by (rule reachable.step[OF reachable_Q10, of "Frame 176 0"]) (simp_all add: Q10_loop)

lemma Q11_refs: "refs_ok (Q11\<lparr> lastTime := 192 \<rparr>)"
  by (simp add: refs_ok_def Q11_fields)

lemma Q11_store:
  "store (update_move 0 (Q11\<lparr> lastTime := 192 \<rparr>)) =
     [\<lparr> plat_x = 300, plat_y = 520, plat_width = 200, plat_height = 20,
        plat_color = NEON_MAGENTA, plat_vx = 0, passed = False, landedOn = False \<rparr>,
      \<lparr> plat_x = 57939 / 128, plat_y = 370, plat_width = 130, plat_height = 20,
        plat_color = NEON_LIME, plat_vx = - (7 / 2), passed = False, landedOn = False \<rparr>,
      \<lparr> plat_x = 159093 / 256, plat_y = 220, plat_width = 130, plat_height = 20,
        plat_color = NEON_LIME, plat_vx = - (7 / 2), passed = False, landedOn = False \<rparr>,
      \<lparr> plat_x = 32463 / 256, plat_y = 70, plat_width = 130, plat_height = 20,
        plat_color = NEON_LIME, plat_vx = - (7 / 2), passed = False, landedOn = False \<rparr>,
      \<lparr> plat_x = 293, plat_y = - 80, plat_width = 130, plat_height = 20,
        plat_color = NEON_LIME, plat_vx = - (7 / 2), passed = False, landedOn = False \<rparr>,
      \<lparr> plat_x = 293, plat_y = - 230, plat_width = 130, plat_height = 20,
        plat_color = NEON_LIME, plat_vx = - (7 / 2), passed = False, landedOn = False \<rparr>]"
  by (simp add: update_move_eq[OF Q11_refs] Q11_fields advance_def speedMultiplier_def Let_def)

lemma Q11_player:
  "ply_x (player (update_move 0 (Q11\<lparr> lastTime := 192 \<rparr>))) = 400"
  "ply_y (player (update_move 0 (Q11\<lparr> lastTime := 192 \<rparr>))) = 359"
  "ply_vy (player (update_move 0 (Q11\<lparr> lastTime := 192 \<rparr>))) = - 9"
  "ply_width (player (update_move 0 (Q11\<lparr> lastTime := 192 \<rparr>))) = 40"
  "ply_height (player (update_move 0 (Q11\<lparr> lastTime := 192 \<rparr>))) = 40"
  "ply_color (player (update_move 0 (Q11\<lparr> lastTime := 192 \<rparr>))) = NEON_CYAN"
  "jumps (player (update_move 0 (Q11\<lparr> lastTime := 192 \<rparr>))) = 1"
  "currentPlatform (player (update_move 0 (Q11\<lparr> lastTime := 192 \<rparr>))) = None"
  unfolding update_move_player_eq[OF Q11_refs] Q11_store
  by (simp_all add: Q11_fields Player_physics_def carry_def speedMultiplier_def Let_def config)

lemmas Q11_move = Q11_store Q11_player update_move_fields[OF Q11_refs] Q11_fields

lemma Q11_scroll:
  "scrolls (update_move 0 (Q11\<lparr> lastTime := 192 \<rparr>))"
  "scrollDiff (update_move 0 (Q11\<lparr> lastTime := 192 \<rparr>)) = 1"
  "\<not> recycles (update_move 0 (Q11\<lparr> lastTime := 192 \<rparr>))"
  "refs_ok (update_move 0 (Q11\<lparr> lastTime := 192 \<rparr>))"
  "platforms (update_move 0 (Q11\<lparr> lastTime := 192 \<rparr>)) \<noteq> []"
  by (simp_all add: scrolls_def scrollDiff_def recycles_def refs_ok_def Q11_move)

lemma Q11_landing:
  "landingPlatform (preCollision R1 192 0 Q11) = None"
  by (simp add: landingPlatform_def preCollision_def afterScroll_fields Q11_scroll Q11_move)

lemma Q12_eq:
  "Q12 = update_cosmetics (update_fall R1 (preCollision R1 192 0 Q11))"
  using Q11_landing
  by (simp add: Q12_def afterFrame_def update_collision_eq)

lemma Q12_fields:
  "state Q12 = Playing"
  "score Q12 = 0"
  "perfectStreak Q12 = 0"
  "isFever Q12 = False"
  "viewportWidth Q12 = 800"
  "viewportHeight Q12 = 600"
  "platforms Q12 = [0, 1, 2, 3, 4, 5]"
  "notifications Q12 = [ScoreUpdate 0, ComboChange 0, FeverChange False, GameStateChange Playing]"
  "store Q12 =
     [\<lparr> plat_x = 300, plat_y = 521, plat_width = 200, plat_height = 20,
        plat_color = NEON_MAGENTA, plat_vx = 0, passed = False, landedOn = False \<rparr>,
      \<lparr> plat_x = 57939 / 128, plat_y = 371, plat_width = 130, plat_height = 20,
        plat_color = NEON_LIME, plat_vx = - (7 / 2), passed = False, landedOn = False \<rparr>,
      \<lparr> plat_x = 159093 / 256, plat_y = 221, plat_width = 130, plat_height = 20,
        plat_color = NEON_LIME, plat_vx = - (7 / 2), passed = False, landedOn = False \<rparr>,
      \<lparr> plat_x = 32463 / 256, plat_y = 71, plat_width = 130, plat_height = 20,
        plat_color = NEON_LIME, plat_vx = - (7 / 2), passed = False, landedOn = False \<rparr>,
      \<lparr> plat_x = 293, plat_y = - 79, plat_width = 130, plat_height = 20,
        plat_color = NEON_LIME, plat_vx = - (7 / 2), passed = False, landedOn = False \<rparr>,
      \<lparr> plat_x = 293, plat_y = - 229, plat_width = 130, plat_height = 20,
        plat_color = NEON_LIME, plat_vx = - (7 / 2), passed = False, landedOn = False \<rparr>]"
  "ply_x (player Q12) = 400"
  "ply_y (player Q12) = 360"
  "ply_vy (player Q12) = - 9"
  "ply_width (player Q12) = 40"
  "ply_height (player Q12) = 40"
  "ply_color (player Q12) = NEON_CYAN"
  "jumps (player Q12) = 1"
  "currentPlatform (player Q12) = None"
  "rix Q12 = 40"
  unfolding Q12_eq tail_fields update_fall_rix preCollision_def
    afterScroll_store_list[OF Q11_scroll(4,5)]
  by (simp_all add: afterScroll_fields afterScroll_rix Q11_scroll Q11_move spawned_R1 config)

lemma Q11_first: "firstLanding R1 (Frame 192 0) Q11 = None"
  by (simp add: Q11_fields(1) Q11_landing)

lemma wf_Q11: "wf Q11" and pinned_Q11: "pinned Q11"
  using reachable_inv[OF reachable_Q11] by simp_all

lemma Q11_loop: "loop R1 192 0 Q11 = Inr Q12"
  by (simp add: Q12_def loop_afterFrame[OF wf_Q11 Q11_fields(1)])

lemma reachable_Q12: "reachable R1 Q12"
  by (rule reachable.step[OF reachable_Q11, of "Frame 192 0"]) (simp_all add: Q11_loop)

lemma Q12_refs: "refs_ok (Q12\<lparr> lastTime := 208 \<rparr>)"
  by (simp add: refs_ok_def Q12_fields)

lemma Q12_store:
  "store (update_move 0 (Q12\<lparr> lastTime := 208 \<rparr>)) =
     [\<lparr> plat_x = 300, plat_y = 521, plat_width = 200, plat_height = 20,
        plat_color = NEON_MAGENTA, plat_vx = 0, passed = False, landedOn = False \<rparr>,
      \<lparr> plat_x = 57491 / 128, plat_y = 371, plat_width = 130, plat_height = 20,
        plat_color = NEON_LIME, plat_vx = - (7 / 2), passed = False, landedOn = False \<rparr>,
      \<lparr> plat_x = 158197 / 256, plat_y = 221, plat_width = 130, plat_height = 20,
        plat_color = NEON_LIME, plat_vx = - (7 / 2), passed = False, landedOn = False \<rparr>,
      \<lparr> plat_x = 31567 / 256, plat_y = 71, plat_width = 130, plat_height = 20,
        plat_color = NEON_LIME, plat_vx = - (7 / 2), passed = False, landedOn = False \<rparr>,
      \<lparr> plat_x = 579 / 2, plat_y = - 79, plat_width = 130, plat_height = 20,
        plat_color = NEON_LIME, plat_vx = - (7 / 2), passed = False, landedOn = False \<rparr>,
      \<lparr> plat_x = 579 / 2, plat_y = - 229, plat_width = 130, plat_height = 20,
        plat_color = NEON_LIME, plat_vx = - (7 / 2), passed = False, landedOn = False \<rparr>]"
  by (simp add: update_move_eq[OF Q12_refs] Q12_fields advance_def speedMultiplier_def Let_def)

lemma Q12_player:
  "ply_x (player (update_move 0 (Q12\<lparr> lastTime := 208 \<rparr>))) = 400"
  "ply_y (player (update_move 0 (Q12\<lparr> lastTime := 208 \<rparr>))) = 703 / 2"
  "ply_vy (player (update_move 0 (Q12\<lparr> lastTime := 208 \<rparr>))) = - (17 / 2)"
  "ply_width (player (update_move 0 (Q12\<lparr> lastTime := 208 \<rparr>))) = 40"
  "ply_height (player (update_move 0 (Q12\<lparr> lastTime := 208 \<rparr>))) = 40"
  "ply_color (player (update_move 0 (Q12\<lparr> lastTime := 208 \<rparr>))) = NEON_CYAN"
  "jumps (player (update_move 0 (Q12\<lparr> lastTime := 208 \<rparr>))) = 1"
  "currentPlatform (player (update_move 0 (Q12\<lparr> lastTime := 208 \<rparr>))) = None"
  unfolding update_move_player_eq[OF Q12_refs] Q12_store
  by (simp_all add: Q12_fields Player_physics_def carry_def speedMultiplier_def Let_def config)

lemmas Q12_move = Q12_store Q12_player update_move_fields[OF Q12_refs] Q12_fields

lemma Q12_scroll:
  "scrolls (update_move 0 (Q12\<lparr> lastTime := 208 \<rparr>))"
  "scrollDiff (update_move 0 (Q12\<lparr> lastTime := 208 \<rparr>)) = 17 / 2"
  "\<not> recycles (update_move 0 (Q12\<lparr> lastTime := 208 \<rparr>))"
  "refs_ok (update_move 0 (Q12\<lparr> lastTime := 208 \<rparr>))"
  "platforms (update_move 0 (Q12\<lparr> lastTime := 208 \<rparr>)) \<noteq> []"
  by (simp_all add: scrolls_def scrollDiff_def recycles_def refs_ok_def Q12_move)

lemma Q12_landing:
  "landingPlatform (preCollision R1 208 0 Q12) = None"
  by (simp add: landingPlatform_def preCollision_def afterScroll_fields Q12_scroll Q12_move)

lemma Q13_eq:
  "Q13 = update_cosmetics (update_fall R1 (preCollision R1 208 0 Q12))"
  using Q12_landing
  by (simp add: Q13_def afterFrame_def update_collision_eq)

lemma Q13_fields:
  "state Q13 = Playing"
  "score Q13 = 0"
  "perfectStreak Q13 = 0"
  "isFever Q13 = False"
  "viewportWidth Q13 = 800"
  "viewportHeight Q13 = 600"
  "platforms Q13 = [0, 1, 2, 3, 4, 5]"
  "notifications Q13 = [ScoreUpdate 0, ComboChange 0, FeverChange False, GameStateChange Playing]"
  "store Q13 =
     [\<lparr> plat_x = 300, plat_y = 1059 / 2, plat_width = 200, plat_height = 20,
        plat_color = NEON_MAGENTA, plat_vx = 0, passed = False, landedOn = False \<rparr>,
      \<lparr> plat_x = 57491 / 128, plat_y = 759 / 2, plat_width = 130, plat_height = 20,
        plat_color = NEON_LIME, plat_vx = - (7 / 2), passed = False, landedOn = False \<rparr>,
      \<lparr> plat_x = 158197 / 256, plat_y = 459 / 2, plat_width = 130, plat_height = 20,
        plat_color = NEON_LIME, plat_vx = - (7 / 2), passed = False, landedOn = False \<rparr>,
      \<lparr> plat_x = 31567 / 256, plat_y = 159 / 2, plat_width = 130, plat_height = 20,
        plat_color = NEON_LIME, plat_vx = - (7 / 2), passed = False, landedOn = False \<rparr>,
      \<lparr> plat_x = 579 / 2, plat_y = - (141 / 2), plat_width = 130, plat_height = 20,
        plat_color = NEON_LIME, plat_vx = - (7 / 2), passed = False, landedOn = False \<rparr>,
      \<lparr> plat_x = 579 / 2, plat_y = - (441 / 2), plat_width = 130, plat_height = 20,
        plat_color = NEON_LIME, plat_vx = - (7 / 2), passed = False, landedOn = False \<rparr>]"
  "ply_x (player Q13) = 400"
  "ply_y (player Q13) = 360"
  "ply_vy (player Q13) = - (17 / 2)"
  "ply_width (player Q13) = 40"
  "ply_height (player Q13) = 40"
  "ply_color (player Q13) = NEON_CYAN"
  "jumps (player Q13) = 1"
  "currentPlatform (player Q13) = None"
  "rix Q13 = 40"
  unfolding Q13_eq tail_fields update_fall_rix preCollision_def
    afterScroll_store_list[OF Q12_scroll(4,5)]
  by (simp_all add: afterScroll_fields afterScroll_rix Q12_scroll Q12_move spawned_R1 config)

lemma Q12_first: "firstLanding R1 (Frame 208 0) Q12 = None"
  by (simp add: Q12_fields(1) Q12_landing)

lemma wf_Q12: "wf Q12" and pinned_Q12: "pinned Q12"
  using reachable_inv[OF reachable_Q12] by simp_all

lemma Q12_loop: "loop R1 208 0 Q12 = Inr Q13"
  by (simp add: Q13_def loop_afterFrame[OF wf_Q12 Q12_fields(1)])

lemma reachable_Q13: "reachable R1 Q13"
  by (rule reachable.step[OF reachable_Q12, of "Frame 208 0"]) (simp_all add: Q12_loop)

lemma Q13_refs: "refs_ok (Q13\<lparr> lastTime := 224 \<rparr>)"
  by (simp add: refs_ok_def Q13_fields)

lemma Q13_store:
  "store (update_move 0 (Q13\<lparr> lastTime := 224 \<rparr>)) =
     [\<lparr> plat_x = 300, plat_y = 1059 / 2, plat_width = 200, plat_height = 20,
        plat_color = NEON_MAGENTA, plat_vx = 0, passed = False, landedOn = False \<rparr>,
      \<lparr> plat_x = 57043 / 128, plat_y = 759 / 2, plat_width = 130, plat_height = 20,
        plat_color = NEON_LIME, plat_vx = - (7 / 2), passed = False, landedOn = False \<rparr>,
      \<lparr> plat_x = 157301 / 256, plat_y = 459 / 2, plat_width = 130, plat_height = 20,
        plat_color = NEON_LIME, plat_vx = - (7 / 2), passed = False, landedOn = False \<rparr>,
      \<lparr> plat_x = 30671 / 256, plat_y = 159 / 2, plat_width = 130, plat_height = 20,
        plat_color = NEON_LIME, plat_vx = - (7 / 2), passed = False, landedOn = False \<rparr>,
      \<lparr> plat_x = 286, plat_y = - (141 / 2), plat_width = 130, plat_height = 20,
        plat_color = NEON_LIME, plat_vx = - (7 / 2), passed = False, landedOn = False \<rparr>,
      \<lparr> plat_x = 286, plat_y = - (441 / 2), plat_width = 130, plat_height = 20,
        plat_color = NEON_LIME, plat_vx = - (7 / 2), passed = False, landedOn = False \<rparr>]"
  by (simp add: update_move_eq[OF Q13_refs] Q13_fields advance_def speedMultiplier_def Let_def)

lemma Q13_player:
  "ply_x (player (update_move 0 (Q13\<lparr> lastTime := 224 \<rparr>))) = 400"
  "ply_y (player (update_move 0 (Q13\<lparr> lastTime := 224 \<rparr>))) = 352"
  "ply_vy (player (update_move 0 (Q13\<lparr> lastTime := 224 \<rparr>))) = - 8"
  "ply_width (player (update_move 0 (Q13\<lparr> lastTime := 224 \<rparr>))) = 40"
  "ply_height (player (update_move 0 (Q13\<lparr> lastTime := 224 \<rparr>))) = 40"
  "ply_color (player (update_move 0 (Q13\<lparr> lastTime := 224 \<rparr>))) = NEON_CYAN"
  "jumps (player (update_move 0 (Q13\<lparr> lastTime := 224 \<rparr>))) = 1"
  "currentPlatform (player (update_move 0 (Q13\<lparr> lastTime := 224 \<rparr>))) = None"
  unfolding update_move_player_eq[OF Q13_refs] Q13_store
  by (simp_all add: Q13_fields Player_physics_def carry_def speedMultiplier_def Let_def config)

lemmas Q13_move = Q13_store Q13_player update_move_fields[OF Q13_refs] Q13_fields

lemma Q13_scroll:
  "scrolls (update_move 0 (Q13\<lparr> lastTime := 224 \<rparr>))"
  "scrollDiff (update_move 0 (Q13\<lparr> lastTime := 224 \<rparr>)) = 8"
  "\<not> recycles (update_move 0 (Q13\<lparr> lastTime := 224 \<rparr>))"
  "refs_ok (update_move 0 (Q13\<lparr> lastTime := 224 \<rparr>))"
  "platforms (update_move 0 (Q13\<lparr> lastTime := 224 \<rparr>)) \<noteq> []"
  by (simp_all add: scrolls_def scrollDiff_def recycles_def refs_ok_def Q13_move)

lemma Q13_landing:
  "landingPlatform (preCollision R1 224 0 Q13) = None"
  by (simp add: landingPlatform_def preCollision_def afterScroll_fields Q13_scroll Q13_move)

lemma Q14_eq:
  "Q14 = update_cosmetics (update_fall R1 (preCollision R1 224 0 Q13))"
  using Q13_landing
  by (simp add: Q14_def afterFrame_def update_collision_eq)

lemma Q14_fields:
  "state Q14 = Playing"
  "score Q14 = 0"
  "perfectStreak Q14 = 0"
  "isFever Q14 = False"
  "viewportWidth Q14 = 800"
  "viewportHeight Q14 = 600"
  "platforms Q14 = [0, 1, 2, 3, 4, 5]"
  "notifications Q14 = [ScoreUpdate 0, ComboChange 0, FeverChange False, GameStateChange Playing]"
  "store Q14 =
     [\<lparr> plat_x = 300, plat_y = 1075 / 2, plat_width = 200, plat_height = 20,
        plat_color = NEON_MAGENTA, plat_vx = 0, passed = False, landedOn = False \<rparr>,
      \<lparr> plat_x = 57043 / 128, plat_y = 775 / 2, plat_width = 130, plat_height = 20,
        plat_color = NEON_LIME, plat_vx = - (7 / 2), passed = False, landedOn = False \<rparr>,
      \<lparr> plat_x = 157301 / 256, plat_y = 475 / 2, plat_width = 130, plat_height = 20,
        plat_color = NEON_LIME, plat_vx = - (7 / 2), passed = False, landedOn = False \<rparr>,
      \<lparr> plat_x = 30671 / 256, plat_y = 175 / 2, plat_width = 130, plat_height = 20,
        plat_color = NEON_LIME, plat_vx = - (7 / 2), passed = False, landedOn = False \<rparr>,
      \<lparr> plat_x = 286, plat_y = - (125 / 2), plat_width = 130, plat_height = 20,
        plat_color = NEON_LIME, plat_vx = - (7 / 2), passed = False, landedOn = False \<rparr>,
      \<lparr> plat_x = 286, plat_y = - (425 / 2), plat_width = 130, plat_height = 20,
        plat_color = NEON_LIME, plat_vx = - (7 / 2), passed = False, landedOn = False \<rparr>]"
  "ply_x (player Q14) = 400"
  "ply_y (player Q14) = 360"
  "ply_vy (player Q14) = - 8"
  "ply_width (player Q14) = 40"
  "ply_height (player Q14) = 40"
  "ply_color (player Q14) = NEON_CYAN"
  "jumps (player Q14) = 1"
  "currentPlatform (player Q14) = None"
  "rix Q14 = 40"
  unfolding Q14_eq tail_fields update_fall_rix preCollision_def
    afterScroll_store_list[OF Q13_scroll(4,5)]
  by (simp_all add: afterScroll_fields afterScroll_rix Q13_scroll Q13_move spawned_R1 config)

lemma Q13_first: "firstLanding R1 (Frame 224 0) Q13 = None"
  by (simp add: Q13_fields(1) Q13_landing)

lemma wf_Q13: "wf Q13" and pinned_Q13: "pinned Q13"
  using reachable_inv[OF reachable_Q13] by simp_all

lemma Q13_loop: "loop R1 224 0 Q13 = Inr Q14"
  by (simp add: Q14_def loop_afterFrame[OF wf_Q13 Q13_fields(1)])

lemma reachable_Q14: "reachable R1 Q14"
  by (rule reachable.step[OF reachable_Q13, of "Frame 224 0"]) (simp_all add: Q13_loop)

lemma Q14_refs: "refs_ok (Q14\<lparr> lastTime := 240 \<rparr>)"
  by (simp add: refs_ok_def Q14_fields)

lemma Q14_store:
  "store (update_move 0 (Q14\<lparr> lastTime := 240 \<rparr>)) =
     [\<lparr> plat_x = 300, plat_y = 1075 / 2, plat_width = 200, plat_height = 20,
        plat_color = NEON_MAGENTA, plat_vx = 0, passed = False, landedOn = False \<rparr>,
      \<lparr> plat_x = 56595 / 128, plat_y = 775 / 2, plat_width = 130, plat_height = 20,
        plat_color = NEON_LIME, plat_vx = - (7 / 2), passed = False, landedOn = False \<rparr>,
      \<lparr> plat_x = 156405 / 256, plat_y = 475 / 2, plat_width = 130, plat_height = 20,
        plat_color = NEON_LIME, plat_vx = - (7 / 2), passed = False, landedOn = False \<rparr>,
      \<lparr> plat_x = 29775 / 256, plat_y = 175 / 2, plat_width = 130, plat_height = 20,
        plat_color = NEON_LIME, plat_vx = - (7 / 2), passed = False, landedOn = False \<rparr>,
      \<lparr> plat_x = 565 / 2, plat_y = - (125 / 2), plat_width = 130, plat_height = 20,
        plat_color = NEON_LIME, plat_vx = - (7 / 2), passed = False, landedOn = False \<rparr>,
      \<lparr> plat_x = 565 / 2, plat_y = - (425 / 2), plat_width = 130, plat_height = 20,
        plat_color = NEON_LIME, plat_vx = - (7 / 2), passed = False, landedOn = False \<rparr>]"
  by (simp add: update_move_eq[OF Q14_refs] Q14_fields advance_def speedMultiplier_def Let_def)

lemma Q14_player:
  "ply_x (player (update_move 0 (Q14\<lparr> lastTime := 240 \<rparr>))) = 400"
  "ply_y (player (update_move 0 (Q14\<lparr> lastTime := 240 \<rparr>))) = 705 / 2"
  "ply_vy (player (update_move 0 (Q14\<lparr> lastTime := 240 \<rparr>))) = - (15 / 2)"
  "ply_width (player (update_move 0 (Q14\<lparr> lastTime := 240 \<rparr>))) = 40"
  "ply_height (player (update_move 0 (Q14\<lparr> lastTime := 240 \<rparr>))) = 40"
  "ply_color (player (update_move 0 (Q14\<lparr> lastTime := 240 \<rparr>))) = NEON_CYAN"
  "jumps (player (update_move 0 (Q14\<lparr> lastTime := 240 \<rparr>))) = 1"
  "currentPlatform (player (update_move 0 (Q14\<lparr> lastTime := 240 \<rparr>))) = None"
  unfolding update_move_player_eq[OF Q14_refs] Q14_store
  by (simp_all add: Q14_fields Player_physics_def carry_def speedMultiplier_def Let_def config)

lemmas Q14_move = Q14_store Q14_player update_move_fields[OF Q14_refs] Q14_fields

lemma Q14_scroll:
  "scrolls (update_move 0 (Q14\<lparr> lastTime := 240 \<rparr>))"
  "scrollDiff (update_move 0 (Q14\<lparr> lastTime := 240 \<rparr>)) = 15 / 2"
  "\<not> recycles (update_move 0 (Q14\<lparr> lastTime := 240 \<rparr>))"
  "refs_ok (update_move 0 (Q14\<lparr> lastTime := 240 \<rparr>))"
  "platforms (update_move 0 (Q14\<lparr> lastTime := 240 \<rparr>)) \<noteq> []"
  by (simp_all add: scrolls_def scrollDiff_def recycles_def refs_ok_def Q14_move)

lemma Q14_landing:
  "landingPlatform (preCollision R1 240 0 Q14) = None"
  by (simp add: landingPlatform_def preCollision_def afterScroll_fields Q14_scroll Q14_move)

lemma Q15_eq:
  "Q15 = update_cosmetics (update_fall R1 (preCollision R1 240 0 Q14))"
  using Q14_landing
  by (simp add: Q15_def afterFrame_def update_collision_eq)

lemma Q15_fields:
  "state Q15 = Playing"
  "score Q15 = 0"
  "perfectStreak Q15 = 0"
  "isFever Q15 = False"
  "viewportWidth Q15 = 800"
  "viewportHeight Q15 = 600"
  "platforms Q15 = [0, 1, 2, 3, 4, 5]"
  "notifications Q15 = [ScoreUpdate 0, ComboChange 0, FeverChange False, GameStateChange Playing]"
  "store Q15 =
     [\<lparr> plat_x = 300, plat_y = 545, plat_width = 200, plat_height = 20,
        plat_color = NEON_MAGENTA, plat_vx = 0, passed = False, landedOn = False \<rparr>,
      \<lparr> plat_x = 56595 / 128, plat_y = 395, plat_width = 130, plat_height = 20,
        plat_color = NEON_LIME, plat_vx = - (7 / 2), passed = False, landedOn = False \<rparr>,
      \<lparr> plat_x = 156405 / 256, plat_y = 245, plat_width = 130, plat_height = 20,
        plat_color = NEON_LIME, plat_vx = - (7 / 2), passed = False, landedOn = False \<rparr>,
      \<lparr> plat_x = 29775 / 256, plat_y = 95, plat_width = 130, plat_height = 20,
        plat_color = NEON_LIME, plat_vx = - (7 / 2), passed = False, landedOn = False \<rparr>,
      \<lparr> plat_x = 565 / 2, plat_y = - 55, plat_width = 130, plat_height = 20,
        plat_color = NEON_LIME, plat_vx = - (7 / 2), passed = False, landedOn = False \<rparr>,
      \<lparr> plat_x = 565 / 2, plat_y = - 205, plat_width = 130, plat_height = 20,
        plat_color = NEON_LIME, plat_vx = - (7 / 2), passed = False, landedOn = False \<rparr>]"
  "ply_x (player Q15) = 400"
  "ply_y (player Q15) = 360"
  "ply_vy (player Q15) = - (15 / 2)"
  "ply_width (player Q15) = 40"
  "ply_height (player Q15) = 40"
  "ply_color (player Q15) = NEON_CYAN"
  "jumps (player Q15) = 1"
  "currentPlatform (player Q15) = None"
  "rix Q15 = 40"
  unfolding Q15_eq tail_fields update_fall_rix preCollision_def
    afterScroll_store_list[OF Q14_scroll(4,5)]
  by (simp_all add: afterScroll_fields afterScroll_rix Q14_scroll Q14_move spawned_R1 config)

lemma Q14_first: "firstLanding R1 (Frame 240 0) Q14 = None"
  by (simp add: Q14_fields(1) Q14_landing)

lemma wf_Q14: "wf Q14" and pinned_Q14: "pinned Q14"
  using reachable_inv[OF reachable_Q14] by simp_all

lemma Q14_loop: "loop R1 240 0 Q14 = Inr Q15"
  by (simp add: Q15_def loop_afterFrame[OF wf_Q14 Q14_fields(1)])

lemma reachable_Q15: "reachable R1 Q15"
  by (rule reachable.step[OF reachable_Q14, of "Frame 240 0"]) (simp_all add: Q14_loop)

lemma Q15_refs: "refs_ok (Q15\<lparr> lastTime := 256 \<rparr>)"
  by (simp add: refs_ok_def Q15_fields)

lemma Q15_store:
  "store (update_move 0 (Q15\<lparr> lastTime := 256 \<rparr>)) =
     [\<lparr> plat_x = 300, plat_y = 545, plat_width = 200, plat_height = 20,
        plat_color = NEON_MAGENTA, plat_vx = 0, passed = False, landedOn = False \<rparr>,
      \<lparr> plat_x = 56147 / 128, plat_y = 395, plat_width = 130, plat_height = 20,
        plat_color = NEON_LIME, plat_vx = - (7 / 2), passed = False, landedOn = False \<rparr>,
      \<lparr> plat_x = 155509 / 256, plat_y = 245, plat_width = 130, plat_height = 20,
        plat_color = NEON_LIME, plat_vx = - (7 / 2), passed = False, landedOn = False \<rparr>,
      \<lparr> plat_x = 28879 / 256, plat_y = 95, plat_width = 130, plat_height = 20,
        plat_color = NEON_LIME, plat_vx = - (7 / 2), passed = False, landedOn = False \<rparr>,
      \<lparr> plat_x = 279, plat_y = - 55, plat_width = 130, plat_height = 20,
        plat_color = NEON_LIME, plat_vx = - (7 / 2), passed = False, landedOn = False \<rparr>,
      \<lparr> plat_x = 279, plat_y = - 205, plat_width = 130, plat_height = 20,
        plat_color = NEON_LIME, plat_vx = - (7 / 2), passed = False, landedOn = False \<rparr>]"
  by (simp add: update_move_eq[OF Q15_refs] Q15_fields advance_def speedMultiplier_def Let_def)

lemma Q15_player:
  "ply_x (player (update_move 0 (Q15\<lparr> lastTime := 256 \<rparr>))) = 400"
  "ply_y (player (update_move 0 (Q15\<lparr> lastTime := 256 \<rparr>))) = 353"
  "ply_vy (player (update_move 0 (Q15\<lparr> lastTime := 256 \<rparr>))) = - 7"
  "ply_width (player (update_move 0 (Q15\<lparr> lastTime := 256 \<rparr>))) = 40"
  "ply_height (player (update_move 0 (Q15\<lparr> lastTime := 256 \<rparr>))) = 40"
  "ply_color (player (update_move 0 (Q15\<lparr> lastTime := 256 \<rparr>))) = NEON_CYAN"
  "jumps (player (update_move 0 (Q15\<lparr> lastTime := 256 \<rparr>))) = 1"
  "currentPlatform (player (update_move 0 (Q15\<lparr> lastTime := 256 \<rparr>))) = None"
  unfolding update_move_player_eq[OF Q15_refs] Q15_store
  by (simp_all add: Q15_fields Player_physics_def carry_def speedMultiplier_def Let_def config)

lemmas Q15_move = Q15_store Q15_player update_move_fields[OF Q15_refs] Q15_fields

lemma Q15_scroll:
  "scrolls (update_move 0 (Q15\<lparr> lastTime := 256 \<rparr>))"
  "scrollDiff (update_move 0 (Q15\<lparr> lastTime := 256 \<rparr>)) = 7"
  "\<not> recycles (update_move 0 (Q15\<lparr> lastTime := 256 \<rparr>))"
  "refs_ok (update_move 0 (Q15\<lparr> lastTime := 256 \<rparr>))"
  "platforms (update_move 0 (Q15\<lparr> lastTime := 256 \<rparr>)) \<noteq> []"
  by (simp_all add: scrolls_def scrollDiff_def recycles_def refs_ok_def Q15_move)

lemma Q15_landing:
  "landingPlatform (preCollision R1 256 0 Q15) = None"
  by (simp add: landingPlatform_def preCollision_def afterScroll_fields Q15_scroll Q15_move)

lemma Q16_eq:
  "Q16 = update_cosmetics (update_fall R1 (preCollision R1 256 0 Q15))"
  using Q15_landing
  by (simp add: Q16_def afterFrame_def update_collision_eq)

lemma Q16_fields:
  "state Q16 = Playing"
  "score Q16 = 0"
  "perfectStreak Q16 = 0"
  "isFever Q16 = False"
  "viewportWidth Q16 = 800"
  "viewportHeight Q16 = 600"
  "platforms Q16 = [0, 1, 2, 3, 4, 5]"
  "notifications Q16 = [ScoreUpdate 0, ComboChange 0, FeverChange False, GameStateChange Playing]"
  "store Q16 =
     [\<lparr> plat_x = 300, plat_y = 552, plat_width = 200, plat_height = 20,
        plat_color = NEON_MAGENTA, plat_vx = 0, passed = False, landedOn = False \<rparr>,
      \<lparr> plat_x = 56147 / 128, plat_y = 402, plat_width = 130, plat_height = 20,
        plat_color = NEON_LIME, plat_vx = - (7 / 2), passed = False, landedOn = False \<rparr>,
      \<lparr> plat_x = 155509 / 256, plat_y = 252, plat_width = 130, plat_height = 20,
        plat_color = NEON_LIME, plat_vx = - (7 / 2), passed = False, landedOn = False \<rparr>,
      \<lparr> plat_x = 28879 / 256, plat_y = 102, plat_width = 130, plat_height = 20,
        plat_color = NEON_LIME, plat_vx = - (7 / 2), passed = False, landedOn = False \<rparr>,
      \<lparr> plat_x = 279, plat_y = - 48, plat_width = 130, plat_height = 20,
        plat_color = NEON_LIME, plat_vx = - (7 / 2), passed = False, landedOn = False \<rparr>,
      \<lparr> plat_x = 279, plat_y = - 198, plat_width = 130, plat_height = 20,
        plat_color = NEON_LIME, plat_vx = - (7 / 2), passed = False, landedOn = False \<rparr>]"
  "ply_x (player Q16) = 400"
  "ply_y (player Q16) = 360"
  "ply_vy (player Q16) = - 7"
  "ply_width (player Q16) = 40"
  "ply_height (player Q16) = 40"
  "ply_color (player Q16) = NEON_CYAN"
  "jumps (player Q16) = 1"
  "currentPlatform (player Q16) = None"
  "rix Q16 = 40"
  unfolding Q16_eq tail_fields update_fall_rix preCollision_def
    afterScroll_store_list[OF Q15_scroll(4,5)]
  by (simp_all add: afterScroll_fields afterScroll_rix Q15_scroll Q15_move spawned_R1 config)

lemma Q15_first: "firstLanding R1 (Frame 256 0) Q15 = None"
  by (simp add: Q15_fields(1) Q15_landing)

lemma wf_Q15: "wf Q15" and pinned_Q15: "pinned Q15"
  using reachable_inv[OF reachable_Q15] by simp_all

lemma Q15_loop: "loop R1 256 0 Q15 = Inr Q16"
  by (simp add: Q16_def loop_afterFrame[OF wf_Q15 Q15_fields(1)])

lemma reachable_Q16: "reachable R1 Q16"
  by (rule reachable.step[OF reachable_Q15, of "Frame 256 0"]) (simp_all add: Q15_loop)

lemma Q16_refs: "refs_ok (Q16\<lparr> lastTime := 272 \<rparr>)"
  by (simp add: refs_ok_def Q16_fields)

lemma Q16_store:
  "store (update_move 0 (Q16\<lparr> lastTime := 272 \<rparr>)) =
     [\<lparr> plat_x = 300, plat_y = 552, plat_width = 200, plat_height = 20,
        plat_color = NEON_MAGENTA, plat_vx = 0, passed = False, landedOn = False \<rparr>,
      \<lparr> plat_x = 55699 / 128, plat_y = 402, plat_width = 130, plat_height = 20,
        plat_color = NEON_LIME, plat_vx = - (7 / 2), passed = False, landedOn = False \<rparr>,
      \<lparr> plat_x = 154613 / 256, plat_y = 252, plat_width = 130, plat_height = 20,
        plat_color = NEON_LIME, plat_vx = - (7 / 2), passed = False, landedOn = False \<rparr>,
      \<lparr> plat_x = 27983 / 256, plat_y = 102, plat_width = 130, plat_height = 20,
        plat_color = NEON_LIME, plat_vx = - (7 / 2), passed = False, landedOn = False \<rparr>,
      \<lparr> plat_x = 551 / 2, plat_y = - 48, plat_width = 130, plat_height = 20,
        plat_color = NEON_LIME, plat_vx = - (7 / 2), passed = False, landedOn = False \<rparr>,
      \<lparr> plat_x = 551 / 2, plat_y = - 198, plat_width = 130, plat_height = 20,
        plat_color = NEON_LIME, plat_vx = - (7 / 2), passed = False, landedOn = False \<rparr>]"
  by (simp add: update_move_eq[OF Q16_refs] Q16_fields advance_def speedMultiplier_def Let_def)

lemma Q16_player:
  "ply_x (player (update_move 0 (Q16\<lparr> lastTime := 272 \<rparr>))) = 400"
  "ply_y (player (update_move 0 (Q16\<lparr> lastTime := 272 \<rparr>))) = 707 / 2"
  "ply_vy (player (update_move 0 (Q16\<lparr> lastTime := 272 \<rparr>))) = - (13 / 2)"
  "ply_width (player (update_move 0 (Q16\<lparr> lastTime := 272 \<rparr>))) = 40"
  "ply_height (player (update_move 0 (Q16\<lparr> lastTime := 272 \<rparr>))) = 40"
  "ply_color (player (update_move 0 (Q16\<lparr> lastTime := 272 \<rparr>))) = NEON_CYAN"
  "jumps (player (update_move 0 (Q16\<lparr> lastTime := 272 \<rparr>))) = 1"
  "currentPlatform (player (update_move 0 (Q16\<lparr> lastTime := 272 \<rparr>))) = None"
  unfolding update_move_player_eq[OF Q16_refs] Q16_store
  by (simp_all add: Q16_fields Player_physics_def carry_def speedMultiplier_def Let_def config)

lemmas Q16_move = Q16_store Q16_player update_move_fields[OF Q16_refs] Q16_fields

lemma Q16_scroll:
  "scrolls (update_move 0 (Q16\<lparr> lastTime := 272 \<rparr>))"
  "scrollDiff (update_move 0 (Q16\<lparr> lastTime := 272 \<rparr>)) = 13 / 2"
  "\<not> recycles (update_move 0 (Q16\<lparr> lastTime := 272 \<rparr>))"
  "refs_ok (update_move 0 (Q16\<lparr> lastTime := 272 \<rparr>))"
  "platforms (update_move 0 (Q16\<lparr> lastTime := 272 \<rparr>)) \<noteq> []"
  by (simp_all add: scrolls_def scrollDiff_def recycles_def refs_ok_def Q16_move)

lemma Q16_landing:
  "landingPlatform (preCollision R1 272 0 Q16) = None"
  by (simp add: landingPlatform_def preCollision_def afterScroll_fields Q16_scroll Q16_move)

lemma Q17_eq:
  "Q17 = update_cosmetics (update_fall R1 (preCollision R1 272 0 Q16))"
  using Q16_landing
  by (simp add: Q17_def afterFrame_def update_collision_eq)

lemma Q17_fields:
  "state Q17 = Playing"
  "score Q17 = 0"
  "perfectStreak Q17 = 0"
  "isFever Q17 = False"
  "viewportWidth Q17 = 800"
  "viewportHeight Q17 = 600"
  "platforms Q17 = [0, 1, 2, 3, 4, 5]"
  "notifications Q17 = [ScoreUpdate 0, ComboChange 0, FeverChange False, GameStateChange Playing]"
  "store Q17 =
     [\<lparr> plat_x = 300, plat_y = 1117 / 2, plat_width = 200, plat_height = 20,
        plat_color = NEON_MAGENTA, plat_vx = 0, passed = False, landedOn = False \<rparr>,
      \<lparr> plat_x = 55699 / 128, plat_y = 817 / 2, plat_width = 130, plat_height = 20,
        plat_color = NEON_LIME, plat_vx = - (7 / 2), passed = False, landedOn = False \<rparr>,
      \<lparr> plat_x = 154613 / 256, plat_y = 517 / 2, plat_width = 130, plat_height = 20,
        plat_color = NEON_LIME, plat_vx = - (7 / 2), passed = False, landedOn = False \<rparr>,
      \<lparr> plat_x = 27983 / 256, plat_y = 217 / 2, plat_width = 130, plat_height = 20,
        plat_color = NEON_LIME, plat_vx = - (7 / 2), passed = False, landedOn = False \<rparr>,
      \<lparr> plat_x = 551 / 2, plat_y = - (83 / 2), plat_width = 130, plat_height = 20,
        plat_color = NEON_LIME, plat_vx = - (7 / 2), passed = False, landedOn = False \<rparr>,
      \<lparr> plat_x = 551 / 2, plat_y = - (383 / 2), plat_width = 130, plat_height = 20,
        plat_color = NEON_LIME, plat_vx = - (7 / 2), passed = False, landedOn = False \<rparr>]"
  "ply_x (player Q17) = 400"
  "ply_y (player Q17) = 360"
  "ply_vy (player Q17) = - (13 / 2)"
  "ply_width (player Q17) = 40"
  "ply_height (player Q17) = 40"
  "ply_color (player Q17) = NEON_CYAN"
  "jumps (player Q17) = 1"
  "currentPlatform (player Q17) = None"
  "rix Q17 = 40"
  unfolding Q17_eq tail_fields update_fall_rix preCollision_def
    afterScroll_store_list[OF Q16_scroll(4,5)]
  by (simp_all add: afterScroll_fields afterScroll_rix Q16_scroll Q16_move spawned_R1 config)

lemma Q16_first: "firstLanding R1 (Frame 272 0) Q16 = None"
  by (simp add: Q16_fields(1) Q16_landing)

lemma wf_Q16: "wf Q16" and pinned_Q16: "pinned Q16"
  using reachable_inv[OF reachable_Q16] by simp_all

lemma Q16_loop: "loop R1 272 0 Q16 = Inr Q17"
  by (simp add: Q17_def loop_afterFrame[OF wf_Q16 Q16_fields(1)])

lemma reachable_Q17: "reachable R1 Q17"
  by (rule reachable.step[OF reachable_Q16, of "Frame 272 0"]) (simp_all add: Q16_loop)

lemma Q17_refs: "refs_ok (Q17\<lparr> lastTime := 288 \<rparr>)"
  by (simp add: refs_ok_def Q17_fields)

lemma Q17_store:
  "store (update_move 0 (Q17\<lparr> lastTime := 288 \<rparr>)) =
     [\<lparr> plat_x = 300, plat_y = 1117 / 2, plat_width = 200, plat_height = 20,
        plat_color = NEON_MAGENTA, plat_vx = 0, passed = False, landedOn = False \<rparr>,
      \<lparr> plat_x = 55251 / 128, plat_y = 817 / 2, plat_width = 130, plat_height = 20,
        plat_color = NEON_LIME, plat_vx = - (7 / 2), passed = False, landedOn = False \<rparr>,
      \<lparr> plat_x = 153717 / 256, plat_y = 517 / 2, plat_width = 130, plat_height = 20,
        plat_color = NEON_LIME, plat_vx = - (7 / 2), passed = False, landedOn = False \<rparr>,
      \<lparr> plat_x = 27087 / 256, plat_y = 217 / 2, plat_width = 130, plat_height = 20,
        plat_color = NEON_LIME, plat_vx = - (7 / 2), passed = False, landedOn = False \<rparr>,
      \<lparr> plat_x = 272, plat_y = - (83 / 2), plat_width = 130, plat_height = 20,
        plat_color = NEON_LIME, plat_vx = - (7 / 2), passed = False, landedOn = False \<rparr>,
      \<lparr> plat_x = 272, plat_y = - (383 / 2), plat_width = 130, plat_height = 20,
        plat_color = NEON_LIME, plat_vx = - (7 / 2), passed = False, landedOn = False \<rparr>]"
  by (simp add: update_move_eq[OF Q17_refs] Q17_fields advance_def speedMultiplier_def Let_def)

lemma Q17_player:
  "ply_x (player (update_move 0 (Q17\<lparr> lastTime := 288 \<rparr>))) = 400"
  "ply_y (player (update_move 0 (Q17\<lparr> lastTime := 288 \<rparr>))) = 354"
  "ply_vy (player (update_move 0 (Q17\<lparr> lastTime := 288 \<rparr>))) = - 6"
  "ply_width (player (update_move 0 (Q17\<lparr> lastTime := 288 \<rparr>))) = 40"
  "ply_height (player (update_move 0 (Q17\<lparr> lastTime := 288 \<rparr>))) = 40"
  "ply_color (player (update_move 0 (Q17\<lparr> lastTime := 288 \<rparr>))) = NEON_CYAN"
  "jumps (player (update_move 0 (Q17\<lparr> lastTime := 288 \<rparr>))) = 1"
  "currentPlatform (player (update_move 0 (Q17\<lparr> lastTime := 288 \<rparr>))) = None"
  unfolding update_move_player_eq[OF Q17_refs] Q17_store
  by (simp_all add: Q17_fields Player_physics_def carry_def speedMultiplier_def Let_def config)

lemmas Q17_move = Q17_store Q17_player update_move_fields[OF Q17_refs] Q17_fields

lemma Q17_scroll:
  "scrolls (update_move 0 (Q17\<lparr> lastTime := 288 \<rparr>))"
  "scrollDiff (update_move 0 (Q17\<lparr> lastTime := 288 \<rparr>)) = 6"
  "\<not> recycles (update_move 0 (Q17\<lparr> lastTime := 288 \<rparr>))"
  "refs_ok (update_move 0 (Q17\<lparr> lastTime := 288 \<rparr>))"
  "platforms (update_move 0 (Q17\<lparr> lastTime := 288 \<rparr>)) \<noteq> []"
  by (simp_all add: scrolls_def scrollDiff_def recycles_def refs_ok_def Q17_move)

lemma Q17_landing:
  "landingPlatform (preCollision R1 288 0 Q17) = None"
  by (simp add: landingPlatform_def preCollision_def afterScroll_fields Q17_scroll Q17_move)

lemma Q18_eq:
  "Q18 = update_cosmetics (update_fall R1 (preCollision R1 288 0 Q17))"
  using Q17_landing
  by (simp add: Q18_def afterFrame_def update_collision_eq)

lemma Q18_fields:
  "state Q18 = Playing"
  "score Q18 = 0"
  "perfectStreak Q18 = 0"
  "isFever Q18 = False"
  "viewportWidth Q18 = 800"
  "viewportHeight Q18 = 600"
  "platforms Q18 = [0, 1, 2, 3, 4, 5]"
  "notifications Q18 = [ScoreUpdate 0, ComboChange 0, FeverChange False, GameStateChange Playing]"
  "store Q18 =
     [\<lparr> plat_x = 300, plat_y = 1129 / 2, plat_width = 200, plat_height = 20,
        plat_color = NEON_MAGENTA, plat_vx = 0, passed = False, landedOn = False \<rparr>,
      \<lparr> plat_x = 55251 / 128, plat_y = 829 / 2, plat_width = 130, plat_height = 20,
        plat_color = NEON_LIME, plat_vx = - (7 / 2), passed = False, landedOn = False \<rparr>,
      \<lparr> plat_x = 153717 / 256, plat_y = 529 / 2, plat_width = 130, plat_height = 20,
        plat_color = NEON_LIME, plat_vx = - (7 / 2), passed = False, landedOn = False \<rparr>,
      \<lparr> plat_x = 27087 / 256, plat_y = 229 / 2, plat_width = 130, plat_height = 20,
        plat_color = NEON_LIME, plat_vx = - (7 / 2), passed = False, landedOn = False \<rparr>,
      \<lparr> plat_x = 272, plat_y = - (71 / 2), plat_width = 130, plat_height = 20,
        plat_color = NEON_LIME, plat_vx = - (7 / 2), passed = False, landedOn = False \<rparr>,
      \<lparr> plat_x = 272, plat_y = - (371 / 2), plat_width = 130, plat_height = 20,
        plat_color = NEON_LIME, plat_vx = - (7 / 2), passed = False, landedOn = False \<rparr>]"
  "ply_x (player Q18) = 400"
  "ply_y (player Q18) = 360"
  "ply_vy (player Q18) = - 6"
  "ply_width (player Q18) = 40"
  "ply_height (player Q18) = 40"
  "ply_color (player Q18) = NEON_CYAN"
  "jumps (player Q18) = 1"
  "currentPlatform (player Q18) = None"
  "rix Q18 = 40"
  unfolding Q18_eq tail_fields update_fall_rix preCollision_def
    afterScroll_store_list[OF Q17_scroll(4,5)]
  by (simp_all add: afterScroll_fields afterScroll_rix Q17_scroll Q17_move spawned_R1 config)

lemma Q17_first: "firstLanding R1 (Frame 288 0) Q17 = None"
  by (simp add: Q17_fields(1) Q17_landing)

lemma wf_Q17: "wf Q17" and pinned_Q17: "pinned Q17"
  using reachable_inv[OF reachable_Q17] by simp_all

lemma Q17_loop: "loop R1 288 0 Q17 = Inr Q18"
  by (simp add: Q18_def loop_afterFrame[OF wf_Q17 Q17_fields(1)])

lemma reachable_Q18: "reachable R1 Q18"
  by (rule reachable.step[OF reachable_Q17, of "Frame 288 0"]) (simp_all add: Q17_loop)

lemma Q18_refs: "refs_ok (Q18\<lparr> lastTime := 304 \<rparr>)"
  by (simp add: refs_ok_def Q18_fields)

lemma Q18_store:
  "store (update_move 0 (Q18\<lparr> lastTime := 304 \<rparr>)) =
     [\<lparr> plat_x = 300, plat_y = 1129 / 2, plat_width = 200, plat_height = 20,
        plat_color = NEON_MAGENTA, plat_vx = 0, passed = False, landedOn = False \<rparr>,
      \<lparr> plat_x = 54803 / 128, plat_y = 829 / 2, plat_width = 130, plat_height = 20,
        plat_color = NEON_LIME, plat_vx = - (7 / 2), passed = False, landedOn = False \<rparr>,
      \<lparr> plat_x = 152821 / 256, plat_y = 529 / 2, plat_width = 130, plat_height = 20,
        plat_color = NEON_LIME, plat_vx = - (7 / 2), passed = False, landedOn = False \<rparr>,
      \<lparr> plat_x = 26191 / 256, plat_y = 229 / 2, plat_width = 130, plat_height = 20,
        plat_color = NEON_LIME, plat_vx = - (7 / 2), passed = False, landedOn = False \<rparr>,
      \<lparr> plat_x = 537 / 2, plat_y = - (71 / 2), plat_width = 130, plat_height = 20,
        plat_color = NEON_LIME, plat_vx = - (7 / 2), passed = False, landedOn = False \<rparr>,
      \<lparr> plat_x = 537 / 2, plat_y = - (371 / 2), plat_width = 130, plat_height = 20,
        plat_color = NEON_LIME, plat_vx = - (7 / 2), passed = False, landedOn = False \<rparr>]"
  by (simp add: update_move_eq[OF Q18_refs] Q18_fields advance_def speedMultiplier_def Let_def)

lemma Q18_player:
  "ply_x (player (update_move 0 (Q18\<lparr> lastTime := 304 \<rparr>))) = 400"
  "ply_y (player (update_move 0 (Q18\<lparr> lastTime := 304 \<rparr>))) = 709 / 2"
  "ply_vy (player (update_move 0 (Q18\<lparr> lastTime := 304 \<rparr>))) = - (11 / 2)"
  "ply_width (player (update_move 0 (Q18\<lparr> lastTime := 304 \<rparr>))) = 40"
  "ply_height (player (update_move 0 (Q18\<lparr> lastTime := 304 \<rparr>))) = 40"
  "ply_color (player (update_move 0 (Q18\<lparr> lastTime := 304 \<rparr>))) = NEON_CYAN"
  "jumps (player (update_move 0 (Q18\<lparr> lastTime := 304 \<rparr>))) = 1"
  "currentPlatform (player (update_move 0 (Q18\<lparr> lastTime := 304 \<rparr>))) = None"
  unfolding update_move_player_eq[OF Q18_refs] Q18_store
  by (simp_all add: Q18_fields Player_physics_def carry_def speedMultiplier_def Let_def config)

lemmas Q18_move = Q18_store Q18_player update_move_fields[OF Q18_refs] Q18_fields

lemma Q18_scroll:
  "scrolls (update_move 0 (Q18\<lparr> lastTime := 304 \<rparr>))"
  "scrollDiff (update_move 0 (Q18\<lparr> lastTime := 304 \<rparr>)) = 11 / 2"
  "\<not> recycles (update_move 0 (Q18\<lparr> lastTime := 304 \<rparr>))"
  "refs_ok (update_move 0 (Q18\<lparr> lastTime := 304 \<rparr>))"
  "platforms (update_move 0 (Q18\<lparr> lastTime := 304 \<rparr>)) \<noteq> []"
  by (simp_all add: scrolls_def scrollDiff_def recycles_def refs_ok_def Q18_move)

lemma Q18_landing:
  "landingPlatform (preCollision R1 304 0 Q18) = None"
  by (simp add: landingPlatform_def preCollision_def afterScroll_fields Q18_scroll Q18_move)

lemma Q19_eq:
  "Q19 = update_cosmetics (update_fall R1 (preCollision R1 304 0 Q18))"
  using Q18_landing
  by (simp add: Q19_def afterFrame_def update_collision_eq)

lemma Q19_fields:
  "state Q19 = Playing"
  "score Q19 = 0"
  "perfectStreak Q19 = 0"
  "isFever Q19 = False"
  "viewportWidth Q19 = 800"
  "viewportHeight Q19 = 600"
  "platforms Q19 = [0, 1, 2, 3, 4, 5]"
  "notifications Q19 = [ScoreUpdate 0, ComboChange 0, FeverChange False, GameStateChange Playing]"
  "store Q19 =
     [\<lparr> plat_x = 300, plat_y = 570, plat_width = 200, plat_height = 20,
        plat_color = NEON_MAGENTA, plat_vx = 0, passed = False, landedOn = False \<rparr>,
      \<lparr> plat_x = 54803 / 128, plat_y = 420, plat_width = 130, plat_height = 20,
        plat_color = NEON_LIME, plat_vx = - (7 / 2), passed = False, landedOn = False \<rparr>,
      \<lparr> plat_x = 152821 / 256, plat_y = 270, plat_width = 130, plat_height = 20,
        plat_color = NEON_LIME, plat_vx = - (7 / 2), passed = False, landedOn = False \<rparr>,
      \<lparr> plat_x = 26191 / 256, plat_y = 120, plat_width = 130, plat_height = 20,
        plat_color = NEON_LIME, plat_vx = - (7 / 2), passed = False, landedOn = False \<rparr>,
      \<lparr> plat_x = 537 / 2, plat_y = - 30, plat_width = 130, plat_height = 20,
        plat_color = NEON_LIME, plat_vx = - (7 / 2), passed = False, landedOn = False \<rparr>,
      \<lparr> plat_x = 537 / 2, plat_y = - 180, plat_width = 130, plat_height = 20,
        plat_color = NEON_LIME, plat_vx = - (7 / 2), passed = False, landedOn = False \<rparr>]"
  "ply_x (player Q19) = 400"
  "ply_y (player Q19) = 360"
  "ply_vy (player Q19) = - (11 / 2)"
  "ply_width (player Q19) = 40"
  "ply_height (player Q19) = 40"
  "ply_color (player Q19) = NEON_CYAN"
  "jumps (player Q19) = 1"
  "currentPlatform (player Q19) = None"
  "rix Q19 = 40"
  unfolding Q19_eq tail_fields update_fall_rix preCollision_def
    afterScroll_store_list[OF Q18_scroll(4,5)]
  by (simp_all add: afterScroll_fields afterScroll_rix Q18_scroll Q18_move spawned_R1 config)

lemma Q18_first: "firstLanding R1 (Frame 304 0) Q18 = None"
  by (simp add: Q18_fields(1) Q18_landing)

lemma wf_Q18: "wf Q18" and pinned_Q18: "pinned Q18"
  using reachable_inv[OF reachable_Q18] by simp_all

lemma Q18_loop: "loop R1 304 0 Q18 = Inr Q19"
  by (simp add: Q19_def loop_afterFrame[OF wf_Q18 Q18_fields(1)])

lemma reachable_Q19: "reachable R1 Q19"
  by (rule reachable.step[OF reachable_Q18, of "Frame 304 0"]) (simp_all add: Q18_loop)

lemma Q19_refs: "refs_ok (Q19\<lparr> lastTime := 320 \<rparr>)"
  by (simp add: refs_ok_def Q19_fields)

lemma Q19_store:
  "store (update_move 0 (Q19\<lparr> lastTime := 320 \<rparr>)) =
     [\<lparr> plat_x = 300, plat_y = 570, plat_width = 200, plat_height = 20,
        plat_color = NEON_MAGENTA, plat_vx = 0, passed = False, landedOn = False \<rparr>,
      \<lparr> plat_x = 54355 / 128, plat_y = 420, plat_width = 130, plat_height = 20,
        plat_color = NEON_LIME, plat_vx = - (7 / 2), passed = False, landedOn = False \<rparr>,
      \<lparr> plat_x = 151925 / 256, plat_y = 270, plat_width = 130, plat_height = 20,
        plat_color = NEON_LIME, plat_vx = - (7 / 2), passed = False, landedOn = False \<rparr>,
      \<lparr> plat_x = 25295 / 256, plat_y = 120, plat_width = 130, plat_height = 20,
        plat_color = NEON_LIME, plat_vx = - (7 / 2), passed = False, landedOn = False \<rparr>,
      \<lparr> plat_x = 265, plat_y = - 30, plat_width = 130, plat_height = 20,
        plat_color = NEON_LIME, plat_vx = - (7 / 2), passed = False, landedOn = False \<rparr>,
      \<lparr> plat_x = 265, plat_y = - 180, plat_width = 130, plat_height = 20,
        plat_color = NEON_LIME, plat_vx = - (7 / 2), passed = False, landedOn = False \<rparr>]"
  by (simp add: update_move_eq[OF Q19_refs] Q19_fields advance_def speedMultiplier_def Let_def)

lemma Q19_player:
  "ply_x (player (update_move 0 (Q19\<lparr> lastTime := 320 \<rparr>))) = 400"
  "ply_y (player (update_move 0 (Q19\<lparr> lastTime := 320 \<rparr>))) = 355"
  "ply_vy (player (update_move 0 (Q19\<lparr> lastTime := 320 \<rparr>))) = - 5"
  "ply_width (player (update_move 0 (Q19\<lparr> lastTime := 320 \<rparr>))) = 40"
  "ply_height (player (update_move 0 (Q19\<lparr> lastTime := 320 \<rparr>))) = 40"
  "ply_color (player (update_move 0 (Q19\<lparr> lastTime := 320 \<rparr>))) = NEON_CYAN"
  "jumps (player (update_move 0 (Q19\<lparr> lastTime := 320 \<rparr>))) = 1"
  "currentPlatform (player (update_move 0 (Q19\<lparr> lastTime := 320 \<rparr>))) = None"
  unfolding update_move_player_eq[OF Q19_refs] Q19_store
  by (simp_all add: Q19_fields Player_physics_def carry_def speedMultiplier_def Let_def config)

lemmas Q19_move = Q19_store Q19_player update_move_fields[OF Q19_refs] Q19_fields

lemma Q19_scroll:
  "scrolls (update_move 0 (Q19\<lparr> lastTime := 320 \<rparr>))"
  "scrollDiff (update_move 0 (Q19\<lparr> lastTime := 320 \<rparr>)) = 5"
  "\<not> recycles (update_move 0 (Q19\<lparr> lastTime := 320 \<rparr>))"
  "refs_ok (update_move 0 (Q19\<lparr> lastTime := 320 \<rparr>))"
  "platforms (update_move 0 (Q19\<lparr> lastTime := 320 \<rparr>)) \<noteq> []"
  by (simp_all add: scrolls_def scrollDiff_def recycles_def refs_ok_def Q19_move)

lemma Q19_landing:
  "landingPlatform (preCollision R1 320 0 Q19) = None"
  by (simp add: landingPlatform_def preCollision_def afterScroll_fields Q19_scroll Q19_move)

lemma Q20_eq:
  "Q20 = update_cosmetics (update_fall R1 (preCollision R1 320 0 Q19))"
  using Q19_landing
  by (simp add: Q20_def afterFrame_def update_collision_eq)

lemma Q20_fields:
  "state Q20 = Playing"
  "score Q20 = 0"
  "perfectStreak Q20 = 0"
  "isFever Q20 = False"
  "viewportWidth Q20 = 800"
  "viewportHeight Q20 = 600"
  "platforms Q20 = [0, 1, 2, 3, 4, 5]"
  "notifications Q20 = [ScoreUpdate 0, ComboChange 0, FeverChange False, GameStateChange Playing]"
  "store Q20 =
     [\<lparr> plat_x = 300, plat_y = 575, plat_width = 200, plat_height = 20,
        plat_color = NEON_MAGENTA, plat_vx = 0, passed = False, landedOn = False \<rparr>,
      \<lparr> plat_x = 54355 / 128, plat_y = 425, plat_width = 130, plat_height = 20,
        plat_color = NEON_LIME, plat_vx = - (7 / 2), passed = False, landedOn = False \<rparr>,
      \<lparr> plat_x = 151925 / 256, plat_y = 275, plat_width = 130, plat_height = 20,
        plat_color = NEON_LIME, plat_vx = - (7 / 2), passed = False, landedOn = False \<rparr>,
      \<lparr> plat_x = 25295 / 256, plat_y = 125, plat_width = 130, plat_height = 20,
        plat_color = NEON_LIME, plat_vx = - (7 / 2), passed = False, landedOn = False \<rparr>,
      \<lparr> plat_x = 265, plat_y = - 25, plat_width = 130, plat_height = 20,
        plat_color = NEON_LIME, plat_vx = - (7 / 2), passed = False, landedOn = False \<rparr>,
      \<lparr> plat_x = 265, plat_y = - 175, plat_width = 130, plat_height = 20,
        plat_color = NEON_LIME, plat_vx = - (7 / 2), passed = False, landedOn = False \<rparr>]"
  "ply_x (player Q20) = 400"
  "ply_y (player Q20) = 360"
  "ply_vy (player Q20) = - 5"
  "ply_width (player Q20) = 40"
  "ply_height (player Q20) = 40"
  "ply_color (player Q20) = NEON_CYAN"
  "jumps (player Q20) = 1"
  "currentPlatform (player Q20) = None"
  "rix Q20 = 40"
  unfolding Q20_eq tail_fields update_fall_rix preCollision_def
    afterScroll_store_list[OF Q19_scroll(4,5)]
  by (simp_all add: afterScroll_fields afterScroll_rix Q19_scroll Q19_move spawned_R1 config)

lemma Q19_first: "firstLanding R1 (Frame 320 0) Q19 = None"
  by (simp add: Q19_fields(1) Q19_landing)

lemma wf_Q19: "wf Q19" and pinned_Q19: "pinned Q19"
  using reachable_inv[OF reachable_Q19] by simp_all

lemma Q19_loop: "loop R1 320 0 Q19 = Inr Q20"
  by (simp add: Q20_def loop_afterFrame[OF wf_Q19 Q19_fields(1)])

lemma reachable_Q20: "reachable R1 Q20"
  by (rule reachable.step[OF reachable_Q19, of "Frame 320 0"]) (simp_all add: Q19_loop)

lemma Q20_refs: "refs_ok (Q20\<lparr> lastTime := 336 \<rparr>)"
  by (simp add: refs_ok_def Q20_fields)

lemma Q20_store:
  "store (update_move 0 (Q20\<lparr> lastTime := 336 \<rparr>)) =
     [\<lparr> plat_x = 300, plat_y = 575, plat_width = 200, plat_height = 20,
        plat_color = NEON_MAGENTA, plat_vx = 0, passed = False, landedOn = False \<rparr>,
      \<lparr> plat_x = 53907 / 128, plat_y = 425, plat_width = 130, plat_height = 20,
        plat_color = NEON_LIME, plat_vx = - (7 / 2), passed = False, landedOn = False \<rparr>,
      \<lparr> plat_x = 151029 / 256, plat_y = 275, plat_width = 130, plat_height = 20,
        plat_color = NEON_LIME, plat_vx = - (7 / 2), passed = False, landedOn = False \<rparr>,
      \<lparr> plat_x = 24399 / 256, plat_y = 125, plat_width = 130, plat_height = 20,
        plat_color = NEON_LIME, plat_vx = - (7 / 2), passed = False, landedOn = False \<rparr>,
      \<lparr> plat_x = 523 / 2, plat_y = - 25, plat_width = 130, plat_height = 20,
        plat_color = NEON_LIME, plat_vx = - (7 / 2), passed = False, landedOn = False \<rparr>,
      \<lparr> plat_x = 523 / 2, plat_y = - 175, plat_width = 130, plat_height = 20,
        plat_color = NEON_LIME, plat_vx = - (7 / 2), passed = False, landedOn = False \<rparr>]"
  by (simp add: update_move_eq[OF Q20_refs] Q20_fields advance_def speedMultiplier_def Let_def)

lemma Q20_player:
  "ply_x (player (update_move 0 (Q20\<lparr> lastTime := 336 \<rparr>))) = 400"
  "ply_y (player (update_move 0 (Q20\<lparr> lastTime := 336 \<rparr>))) = 711 / 2"
  "ply_vy (player (update_move 0 (Q20\<lparr> lastTime := 336 \<rparr>))) = - (9 / 2)"
  "ply_width (player (update_move 0 (Q20\<lparr> lastTime := 336 \<rparr>))) = 40"
  "ply_height (player (update_move 0 (Q20\<lparr> lastTime := 336 \<rparr>))) = 40"
  "ply_color (player (update_move 0 (Q20\<lparr> lastTime := 336 \<rparr>))) = NEON_CYAN"
  "jumps (player (update_move 0 (Q20\<lparr> lastTime := 336 \<rparr>))) = 1"
  "currentPlatform (player (update_move 0 (Q20\<lparr> lastTime := 336 \<rparr>))) = None"
  unfolding update_move_player_eq[OF Q20_refs] Q20_store
  by (simp_all add: Q20_fields Player_physics_def carry_def speedMultiplier_def Let_def config)

lemmas Q20_move = Q20_store Q20_player update_move_fields[OF Q20_refs] Q20_fields

lemma Q20_scroll:
  "scrolls (update_move 0 (Q20\<lparr> lastTime := 336 \<rparr>))"
  "scrollDiff (update_move 0 (Q20\<lparr> lastTime := 336 \<rparr>)) = 9 / 2"
  "\<not> recycles (update_move 0 (Q20\<lparr> lastTime := 336 \<rparr>))"
  "refs_ok (update_move 0 (Q20\<lparr> lastTime := 336 \<rparr>))"
  "platforms (update_move 0 (Q20\<lparr> lastTime := 336 \<rparr>)) \<noteq> []"
  by (simp_all add: scrolls_def scrollDiff_def recycles_def refs_ok_def Q20_move)

lemma Q20_landing:
  "landingPlatform (preCollision R1 336 0 Q20) = None"
  by (simp add: landingPlatform_def preCollision_def afterScroll_fields Q20_scroll Q20_move)

lemma Q21_eq:
  "Q21 = update_cosmetics (update_fall R1 (preCollision R1 336 0 Q20))"
  using Q20_landing
  by (simp add: Q21_def afterFrame_def update_collision_eq)

lemma Q21_fields:
  "state Q21 = Playing"
  "score Q21 = 0"
  "perfectStreak Q21 = 0"
  "isFever Q21 = False"
  "viewportWidth Q21 = 800"
  "viewportHeight Q21 = 600"
  "platforms Q21 = [0, 1, 2, 3, 4, 5]"
  "notifications Q21 = [ScoreUpdate 0, ComboChange 0, FeverChange False, GameStateChange Playing]"
  "store Q21 =
     [\<lparr> plat_x = 300, plat_y = 1159 / 2, plat_width = 200, plat_height = 20,
        plat_color = NEON_MAGENTA, plat_vx = 0, passed = False, landedOn = False \<rparr>,
      \<lparr> plat_x = 53907 / 128, plat_y = 859 / 2, plat_width = 130, plat_height = 20,
        plat_color = NEON_LIME, plat_vx = - (7 / 2), passed = False, landedOn = False \<rparr>,
      \<lparr> plat_x = 151029 / 256, plat_y = 559 / 2, plat_width = 130, plat_height = 20,
        plat_color = NEON_LIME, plat_vx = - (7 / 2), passed = False, landedOn = False \<rparr>,
      \<lparr> plat_x = 24399 / 256, plat_y = 259 / 2, plat_width = 130, plat_height = 20,
        plat_color = NEON_LIME, plat_vx = - (7 / 2), passed = False, landedOn = False \<rparr>,
      \<lparr> plat_x = 523 / 2, plat_y = - (41 / 2), plat_width = 130, plat_height = 20,
        plat_color = NEON_LIME, plat_vx = - (7 / 2), passed = False, landedOn = False \<rparr>,
      \<lparr> plat_x = 523 / 2, plat_y = - (341 / 2), plat_width = 130, plat_height = 20,
        plat_color = NEON_LIME, plat_vx = - (7 / 2), passed = False, landedOn = False \<rparr>]"
  "ply_x (player Q21) = 400"
  "ply_y (player Q21) = 360"
  "ply_vy (player Q21) = - (9 / 2)"
  "ply_width (player Q21) = 40"
  "ply_height (player Q21) = 40"
  "ply_color (player Q21) = NEON_CYAN"
  "jumps (player Q21) = 1"
  "currentPlatform (player Q21) = None"
  "rix Q21 = 40"
  unfolding Q21_eq tail_fields update_fall_rix preCollision_def
    afterScroll_store_list[OF Q20_scroll(4,5)]
  by (simp_all add: afterScroll_fields afterScroll_rix Q20_scroll Q20_move spawned_R1 config)

lemma Q20_first: "firstLanding R1 (Frame 336 0) Q20 = None"
  by (simp add: Q20_fields(1) Q20_landing)

lemma wf_Q20: "wf Q20" and pinned_Q20: "pinned Q20"
  using reachable_inv[OF reachable_Q20] by simp_all

lemma Q20_loop: "loop R1 336 0 Q20 = Inr Q21"
  by (simp add: Q21_def loop_afterFrame[OF wf_Q20 Q20_fields(1)])

lemma reachable_Q21: "reachable R1 Q21"
  by (rule reachable.step[OF reachable_Q20, of "Frame 336 0"]) (simp_all add: Q20_loop)

lemma Q21_refs: "refs_ok (Q21\<lparr> lastTime := 352 \<rparr>)"
  by (simp add: refs_ok_def Q21_fields)

lemma Q21_store:
  "store (update_move 0 (Q21\<lparr> lastTime := 352 \<rparr>)) =
     [\<lparr> plat_x = 300, plat_y = 1159 / 2, plat_width = 200, plat_height = 20,
        plat_color = NEON_MAGENTA, plat_vx = 0, passed = False, landedOn = False \<rparr>,
      \<lparr> plat_x = 53459 / 128, plat_y = 859 / 2, plat_width = 130, plat_height = 20,
        plat_color = NEON_LIME, plat_vx = - (7 / 2), passed = False, landedOn = False \<rparr>,
      \<lparr> plat_x = 150133 / 256, plat_y = 559 / 2, plat_width = 130, plat_height = 20,
        plat_color = NEON_LIME, plat_vx = - (7 / 2), passed = False, landedOn = False \<rparr>,
      \<lparr> plat_x = 23503 / 256, plat_y = 259 / 2, plat_width = 130, plat_height = 20,
        plat_color = NEON_LIME, plat_vx = - (7 / 2), passed = False, landedOn = False \<rparr>,
      \<lparr> plat_x = 258, plat_y = - (41 / 2), plat_width = 130, plat_height = 20,
        plat_color = NEON_LIME, plat_vx = - (7 / 2), passed = False, landedOn = False \<rparr>,
      \<lparr> plat_x = 258, plat_y = - (341 / 2), plat_width = 130, plat_height = 20,
        plat_color = NEON_LIME, plat_vx = - (7 / 2), passed = False, landedOn = False \<rparr>]"
  by (simp add: update_move_eq[OF Q21_refs] Q21_fields advance_def speedMultiplier_def Let_def)

lemma Q21_player:
  "ply_x (player (update_move 0 (Q21\<lparr> lastTime := 352 \<rparr>))) = 400"
  "ply_y (player (update_move 0 (Q21\<lparr> lastTime := 352 \<rparr>))) = 356"
  "ply_vy (player (update_move 0 (Q21\<lparr> lastTime := 352 \<rparr>))) = - 4"
  "ply_width (player (update_move 0 (Q21\<lparr> lastTime := 352 \<rparr>))) = 40"
  "ply_height (player (update_move 0 (Q21\<lparr> lastTime := 352 \<rparr>))) = 40"
  "ply_color (player (update_move 0 (Q21\<lparr> lastTime := 352 \<rparr>))) = NEON_CYAN"
  "jumps (player (update_move 0 (Q21\<lparr> lastTime := 352 \<rparr>))) = 1"
  "currentPlatform (player (update_move 0 (Q21\<lparr> lastTime := 352 \<rparr>))) = None"
  unfolding update_move_player_eq[OF Q21_refs] Q21_store
  by (simp_all add: Q21_fields Player_physics_def carry_def speedMultiplier_def Let_def config)

lemmas Q21_move = Q21_store Q21_player update_move_fields[OF Q21_refs] Q21_fields

lemma Q21_scroll:
  "scrolls (update_move 0 (Q21\<lparr> lastTime := 352 \<rparr>))"
  "scrollDiff (update_move 0 (Q21\<lparr> lastTime := 352 \<rparr>)) = 4"
  "\<not> recycles (update_move 0 (Q21\<lparr> lastTime := 352 \<rparr>))"
  "refs_ok (update_move 0 (Q21\<lparr> lastTime := 352 \<rparr>))"
  "platforms (update_move 0 (Q21\<lparr> lastTime := 352 \<rparr>)) \<noteq> []"
  by (simp_all add: scrolls_def scrollDiff_def recycles_def refs_ok_def Q21_move)

lemma Q21_landing:
  "landingPlatform (preCollision R1 352 0 Q21) = None"
  by (simp add: landingPlatform_def preCollision_def afterScroll_fields Q21_scroll Q21_move)

lemma Q22_eq:
  "Q22 = update_cosmetics (update_fall R1 (preCollision R1 352 0 Q21))"
  using Q21_landing
  by (simp add: Q22_def afterFrame_def update_collision_eq)

lemma Q22_fields:
  "state Q22 = Playing"
  "score Q22 = 0"
  "perfectStreak Q22 = 0"
  "isFever Q22 = False"
  "viewportWidth Q22 = 800"
  "viewportHeight Q22 = 600"
  "platforms Q22 = [0, 1, 2, 3, 4, 5]"
  "notifications Q22 = [ScoreUpdate 0, ComboChange 0, FeverChange False, GameStateChange Playing]"
  "store Q22 =
     [\<lparr> plat_x = 300, plat_y = 1167 / 2, plat_width = 200, plat_height = 20,
        plat_color = NEON_MAGENTA, plat_vx = 0, passed = False, landedOn = False \<rparr>,
      \<lparr> plat_x = 53459 / 128, plat_y = 867 / 2, plat_width = 130, plat_height = 20,
        plat_color = NEON_LIME, plat_vx = - (7 / 2), passed = False, landedOn = False \<rparr>,
      \<lparr> plat_x = 150133 / 256, plat_y = 567 / 2, plat_width = 130, plat_height = 20,
        plat_color = NEON_LIME, plat_vx = - (7 / 2), passed = False, landedOn = False \<rparr>,
      \<lparr> plat_x = 23503 / 256, plat_y = 267 / 2, plat_width = 130, plat_height = 20,
        plat_color = NEON_LIME, plat_vx = - (7 / 2), passed = False, landedOn = False \<rparr>,
      \<lparr> plat_x = 258, plat_y = - (33 / 2), plat_width = 130, plat_height = 20,
        plat_color = NEON_LIME, plat_vx = - (7 / 2), passed = False, landedOn = False \<rparr>,
      \<lparr> plat_x = 258, plat_y = - (333 / 2), plat_width = 130, plat_height = 20,
        plat_color = NEON_LIME, plat_vx = - (7 / 2), passed = False, landedOn = False \<rparr>]"
  "ply_x (player Q22) = 400"
  "ply_y (player Q22) = 360"
  "ply_vy (player Q22) = - 4"
  "ply_width (player Q22) = 40"
  "ply_height (player Q22) = 40"
  "ply_color (player Q22) = NEON_CYAN"
  "jumps (player Q22) = 1"
  "currentPlatform (player Q22) = None"
  "rix Q22 = 40"
  unfolding Q22_eq tail_fields update_fall_rix preCollision_def
    afterScroll_store_list[OF Q21_scroll(4,5)]
  by (simp_all add: afterScroll_fields afterScroll_rix Q21_scroll Q21_move spawned_R1 config)

lemma Q21_first: "firstLanding R1 (Frame 352 0) Q21 = None"
  by (simp add: Q21_fields(1) Q21_landing)

lemma wf_Q21: "wf Q21" and pinned_Q21: "pinned Q21"
  using reachable_inv[OF reachable_Q21] by simp_all

lemma Q21_loop: "loop R1 352 0 Q21 = Inr Q22"
  by (simp add: Q22_def loop_afterFrame[OF wf_Q21 Q21_fields(1)])

lemma reachable_Q22: "reachable R1 Q22"
  by (rule reachable.step[OF reachable_Q21, of "Frame 352 0"]) (simp_all add: Q21_loop)

lemma Q22_refs: "refs_ok (Q22\<lparr> lastTime := 368 \<rparr>)"
  by (simp add: refs_ok_def Q22_fields)

lemma Q22_store:
  "store (update_move 0 (Q22\<lparr> lastTime := 368 \<rparr>)) =
     [\<lparr> plat_x = 300, plat_y = 1167 / 2, plat_width = 200, plat_height = 20,
        plat_color = NEON_MAGENTA, plat_vx = 0, passed = False, landedOn = False \<rparr>,
      \<lparr> plat_x = 53011 / 128, plat_y = 867 / 2, plat_width = 130, plat_height = 20,
        plat_color = NEON_LIME, plat_vx = - (7 / 2), passed = False, landedOn = False \<rparr>,
      \<lparr> plat_x = 149237 / 256, plat_y = 567 / 2, plat_width = 130, plat_height = 20,
        plat_color = NEON_LIME, plat_vx = - (7 / 2), passed = False, landedOn = False \<rparr>,
      \<lparr> plat_x = 22607 / 256, plat_y = 267 / 2, plat_width = 130, plat_height = 20,
        plat_color = NEON_LIME, plat_vx = - (7 / 2), passed = False, landedOn = False \<rparr>,
      \<lparr> plat_x = 509 / 2, plat_y = - (33 / 2), plat_width = 130, plat_height = 20,
        plat_color = NEON_LIME, plat_vx = - (7 / 2), passed = False, landedOn = False \<rparr>,
      \<lparr> plat_x = 509 / 2, plat_y = - (333 / 2), plat_width = 130, plat_height = 20,
        plat_color = NEON_LIME, plat_vx = - (7 / 2), passed = False, landedOn = False \<rparr>]"
  by (simp add: update_move_eq[OF Q22_refs] Q22_fields advance_def speedMultiplier_def Let_def)

lemma Q22_player:
  "ply_x (player (update_move 0 (Q22\<lparr> lastTime := 368 \<rparr>))) = 400"
  "ply_y (player (update_move 0 (Q22\<lparr> lastTime := 368 \<rparr>))) = 713 / 2"
  "ply_vy (player (update_move 0 (Q22\<lparr> lastTime := 368 \<rparr>))) = - (7 / 2)"
  "ply_width (player (update_move 0 (Q22\<lparr> lastTime := 368 \<rparr>))) = 40"
  "ply_height (player (update_move 0 (Q22\<lparr> lastTime := 368 \<rparr>))) = 40"
  "ply_color (player (update_move 0 (Q22\<lparr> lastTime := 368 \<rparr>))) = NEON_CYAN"
  "jumps (player (update_move 0 (Q22\<lparr> lastTime := 368 \<rparr>))) = 1"
  "currentPlatform (player (update_move 0 (Q22\<lparr> lastTime := 368 \<rparr>))) = None"
  unfolding update_move_player_eq[OF Q22_refs] Q22_store
  by (simp_all add: Q22_fields Player_physics_def carry_def speedMultiplier_def Let_def config)

lemmas Q22_move = Q22_store Q22_player update_move_fields[OF Q22_refs] Q22_fields

lemma Q22_scroll:
  "scrolls (update_move 0 (Q22\<lparr> lastTime := 368 \<rparr>))"
  "scrollDiff (update_move 0 (Q22\<lparr> lastTime := 368 \<rparr>)) = 7 / 2"
  "\<not> recycles (update_move 0 (Q22\<lparr> lastTime := 368 \<rparr>))"
  "refs_ok (update_move 0 (Q22\<lparr> lastTime := 368 \<rparr>))"
  "platforms (update_move 0 (Q22\<lparr> lastTime := 368 \<rparr>)) \<noteq> []"
  by (simp_all add: scrolls_def scrollDiff_def recycles_def refs_ok_def Q22_move)

lemma Q22_landing:
  "landingPlatform (preCollision R1 368 0 Q22) = None"
  by (simp add: landingPlatform_def preCollision_def afterScroll_fields Q22_scroll Q22_move)

lemma Q23_eq:
  "Q23 = update_cosmetics (update_fall R1 (preCollision R1 368 0 Q22))"
  using Q22_landing
  by (simp add: Q23_def afterFrame_def update_collision_eq)

lemma Q23_fields:
  "state Q23 = Playing"
  "score Q23 = 0"
  "perfectStreak Q23 = 0"
  "isFever Q23 = False"
  "viewportWidth Q23 = 800"
  "viewportHeight Q23 = 600"
  "platforms Q23 = [0, 1, 2, 3, 4, 5]"
  "notifications Q23 = [ScoreUpdate 0, ComboChange 0, FeverChange False, GameStateChange Playing]"
  "store Q23 =
     [\<lparr> plat_x = 300, plat_y = 587, plat_width = 200, plat_height = 20,
        plat_color = NEON_MAGENTA, plat_vx = 0, passed = False, landedOn = False \<rparr>,
      \<lparr> plat_x = 53011 / 128, plat_y = 437, plat_width = 130, plat_height = 20,
        plat_color = NEON_LIME, plat_vx = - (7 / 2), passed = False, landedOn = False \<rparr>,
      \<lparr> plat_x = 149237 / 256, plat_y = 287, plat_width = 130, plat_height = 20,
        plat_color = NEON_LIME, plat_vx = - (7 / 2), passed = False, landedOn = False \<rparr>,
      \<lparr> plat_x = 22607 / 256, plat_y = 137, plat_width = 130, plat_height = 20,
        plat_color = NEON_LIME, plat_vx = - (7 / 2), passed = False, landedOn = False \<rparr>,
      \<lparr> plat_x = 509 / 2, plat_y = - 13, plat_width = 130, plat_height = 20,
        plat_color = NEON_LIME, plat_vx = - (7 / 2), passed = False, landedOn = False \<rparr>,
      \<lparr> plat_x = 509 / 2, plat_y = - 163, plat_width = 130, plat_height = 20,
        plat_color = NEON_LIME, plat_vx = - (7 / 2), passed = False, landedOn = False \<rparr>]"
  "ply_x (player Q23) = 400"
  "ply_y (player Q23) = 360"
  "ply_vy (player Q23) = - (7 / 2)"
  "ply_width (player Q23) = 40"
  "ply_height (player Q23) = 40"
  "ply_color (player Q23) = NEON_CYAN"
  "jumps (player Q23) = 1"
  "currentPlatform (player Q23) = None"
  "rix Q23 = 40"
  unfolding Q23_eq tail_fields update_fall_rix preCollision_def
    afterScroll_store_list[OF Q22_scroll(4,5)]
  by (simp_all add: afterScroll_fields afterScroll_rix Q22_scroll Q22_move spawned_R1 config)

lemma Q22_first: "firstLanding R1 (Frame 368 0) Q22 = None"
  by (simp add: Q22_fields(1) Q22_landing)

lemma wf_Q22: "wf Q22" and pinned_Q22: "pinned Q22"
  using reachable_inv[OF reachable_Q22] by simp_all

lemma Q22_loop: "loop R1 368 0 Q22 = Inr Q23"
  by (simp add: Q23_def loop_afterFrame[OF wf_Q22 Q22_fields(1)])

lemma reachable_Q23: "reachable R1 Q23"
  by (rule reachable.step[OF reachable_Q22, of "Frame 368 0"]) (simp_all add: Q22_loop)

lemma Q23_refs: "refs_ok (Q23\<lparr> lastTime := 384 \<rparr>)"
  by (simp add: refs_ok_def Q23_fields)

lemma Q23_store:
  "store (update_move 0 (Q23\<lparr> lastTime := 384 \<rparr>)) =
     [\<lparr> plat_x = 300, plat_y = 587, plat_width = 200, plat_height = 20,
        plat_color = NEON_MAGENTA, plat_vx = 0, passed = False, landedOn = False \<rparr>,
      \<lparr> plat_x = 52563 / 128, plat_y = 437, plat_width = 130, plat_height = 20,
        plat_color = NEON_LIME, plat_vx = - (7 / 2), passed = False, landedOn = False \<rparr>,
      \<lparr> plat_x = 148341 / 256, plat_y = 287, plat_width = 130, plat_height = 20,
        plat_color = NEON_LIME, plat_vx = - (7 / 2), passed = False, landedOn = False \<rparr>,
      \<lparr> plat_x = 21711 / 256, plat_y = 137, plat_width = 130, plat_height = 20,
        plat_color = NEON_LIME, plat_vx = - (7 / 2), passed = False, landedOn = False \<rparr>,
      \<lparr> plat_x = 251, plat_y = - 13, plat_width = 130, plat_height = 20,
        plat_color = NEON_LIME, plat_vx = - (7 / 2), passed = False, landedOn = False \<rparr>,
      \<lparr> plat_x = 251, plat_y = - 163, plat_width = 130, plat_height = 20,
        plat_color = NEON_LIME, plat_vx = - (7 / 2), passed = False, landedOn = False \<rparr>]"
  by (simp add: update_move_eq[OF Q23_refs] Q23_fields advance_def speedMultiplier_def Let_def)

lemma Q23_player:
  "ply_x (player (update_move 0 (Q23\<lparr> lastTime := 384 \<rparr>))) = 400"
  "ply_y (player (update_move 0 (Q23\<lparr> lastTime := 384 \<rparr>))) = 357"
  "ply_vy (player (update_move 0 (Q23\<lparr> lastTime := 384 \<rparr>))) = - 3"
  "ply_width (player (update_move 0 (Q23\<lparr> lastTime := 384 \<rparr>))) = 40"
  "ply_height (player (update_move 0 (Q23\<lparr> lastTime := 384 \<rparr>))) = 40"
  "ply_color (player (update_move 0 (Q23\<lparr> lastTime := 384 \<rparr>))) = NEON_CYAN"
  "jumps (player (update_move 0 (Q23\<lparr> lastTime := 384 \<rparr>))) = 1"
  "currentPlatform (player (update_move 0 (Q23\<lparr> lastTime := 384 \<rparr>))) = None"
  unfolding update_move_player_eq[OF Q23_refs] Q23_store
  by (simp_all add: Q23_fields Player_physics_def carry_def speedMultiplier_def Let_def config)

lemmas Q23_move = Q23_store Q23_player update_move_fields[OF Q23_refs] Q23_fields

lemma Q23_scroll:
  "scrolls (update_move 0 (Q23\<lparr> lastTime := 384 \<rparr>))"
  "scrollDiff (update_move 0 (Q23\<lparr> lastTime := 384 \<rparr>)) = 3"
  "\<not> recycles (update_move 0 (Q23\<lparr> lastTime := 384 \<rparr>))"
  "refs_ok (update_move 0 (Q23\<lparr> lastTime := 384 \<rparr>))"
  "platforms (update_move 0 (Q23\<lparr> lastTime := 384 \<rparr>)) \<noteq> []"
  by (simp_all add: scrolls_def scrollDiff_def recycles_def refs_ok_def Q23_move)

lemma Q23_landing:
  "landingPlatform (preCollision R1 384 0 Q23) = None"
  by (simp add: landingPlatform_def preCollision_def afterScroll_fields Q23_scroll Q23_move)

lemma Q24_eq:
  "Q24 = update_cosmetics (update_fall R1 (preCollision R1 384 0 Q23))"
  using Q23_landing
  by (simp add: Q24_def afterFrame_def update_collision_eq)

lemma Q24_fields:
  "state Q24 = Playing"
  "score Q24 = 0"
  "perfectStreak Q24 = 0"
  "isFever Q24 = False"
  "viewportWidth Q24 = 800"
  "viewportHeight Q24 = 600"
  "platforms Q24 = [0, 1, 2, 3, 4, 5]"
  "notifications Q24 = [ScoreUpdate 0, ComboChange 0, FeverChange False, GameStateChange Playing]"
  "store Q24 =
     [\<lparr> plat_x = 300, plat_y = 590, plat_width = 200, plat_height = 20,
        plat_color = NEON_MAGENTA, plat_vx = 0, passed = False, landedOn = False \<rparr>,
      \<lparr> plat_x = 52563 / 128, plat_y = 440, plat_width = 130, plat_height = 20,
        plat_color = NEON_LIME, plat_vx = - (7 / 2), passed = False, landedOn = False \<rparr>,
      \<lparr> plat_x = 148341 / 256, plat_y = 290, plat_width = 130, plat_height = 20,
        plat_color = NEON_LIME, plat_vx = - (7 / 2), passed = False, landedOn = False \<rparr>,
      \<lparr> plat_x = 21711 / 256, plat_y = 140, plat_width = 130, plat_height = 20,
        plat_color = NEON_LIME, plat_vx = - (7 / 2), passed = False, landedOn = False \<rparr>,
      \<lparr> plat_x = 251, plat_y = - 10, plat_width = 130, plat_height = 20,
        plat_color = NEON_LIME, plat_vx = - (7 / 2), passed = False, landedOn = False \<rparr>,
      \<lparr> plat_x = 251, plat_y = - 160, plat_width = 130, plat_height = 20,
        plat_color = NEON_LIME, plat_vx = - (7 / 2), passed = False, landedOn = False \<rparr>]"
  "ply_x (player Q24) = 400"
  "ply_y (player Q24) = 360"
  "ply_vy (player Q24) = - 3"
  "ply_width (player Q24) = 40"
  "ply_height (player Q24) = 40"
  "ply_color (player Q24) = NEON_CYAN"
  "jumps (player Q24) = 1"
  "currentPlatform (player Q24) = None"
  "rix Q24 = 40"
  unfolding Q24_eq tail_fields update_fall_rix preCollision_def
    afterScroll_store_list[OF Q23_scroll(4,5)]
  by (simp_all add: afterScroll_fields afterScroll_rix Q23_scroll Q23_move spawned_R1 config)

lemma Q23_first: "firstLanding R1 (Frame 384 0) Q23 = None"
  by (simp add: Q23_fields(1) Q23_landing)

lemma wf_Q23: "wf Q23" and pinned_Q23: "pinned Q23"
  using reachable_inv[OF reachable_Q23] by simp_all

lemma Q23_loop: "loop R1 384 0 Q23 = Inr Q24"
  by (simp add: Q24_def loop_afterFrame[OF wf_Q23 Q23_fields(1)])

lemma reachable_Q24: "reachable R1 Q24"
  by (rule reachable.step[OF reachable_Q23, of "Frame 384 0"]) (simp_all add: Q23_loop)

lemma Q24_refs: "refs_ok (Q24\<lparr> lastTime := 400 \<rparr>)"
  by (simp add: refs_ok_def Q24_fields)

lemma Q24_store:
  "store (update_move 0 (Q24\<lparr> lastTime := 400 \<rparr>)) =
     [\<lparr> plat_x = 300, plat_y = 590, plat_width = 200, plat_height = 20,
        plat_color = NEON_MAGENTA, plat_vx = 0, passed = False, landedOn = False \<rparr>,
      \<lparr> plat_x = 52115 / 128, plat_y = 440, plat_width = 130, plat_height = 20,
        plat_color = NEON_LIME, plat_vx = - (7 / 2), passed = False, landedOn = False \<rparr>,
      \<lparr> plat_x = 147445 / 256, plat_y = 290, plat_width = 130, plat_height = 20,
        plat_color = NEON_LIME, plat_vx = - (7 / 2), passed = False, landedOn = False \<rparr>,
      \<lparr> plat_x = 20815 / 256, plat_y = 140, plat_width = 130, plat_height = 20,
        plat_color = NEON_LIME, plat_vx = - (7 / 2), passed = False, landedOn = False \<rparr>,
      \<lparr> plat_x = 495 / 2, plat_y = - 10, plat_width = 130, plat_height = 20,
        plat_color = NEON_LIME, plat_vx = - (7 / 2), passed = False, landedOn = False \<rparr>,
      \<lparr> plat_x = 495 / 2, plat_y = - 160, plat_width = 130, plat_height = 20,
        plat_color = NEON_LIME, plat_vx = - (7 / 2), passed = False, landedOn = False \<rparr>]"
  by (simp add: update_move_eq[OF Q24_refs] Q24_fields advance_def speedMultiplier_def Let_def)

lemma Q24_player:
  "ply_x (player (update_move 0 (Q24\<lparr> lastTime := 400 \<rparr>))) = 400"
  "ply_y (player (update_move 0 (Q24\<lparr> lastTime := 400 \<rparr>))) = 715 / 2"
  "ply_vy (player (update_move 0 (Q24\<lparr> lastTime := 400 \<rparr>))) = - (5 / 2)"
  "ply_width (player (update_move 0 (Q24\<lparr> lastTime := 400 \<rparr>))) = 40"
  "ply_height (player (update_move 0 (Q24\<lparr> lastTime := 400 \<rparr>))) = 40"
  "ply_color (player (update_move 0 (Q24\<lparr> lastTime := 400 \<rparr>))) = NEON_CYAN"
  "jumps (player (update_move 0 (Q24\<lparr> lastTime := 400 \<rparr>))) = 1"
  "currentPlatform (player (update_move 0 (Q24\<lparr> lastTime := 400 \<rparr>))) = None"
  unfolding update_move_player_eq[OF Q24_refs] Q24_store
  by (simp_all add: Q24_fields Player_physics_def carry_def speedMultiplier_def Let_def config)

lemmas Q24_move = Q24_store Q24_player update_move_fields[OF Q24_refs] Q24_fields

lemma Q24_scroll:
  "scrolls (update_move 0 (Q24\<lparr> lastTime := 400 \<rparr>))"
  "scrollDiff (update_move 0 (Q24\<lparr> lastTime := 400 \<rparr>)) = 5 / 2"
  "\<not> recycles (update_move 0 (Q24\<lparr> lastTime := 400 \<rparr>))"
  "refs_ok (update_move 0 (Q24\<lparr> lastTime := 400 \<rparr>))"
  "platforms (update_move 0 (Q24\<lparr> lastTime := 400 \<rparr>)) \<noteq> []"
  by (simp_all add: scrolls_def scrollDiff_def recycles_def refs_ok_def Q24_move)

lemma Q24_landing:
  "landingPlatform (preCollision R1 400 0 Q24) = None"
  by (simp add: landingPlatform_def preCollision_def afterScroll_fields Q24_scroll Q24_move)

lemma Q25_eq:
  "Q25 = update_cosmetics (update_fall R1 (preCollision R1 400 0 Q24))"
  using Q24_landing
  by (simp add: Q25_def afterFrame_def update_collision_eq)

lemma Q25_fields:
  "state Q25 = Playing"
  "score Q25 = 0"
  "perfectStreak Q25 = 0"
  "isFever Q25 = False"
  "viewportWidth Q25 = 800"
  "viewportHeight Q25 = 600"
  "platforms Q25 = [0, 1, 2, 3, 4, 5]"
  "notifications Q25 = [ScoreUpdate 0, ComboChange 0, FeverChange False, GameStateChange Playing]"
  "store Q25 =
     [\<lparr> plat_x = 300, plat_y = 1185 / 2, plat_width = 200, plat_height = 20,
        plat_color = NEON_MAGENTA, plat_vx = 0, passed = False, landedOn = False \<rparr>,
      \<lparr> plat_x = 52115 / 128, plat_y = 885 / 2, plat_width = 130, plat_height = 20,
        plat_color = NEON_LIME, plat_vx = - (7 / 2), passed = False, landedOn = False \<rparr>,
      \<lparr> plat_x = 147445 / 256, plat_y = 585 / 2, plat_width = 130, plat_height = 20,
        plat_color = NEON_LIME, plat_vx = - (7 / 2), passed = False, landedOn = False \<rparr>,
      \<lparr> plat_x = 20815 / 256, plat_y = 285 / 2, plat_width = 130, plat_height = 20,
        plat_color = NEON_LIME, plat_vx = - (7 / 2), passed = False, landedOn = False \<rparr>,
      \<lparr> plat_x = 495 / 2, plat_y = - (15 / 2), plat_width = 130, plat_height = 20,
        plat_color = NEON_LIME, plat_vx = - (7 / 2), passed = False, landedOn = False \<rparr>,
      \<lparr> plat_x = 495 / 2, plat_y = - (315 / 2), plat_width = 130, plat_height = 20,
        plat_color = NEON_LIME, plat_vx = - (7 / 2), passed = False, landedOn = False \<rparr>]"
  "ply_x (player Q25) = 400"
  "ply_y (player Q25) = 360"
  "ply_vy (player Q25) = - (5 / 2)"
  "ply_width (player Q25) = 40"
  "ply_height (player Q25) = 40"
  "ply_color (player Q25) = NEON_CYAN"
  "jumps (player Q25) = 1"
  "currentPlatform (player Q25) = None"
  "rix Q25 = 40"
  unfolding Q25_eq tail_fields update_fall_rix preCollision_def
    afterScroll_store_list[OF Q24_scroll(4,5)]
  by (simp_all add: afterScroll_fields afterScroll_rix Q24_scroll Q24_move spawned_R1 config)

lemma Q24_first: "firstLanding R1 (Frame 400 0) Q24 = None"
  by (simp add: Q24_fields(1) Q24_landing)

lemma wf_Q24: "wf Q24" and pinned_Q24: "pinned Q24"
  using reachable_inv[OF reachable_Q24] by simp_all

lemma Q24_loop: "loop R1 400 0 Q24 = Inr Q25"
  by (simp add: Q25_def loop_afterFrame[OF wf_Q24 Q24_fields(1)])

lemma reachable_Q25: "reachable R1 Q25"
  by (rule reachable.step[OF reachable_Q24, of "Frame 400 0"]) (simp_all add: Q24_loop)

lemma Q25_refs: "refs_ok (Q25\<lparr> lastTime := 416 \<rparr>)"
  by (simp add: refs_ok_def Q25_fields)

lemma Q25_store:
  "store (update_move 0 (Q25\<lparr> lastTime := 416 \<rparr>)) =
     [\<lparr> plat_x = 300, plat_y = 1185 / 2, plat_width = 200, plat_height = 20,
        plat_color = NEON_MAGENTA, plat_vx = 0, passed = False, landedOn = False \<rparr>,
      \<lparr> plat_x = 51667 / 128, plat_y = 885 / 2, plat_width = 130, plat_height = 20,
        plat_color = NEON_LIME, plat_vx = - (7 / 2), passed = False, landedOn = False \<rparr>,
      \<lparr> plat_x = 146549 / 256, plat_y = 585 / 2, plat_width = 130, plat_height = 20,
        plat_color = NEON_LIME, plat_vx = - (7 / 2), passed = False, landedOn = False \<rparr>,
      \<lparr> plat_x = 19919 / 256, plat_y = 285 / 2, plat_width = 130, plat_height = 20,
        plat_color = NEON_LIME, plat_vx = - (7 / 2), passed = False, landedOn = False \<rparr>,
      \<lparr> plat_x = 244, plat_y = - (15 / 2), plat_width = 130, plat_height = 20,
        plat_color = NEON_LIME, plat_vx = - (7 / 2), passed = False, landedOn = False \<rparr>,
      \<lparr> plat_x = 244, plat_y = - (315 / 2), plat_width = 130, plat_height = 20,
        plat_color = NEON_LIME, plat_vx = - (7 / 2), passed = False, landedOn = False \<rparr>]"
  by (simp add: update_move_eq[OF Q25_refs] Q25_fields advance_def speedMultiplier_def Let_def)

lemma Q25_player:
  "ply_x (player (update_move 0 (Q25\<lparr> lastTime := 416 \<rparr>))) = 400"
  "ply_y (player (update_move 0 (Q25\<lparr> lastTime := 416 \<rparr>))) = 358"
  "ply_vy (player (update_move 0 (Q25\<lparr> lastTime := 416 \<rparr>))) = - 2"
  "ply_width (player (update_move 0 (Q25\<lparr> lastTime := 416 \<rparr>))) = 40"
  "ply_height (player (update_move 0 (Q25\<lparr> lastTime := 416 \<rparr>))) = 40"
  "ply_color (player (update_move 0 (Q25\<lparr> lastTime := 416 \<rparr>))) = NEON_CYAN"
  "jumps (player (update_move 0 (Q25\<lparr> lastTime := 416 \<rparr>))) = 1"
  "currentPlatform (player (update_move 0 (Q25\<lparr> lastTime := 416 \<rparr>))) = None"
  unfolding update_move_player_eq[OF Q25_refs] Q25_store
  by (simp_all add: Q25_fields Player_physics_def carry_def speedMultiplier_def Let_def config)

lemmas Q25_move = Q25_store Q25_player update_move_fields[OF Q25_refs] Q25_fields

lemma Q25_scroll:
  "scrolls (update_move 0 (Q25\<lparr> lastTime := 416 \<rparr>))"
  "scrollDiff (update_move 0 (Q25\<lparr> lastTime := 416 \<rparr>)) = 2"
  "\<not> recycles (update_move 0 (Q25\<lparr> lastTime := 416 \<rparr>))"
  "refs_ok (update_move 0 (Q25\<lparr> lastTime := 416 \<rparr>))"
  "platforms (update_move 0 (Q25\<lparr> lastTime := 416 \<rparr>)) \<noteq> []"
  by (simp_all add: scrolls_def scrollDiff_def recycles_def refs_ok_def Q25_move)

lemma Q25_landing:
  "landingPlatform (preCollision R1 416 0 Q25) = None"
  by (simp add: landingPlatform_def preCollision_def afterScroll_fields Q25_scroll Q25_move)

lemma Q26_eq:
  "Q26 = update_cosmetics (update_fall R1 (preCollision R1 416 0 Q25))"
  using Q25_landing
  by (simp add: Q26_def afterFrame_def update_collision_eq)

lemma Q26_fields:
  "state Q26 = Playing"
  "score Q26 = 0"
  "perfectStreak Q26 = 0"
  "isFever Q26 = False"
  "viewportWidth Q26 = 800"
  "viewportHeight Q26 = 600"
  "platforms Q26 = [0, 1, 2, 3, 4, 5]"
  "notifications Q26 = [ScoreUpdate 0, ComboChange 0, FeverChange False, GameStateChange Playing]"
  "store Q26 =
     [\<lparr> plat_x = 300, plat_y = 1189 / 2, plat_width = 200, plat_height = 20,
        plat_color = NEON_MAGENTA, plat_vx = 0, passed = False, landedOn = False \<rparr>,
      \<lparr> plat_x = 51667 / 128, plat_y = 889 / 2, plat_width = 130, plat_height = 20,
        plat_color = NEON_LIME, plat_vx = - (7 / 2), passed = False, landedOn = False \<rparr>,
      \<lparr> plat_x = 146549 / 256, plat_y = 589 / 2, plat_width = 130, plat_height = 20,
        plat_color = NEON_LIME, plat_vx = - (7 / 2), passed = False, landedOn = False \<rparr>,
      \<lparr> plat_x = 19919 / 256, plat_y = 289 / 2, plat_width = 130, plat_height = 20,
        plat_color = NEON_LIME, plat_vx = - (7 / 2), passed = False, landedOn = False \<rparr>,
      \<lparr> plat_x = 244, plat_y = - (11 / 2), plat_width = 130, plat_height = 20,
        plat_color = NEON_LIME, plat_vx = - (7 / 2), passed = False, landedOn = False \<rparr>,
      \<lparr> plat_x = 244, plat_y = - (311 / 2), plat_width = 130, plat_height = 20,
        plat_color = NEON_LIME, plat_vx = - (7 / 2), passed = False, landedOn = False \<rparr>]"
  "ply_x (player Q26) = 400"
  "ply_y (player Q26) = 360"
  "ply_vy (player Q26) = - 2"
  "ply_width (player Q26) = 40"
  "ply_height (player Q26) = 40"
  "ply_color (player Q26) = NEON_CYAN"
  "jumps (player Q26) = 1"
  "currentPlatform (player Q26) = None"
  "rix Q26 = 40"
  unfolding Q26_eq tail_fields update_fall_rix preCollision_def
    afterScroll_store_list[OF Q25_scroll(4,5)]
  by (simp_all add: afterScroll_fields afterScroll_rix Q25_scroll Q25_move spawned_R1 config)

lemma Q25_first: "firstLanding R1 (Frame 416 0) Q25 = None"
  by (simp add: Q25_fields(1) Q25_landing)

lemma wf_Q25: "wf Q25" and pinned_Q25: "pinned Q25"
  using reachable_inv[OF reachable_Q25] by simp_all

lemma Q25_loop: "loop R1 416 0 Q25 = Inr Q26"
  by (simp add: Q26_def loop_afterFrame[OF wf_Q25 Q25_fields(1)])

lemma reachable_Q26: "reachable R1 Q26"
  by (rule reachable.step[OF reachable_Q25, of "Frame 416 0"]) (simp_all add: Q25_loop)

lemma Q26_refs: "refs_ok (Q26\<lparr> lastTime := 432 \<rparr>)"
  by (simp add: refs_ok_def Q26_fields)

lemma Q26_store:
  "store (update_move 0 (Q26\<lparr> lastTime := 432 \<rparr>)) =
     [\<lparr> plat_x = 300, plat_y = 1189 / 2, plat_width = 200, plat_height = 20,
        plat_color = NEON_MAGENTA, plat_vx = 0, passed = False, landedOn = False \<rparr>,
      \<lparr> plat_x = 51219 / 128, plat_y = 889 / 2, plat_width = 130, plat_height = 20,
        plat_color = NEON_LIME, plat_vx = - (7 / 2), passed = False, landedOn = False \<rparr>,
      \<lparr> plat_x = 145653 / 256, plat_y = 589 / 2, plat_width = 130, plat_height = 20,
        plat_color = NEON_LIME, plat_vx = - (7 / 2), passed = False, landedOn = False \<rparr>,
      \<lparr> plat_x = 19023 / 256, plat_y = 289 / 2, plat_width = 130, plat_height = 20,
        plat_color = NEON_LIME, plat_vx = - (7 / 2), passed = False, landedOn = False \<rparr>,
      \<lparr> plat_x = 481 / 2, plat_y = - (11 / 2), plat_width = 130, plat_height = 20,
        plat_color = NEON_LIME, plat_vx = - (7 / 2), passed = False, landedOn = False \<rparr>,
      \<lparr> plat_x = 481 / 2, plat_y = - (311 / 2), plat_width = 130, plat_height = 20,
        plat_color = NEON_LIME, plat_vx = - (7 / 2), passed = False, landedOn = False \<rparr>]"
  by (simp add: update_move_eq[OF Q26_refs] Q26_fields advance_def speedMultiplier_def Let_def)

lemma Q26_player:
  "ply_x (player (update_move 0 (Q26\<lparr> lastTime := 432 \<rparr>))) = 400"
  "ply_y (player (update_move 0 (Q26\<lparr> lastTime := 432 \<rparr>))) = 717 / 2"
  "ply_vy (player (update_move 0 (Q26\<lparr> lastTime := 432 \<rparr>))) = - (3 / 2)"
  "ply_width (player (update_move 0 (Q26\<lparr> lastTime := 432 \<rparr>))) = 40"
  "ply_height (player (update_move 0 (Q26\<lparr> lastTime := 432 \<rparr>))) = 40"
  "ply_color (player (update_move 0 (Q26\<lparr> lastTime := 432 \<rparr>))) = NEON_CYAN"
  "jumps (player (update_move 0 (Q26\<lparr> lastTime := 432 \<rparr>))) = 1"
  "currentPlatform (player (update_move 0 (Q26\<lparr> lastTime := 432 \<rparr>))) = None"
  unfolding update_move_player_eq[OF Q26_refs] Q26_store
  by (simp_all add: Q26_fields Player_physics_def carry_def speedMultiplier_def Let_def config)

lemmas Q26_move = Q26_store Q26_player update_move_fields[OF Q26_refs] Q26_fields

lemma Q26_scroll:
  "scrolls (update_move 0 (Q26\<lparr> lastTime := 432 \<rparr>))"
  "scrollDiff (update_move 0 (Q26\<lparr> lastTime := 432 \<rparr>)) = 3 / 2"
  "\<not> recycles (update_move 0 (Q26\<lparr> lastTime := 432 \<rparr>))"
  "refs_ok (update_move 0 (Q26\<lparr> lastTime := 432 \<rparr>))"
  "platforms (update_move 0 (Q26\<lparr> lastTime := 432 \<rparr>)) \<noteq> []"
  by (simp_all add: scrolls_def scrollDiff_def recycles_def refs_ok_def Q26_move)

lemma Q26_landing:
  "landingPlatform (preCollision R1 432 0 Q26) = None"
  by (simp add: landingPlatform_def preCollision_def afterScroll_fields Q26_scroll Q26_move)

lemma Q27_eq:
  "Q27 = update_cosmetics (update_fall R1 (preCollision R1 432 0 Q26))"
  using Q26_landing
  by (simp add: Q27_def afterFrame_def update_collision_eq)

lemma Q27_fields:
  "state Q27 = Playing"
  "score Q27 = 0"
  "perfectStreak Q27 = 0"
  "isFever Q27 = False"
  "viewportWidth Q27 = 800"
  "viewportHeight Q27 = 600"
  "platforms Q27 = [0, 1, 2, 3, 4, 5]"
  "notifications Q27 = [ScoreUpdate 0, ComboChange 0, FeverChange False, GameStateChange Playing]"
  "store Q27 =
     [\<lparr> plat_x = 300, plat_y = 596, plat_width = 200, plat_height = 20,
        plat_color = NEON_MAGENTA, plat_vx = 0, passed = False, landedOn = False \<rparr>,
      \<lparr> plat_x = 51219 / 128, plat_y = 446, plat_width = 130, plat_height = 20,
        plat_color = NEON_LIME, plat_vx = - (7 / 2), passed = False, landedOn = False \<rparr>,
      \<lparr> plat_x = 145653 / 256, plat_y = 296, plat_width = 130, plat_height = 20,
        plat_color = NEON_LIME, plat_vx = - (7 / 2), passed = False, landedOn = False \<rparr>,
      \<lparr> plat_x = 19023 / 256, plat_y = 146, plat_width = 130, plat_height = 20,
        plat_color = NEON_LIME, plat_vx = - (7 / 2), passed = False, landedOn = False \<rparr>,
      \<lparr> plat_x = 481 / 2, plat_y = - 4, plat_width = 130, plat_height = 20,
        plat_color = NEON_LIME, plat_vx = - (7 / 2), passed = False, landedOn = False \<rparr>,
      \<lparr> plat_x = 481 / 2, plat_y = - 154, plat_width = 130, plat_height = 20,
        plat_color = NEON_LIME, plat_vx = - (7 / 2), passed = False, landedOn = False \<rparr>]"
  "ply_x (player Q27) = 400"
  "ply_y (player Q27) = 360"
  "ply_vy (player Q27) = - (3 / 2)"
  "ply_width (player Q27) = 40"
  "ply_height (player Q27) = 40"
  "ply_color (player Q27) = NEON_CYAN"
  "jumps (player Q27) = 1"
  "currentPlatform (player Q27) = None"
  "rix Q27 = 40"
  unfolding Q27_eq tail_fields update_fall_rix preCollision_def
    afterScroll_store_list[OF Q26_scroll(4,5)]
  by (simp_all add: afterScroll_fields afterScroll_rix Q26_scroll Q26_move spawned_R1 config)

lemma Q26_first: "firstLanding R1 (Frame 432 0) Q26 = None"
  by (simp add: Q26_fields(1) Q26_landing)

lemma wf_Q26: "wf Q26" and pinned_Q26: "pinned Q26"
  using reachable_inv[OF reachable_Q26] by simp_all

lemma Q26_loop: "loop R1 432 0 Q26 = Inr Q27"
  by (simp add: Q27_def loop_afterFrame[OF wf_Q26 Q26_fields(1)])

lemma reachable_Q27: "reachable R1 Q27"
  by (rule reachable.step[OF reachable_Q26, of "Frame 432 0"]) (simp_all add: Q26_loop)

lemma Q27_refs: "refs_ok (Q27\<lparr> lastTime := 448 \<rparr>)"
  by (simp add: refs_ok_def Q27_fields)

lemma Q27_store:
  "store (update_move 0 (Q27\<lparr> lastTime := 448 \<rparr>)) =
     [\<lparr> plat_x = 300, plat_y = 596, plat_width = 200, plat_height = 20,
        plat_color = NEON_MAGENTA, plat_vx = 0, passed = False, landedOn = False \<rparr>,
      \<lparr> plat_x = 50771 / 128, plat_y = 446, plat_width = 130, plat_height = 20,
        plat_color = NEON_LIME, plat_vx = - (7 / 2), passed = False, landedOn = False \<rparr>,
      \<lparr> plat_x = 144757 / 256, plat_y = 296, plat_width = 130, plat_height = 20,
        plat_color = NEON_LIME, plat_vx = - (7 / 2), passed = False, landedOn = False \<rparr>,
      \<lparr> plat_x = 18127 / 256, plat_y = 146, plat_width = 130, plat_height = 20,
        plat_color = NEON_LIME, plat_vx = - (7 / 2), passed = False, landedOn = False \<rparr>,
      \<lparr> plat_x = 237, plat_y = - 4, plat_width = 130, plat_height = 20,
        plat_color = NEON_LIME, plat_vx = - (7 / 2), passed = False, landedOn = False \<rparr>,
      \<lparr> plat_x = 237, plat_y = - 154, plat_width = 130, plat_height = 20,
        plat_color = NEON_LIME, plat_vx = - (7 / 2), passed = False, landedOn = False \<rparr>]"
  by (simp add: update_move_eq[OF Q27_refs] Q27_fields advance_def speedMultiplier_def Let_def)

lemma Q27_player:
  "ply_x (player (update_move 0 (Q27\<lparr> lastTime := 448 \<rparr>))) = 400"
  "ply_y (player (update_move 0 (Q27\<lparr> lastTime := 448 \<rparr>))) = 359"
  "ply_vy (player (update_move 0 (Q27\<lparr> lastTime := 448 \<rparr>))) = - 1"
  "ply_width (player (update_move 0 (Q27\<lparr> lastTime := 448 \<rparr>))) = 40"
  "ply_height (player (update_move 0 (Q27\<lparr> lastTime := 448 \<rparr>))) = 40"
  "ply_color (player (update_move 0 (Q27\<lparr> lastTime := 448 \<rparr>))) = NEON_CYAN"
  "jumps (player (update_move 0 (Q27\<lparr> lastTime := 448 \<rparr>))) = 1"
  "currentPlatform (player (update_move 0 (Q27\<lparr> lastTime := 448 \<rparr>))) = None"
  unfolding update_move_player_eq[OF Q27_refs] Q27_store
  by (simp_all add: Q27_fields Player_physics_def carry_def speedMultiplier_def Let_def config)

lemmas Q27_move = Q27_store Q27_player update_move_fields[OF Q27_refs] Q27_fields

lemma Q27_scroll:
  "scrolls (update_move 0 (Q27\<lparr> lastTime := 448 \<rparr>))"
  "scrollDiff (update_move 0 (Q27\<lparr> lastTime := 448 \<rparr>)) = 1"
  "\<not> recycles (update_move 0 (Q27\<lparr> lastTime := 448 \<rparr>))"
  "refs_ok (update_move 0 (Q27\<lparr> lastTime := 448 \<rparr>))"
  "platforms (update_move 0 (Q27\<lparr> lastTime := 448 \<rparr>)) \<noteq> []"
  by (simp_all add: scrolls_def scrollDiff_def recycles_def refs_ok_def Q27_move)

lemma Q27_landing:
  "landingPlatform (preCollision R1 448 0 Q27) = None"
  by (simp add: landingPlatform_def preCollision_def afterScroll_fields Q27_scroll Q27_move)

lemma Q28_eq:
  "Q28 = update_cosmetics (update_fall R1 (preCollision R1 448 0 Q27))"
  using Q27_landing
  by (simp add: Q28_def afterFrame_def update_collision_eq)

lemma Q28_fields:
  "state Q28 = Playing"
  "score Q28 = 0"
  "perfectStreak Q28 = 0"
  "isFever Q28 = False"
  "viewportWidth Q28 = 800"
  "viewportHeight Q28 = 600"
  "platforms Q28 = [0, 1, 2, 3, 4, 5]"
  "notifications Q28 = [ScoreUpdate 0, ComboChange 0, FeverChange False, GameStateChange Playing]"
  "store Q28 =
     [\<lparr> plat_x = 300, plat_y = 597, plat_width = 200, plat_height = 20,
        plat_color = NEON_MAGENTA, plat_vx = 0, passed = False, landedOn = False \<rparr>,
      \<lparr> plat_x = 50771 / 128, plat_y = 447, plat_width = 130, plat_height = 20,
        plat_color = NEON_LIME, plat_vx = - (7 / 2), passed = False, landedOn = False \<rparr>,
      \<lparr> plat_x = 144757 / 256, plat_y = 297, plat_width = 130, plat_height = 20,
        plat_color = NEON_LIME, plat_vx = - (7 / 2), passed = False, landedOn = False \<rparr>,
      \<lparr> plat_x = 18127 / 256, plat_y = 147, plat_width = 130, plat_height = 20,
        plat_color = NEON_LIME, plat_vx = - (7 / 2), passed = False, landedOn = False \<rparr>,
      \<lparr> plat_x = 237, plat_y = - 3, plat_width = 130, plat_height = 20,
        plat_color = NEON_LIME, plat_vx = - (7 / 2), passed = False, landedOn = False \<rparr>,
      \<lparr> plat_x = 237, plat_y = - 153, plat_width = 130, plat_height = 20,
        plat_color = NEON_LIME, plat_vx = - (7 / 2), passed = False, landedOn = False \<rparr>]"
  "ply_x (player Q28) = 400"
  "ply_y (player Q28) = 360"
  "ply_vy (player Q28) = - 1"
  "ply_width (player Q28) = 40"
  "ply_height (player Q28) = 40"
  "ply_color (player Q28) = NEON_CYAN"
  "jumps (player Q28) = 1"
  "currentPlatform (player Q28) = None"
  "rix Q28 = 40"
  unfolding Q28_eq tail_fields update_fall_rix preCollision_def
    afterScroll_store_list[OF Q27_scroll(4,5)]
  by (simp_all add: afterScroll_fields afterScroll_rix Q27_scroll Q27_move spawned_R1 config)

lemma Q27_first: "firstLanding R1 (Frame 448 0) Q27 = None"
  by (simp add: Q27_fields(1) Q27_landing)

lemma wf_Q27: "wf Q27" and pinned_Q27: "pinned Q27"
  using reachable_inv[OF reachable_Q27] by simp_all

lemma Q27_loop: "loop R1 448 0 Q27 = Inr Q28"
  by (simp add: Q28_def loop_afterFrame[OF wf_Q27 Q27_fields(1)])

lemma reachable_Q28: "reachable R1 Q28"
  by (rule reachable.step[OF reachable_Q27, of "Frame 448 0"]) (simp_all add: Q27_loop)

lemma Q28_refs: "refs_ok (Q28\<lparr> lastTime := 464 \<rparr>)"
  by (simp add: refs_ok_def Q28_fields)

lemma Q28_store:
  "store (update_move 0 (Q28\<lparr> lastTime := 464 \<rparr>)) =
     [\<lparr> plat_x = 300, plat_y = 597, plat_width = 200, plat_height = 20,
        plat_color = NEON_MAGENTA, plat_vx = 0, passed = False, landedOn = False \<rparr>,
      \<lparr> plat_x = 50323 / 128, plat_y = 447, plat_width = 130, plat_height = 20,
        plat_color = NEON_LIME, plat_vx = - (7 / 2), passed = False, landedOn = False \<rparr>,
      \<lparr> plat_x = 143861 / 256, plat_y = 297, plat_width = 130, plat_height = 20,
        plat_color = NEON_LIME, plat_vx = - (7 / 2), passed = False, landedOn = False \<rparr>,
      \<lparr> plat_x = 17231 / 256, plat_y = 147, plat_width = 130, plat_height = 20,
        plat_color = NEON_LIME, plat_vx = - (7 / 2), passed = False, landedOn = False \<rparr>,
      \<lparr> plat_x = 467 / 2, plat_y = - 3, plat_width = 130, plat_height = 20,
        plat_color = NEON_LIME, plat_vx = - (7 / 2), passed = False, landedOn = False \<rparr>,
      \<lparr> plat_x = 467 / 2, plat_y = - 153, plat_width = 130, plat_height = 20,
        plat_color = NEON_LIME, plat_vx = - (7 / 2), passed = False, landedOn = False \<rparr>]"
  by (simp add: update_move_eq[OF Q28_refs] Q28_fields advance_def speedMultiplier_def Let_def)

lemma Q28_player:
  "ply_x (player (update_move 0 (Q28\<lparr> lastTime := 464 \<rparr>))) = 400"
  "ply_y (player (update_move 0 (Q28\<lparr> lastTime := 464 \<rparr>))) = 719 / 2"
  "ply_vy (player (update_move 0 (Q28\<lparr> lastTime := 464 \<rparr>))) = - (1 / 2)"
  "ply_width (player (update_move 0 (Q28\<lparr> lastTime := 464 \<rparr>))) = 40"
  "ply_height (player (update_move 0 (Q28\<lparr> lastTime := 464 \<rparr>))) = 40"
  "ply_color (player (update_move 0 (Q28\<lparr> lastTime := 464 \<rparr>))) = NEON_CYAN"
  "jumps (player (update_move 0 (Q28\<lparr> lastTime := 464 \<rparr>))) = 1"
  "currentPlatform (player (update_move 0 (Q28\<lparr> lastTime := 464 \<rparr>))) = None"
  unfolding update_move_player_eq[OF Q28_refs] Q28_store
  by (simp_all add: Q28_fields Player_physics_def carry_def speedMultiplier_def Let_def config)

lemmas Q28_move = Q28_store Q28_player update_move_fields[OF Q28_refs] Q28_fields

lemma Q28_scroll:
  "scrolls (update_move 0 (Q28\<lparr> lastTime := 464 \<rparr>))"
  "scrollDiff (update_move 0 (Q28\<lparr> lastTime := 464 \<rparr>)) = 1 / 2"
  "\<not> recycles (update_move 0 (Q28\<lparr> lastTime := 464 \<rparr>))"
  "refs_ok (update_move 0 (Q28\<lparr> lastTime := 464 \<rparr>))"
  "platforms (update_move 0 (Q28\<lparr> lastTime := 464 \<rparr>)) \<noteq> []"
  by (simp_all add: scrolls_def scrollDiff_def recycles_def refs_ok_def Q28_move)

lemma Q28_landing:
  "landingPlatform (preCollision R1 464 0 Q28) = None"
  by (simp add: landingPlatform_def preCollision_def afterScroll_fields Q28_scroll Q28_move)

lemma Q29_eq:
  "Q29 = update_cosmetics (update_fall R1 (preCollision R1 464 0 Q28))"
  using Q28_landing
  by (simp add: Q29_def afterFrame_def update_collision_eq)

lemma Q29_fields:
  "state Q29 = Playing"
  "score Q29 = 0"
  "perfectStreak Q29 = 0"
  "isFever Q29 = False"
  "viewportWidth Q29 = 800"
  "viewportHeight Q29 = 600"
  "platforms Q29 = [0, 1, 2, 3, 4, 5]"
  "notifications Q29 = [ScoreUpdate 0, ComboChange 0, FeverChange False, GameStateChange Playing]"
  "store Q29 =
     [\<lparr> plat_x = 300, plat_y = 1195 / 2, plat_width = 200, plat_height = 20,
        plat_color = NEON_MAGENTA, plat_vx = 0, passed = False, landedOn = False \<rparr>,
      \<lparr> plat_x = 50323 / 128, plat_y = 895 / 2, plat_width = 130, plat_height = 20,
        plat_color = NEON_LIME, plat_vx = - (7 / 2), passed = False, landedOn = False \<rparr>,
      \<lparr> plat_x = 143861 / 256, plat_y = 595 / 2, plat_width = 130, plat_height = 20,
        plat_color = NEON_LIME, plat_vx = - (7 / 2), passed = False, landedOn = False \<rparr>,
      \<lparr> plat_x = 17231 / 256, plat_y = 295 / 2, plat_width = 130, plat_height = 20,
        plat_color = NEON_LIME, plat_vx = - (7 / 2), passed = False, landedOn = False \<rparr>,
      \<lparr> plat_x = 467 / 2, plat_y = - (5 / 2), plat_width = 130, plat_height = 20,
        plat_color = NEON_LIME, plat_vx = - (7 / 2), passed = False, landedOn = False \<rparr>,
      \<lparr> plat_x = 467 / 2, plat_y = - (305 / 2), plat_width = 130, plat_height = 20,
        plat_color = NEON_LIME, plat_vx = - (7 / 2), passed = False, landedOn = False \<rparr>]"
  "ply_x (player Q29) = 400"
  "ply_y (player Q29) = 360"
  "ply_vy (player Q29) = - (1 / 2)"
  "ply_width (player Q29) = 40"
  "ply_height (player Q29) = 40"
  "ply_color (player Q29) = NEON_CYAN"
  "jumps (player Q29) = 1"
  "currentPlatform (player Q29) = None"
  "rix Q29 = 40"
  unfolding Q29_eq tail_fields update_fall_rix preCollision_def
    afterScroll_store_list[OF Q28_scroll(4,5)]
  by (simp_all add: afterScroll_fields afterScroll_rix Q28_scroll Q28_move spawned_R1 config)

lemma Q28_first: "firstLanding R1 (Frame 464 0) Q28 = None"
  by (simp add: Q28_fields(1) Q28_landing)

lemma wf_Q28: "wf Q28" and pinned_Q28: "pinned Q28"
  using reachable_inv[OF reachable_Q28] by simp_all

lemma Q28_loop: "loop R1 464 0 Q28 = Inr Q29"
  by (simp add: Q29_def loop_afterFrame[OF wf_Q28 Q28_fields(1)])

lemma reachable_Q29: "reachable R1 Q29"
  by (rule reachable.step[OF reachable_Q28, of "Frame 464 0"]) (simp_all add: Q28_loop)

lemma Q29_refs: "refs_ok (Q29\<lparr> lastTime := 480 \<rparr>)"
  by (simp add: refs_ok_def Q29_fields)

lemma Q29_store:
  "store (update_move 0 (Q29\<lparr> lastTime := 480 \<rparr>)) =
     [\<lparr> plat_x = 300, plat_y = 1195 / 2, plat_width = 200, plat_height = 20,
        plat_color = NEON_MAGENTA, plat_vx = 0, passed = False, landedOn = False \<rparr>,
      \<lparr> plat_x = 49875 / 128, plat_y = 895 / 2, plat_width = 130, plat_height = 20,
        plat_color = NEON_LIME, plat_vx = - (7 / 2), passed = False, landedOn = False \<rparr>,
      \<lparr> plat_x = 142965 / 256, plat_y = 595 / 2, plat_width = 130, plat_height = 20,
        plat_color = NEON_LIME, plat_vx = - (7 / 2), passed = False, landedOn = False \<rparr>,
      \<lparr> plat_x = 16335 / 256, plat_y = 295 / 2, plat_width = 130, plat_height = 20,
        plat_color = NEON_LIME, plat_vx = - (7 / 2), passed = False, landedOn = False \<rparr>,
      \<lparr> plat_x = 230, plat_y = - (5 / 2), plat_width = 130, plat_height = 20,
        plat_color = NEON_LIME, plat_vx = - (7 / 2), passed = False, landedOn = False \<rparr>,
      \<lparr> plat_x = 230, plat_y = - (305 / 2), plat_width = 130, plat_height = 20,
        plat_color = NEON_LIME, plat_vx = - (7 / 2), passed = False, landedOn = False \<rparr>]"
  by (simp add: update_move_eq[OF Q29_refs] Q29_fields advance_def speedMultiplier_def Let_def)

lemma Q29_player:
  "ply_x (player (update_move 0 (Q29\<lparr> lastTime := 480 \<rparr>))) = 400"
  "ply_y (player (update_move 0 (Q29\<lparr> lastTime := 480 \<rparr>))) = 360"
  "ply_vy (player (update_move 0 (Q29\<lparr> lastTime := 480 \<rparr>))) = 0"
  "ply_width (player (update_move 0 (Q29\<lparr> lastTime := 480 \<rparr>))) = 40"
  "ply_height (player (update_move 0 (Q29\<lparr> lastTime := 480 \<rparr>))) = 40"
  "ply_color (player (update_move 0 (Q29\<lparr> lastTime := 480 \<rparr>))) = NEON_CYAN"
  "jumps (player (update_move 0 (Q29\<lparr> lastTime := 480 \<rparr>))) = 1"
  "currentPlatform (player (update_move 0 (Q29\<lparr> lastTime := 480 \<rparr>))) = None"
  unfolding update_move_player_eq[OF Q29_refs] Q29_store
  by (simp_all add: Q29_fields Player_physics_def carry_def speedMultiplier_def Let_def config)

lemmas Q29_move = Q29_store Q29_player update_move_fields[OF Q29_refs] Q29_fields

lemma Q29_preCollision:
  "preCollision R1 480 0 Q29 = update_move 0 (Q29\<lparr> lastTime := 480 \<rparr>)"
  by (simp add: preCollision_def afterScroll_def scrolls_def Q29_move)

lemma Q29_landing:
  "landingPlatform (preCollision R1 480 0 Q29) = None"
  by (simp add: Q29_preCollision landingPlatform_def hits_def Let_def Q29_move)

lemma Q30_eq:
  "Q30 = update_cosmetics (update_fall R1 (update_move 0 (Q29\<lparr> lastTime := 480 \<rparr>)))"
  using Q29_landing
  by (simp add: Q30_def afterFrame_def update_collision_eq Q29_preCollision)

lemma Q30_fields:
  "state Q30 = Playing"
  "score Q30 = 0"
  "perfectStreak Q30 = 0"
  "isFever Q30 = False"
  "viewportWidth Q30 = 800"
  "viewportHeight Q30 = 600"
  "platforms Q30 = [0, 1, 2, 3, 4, 5]"
  "notifications Q30 = [ScoreUpdate 0, ComboChange 0, FeverChange False, GameStateChange Playing]"
  "store Q30 =
     [\<lparr> plat_x = 300, plat_y = 1195 / 2, plat_width = 200, plat_height = 20,
        plat_color = NEON_MAGENTA, plat_vx = 0, passed = False, landedOn = False \<rparr>,
      \<lparr> plat_x = 49875 / 128, plat_y = 895 / 2, plat_width = 130, plat_height = 20,
        plat_color = NEON_LIME, plat_vx = - (7 / 2), passed = False, landedOn = False \<rparr>,
      \<lparr> plat_x = 142965 / 256, plat_y = 595 / 2, plat_width = 130, plat_height = 20,
        plat_color = NEON_LIME, plat_vx = - (7 / 2), passed = False, landedOn = False \<rparr>,
      \<lparr> plat_x = 16335 / 256, plat_y = 295 / 2, plat_width = 130, plat_height = 20,
        plat_color = NEON_LIME, plat_vx = - (7 / 2), passed = False, landedOn = False \<rparr>,
      \<lparr> plat_x = 230, plat_y = - (5 / 2), plat_width = 130, plat_height = 20,
        plat_color = NEON_LIME, plat_vx = - (7 / 2), passed = False, landedOn = False \<rparr>,
      \<lparr> plat_x = 230, plat_y = - (305 / 2), plat_width = 130, plat_height = 20,
        plat_color = NEON_LIME, plat_vx = - (7 / 2), passed = False, landedOn = False \<rparr>]"
  "ply_x (player Q30) = 400"
  "ply_y (player Q30) = 360"
  "ply_vy (player Q30) = 0"
  "ply_width (player Q30) = 40"
  "ply_height (player Q30) = 40"
  "ply_color (player Q30) = NEON_CYAN"
  "jumps (player Q30) = 1"
  "currentPlatform (player Q30) = None"
  "rix Q30 = 40"
  unfolding Q30_eq
  by (simp_all add: tail_fields update_fall_rix landed_fields landed_store landed_score
        landed_perfectStreak landed_isFever landed_notifications landed_player landed_rix
        land_def landingNotes_def perfectHit_def Q29_move config)

lemma Q29_first: "firstLanding R1 (Frame 480 0) Q29 = None"
  by (simp add: Q29_fields(1) Q29_landing)

lemma wf_Q29: "wf Q29" and pinned_Q29: "pinned Q29"
  using reachable_inv[OF reachable_Q29] by simp_all

lemma Q29_loop: "loop R1 480 0 Q29 = Inr Q30"
  by (simp add: Q30_def loop_afterFrame[OF wf_Q29 Q29_fields(1)])

lemma reachable_Q30: "reachable R1 Q30"
  by (rule reachable.step[OF reachable_Q29, of "Frame 480 0"]) (simp_all add: Q29_loop)

lemma Q30_refs: "refs_ok (Q30\<lparr> lastTime := 496 \<rparr>)"
  by (simp add: refs_ok_def Q30_fields)

lemma Q30_store:
  "store (update_move 0 (Q30\<lparr> lastTime := 496 \<rparr>)) =
     [\<lparr> plat_x = 300, plat_y = 1195 / 2, plat_width = 200, plat_height = 20,
        plat_color = NEON_MAGENTA, plat_vx = 0, passed = False, landedOn = False \<rparr>,
      \<lparr> plat_x = 49427 / 128, plat_y = 895 / 2, plat_width = 130, plat_height = 20,
        plat_color = NEON_LIME, plat_vx = - (7 / 2), passed = False, landedOn = False \<rparr>,
      \<lparr> plat_x = 142069 / 256, plat_y = 595 / 2, plat_width = 130, plat_height = 20,
        plat_color = NEON_LIME, plat_vx = - (7 / 2), passed = False, landedOn = False \<rparr>,
      \<lparr> plat_x = 15439 / 256, plat_y = 295 / 2, plat_width = 130, plat_height = 20,
        plat_color = NEON_LIME, plat_vx = - (7 / 2), passed = False, landedOn = False \<rparr>,
      \<lparr> plat_x = 453 / 2, plat_y = - (5 / 2), plat_width = 130, plat_height = 20,
        plat_color = NEON_LIME, plat_vx = - (7 / 2), passed = False, landedOn = False \<rparr>,
      \<lparr> plat_x = 453 / 2, plat_y = - (305 / 2), plat_width = 130, plat_height = 20,
        plat_color = NEON_LIME, plat_vx = - (7 / 2), passed = False, landedOn = False \<rparr>]"
  by (simp add: update_move_eq[OF Q30_refs] Q30_fields advance_def speedMultiplier_def Let_def)

lemma Q30_player:
  "ply_x (player (update_move 0 (Q30\<lparr> lastTime := 496 \<rparr>))) = 400"
  "ply_y (player (update_move 0 (Q30\<lparr> lastTime := 496 \<rparr>))) = 721 / 2"
  "ply_vy (player (update_move 0 (Q30\<lparr> lastTime := 496 \<rparr>))) = 1 / 2"
  "ply_width (player (update_move 0 (Q30\<lparr> lastTime := 496 \<rparr>))) = 40"
  "ply_height (player (update_move 0 (Q30\<lparr> lastTime := 496 \<rparr>))) = 40"
  "ply_color (player (update_move 0 (Q30\<lparr> lastTime := 496 \<rparr>))) = NEON_CYAN"
  "jumps (player (update_move 0 (Q30\<lparr> lastTime := 496 \<rparr>))) = 1"
  "currentPlatform (player (update_move 0 (Q30\<lparr> lastTime := 496 \<rparr>))) = None"
  unfolding update_move_player_eq[OF Q30_refs] Q30_store
  by (simp_all add: Q30_fields Player_physics_def carry_def speedMultiplier_def Let_def config)

lemmas Q30_move = Q30_store Q30_player update_move_fields[OF Q30_refs] Q30_fields

lemma Q30_preCollision:
  "preCollision R1 496 0 Q30 = update_move 0 (Q30\<lparr> lastTime := 496 \<rparr>)"
  by (simp add: preCollision_def afterScroll_def scrolls_def Q30_move)

lemma Q30_landing:
  "landingPlatform (preCollision R1 496 0 Q30) = None"
  by (simp add: Q30_preCollision landingPlatform_def hits_def Let_def Q30_move)

lemma Q31_eq:
  "Q31 = update_cosmetics (update_fall R1 (update_move 0 (Q30\<lparr> lastTime := 496 \<rparr>)))"
  using Q30_landing
  by (simp add: Q31_def afterFrame_def update_collision_eq Q30_preCollision)

lemma Q31_fields:
  "state Q31 = Playing"
  "score Q31 = 0"
  "perfectStreak Q31 = 0"
  "isFever Q31 = False"
  "viewportWidth Q31 = 800"
  "viewportHeight Q31 = 600"
  "platforms Q31 = [0, 1, 2, 3, 4, 5]"
  "notifications Q31 = [ScoreUpdate 0, ComboChange 0, FeverChange False, GameStateChange Playing]"
  "store Q31 =
     [\<lparr> plat_x = 300, plat_y = 1195 / 2, plat_width = 200, plat_height = 20,
        plat_color = NEON_MAGENTA, plat_vx = 0, passed = False, landedOn = False \<rparr>,
      \<lparr> plat_x = 49427 / 128, plat_y = 895 / 2, plat_width = 130, plat_height = 20,
        plat_color = NEON_LIME, plat_vx = - (7 / 2), passed = False, landedOn = False \<rparr>,
      \<lparr> plat_x = 142069 / 256, plat_y = 595 / 2, plat_width = 130, plat_height = 20,
        plat_color = NEON_LIME, plat_vx = - (7 / 2), passed = False, landedOn = False \<rparr>,
      \<lparr> plat_x = 15439 / 256, plat_y = 295 / 2, plat_width = 130, plat_height = 20,
        plat_color = NEON_LIME, plat_vx = - (7 / 2), passed = False, landedOn = False \<rparr>,
      \<lparr> plat_x = 453 / 2, plat_y = - (5 / 2), plat_width = 130, plat_height = 20,
        plat_color = NEON_LIME, plat_vx = - (7 / 2), passed = False, landedOn = False \<rparr>,
      \<lparr> plat_x = 453 / 2, plat_y = - (305 / 2), plat_width = 130, plat_height = 20,
        plat_color = NEON_LIME, plat_vx = - (7 / 2), passed = False, landedOn = False \<rparr>]"
  "ply_x (player Q31) = 400"
  "ply_y (player Q31) = 721 / 2"
  "ply_vy (player Q31) = 1 / 2"
  "ply_width (player Q31) = 40"
  "ply_height (player Q31) = 40"
  "ply_color (player Q31) = NEON_CYAN"
  "jumps (player Q31) = 1"
  "currentPlatform (player Q31) = None"
  "rix Q31 = 40"
  unfolding Q31_eq
  by (simp_all add: tail_fields update_fall_rix landed_fields landed_store landed_score
        landed_perfectStreak landed_isFever landed_notifications landed_player landed_rix
        land_def landingNotes_def perfectHit_def Q30_move config)

lemma Q30_first: "firstLanding R1 (Frame 496 0) Q30 = None"
  by (simp add: Q30_fields(1) Q30_landing)

lemma wf_Q30: "wf Q30" and pinned_Q30: "pinned Q30"
  using reachable_inv[OF reachable_Q30] by simp_all

lemma Q30_loop: "loop R1 496 0 Q30 = Inr Q31"
  by (simp add: Q31_def loop_afterFrame[OF wf_Q30 Q30_fields(1)])

lemma reachable_Q31: "reachable R1 Q31"
  by (rule reachable.step[OF reachable_Q30, of "Frame 496 0"]) (simp_all add: Q30_loop)

lemma Q31_refs: "refs_ok (Q31\<lparr> lastTime := 512 \<rparr>)"
  by (simp add: refs_ok_def Q31_fields)

lemma Q31_store:
  "store (update_move 0 (Q31\<lparr> lastTime := 512 \<rparr>)) =
     [\<lparr> plat_x = 300, plat_y = 1195 / 2, plat_width = 200, plat_height = 20,
        plat_color = NEON_MAGENTA, plat_vx = 0, passed = False, landedOn = False \<rparr>,
      \<lparr> plat_x = 48979 / 128, plat_y = 895 / 2, plat_width = 130, plat_height = 20,
        plat_color = NEON_LIME, plat_vx = - (7 / 2), passed = False, landedOn = False \<rparr>,
      \<lparr> plat_x = 141173 / 256, plat_y = 595 / 2, plat_width = 130, plat_height = 20,
        plat_color = NEON_LIME, plat_vx = - (7 / 2), passed = False, landedOn = False \<rparr>,
      \<lparr> plat_x = 14543 / 256, plat_y = 295 / 2, plat_width = 130, plat_height = 20,
        plat_color = NEON_LIME, plat_vx = - (7 / 2), passed = False, landedOn = False \<rparr>,
      \<lparr> plat_x = 223, plat_y = - (5 / 2), plat_width = 130, plat_height = 20,
        plat_color = NEON_LIME, plat_vx = - (7 / 2), passed = False, landedOn = False \<rparr>,
      \<lparr> plat_x = 223, plat_y = - (305 / 2), plat_width = 130, plat_height = 20,
        plat_color = NEON_LIME, plat_vx = - (7 / 2), passed = False, landedOn = False \<rparr>]"
  by (simp add: update_move_eq[OF Q31_refs] Q31_fields advance_def speedMultiplier_def Let_def)

lemma Q31_player:
  "ply_x (player (update_move 0 (Q31\<lparr> lastTime := 512 \<rparr>))) = 400"
  "ply_y (player (update_move 0 (Q31\<lparr> lastTime := 512 \<rparr>))) = 723 / 2"
  "ply_vy (player (update_move 0 (Q31\<lparr> lastTime := 512 \<rparr>))) = 1"
  "ply_width (player (update_move 0 (Q31\<lparr> lastTime := 512 \<rparr>))) = 40"
  "ply_height (player (update_move 0 (Q31\<lparr> lastTime := 512 \<rparr>))) = 40"
  "ply_color (player (update_move 0 (Q31\<lparr> lastTime := 512 \<rparr>))) = NEON_CYAN"
  "jumps (player (update_move 0 (Q31\<lparr> lastTime := 512 \<rparr>))) = 1"
  "currentPlatform (player (update_move 0 (Q31\<lparr> lastTime := 512 \<rparr>))) = None"
  unfolding update_move_player_eq[OF Q31_refs] Q31_store
  by (simp_all add: Q31_fields Player_physics_def carry_def speedMultiplier_def Let_def config)

lemmas Q31_move = Q31_store Q31_player update_move_fields[OF Q31_refs] Q31_fields

lemma Q31_preCollision:
  "preCollision R1 512 0 Q31 = update_move 0 (Q31\<lparr> lastTime := 512 \<rparr>)"
  by (simp add: preCollision_def afterScroll_def scrolls_def Q31_move)

lemma Q31_landing:
  "landingPlatform (preCollision R1 512 0 Q31) = None"
  by (simp add: Q31_preCollision landingPlatform_def hits_def Let_def Q31_move)

lemma Q32_eq:
  "Q32 = update_cosmetics (update_fall R1 (update_move 0 (Q31\<lparr> lastTime := 512 \<rparr>)))"
  using Q31_landing
  by (simp add: Q32_def afterFrame_def update_collision_eq Q31_preCollision)

lemma Q32_fields:
  "state Q32 = Playing"
  "score Q32 = 0"
  "perfectStreak Q32 = 0"
  "isFever Q32 = False"
  "viewportWidth Q32 = 800"
  "viewportHeight Q32 = 600"
  "platforms Q32 = [0, 1, 2, 3, 4, 5]"
  "notifications Q32 = [ScoreUpdate 0, ComboChange 0, FeverChange False, GameStateChange Playing]"
  "store Q32 =
     [\<lparr> plat_x = 300, plat_y = 1195 / 2, plat_width = 200, plat_height = 20,
        plat_color = NEON_MAGENTA, plat_vx = 0, passed = False, landedOn = False \<rparr>,
      \<lparr> plat_x = 48979 / 128, plat_y = 895 / 2, plat_width = 130, plat_height = 20,
        plat_color = NEON_LIME, plat_vx = - (7 / 2), passed = False, landedOn = False \<rparr>,
      \<lparr> plat_x = 141173 / 256, plat_y = 595 / 2, plat_width = 130, plat_height = 20,
        plat_color = NEON_LIME, plat_vx = - (7 / 2), passed = False, landedOn = False \<rparr>,
      \<lparr> plat_x = 14543 / 256, plat_y = 295 / 2, plat_width = 130, plat_height = 20,
        plat_color = NEON_LIME, plat_vx = - (7 / 2), passed = False, landedOn = False \<rparr>,
      \<lparr> plat_x = 223, plat_y = - (5 / 2), plat_width = 130, plat_height = 20,
        plat_color = NEON_LIME, plat_vx = - (7 / 2), passed = False, landedOn = False \<rparr>,
      \<lparr> plat_x = 223, plat_y = - (305 / 2), plat_width = 130, plat_height = 20,
        plat_color = NEON_LIME, plat_vx = - (7 / 2), passed = False, landedOn = False \<rparr>]"
  "ply_x (player Q32) = 400"
  "ply_y (player Q32) = 723 / 2"
  "ply_vy (player Q32) = 1"
  "ply_width (player Q32) = 40"
  "ply_height (player Q32) = 40"
  "ply_color (player Q32) = NEON_CYAN"
  "jumps (player Q32) = 1"
  "currentPlatform (player Q32) = None"
  "rix Q32 = 40"
  unfolding Q32_eq
  by (simp_all add: tail_fields update_fall_rix landed_fields landed_store landed_score
        landed_perfectStreak landed_isFever landed_notifications landed_player landed_rix
        land_def landingNotes_def perfectHit_def Q31_move config)

lemma Q31_first: "firstLanding R1 (Frame 512 0) Q31 = None"
  by (simp add: Q31_fields(1) Q31_landing)

lemma wf_Q31: "wf Q31" and pinned_Q31: "pinned Q31"
  using reachable_inv[OF reachable_Q31] by simp_all

lemma Q31_loop: "loop R1 512 0 Q31 = Inr Q32"
  by (simp add: Q32_def loop_afterFrame[OF wf_Q31 Q31_fields(1)])

lemma reachable_Q32: "reachable R1 Q32"
  by (rule reachable.step[OF reachable_Q31, of "Frame 512 0"]) (simp_all add: Q31_loop)

lemma Q32_refs: "refs_ok (Q32\<lparr> lastTime := 528 \<rparr>)"
  by (simp add: refs_ok_def Q32_fields)

lemma Q32_store:
  "store (update_move 0 (Q32\<lparr> lastTime := 528 \<rparr>)) =
     [\<lparr> plat_x = 300, plat_y = 1195 / 2, plat_width = 200, plat_height = 20,
        plat_color = NEON_MAGENTA, plat_vx = 0, passed = False, landedOn = False \<rparr>,
      \<lparr> plat_x = 48531 / 128, plat_y = 895 / 2, plat_width = 130, plat_height = 20,
        plat_color = NEON_LIME, plat_vx = - (7 / 2), passed = False, landedOn = False \<rparr>,
      \<lparr> plat_x = 140277 / 256, plat_y = 595 / 2, plat_width = 130, plat_height = 20,
        plat_color = NEON_LIME, plat_vx = - (7 / 2), passed = False, landedOn = False \<rparr>,
      \<lparr> plat_x = 13647 / 256, plat_y = 295 / 2, plat_width = 130, plat_height = 20,
        plat_color = NEON_LIME, plat_vx = - (7 / 2), passed = False, landedOn = False \<rparr>,
      \<lparr> plat_x = 439 / 2, plat_y = - (5 / 2), plat_width = 130, plat_height = 20,
        plat_color = NEON_LIME, plat_vx = - (7 / 2), passed = False, landedOn = False \<rparr>,
      \<lparr> plat_x = 439 / 2, plat_y = - (305 / 2), plat_width = 130, plat_height = 20,
        plat_color = NEON_LIME, plat_vx = - (7 / 2), passed = False, landedOn = False \<rparr>]"
  by (simp add: update_move_eq[OF Q32_refs] Q32_fields advance_def speedMultiplier_def Let_def)

lemma Q32_player:
  "ply_x (player (update_move 0 (Q32\<lparr> lastTime := 528 \<rparr>))) = 400"
  "ply_y (player (update_move 0 (Q32\<lparr> lastTime := 528 \<rparr>))) = 363"
  "ply_vy (player (update_move 0 (Q32\<lparr> lastTime := 528 \<rparr>))) = 3 / 2"
  "ply_width (player (update_move 0 (Q32\<lparr> lastTime := 528 \<rparr>))) = 40"
  "ply_height (player (update_move 0 (Q32\<lparr> lastTime := 528 \<rparr>))) = 40"
  "ply_color (player (update_move 0 (Q32\<lparr> lastTime := 528 \<rparr>))) = NEON_CYAN"
  "jumps (player (update_move 0 (Q32\<lparr> lastTime := 528 \<rparr>))) = 1"
  "currentPlatform (player (update_move 0 (Q32\<lparr> lastTime := 528 \<rparr>))) = None"
  unfolding update_move_player_eq[OF Q32_refs] Q32_store
  by (simp_all add: Q32_fields Player_physics_def carry_def speedMultiplier_def Let_def config)

lemmas Q32_move = Q32_store Q32_player update_move_fields[OF Q32_refs] Q32_fields

lemma Q32_preCollision:
  "preCollision R1 528 0 Q32 = update_move 0 (Q32\<lparr> lastTime := 528 \<rparr>)"
  by (simp add: preCollision_def afterScroll_def scrolls_def Q32_move)

lemma Q32_landing:
  "landingPlatform (preCollision R1 528 0 Q32) = None"
  by (simp add: Q32_preCollision landingPlatform_def hits_def Let_def Q32_move)

lemma Q33_eq:
  "Q33 = update_cosmetics (update_fall R1 (update_move 0 (Q32\<lparr> lastTime := 528 \<rparr>)))"
  using Q32_landing
  by (simp add: Q33_def afterFrame_def update_collision_eq Q32_preCollision)

lemma Q33_fields:
  "state Q33 = Playing"
  "score Q33 = 0"
  "perfectStreak Q33 = 0"
  "isFever Q33 = False"
  "viewportWidth Q33 = 800"
  "viewportHeight Q33 = 600"
  "platforms Q33 = [0, 1, 2, 3, 4, 5]"
  "notifications Q33 = [ScoreUpdate 0, ComboChange 0, FeverChange False, GameStateChange Playing]"
  "store Q33 =
     [\<lparr> plat_x = 300, plat_y = 1195 / 2, plat_width = 200, plat_height = 20,
        plat_color = NEON_MAGENTA, plat_vx = 0, passed = False, landedOn = False \<rparr>,
      \<lparr> plat_x = 48531 / 128, plat_y = 895 / 2, plat_width = 130, plat_height = 20,
        plat_color = NEON_LIME, plat_vx = - (7 / 2), passed = False, landedOn = False \<rparr>,
      \<lparr> plat_x = 140277 / 256, plat_y = 595 / 2, plat_width = 130, plat_height = 20,
        plat_color = NEON_LIME, plat_vx = - (7 / 2), passed = False, landedOn = False \<rparr>,
      \<lparr> plat_x = 13647 / 256, plat_y = 295 / 2, plat_width = 130, plat_height = 20,
        plat_color = NEON_LIME, plat_vx = - (7 / 2), passed = False, landedOn = False \<rparr>,
      \<lparr> plat_x = 439 / 2, plat_y = - (5 / 2), plat_width = 130, plat_height = 20,
        plat_color = NEON_LIME, plat_vx = - (7 / 2), passed = False, landedOn = False \<rparr>,
      \<lparr> plat_x = 439 / 2, plat_y = - (305 / 2), plat_width = 130, plat_height = 20,
        plat_color = NEON_LIME, plat_vx = - (7 / 2), passed = False, landedOn = False \<rparr>]"
  "ply_x (player Q33) = 400"
  "ply_y (player Q33) = 363"
  "ply_vy (player Q33) = 3 / 2"
  "ply_width (player Q33) = 40"
  "ply_height (player Q33) = 40"
  "ply_color (player Q33) = NEON_CYAN"
  "jumps (player Q33) = 1"
  "currentPlatform (player Q33) = None"
  "rix Q33 = 40"
  unfolding Q33_eq
  by (simp_all add: tail_fields update_fall_rix landed_fields landed_store landed_score
        landed_perfectStreak landed_isFever landed_notifications landed_player landed_rix
        land_def landingNotes_def perfectHit_def Q32_move config)

lemma Q32_first: "firstLanding R1 (Frame 528 0) Q32 = None"
  by (simp add: Q32_fields(1) Q32_landing)

lemma wf_Q32: "wf Q32" and pinned_Q32: "pinned Q32"
  using reachable_inv[OF reachable_Q32] by simp_all

lemma Q32_loop: "loop R1 528 0 Q32 = Inr Q33"
  by (simp add: Q33_def loop_afterFrame[OF wf_Q32 Q32_fields(1)])

lemma reachable_Q33: "reachable R1 Q33"
  by (rule reachable.step[OF reachable_Q32, of "Frame 528 0"]) (simp_all add: Q32_loop)

lemma Q33_refs: "refs_ok (Q33\<lparr> lastTime := 544 \<rparr>)"
  by (simp add: refs_ok_def Q33_fields)

lemma Q33_store:
  "store (update_move 0 (Q33\<lparr> lastTime := 544 \<rparr>)) =
     [\<lparr> plat_x = 300, plat_y = 1195 / 2, plat_width = 200, plat_height = 20,
        plat_color = NEON_MAGENTA, plat_vx = 0, passed = False, landedOn = False \<rparr>,
      \<lparr> plat_x = 48083 / 128, plat_y = 895 / 2, plat_width = 130, plat_height = 20,
        plat_color = NEON_LIME, plat_vx = - (7 / 2), passed = False, landedOn = False \<rparr>,
      \<lparr> plat_x = 139381 / 256, plat_y = 595 / 2, plat_width = 130, plat_height = 20,
        plat_color = NEON_LIME, plat_vx = - (7 / 2), passed = False, landedOn = False \<rparr>,
      \<lparr> plat_x = 12751 / 256, plat_y = 295 / 2, plat_width = 130, plat_height = 20,
        plat_color = NEON_LIME, plat_vx = - (7 / 2), passed = False, landedOn = False \<rparr>,
      \<lparr> plat_x = 216, plat_y = - (5 / 2), plat_width = 130, plat_height = 20,
        plat_color = NEON_LIME, plat_vx = - (7 / 2), passed = False, landedOn = False \<rparr>,
      \<lparr> plat_x = 216, plat_y = - (305 / 2), plat_width = 130, plat_height = 20,
        plat_color = NEON_LIME, plat_vx = - (7 / 2), passed = False, landedOn = False \<rparr>]"
  by (simp add: update_move_eq[OF Q33_refs] Q33_fields advance_def speedMultiplier_def Let_def)

lemma Q33_player:
  "ply_x (player (update_move 0 (Q33\<lparr> lastTime := 544 \<rparr>))) = 400"
  "ply_y (player (update_move 0 (Q33\<lparr> lastTime := 544 \<rparr>))) = 365"
  "ply_vy (player (update_move 0 (Q33\<lparr> lastTime := 544 \<rparr>))) = 2"
  "ply_width (player (update_move 0 (Q33\<lparr> lastTime := 544 \<rparr>))) = 40"
  "ply_height (player (update_move 0 (Q33\<lparr> lastTime := 544 \<rparr>))) = 40"
  "ply_color (player (update_move 0 (Q33\<lparr> lastTime := 544 \<rparr>))) = NEON_CYAN"
  "jumps (player (update_move 0 (Q33\<lparr> lastTime := 544 \<rparr>))) = 1"
  "currentPlatform (player (update_move 0 (Q33\<lparr> lastTime := 544 \<rparr>))) = None"
  unfolding update_move_player_eq[OF Q33_refs] Q33_store
  by (simp_all add: Q33_fields Player_physics_def carry_def speedMultiplier_def Let_def config)

lemmas Q33_move = Q33_store Q33_player update_move_fields[OF Q33_refs] Q33_fields

lemma Q33_preCollision:
  "preCollision R1 544 0 Q33 = update_move 0 (Q33\<lparr> lastTime := 544 \<rparr>)"
  by (simp add: preCollision_def afterScroll_def scrolls_def Q33_move)

lemma Q33_landing:
  "landingPlatform (preCollision R1 544 0 Q33) = None"
  by (simp add: Q33_preCollision landingPlatform_def hits_def Let_def Q33_move)

lemma Q34_eq:
  "Q34 = update_cosmetics (update_fall R1 (update_move 0 (Q33\<lparr> lastTime := 544 \<rparr>)))"
  using Q33_landing
  by (simp add: Q34_def afterFrame_def update_collision_eq Q33_preCollision)

lemma Q34_fields:
  "state Q34 = Playing"
  "score Q34 = 0"
  "perfectStreak Q34 = 0"
  "isFever Q34 = False"
  "viewportWidth Q34 = 800"
  "viewportHeight Q34 = 600"
  "platforms Q34 = [0, 1, 2, 3, 4, 5]"
  "notifications Q34 = [ScoreUpdate 0, ComboChange 0, FeverChange False, GameStateChange Playing]"
  "store Q34 =
     [\<lparr> plat_x = 300, plat_y = 1195 / 2, plat_width = 200, plat_height = 20,
        plat_color = NEON_MAGENTA, plat_vx = 0, passed = False, landedOn = False \<rparr>,
      \<lparr> plat_x = 48083 / 128, plat_y = 895 / 2, plat_width = 130, plat_height = 20,
        plat_color = NEON_LIME, plat_vx = - (7 / 2), passed = False, landedOn = False \<rparr>,
      \<lparr> plat_x = 139381 / 256, plat_y = 595 / 2, plat_width = 130, plat_height = 20,
        plat_color = NEON_LIME, plat_vx = - (7 / 2), passed = False, landedOn = False \<rparr>,
      \<lparr> plat_x = 12751 / 256, plat_y = 295 / 2, plat_width = 130, plat_height = 20,
        plat_color = NEON_LIME, plat_vx = - (7 / 2), passed = False, landedOn = False \<rparr>,
      \<lparr> plat_x = 216, plat_y = - (5 / 2), plat_width = 130, plat_height = 20,
        plat_color = NEON_LIME, plat_vx = - (7 / 2), passed = False, landedOn = False \<rparr>,
      \<lparr> plat_x = 216, plat_y = - (305 / 2), plat_width = 130, plat_height = 20,
        plat_color = NEON_LIME, plat_vx = - (7 / 2), passed = False, landedOn = False \<rparr>]"
  "ply_x (player Q34) = 400"
  "ply_y (player Q34) = 365"
  "ply_vy (player Q34) = 2"
  "ply_width (player Q34) = 40"
  "ply_height (player Q34) = 40"
  "ply_color (player Q34) = NEON_CYAN"
  "jumps (player Q34) = 1"
  "currentPlatform (player Q34) = None"
  "rix Q34 = 40"
  unfolding Q34_eq
  by (simp_all add: tail_fields update_fall_rix landed_fields landed_store landed_score
        landed_perfectStreak landed_isFever landed_notifications landed_player landed_rix
        land_def landingNotes_def perfectHit_def Q33_move config)

lemma Q33_first: "firstLanding R1 (Frame 544 0) Q33 = None"
  by (simp add: Q33_fields(1) Q33_landing)

lemma wf_Q33: "wf Q33" and pinned_Q33: "pinned Q33"
  using reachable_inv[OF reachable_Q33] by simp_all

lemma Q33_loop: "loop R1 544 0 Q33 = Inr Q34"
  by (simp add: Q34_def loop_afterFrame[OF wf_Q33 Q33_fields(1)])

lemma reachable_Q34: "reachable R1 Q34"
  by (rule reachable.step[OF reachable_Q33, of "Frame 544 0"]) (simp_all add: Q33_loop)

lemma Q34_refs: "refs_ok (Q34\<lparr> lastTime := 560 \<rparr>)"
  by (simp add: refs_ok_def Q34_fields)

lemma Q34_store:
  "store (update_move 0 (Q34\<lparr> lastTime := 560 \<rparr>)) =
     [\<lparr> plat_x = 300, plat_y = 1195 / 2, plat_width = 200, plat_height = 20,
        plat_color = NEON_MAGENTA, plat_vx = 0, passed = False, landedOn = False \<rparr>,
      \<lparr> plat_x = 47635 / 128, plat_y = 895 / 2, plat_width = 130, plat_height = 20,
        plat_color = NEON_LIME, plat_vx = - (7 / 2), passed = False, landedOn = False \<rparr>,
      \<lparr> plat_x = 138485 / 256, plat_y = 595 / 2, plat_width = 130, plat_height = 20,
        plat_color = NEON_LIME, plat_vx = - (7 / 2), passed = False, landedOn = False \<rparr>,
      \<lparr> plat_x = 11855 / 256, plat_y = 295 / 2, plat_width = 130, plat_height = 20,
        plat_color = NEON_LIME, plat_vx = - (7 / 2), passed = False, landedOn = False \<rparr>,
      \<lparr> plat_x = 425 / 2, plat_y = - (5 / 2), plat_width = 130, plat_height = 20,
        plat_color = NEON_LIME, plat_vx = - (7 / 2), passed = False, landedOn = False \<rparr>,
      \<lparr> plat_x = 425 / 2, plat_y = - (305 / 2), plat_width = 130, plat_height = 20,
        plat_color = NEON_LIME, plat_vx = - (7 / 2), passed = False, landedOn = False \<rparr>]"
  by (simp add: update_move_eq[OF Q34_refs] Q34_fields advance_def speedMultiplier_def Let_def)

lemma Q34_player:
  "ply_x (player (update_move 0 (Q34\<lparr> lastTime := 560 \<rparr>))) = 400"
  "ply_y (player (update_move 0 (Q34\<lparr> lastTime := 560 \<rparr>))) = 735 / 2"
  "ply_vy (player (update_move 0 (Q34\<lparr> lastTime := 560 \<rparr>))) = 5 / 2"
  "ply_width (player (update_move 0 (Q34\<lparr> lastTime := 560 \<rparr>))) = 40"
  "ply_height (player (update_move 0 (Q34\<lparr> lastTime := 560 \<rparr>))) = 40"
  "ply_color (player (update_move 0 (Q34\<lparr> lastTime := 560 \<rparr>))) = NEON_CYAN"
  "jumps (player (update_move 0 (Q34\<lparr> lastTime := 560 \<rparr>))) = 1"
  "currentPlatform (player (update_move 0 (Q34\<lparr> lastTime := 560 \<rparr>))) = None"
  unfolding update_move_player_eq[OF Q34_refs] Q34_store
  by (simp_all add: Q34_fields Player_physics_def carry_def speedMultiplier_def Let_def config)

lemmas Q34_move = Q34_store Q34_player update_move_fields[OF Q34_refs] Q34_fields

lemma Q34_preCollision:
  "preCollision R1 560 0 Q34 = update_move 0 (Q34\<lparr> lastTime := 560 \<rparr>)"
  by (simp add: preCollision_def afterScroll_def scrolls_def Q34_move)

lemma Q34_landing:
  "landingPlatform (preCollision R1 560 0 Q34) = None"
  by (simp add: Q34_preCollision landingPlatform_def hits_def Let_def Q34_move)

lemma Q35_eq:
  "Q35 = update_cosmetics (update_fall R1 (update_move 0 (Q34\<lparr> lastTime := 560 \<rparr>)))"
  using Q34_landing
  by (simp add: Q35_def afterFrame_def update_collision_eq Q34_preCollision)

lemma Q35_fields:
  "state Q35 = Playing"
  "score Q35 = 0"
  "perfectStreak Q35 = 0"
  "isFever Q35 = False"
  "viewportWidth Q35 = 800"
  "viewportHeight Q35 = 600"
  "platforms Q35 = [0, 1, 2, 3, 4, 5]"
  "notifications Q35 = [ScoreUpdate 0, ComboChange 0, FeverChange False, GameStateChange Playing]"
  "store Q35 =
     [\<lparr> plat_x = 300, plat_y = 1195 / 2, plat_width = 200, plat_height = 20,
        plat_color = NEON_MAGENTA, plat_vx = 0, passed = False, landedOn = False \<rparr>,
      \<lparr> plat_x = 47635 / 128, plat_y = 895 / 2, plat_width = 130, plat_height = 20,
        plat_color = NEON_LIME, plat_vx = - (7 / 2), passed = False, landedOn = False \<rparr>,
      \<lparr> plat_x = 138485 / 256, plat_y = 595 / 2, plat_width = 130, plat_height = 20,
        plat_color = NEON_LIME, plat_vx = - (7 / 2), passed = False, landedOn = False \<rparr>,
      \<lparr> plat_x = 11855 / 256, plat_y = 295 / 2, plat_width = 130, plat_height = 20,
        plat_color = NEON_LIME, plat_vx = - (7 / 2), passed = False, landedOn = False \<rparr>,
      \<lparr> plat_x = 425 / 2, plat_y = - (5 / 2), plat_width = 130, plat_height = 20,
        plat_color = NEON_LIME, plat_vx = - (7 / 2), passed = False, landedOn = False \<rparr>,
      \<lparr> plat_x = 425 / 2, plat_y = - (305 / 2), plat_width = 130, plat_height = 20,
        plat_color = NEON_LIME, plat_vx = - (7 / 2), passed = False, landedOn = False \<rparr>]"
  "ply_x (player Q35) = 400"
  "ply_y (player Q35) = 735 / 2"
  "ply_vy (player Q35) = 5 / 2"
  "ply_width (player Q35) = 40"
  "ply_height (player Q35) = 40"
  "ply_color (player Q35) = NEON_CYAN"
  "jumps (player Q35) = 1"
  "currentPlatform (player Q35) = None"
  "rix Q35 = 40"
  unfolding Q35_eq
  by (simp_all add: tail_fields update_fall_rix landed_fields landed_store landed_score
        landed_perfectStreak landed_isFever landed_notifications landed_player landed_rix
        land_def landingNotes_def perfectHit_def Q34_move config)

lemma Q34_first: "firstLanding R1 (Frame 560 0) Q34 = None"
  by (simp add: Q34_fields(1) Q34_landing)

lemma wf_Q34: "wf Q34" and pinned_Q34: "pinned Q34"
  using reachable_inv[OF reachable_Q34] by simp_all

lemma Q34_loop: "loop R1 560 0 Q34 = Inr Q35"
  by (simp add: Q35_def loop_afterFrame[OF wf_Q34 Q34_fields(1)])

lemma reachable_Q35: "reachable R1 Q35"
  by (rule reachable.step[OF reachable_Q34, of "Frame 560 0"]) (simp_all add: Q34_loop)

lemma Q35_refs: "refs_ok (Q35\<lparr> lastTime := 576 \<rparr>)"
  by (simp add: refs_ok_def Q35_fields)

lemma Q35_store:
  "store (update_move 0 (Q35\<lparr> lastTime := 576 \<rparr>)) =
     [\<lparr> plat_x = 300, plat_y = 1195 / 2, plat_width = 200, plat_height = 20,
        plat_color = NEON_MAGENTA, plat_vx = 0, passed = False, landedOn = False \<rparr>,
      \<lparr> plat_x = 47187 / 128, plat_y = 895 / 2, plat_width = 130, plat_height = 20,
        plat_color = NEON_LIME, plat_vx = - (7 / 2), passed = False, landedOn = False \<rparr>,
      \<lparr> plat_x = 137589 / 256, plat_y = 595 / 2, plat_width = 130, plat_height = 20,
        plat_color = NEON_LIME, plat_vx = - (7 / 2), passed = False, landedOn = False \<rparr>,
      \<lparr> plat_x = 10959 / 256, plat_y = 295 / 2, plat_width = 130, plat_height = 20,
        plat_color = NEON_LIME, plat_vx = - (7 / 2), passed = False, landedOn = False \<rparr>,
      \<lparr> plat_x = 209, plat_y = - (5 / 2), plat_width = 130, plat_height = 20,
        plat_color = NEON_LIME, plat_vx = - (7 / 2), passed = False, landedOn = False \<rparr>,
      \<lparr> plat_x = 209, plat_y = - (305 / 2), plat_width = 130, plat_height = 20,
        plat_color = NEON_LIME, plat_vx = - (7 / 2), passed = False, landedOn = False \<rparr>]"
  by (simp add: update_move_eq[OF Q35_refs] Q35_fields advance_def speedMultiplier_def Let_def)

lemma Q35_player:
  "ply_x (player (update_move 0 (Q35\<lparr> lastTime := 576 \<rparr>))) = 400"
  "ply_y (player (update_move 0 (Q35\<lparr> lastTime := 576 \<rparr>))) = 741 / 2"
  "ply_vy (player (update_move 0 (Q35\<lparr> lastTime := 576 \<rparr>))) = 3"
  "ply_width (player (update_move 0 (Q35\<lparr> lastTime := 576 \<rparr>))) = 40"
  "ply_height (player (update_move 0 (Q35\<lparr> lastTime := 576 \<rparr>))) = 40"
  "ply_color (player (update_move 0 (Q35\<lparr> lastTime := 576 \<rparr>))) = NEON_CYAN"
  "jumps (player (update_move 0 (Q35\<lparr> lastTime := 576 \<rparr>))) = 1"
  "currentPlatform (player (update_move 0 (Q35\<lparr> lastTime := 576 \<rparr>))) = None"
  unfolding update_move_player_eq[OF Q35_refs] Q35_store
  by (simp_all add: Q35_fields Player_physics_def carry_def speedMultiplier_def Let_def config)

lemmas Q35_move = Q35_store Q35_player update_move_fields[OF Q35_refs] Q35_fields

lemma Q35_preCollision:
  "preCollision R1 576 0 Q35 = update_move 0 (Q35\<lparr> lastTime := 576 \<rparr>)"
  by (simp add: preCollision_def afterScroll_def scrolls_def Q35_move)

lemma Q35_landing:
  "landingPlatform (preCollision R1 576 0 Q35) = None"
  by (simp add: Q35_preCollision landingPlatform_def hits_def Let_def Q35_move)

lemma Q36_eq:
  "Q36 = update_cosmetics (update_fall R1 (update_move 0 (Q35\<lparr> lastTime := 576 \<rparr>)))"
  using Q35_landing
  by (simp add: Q36_def afterFrame_def update_collision_eq Q35_preCollision)

lemma Q36_fields:
  "state Q36 = Playing"
  "score Q36 = 0"
  "perfectStreak Q36 = 0"
  "isFever Q36 = False"
  "viewportWidth Q36 = 800"
  "viewportHeight Q36 = 600"
  "platforms Q36 = [0, 1, 2, 3, 4, 5]"
  "notifications Q36 = [ScoreUpdate 0, ComboChange 0, FeverChange False, GameStateChange Playing]"
  "store Q36 =
     [\<lparr> plat_x = 300, plat_y = 1195 / 2, plat_width = 200, plat_height = 20,
        plat_color = NEON_MAGENTA, plat_vx = 0, passed = False, landedOn = False \<rparr>,
      \<lparr> plat_x = 47187 / 128, plat_y = 895 / 2, plat_width = 130, plat_height = 20,
        plat_color = NEON_LIME, plat_vx = - (7 / 2), passed = False, landedOn = False \<rparr>,
      \<lparr> plat_x = 137589 / 256, plat_y = 595 / 2, plat_width = 130, plat_height = 20,
        plat_color = NEON_LIME, plat_vx = - (7 / 2), passed = False, landedOn = False \<rparr>,
      \<lparr> plat_x = 10959 / 256, plat_y = 295 / 2, plat_width = 130, plat_height = 20,
        plat_color = NEON_LIME, plat_vx = - (7 / 2), passed = False, landedOn = False \<rparr>,
      \<lparr> plat_x = 209, plat_y = - (5 / 2), plat_width = 130, plat_height = 20,
        plat_color = NEON_LIME, plat_vx = - (7 / 2), passed = False, landedOn = False \<rparr>,
      \<lparr> plat_x = 209, plat_y = - (305 / 2), plat_width = 130, plat_height = 20,
        plat_color = NEON_LIME, plat_vx = - (7 / 2), passed = False, landedOn = False \<rparr>]"
  "ply_x (player Q36) = 400"
  "ply_y (player Q36) = 741 / 2"
  "ply_vy (player Q36) = 3"
  "ply_width (player Q36) = 40"
  "ply_height (player Q36) = 40"
  "ply_color (player Q36) = NEON_CYAN"
  "jumps (player Q36) = 1"
  "currentPlatform (player Q36) = None"
  "rix Q36 = 40"
  unfolding Q36_eq
  by (simp_all add: tail_fields update_fall_rix landed_fields landed_store landed_score
        landed_perfectStreak landed_isFever landed_notifications landed_player landed_rix
        land_def landingNotes_def perfectHit_def Q35_move config)

lemma Q35_first: "firstLanding R1 (Frame 576 0) Q35 = None"
  by (simp add: Q35_fields(1) Q35_landing)

lemma wf_Q35: "wf Q35" and pinned_Q35: "pinned Q35"
  using reachable_inv[OF reachable_Q35] by simp_all

lemma Q35_loop: "loop R1 576 0 Q35 = Inr Q36"
  by (simp add: Q36_def loop_afterFrame[OF wf_Q35 Q35_fields(1)])

lemma reachable_Q36: "reachable R1 Q36"
  by (rule reachable.step[OF reachable_Q35, of "Frame 576 0"]) (simp_all add: Q35_loop)

lemma Q36_refs: "refs_ok (Q36\<lparr> lastTime := 592 \<rparr>)"
  by (simp add: refs_ok_def Q36_fields)

lemma Q36_store:
  "store (update_move 0 (Q36\<lparr> lastTime := 592 \<rparr>)) =
     [\<lparr> plat_x = 300, plat_y = 1195 / 2, plat_width = 200, plat_height = 20,
        plat_color = NEON_MAGENTA, plat_vx = 0, passed = False, landedOn = False \<rparr>,
      \<lparr> plat_x = 46739 / 128, plat_y = 895 / 2, plat_width = 130, plat_height = 20,
        plat_color = NEON_LIME, plat_vx = - (7 / 2), passed = False, landedOn = False \<rparr>,
      \<lparr> plat_x = 136693 / 256, plat_y = 595 / 2, plat_width = 130, plat_height = 20,
        plat_color = NEON_LIME, plat_vx = - (7 / 2), passed = False, landedOn = False \<rparr>,
      \<lparr> plat_x = 10063 / 256, plat_y = 295 / 2, plat_width = 130, plat_height = 20,
        plat_color = NEON_LIME, plat_vx = - (7 / 2), passed = False, landedOn = False \<rparr>,
      \<lparr> plat_x = 411 / 2, plat_y = - (5 / 2), plat_width = 130, plat_height = 20,
        plat_color = NEON_LIME, plat_vx = - (7 / 2), passed = False, landedOn = False \<rparr>,
      \<lparr> plat_x = 411 / 2, plat_y = - (305 / 2), plat_width = 130, plat_height = 20,
        plat_color = NEON_LIME, plat_vx = - (7 / 2), passed = False, landedOn = False \<rparr>]"
  by (simp add: update_move_eq[OF Q36_refs] Q36_fields advance_def speedMultiplier_def Let_def)

lemma Q36_player:
  "ply_x (player (update_move 0 (Q36\<lparr> lastTime := 592 \<rparr>))) = 400"
  "ply_y (player (update_move 0 (Q36\<lparr> lastTime := 592 \<rparr>))) = 374"
  "ply_vy (player (update_move 0 (Q36\<lparr> lastTime := 592 \<rparr>))) = 7 / 2"
  "ply_width (player (update_move 0 (Q36\<lparr> lastTime := 592 \<rparr>))) = 40"
  "ply_height (player (update_move 0 (Q36\<lparr> lastTime := 592 \<rparr>))) = 40"
  "ply_color (player (update_move 0 (Q36\<lparr> lastTime := 592 \<rparr>))) = NEON_CYAN"
  "jumps (player (update_move 0 (Q36\<lparr> lastTime := 592 \<rparr>))) = 1"
  "currentPlatform (player (update_move 0 (Q36\<lparr> lastTime := 592 \<rparr>))) = None"
  unfolding update_move_player_eq[OF Q36_refs] Q36_store
  by (simp_all add: Q36_fields Player_physics_def carry_def speedMultiplier_def Let_def config)

lemmas Q36_move = Q36_store Q36_player update_move_fields[OF Q36_refs] Q36_fields

lemma Q36_preCollision:
  "preCollision R1 592 0 Q36 = update_move 0 (Q36\<lparr> lastTime := 592 \<rparr>)"
  by (simp add: preCollision_def afterScroll_def scrolls_def Q36_move)

lemma Q36_landing:
  "landingPlatform (preCollision R1 592 0 Q36) = None"
  by (simp add: Q36_preCollision landingPlatform_def hits_def Let_def Q36_move)

lemma Q37_eq:
  "Q37 = update_cosmetics (update_fall R1 (update_move 0 (Q36\<lparr> lastTime := 592 \<rparr>)))"
  using Q36_landing
  by (simp add: Q37_def afterFrame_def update_collision_eq Q36_preCollision)

lemma Q37_fields:
  "state Q37 = Playing"
  "score Q37 = 0"
  "perfectStreak Q37 = 0"
  "isFever Q37 = False"
  "viewportWidth Q37 = 800"
  "viewportHeight Q37 = 600"
  "platforms Q37 = [0, 1, 2, 3, 4, 5]"
  "notifications Q37 = [ScoreUpdate 0, ComboChange 0, FeverChange False, GameStateChange Playing]"
  "store Q37 =
     [\<lparr> plat_x = 300, plat_y = 1195 / 2, plat_width = 200, plat_height = 20,
        plat_color = NEON_MAGENTA, plat_vx = 0, passed = False, landedOn = False \<rparr>,
      \<lparr> plat_x = 46739 / 128, plat_y = 895 / 2, plat_width = 130, plat_height = 20,
        plat_color = NEON_LIME, plat_vx = - (7 / 2), passed = False, landedOn = False \<rparr>,
      \<lparr> plat_x = 136693 / 256, plat_y = 595 / 2, plat_width = 130, plat_height = 20,
        plat_color = NEON_LIME, plat_vx = - (7 / 2), passed = False, landedOn = False \<rparr>,
      \<lparr> plat_x = 10063 / 256, plat_y = 295 / 2, plat_width = 130, plat_height = 20,
        plat_color = NEON_LIME, plat_vx = - (7 / 2), passed = False, landedOn = False \<rparr>,
      \<lparr> plat_x = 411 / 2, plat_y = - (5 / 2), plat_width = 130, plat_height = 20,
        plat_color = NEON_LIME, plat_vx = - (7 / 2), passed = False, landedOn = False \<rparr>,
      \<lparr> plat_x = 411 / 2, plat_y = - (305 / 2), plat_width = 130, plat_height = 20,
        plat_color = NEON_LIME, plat_vx = - (7 / 2), passed = False, landedOn = False \<rparr>]"
  "ply_x (player Q37) = 400"
  "ply_y (player Q37) = 374"
  "ply_vy (player Q37) = 7 / 2"
  "ply_width (player Q37) = 40"
  "ply_height (player Q37) = 40"
  "ply_color (player Q37) = NEON_CYAN"
  "jumps (player Q37) = 1"
  "currentPlatform (player Q37) = None"
  "rix Q37 = 40"
  unfolding Q37_eq
  by (simp_all add: tail_fields update_fall_rix landed_fields landed_store landed_score
        landed_perfectStreak landed_isFever landed_notifications landed_player landed_rix
        land_def landingNotes_def perfectHit_def Q36_move config)

lemma Q36_first: "firstLanding R1 (Frame 592 0) Q36 = None"
  by (simp add: Q36_fields(1) Q36_landing)

lemma wf_Q36: "wf Q36" and pinned_Q36: "pinned Q36"
  using reachable_inv[OF reachable_Q36] by simp_all

lemma Q36_loop: "loop R1 592 0 Q36 = Inr Q37"
  by (simp add: Q37_def loop_afterFrame[OF wf_Q36 Q36_fields(1)])

lemma reachable_Q37: "reachable R1 Q37"
  by (rule reachable.step[OF reachable_Q36, of "Frame 592 0"]) (simp_all add: Q36_loop)

lemma Q37_refs: "refs_ok (Q37\<lparr> lastTime := 608 \<rparr>)"
  by (simp add: refs_ok_def Q37_fields)

lemma Q37_store:
  "store (update_move 0 (Q37\<lparr> lastTime := 608 \<rparr>)) =
     [\<lparr> plat_x = 300, plat_y = 1195 / 2, plat_width = 200, plat_height = 20,
        plat_color = NEON_MAGENTA, plat_vx = 0, passed = False, landedOn = False \<rparr>,
      \<lparr> plat_x = 46291 / 128, plat_y = 895 / 2, plat_width = 130, plat_height = 20,
        plat_color = NEON_LIME, plat_vx = - (7 / 2), passed = False, landedOn = False \<rparr>,
      \<lparr> plat_x = 135797 / 256, plat_y = 595 / 2, plat_width = 130, plat_height = 20,
        plat_color = NEON_LIME, plat_vx = - (7 / 2), passed = False, landedOn = False \<rparr>,
      \<lparr> plat_x = 9167 / 256, plat_y = 295 / 2, plat_width = 130, plat_height = 20,
        plat_color = NEON_LIME, plat_vx = - (7 / 2), passed = False, landedOn = False \<rparr>,
      \<lparr> plat_x = 202, plat_y = - (5 / 2), plat_width = 130, plat_height = 20,
        plat_color = NEON_LIME, plat_vx = - (7 / 2), passed = False, landedOn = False \<rparr>,
      \<lparr> plat_x = 202, plat_y = - (305 / 2), plat_width = 130, plat_height = 20,
        plat_color = NEON_LIME, plat_vx = - (7 / 2), passed = False, landedOn = False \<rparr>]"
  by (simp add: update_move_eq[OF Q37_refs] Q37_fields advance_def speedMultiplier_def Let_def)

lemma Q37_player:
  "ply_x (player (update_move 0 (Q37\<lparr> lastTime := 608 \<rparr>))) = 400"
  "ply_y (player (update_move 0 (Q37\<lparr> lastTime := 608 \<rparr>))) = 378"
  "ply_vy (player (update_move 0 (Q37\<lparr> lastTime := 608 \<rparr>))) = 4"
  "ply_width (player (update_move 0 (Q37\<lparr> lastTime := 608 \<rparr>))) = 40"
  "ply_height (player (update_move 0 (Q37\<lparr> lastTime := 608 \<rparr>))) = 40"
  "ply_color (player (update_move 0 (Q37\<lparr> lastTime := 608 \<rparr>))) = NEON_CYAN"
  "jumps (player (update_move 0 (Q37\<lparr> lastTime := 608 \<rparr>))) = 1"
  "currentPlatform (player (update_move 0 (Q37\<lparr> lastTime := 608 \<rparr>))) = None"
  unfolding update_move_player_eq[OF Q37_refs] Q37_store
  by (simp_all add: Q37_fields Player_physics_def carry_def speedMultiplier_def Let_def config)

lemmas Q37_move = Q37_store Q37_player update_move_fields[OF Q37_refs] Q37_fields

lemma Q37_preCollision:
  "preCollision R1 608 0 Q37 = update_move 0 (Q37\<lparr> lastTime := 608 \<rparr>)"
  by (simp add: preCollision_def afterScroll_def scrolls_def Q37_move)

lemma Q37_landing:
  "landingPlatform (preCollision R1 608 0 Q37) = None"
  by (simp add: Q37_preCollision landingPlatform_def hits_def Let_def Q37_move)

lemma Q38_eq:
  "Q38 = update_cosmetics (update_fall R1 (update_move 0 (Q37\<lparr> lastTime := 608 \<rparr>)))"
  using Q37_landing
  by (simp add: Q38_def afterFrame_def update_collision_eq Q37_preCollision)

lemma Q38_fields:
  "state Q38 = Playing"
  "score Q38 = 0"
  "perfectStreak Q38 = 0"
  "isFever Q38 = False"
  "viewportWidth Q38 = 800"
  "viewportHeight Q38 = 600"
  "platforms Q38 = [0, 1, 2, 3, 4, 5]"
  "notifications Q38 = [ScoreUpdate 0, ComboChange 0, FeverChange False, GameStateChange Playing]"
  "store Q38 =
     [\<lparr> plat_x = 300, plat_y = 1195 / 2, plat_width = 200, plat_height = 20,
        plat_color = NEON_MAGENTA, plat_vx = 0, passed = False, landedOn = False \<rparr>,
      \<lparr> plat_x = 46291 / 128, plat_y = 895 / 2, plat_width = 130, plat_height = 20,
        plat_color = NEON_LIME, plat_vx = - (7 / 2), passed = False, landedOn = False \<rparr>,
      \<lparr> plat_x = 135797 / 256, plat_y = 595 / 2, plat_width = 130, plat_height = 20,
        plat_color = NEON_LIME, plat_vx = - (7 / 2), passed = False, landedOn = False \<rparr>,
      \<lparr> plat_x = 9167 / 256, plat_y = 295 / 2, plat_width = 130, plat_height = 20,
        plat_color = NEON_LIME, plat_vx = - (7 / 2), passed = False, landedOn = False \<rparr>,
      \<lparr> plat_x = 202, plat_y = - (5 / 2), plat_width = 130, plat_height = 20,
        plat_color = NEON_LIME, plat_vx = - (7 / 2), passed = False, landedOn = False \<rparr>,
      \<lparr> plat_x = 202, plat_y = - (305 / 2), plat_width = 130, plat_height = 20,
        plat_color = NEON_LIME, plat_vx = - (7 / 2), passed = False, landedOn = False \<rparr>]"
  "ply_x (player Q38) = 400"
  "ply_y (player Q38) = 378"
  "ply_vy (player Q38) = 4"
  "ply_width (player Q38) = 40"
  "ply_height (player Q38) = 40"
  "ply_color (player Q38) = NEON_CYAN"
  "jumps (player Q38) = 1"
  "currentPlatform (player Q38) = None"
  "rix Q38 = 40"
  unfolding Q38_eq
  by (simp_all add: tail_fields update_fall_rix landed_fields landed_store landed_score
        landed_perfectStreak landed_isFever landed_notifications landed_player landed_rix
        land_def landingNotes_def perfectHit_def Q37_move config)

lemma Q37_first: "firstLanding R1 (Frame 608 0) Q37 = None"
  by (simp add: Q37_fields(1) Q37_landing)

lemma wf_Q37: "wf Q37" and pinned_Q37: "pinned Q37"
  using reachable_inv[OF reachable_Q37] by simp_all

lemma Q37_loop: "loop R1 608 0 Q37 = Inr Q38"
  by (simp add: Q38_def loop_afterFrame[OF wf_Q37 Q37_fields(1)])

lemma reachable_Q38: "reachable R1 Q38"
  by (rule reachable.step[OF reachable_Q37, of "Frame 608 0"]) (simp_all add: Q37_loop)

lemma Q38_refs: "refs_ok (Q38\<lparr> lastTime := 624 \<rparr>)"
  by (simp add: refs_ok_def Q38_fields)

lemma Q38_store:
  "store (update_move 0 (Q38\<lparr> lastTime := 624 \<rparr>)) =
     [\<lparr> plat_x = 300, plat_y = 1195 / 2, plat_width = 200, plat_height = 20,
        plat_color = NEON_MAGENTA, plat_vx = 0, passed = False, landedOn = False \<rparr>,
      \<lparr> plat_x = 45843 / 128, plat_y = 895 / 2, plat_width = 130, plat_height = 20,
        plat_color = NEON_LIME, plat_vx = - (7 / 2), passed = False, landedOn = False \<rparr>,
      \<lparr> plat_x = 134901 / 256, plat_y = 595 / 2, plat_width = 130, plat_height = 20,
        plat_color = NEON_LIME, plat_vx = - (7 / 2), passed = False, landedOn = False \<rparr>,
      \<lparr> plat_x = 8271 / 256, plat_y = 295 / 2, plat_width = 130, plat_height = 20,
        plat_color = NEON_LIME, plat_vx = - (7 / 2), passed = False, landedOn = False \<rparr>,
      \<lparr> plat_x = 397 / 2, plat_y = - (5 / 2), plat_width = 130, plat_height = 20,
        plat_color = NEON_LIME, plat_vx = - (7 / 2), passed = False, landedOn = False \<rparr>,
      \<lparr> plat_x = 397 / 2, plat_y = - (305 / 2), plat_width = 130, plat_height = 20,
        plat_color = NEON_LIME, plat_vx = - (7 / 2), passed = False, landedOn = False \<rparr>]"
  by (simp add: update_move_eq[OF Q38_refs] Q38_fields advance_def speedMultiplier_def Let_def)

lemma Q38_player:
  "ply_x (player (update_move 0 (Q38\<lparr> lastTime := 624 \<rparr>))) = 400"
  "ply_y (player (update_move 0 (Q38\<lparr> lastTime := 624 \<rparr>))) = 765 / 2"
  "ply_vy (player (update_move 0 (Q38\<lparr> lastTime := 624 \<rparr>))) = 9 / 2"
  "ply_width (player (update_move 0 (Q38\<lparr> lastTime := 624 \<rparr>))) = 40"
  "ply_height (player (update_move 0 (Q38\<lparr> lastTime := 624 \<rparr>))) = 40"
  "ply_color (player (update_move 0 (Q38\<lparr> lastTime := 624 \<rparr>))) = NEON_CYAN"
  "jumps (player (update_move 0 (Q38\<lparr> lastTime := 624 \<rparr>))) = 1"
  "currentPlatform (player (update_move 0 (Q38\<lparr> lastTime := 624 \<rparr>))) = None"
  unfolding update_move_player_eq[OF Q38_refs] Q38_store
  by (simp_all add: Q38_fields Player_physics_def carry_def speedMultiplier_def Let_def config)

lemmas Q38_move = Q38_store Q38_player update_move_fields[OF Q38_refs] Q38_fields

lemma Q38_preCollision:
  "preCollision R1 624 0 Q38 = update_move 0 (Q38\<lparr> lastTime := 624 \<rparr>)"
  by (simp add: preCollision_def afterScroll_def scrolls_def Q38_move)

lemma Q38_landing:
  "landingPlatform (preCollision R1 624 0 Q38) = None"
  by (simp add: Q38_preCollision landingPlatform_def hits_def Let_def Q38_move)

lemma Q39_eq:
  "Q39 = update_cosmetics (update_fall R1 (update_move 0 (Q38\<lparr> lastTime := 624 \<rparr>)))"
  using Q38_landing
  by (simp add: Q39_def afterFrame_def update_collision_eq Q38_preCollision)

lemma Q39_fields:
  "state Q39 = Playing"
  "score Q39 = 0"
  "perfectStreak Q39 = 0"
  "isFever Q39 = False"
  "viewportWidth Q39 = 800"
  "viewportHeight Q39 = 600"
  "platforms Q39 = [0, 1, 2, 3, 4, 5]"
  "notifications Q39 = [ScoreUpdate 0, ComboChange 0, FeverChange False, GameStateChange Playing]"
  "store Q39 =
     [\<lparr> plat_x = 300, plat_y = 1195 / 2, plat_width = 200, plat_height = 20,
        plat_color = NEON_MAGENTA, plat_vx = 0, passed = False, landedOn = False \<rparr>,
      \<lparr> plat_x = 45843 / 128, plat_y = 895 / 2, plat_width = 130, plat_height = 20,
        plat_color = NEON_LIME, plat_vx = - (7 / 2), passed = False, landedOn = False \<rparr>,
      \<lparr> plat_x = 134901 / 256, plat_y = 595 / 2, plat_width = 130, plat_height = 20,
        plat_color = NEON_LIME, plat_vx = - (7 / 2), passed = False, landedOn = False \<rparr>,
      \<lparr> plat_x = 8271 / 256, plat_y = 295 / 2, plat_width = 130, plat_height = 20,
        plat_color = NEON_LIME, plat_vx = - (7 / 2), passed = False, landedOn = False \<rparr>,
      \<lparr> plat_x = 397 / 2, plat_y = - (5 / 2), plat_width = 130, plat_height = 20,
        plat_color = NEON_LIME, plat_vx = - (7 / 2), passed = False, landedOn = False \<rparr>,
      \<lparr> plat_x = 397 / 2, plat_y = - (305 / 2), plat_width = 130, plat_height = 20,
        plat_color = NEON_LIME, plat_vx = - (7 / 2), passed = False, landedOn = False \<rparr>]"
  "ply_x (player Q39) = 400"
  "ply_y (player Q39) = 765 / 2"
  "ply_vy (player Q39) = 9 / 2"
  "ply_width (player Q39) = 40"
  "ply_height (player Q39) = 40"
  "ply_color (player Q39) = NEON_CYAN"
  "jumps (player Q39) = 1"
  "currentPlatform (player Q39) = None"
  "rix Q39 = 40"
  unfolding Q39_eq
  by (simp_all add: tail_fields update_fall_rix landed_fields landed_store landed_score
        landed_perfectStreak landed_isFever landed_notifications landed_player landed_rix
        land_def landingNotes_def perfectHit_def Q38_move config)

lemma Q38_first: "firstLanding R1 (Frame 624 0) Q38 = None"
  by (simp add: Q38_fields(1) Q38_landing)

lemma wf_Q38: "wf Q38" and pinned_Q38: "pinned Q38"
  using reachable_inv[OF reachable_Q38] by simp_all

lemma Q38_loop: "loop R1 624 0 Q38 = Inr Q39"
  by (simp add: Q39_def loop_afterFrame[OF wf_Q38 Q38_fields(1)])

lemma reachable_Q39: "reachable R1 Q39"
  by (rule reachable.step[OF reachable_Q38, of "Frame 624 0"]) (simp_all add: Q38_loop)

lemma Q39_refs: "refs_ok (Q39\<lparr> lastTime := 640 \<rparr>)"
  by (simp add: refs_ok_def Q39_fields)

lemma Q39_store:
  "store (update_move 0 (Q39\<lparr> lastTime := 640 \<rparr>)) =
     [\<lparr> plat_x = 300, plat_y = 1195 / 2, plat_width = 200, plat_height = 20,
        plat_color = NEON_MAGENTA, plat_vx = 0, passed = False, landedOn = False \<rparr>,
      \<lparr> plat_x = 45395 / 128, plat_y = 895 / 2, plat_width = 130, plat_height = 20,
        plat_color = NEON_LIME, plat_vx = - (7 / 2), passed = False, landedOn = False \<rparr>,
      \<lparr> plat_x = 134005 / 256, plat_y = 595 / 2, plat_width = 130, plat_height = 20,
        plat_color = NEON_LIME, plat_vx = - (7 / 2), passed = False, landedOn = False \<rparr>,
      \<lparr> plat_x = 7375 / 256, plat_y = 295 / 2, plat_width = 130, plat_height = 20,
        plat_color = NEON_LIME, plat_vx = - (7 / 2), passed = False, landedOn = False \<rparr>,
      \<lparr> plat_x = 195, plat_y = - (5 / 2), plat_width = 130, plat_height = 20,
        plat_color = NEON_LIME, plat_vx = - (7 / 2), passed = False, landedOn = False \<rparr>,
      \<lparr> plat_x = 195, plat_y = - (305 / 2), plat_width = 130, plat_height = 20,
        plat_color = NEON_LIME, plat_vx = - (7 / 2), passed = False, landedOn = False \<rparr>]"
  by (simp add: update_move_eq[OF Q39_refs] Q39_fields advance_def speedMultiplier_def Let_def)

lemma Q39_player:
  "ply_x (player (update_move 0 (Q39\<lparr> lastTime := 640 \<rparr>))) = 400"
  "ply_y (player (update_move 0 (Q39\<lparr> lastTime := 640 \<rparr>))) = 775 / 2"
  "ply_vy (player (update_move 0 (Q39\<lparr> lastTime := 640 \<rparr>))) = 5"
  "ply_width (player (update_move 0 (Q39\<lparr> lastTime := 640 \<rparr>))) = 40"
  "ply_height (player (update_move 0 (Q39\<lparr> lastTime := 640 \<rparr>))) = 40"
  "ply_color (player (update_move 0 (Q39\<lparr> lastTime := 640 \<rparr>))) = NEON_CYAN"
  "jumps (player (update_move 0 (Q39\<lparr> lastTime := 640 \<rparr>))) = 1"
  "currentPlatform (player (update_move 0 (Q39\<lparr> lastTime := 640 \<rparr>))) = None"
  unfolding update_move_player_eq[OF Q39_refs] Q39_store
  by (simp_all add: Q39_fields Player_physics_def carry_def speedMultiplier_def Let_def config)

lemmas Q39_move = Q39_store Q39_player update_move_fields[OF Q39_refs] Q39_fields

lemma Q39_preCollision:
  "preCollision R1 640 0 Q39 = update_move 0 (Q39\<lparr> lastTime := 640 \<rparr>)"
  by (simp add: preCollision_def afterScroll_def scrolls_def Q39_move)

lemma Q39_landing:
  "landingPlatform (preCollision R1 640 0 Q39) = None"
  by (simp add: Q39_preCollision landingPlatform_def hits_def Let_def Q39_move)

lemma Q40_eq:
  "Q40 = update_cosmetics (update_fall R1 (update_move 0 (Q39\<lparr> lastTime := 640 \<rparr>)))"
  using Q39_landing
  by (simp add: Q40_def afterFrame_def update_collision_eq Q39_preCollision)

lemma Q40_fields:
  "state Q40 = Playing"
  "score Q40 = 0"
  "perfectStreak Q40 = 0"
  "isFever Q40 = False"
  "viewportWidth Q40 = 800"
  "viewportHeight Q40 = 600"
  "platforms Q40 = [0, 1, 2, 3, 4, 5]"
  "notifications Q40 = [ScoreUpdate 0, ComboChange 0, FeverChange False, GameStateChange Playing]"
  "store Q40 =
     [\<lparr> plat_x = 300, plat_y = 1195 / 2, plat_width = 200, plat_height = 20,
        plat_color = NEON_MAGENTA, plat_vx = 0, passed = False, landedOn = False \<rparr>,
      \<lparr> plat_x = 45395 / 128, plat_y = 895 / 2, plat_width = 130, plat_height = 20,
        plat_color = NEON_LIME, plat_vx = - (7 / 2), passed = False, landedOn = False \<rparr>,
      \<lparr> plat_x = 134005 / 256, plat_y = 595 / 2, plat_width = 130, plat_height = 20,
        plat_color = NEON_LIME, plat_vx = - (7 / 2), passed = False, landedOn = False \<rparr>,
      \<lparr> plat_x = 7375 / 256, plat_y = 295 / 2, plat_width = 130, plat_height = 20,
        plat_color = NEON_LIME, plat_vx = - (7 / 2), passed = False, landedOn = False \<rparr>,
      \<lparr> plat_x = 195, plat_y = - (5 / 2), plat_width = 130, plat_height = 20,
        plat_color = NEON_LIME, plat_vx = - (7 / 2), passed = False, landedOn = False \<rparr>,
      \<lparr> plat_x = 195, plat_y = - (305 / 2), plat_width = 130, plat_height = 20,
        plat_color = NEON_LIME, plat_vx = - (7 / 2), passed = False, landedOn = False \<rparr>]"
  "ply_x (player Q40) = 400"
  "ply_y (player Q40) = 775 / 2"
  "ply_vy (player Q40) = 5"
  "ply_width (player Q40) = 40"
  "ply_height (player Q40) = 40"
  "ply_color (player Q40) = NEON_CYAN"
  "jumps (player Q40) = 1"
  "currentPlatform (player Q40) = None"
  "rix Q40 = 40"
  unfolding Q40_eq
  by (simp_all add: tail_fields update_fall_rix landed_fields landed_store landed_score
        landed_perfectStreak landed_isFever landed_notifications landed_player landed_rix
        land_def landingNotes_def perfectHit_def Q39_move config)

lemma Q39_first: "firstLanding R1 (Frame 640 0) Q39 = None"
  by (simp add: Q39_fields(1) Q39_landing)

lemma wf_Q39: "wf Q39" and pinned_Q39: "pinned Q39"
  using reachable_inv[OF reachable_Q39] by simp_all

lemma Q39_loop: "loop R1 640 0 Q39 = Inr Q40"
  by (simp add: Q40_def loop_afterFrame[OF wf_Q39 Q39_fields(1)])

lemma reachable_Q40: "reachable R1 Q40"
  by (rule reachable.step[OF reachable_Q39, of "Frame 640 0"]) (simp_all add: Q39_loop)

lemma Q40_refs: "refs_ok (Q40\<lparr> lastTime := 656 \<rparr>)"
  by (simp add: refs_ok_def Q40_fields)

lemma Q40_store:
  "store (update_move 0 (Q40\<lparr> lastTime := 656 \<rparr>)) =
     [\<lparr> plat_x = 300, plat_y = 1195 / 2, plat_width = 200, plat_height = 20,
        plat_color = NEON_MAGENTA, plat_vx = 0, passed = False, landedOn = False \<rparr>,
      \<lparr> plat_x = 44947 / 128, plat_y = 895 / 2, plat_width = 130, plat_height = 20,
        plat_color = NEON_LIME, plat_vx = - (7 / 2), passed = False, landedOn = False \<rparr>,
      \<lparr> plat_x = 133109 / 256, plat_y = 595 / 2, plat_width = 130, plat_height = 20,
        plat_color = NEON_LIME, plat_vx = - (7 / 2), passed = False, landedOn = False \<rparr>,
      \<lparr> plat_x = 6479 / 256, plat_y = 295 / 2, plat_width = 130, plat_height = 20,
        plat_color = NEON_LIME, plat_vx = - (7 / 2), passed = False, landedOn = False \<rparr>,
      \<lparr> plat_x = 383 / 2, plat_y = - (5 / 2), plat_width = 130, plat_height = 20,
        plat_color = NEON_LIME, plat_vx = - (7 / 2), passed = False, landedOn = False \<rparr>,
      \<lparr> plat_x = 383 / 2, plat_y = - (305 / 2), plat_width = 130, plat_height = 20,
        plat_color = NEON_LIME, plat_vx = - (7 / 2), passed = False, landedOn = False \<rparr>]"
  by (simp add: update_move_eq[OF Q40_refs] Q40_fields advance_def speedMultiplier_def Let_def)

lemma Q40_player:
  "ply_x (player (update_move 0 (Q40\<lparr> lastTime := 656 \<rparr>))) = 400"
  "ply_y (player (update_move 0 (Q40\<lparr> lastTime := 656 \<rparr>))) = 393"
  "ply_vy (player (update_move 0 (Q40\<lparr> lastTime := 656 \<rparr>))) = 11 / 2"
  "ply_width (player (update_move 0 (Q40\<lparr> lastTime := 656 \<rparr>))) = 40"
  "ply_height (player (update_move 0 (Q40\<lparr> lastTime := 656 \<rparr>))) = 40"
  "ply_color (player (update_move 0 (Q40\<lparr> lastTime := 656 \<rparr>))) = NEON_CYAN"
  "jumps (player (update_move 0 (Q40\<lparr> lastTime := 656 \<rparr>))) = 1"
  "currentPlatform (player (update_move 0 (Q40\<lparr> lastTime := 656 \<rparr>))) = None"
  unfolding update_move_player_eq[OF Q40_refs] Q40_store
  by (simp_all add: Q40_fields Player_physics_def carry_def speedMultiplier_def Let_def config)

lemmas Q40_move = Q40_store Q40_player update_move_fields[OF Q40_refs] Q40_fields

lemma Q40_preCollision:
  "preCollision R1 656 0 Q40 = update_move 0 (Q40\<lparr> lastTime := 656 \<rparr>)"
  by (simp add: preCollision_def afterScroll_def scrolls_def Q40_move)

lemma Q40_landing:
  "landingPlatform (preCollision R1 656 0 Q40) = None"
  by (simp add: Q40_preCollision landingPlatform_def hits_def Let_def Q40_move)

lemma Q41_eq:
  "Q41 = update_cosmetics (update_fall R1 (update_move 0 (Q40\<lparr> lastTime := 656 \<rparr>)))"
  using Q40_landing
  by (simp add: Q41_def afterFrame_def update_collision_eq Q40_preCollision)

lemma Q41_fields:
  "state Q41 = Playing"
  "score Q41 = 0"
  "perfectStreak Q41 = 0"
  "isFever Q41 = False"
  "viewportWidth Q41 = 800"
  "viewportHeight Q41 = 600"
  "platforms Q41 = [0, 1, 2, 3, 4, 5]"
  "notifications Q41 = [ScoreUpdate 0, ComboChange 0, FeverChange False, GameStateChange Playing]"
  "store Q41 =
     [\<lparr> plat_x = 300, plat_y = 1195 / 2, plat_width = 200, plat_height = 20,
        plat_color = NEON_MAGENTA, plat_vx = 0, passed = False, landedOn = False \<rparr>,
      \<lparr> plat_x = 44947 / 128, plat_y = 895 / 2, plat_width = 130, plat_height = 20,
        plat_color = NEON_LIME, plat_vx = - (7 / 2), passed = False, landedOn = False \<rparr>,
      \<lparr> plat_x = 133109 / 256, plat_y = 595 / 2, plat_width = 130, plat_height = 20,
        plat_color = NEON_LIME, plat_vx = - (7 / 2), passed = False, landedOn = False \<rparr>,
      \<lparr> plat_x = 6479 / 256, plat_y = 295 / 2, plat_width = 130, plat_height = 20,
        plat_color = NEON_LIME, plat_vx = - (7 / 2), passed = False, landedOn = False \<rparr>,
      \<lparr> plat_x = 383 / 2, plat_y = - (5 / 2), plat_width = 130, plat_height = 20,
        plat_color = NEON_LIME, plat_vx = - (7 / 2), passed = False, landedOn = False \<rparr>,
      \<lparr> plat_x = 383 / 2, plat_y = - (305 / 2), plat_width = 130, plat_height = 20,
        plat_color = NEON_LIME, plat_vx = - (7 / 2), passed = False, landedOn = False \<rparr>]"
  "ply_x (player Q41) = 400"
  "ply_y (player Q41) = 393"
  "ply_vy (player Q41) = 11 / 2"
  "ply_width (player Q41) = 40"
  "ply_height (player Q41) = 40"
  "ply_color (player Q41) = NEON_CYAN"
  "jumps (player Q41) = 1"
  "currentPlatform (player Q41) = None"
  "rix Q41 = 40"
  unfolding Q41_eq
  by (simp_all add: tail_fields update_fall_rix landed_fields landed_store landed_score
        landed_perfectStreak landed_isFever landed_notifications landed_player landed_rix
        land_def landingNotes_def perfectHit_def Q40_move config)

lemma Q40_first: "firstLanding R1 (Frame 656 0) Q40 = None"
  by (simp add: Q40_fields(1) Q40_landing)

lemma wf_Q40: "wf Q40" and pinned_Q40: "pinned Q40"
  using reachable_inv[OF reachable_Q40] by simp_all

lemma Q40_loop: "loop R1 656 0 Q40 = Inr Q41"
  by (simp add: Q41_def loop_afterFrame[OF wf_Q40 Q40_fields(1)])

lemma reachable_Q41: "reachable R1 Q41"
  by (rule reachable.step[OF reachable_Q40, of "Frame 656 0"]) (simp_all add: Q40_loop)

lemma Q41_refs: "refs_ok (Q41\<lparr> lastTime := 672 \<rparr>)"
  by (simp add: refs_ok_def Q41_fields)

lemma Q41_store:
  "store (update_move 0 (Q41\<lparr> lastTime := 672 \<rparr>)) =
     [\<lparr> plat_x = 300, plat_y = 1195 / 2, plat_width = 200, plat_height = 20,
        plat_color = NEON_MAGENTA, plat_vx = 0, passed = False, landedOn = False \<rparr>,
      \<lparr> plat_x = 44499 / 128, plat_y = 895 / 2, plat_width = 130, plat_height = 20,
        plat_color = NEON_LIME, plat_vx = - (7 / 2), passed = False, landedOn = False \<rparr>,
      \<lparr> plat_x = 132213 / 256, plat_y = 595 / 2, plat_width = 130, plat_height = 20,
        plat_color = NEON_LIME, plat_vx = - (7 / 2), passed = False, landedOn = False \<rparr>,
      \<lparr> plat_x = 5583 / 256, plat_y = 295 / 2, plat_width = 130, plat_height = 20,
        plat_color = NEON_LIME, plat_vx = - (7 / 2), passed = False, landedOn = False \<rparr>,
      \<lparr> plat_x = 188, plat_y = - (5 / 2), plat_width = 130, plat_height = 20,
        plat_color = NEON_LIME, plat_vx = - (7 / 2), passed = False, landedOn = False \<rparr>,
      \<lparr> plat_x = 188, plat_y = - (305 / 2), plat_width = 130, plat_height = 20,
        plat_color = NEON_LIME, plat_vx = - (7 / 2), passed = False, landedOn = False \<rparr>]"
  by (simp add: update_move_eq[OF Q41_refs] Q41_fields advance_def speedMultiplier_def Let_def)

lemma Q41_player:
  "ply_x (player (update_move 0 (Q41\<lparr> lastTime := 672 \<rparr>))) = 400"
  "ply_y (player (update_move 0 (Q41\<lparr> lastTime := 672 \<rparr>))) = 399"
  "ply_vy (player (update_move 0 (Q41\<lparr> lastTime := 672 \<rparr>))) = 6"
  "ply_width (player (update_move 0 (Q41\<lparr> lastTime := 672 \<rparr>))) = 40"
  "ply_height (player (update_move 0 (Q41\<lparr> lastTime := 672 \<rparr>))) = 40"
  "ply_color (player (update_move 0 (Q41\<lparr> lastTime := 672 \<rparr>))) = NEON_CYAN"
  "jumps (player (update_move 0 (Q41\<lparr> lastTime := 672 \<rparr>))) = 1"
  "currentPlatform (player (update_move 0 (Q41\<lparr> lastTime := 672 \<rparr>))) = None"
  unfolding update_move_player_eq[OF Q41_refs] Q41_store
  by (simp_all add: Q41_fields Player_physics_def carry_def speedMultiplier_def Let_def config)

lemmas Q41_move = Q41_store Q41_player update_move_fields[OF Q41_refs] Q41_fields

lemma Q41_preCollision:
  "preCollision R1 672 0 Q41 = update_move 0 (Q41\<lparr> lastTime := 672 \<rparr>)"
  by (simp add: preCollision_def afterScroll_def scrolls_def Q41_move)

lemma Q41_landing:
  "landingPlatform (preCollision R1 672 0 Q41) = None"
  by (simp add: Q41_preCollision landingPlatform_def hits_def Let_def Q41_move)

lemma Q42_eq:
  "Q42 = update_cosmetics (update_fall R1 (update_move 0 (Q41\<lparr> lastTime := 672 \<rparr>)))"
  using Q41_landing
  by (simp add: Q42_def afterFrame_def update_collision_eq Q41_preCollision)

lemma Q42_fields:
  "state Q42 = Playing"
  "score Q42 = 0"
  "perfectStreak Q42 = 0"
  "isFever Q42 = False"
  "viewportWidth Q42 = 800"
  "viewportHeight Q42 = 600"
  "platforms Q42 = [0, 1, 2, 3, 4, 5]"
  "notifications Q42 = [ScoreUpdate 0, ComboChange 0, FeverChange False, GameStateChange Playing]"
  "store Q42 =
     [\<lparr> plat_x = 300, plat_y = 1195 / 2, plat_width = 200, plat_height = 20,
        plat_color = NEON_MAGENTA, plat_vx = 0, passed = False, landedOn = False \<rparr>,
      \<lparr> plat_x = 44499 / 128, plat_y = 895 / 2, plat_width = 130, plat_height = 20,
        plat_color = NEON_LIME, plat_vx = - (7 / 2), passed = False, landedOn = False \<rparr>,
      \<lparr> plat_x = 132213 / 256, plat_y = 595 / 2, plat_width = 130, plat_height = 20,
        plat_color = NEON_LIME, plat_vx = - (7 / 2), passed = False, landedOn = False \<rparr>,
      \<lparr> plat_x = 5583 / 256, plat_y = 295 / 2, plat_width = 130, plat_height = 20,
        plat_color = NEON_LIME, plat_vx = - (7 / 2), passed = False, landedOn = False \<rparr>,
      \<lparr> plat_x = 188, plat_y = - (5 / 2), plat_width = 130, plat_height = 20,
        plat_color = NEON_LIME, plat_vx = - (7 / 2), passed = False, landedOn = False \<rparr>,
      \<lparr> plat_x = 188, plat_y = - (305 / 2), plat_width = 130, plat_height = 20,
        plat_color = NEON_LIME, plat_vx = - (7 / 2), passed = False, landedOn = False \<rparr>]"
  "ply_x (player Q42) = 400"
  "ply_y (player Q42) = 399"
  "ply_vy (player Q42) = 6"
  "ply_width (player Q42) = 40"
  "ply_height (player Q42) = 40"
  "ply_color (player Q42) = NEON_CYAN"
  "jumps (player Q42) = 1"
  "currentPlatform (player Q42) = None"
  "rix Q42 = 40"
  unfolding Q42_eq
  by (simp_all add: tail_fields update_fall_rix landed_fields landed_store landed_score
        landed_perfectStreak landed_isFever landed_notifications landed_player landed_rix
        land_def landingNotes_def perfectHit_def Q41_move config)

lemma Q41_first: "firstLanding R1 (Frame 672 0) Q41 = None"
  by (simp add: Q41_fields(1) Q41_landing)

lemma wf_Q41: "wf Q41" and pinned_Q41: "pinned Q41"
  using reachable_inv[OF reachable_Q41] by simp_all

lemma Q41_loop: "loop R1 672 0 Q41 = Inr Q42"
  by (simp add: Q42_def loop_afterFrame[OF wf_Q41 Q41_fields(1)])

lemma reachable_Q42: "reachable R1 Q42"
  by (rule reachable.step[OF reachable_Q41, of "Frame 672 0"]) (simp_all add: Q41_loop)

lemma Q42_refs: "refs_ok (Q42\<lparr> lastTime := 688 \<rparr>)"
  by (simp add: refs_ok_def Q42_fields)

lemma Q42_store:
  "store (update_move 0 (Q42\<lparr> lastTime := 688 \<rparr>)) =
     [\<lparr> plat_x = 300, plat_y = 1195 / 2, plat_width = 200, plat_height = 20,
        plat_color = NEON_MAGENTA, plat_vx = 0, passed = False, landedOn = False \<rparr>,
      \<lparr> plat_x = 44051 / 128, plat_y = 895 / 2, plat_width = 130, plat_height = 20,
        plat_color = NEON_LIME, plat_vx = - (7 / 2), passed = False, landedOn = False \<rparr>,
      \<lparr> plat_x = 131317 / 256, plat_y = 595 / 2, plat_width = 130, plat_height = 20,
        plat_color = NEON_LIME, plat_vx = - (7 / 2), passed = False, landedOn = False \<rparr>,
      \<lparr> plat_x = 4687 / 256, plat_y = 295 / 2, plat_width = 130, plat_height = 20,
        plat_color = NEON_LIME, plat_vx = - (7 / 2), passed = False, landedOn = False \<rparr>,
      \<lparr> plat_x = 369 / 2, plat_y = - (5 / 2), plat_width = 130, plat_height = 20,
        plat_color = NEON_LIME, plat_vx = - (7 / 2), passed = False, landedOn = False \<rparr>,
      \<lparr> plat_x = 369 / 2, plat_y = - (305 / 2), plat_width = 130, plat_height = 20,
        plat_color = NEON_LIME, plat_vx = - (7 / 2), passed = False, landedOn = False \<rparr>]"
  by (simp add: update_move_eq[OF Q42_refs] Q42_fields advance_def speedMultiplier_def Let_def)

lemma Q42_player:
  "ply_x (player (update_move 0 (Q42\<lparr> lastTime := 688 \<rparr>))) = 400"
  "ply_y (player (update_move 0 (Q42\<lparr> lastTime := 688 \<rparr>))) = 811 / 2"
  "ply_vy (player (update_move 0 (Q42\<lparr> lastTime := 688 \<rparr>))) = 13 / 2"
  "ply_width (player (update_move 0 (Q42\<lparr> lastTime := 688 \<rparr>))) = 40"
  "ply_height (player (update_move 0 (Q42\<lparr> lastTime := 688 \<rparr>))) = 40"
  "ply_color (player (update_move 0 (Q42\<lparr> lastTime := 688 \<rparr>))) = NEON_CYAN"
  "jumps (player (update_move 0 (Q42\<lparr> lastTime := 688 \<rparr>))) = 1"
  "currentPlatform (player (update_move 0 (Q42\<lparr> lastTime := 688 \<rparr>))) = None"
  unfolding update_move_player_eq[OF Q42_refs] Q42_store
  by (simp_all add: Q42_fields Player_physics_def carry_def speedMultiplier_def Let_def config)

lemmas Q42_move = Q42_store Q42_player update_move_fields[OF Q42_refs] Q42_fields

lemma Q42_preCollision:
  "preCollision R1 688 0 Q42 = update_move 0 (Q42\<lparr> lastTime := 688 \<rparr>)"
  by (simp add: preCollision_def afterScroll_def scrolls_def Q42_move)

lemma Q42_landing:
  "landingPlatform (preCollision R1 688 0 Q42) = None"
  by (simp add: Q42_preCollision landingPlatform_def hits_def Let_def Q42_move)

lemma Q43_eq:
  "Q43 = update_cosmetics (update_fall R1 (update_move 0 (Q42\<lparr> lastTime := 688 \<rparr>)))"
  using Q42_landing
  by (simp add: Q43_def afterFrame_def update_collision_eq Q42_preCollision)

lemma Q43_fields:
  "state Q43 = Playing"
  "score Q43 = 0"
  "perfectStreak Q43 = 0"
  "isFever Q43 = False"
  "viewportWidth Q43 = 800"
  "viewportHeight Q43 = 600"
  "platforms Q43 = [0, 1, 2, 3, 4, 5]"
  "notifications Q43 = [ScoreUpdate 0, ComboChange 0, FeverChange False, GameStateChange Playing]"
  "store Q43 =
     [\<lparr> plat_x = 300, plat_y = 1195 / 2, plat_width = 200, plat_height = 20,
        plat_color = NEON_MAGENTA, plat_vx = 0, passed = False, landedOn = False \<rparr>,
      \<lparr> plat_x = 44051 / 128, plat_y = 895 / 2, plat_width = 130, plat_height = 20,
        plat_color = NEON_LIME, plat_vx = - (7 / 2), passed = False, landedOn = False \<rparr>,
      \<lparr> plat_x = 131317 / 256, plat_y = 595 / 2, plat_width = 130, plat_height = 20,
        plat_color = NEON_LIME, plat_vx = - (7 / 2), passed = False, landedOn = False \<rparr>,
      \<lparr> plat_x = 4687 / 256, plat_y = 295 / 2, plat_width = 130, plat_height = 20,
        plat_color = NEON_LIME, plat_vx = - (7 / 2), passed = False, landedOn = False \<rparr>,
      \<lparr> plat_x = 369 / 2, plat_y = - (5 / 2), plat_width = 130, plat_height = 20,
        plat_color = NEON_LIME, plat_vx = - (7 / 2), passed = False, landedOn = False \<rparr>,
      \<lparr> plat_x = 369 / 2, plat_y = - (305 / 2), plat_width = 130, plat_height = 20,
        plat_color = NEON_LIME, plat_vx = - (7 / 2), passed = False, landedOn = False \<rparr>]"
  "ply_x (player Q43) = 400"
  "ply_y (player Q43) = 811 / 2"
  "ply_vy (player Q43) = 13 / 2"
  "ply_width (player Q43) = 40"
  "ply_height (player Q43) = 40"
  "ply_color (player Q43) = NEON_CYAN"
  "jumps (player Q43) = 1"
  "currentPlatform (player Q43) = None"
  "rix Q43 = 40"
  unfolding Q43_eq
  by (simp_all add: tail_fields update_fall_rix landed_fields landed_store landed_score
        landed_perfectStreak landed_isFever landed_notifications landed_player landed_rix
        land_def landingNotes_def perfectHit_def Q42_move config)

lemma Q42_first: "firstLanding R1 (Frame 688 0) Q42 = None"
  by (simp add: Q42_fields(1) Q42_landing)

lemma wf_Q42: "wf Q42" and pinned_Q42: "pinned Q42"
  using reachable_inv[OF reachable_Q42] by simp_all

lemma Q42_loop: "loop R1 688 0 Q42 = Inr Q43"
  by (simp add: Q43_def loop_afterFrame[OF wf_Q42 Q42_fields(1)])

lemma reachable_Q43: "reachable R1 Q43"
  by (rule reachable.step[OF reachable_Q42, of "Frame 688 0"]) (simp_all add: Q42_loop)

lemma Q43_refs: "refs_ok (Q43\<lparr> lastTime := 704 \<rparr>)"
  by (simp add: refs_ok_def Q43_fields)

lemma Q43_store:
  "store (update_move 0 (Q43\<lparr> lastTime := 704 \<rparr>)) =
     [\<lparr> plat_x = 300, plat_y = 1195 / 2, plat_width = 200, plat_height = 20,
        plat_color = NEON_MAGENTA, plat_vx = 0, passed = False, landedOn = False \<rparr>,
      \<lparr> plat_x = 43603 / 128, plat_y = 895 / 2, plat_width = 130, plat_height = 20,
        plat_color = NEON_LIME, plat_vx = - (7 / 2), passed = False, landedOn = False \<rparr>,
      \<lparr> plat_x = 130421 / 256, plat_y = 595 / 2, plat_width = 130, plat_height = 20,
        plat_color = NEON_LIME, plat_vx = - (7 / 2), passed = False, landedOn = False \<rparr>,
      \<lparr> plat_x = 3791 / 256, plat_y = 295 / 2, plat_width = 130, plat_height = 20,
        plat_color = NEON_LIME, plat_vx = - (7 / 2), passed = False, landedOn = False \<rparr>,
      \<lparr> plat_x = 181, plat_y = - (5 / 2), plat_width = 130, plat_height = 20,
        plat_color = NEON_LIME, plat_vx = - (7 / 2), passed = False, landedOn = False \<rparr>,
      \<lparr> plat_x = 181, plat_y = - (305 / 2), plat_width = 130, plat_height = 20,
        plat_color = NEON_LIME, plat_vx = - (7 / 2), passed = False, landedOn = False \<rparr>]"
  by (simp add: update_move_eq[OF Q43_refs] Q43_fields advance_def speedMultiplier_def Let_def)

lemma Q43_player:
  "ply_x (player (update_move 0 (Q43\<lparr> lastTime := 704 \<rparr>))) = 400"
  "ply_y (player (update_move 0 (Q43\<lparr> lastTime := 704 \<rparr>))) = 825 / 2"
  "ply_vy (player (update_move 0 (Q43\<lparr> lastTime := 704 \<rparr>))) = 7"
  "ply_width (player (update_move 0 (Q43\<lparr> lastTime := 704 \<rparr>))) = 40"
  "ply_height (player (update_move 0 (Q43\<lparr> lastTime := 704 \<rparr>))) = 40"
  "ply_color (player (update_move 0 (Q43\<lparr> lastTime := 704 \<rparr>))) = NEON_CYAN"
  "jumps (player (update_move 0 (Q43\<lparr> lastTime := 704 \<rparr>))) = 1"
  "currentPlatform (player (update_move 0 (Q43\<lparr> lastTime := 704 \<rparr>))) = None"
  unfolding update_move_player_eq[OF Q43_refs] Q43_store
  by (simp_all add: Q43_fields Player_physics_def carry_def speedMultiplier_def Let_def config)

lemmas Q43_move = Q43_store Q43_player update_move_fields[OF Q43_refs] Q43_fields

lemma Q43_preCollision:
  "preCollision R1 704 0 Q43 = update_move 0 (Q43\<lparr> lastTime := 704 \<rparr>)"
  by (simp add: preCollision_def afterScroll_def scrolls_def Q43_move)

lemma Q43_landing:
  "landingPlatform (preCollision R1 704 0 Q43) = None"
  by (simp add: Q43_preCollision landingPlatform_def hits_def Let_def Q43_move)

lemma Q44_eq:
  "Q44 = update_cosmetics (update_fall R1 (update_move 0 (Q43\<lparr> lastTime := 704 \<rparr>)))"
  using Q43_landing
  by (simp add: Q44_def afterFrame_def update_collision_eq Q43_preCollision)

lemma Q44_fields:
  "state Q44 = Playing"
  "score Q44 = 0"
  "perfectStreak Q44 = 0"
  "isFever Q44 = False"
  "viewportWidth Q44 = 800"
  "viewportHeight Q44 = 600"
  "platforms Q44 = [0, 1, 2, 3, 4, 5]"
  "notifications Q44 = [ScoreUpdate 0, ComboChange 0, FeverChange False, GameStateChange Playing]"
  "store Q44 =
     [\<lparr> plat_x = 300, plat_y = 1195 / 2, plat_width = 200, plat_height = 20,
        plat_color = NEON_MAGENTA, plat_vx = 0, passed = False, landedOn = False \<rparr>,
      \<lparr> plat_x = 43603 / 128, plat_y = 895 / 2, plat_width = 130, plat_height = 20,
        plat_color = NEON_LIME, plat_vx = - (7 / 2), passed = False, landedOn = False \<rparr>,
      \<lparr> plat_x = 130421 / 256, plat_y = 595 / 2, plat_width = 130, plat_height = 20,
        plat_color = NEON_LIME, plat_vx = - (7 / 2), passed = False, landedOn = False \<rparr>,
      \<lparr> plat_x = 3791 / 256, plat_y = 295 / 2, plat_width = 130, plat_height = 20,
        plat_color = NEON_LIME, plat_vx = - (7 / 2), passed = False, landedOn = False \<rparr>,
      \<lparr> plat_x = 181, plat_y = - (5 / 2), plat_width = 130, plat_height = 20,
        plat_color = NEON_LIME, plat_vx = - (7 / 2), passed = False, landedOn = False \<rparr>,
      \<lparr> plat_x = 181, plat_y = - (305 / 2), plat_width = 130, plat_height = 20,
        plat_color = NEON_LIME, plat_vx = - (7 / 2), passed = False, landedOn = False \<rparr>]"
  "ply_x (player Q44) = 400"
  "ply_y (player Q44) = 825 / 2"
  "ply_vy (player Q44) = 7"
  "ply_width (player Q44) = 40"
  "ply_height (player Q44) = 40"
  "ply_color (player Q44) = NEON_CYAN"
  "jumps (player Q44) = 1"
  "currentPlatform (player Q44) = None"
  "rix Q44 = 40"
  unfolding Q44_eq
  by (simp_all add: tail_fields update_fall_rix landed_fields landed_store landed_score
        landed_perfectStreak landed_isFever landed_notifications landed_player landed_rix
        land_def landingNotes_def perfectHit_def Q43_move config)

lemma Q43_first: "firstLanding R1 (Frame 704 0) Q43 = None"
  by (simp add: Q43_fields(1) Q43_landing)

lemma wf_Q43: "wf Q43" and pinned_Q43: "pinned Q43"
  using reachable_inv[OF reachable_Q43] by simp_all

lemma Q43_loop: "loop R1 704 0 Q43 = Inr Q44"
  by (simp add: Q44_def loop_afterFrame[OF wf_Q43 Q43_fields(1)])

lemma reachable_Q44: "reachable R1 Q44"
  by (rule reachable.step[OF reachable_Q43, of "Frame 704 0"]) (simp_all add: Q43_loop)

lemma Q44_refs: "refs_ok (Q44\<lparr> lastTime := 720 \<rparr>)"
  by (simp add: refs_ok_def Q44_fields)

lemma Q44_store:
  "store (update_move 0 (Q44\<lparr> lastTime := 720 \<rparr>)) =
     [\<lparr> plat_x = 300, plat_y = 1195 / 2, plat_width = 200, plat_height = 20,
        plat_color = NEON_MAGENTA, plat_vx = 0, passed = False, landedOn = False \<rparr>,
      \<lparr> plat_x = 43155 / 128, plat_y = 895 / 2, plat_width = 130, plat_height = 20,
        plat_color = NEON_LIME, plat_vx = - (7 / 2), passed = False, landedOn = False \<rparr>,
      \<lparr> plat_x = 129525 / 256, plat_y = 595 / 2, plat_width = 130, plat_height = 20,
        plat_color = NEON_LIME, plat_vx = - (7 / 2), passed = False, landedOn = False \<rparr>,
      \<lparr> plat_x = 2895 / 256, plat_y = 295 / 2, plat_width = 130, plat_height = 20,
        plat_color = NEON_LIME, plat_vx = - (7 / 2), passed = False, landedOn = False \<rparr>,
      \<lparr> plat_x = 355 / 2, plat_y = - (5 / 2), plat_width = 130, plat_height = 20,
        plat_color = NEON_LIME, plat_vx = - (7 / 2), passed = False, landedOn = False \<rparr>,
      \<lparr> plat_x = 355 / 2, plat_y = - (305 / 2), plat_width = 130, plat_height = 20,
        plat_color = NEON_LIME, plat_vx = - (7 / 2), passed = False, landedOn = False \<rparr>]"
  by (simp add: update_move_eq[OF Q44_refs] Q44_fields advance_def speedMultiplier_def Let_def)

lemma Q44_player:
  "ply_x (player (update_move 0 (Q44\<lparr> lastTime := 720 \<rparr>))) = 400"
  "ply_y (player (update_move 0 (Q44\<lparr> lastTime := 720 \<rparr>))) = 420"
  "ply_vy (player (update_move 0 (Q44\<lparr> lastTime := 720 \<rparr>))) = 15 / 2"
  "ply_width (player (update_move 0 (Q44\<lparr> lastTime := 720 \<rparr>))) = 40"
  "ply_height (player (update_move 0 (Q44\<lparr> lastTime := 720 \<rparr>))) = 40"
  "ply_color (player (update_move 0 (Q44\<lparr> lastTime := 720 \<rparr>))) = NEON_CYAN"
  "jumps (player (update_move 0 (Q44\<lparr> lastTime := 720 \<rparr>))) = 1"
  "currentPlatform (player (update_move 0 (Q44\<lparr> lastTime := 720 \<rparr>))) = None"
  unfolding update_move_player_eq[OF Q44_refs] Q44_store
  by (simp_all add: Q44_fields Player_physics_def carry_def speedMultiplier_def Let_def config)

lemmas Q44_move = Q44_store Q44_player update_move_fields[OF Q44_refs] Q44_fields

lemma Q44_preCollision:
  "preCollision R1 720 0 Q44 = update_move 0 (Q44\<lparr> lastTime := 720 \<rparr>)"
  by (simp add: preCollision_def afterScroll_def scrolls_def Q44_move)

lemma Q44_landing:
  "landingPlatform (preCollision R1 720 0 Q44) = None"
  by (simp add: Q44_preCollision landingPlatform_def hits_def Let_def Q44_move)

lemma Q45_eq:
  "Q45 = update_cosmetics (update_fall R1 (update_move 0 (Q44\<lparr> lastTime := 720 \<rparr>)))"
  using Q44_landing
  by (simp add: Q45_def afterFrame_def update_collision_eq Q44_preCollision)

lemma Q45_fields:
  "state Q45 = Playing"
  "score Q45 = 0"
  "perfectStreak Q45 = 0"
  "isFever Q45 = False"
  "viewportWidth Q45 = 800"
  "viewportHeight Q45 = 600"
  "platforms Q45 = [0, 1, 2, 3, 4, 5]"
  "notifications Q45 = [ScoreUpdate 0, ComboChange 0, FeverChange False, GameStateChange Playing]"
  "store Q45 =
     [\<lparr> plat_x = 300, plat_y = 1195 / 2, plat_width = 200, plat_height = 20,
        plat_color = NEON_MAGENTA, plat_vx = 0, passed = False, landedOn = False \<rparr>,
      \<lparr> plat_x = 43155 / 128, plat_y = 895 / 2, plat_width = 130, plat_height = 20,
        plat_color = NEON_LIME, plat_vx = - (7 / 2), passed = False, landedOn = False \<rparr>,
      \<lparr> plat_x = 129525 / 256, plat_y = 595 / 2, plat_width = 130, plat_height = 20,
        plat_color = NEON_LIME, plat_vx = - (7 / 2), passed = False, landedOn = False \<rparr>,
      \<lparr> plat_x = 2895 / 256, plat_y = 295 / 2, plat_width = 130, plat_height = 20,
        plat_color = NEON_LIME, plat_vx = - (7 / 2), passed = False, landedOn = False \<rparr>,
      \<lparr> plat_x = 355 / 2, plat_y = - (5 / 2), plat_width = 130, plat_height = 20,
        plat_color = NEON_LIME, plat_vx = - (7 / 2), passed = False, landedOn = False \<rparr>,
      \<lparr> plat_x = 355 / 2, plat_y = - (305 / 2), plat_width = 130, plat_height = 20,
        plat_color = NEON_LIME, plat_vx = - (7 / 2), passed = False, landedOn = False \<rparr>]"
  "ply_x (player Q45) = 400"
  "ply_y (player Q45) = 420"
  "ply_vy (player Q45) = 15 / 2"
  "ply_width (player Q45) = 40"
  "ply_height (player Q45) = 40"
  "ply_color (player Q45) = NEON_CYAN"
  "jumps (player Q45) = 1"
  "currentPlatform (player Q45) = None"
  "rix Q45 = 40"
  unfolding Q45_eq
  by (simp_all add: tail_fields update_fall_rix landed_fields landed_store landed_score
        landed_perfectStreak landed_isFever landed_notifications landed_player landed_rix
        land_def landingNotes_def perfectHit_def Q44_move config)

lemma Q44_first: "firstLanding R1 (Frame 720 0) Q44 = None"
  by (simp add: Q44_fields(1) Q44_landing)

lemma wf_Q44: "wf Q44" and pinned_Q44: "pinned Q44"
  using reachable_inv[OF reachable_Q44] by simp_all

lemma Q44_loop: "loop R1 720 0 Q44 = Inr Q45"
  by (simp add: Q45_def loop_afterFrame[OF wf_Q44 Q44_fields(1)])

lemma reachable_Q45: "reachable R1 Q45"
  by (rule reachable.step[OF reachable_Q44, of "Frame 720 0"]) (simp_all add: Q44_loop)

lemma Q45_refs: "refs_ok (Q45\<lparr> lastTime := 736 \<rparr>)"
  by (simp add: refs_ok_def Q45_fields)

lemma Q45_store:
  "store (update_move 0 (Q45\<lparr> lastTime := 736 \<rparr>)) =
     [\<lparr> plat_x = 300, plat_y = 1195 / 2, plat_width = 200, plat_height = 20,
        plat_color = NEON_MAGENTA, plat_vx = 0, passed = False, landedOn = False \<rparr>,
      \<lparr> plat_x = 42707 / 128, plat_y = 895 / 2, plat_width = 130, plat_height = 20,
        plat_color = NEON_LIME, plat_vx = - (7 / 2), passed = False, landedOn = False \<rparr>,
      \<lparr> plat_x = 128629 / 256, plat_y = 595 / 2, plat_width = 130, plat_height = 20,
        plat_color = NEON_LIME, plat_vx = - (7 / 2), passed = False, landedOn = False \<rparr>,
      \<lparr> plat_x = 1999 / 256, plat_y = 295 / 2, plat_width = 130, plat_height = 20,
        plat_color = NEON_LIME, plat_vx = - (7 / 2), passed = False, landedOn = False \<rparr>,
      \<lparr> plat_x = 174, plat_y = - (5 / 2), plat_width = 130, plat_height = 20,
        plat_color = NEON_LIME, plat_vx = - (7 / 2), passed = False, landedOn = False \<rparr>,
      \<lparr> plat_x = 174, plat_y = - (305 / 2), plat_width = 130, plat_height = 20,
        plat_color = NEON_LIME, plat_vx = - (7 / 2), passed = False, landedOn = False \<rparr>]"
  by (simp add: update_move_eq[OF Q45_refs] Q45_fields advance_def speedMultiplier_def Let_def)

lemma Q45_player:
  "ply_x (player (update_move 0 (Q45\<lparr> lastTime := 736 \<rparr>))) = 400"
  "ply_y (player (update_move 0 (Q45\<lparr> lastTime := 736 \<rparr>))) = 428"
  "ply_vy (player (update_move 0 (Q45\<lparr> lastTime := 736 \<rparr>))) = 8"
  "ply_width (player (update_move 0 (Q45\<lparr> lastTime := 736 \<rparr>))) = 40"
  "ply_height (player (update_move 0 (Q45\<lparr> lastTime := 736 \<rparr>))) = 40"
  "ply_color (player (update_move 0 (Q45\<lparr> lastTime := 736 \<rparr>))) = NEON_CYAN"
  "jumps (player (update_move 0 (Q45\<lparr> lastTime := 736 \<rparr>))) = 1"
  "currentPlatform (player (update_move 0 (Q45\<lparr> lastTime := 736 \<rparr>))) = None"
  unfolding update_move_player_eq[OF Q45_refs] Q45_store
  by (simp_all add: Q45_fields Player_physics_def carry_def speedMultiplier_def Let_def config)

lemmas Q45_move = Q45_store Q45_player update_move_fields[OF Q45_refs] Q45_fields

lemma Q45_preCollision:
  "preCollision R1 736 0 Q45 = update_move 0 (Q45\<lparr> lastTime := 736 \<rparr>)"
  by (simp add: preCollision_def afterScroll_def scrolls_def Q45_move)

lemma Q45_landing:
  "landingPlatform (preCollision R1 736 0 Q45) = Some 1"
  by (simp add: Q45_preCollision landingPlatform_def hits_def Let_def Q45_move)

lemma Q46_eq:
  "Q46 = update_cosmetics (update_fall R1 (landed R1 1 (update_move 0 (Q45\<lparr> lastTime := 736 \<rparr>))))"
  using Q45_landing
  by (simp add: Q46_def afterFrame_def update_collision_eq Q45_preCollision)

lemma Q46_fields:
  "state Q46 = Playing"
  "score Q46 = 1"
  "perfectStreak Q46 = 1"
  "isFever Q46 = False"
  "viewportWidth Q46 = 800"
  "viewportHeight Q46 = 600"
  "platforms Q46 = [0, 1, 2, 3, 4, 5]"
  "notifications Q46 = [ScoreUpdate 0, ComboChange 0, FeverChange False, GameStateChange Playing, ScoreUpdate 1, ComboChange 1]"
  "store Q46 =
     [\<lparr> plat_x = 300, plat_y = 1195 / 2, plat_width = 200, plat_height = 20,
        plat_color = NEON_MAGENTA, plat_vx = 0, passed = False, landedOn = False \<rparr>,
      \<lparr> plat_x = 42707 / 128, plat_y = 895 / 2, plat_width = 130, plat_height = 20,
        plat_color = NEON_LIME, plat_vx = - (7 / 2), passed = False, landedOn = True \<rparr>,
      \<lparr> plat_x = 128629 / 256, plat_y = 595 / 2, plat_width = 130, plat_height = 20,
        plat_color = NEON_LIME, plat_vx = - (7 / 2), passed = False, landedOn = False \<rparr>,
      \<lparr> plat_x = 1999 / 256, plat_y = 295 / 2, plat_width = 130, plat_height = 20,
        plat_color = NEON_LIME, plat_vx = - (7 / 2), passed = False, landedOn = False \<rparr>,
      \<lparr> plat_x = 174, plat_y = - (5 / 2), plat_width = 130, plat_height = 20,
        plat_color = NEON_LIME, plat_vx = - (7 / 2), passed = False, landedOn = False \<rparr>,
      \<lparr> plat_x = 174, plat_y = - (305 / 2), plat_width = 130, plat_height = 20,
        plat_color = NEON_LIME, plat_vx = - (7 / 2), passed = False, landedOn = False \<rparr>]"
  "ply_x (player Q46) = 400"
  "ply_y (player Q46) = 855 / 2"
  "ply_vy (player Q46) = 0"
  "ply_width (player Q46) = 40"
  "ply_height (player Q46) = 40"
  "ply_color (player Q46) = NEON_LIME"
  "jumps (player Q46) = 0"
  "currentPlatform (player Q46) = Some 1"
  "rix Q46 = 100"
  unfolding Q46_eq
  by (simp_all add: tail_fields update_fall_rix landed_fields landed_store landed_score
        landed_perfectStreak landed_isFever landed_notifications landed_player landed_rix
        land_def landingNotes_def perfectHit_def Q45_move config)

lemma Q45_first: "firstLanding R1 (Frame 736 0) Q45 = Some True"
  by (simp add: Q45_fields(1) Q45_landing)
     (simp add: Q45_preCollision Q45_move perfectHit_def config)

lemma wf_Q45: "wf Q45" and pinned_Q45: "pinned Q45"
  using reachable_inv[OF reachable_Q45] by simp_all

lemma Q45_loop: "loop R1 736 0 Q45 = Inr Q46"
  by (simp add: Q46_def loop_afterFrame[OF wf_Q45 Q45_fields(1)])

lemma reachable_Q46: "reachable R1 Q46"
  by (rule reachable.step[OF reachable_Q45, of "Frame 736 0"]) (simp_all add: Q45_loop)

lemma Q46j_fields:
  "state Q46j = Playing"
  "score Q46j = 1"
  "perfectStreak Q46j = 1"
  "isFever Q46j = False"
  "viewportWidth Q46j = 800"
  "viewportHeight Q46j = 600"
  "platforms Q46j = [0, 1, 2, 3, 4, 5]"
  "notifications Q46j = [ScoreUpdate 0, ComboChange 0, FeverChange False, GameStateChange Playing, ScoreUpdate 1, ComboChange 1]"
  "store Q46j =
     [\<lparr> plat_x = 300, plat_y = 1195 / 2, plat_width = 200, plat_height = 20,
        plat_color = NEON_MAGENTA, plat_vx = 0, passed = False, landedOn = False \<rparr>,
      \<lparr> plat_x = 42707 / 128, plat_y = 895 / 2, plat_width = 130, plat_height = 20,
        plat_color = NEON_LIME, plat_vx = - (7 / 2), passed = False, landedOn = True \<rparr>,
      \<lparr> plat_x = 128629 / 256, plat_y = 595 / 2, plat_width = 130, plat_height = 20,
        plat_color = NEON_LIME, plat_vx = - (7 / 2), passed = False, landedOn = False \<rparr>,
      \<lparr> plat_x = 1999 / 256, plat_y = 295 / 2, plat_width = 130, plat_height = 20,
        plat_color = NEON_LIME, plat_vx = - (7 / 2), passed = False, landedOn = False \<rparr>,
      \<lparr> plat_x = 174, plat_y = - (5 / 2), plat_width = 130, plat_height = 20,
        plat_color = NEON_LIME, plat_vx = - (7 / 2), passed = False, landedOn = False \<rparr>,
      \<lparr> plat_x = 174, plat_y = - (305 / 2), plat_width = 130, plat_height = 20,
        plat_color = NEON_LIME, plat_vx = - (7 / 2), passed = False, landedOn = False \<rparr>]"
  "ply_x (player Q46j) = 400"
  "ply_y (player Q46j) = 855 / 2"
  "ply_vy (player Q46j) = - 15"
  "ply_width (player Q46j) = 40"
  "ply_height (player Q46j) = 40"
  "ply_color (player Q46j) = NEON_LIME"
  "jumps (player Q46j) = 1"
  "currentPlatform (player Q46j) = None"
  "rix Q46j = 115"
  by (simp_all add: Q46j_def handleInput_fields handleInput_rix jump_def Q46_fields config)

lemma reachable_Q46j: "reachable R1 Q46j"
  unfolding Q46j_def
  by (rule reachable.step[OF reachable_Q46, of "Input KeyDown"]) simp_all

lemma Q46j_refs: "refs_ok (Q46j\<lparr> lastTime := 752 \<rparr>)"
  by (simp add: refs_ok_def Q46j_fields)

lemma Q46j_store:
  "store (update_move 0 (Q46j\<lparr> lastTime := 752 \<rparr>)) =
     [\<lparr> plat_x = 300, plat_y = 1195 / 2, plat_width = 200, plat_height = 20,
        plat_color = NEON_MAGENTA, plat_vx = 0, passed = False, landedOn = False \<rparr>,
      \<lparr> plat_x = 211183 / 640, plat_y = 895 / 2, plat_width = 130, plat_height = 20,
        plat_color = NEON_LIME, plat_vx = - (7 / 2), passed = False, landedOn = True \<rparr>,
      \<lparr> plat_x = 638441 / 1280, plat_y = 595 / 2, plat_width = 130, plat_height = 20,
        plat_color = NEON_LIME, plat_vx = - (7 / 2), passed = False, landedOn = False \<rparr>,
      \<lparr> plat_x = 5291 / 1280, plat_y = 295 / 2, plat_width = 130, plat_height = 20,
        plat_color = NEON_LIME, plat_vx = - (7 / 2), passed = False, landedOn = False \<rparr>,
      \<lparr> plat_x = 6813 / 40, plat_y = - (5 / 2), plat_width = 130, plat_height = 20,
        plat_color = NEON_LIME, plat_vx = - (7 / 2), passed = False, landedOn = False \<rparr>,
      \<lparr> plat_x = 6813 / 40, plat_y = - (305 / 2), plat_width = 130, plat_height = 20,
        plat_color = NEON_LIME, plat_vx = - (7 / 2), passed = False, landedOn = False \<rparr>]"
  by (simp add: update_move_eq[OF Q46j_refs] Q46j_fields advance_def speedMultiplier_def Let_def)

lemma Q46j_player:
  "ply_x (player (update_move 0 (Q46j\<lparr> lastTime := 752 \<rparr>))) = 400"
  "ply_y (player (update_move 0 (Q46j\<lparr> lastTime := 752 \<rparr>))) = 413"
  "ply_vy (player (update_move 0 (Q46j\<lparr> lastTime := 752 \<rparr>))) = - (29 / 2)"
  "ply_width (player (update_move 0 (Q46j\<lparr> lastTime := 752 \<rparr>))) = 40"
  "ply_height (player (update_move 0 (Q46j\<lparr> lastTime := 752 \<rparr>))) = 40"
  "ply_color (player (update_move 0 (Q46j\<lparr> lastTime := 752 \<rparr>))) = NEON_LIME"
  "jumps (player (update_move 0 (Q46j\<lparr> lastTime := 752 \<rparr>))) = 1"
  "currentPlatform (player (update_move 0 (Q46j\<lparr> lastTime := 752 \<rparr>))) = None"
  unfolding update_move_player_eq[OF Q46j_refs] Q46j_store
  by (simp_all add: Q46j_fields Player_physics_def carry_def speedMultiplier_def Let_def config)

lemmas Q46j_move = Q46j_store Q46j_player update_move_fields[OF Q46j_refs] Q46j_fields

lemma Q46j_preCollision:
  "preCollision R1 752 0 Q46j = update_move 0 (Q46j\<lparr> lastTime := 752 \<rparr>)"
  by (simp add: preCollision_def afterScroll_def scrolls_def Q46j_move)

lemma Q46j_landing:
  "landingPlatform (preCollision R1 752 0 Q46j) = None"
  by (simp add: Q46j_preCollision landingPlatform_def hits_def Let_def Q46j_move)

lemma Q47_eq:
  "Q47 = update_cosmetics (update_fall R1 (update_move 0 (Q46j\<lparr> lastTime := 752 \<rparr>)))"
  using Q46j_landing
  by (simp add: Q47_def afterFrame_def update_collision_eq Q46j_preCollision)

lemma Q47_fields:
  "state Q47 = Playing"
  "score Q47 = 1"
  "perfectStreak Q47 = 1"
  "isFever Q47 = False"
  "viewportWidth Q47 = 800"
  "viewportHeight Q47 = 600"
  "platforms Q47 = [0, 1, 2, 3, 4, 5]"
  "notifications Q47 = [ScoreUpdate 0, ComboChange 0, FeverChange False, GameStateChange Playing, ScoreUpdate 1, ComboChange 1]"
  "store Q47 =
     [\<lparr> plat_x = 300, plat_y = 1195 / 2, plat_width = 200, plat_height = 20,
        plat_color = NEON_MAGENTA, plat_vx = 0, passed = False, landedOn = False \<rparr>,
      \<lparr> plat_x = 211183 / 640, plat_y = 895 / 2, plat_width = 130, plat_height = 20,
        plat_color = NEON_LIME, plat_vx = - (7 / 2), passed = False, landedOn = True \<rparr>,
      \<lparr> plat_x = 638441 / 1280, plat_y = 595 / 2, plat_width = 130, plat_height = 20,
        plat_color = NEON_LIME, plat_vx = - (7 / 2), passed = False, landedOn = False \<rparr>,
      \<lparr> plat_x = 5291 / 1280, plat_y = 295 / 2, plat_width = 130, plat_height = 20,
        plat_color = NEON_LIME, plat_vx = - (7 / 2), passed = False, landedOn = False \<rparr>,
      \<lparr> plat_x = 6813 / 40, plat_y = - (5 / 2), plat_width = 130, plat_height = 20,
        plat_color = NEON_LIME, plat_vx = - (7 / 2), passed = False, landedOn = False \<rparr>,
      \<lparr> plat_x = 6813 / 40, plat_y = - (305 / 2), plat_width = 130, plat_height = 20,
        plat_color = NEON_LIME, plat_vx = - (7 / 2), passed = False, landedOn = False \<rparr>]"
  "ply_x (player Q47) = 400"
  "ply_y (player Q47) = 413"
  "ply_vy (player Q47) = - (29 / 2)"
  "ply_width (player Q47) = 40"
  "ply_height (player Q47) = 40"
  "ply_color (player Q47) = NEON_LIME"
  "jumps (player Q47) = 1"
  "currentPlatform (player Q47) = None"
  "rix Q47 = 115"
  unfolding Q47_eq
  by (simp_all add: tail_fields update_fall_rix landed_fields landed_store landed_score
        landed_perfectStreak landed_isFever landed_notifications landed_player landed_rix
        land_def landingNotes_def perfectHit_def Q46j_move config)

lemma Q46j_first: "firstLanding R1 (Frame 752 0) Q46j = None"
  by (simp add: Q46j_fields(1) Q46j_landing)

lemma wf_Q46j: "wf Q46j" and pinned_Q46j: "pinned Q46j"
  using reachable_inv[OF reachable_Q46j] by simp_all

lemma Q46j_loop: "loop R1 752 0 Q46j = Inr Q47"
  by (simp add: Q47_def loop_afterFrame[OF wf_Q46j Q46j_fields(1)])

lemma reachable_Q47: "reachable R1 Q47"
  by (rule reachable.step[OF reachable_Q46j, of "Frame 752 0"]) (simp_all add: Q46j_loop)

lemma Q47_refs: "refs_ok (Q47\<lparr> lastTime := 768 \<rparr>)"
  by (simp add: refs_ok_def Q47_fields)

lemma Q47_store:
  "store (update_move 0 (Q47\<lparr> lastTime := 768 \<rparr>)) =
     [\<lparr> plat_x = 300, plat_y = 1195 / 2, plat_width = 200, plat_height = 20,
        plat_color = NEON_MAGENTA, plat_vx = 0, passed = False, landedOn = False \<rparr>,
      \<lparr> plat_x = 208831 / 640, plat_y = 895 / 2, plat_width = 130, plat_height = 20,
        plat_color = NEON_LIME, plat_vx = - (7 / 2), passed = False, landedOn = True \<rparr>,
      \<lparr> plat_x = 633737 / 1280, plat_y = 595 / 2, plat_width = 130, plat_height = 20,
        plat_color = NEON_LIME, plat_vx = - (7 / 2), passed = False, landedOn = False \<rparr>,
      \<lparr> plat_x = 587 / 1280, plat_y = 295 / 2, plat_width = 130, plat_height = 20,
        plat_color = NEON_LIME, plat_vx = - (7 / 2), passed = False, landedOn = False \<rparr>,
      \<lparr> plat_x = 3333 / 20, plat_y = - (5 / 2), plat_width = 130, plat_height = 20,
        plat_color = NEON_LIME, plat_vx = - (7 / 2), passed = False, landedOn = False \<rparr>,
      \<lparr> plat_x = 3333 / 20, plat_y = - (305 / 2), plat_width = 130, plat_height = 20,
        plat_color = NEON_LIME, plat_vx = - (7 / 2), passed = False, landedOn = False \<rparr>]"
  by (simp add: update_move_eq[OF Q47_refs] Q47_fields advance_def speedMultiplier_def Let_def)

lemma Q47_player:
  "ply_x (player (update_move 0 (Q47\<lparr> lastTime := 768 \<rparr>))) = 400"
  "ply_y (player (update_move 0 (Q47\<lparr> lastTime := 768 \<rparr>))) = 399"
  "ply_vy (player (update_move 0 (Q47\<lparr> lastTime := 768 \<rparr>))) = - 14"
  "ply_width (player (update_move 0 (Q47\<lparr> lastTime := 768 \<rparr>))) = 40"
  "ply_height (player (update_move 0 (Q47\<lparr> lastTime := 768 \<rparr>))) = 40"
  "ply_color (player (update_move 0 (Q47\<lparr> lastTime := 768 \<rparr>))) = NEON_LIME"
  "jumps (player (update_move 0 (Q47\<lparr> lastTime := 768 \<rparr>))) = 1"
  "currentPlatform (player (update_move 0 (Q47\<lparr> lastTime := 768 \<rparr>))) = None"
  unfolding update_move_player_eq[OF Q47_refs] Q47_store
  by (simp_all add: Q47_fields Player_physics_def carry_def speedMultiplier_def Let_def config)

lemmas Q47_move = Q47_store Q47_player update_move_fields[OF Q47_refs] Q47_fields

lemma Q47_preCollision:
  "preCollision R1 768 0 Q47 = update_move 0 (Q47\<lparr> lastTime := 768 \<rparr>)"
  by (simp add: preCollision_def afterScroll_def scrolls_def Q47_move)

lemma Q47_landing:
  "landingPlatform (preCollision R1 768 0 Q47) = None"
  by (simp add: Q47_preCollision landingPlatform_def hits_def Let_def Q47_move)

lemma Q48_eq:
  "Q48 = update_cosmetics (update_fall R1 (update_move 0 (Q47\<lparr> lastTime := 768 \<rparr>)))"
  using Q47_landing
  by (simp add: Q48_def afterFrame_def update_collision_eq Q47_preCollision)

lemma Q48_fields:
  "state Q48 = Playing"
  "score Q48 = 1"
  "perfectStreak Q48 = 1"
  "isFever Q48 = False"
  "viewportWidth Q48 = 800"
  "viewportHeight Q48 = 600"
  "platforms Q48 = [0, 1, 2, 3, 4, 5]"
  "notifications Q48 = [ScoreUpdate 0, ComboChange 0, FeverChange False, GameStateChange Playing, ScoreUpdate 1, ComboChange 1]"
  "store Q48 =
     [\<lparr> plat_x = 300, plat_y = 1195 / 2, plat_width = 200, plat_height = 20,
        plat_color = NEON_MAGENTA, plat_vx = 0, passed = False, landedOn = False \<rparr>,
      \<lparr> plat_x = 208831 / 640, plat_y = 895 / 2, plat_width = 130, plat_height = 20,
        plat_color = NEON_LIME, plat_vx = - (7 / 2), passed = False, landedOn = True \<rparr>,
      \<lparr> plat_x = 633737 / 1280, plat_y = 595 / 2, plat_width = 130, plat_height = 20,
        plat_color = NEON_LIME, plat_vx = - (7 / 2), passed = False, landedOn = False \<rparr>,
      \<lparr> plat_x = 587 / 1280, plat_y = 295 / 2, plat_width = 130, plat_height = 20,
        plat_color = NEON_LIME, plat_vx = - (7 / 2), passed = False, landedOn = False \<rparr>,
      \<lparr> plat_x = 3333 / 20, plat_y = - (5 / 2), plat_width = 130, plat_height = 20,
        plat_color = NEON_LIME, plat_vx = - (7 / 2), passed = False, landedOn = False \<rparr>,
      \<lparr> plat_x = 3333 / 20, plat_y = - (305 / 2), plat_width = 130, plat_height = 20,
        plat_color = NEON_LIME, plat_vx = - (7 / 2), passed = False, landedOn = False \<rparr>]"
  "ply_x (player Q48) = 400"
  "ply_y (player Q48) = 399"
  "ply_vy (player Q48) = - 14"
  "ply_width (player Q48) = 40"
  "ply_height (player Q48) = 40"
  "ply_color (player Q48) = NEON_LIME"
  "jumps (player Q48) = 1"
  "currentPlatform (player Q48) = None"
  "rix Q48 = 115"
  unfolding Q48_eq
  by (simp_all add: tail_fields update_fall_rix landed_fields landed_store landed_score
        landed_perfectStreak landed_isFever landed_notifications landed_player landed_rix
        land_def landingNotes_def perfectHit_def Q47_move config)

lemma Q47_first: "firstLanding R1 (Frame 768 0) Q47 = None"
  by (simp add: Q47_fields(1) Q47_landing)

lemma wf_Q47: "wf Q47" and pinned_Q47: "pinned Q47"
  using reachable_inv[OF reachable_Q47] by simp_all

lemma Q47_loop: "loop R1 768 0 Q47 = Inr Q48"
  by (simp add: Q48_def loop_afterFrame[OF wf_Q47 Q47_fields(1)])

lemma reachable_Q48: "reachable R1 Q48"
  by (rule reachable.step[OF reachable_Q47, of "Frame 768 0"]) (simp_all add: Q47_loop)

lemma Q48_refs: "refs_ok (Q48\<lparr> lastTime := 784 \<rparr>)"
  by (simp add: refs_ok_def Q48_fields)

lemma Q48_store:
  "store (update_move 0 (Q48\<lparr> lastTime := 784 \<rparr>)) =
     [\<lparr> plat_x = 300, plat_y = 1195 / 2, plat_width = 200, plat_height = 20,
        plat_color = NEON_MAGENTA, plat_vx = 0, passed = False, landedOn = False \<rparr>,
      \<lparr> plat_x = 206479 / 640, plat_y = 895 / 2, plat_width = 130, plat_height = 20,
        plat_color = NEON_LIME, plat_vx = - (7 / 2), passed = False, landedOn = True \<rparr>,
      \<lparr> plat_x = 629033 / 1280, plat_y = 595 / 2, plat_width = 130, plat_height = 20,
        plat_color = NEON_LIME, plat_vx = - (7 / 2), passed = False, landedOn = False \<rparr>,
      \<lparr> plat_x = 0, plat_y = 295 / 2, plat_width = 130, plat_height = 20,
        plat_color = NEON_LIME, plat_vx = 7 / 2, passed = False, landedOn = False \<rparr>,
      \<lparr> plat_x = 6519 / 40, plat_y = - (5 / 2), plat_width = 130, plat_height = 20,
        plat_color = NEON_LIME, plat_vx = - (7 / 2), passed = False, landedOn = False \<rparr>,
      \<lparr> plat_x = 6519 / 40, plat_y = - (305 / 2), plat_width = 130, plat_height = 20,
        plat_color = NEON_LIME, plat_vx = - (7 / 2), passed = False, landedOn = False \<rparr>]"
  by (simp add: update_move_eq[OF Q48_refs] Q48_fields advance_def speedMultiplier_def Let_def)

lemma Q48_player:
  "ply_x (player (update_move 0 (Q48\<lparr> lastTime := 784 \<rparr>))) = 400"
  "ply_y (player (update_move 0 (Q48\<lparr> lastTime := 784 \<rparr>))) = 771 / 2"
  "ply_vy (player (update_move 0 (Q48\<lparr> lastTime := 784 \<rparr>))) = - (27 / 2)"
  "ply_width (player (update_move 0 (Q48\<lparr> lastTime := 784 \<rparr>))) = 40"
  "ply_height (player (update_move 0 (Q48\<lparr> lastTime := 784 \<rparr>))) = 40"
  "ply_color (player (update_move 0 (Q48\<lparr> lastTime := 784 \<rparr>))) = NEON_LIME"
  "jumps (player (update_move 0 (Q48\<lparr> lastTime := 784 \<rparr>))) = 1"
  "currentPlatform (player (update_move 0 (Q48\<lparr> lastTime := 784 \<rparr>))) = None"
  unfolding update_move_player_eq[OF Q48_refs] Q48_store
  by (simp_all add: Q48_fields Player_physics_def carry_def speedMultiplier_def Let_def config)

lemmas Q48_move = Q48_store Q48_player update_move_fields[OF Q48_refs] Q48_fields

lemma Q48_preCollision:
  "preCollision R1 784 0 Q48 = update_move 0 (Q48\<lparr> lastTime := 784 \<rparr>)"
  by (simp add: preCollision_def afterScroll_def scrolls_def Q48_move)

lemma Q48_landing:
  "landingPlatform (preCollision R1 784 0 Q48) = None"
  by (simp add: Q48_preCollision landingPlatform_def hits_def Let_def Q48_move)

lemma Q49_eq:
  "Q49 = update_cosmetics (update_fall R1 (update_move 0 (Q48\<lparr> lastTime := 784 \<rparr>)))"
  using Q48_landing
  by (simp add: Q49_def afterFrame_def update_collision_eq Q48_preCollision)

lemma Q49_fields:
  "state Q49 = Playing"
  "score Q49 = 1"
  "perfectStreak Q49 = 1"
  "isFever Q49 = False"
  "viewportWidth Q49 = 800"
  "viewportHeight Q49 = 600"
  "platforms Q49 = [0, 1, 2, 3, 4, 5]"
  "notifications Q49 = [ScoreUpdate 0, ComboChange 0, FeverChange False, GameStateChange Playing, ScoreUpdate 1, ComboChange 1]"
  "store Q49 =
     [\<lparr> plat_x = 300, plat_y = 1195 / 2, plat_width = 200, plat_height = 20,
        plat_color = NEON_MAGENTA, plat_vx = 0, passed = False, landedOn = False \<rparr>,
      \<lparr> plat_x = 206479 / 640, plat_y = 895 / 2, plat_width = 130, plat_height = 20,
        plat_color = NEON_LIME, plat_vx = - (7 / 2), passed = False, landedOn = True \<rparr>,
      \<lparr> plat_x = 629033 / 1280, plat_y = 595 / 2, plat_width = 130, plat_height = 20,
        plat_color = NEON_LIME, plat_vx = - (7 / 2), passed = False, landedOn = False \<rparr>,
      \<lparr> plat_x = 0, plat_y = 295 / 2, plat_width = 130, plat_height = 20,
        plat_color = NEON_LIME, plat_vx = 7 / 2, passed = False, landedOn = False \<rparr>,
      \<lparr> plat_x = 6519 / 40, plat_y = - (5 / 2), plat_width = 130, plat_height = 20,
        plat_color = NEON_LIME, plat_vx = - (7 / 2), passed = False, landedOn = False \<rparr>,
      \<lparr> plat_x = 6519 / 40, plat_y = - (305 / 2), plat_width = 130, plat_height = 20,
        plat_color = NEON_LIME, plat_vx = - (7 / 2), passed = False, landedOn = False \<rparr>]"
  "ply_x (player Q49) = 400"
  "ply_y (player Q49) = 771 / 2"
  "ply_vy (player Q49) = - (27 / 2)"
  "ply_width (player Q49) = 40"
  "ply_height (player Q49) = 40"
  "ply_color (player Q49) = NEON_LIME"
  "jumps (player Q49) = 1"
  "currentPlatform (player Q49) = None"
  "rix Q49 = 115"
  unfolding Q49_eq
  by (simp_all add: tail_fields update_fall_rix landed_fields landed_store landed_score
        landed_perfectStreak landed_isFever landed_notifications landed_player landed_rix
        land_def landingNotes_def perfectHit_def Q48_move config)

lemma Q48_first: "firstLanding R1 (Frame 784 0) Q48 = None"
  by (simp add: Q48_fields(1) Q48_landing)

lemma wf_Q48: "wf Q48" and pinned_Q48: "pinned Q48"
  using reachable_inv[OF reachable_Q48] by simp_all

lemma Q48_loop: "loop R1 784 0 Q48 = Inr Q49"
  by (simp add: Q49_def loop_afterFrame[OF wf_Q48 Q48_fields(1)])

lemma reachable_Q49: "reachable R1 Q49"
  by (rule reachable.step[OF reachable_Q48, of "Frame 784 0"]) (simp_all add: Q48_loop)

lemma Q49_refs: "refs_ok (Q49\<lparr> lastTime := 800 \<rparr>)"
  by (simp add: refs_ok_def Q49_fields)

lemma Q49_store:
  "store (update_move 0 (Q49\<lparr> lastTime := 800 \<rparr>)) =
     [\<lparr> plat_x = 300, plat_y = 1195 / 2, plat_width = 200, plat_height = 20,
        plat_color = NEON_MAGENTA, plat_vx = 0, passed = False, landedOn = False \<rparr>,
      \<lparr> plat_x = 204127 / 640, plat_y = 895 / 2, plat_width = 130, plat_height = 20,
        plat_color = NEON_LIME, plat_vx = - (7 / 2), passed = False, landedOn = True \<rparr>,
      \<lparr> plat_x = 624329 / 1280, plat_y = 595 / 2, plat_width = 130, plat_height = 20,
        plat_color = NEON_LIME, plat_vx = - (7 / 2), passed = False, landedOn = False \<rparr>,
      \<lparr> plat_x = 147 / 40, plat_y = 295 / 2, plat_width = 130, plat_height = 20,
        plat_color = NEON_LIME, plat_vx = 7 / 2, passed = False, landedOn = False \<rparr>,
      \<lparr> plat_x = 1593 / 10, plat_y = - (5 / 2), plat_width = 130, plat_height = 20,
        plat_color = NEON_LIME, plat_vx = - (7 / 2), passed = False, landedOn = False \<rparr>,
      \<lparr> plat_x = 1593 / 10, plat_y = - (305 / 2), plat_width = 130, plat_height = 20,
        plat_color = NEON_LIME, plat_vx = - (7 / 2), passed = False, landedOn = False \<rparr>]"
  by (simp add: update_move_eq[OF Q49_refs] Q49_fields advance_def speedMultiplier_def Let_def)

lemma Q49_player:
  "ply_x (player (update_move 0 (Q49\<lparr> lastTime := 800 \<rparr>))) = 400"
  "ply_y (player (update_move 0 (Q49\<lparr> lastTime := 800 \<rparr>))) = 745 / 2"
  "ply_vy (player (update_move 0 (Q49\<lparr> lastTime := 800 \<rparr>))) = - 13"
  "ply_width (player (update_move 0 (Q49\<lparr> lastTime := 800 \<rparr>))) = 40"
  "ply_height (player (update_move 0 (Q49\<lparr> lastTime := 800 \<rparr>))) = 40"
  "ply_color (player (update_move 0 (Q49\<lparr> lastTime := 800 \<rparr>))) = NEON_LIME"
  "jumps (player (update_move 0 (Q49\<lparr> lastTime := 800 \<rparr>))) = 1"
  "currentPlatform (player (update_move 0 (Q49\<lparr> lastTime := 800 \<rparr>))) = None"
  unfolding update_move_player_eq[OF Q49_refs] Q49_store
  by (simp_all add: Q49_fields Player_physics_def carry_def speedMultiplier_def Let_def config)

lemmas Q49_move = Q49_store Q49_player update_move_fields[OF Q49_refs] Q49_fields

lemma Q49_preCollision:
  "preCollision R1 800 0 Q49 = update_move 0 (Q49\<lparr> lastTime := 800 \<rparr>)"
  by (simp add: preCollision_def afterScroll_def scrolls_def Q49_move)

lemma Q49_landing:
  "landingPlatform (preCollision R1 800 0 Q49) = None"
  by (simp add: Q49_preCollision landingPlatform_def hits_def Let_def Q49_move)

lemma Q50_eq:
  "Q50 = update_cosmetics (update_fall R1 (update_move 0 (Q49\<lparr> lastTime := 800 \<rparr>)))"
  using Q49_landing
  by (simp add: Q50_def afterFrame_def update_collision_eq Q49_preCollision)

lemma Q50_fields:
  "state Q50 = Playing"
  "score Q50 = 1"
  "perfectStreak Q50 = 1"
  "isFever Q50 = False"
  "viewportWidth Q50 = 800"
  "viewportHeight Q50 = 600"
  "platforms Q50 = [0, 1, 2, 3, 4, 5]"
  "notifications Q50 = [ScoreUpdate 0, ComboChange 0, FeverChange False, GameStateChange Playing, ScoreUpdate 1, ComboChange 1]"
  "store Q50 =
     [\<lparr> plat_x = 300, plat_y = 1195 / 2, plat_width = 200, plat_height = 20,
        plat_color = NEON_MAGENTA, plat_vx = 0, passed = False, landedOn = False \<rparr>,
      \<lparr> plat_x = 204127 / 640, plat_y = 895 / 2, plat_width = 130, plat_height = 20,
        plat_color = NEON_LIME, plat_vx = - (7 / 2), passed = False, landedOn = True \<rparr>,
      \<lparr> plat_x = 624329 / 1280, plat_y = 595 / 2, plat_width = 130, plat_height = 20,
        plat_color = NEON_LIME, plat_vx = - (7 / 2), passed = False, landedOn = False \<rparr>,
      \<lparr> plat_x = 147 / 40, plat_y = 295 / 2, plat_width = 130, plat_height = 20,
        plat_color = NEON_LIME, plat_vx = 7 / 2, passed = False, landedOn = False \<rparr>,
      \<lparr> plat_x = 1593 / 10, plat_y = - (5 / 2), plat_width = 130, plat_height = 20,
        plat_color = NEON_LIME, plat_vx = - (7 / 2), passed = False, landedOn = False \<rparr>,
      \<lparr> plat_x = 1593 / 10, plat_y = - (305 / 2), plat_width = 130, plat_height = 20,
        plat_color = NEON_LIME, plat_vx = - (7 / 2), passed = False, landedOn = False \<rparr>]"
  "ply_x (player Q50) = 400"
  "ply_y (player Q50) = 745 / 2"
  "ply_vy (player Q50) = - 13"
  "ply_width (player Q50) = 40"
  "ply_height (player Q50) = 40"
  "ply_color (player Q50) = NEON_LIME"
  "jumps (player Q50) = 1"
  "currentPlatform (player Q50) = None"
  "rix Q50 = 115"
  unfolding Q50_eq
  by (simp_all add: tail_fields update_fall_rix landed_fields landed_store landed_score
        landed_perfectStreak landed_isFever landed_notifications landed_player landed_rix
        land_def landingNotes_def perfectHit_def Q49_move config)

lemma Q49_first: "firstLanding R1 (Frame 800 0) Q49 = None"
  by (simp add: Q49_fields(1) Q49_landing)

lemma wf_Q49: "wf Q49" and pinned_Q49: "pinned Q49"
  using reachable_inv[OF reachable_Q49] by simp_all

lemma Q49_loop: "loop R1 800 0 Q49 = Inr Q50"
  by (simp add: Q50_def loop_afterFrame[OF wf_Q49 Q49_fields(1)])

lemma reachable_Q50: "reachable R1 Q50"
  by (rule reachable.step[OF reachable_Q49, of "Frame 800 0"]) (simp_all add: Q49_loop)

lemma Q50_refs: "refs_ok (Q50\<lparr> lastTime := 816 \<rparr>)"
  by (simp add: refs_ok_def Q50_fields)

lemma Q50_store:
  "store (update_move 0 (Q50\<lparr> lastTime := 816 \<rparr>)) =
     [\<lparr> plat_x = 300, plat_y = 1195 / 2, plat_width = 200, plat_height = 20,
        plat_color = NEON_MAGENTA, plat_vx = 0, passed = False, landedOn = False \<rparr>,
      \<lparr> plat_x = 40355 / 128, plat_y = 895 / 2, plat_width = 130, plat_height = 20,
        plat_color = NEON_LIME, plat_vx = - (7 / 2), passed = False, landedOn = True \<rparr>,
      \<lparr> plat_x = 123925 / 256, plat_y = 595 / 2, plat_width = 130, plat_height = 20,
        plat_color = NEON_LIME, plat_vx = - (7 / 2), passed = False, landedOn = False \<rparr>,
      \<lparr> plat_x = 147 / 20, plat_y = 295 / 2, plat_width = 130, plat_height = 20,
        plat_color = NEON_LIME, plat_vx = 7 / 2, passed = False, landedOn = False \<rparr>,
      \<lparr> plat_x = 1245 / 8, plat_y = - (5 / 2), plat_width = 130, plat_height = 20,
        plat_color = NEON_LIME, plat_vx = - (7 / 2), passed = False, landedOn = False \<rparr>,
      \<lparr> plat_x = 1245 / 8, plat_y = - (305 / 2), plat_width = 130, plat_height = 20,
        plat_color = NEON_LIME, plat_vx = - (7 / 2), passed = False, landedOn = False \<rparr>]"
  by (simp add: update_move_eq[OF Q50_refs] Q50_fields advance_def speedMultiplier_def Let_def)

lemma Q50_player:
  "ply_x (player (update_move 0 (Q50\<lparr> lastTime := 816 \<rparr>))) = 400"
  "ply_y (player (update_move 0 (Q50\<lparr> lastTime := 816 \<rparr>))) = 360"
  "ply_vy (player (update_move 0 (Q50\<lparr> lastTime := 816 \<rparr>))) = - (25 / 2)"
  "ply_width (player (update_move 0 (Q50\<lparr> lastTime := 816 \<rparr>))) = 40"
  "ply_height (player (update_move 0 (Q50\<lparr> lastTime := 816 \<rparr>))) = 40"
  "ply_color (player (update_move 0 (Q50\<lparr> lastTime := 816 \<rparr>))) = NEON_LIME"
  "jumps (player (update_move 0 (Q50\<lparr> lastTime := 816 \<rparr>))) = 1"
  "currentPlatform (player (update_move 0 (Q50\<lparr> lastTime := 816 \<rparr>))) = None"
  unfolding update_move_player_eq[OF Q50_refs] Q50_store
  by (simp_all add: Q50_fields Player_physics_def carry_def speedMultiplier_def Let_def config)

lemmas Q50_move = Q50_store Q50_player update_move_fields[OF Q50_refs] Q50_fields

lemma Q50_preCollision:
  "preCollision R1 816 0 Q50 = update_move 0 (Q50\<lparr> lastTime := 816 \<rparr>)"
  by (simp add: preCollision_def afterScroll_def scrolls_def Q50_move)

lemma Q50_landing:
  "landingPlatform (preCollision R1 816 0 Q50) = None"
  by (simp add: Q50_preCollision landingPlatform_def hits_def Let_def Q50_move)

lemma Q51_eq:
  "Q51 = update_cosmetics (update_fall R1 (update_move 0 (Q50\<lparr> lastTime := 816 \<rparr>)))"
  using Q50_landing
  by (simp add: Q51_def afterFrame_def update_collision_eq Q50_preCollision)

lemma Q51_fields:
  "state Q51 = Playing"
  "score Q51 = 1"
  "perfectStreak Q51 = 1"
  "isFever Q51 = False"
  "viewportWidth Q51 = 800"
  "viewportHeight Q51 = 600"
  "platforms Q51 = [0, 1, 2, 3, 4, 5]"
  "notifications Q51 = [ScoreUpdate 0, ComboChange 0, FeverChange False, GameStateChange Playing, ScoreUpdate 1, ComboChange 1]"
  "store Q51 =
     [\<lparr> plat_x = 300, plat_y = 1195 / 2, plat_width = 200, plat_height = 20,
        plat_color = NEON_MAGENTA, plat_vx = 0, passed = False, landedOn = False \<rparr>,
      \<lparr> plat_x = 40355 / 128, plat_y = 895 / 2, plat_width = 130, plat_height = 20,
        plat_color = NEON_LIME, plat_vx = - (7 / 2), passed = False, landedOn = True \<rparr>,
      \<lparr> plat_x = 123925 / 256, plat_y = 595 / 2, plat_width = 130, plat_height = 20,
        plat_color = NEON_LIME, plat_vx = - (7 / 2), passed = False, landedOn = False \<rparr>,
      \<lparr> plat_x = 147 / 20, plat_y = 295 / 2, plat_width = 130, plat_height = 20,
        plat_color = NEON_LIME, plat_vx = 7 / 2, passed = False, landedOn = False \<rparr>,
      \<lparr> plat_x = 1245 / 8, plat_y = - (5 / 2), plat_width = 130, plat_height = 20,
        plat_color = NEON_LIME, plat_vx = - (7 / 2), passed = False, landedOn = False \<rparr>,
      \<lparr> plat_x = 1245 / 8, plat_y = - (305 / 2), plat_width = 130, plat_height = 20,
        plat_color = NEON_LIME, plat_vx = - (7 / 2), passed = False, landedOn = False \<rparr>]"
  "ply_x (player Q51) = 400"
  "ply_y (player Q51) = 360"
  "ply_vy (player Q51) = - (25 / 2)"
  "ply_width (player Q51) = 40"
  "ply_height (player Q51) = 40"
  "ply_color (player Q51) = NEON_LIME"
  "jumps (player Q51) = 1"
  "currentPlatform (player Q51) = None"
  "rix Q51 = 115"
  unfolding Q51_eq
  by (simp_all add: tail_fields update_fall_rix landed_fields landed_store landed_score
        landed_perfectStreak landed_isFever landed_notifications landed_player landed_rix
        land_def landingNotes_def perfectHit_def Q50_move config)

lemma Q50_first: "firstLanding R1 (Frame 816 0) Q50 = None"
  by (simp add: Q50_fields(1) Q50_landing)

lemma wf_Q50: "wf Q50" and pinned_Q50: "pinned Q50"
  using reachable_inv[OF reachable_Q50] by simp_all

lemma Q50_loop: "loop R1 816 0 Q50 = Inr Q51"
  by (simp add: Q51_def loop_afterFrame[OF wf_Q50 Q50_fields(1)])

lemma reachable_Q51: "reachable R1 Q51"
  by (rule reachable.step[OF reachable_Q50, of "Frame 816 0"]) (simp_all add: Q50_loop)

lemma Q51_refs: "refs_ok (Q51\<lparr> lastTime := 832 \<rparr>)"
  by (simp add: refs_ok_def Q51_fields)

lemma Q51_store:
  "store (update_move 0 (Q51\<lparr> lastTime := 832 \<rparr>)) =
     [\<lparr> plat_x = 300, plat_y = 1195 / 2, plat_width = 200, plat_height = 20,
        plat_color = NEON_MAGENTA, plat_vx = 0, passed = False, landedOn = False \<rparr>,
      \<lparr> plat_x = 199423 / 640, plat_y = 895 / 2, plat_width = 130, plat_height = 20,
        plat_color = NEON_LIME, plat_vx = - (7 / 2), passed = False, landedOn = True \<rparr>,
      \<lparr> plat_x = 614921 / 1280, plat_y = 595 / 2, plat_width = 130, plat_height = 20,
        plat_color = NEON_LIME, plat_vx = - (7 / 2), passed = False, landedOn = False \<rparr>,
      \<lparr> plat_x = 441 / 40, plat_y = 295 / 2, plat_width = 130, plat_height = 20,
        plat_color = NEON_LIME, plat_vx = 7 / 2, passed = False, landedOn = False \<rparr>,
      \<lparr> plat_x = 3039 / 20, plat_y = - (5 / 2), plat_width = 130, plat_height = 20,
        plat_color = NEON_LIME, plat_vx = - (7 / 2), passed = False, landedOn = False \<rparr>,
      \<lparr> plat_x = 3039 / 20, plat_y = - (305 / 2), plat_width = 130, plat_height = 20,
        plat_color = NEON_LIME, plat_vx = - (7 / 2), passed = False, landedOn = False \<rparr>]"
  by (simp add: update_move_eq[OF Q51_refs] Q51_fields advance_def speedMultiplier_def Let_def)

lemma Q51_player:
  "ply_x (player (update_move 0 (Q51\<lparr> lastTime := 832 \<rparr>))) = 400"
  "ply_y (player (update_move 0 (Q51\<lparr> lastTime := 832 \<rparr>))) = 348"
  "ply_vy (player (update_move 0 (Q51\<lparr> lastTime := 832 \<rparr>))) = - 12"
  "ply_width (player (update_move 0 (Q51\<lparr> lastTime := 832 \<rparr>))) = 40"
  "ply_height (player (update_move 0 (Q51\<lparr> lastTime := 832 \<rparr>))) = 40"
  "ply_color (player (update_move 0 (Q51\<lparr> lastTime := 832 \<rparr>))) = NEON_LIME"
  "jumps (player (update_move 0 (Q51\<lparr> lastTime := 832 \<rparr>))) = 1"
  "currentPlatform (player (update_move 0 (Q51\<lparr> lastTime := 832 \<rparr>))) = None"
  unfolding update_move_player_eq[OF Q51_refs] Q51_store
  by (simp_all add: Q51_fields Player_physics_def carry_def speedMultiplier_def Let_def config)

lemmas Q51_move = Q51_store Q51_player update_move_fields[OF Q51_refs] Q51_fields

lemma Q51_scroll:
  "scrolls (update_move 0 (Q51\<lparr> lastTime := 832 \<rparr>))"
  "scrollDiff (update_move 0 (Q51\<lparr> lastTime := 832 \<rparr>)) = 12"
  "\<not> recycles (update_move 0 (Q51\<lparr> lastTime := 832 \<rparr>))"
  "refs_ok (update_move 0 (Q51\<lparr> lastTime := 832 \<rparr>))"
  "platforms (update_move 0 (Q51\<lparr> lastTime := 832 \<rparr>)) \<noteq> []"
  by (simp_all add: scrolls_def scrollDiff_def recycles_def refs_ok_def Q51_move)

lemma Q51_landing:
  "landingPlatform (preCollision R1 832 0 Q51) = None"
  by (simp add: landingPlatform_def preCollision_def afterScroll_fields Q51_scroll Q51_move)

lemma Q52_eq:
  "Q52 = update_cosmetics (update_fall R1 (preCollision R1 832 0 Q51))"
  using Q51_landing
  by (simp add: Q52_def afterFrame_def update_collision_eq)

lemma Q52_fields:
  "state Q52 = Playing"
  "score Q52 = 1"
  "perfectStreak Q52 = 1"
  "isFever Q52 = False"
  "viewportWidth Q52 = 800"
  "viewportHeight Q52 = 600"
  "platforms Q52 = [0, 1, 2, 3, 4, 5]"
  "notifications Q52 = [ScoreUpdate 0, ComboChange 0, FeverChange False, GameStateChange Playing, ScoreUpdate 1, ComboChange 1]"
  "store Q52 =
     [\<lparr> plat_x = 300, plat_y = 1219 / 2, plat_width = 200, plat_height = 20,
        plat_color = NEON_MAGENTA, plat_vx = 0, passed = False, landedOn = False \<rparr>,
      \<lparr> plat_x = 199423 / 640, plat_y = 919 / 2, plat_width = 130, plat_height = 20,
        plat_color = NEON_LIME, plat_vx = - (7 / 2), passed = False, landedOn = True \<rparr>,
      \<lparr> plat_x = 614921 / 1280, plat_y = 619 / 2, plat_width = 130, plat_height = 20,
        plat_color = NEON_LIME, plat_vx = - (7 / 2), passed = False, landedOn = False \<rparr>,
      \<lparr> plat_x = 441 / 40, plat_y = 319 / 2, plat_width = 130, plat_height = 20,
        plat_color = NEON_LIME, plat_vx = 7 / 2, passed = False, landedOn = False \<rparr>,
      \<lparr> plat_x = 3039 / 20, plat_y = 19 / 2, plat_width = 130, plat_height = 20,
        plat_color = NEON_LIME, plat_vx = - (7 / 2), passed = False, landedOn = False \<rparr>,
      \<lparr> plat_x = 3039 / 20, plat_y = - (281 / 2), plat_width = 130, plat_height = 20,
        plat_color = NEON_LIME, plat_vx = - (7 / 2), passed = False, landedOn = False \<rparr>]"
  "ply_x (player Q52) = 400"
  "ply_y (player Q52) = 360"
  "ply_vy (player Q52) = - 12"
  "ply_width (player Q52) = 40"
  "ply_height (player Q52) = 40"
  "ply_color (player Q52) = NEON_LIME"
  "jumps (player Q52) = 1"
  "currentPlatform (player Q52) = None"
  "rix Q52 = 115"
  unfolding Q52_eq tail_fields update_fall_rix preCollision_def
    afterScroll_store_list[OF Q51_scroll(4,5)]
  by (simp_all add: afterScroll_fields afterScroll_rix Q51_scroll Q51_move spawned_R1 config)

lemma Q51_first: "firstLanding R1 (Frame 832 0) Q51 = None"
  by (simp add: Q51_fields(1) Q51_landing)

lemma wf_Q51: "wf Q51" and pinned_Q51: "pinned Q51"
  using reachable_inv[OF reachable_Q51] by simp_all

lemma Q51_loop: "loop R1 832 0 Q51 = Inr Q52"
  by (simp add: Q52_def loop_afterFrame[OF wf_Q51 Q51_fields(1)])

lemma reachable_Q52: "reachable R1 Q52"
  by (rule reachable.step[OF reachable_Q51, of "Frame 832 0"]) (simp_all add: Q51_loop)

lemma Q52_refs: "refs_ok (Q52\<lparr> lastTime := 848 \<rparr>)"
  by (simp add: refs_ok_def Q52_fields)

lemma Q52_store:
  "store (update_move 0 (Q52\<lparr> lastTime := 848 \<rparr>)) =
     [\<lparr> plat_x = 300, plat_y = 1219 / 2, plat_width = 200, plat_height = 20,
        plat_color = NEON_MAGENTA, plat_vx = 0, passed = False, landedOn = False \<rparr>,
      \<lparr> plat_x = 197071 / 640, plat_y = 919 / 2, plat_width = 130, plat_height = 20,
        plat_color = NEON_LIME, plat_vx = - (7 / 2), passed = False, landedOn = True \<rparr>,
      \<lparr> plat_x = 610217 / 1280, plat_y = 619 / 2, plat_width = 130, plat_height = 20,
        plat_color = NEON_LIME, plat_vx = - (7 / 2), passed = False, landedOn = False \<rparr>,
      \<lparr> plat_x = 147 / 10, plat_y = 319 / 2, plat_width = 130, plat_height = 20,
        plat_color = NEON_LIME, plat_vx = 7 / 2, passed = False, landedOn = False \<rparr>,
      \<lparr> plat_x = 5931 / 40, plat_y = 19 / 2, plat_width = 130, plat_height = 20,
        plat_color = NEON_LIME, plat_vx = - (7 / 2), passed = False, landedOn = False \<rparr>,
      \<lparr> plat_x = 5931 / 40, plat_y = - (281 / 2), plat_width = 130, plat_height = 20,
        plat_color = NEON_LIME, plat_vx = - (7 / 2), passed = False, landedOn = False \<rparr>]"
  by (simp add: update_move_eq[OF Q52_refs] Q52_fields advance_def speedMultiplier_def Let_def)

lemma Q52_player:
  "ply_x (player (update_move 0 (Q52\<lparr> lastTime := 848 \<rparr>))) = 400"
  "ply_y (player (update_move 0 (Q52\<lparr> lastTime := 848 \<rparr>))) = 697 / 2"
  "ply_vy (player (update_move 0 (Q52\<lparr> lastTime := 848 \<rparr>))) = - (23 / 2)"
  "ply_width (player (update_move 0 (Q52\<lparr> lastTime := 848 \<rparr>))) = 40"
  "ply_height (player (update_move 0 (Q52\<lparr> lastTime := 848 \<rparr>))) = 40"
  "ply_color (player (update_move 0 (Q52\<lparr> lastTime := 848 \<rparr>))) = NEON_LIME"
  "jumps (player (update_move 0 (Q52\<lparr> lastTime := 848 \<rparr>))) = 1"
  "currentPlatform (player (update_move 0 (Q52\<lparr> lastTime := 848 \<rparr>))) = None"
  unfolding update_move_player_eq[OF Q52_refs] Q52_store
  by (simp_all add: Q52_fields Player_physics_def carry_def speedMultiplier_def Let_def config)

lemmas Q52_move = Q52_store Q52_player update_move_fields[OF Q52_refs] Q52_fields

lemma Q52_scroll:
  "scrolls (update_move 0 (Q52\<lparr> lastTime := 848 \<rparr>))"
  "scrollDiff (update_move 0 (Q52\<lparr> lastTime := 848 \<rparr>)) = 23 / 2"
  "\<not> recycles (update_move 0 (Q52\<lparr> lastTime := 848 \<rparr>))"
  "refs_ok (update_move 0 (Q52\<lparr> lastTime := 848 \<rparr>))"
  "platforms (update_move 0 (Q52\<lparr> lastTime := 848 \<rparr>)) \<noteq> []"
  by (simp_all add: scrolls_def scrollDiff_def recycles_def refs_ok_def Q52_move)

lemma Q52_landing:
  "landingPlatform (preCollision R1 848 0 Q52) = None"
  by (simp add: landingPlatform_def preCollision_def afterScroll_fields Q52_scroll Q52_move)

lemma Q53_eq:
  "Q53 = update_cosmetics (update_fall R1 (preCollision R1 848 0 Q52))"
  using Q52_landing
  by (simp add: Q53_def afterFrame_def update_collision_eq)

lemma Q53_fields:
  "state Q53 = Playing"
  "score Q53 = 1"
  "perfectStreak Q53 = 1"
  "isFever Q53 = False"
  "viewportWidth Q53 = 800"
  "viewportHeight Q53 = 600"
  "platforms Q53 = [0, 1, 2, 3, 4, 5]"
  "notifications Q53 = [ScoreUpdate 0, ComboChange 0, FeverChange False, GameStateChange Playing, ScoreUpdate 1, ComboChange 1]"
  "store Q53 =
     [\<lparr> plat_x = 300, plat_y = 621, plat_width = 200, plat_height = 20,
        plat_color = NEON_MAGENTA, plat_vx = 0, passed = False, landedOn = False \<rparr>,
      \<lparr> plat_x = 197071 / 640, plat_y = 471, plat_width = 130, plat_height = 20,
        plat_color = NEON_LIME, plat_vx = - (7 / 2), passed = False, landedOn = True \<rparr>,
      \<lparr> plat_x = 610217 / 1280, plat_y = 321, plat_width = 130, plat_height = 20,
        plat_color = NEON_LIME, plat_vx = - (7 / 2), passed = False, landedOn = False \<rparr>,
      \<lparr> plat_x = 147 / 10, plat_y = 171, plat_width = 130, plat_height = 20,
        plat_color = NEON_LIME, plat_vx = 7 / 2, passed = False, landedOn = False \<rparr>,
      \<lparr> plat_x = 5931 / 40, plat_y = 21, plat_width = 130, plat_height = 20,
        plat_color = NEON_LIME, plat_vx = - (7 / 2), passed = False, landedOn = False \<rparr>,
      \<lparr> plat_x = 5931 / 40, plat_y = - 129, plat_width = 130, plat_height = 20,
        plat_color = NEON_LIME, plat_vx = - (7 / 2), passed = False, landedOn = False \<rparr>]"
  "ply_x (player Q53) = 400"
  "ply_y (player Q53) = 360"
  "ply_vy (player Q53) = - (23 / 2)"
  "ply_width (player Q53) = 40"
  "ply_height (player Q53) = 40"
  "ply_color (player Q53) = NEON_LIME"
  "jumps (player Q53) = 1"
  "currentPlatform (player Q53) = None"
  "rix Q53 = 115"
  unfolding Q53_eq tail_fields update_fall_rix preCollision_def
    afterScroll_store_list[OF Q52_scroll(4,5)]
  by (simp_all add: afterScroll_fields afterScroll_rix Q52_scroll Q52_move spawned_R1 config)

lemma Q52_first: "firstLanding R1 (Frame 848 0) Q52 = None"
  by (simp add: Q52_fields(1) Q52_landing)

lemma wf_Q52: "wf Q52" and pinned_Q52: "pinned Q52"
  using reachable_inv[OF reachable_Q52] by simp_all

lemma Q52_loop: "loop R1 848 0 Q52 = Inr Q53"
  by (simp add: Q53_def loop_afterFrame[OF wf_Q52 Q52_fields(1)])

lemma reachable_Q53: "reachable R1 Q53"
  by (rule reachable.step[OF reachable_Q52, of "Frame 848 0"]) (simp_all add: Q52_loop)

lemma Q53_refs: "refs_ok (Q53\<lparr> lastTime := 864 \<rparr>)"
  by (simp add: refs_ok_def Q53_fields)

lemma Q53_store:
  "store (update_move 0 (Q53\<lparr> lastTime := 864 \<rparr>)) =
     [\<lparr> plat_x = 300, plat_y = 621, plat_width = 200, plat_height = 20,
        plat_color = NEON_MAGENTA, plat_vx = 0, passed = False, landedOn = False \<rparr>,
      \<lparr> plat_x = 194719 / 640, plat_y = 471, plat_width = 130, plat_height = 20,
        plat_color = NEON_LIME, plat_vx = - (7 / 2), passed = False, landedOn = True \<rparr>,
      \<lparr> plat_x = 605513 / 1280, plat_y = 321, plat_width = 130, plat_height = 20,
        plat_color = NEON_LIME, plat_vx = - (7 / 2), passed = False, landedOn = False \<rparr>,
      \<lparr> plat_x = 147 / 8, plat_y = 171, plat_width = 130, plat_height = 20,
        plat_color = NEON_LIME, plat_vx = 7 / 2, passed = False, landedOn = False \<rparr>,
      \<lparr> plat_x = 723 / 5, plat_y = 21, plat_width = 130, plat_height = 20,
        plat_color = NEON_LIME, plat_vx = - (7 / 2), passed = False, landedOn = False \<rparr>,
      \<lparr> plat_x = 723 / 5, plat_y = - 129, plat_width = 130, plat_height = 20,
        plat_color = NEON_LIME, plat_vx = - (7 / 2), passed = False, landedOn = False \<rparr>]"
  by (simp add: update_move_eq[OF Q53_refs] Q53_fields advance_def speedMultiplier_def Let_def)

lemma Q53_player:
  "ply_x (player (update_move 0 (Q53\<lparr> lastTime := 864 \<rparr>))) = 400"
  "ply_y (player (update_move 0 (Q53\<lparr> lastTime := 864 \<rparr>))) = 349"
  "ply_vy (player (update_move 0 (Q53\<lparr> lastTime := 864 \<rparr>))) = - 11"
  "ply_width (player (update_move 0 (Q53\<lparr> lastTime := 864 \<rparr>))) = 40"
  "ply_height (player (update_move 0 (Q53\<lparr> lastTime := 864 \<rparr>))) = 40"
  "ply_color (player (update_move 0 (Q53\<lparr> lastTime := 864 \<rparr>))) = NEON_LIME"
  "jumps (player (update_move 0 (Q53\<lparr> lastTime := 864 \<rparr>))) = 1"
  "currentPlatform (player (update_move 0 (Q53\<lparr> lastTime := 864 \<rparr>))) = None"
  unfolding update_move_player_eq[OF Q53_refs] Q53_store
  by (simp_all add: Q53_fields Player_physics_def carry_def speedMultiplier_def Let_def config)

lemmas Q53_move = Q53_store Q53_player update_move_fields[OF Q53_refs] Q53_fields

lemma Q53_scroll:
  "scrolls (update_move 0 (Q53\<lparr> lastTime := 864 \<rparr>))"
  "scrollDiff (update_move 0 (Q53\<lparr> lastTime := 864 \<rparr>)) = 11"
  "\<not> recycles (update_move 0 (Q53\<lparr> lastTime := 864 \<rparr>))"
  "refs_ok (update_move 0 (Q53\<lparr> lastTime := 864 \<rparr>))"
  "platforms (update_move 0 (Q53\<lparr> lastTime := 864 \<rparr>)) \<noteq> []"
  by (simp_all add: scrolls_def scrollDiff_def recycles_def refs_ok_def Q53_move)

lemma Q53_landing:
  "landingPlatform (preCollision R1 864 0 Q53) = None"
  by (simp add: landingPlatform_def preCollision_def afterScroll_fields Q53_scroll Q53_move)

lemma Q54_eq:
  "Q54 = update_cosmetics (update_fall R1 (preCollision R1 864 0 Q53))"
  using Q53_landing
  by (simp add: Q54_def afterFrame_def update_collision_eq)

lemma Q54_fields:
  "state Q54 = Playing"
  "score Q54 = 1"
  "perfectStreak Q54 = 1"
  "isFever Q54 = False"
  "viewportWidth Q54 = 800"
  "viewportHeight Q54 = 600"
  "platforms Q54 = [0, 1, 2, 3, 4, 5]"
  "notifications Q54 = [ScoreUpdate 0, ComboChange 0, FeverChange False, GameStateChange Playing, ScoreUpdate 1, ComboChange 1]"
  "store Q54 =
     [\<lparr> plat_x = 300, plat_y = 632, plat_width = 200, plat_height = 20,
        plat_color = NEON_MAGENTA, plat_vx = 0, passed = False, landedOn = False \<rparr>,
      \<lparr> plat_x = 194719 / 640, plat_y = 482, plat_width = 130, plat_height = 20,
        plat_color = NEON_LIME, plat_vx = - (7 / 2), passed = False, landedOn = True \<rparr>,
      \<lparr> plat_x = 605513 / 1280, plat_y = 332, plat_width = 130, plat_height = 20,
        plat_color = NEON_LIME, plat_vx = - (7 / 2), passed = False, landedOn = False \<rparr>,
      \<lparr> plat_x = 147 / 8, plat_y = 182, plat_width = 130, plat_height = 20,
        plat_color = NEON_LIME, plat_vx = 7 / 2, passed = False, landedOn = False \<rparr>,
      \<lparr> plat_x = 723 / 5, plat_y = 32, plat_width = 130, plat_height = 20,
        plat_color = NEON_LIME, plat_vx = - (7 / 2), passed = False, landedOn = False \<rparr>,
      \<lparr> plat_x = 723 / 5, plat_y = - 118, plat_width = 130, plat_height = 20,
        plat_color = NEON_LIME, plat_vx = - (7 / 2), passed = False, landedOn = False \<rparr>]"
  "ply_x (player Q54) = 400"
  "ply_y (player Q54) = 360"
  "ply_vy (player Q54) = - 11"
  "ply_width (player Q54) = 40"
  "ply_height (player Q54) = 40"
  "ply_color (player Q54) = NEON_LIME"
  "jumps (player Q54) = 1"
  "currentPlatform (player Q54) = None"
  "rix Q54 = 115"
  unfolding Q54_eq tail_fields update_fall_rix preCollision_def
    afterScroll_store_list[OF Q53_scroll(4,5)]
  by (simp_all add: afterScroll_fields afterScroll_rix Q53_scroll Q53_move spawned_R1 config)

lemma Q53_first: "firstLanding R1 (Frame 864 0) Q53 = None"
  by (simp add: Q53_fields(1) Q53_landing)

lemma wf_Q53: "wf Q53" and pinned_Q53: "pinned Q53"
  using reachable_inv[OF reachable_Q53] by simp_all

lemma Q53_loop: "loop R1 864 0 Q53 = Inr Q54"
  by (simp add: Q54_def loop_afterFrame[OF wf_Q53 Q53_fields(1)])

lemma reachable_Q54: "reachable R1 Q54"
  by (rule reachable.step[OF reachable_Q53, of "Frame 864 0"]) (simp_all add: Q53_loop)

lemma Q54_refs: "refs_ok (Q54\<lparr> lastTime := 880 \<rparr>)"
  by (simp add: refs_ok_def Q54_fields)

lemma Q54_store:
  "store (update_move 0 (Q54\<lparr> lastTime := 880 \<rparr>)) =
     [\<lparr> plat_x = 300, plat_y = 632, plat_width = 200, plat_height = 20,
        plat_color = NEON_MAGENTA, plat_vx = 0, passed = False, landedOn = False \<rparr>,
      \<lparr> plat_x = 192367 / 640, plat_y = 482, plat_width = 130, plat_height = 20,
        plat_color = NEON_LIME, plat_vx = - (7 / 2), passed = False, landedOn = True \<rparr>,
      \<lparr> plat_x = 600809 / 1280, plat_y = 332, plat_width = 130, plat_height = 20,
        plat_color = NEON_LIME, plat_vx = - (7 / 2), passed = False, landedOn = False \<rparr>,
      \<lparr> plat_x = 441 / 20, plat_y = 182, plat_width = 130, plat_height = 20,
        plat_color = NEON_LIME, plat_vx = 7 / 2, passed = False, landedOn = False \<rparr>,
      \<lparr> plat_x = 5637 / 40, plat_y = 32, plat_width = 130, plat_height = 20,
        plat_color = NEON_LIME, plat_vx = - (7 / 2), passed = False, landedOn = False \<rparr>,
      \<lparr> plat_x = 5637 / 40, plat_y = - 118, plat_width = 130, plat_height = 20,
        plat_color = NEON_LIME, plat_vx = - (7 / 2), passed = False, landedOn = False \<rparr>]"
  by (simp add: update_move_eq[OF Q54_refs] Q54_fields advance_def speedMultiplier_def Let_def)

lemma Q54_player:
  "ply_x (player (update_move 0 (Q54\<lparr> lastTime := 880 \<rparr>))) = 400"
  "ply_y (player (update_move 0 (Q54\<lparr> lastTime := 880 \<rparr>))) = 699 / 2"
  "ply_vy (player (update_move 0 (Q54\<lparr> lastTime := 880 \<rparr>))) = - (21 / 2)"
  "ply_width (player (update_move 0 (Q54\<lparr> lastTime := 880 \<rparr>))) = 40"
  "ply_height (player (update_move 0 (Q54\<lparr> lastTime := 880 \<rparr>))) = 40"
  "ply_color (player (update_move 0 (Q54\<lparr> lastTime := 880 \<rparr>))) = NEON_LIME"
  "jumps (player (update_move 0 (Q54\<lparr> lastTime := 880 \<rparr>))) = 1"
  "currentPlatform (player (update_move 0 (Q54\<lparr> lastTime := 880 \<rparr>))) = None"
  unfolding update_move_player_eq[OF Q54_refs] Q54_store
  by (simp_all add: Q54_fields Player_physics_def carry_def speedMultiplier_def Let_def config)

lemmas Q54_move = Q54_store Q54_player update_move_fields[OF Q54_refs] Q54_fields

lemma Q54_scroll:
  "scrolls (update_move 0 (Q54\<lparr> lastTime := 880 \<rparr>))"
  "scrollDiff (update_move 0 (Q54\<lparr> lastTime := 880 \<rparr>)) = 21 / 2"
  "\<not> recycles (update_move 0 (Q54\<lparr> lastTime := 880 \<rparr>))"
  "refs_ok (update_move 0 (Q54\<lparr> lastTime := 880 \<rparr>))"
  "platforms (update_move 0 (Q54\<lparr> lastTime := 880 \<rparr>)) \<noteq> []"
  by (simp_all add: scrolls_def scrollDiff_def recycles_def refs_ok_def Q54_move)

lemma Q54_landing:
  "landingPlatform (preCollision R1 880 0 Q54) = None"
  by (simp add: landingPlatform_def preCollision_def afterScroll_fields Q54_scroll Q54_move)

lemma Q55_eq:
  "Q55 = update_cosmetics (update_fall R1 (preCollision R1 880 0 Q54))"
  using Q54_landing
  by (simp add: Q55_def afterFrame_def update_collision_eq)

lemma Q55_fields:
  "state Q55 = Playing"
  "score Q55 = 1"
  "perfectStreak Q55 = 1"
  "isFever Q55 = False"
  "viewportWidth Q55 = 800"
  "viewportHeight Q55 = 600"
  "platforms Q55 = [0, 1, 2, 3, 4, 5]"
  "notifications Q55 = [ScoreUpdate 0, ComboChange 0, FeverChange False, GameStateChange Playing, ScoreUpdate 1, ComboChange 1]"
  "store Q55 =
     [\<lparr> plat_x = 300, plat_y = 1285 / 2, plat_width = 200, plat_height = 20,
        plat_color = NEON_MAGENTA, plat_vx = 0, passed = False, landedOn = False \<rparr>,
      \<lparr> plat_x = 192367 / 640, plat_y = 985 / 2, plat_width = 130, plat_height = 20,
        plat_color = NEON_LIME, plat_vx = - (7 / 2), passed = False, landedOn = True \<rparr>,
      \<lparr> plat_x = 600809 / 1280, plat_y = 685 / 2, plat_width = 130, plat_height = 20,
        plat_color = NEON_LIME, plat_vx = - (7 / 2), passed = False, landedOn = False \<rparr>,
      \<lparr> plat_x = 441 / 20, plat_y = 385 / 2, plat_width = 130, plat_height = 20,
        plat_color = NEON_LIME, plat_vx = 7 / 2, passed = False, landedOn = False \<rparr>,
      \<lparr> plat_x = 5637 / 40, plat_y = 85 / 2, plat_width = 130, plat_height = 20,
        plat_color = NEON_LIME, plat_vx = - (7 / 2), passed = False, landedOn = False \<rparr>,
      \<lparr> plat_x = 5637 / 40, plat_y = - (215 / 2), plat_width = 130, plat_height = 20,
        plat_color = NEON_LIME, plat_vx = - (7 / 2), passed = False, landedOn = False \<rparr>]"
  "ply_x (player Q55) = 400"
  "ply_y (player Q55) = 360"
  "ply_vy (player Q55) = - (21 / 2)"
  "ply_width (player Q55) = 40"
  "ply_height (player Q55) = 40"
  "ply_color (player Q55) = NEON_LIME"
  "jumps (player Q55) = 1"
  "currentPlatform (player Q55) = None"
  "rix Q55 = 115"
  unfolding Q55_eq tail_fields update_fall_rix preCollision_def
    afterScroll_store_list[OF Q54_scroll(4,5)]
  by (simp_all add: afterScroll_fields afterScroll_rix Q54_scroll Q54_move spawned_R1 config)

lemma Q54_first: "firstLanding R1 (Frame 880 0) Q54 = None"
  by (simp add: Q54_fields(1) Q54_landing)

lemma wf_Q54: "wf Q54" and pinned_Q54: "pinned Q54"
  using reachable_inv[OF reachable_Q54] by simp_all

lemma Q54_loop: "loop R1 880 0 Q54 = Inr Q55"
  by (simp add: Q55_def loop_afterFrame[OF wf_Q54 Q54_fields(1)])

lemma reachable_Q55: "reachable R1 Q55"
  by (rule reachable.step[OF reachable_Q54, of "Frame 880 0"]) (simp_all add: Q54_loop)

lemma Q55_refs: "refs_ok (Q55\<lparr> lastTime := 896 \<rparr>)"
  by (simp add: refs_ok_def Q55_fields)

lemma Q55_store:
  "store (update_move 0 (Q55\<lparr> lastTime := 896 \<rparr>)) =
     [\<lparr> plat_x = 300, plat_y = 1285 / 2, plat_width = 200, plat_height = 20,
        plat_color = NEON_MAGENTA, plat_vx = 0, passed = False, landedOn = False \<rparr>,
      \<lparr> plat_x = 38003 / 128, plat_y = 985 / 2, plat_width = 130, plat_height = 20,
        plat_color = NEON_LIME, plat_vx = - (7 / 2), passed = False, landedOn = True \<rparr>,
      \<lparr> plat_x = 119221 / 256, plat_y = 685 / 2, plat_width = 130, plat_height = 20,
        plat_color = NEON_LIME, plat_vx = - (7 / 2), passed = False, landedOn = False \<rparr>,
      \<lparr> plat_x = 1029 / 40, plat_y = 385 / 2, plat_width = 130, plat_height = 20,
        plat_color = NEON_LIME, plat_vx = 7 / 2, passed = False, landedOn = False \<rparr>,
      \<lparr> plat_x = 549 / 4, plat_y = 85 / 2, plat_width = 130, plat_height = 20,
        plat_color = NEON_LIME, plat_vx = - (7 / 2), passed = False, landedOn = False \<rparr>,
      \<lparr> plat_x = 549 / 4, plat_y = - (215 / 2), plat_width = 130, plat_height = 20,
        plat_color = NEON_LIME, plat_vx = - (7 / 2), passed = False, landedOn = False \<rparr>]"
  by (simp add: update_move_eq[OF Q55_refs] Q55_fields advance_def speedMultiplier_def Let_def)

lemma Q55_player:
  "ply_x (player (update_move 0 (Q55\<lparr> lastTime := 896 \<rparr>))) = 400"
  "ply_y (player (update_move 0 (Q55\<lparr> lastTime := 896 \<rparr>))) = 350"
  "ply_vy (player (update_move 0 (Q55\<lparr> lastTime := 896 \<rparr>))) = - 10"
  "ply_width (player (update_move 0 (Q55\<lparr> lastTime := 896 \<rparr>))) = 40"
  "ply_height (player (update_move 0 (Q55\<lparr> lastTime := 896 \<rparr>))) = 40"
  "ply_color (player (update_move 0 (Q55\<lparr> lastTime := 896 \<rparr>))) = NEON_LIME"
  "jumps (player (update_move 0 (Q55\<lparr> lastTime := 896 \<rparr>))) = 1"
  "currentPlatform (player (update_move 0 (Q55\<lparr> lastTime := 896 \<rparr>))) = None"
  unfolding update_move_player_eq[OF Q55_refs] Q55_store
  by (simp_all add: Q55_fields Player_physics_def carry_def speedMultiplier_def Let_def config)

lemmas Q55_move = Q55_store Q55_player update_move_fields[OF Q55_refs] Q55_fields

lemma Q55_scroll:
  "scrolls (update_move 0 (Q55\<lparr> lastTime := 896 \<rparr>))"
  "scrollDiff (update_move 0 (Q55\<lparr> lastTime := 896 \<rparr>)) = 10"
  "\<not> recycles (update_move 0 (Q55\<lparr> lastTime := 896 \<rparr>))"
  "refs_ok (update_move 0 (Q55\<lparr> lastTime := 896 \<rparr>))"
  "platforms (update_move 0 (Q55\<lparr> lastTime := 896 \<rparr>)) \<noteq> []"
  by (simp_all add: scrolls_def scrollDiff_def recycles_def refs_ok_def Q55_move)

lemma Q55_landing:
  "landingPlatform (preCollision R1 896 0 Q55) = None"
  by (simp add: landingPlatform_def preCollision_def afterScroll_fields Q55_scroll Q55_move)

lemma Q56_eq:
  "Q56 = update_cosmetics (update_fall R1 (preCollision R1 896 0 Q55))"
  using Q55_landing
  by (simp add: Q56_def afterFrame_def update_collision_eq)

lemma Q56_fields:
  "state Q56 = Playing"
  "score Q56 = 1"
  "perfectStreak Q56 = 1"
  "isFever Q56 = False"
  "viewportWidth Q56 = 800"
  "viewportHeight Q56 = 600"
  "platforms Q56 = [0, 1, 2, 3, 4, 5]"
  "notifications Q56 = [ScoreUpdate 0, ComboChange 0, FeverChange False, GameStateChange Playing, ScoreUpdate 1, ComboChange 1]"
  "store Q56 =
     [\<lparr> plat_x = 300, plat_y = 1305 / 2, plat_width = 200, plat_height = 20,
        plat_color = NEON_MAGENTA, plat_vx = 0, passed = False, landedOn = False \<rparr>,
      \<lparr> plat_x = 38003 / 128, plat_y = 1005 / 2, plat_width = 130, plat_height = 20,
        plat_color = NEON_LIME, plat_vx = - (7 / 2), passed = False, landedOn = True \<rparr>,
      \<lparr> plat_x = 119221 / 256, plat_y = 705 / 2, plat_width = 130, plat_height = 20,
        plat_color = NEON_LIME, plat_vx = - (7 / 2), passed = False, landedOn = False \<rparr>,
      \<lparr> plat_x = 1029 / 40, plat_y = 405 / 2, plat_width = 130, plat_height = 20,
        plat_color = NEON_LIME, plat_vx = 7 / 2, passed = False, landedOn = False \<rparr>,
      \<lparr> plat_x = 549 / 4, plat_y = 105 / 2, plat_width = 130, plat_height = 20,
        plat_color = NEON_LIME, plat_vx = - (7 / 2), passed = False, landedOn = False \<rparr>,
      \<lparr> plat_x = 549 / 4, plat_y = - (195 / 2), plat_width = 130, plat_height = 20,
        plat_color = NEON_LIME, plat_vx = - (7 / 2), passed = False, landedOn = False \<rparr>]"
  "ply_x (player Q56) = 400"
  "ply_y (player Q56) = 360"
  "ply_vy (player Q56) = - 10"
  "ply_width (player Q56) = 40"
  "ply_height (player Q56) = 40"
  "ply_color (player Q56) = NEON_LIME"
  "jumps (player Q56) = 1"
  "currentPlatform (player Q56) = None"
  "rix Q56 = 115"
  unfolding Q56_eq tail_fields update_fall_rix preCollision_def
    afterScroll_store_list[OF Q55_scroll(4,5)]
  by (simp_all add: afterScroll_fields afterScroll_rix Q55_scroll Q55_move spawned_R1 config)

lemma Q55_first: "firstLanding R1 (Frame 896 0) Q55 = None"
  by (simp add: Q55_fields(1) Q55_landing)

lemma wf_Q55: "wf Q55" and pinned_Q55: "pinned Q55"
  using reachable_inv[OF reachable_Q55] by simp_all

lemma Q55_loop: "loop R1 896 0 Q55 = Inr Q56"
  by (simp add: Q56_def loop_afterFrame[OF wf_Q55 Q55_fields(1)])

lemma reachable_Q56: "reachable R1 Q56"
  by (rule reachable.step[OF reachable_Q55, of "Frame 896 0"]) (simp_all add: Q55_loop)

lemma Q56_refs: "refs_ok (Q56\<lparr> lastTime := 912 \<rparr>)"
  by (simp add: refs_ok_def Q56_fields)

lemma Q56_store:
  "store (update_move 0 (Q56\<lparr> lastTime := 912 \<rparr>)) =
     [\<lparr> plat_x = 300, plat_y = 1305 / 2, plat_width = 200, plat_height = 20,
        plat_color = NEON_MAGENTA, plat_vx = 0, passed = False, landedOn = False \<rparr>,
      \<lparr> plat_x = 187663 / 640, plat_y = 1005 / 2, plat_width = 130, plat_height = 20,
        plat_color = NEON_LIME, plat_vx = - (7 / 2), passed = False, landedOn = True \<rparr>,
      \<lparr> plat_x = 591401 / 1280, plat_y = 705 / 2, plat_width = 130, plat_height = 20,
        plat_color = NEON_LIME, plat_vx = - (7 / 2), passed = False, landedOn = False \<rparr>,
      \<lparr> plat_x = 147 / 5, plat_y = 405 / 2, plat_width = 130, plat_height = 20,
        plat_color = NEON_LIME, plat_vx = 7 / 2, passed = False, landedOn = False \<rparr>,
      \<lparr> plat_x = 5343 / 40, plat_y = 105 / 2, plat_width = 130, plat_height = 20,
        plat_color = NEON_LIME, plat_vx = - (7 / 2), passed = False, landedOn = False \<rparr>,
      \<lparr> plat_x = 5343 / 40, plat_y = - (195 / 2), plat_width = 130, plat_height = 20,
        plat_color = NEON_LIME, plat_vx = - (7 / 2), passed = False, landedOn = False \<rparr>]"
  by (simp add: update_move_eq[OF Q56_refs] Q56_fields advance_def speedMultiplier_def Let_def)

lemma Q56_player:
  "ply_x (player (update_move 0 (Q56\<lparr> lastTime := 912 \<rparr>))) = 400"
  "ply_y (player (update_move 0 (Q56\<lparr> lastTime := 912 \<rparr>))) = 701 / 2"
  "ply_vy (player (update_move 0 (Q56\<lparr> lastTime := 912 \<rparr>))) = - (19 / 2)"
  "ply_width (player (update_move 0 (Q56\<lparr> lastTime := 912 \<rparr>))) = 40"
  "ply_height (player (update_move 0 (Q56\<lparr> lastTime := 912 \<rparr>))) = 40"
  "ply_color (player (update_move 0 (Q56\<lparr> lastTime := 912 \<rparr>))) = NEON_LIME"
  "jumps (player (update_move 0 (Q56\<lparr> lastTime := 912 \<rparr>))) = 1"
  "currentPlatform (player (update_move 0 (Q56\<lparr> lastTime := 912 \<rparr>))) = None"
  unfolding update_move_player_eq[OF Q56_refs] Q56_store
  by (simp_all add: Q56_fields Player_physics_def carry_def speedMultiplier_def Let_def config)

lemmas Q56_move = Q56_store Q56_player update_move_fields[OF Q56_refs] Q56_fields

lemma Q56_scroll:
  "scrolls (update_move 0 (Q56\<lparr> lastTime := 912 \<rparr>))"
  "scrollDiff (update_move 0 (Q56\<lparr> lastTime := 912 \<rparr>)) = 19 / 2"
  "\<not> recycles (update_move 0 (Q56\<lparr> lastTime := 912 \<rparr>))"
  "refs_ok (update_move 0 (Q56\<lparr> lastTime := 912 \<rparr>))"
  "platforms (update_move 0 (Q56\<lparr> lastTime := 912 \<rparr>)) \<noteq> []"
  by (simp_all add: scrolls_def scrollDiff_def recycles_def refs_ok_def Q56_move)

lemma Q56_landing:
  "landingPlatform (preCollision R1 912 0 Q56) = None"
  by (simp add: landingPlatform_def preCollision_def afterScroll_fields Q56_scroll Q56_move)

lemma Q57_eq:
  "Q57 = update_cosmetics (update_fall R1 (preCollision R1 912 0 Q56))"
  using Q56_landing
  by (simp add: Q57_def afterFrame_def update_collision_eq)

lemma Q57_fields:
  "state Q57 = Playing"
  "score Q57 = 1"
  "perfectStreak Q57 = 1"
  "isFever Q57 = False"
  "viewportWidth Q57 = 800"
  "viewportHeight Q57 = 600"
  "platforms Q57 = [0, 1, 2, 3, 4, 5]"
  "notifications Q57 = [ScoreUpdate 0, ComboChange 0, FeverChange False, GameStateChange Playing, ScoreUpdate 1, ComboChange 1]"
  "store Q57 =
     [\<lparr> plat_x = 300, plat_y = 662, plat_width = 200, plat_height = 20,
        plat_color = NEON_MAGENTA, plat_vx = 0, passed = False, landedOn = False \<rparr>,
      \<lparr> plat_x = 187663 / 640, plat_y = 512, plat_width = 130, plat_height = 20,
        plat_color = NEON_LIME, plat_vx = - (7 / 2), passed = False, landedOn = True \<rparr>,
      \<lparr> plat_x = 591401 / 1280, plat_y = 362, plat_width = 130, plat_height = 20,
        plat_color = NEON_LIME, plat_vx = - (7 / 2), passed = False, landedOn = False \<rparr>,
      \<lparr> plat_x = 147 / 5, plat_y = 212, plat_width = 130, plat_height = 20,
        plat_color = NEON_LIME, plat_vx = 7 / 2, passed = False, landedOn = False \<rparr>,
      \<lparr> plat_x = 5343 / 40, plat_y = 62, plat_width = 130, plat_height = 20,
        plat_color = NEON_LIME, plat_vx = - (7 / 2), passed = False, landedOn = False \<rparr>,
      \<lparr> plat_x = 5343 / 40, plat_y = - 88, plat_width = 130, plat_height = 20,
        plat_color = NEON_LIME, plat_vx = - (7 / 2), passed = False, landedOn = False \<rparr>]"
  "ply_x (player Q57) = 400"
  "ply_y (player Q57) = 360"
  "ply_vy (player Q57) = - (19 / 2)"
  "ply_width (player Q57) = 40"
  "ply_height (player Q57) = 40"
  "ply_color (player Q57) = NEON_LIME"
  "jumps (player Q57) = 1"
  "currentPlatform (player Q57) = None"
  "rix Q57 = 115"
  unfolding Q57_eq tail_fields update_fall_rix preCollision_def
    afterScroll_store_list[OF Q56_scroll(4,5)]
  by (simp_all add: afterScroll_fields afterScroll_rix Q56_scroll Q56_move spawned_R1 config)

lemma Q56_first: "firstLanding R1 (Frame 912 0) Q56 = None"
  by (simp add: Q56_fields(1) Q56_landing)

lemma wf_Q56: "wf Q56" and pinned_Q56: "pinned Q56"
  using reachable_inv[OF reachable_Q56] by simp_all

lemma Q56_loop: "loop R1 912 0 Q56 = Inr Q57"
  by (simp add: Q57_def loop_afterFrame[OF wf_Q56 Q56_fields(1)])

lemma reachable_Q57: "reachable R1 Q57"
  by (rule reachable.step[OF reachable_Q56, of "Frame 912 0"]) (simp_all add: Q56_loop)

lemma Q57_refs: "refs_ok (Q57\<lparr> lastTime := 928 \<rparr>)"
  by (simp add: refs_ok_def Q57_fields)

lemma Q57_store:
  "store (update_move 0 (Q57\<lparr> lastTime := 928 \<rparr>)) =
     [\<lparr> plat_x = 300, plat_y = 662, plat_width = 200, plat_height = 20,
        plat_color = NEON_MAGENTA, plat_vx = 0, passed = False, landedOn = False \<rparr>,
      \<lparr> plat_x = 185311 / 640, plat_y = 512, plat_width = 130, plat_height = 20,
        plat_color = NEON_LIME, plat_vx = - (7 / 2), passed = False, landedOn = True \<rparr>,
      \<lparr> plat_x = 586697 / 1280, plat_y = 362, plat_width = 130, plat_height = 20,
        plat_color = NEON_LIME, plat_vx = - (7 / 2), passed = False, landedOn = False \<rparr>,
      \<lparr> plat_x = 1323 / 40, plat_y = 212, plat_width = 130, plat_height = 20,
        plat_color = NEON_LIME, plat_vx = 7 / 2, passed = False, landedOn = False \<rparr>,
      \<lparr> plat_x = 1299 / 10, plat_y = 62, plat_width = 130, plat_height = 20,
        plat_color = NEON_LIME, plat_vx = - (7 / 2), passed = False, landedOn = False \<rparr>,
      \<lparr> plat_x = 1299 / 10, plat_y = - 88, plat_width = 130, plat_height = 20,
        plat_color = NEON_LIME, plat_vx = - (7 / 2), passed = False, landedOn = False \<rparr>]"
  by (simp add: update_move_eq[OF Q57_refs] Q57_fields advance_def speedMultiplier_def Let_def)

lemma Q57_player:
  "ply_x (player (update_move 0 (Q57\<lparr> lastTime := 928 \<rparr>))) = 400"
  "ply_y (player (update_move 0 (Q57\<lparr> lastTime := 928 \<rparr>))) = 351"
  "ply_vy (player (update_move 0 (Q57\<lparr> lastTime := 928 \<rparr>))) = - 9"
  "ply_width (player (update_move 0 (Q57\<lparr> lastTime := 928 \<rparr>))) = 40"
  "ply_height (player (update_move 0 (Q57\<lparr> lastTime := 928 \<rparr>))) = 40"
  "ply_color (player (update_move 0 (Q57\<lparr> lastTime := 928 \<rparr>))) = NEON_LIME"
  "jumps (player (update_move 0 (Q57\<lparr> lastTime := 928 \<rparr>))) = 1"
  "currentPlatform (player (update_move 0 (Q57\<lparr> lastTime := 928 \<rparr>))) = None"
  unfolding update_move_player_eq[OF Q57_refs] Q57_store
  by (simp_all add: Q57_fields Player_physics_def carry_def speedMultiplier_def Let_def config)

lemmas Q57_move = Q57_store Q57_player update_move_fields[OF Q57_refs] Q57_fields

lemma Q57_scroll:
  "scrolls (update_move 0 (Q57\<lparr> lastTime := 928 \<rparr>))"
  "scrollDiff (update_move 0 (Q57\<lparr> lastTime := 928 \<rparr>)) = 9"
  "\<not> recycles (update_move 0 (Q57\<lparr> lastTime := 928 \<rparr>))"
  "refs_ok (update_move 0 (Q57\<lparr> lastTime := 928 \<rparr>))"
  "platforms (update_move 0 (Q57\<lparr> lastTime := 928 \<rparr>)) \<noteq> []"
  by (simp_all add: scrolls_def scrollDiff_def recycles_def refs_ok_def Q57_move)

lemma Q57_landing:
  "landingPlatform (preCollision R1 928 0 Q57) = None"
  by (simp add: landingPlatform_def preCollision_def afterScroll_fields Q57_scroll Q57_move)

lemma Q58_eq:
  "Q58 = update_cosmetics (update_fall R1 (preCollision R1 928 0 Q57))"
  using Q57_landing
  by (simp add: Q58_def afterFrame_def update_collision_eq)

lemma Q58_fields:
  "state Q58 = Playing"
  "score Q58 = 1"
  "perfectStreak Q58 = 1"
  "isFever Q58 = False"
  "viewportWidth Q58 = 800"
  "viewportHeight Q58 = 600"
  "platforms Q58 = [0, 1, 2, 3, 4, 5]"
  "notifications Q58 = [ScoreUpdate 0, ComboChange 0, FeverChange False, GameStateChange Playing, ScoreUpdate 1, ComboChange 1]"
  "store Q58 =
     [\<lparr> plat_x = 300, plat_y = 671, plat_width = 200, plat_height = 20,
        plat_color = NEON_MAGENTA, plat_vx = 0, passed = False, landedOn = False \<rparr>,
      \<lparr> plat_x = 185311 / 640, plat_y = 521, plat_width = 130, plat_height = 20,
        plat_color = NEON_LIME, plat_vx = - (7 / 2), passed = False, landedOn = True \<rparr>,
      \<lparr> plat_x = 586697 / 1280, plat_y = 371, plat_width = 130, plat_height = 20,
        plat_color = NEON_LIME, plat_vx = - (7 / 2), passed = False, landedOn = False \<rparr>,
      \<lparr> plat_x = 1323 / 40, plat_y = 221, plat_width = 130, plat_height = 20,
        plat_color = NEON_LIME, plat_vx = 7 / 2, passed = False, landedOn = False \<rparr>,
      \<lparr> plat_x = 1299 / 10, plat_y = 71, plat_width = 130, plat_height = 20,
        plat_color = NEON_LIME, plat_vx = - (7 / 2), passed = False, landedOn = False \<rparr>,
      \<lparr> plat_x = 1299 / 10, plat_y = - 79, plat_width = 130, plat_height = 20,
        plat_color = NEON_LIME, plat_vx = - (7 / 2), passed = False, landedOn = False \<rparr>]"
  "ply_x (player Q58) = 400"
  "ply_y (player Q58) = 360"
  "ply_vy (player Q58) = - 9"
  "ply_width (player Q58) = 40"
  "ply_height (player Q58) = 40"
  "ply_color (player Q58) = NEON_LIME"
  "jumps (player Q58) = 1"
  "currentPlatform (player Q58) = None"
  "rix Q58 = 115"
  unfolding Q58_eq tail_fields update_fall_rix preCollision_def
    afterScroll_store_list[OF Q57_scroll(4,5)]
  by (simp_all add: afterScroll_fields afterScroll_rix Q57_scroll Q57_move spawned_R1 config)

lemma Q57_first: "firstLanding R1 (Frame 928 0) Q57 = None"
  by (simp add: Q57_fields(1) Q57_landing)

lemma wf_Q57: "wf Q57" and pinned_Q57: "pinned Q57"
  using reachable_inv[OF reachable_Q57] by simp_all

lemma Q57_loop: "loop R1 928 0 Q57 = Inr Q58"
  by (simp add: Q58_def loop_afterFrame[OF wf_Q57 Q57_fields(1)])

lemma reachable_Q58: "reachable R1 Q58"
  by (rule reachable.step[OF reachable_Q57, of "Frame 928 0"]) (simp_all add: Q57_loop)

lemma Q58_refs: "refs_ok (Q58\<lparr> lastTime := 944 \<rparr>)"
  by (simp add: refs_ok_def Q58_fields)

lemma Q58_store:
  "store (update_move 0 (Q58\<lparr> lastTime := 944 \<rparr>)) =
     [\<lparr> plat_x = 300, plat_y = 671, plat_width = 200, plat_height = 20,
        plat_color = NEON_MAGENTA, plat_vx = 0, passed = False, landedOn = False \<rparr>,
      \<lparr> plat_x = 182959 / 640, plat_y = 521, plat_width = 130, plat_height = 20,
        plat_color = NEON_LIME, plat_vx = - (7 / 2), passed = False, landedOn = True \<rparr>,
      \<lparr> plat_x = 581993 / 1280, plat_y = 371, plat_width = 130, plat_height = 20,
        plat_color = NEON_LIME, plat_vx = - (7 / 2), passed = False, landedOn = False \<rparr>,
      \<lparr> plat_x = 147 / 4, plat_y = 221, plat_width = 130, plat_height = 20,
        plat_color = NEON_LIME, plat_vx = 7 / 2, passed = False, landedOn = False \<rparr>,
      \<lparr> plat_x = 5049 / 40, plat_y = 71, plat_width = 130, plat_height = 20,
        plat_color = NEON_LIME, plat_vx = - (7 / 2), passed = False, landedOn = False \<rparr>,
      \<lparr> plat_x = 5049 / 40, plat_y = - 79, plat_width = 130, plat_height = 20,
        plat_color = NEON_LIME, plat_vx = - (7 / 2), passed = False, landedOn = False \<rparr>]"
  by (simp add: update_move_eq[OF Q58_refs] Q58_fields advance_def speedMultiplier_def Let_def)

lemma Q58_player:
  "ply_x (player (update_move 0 (Q58\<lparr> lastTime := 944 \<rparr>))) = 400"
  "ply_y (player (update_move 0 (Q58\<lparr> lastTime := 944 \<rparr>))) = 703 / 2"
  "ply_vy (player (update_move 0 (Q58\<lparr> lastTime := 944 \<rparr>))) = - (17 / 2)"
  "ply_width (player (update_move 0 (Q58\<lparr> lastTime := 944 \<rparr>))) = 40"
  "ply_height (player (update_move 0 (Q58\<lparr> lastTime := 944 \<rparr>))) = 40"
  "ply_color (player (update_move 0 (Q58\<lparr> lastTime := 944 \<rparr>))) = NEON_LIME"
  "jumps (player (update_move 0 (Q58\<lparr> lastTime := 944 \<rparr>))) = 1"
  "currentPlatform (player (update_move 0 (Q58\<lparr> lastTime := 944 \<rparr>))) = None"
  unfolding update_move_player_eq[OF Q58_refs] Q58_store
  by (simp_all add: Q58_fields Player_physics_def carry_def speedMultiplier_def Let_def config)

lemmas Q58_move = Q58_store Q58_player update_move_fields[OF Q58_refs] Q58_fields

lemma Q58_scroll:
  "scrolls (update_move 0 (Q58\<lparr> lastTime := 944 \<rparr>))"
  "scrollDiff (update_move 0 (Q58\<lparr> lastTime := 944 \<rparr>)) = 17 / 2"
  "\<not> recycles (update_move 0 (Q58\<lparr> lastTime := 944 \<rparr>))"
  "refs_ok (update_move 0 (Q58\<lparr> lastTime := 944 \<rparr>))"
  "platforms (update_move 0 (Q58\<lparr> lastTime := 944 \<rparr>)) \<noteq> []"
  by (simp_all add: scrolls_def scrollDiff_def recycles_def refs_ok_def Q58_move)

lemma Q58_landing:
  "landingPlatform (preCollision R1 944 0 Q58) = None"
  by (simp add: landingPlatform_def preCollision_def afterScroll_fields Q58_scroll Q58_move)

lemma Q59_eq:
  "Q59 = update_cosmetics (update_fall R1 (preCollision R1 944 0 Q58))"
  using Q58_landing
  by (simp add: Q59_def afterFrame_def update_collision_eq)

lemma Q59_fields:
  "state Q59 = Playing"
  "score Q59 = 1"
  "perfectStreak Q59 = 1"
  "isFever Q59 = False"
  "viewportWidth Q59 = 800"
  "viewportHeight Q59 = 600"
  "platforms Q59 = [0, 1, 2, 3, 4, 5]"
  "notifications Q59 = [ScoreUpdate 0, ComboChange 0, FeverChange False, GameStateChange Playing, ScoreUpdate 1, ComboChange 1]"
  "store Q59 =
     [\<lparr> plat_x = 300, plat_y = 1359 / 2, plat_width = 200, plat_height = 20,
        plat_color = NEON_MAGENTA, plat_vx = 0, passed = False, landedOn = False \<rparr>,
      \<lparr> plat_x = 182959 / 640, plat_y = 1059 / 2, plat_width = 130, plat_height = 20,
        plat_color = NEON_LIME, plat_vx = - (7 / 2), passed = False, landedOn = True \<rparr>,
      \<lparr> plat_x = 581993 / 1280, plat_y = 759 / 2, plat_width = 130, plat_height = 20,
        plat_color = NEON_LIME, plat_vx = - (7 / 2), passed = False, landedOn = False \<rparr>,
      \<lparr> plat_x = 147 / 4, plat_y = 459 / 2, plat_width = 130, plat_height = 20,
        plat_color = NEON_LIME, plat_vx = 7 / 2, passed = False, landedOn = False \<rparr>,
      \<lparr> plat_x = 5049 / 40, plat_y = 159 / 2, plat_width = 130, plat_height = 20,
        plat_color = NEON_LIME, plat_vx = - (7 / 2), passed = False, landedOn = False \<rparr>,
      \<lparr> plat_x = 5049 / 40, plat_y = - (141 / 2), plat_width = 130, plat_height = 20,
        plat_color = NEON_LIME, plat_vx = - (7 / 2), passed = False, landedOn = False \<rparr>]"
  "ply_x (player Q59) = 400"
  "ply_y (player Q59) = 360"
  "ply_vy (player Q59) = - (17 / 2)"
  "ply_width (player Q59) = 40"
  "ply_height (player Q59) = 40"
  "ply_color (player Q59) = NEON_LIME"
  "jumps (player Q59) = 1"
  "currentPlatform (player Q59) = None"
  "rix Q59 = 115"
  unfolding Q59_eq tail_fields update_fall_rix preCollision_def
    afterScroll_store_list[OF Q58_scroll(4,5)]
  by (simp_all add: afterScroll_fields afterScroll_rix Q58_scroll Q58_move spawned_R1 config)

lemma Q58_first: "firstLanding R1 (Frame 944 0) Q58 = None"
  by (simp add: Q58_fields(1) Q58_landing)

lemma wf_Q58: "wf Q58" and pinned_Q58: "pinned Q58"
  using reachable_inv[OF reachable_Q58] by simp_all

lemma Q58_loop: "loop R1 944 0 Q58 = Inr Q59"
  by (simp add: Q59_def loop_afterFrame[OF wf_Q58 Q58_fields(1)])

lemma reachable_Q59: "reachable R1 Q59"
  by (rule reachable.step[OF reachable_Q58, of "Frame 944 0"]) (simp_all add: Q58_loop)

lemma Q59_refs: "refs_ok (Q59\<lparr> lastTime := 960 \<rparr>)"
  by (simp add: refs_ok_def Q59_fields)

lemma Q59_store:
  "store (update_move 0 (Q59\<lparr> lastTime := 960 \<rparr>)) =
     [\<lparr> plat_x = 300, plat_y = 1359 / 2, plat_width = 200, plat_height = 20,
        plat_color = NEON_MAGENTA, plat_vx = 0, passed = False, landedOn = False \<rparr>,
      \<lparr> plat_x = 180607 / 640, plat_y = 1059 / 2, plat_width = 130, plat_height = 20,
        plat_color = NEON_LIME, plat_vx = - (7 / 2), passed = False, landedOn = True \<rparr>,
      \<lparr> plat_x = 577289 / 1280, plat_y = 759 / 2, plat_width = 130, plat_height = 20,
        plat_color = NEON_LIME, plat_vx = - (7 / 2), passed = False, landedOn = False \<rparr>,
      \<lparr> plat_x = 1617 / 40, plat_y = 459 / 2, plat_width = 130, plat_height = 20,
        plat_color = NEON_LIME, plat_vx = 7 / 2, passed = False, landedOn = False \<rparr>,
      \<lparr> plat_x = 2451 / 20, plat_y = 159 / 2, plat_width = 130, plat_height = 20,
        plat_color = NEON_LIME, plat_vx = - (7 / 2), passed = False, landedOn = False \<rparr>,
      \<lparr> plat_x = 2451 / 20, plat_y = - (141 / 2), plat_width = 130, plat_height = 20,
        plat_color = NEON_LIME, plat_vx = - (7 / 2), passed = False, landedOn = False \<rparr>]"
  by (simp add: update_move_eq[OF Q59_refs] Q59_fields advance_def speedMultiplier_def Let_def)

lemma Q59_player:
  "ply_x (player (update_move 0 (Q59\<lparr> lastTime := 960 \<rparr>))) = 400"
  "ply_y (player (update_move 0 (Q59\<lparr> lastTime := 960 \<rparr>))) = 352"
  "ply_vy (player (update_move 0 (Q59\<lparr> lastTime := 960 \<rparr>))) = - 8"
  "ply_width (player (update_move 0 (Q59\<lparr> lastTime := 960 \<rparr>))) = 40"
  "ply_height (player (update_move 0 (Q59\<lparr> lastTime := 960 \<rparr>))) = 40"
  "ply_color (player (update_move 0 (Q59\<lparr> lastTime := 960 \<rparr>))) = NEON_LIME"
  "jumps (player (update_move 0 (Q59\<lparr> lastTime := 960 \<rparr>))) = 1"
  "currentPlatform (player (update_move 0 (Q59\<lparr> lastTime := 960 \<rparr>))) = None"
  unfolding update_move_player_eq[OF Q59_refs] Q59_store
  by (simp_all add: Q59_fields Player_physics_def carry_def speedMultiplier_def Let_def config)

lemmas Q59_move = Q59_store Q59_player update_move_fields[OF Q59_refs] Q59_fields

lemma Q59_scroll:
  "scrolls (update_move 0 (Q59\<lparr> lastTime := 960 \<rparr>))"
  "scrollDiff (update_move 0 (Q59\<lparr> lastTime := 960 \<rparr>)) = 8"
  "\<not> recycles (update_move 0 (Q59\<lparr> lastTime := 960 \<rparr>))"
  "refs_ok (update_move 0 (Q59\<lparr> lastTime := 960 \<rparr>))"
  "platforms (update_move 0 (Q59\<lparr> lastTime := 960 \<rparr>)) \<noteq> []"
  by (simp_all add: scrolls_def scrollDiff_def recycles_def refs_ok_def Q59_move)

lemma Q59_landing:
  "landingPlatform (preCollision R1 960 0 Q59) = None"
  by (simp add: landingPlatform_def preCollision_def afterScroll_fields Q59_scroll Q59_move)

lemma Q60_eq:
  "Q60 = update_cosmetics (update_fall R1 (preCollision R1 960 0 Q59))"
  using Q59_landing
  by (simp add: Q60_def afterFrame_def update_collision_eq)

lemma Q60_fields:
  "state Q60 = Playing"
  "score Q60 = 1"
  "perfectStreak Q60 = 1"
  "isFever Q60 = False"
  "viewportWidth Q60 = 800"
  "viewportHeight Q60 = 600"
  "platforms Q60 = [0, 1, 2, 3, 4, 5]"
  "notifications Q60 = [ScoreUpdate 0, ComboChange 0, FeverChange False, GameStateChange Playing, ScoreUpdate 1, ComboChange 1]"
  "store Q60 =
     [\<lparr> plat_x = 300, plat_y = 1375 / 2, plat_width = 200, plat_height = 20,
        plat_color = NEON_MAGENTA, plat_vx = 0, passed = False, landedOn = False \<rparr>,
      \<lparr> plat_x = 180607 / 640, plat_y = 1075 / 2, plat_width = 130, plat_height = 20,
        plat_color = NEON_LIME, plat_vx = - (7 / 2), passed = False, landedOn = True \<rparr>,
      \<lparr> plat_x = 577289 / 1280, plat_y = 775 / 2, plat_width = 130, plat_height = 20,
        plat_color = NEON_LIME, plat_vx = - (7 / 2), passed = False, landedOn = False \<rparr>,
      \<lparr> plat_x = 1617 / 40, plat_y = 475 / 2, plat_width = 130, plat_height = 20,
        plat_color = NEON_LIME, plat_vx = 7 / 2, passed = False, landedOn = False \<rparr>,
      \<lparr> plat_x = 2451 / 20, plat_y = 175 / 2, plat_width = 130, plat_height = 20,
        plat_color = NEON_LIME, plat_vx = - (7 / 2), passed = False, landedOn = False \<rparr>,
      \<lparr> plat_x = 2451 / 20, plat_y = - (125 / 2), plat_width = 130, plat_height = 20,
        plat_color = NEON_LIME, plat_vx = - (7 / 2), passed = False, landedOn = False \<rparr>]"
  "ply_x (player Q60) = 400"
  "ply_y (player Q60) = 360"
  "ply_vy (player Q60) = - 8"
  "ply_width (player Q60) = 40"
  "ply_height (player Q60) = 40"
  "ply_color (player Q60) = NEON_LIME"
  "jumps (player Q60) = 1"
  "currentPlatform (player Q60) = None"
  "rix Q60 = 115"
  unfolding Q60_eq tail_fields update_fall_rix preCollision_def
    afterScroll_store_list[OF Q59_scroll(4,5)]
  by (simp_all add: afterScroll_fields afterScroll_rix Q59_scroll Q59_move spawned_R1 config)

lemma Q59_first: "firstLanding R1 (Frame 960 0) Q59 = None"
  by (simp add: Q59_fields(1) Q59_landing)

lemma wf_Q59: "wf Q59" and pinned_Q59: "pinned Q59"
  using reachable_inv[OF reachable_Q59] by simp_all

lemma Q59_loop: "loop R1 960 0 Q59 = Inr Q60"
  by (simp add: Q60_def loop_afterFrame[OF wf_Q59 Q59_fields(1)])

lemma reachable_Q60: "reachable R1 Q60"
  by (rule reachable.step[OF reachable_Q59, of "Frame 960 0"]) (simp_all add: Q59_loop)

lemma Q60_refs: "refs_ok (Q60\<lparr> lastTime := 976 \<rparr>)"
  by (simp add: refs_ok_def Q60_fields)

lemma Q60_store:
  "store (update_move 0 (Q60\<lparr> lastTime := 976 \<rparr>)) =
     [\<lparr> plat_x = 300, plat_y = 1375 / 2, plat_width = 200, plat_height = 20,
        plat_color = NEON_MAGENTA, plat_vx = 0, passed = False, landedOn = False \<rparr>,
      \<lparr> plat_x = 35651 / 128, plat_y = 1075 / 2, plat_width = 130, plat_height = 20,
        plat_color = NEON_LIME, plat_vx = - (7 / 2), passed = False, landedOn = True \<rparr>,
      \<lparr> plat_x = 114517 / 256, plat_y = 775 / 2, plat_width = 130, plat_height = 20,
        plat_color = NEON_LIME, plat_vx = - (7 / 2), passed = False, landedOn = False \<rparr>,
      \<lparr> plat_x = 441 / 10, plat_y = 475 / 2, plat_width = 130, plat_height = 20,
        plat_color = NEON_LIME, plat_vx = 7 / 2, passed = False, landedOn = False \<rparr>,
      \<lparr> plat_x = 951 / 8, plat_y = 175 / 2, plat_width = 130, plat_height = 20,
        plat_color = NEON_LIME, plat_vx = - (7 / 2), passed = False, landedOn = False \<rparr>,
      \<lparr> plat_x = 951 / 8, plat_y = - (125 / 2), plat_width = 130, plat_height = 20,
        plat_color = NEON_LIME, plat_vx = - (7 / 2), passed = False, landedOn = False \<rparr>]"
  by (simp add: update_move_eq[OF Q60_refs] Q60_fields advance_def speedMultiplier_def Let_def)

lemma Q60_player:
  "ply_x (player (update_move 0 (Q60\<lparr> lastTime := 976 \<rparr>))) = 400"
  "ply_y (player (update_move 0 (Q60\<lparr> lastTime := 976 \<rparr>))) = 705 / 2"
  "ply_vy (player (update_move 0 (Q60\<lparr> lastTime := 976 \<rparr>))) = - (15 / 2)"
  "ply_width (player (update_move 0 (Q60\<lparr> lastTime := 976 \<rparr>))) = 40"
  "ply_height (player (update_move 0 (Q60\<lparr> lastTime := 976 \<rparr>))) = 40"
  "ply_color (player (update_move 0 (Q60\<lparr> lastTime := 976 \<rparr>))) = NEON_LIME"
  "jumps (player (update_move 0 (Q60\<lparr> lastTime := 976 \<rparr>))) = 1"
  "currentPlatform (player (update_move 0 (Q60\<lparr> lastTime := 976 \<rparr>))) = None"
  unfolding update_move_player_eq[OF Q60_refs] Q60_store
  by (simp_all add: Q60_fields Player_physics_def carry_def speedMultiplier_def Let_def config)

lemmas Q60_move = Q60_store Q60_player update_move_fields[OF Q60_refs] Q60_fields

lemma Q60_scroll:
  "scrolls (update_move 0 (Q60\<lparr> lastTime := 976 \<rparr>))"
  "scrollDiff (update_move 0 (Q60\<lparr> lastTime := 976 \<rparr>)) = 15 / 2"
  "\<not> recycles (update_move 0 (Q60\<lparr> lastTime := 976 \<rparr>))"
  "refs_ok (update_move 0 (Q60\<lparr> lastTime := 976 \<rparr>))"
  "platforms (update_move 0 (Q60\<lparr> lastTime := 976 \<rparr>)) \<noteq> []"
  by (simp_all add: scrolls_def scrollDiff_def recycles_def refs_ok_def Q60_move)

lemma Q60_landing:
  "landingPlatform (preCollision R1 976 0 Q60) = None"
  by (simp add: landingPlatform_def preCollision_def afterScroll_fields Q60_scroll Q60_move)

lemma Q61_eq:
  "Q61 = update_cosmetics (update_fall R1 (preCollision R1 976 0 Q60))"
  using Q60_landing
  by (simp add: Q61_def afterFrame_def update_collision_eq)

lemma Q61_fields:
  "state Q61 = Playing"
  "score Q61 = 1"
  "perfectStreak Q61 = 1"
  "isFever Q61 = False"
  "viewportWidth Q61 = 800"
  "viewportHeight Q61 = 600"
  "platforms Q61 = [0, 1, 2, 3, 4, 5]"
  "notifications Q61 = [ScoreUpdate 0, ComboChange 0, FeverChange False, GameStateChange Playing, ScoreUpdate 1, ComboChange 1]"
  "store Q61 =
     [\<lparr> plat_x = 300, plat_y = 695, plat_width = 200, plat_height = 20,
        plat_color = NEON_MAGENTA, plat_vx = 0, passed = False, landedOn = False \<rparr>,
      \<lparr> plat_x = 35651 / 128, plat_y = 545, plat_width = 130, plat_height = 20,
        plat_color = NEON_LIME, plat_vx = - (7 / 2), passed = False, landedOn = True \<rparr>,
      \<lparr> plat_x = 114517 / 256, plat_y = 395, plat_width = 130, plat_height = 20,
        plat_color = NEON_LIME, plat_vx = - (7 / 2), passed = False, landedOn = False \<rparr>,
      \<lparr> plat_x = 441 / 10, plat_y = 245, plat_width = 130, plat_height = 20,
        plat_color = NEON_LIME, plat_vx = 7 / 2, passed = False, landedOn = False \<rparr>,
      \<lparr> plat_x = 951 / 8, plat_y = 95, plat_width = 130, plat_height = 20,
        plat_color = NEON_LIME, plat_vx = - (7 / 2), passed = False, landedOn = False \<rparr>,
      \<lparr> plat_x = 951 / 8, plat_y = - 55, plat_width = 130, plat_height = 20,
        plat_color = NEON_LIME, plat_vx = - (7 / 2), passed = False, landedOn = False \<rparr>]"
  "ply_x (player Q61) = 400"
  "ply_y (player Q61) = 360"
  "ply_vy (player Q61) = - (15 / 2)"
  "ply_width (player Q61) = 40"
  "ply_height (player Q61) = 40"
  "ply_color (player Q61) = NEON_LIME"
  "jumps (player Q61) = 1"
  "currentPlatform (player Q61) = None"
  "rix Q61 = 115"
  unfolding Q61_eq tail_fields update_fall_rix preCollision_def
    afterScroll_store_list[OF Q60_scroll(4,5)]
  by (simp_all add: afterScroll_fields afterScroll_rix Q60_scroll Q60_move spawned_R1 config)

lemma Q60_first: "firstLanding R1 (Frame 976 0) Q60 = None"
  by (simp add: Q60_fields(1) Q60_landing)

lemma wf_Q60: "wf Q60" and pinned_Q60: "pinned Q60"
  using reachable_inv[OF reachable_Q60] by simp_all

lemma Q60_loop: "loop R1 976 0 Q60 = Inr Q61"
  by (simp add: Q61_def loop_afterFrame[OF wf_Q60 Q60_fields(1)])

lemma reachable_Q61: "reachable R1 Q61"
  by (rule reachable.step[OF reachable_Q60, of "Frame 976 0"]) (simp_all add: Q60_loop)

lemma Q61_refs: "refs_ok (Q61\<lparr> lastTime := 992 \<rparr>)"
  by (simp add: refs_ok_def Q61_fields)

lemma Q61_store:
  "store (update_move 0 (Q61\<lparr> lastTime := 992 \<rparr>)) =
     [\<lparr> plat_x = 300, plat_y = 695, plat_width = 200, plat_height = 20,
        plat_color = NEON_MAGENTA, plat_vx = 0, passed = False, landedOn = False \<rparr>,
      \<lparr> plat_x = 175903 / 640, plat_y = 545, plat_width = 130, plat_height = 20,
        plat_color = NEON_LIME, plat_vx = - (7 / 2), passed = False, landedOn = True \<rparr>,
      \<lparr> plat_x = 567881 / 1280, plat_y = 395, plat_width = 130, plat_height = 20,
        plat_color = NEON_LIME, plat_vx = - (7 / 2), passed = False, landedOn = False \<rparr>,
      \<lparr> plat_x = 1911 / 40, plat_y = 245, plat_width = 130, plat_height = 20,
        plat_color = NEON_LIME, plat_vx = 7 / 2, passed = False, landedOn = False \<rparr>,
      \<lparr> plat_x = 576 / 5, plat_y = 95, plat_width = 130, plat_height = 20,
        plat_color = NEON_LIME, plat_vx = - (7 / 2), passed = False, landedOn = False \<rparr>,
      \<lparr> plat_x = 576 / 5, plat_y = - 55, plat_width = 130, plat_height = 20,
        plat_color = NEON_LIME, plat_vx = - (7 / 2), passed = False, landedOn = False \<rparr>]"
  by (simp add: update_move_eq[OF Q61_refs] Q61_fields advance_def speedMultiplier_def Let_def)

lemma Q61_player:
  "ply_x (player (update_move 0 (Q61\<lparr> lastTime := 992 \<rparr>))) = 400"
  "ply_y (player (update_move 0 (Q61\<lparr> lastTime := 992 \<rparr>))) = 353"
  "ply_vy (player (update_move 0 (Q61\<lparr> lastTime := 992 \<rparr>))) = - 7"
  "ply_width (player (update_move 0 (Q61\<lparr> lastTime := 992 \<rparr>))) = 40"
  "ply_height (player (update_move 0 (Q61\<lparr> lastTime := 992 \<rparr>))) = 40"
  "ply_color (player (update_move 0 (Q61\<lparr> lastTime := 992 \<rparr>))) = NEON_LIME"
  "jumps (player (update_move 0 (Q61\<lparr> lastTime := 992 \<rparr>))) = 1"
  "currentPlatform (player (update_move 0 (Q61\<lparr> lastTime := 992 \<rparr>))) = None"
  unfolding update_move_player_eq[OF Q61_refs] Q61_store
  by (simp_all add: Q61_fields Player_physics_def carry_def speedMultiplier_def Let_def config)

lemmas Q61_move = Q61_store Q61_player update_move_fields[OF Q61_refs] Q61_fields

lemma Q61_scroll:
  "scrolls (update_move 0 (Q61\<lparr> lastTime := 992 \<rparr>))"
  "scrollDiff (update_move 0 (Q61\<lparr> lastTime := 992 \<rparr>)) = 7"
  "recycles (update_move 0 (Q61\<lparr> lastTime := 992 \<rparr>))"
  "refs_ok (update_move 0 (Q61\<lparr> lastTime := 992 \<rparr>))"
  "platforms (update_move 0 (Q61\<lparr> lastTime := 992 \<rparr>)) \<noteq> []"
  by (simp_all add: scrolls_def scrollDiff_def recycles_def refs_ok_def Q61_move)

lemma Q61_landing:
  "landingPlatform (preCollision R1 992 0 Q61) = None"
  by (simp add: landingPlatform_def preCollision_def afterScroll_fields Q61_scroll Q61_move)

lemma Q62_eq:
  "Q62 = update_cosmetics (update_fall R1 (preCollision R1 992 0 Q61))"
  using Q61_landing
  by (simp add: Q62_def afterFrame_def update_collision_eq)

lemma Q62_fields:
  "state Q62 = Playing"
  "score Q62 = 1"
  "perfectStreak Q62 = 1"
  "isFever Q62 = False"
  "viewportWidth Q62 = 800"
  "viewportHeight Q62 = 600"
  "platforms Q62 = [1, 2, 3, 4, 5, 6]"
  "notifications Q62 = [ScoreUpdate 0, ComboChange 0, FeverChange False, GameStateChange Playing, ScoreUpdate 1, ComboChange 1]"
  "store Q62 =
     [\<lparr> plat_x = 300, plat_y = 702, plat_width = 200, plat_height = 20,
        plat_color = NEON_MAGENTA, plat_vx = 0, passed = False, landedOn = False \<rparr>,
      \<lparr> plat_x = 175903 / 640, plat_y = 552, plat_width = 130, plat_height = 20,
        plat_color = NEON_LIME, plat_vx = - (7 / 2), passed = False, landedOn = True \<rparr>,
      \<lparr> plat_x = 567881 / 1280, plat_y = 402, plat_width = 130, plat_height = 20,
        plat_color = NEON_LIME, plat_vx = - (7 / 2), passed = False, landedOn = False \<rparr>,
      \<lparr> plat_x = 1911 / 40, plat_y = 252, plat_width = 130, plat_height = 20,
        plat_color = NEON_LIME, plat_vx = 7 / 2, passed = False, landedOn = False \<rparr>,
      \<lparr> plat_x = 576 / 5, plat_y = 102, plat_width = 130, plat_height = 20,
        plat_color = NEON_LIME, plat_vx = - (7 / 2), passed = False, landedOn = False \<rparr>,
      \<lparr> plat_x = 576 / 5, plat_y = - 48, plat_width = 130, plat_height = 20,
        plat_color = NEON_LIME, plat_vx = - (7 / 2), passed = False, landedOn = False \<rparr>,
      \<lparr> plat_x = 335, plat_y = - 198, plat_width = 130, plat_height = 20,
        plat_color = NEON_LIME, plat_vx = - (7 / 2), passed = False, landedOn = False \<rparr>]"
  "ply_x (player Q62) = 400"
  "ply_y (player Q62) = 360"
  "ply_vy (player Q62) = - 7"
  "ply_width (player Q62) = 40"
  "ply_height (player Q62) = 40"
  "ply_color (player Q62) = NEON_LIME"
  "jumps (player Q62) = 1"
  "currentPlatform (player Q62) = None"
  "rix Q62 = 120"
  unfolding Q62_eq tail_fields update_fall_rix preCollision_def
    afterScroll_store_list[OF Q61_scroll(4,5)]
  by (simp_all add: afterScroll_fields afterScroll_rix Q61_scroll Q61_move spawned_R1 config)

lemma Q61_first: "firstLanding R1 (Frame 992 0) Q61 = None"
  by (simp add: Q61_fields(1) Q61_landing)

lemma wf_Q61: "wf Q61" and pinned_Q61: "pinned Q61"
  using reachable_inv[OF reachable_Q61] by simp_all

lemma Q61_loop: "loop R1 992 0 Q61 = Inr Q62"
  by (simp add: Q62_def loop_afterFrame[OF wf_Q61 Q61_fields(1)])

lemma reachable_Q62: "reachable R1 Q62"
  by (rule reachable.step[OF reachable_Q61, of "Frame 992 0"]) (simp_all add: Q61_loop)

lemma Q62_refs: "refs_ok (Q62\<lparr> lastTime := 1008 \<rparr>)"
  by (simp add: refs_ok_def Q62_fields)

lemma Q62_store:
  "store (update_move 0 (Q62\<lparr> lastTime := 1008 \<rparr>)) =
     [\<lparr> plat_x = 300, plat_y = 702, plat_width = 200, plat_height = 20,
        plat_color = NEON_MAGENTA, plat_vx = 0, passed = False, landedOn = False \<rparr>,
      \<lparr> plat_x = 173551 / 640, plat_y = 552, plat_width = 130, plat_height = 20,
        plat_color = NEON_LIME, plat_vx = - (7 / 2), passed = False, landedOn = True \<rparr>,
      \<lparr> plat_x = 563177 / 1280, plat_y = 402, plat_width = 130, plat_height = 20,
        plat_color = NEON_LIME, plat_vx = - (7 / 2), passed = False, landedOn = False \<rparr>,
      \<lparr> plat_x = 1029 / 20, plat_y = 252, plat_width = 130, plat_height = 20,
        plat_color = NEON_LIME, plat_vx = 7 / 2, passed = False, landedOn = False \<rparr>,
      \<lparr> plat_x = 4461 / 40, plat_y = 102, plat_width = 130, plat_height = 20,
        plat_color = NEON_LIME, plat_vx = - (7 / 2), passed = False, landedOn = False \<rparr>,
      \<lparr> plat_x = 4461 / 40, plat_y = - 48, plat_width = 130, plat_height = 20,
        plat_color = NEON_LIME, plat_vx = - (7 / 2), passed = False, landedOn = False \<rparr>,
      \<lparr> plat_x = 13253 / 40, plat_y = - 198, plat_width = 130, plat_height = 20,
        plat_color = NEON_LIME, plat_vx = - (7 / 2), passed = False, landedOn = False \<rparr>]"
  by (simp add: update_move_eq[OF Q62_refs] Q62_fields advance_def speedMultiplier_def Let_def)

lemma Q62_player:
  "ply_x (player (update_move 0 (Q62\<lparr> lastTime := 1008 \<rparr>))) = 400"
  "ply_y (player (update_move 0 (Q62\<lparr> lastTime := 1008 \<rparr>))) = 707 / 2"
  "ply_vy (player (update_move 0 (Q62\<lparr> lastTime := 1008 \<rparr>))) = - (13 / 2)"
  "ply_width (player (update_move 0 (Q62\<lparr> lastTime := 1008 \<rparr>))) = 40"
  "ply_height (player (update_move 0 (Q62\<lparr> lastTime := 1008 \<rparr>))) = 40"
  "ply_color (player (update_move 0 (Q62\<lparr> lastTime := 1008 \<rparr>))) = NEON_LIME"
  "jumps (player (update_move 0 (Q62\<lparr> lastTime := 1008 \<rparr>))) = 1"
  "currentPlatform (player (update_move 0 (Q62\<lparr> lastTime := 1008 \<rparr>))) = None"
  unfolding update_move_player_eq[OF Q62_refs] Q62_store
  by (simp_all add: Q62_fields Player_physics_def carry_def speedMultiplier_def Let_def config)

lemmas Q62_move = Q62_store Q62_player update_move_fields[OF Q62_refs] Q62_fields

lemma Q62_scroll:
  "scrolls (update_move 0 (Q62\<lparr> lastTime := 1008 \<rparr>))"
  "scrollDiff (update_move 0 (Q62\<lparr> lastTime := 1008 \<rparr>)) = 13 / 2"
  "\<not> recycles (update_move 0 (Q62\<lparr> lastTime := 1008 \<rparr>))"
  "refs_ok (update_move 0 (Q62\<lparr> lastTime := 1008 \<rparr>))"
  "platforms (update_move 0 (Q62\<lparr> lastTime := 1008 \<rparr>)) \<noteq> []"
  by (simp_all add: scrolls_def scrollDiff_def recycles_def refs_ok_def Q62_move)

lemma Q62_landing:
  "landingPlatform (preCollision R1 1008 0 Q62) = None"
  by (simp add: landingPlatform_def preCollision_def afterScroll_fields Q62_scroll Q62_move)

lemma Q63_eq:
  "Q63 = update_cosmetics (update_fall R1 (preCollision R1 1008 0 Q62))"
  using Q62_landing
  by (simp add: Q63_def afterFrame_def update_collision_eq)

lemma Q63_fields:
  "state Q63 = Playing"
  "score Q63 = 1"
  "perfectStreak Q63 = 1"
  "isFever Q63 = False"
  "viewportWidth Q63 = 800"
  "viewportHeight Q63 = 600"
  "platforms Q63 = [1, 2, 3, 4, 5, 6]"
  "notifications Q63 = [ScoreUpdate 0, ComboChange 0, FeverChange False, GameStateChange Playing, ScoreUpdate 1, ComboChange 1]"
  "store Q63 =
     [\<lparr> plat_x = 300, plat_y = 702, plat_width = 200, plat_height = 20,
        plat_color = NEON_MAGENTA, plat_vx = 0, passed = False, landedOn = False \<rparr>,
      \<lparr> plat_x = 173551 / 640, plat_y = 1117 / 2, plat_width = 130, plat_height = 20,
        plat_color = NEON_LIME, plat_vx = - (7 / 2), passed = False, landedOn = True \<rparr>,
      \<lparr> plat_x = 563177 / 1280, plat_y = 817 / 2, plat_width = 130, plat_height = 20,
        plat_color = NEON_LIME, plat_vx = - (7 / 2), passed = False, landedOn = False \<rparr>,
      \<lparr> plat_x = 1029 / 20, plat_y = 517 / 2, plat_width = 130, plat_height = 20,
        plat_color = NEON_LIME, plat_vx = 7 / 2, passed = False, landedOn = False \<rparr>,
      \<lparr> plat_x = 4461 / 40, plat_y = 217 / 2, plat_width = 130, plat_height = 20,
        plat_color = NEON_LIME, plat_vx = - (7 / 2), passed = False, landedOn = False \<rparr>,
      \<lparr> plat_x = 4461 / 40, plat_y = - (83 / 2), plat_width = 130, plat_height = 20,
        plat_color = NEON_LIME, plat_vx = - (7 / 2), passed = False, landedOn = False \<rparr>,
      \<lparr> plat_x = 13253 / 40, plat_y = - (383 / 2), plat_width = 130, plat_height = 20,
        plat_color = NEON_LIME, plat_vx = - (7 / 2), passed = False, landedOn = False \<rparr>]"
  "ply_x (player Q63) = 400"
  "ply_y (player Q63) = 360"
  "ply_vy (player Q63) = - (13 / 2)"
  "ply_width (player Q63) = 40"
  "ply_height (player Q63) = 40"
  "ply_color (player Q63) = NEON_LIME"
  "jumps (player Q63) = 1"
  "currentPlatform (player Q63) = None"
  "rix Q63 = 120"
  unfolding Q63_eq tail_fields update_fall_rix preCollision_def
    afterScroll_store_list[OF Q62_scroll(4,5)]
  by (simp_all add: afterScroll_fields afterScroll_rix Q62_scroll Q62_move spawned_R1 config)

lemma Q62_first: "firstLanding R1 (Frame 1008 0) Q62 = None"
  by (simp add: Q62_fields(1) Q62_landing)

lemma wf_Q62: "wf Q62" and pinned_Q62: "pinned Q62"
  using reachable_inv[OF reachable_Q62] by simp_all

lemma Q62_loop: "loop R1 1008 0 Q62 = Inr Q63"
  by (simp add: Q63_def loop_afterFrame[OF wf_Q62 Q62_fields(1)])

lemma reachable_Q63: "reachable R1 Q63"
  by (rule reachable.step[OF reachable_Q62, of "Frame 1008 0"]) (simp_all add: Q62_loop)

lemma Q63_refs: "refs_ok (Q63\<lparr> lastTime := 1024 \<rparr>)"
  by (simp add: refs_ok_def Q63_fields)

lemma Q63_store:
  "store (update_move 0 (Q63\<lparr> lastTime := 1024 \<rparr>)) =
     [\<lparr> plat_x = 300, plat_y = 702, plat_width = 200, plat_height = 20,
        plat_color = NEON_MAGENTA, plat_vx = 0, passed = False, landedOn = False \<rparr>,
      \<lparr> plat_x = 171199 / 640, plat_y = 1117 / 2, plat_width = 130, plat_height = 20,
        plat_color = NEON_LIME, plat_vx = - (7 / 2), passed = False, landedOn = True \<rparr>,
      \<lparr> plat_x = 558473 / 1280, plat_y = 817 / 2, plat_width = 130, plat_height = 20,
        plat_color = NEON_LIME, plat_vx = - (7 / 2), passed = False, landedOn = False \<rparr>,
      \<lparr> plat_x = 441 / 8, plat_y = 517 / 2, plat_width = 130, plat_height = 20,
        plat_color = NEON_LIME, plat_vx = 7 / 2, passed = False, landedOn = False \<rparr>,
      \<lparr> plat_x = 2157 / 20, plat_y = 217 / 2, plat_width = 130, plat_height = 20,
        plat_color = NEON_LIME, plat_vx = - (7 / 2), passed = False, landedOn = False \<rparr>,
      \<lparr> plat_x = 2157 / 20, plat_y = - (83 / 2), plat_width = 130, plat_height = 20,
        plat_color = NEON_LIME, plat_vx = - (7 / 2), passed = False, landedOn = False \<rparr>,
      \<lparr> plat_x = 6553 / 20, plat_y = - (383 / 2), plat_width = 130, plat_height = 20,
        plat_color = NEON_LIME, plat_vx = - (7 / 2), passed = False, landedOn = False \<rparr>]"
  by (simp add: update_move_eq[OF Q63_refs] Q63_fields advance_def speedMultiplier_def Let_def)

lemma Q63_player:
  "ply_x (player (update_move 0 (Q63\<lparr> lastTime := 1024 \<rparr>))) = 400"
  "ply_y (player (update_move 0 (Q63\<lparr> lastTime := 1024 \<rparr>))) = 354"
  "ply_vy (player (update_move 0 (Q63\<lparr> lastTime := 1024 \<rparr>))) = - 6"
  "ply_width (player (update_move 0 (Q63\<lparr> lastTime := 1024 \<rparr>))) = 40"
  "ply_height (player (update_move 0 (Q63\<lparr> lastTime := 1024 \<rparr>))) = 40"
  "ply_color (player (update_move 0 (Q63\<lparr> lastTime := 1024 \<rparr>))) = NEON_LIME"
  "jumps (player (update_move 0 (Q63\<lparr> lastTime := 1024 \<rparr>))) = 1"
  "currentPlatform (player (update_move 0 (Q63\<lparr> lastTime := 1024 \<rparr>))) = None"
  unfolding update_move_player_eq[OF Q63_refs] Q63_store
  by (simp_all add: Q63_fields Player_physics_def carry_def speedMultiplier_def Let_def config)

lemmas Q63_move = Q63_store Q63_player update_move_fields[OF Q63_refs] Q63_fields

lemma Q63_scroll:
  "scrolls (update_move 0 (Q63\<lparr> lastTime := 1024 \<rparr>))"
  "scrollDiff (update_move 0 (Q63\<lparr> lastTime := 1024 \<rparr>)) = 6"
  "\<not> recycles (update_move 0 (Q63\<lparr> lastTime := 1024 \<rparr>))"
  "refs_ok (update_move 0 (Q63\<lparr> lastTime := 1024 \<rparr>))"
  "platforms (update_move 0 (Q63\<lparr> lastTime := 1024 \<rparr>)) \<noteq> []"
  by (simp_all add: scrolls_def scrollDiff_def recycles_def refs_ok_def Q63_move)

lemma Q63_landing:
  "landingPlatform (preCollision R1 1024 0 Q63) = None"
  by (simp add: landingPlatform_def preCollision_def afterScroll_fields Q63_scroll Q63_move)

lemma Q64_eq:
  "Q64 = update_cosmetics (update_fall R1 (preCollision R1 1024 0 Q63))"
  using Q63_landing
  by (simp add: Q64_def afterFrame_def update_collision_eq)

lemma Q64_fields:
  "state Q64 = Playing"
  "score Q64 = 1"
  "perfectStreak Q64 = 1"
  "isFever Q64 = False"
  "viewportWidth Q64 = 800"
  "viewportHeight Q64 = 600"
  "platforms Q64 = [1, 2, 3, 4, 5, 6]"
  "notifications Q64 = [ScoreUpdate 0, ComboChange 0, FeverChange False, GameStateChange Playing, ScoreUpdate 1, ComboChange 1]"
  "store Q64 =
     [\<lparr> plat_x = 300, plat_y = 702, plat_width = 200, plat_height = 20,
        plat_color = NEON_MAGENTA, plat_vx = 0, passed = False, landedOn = False \<rparr>,
      \<lparr> plat_x = 171199 / 640, plat_y = 1129 / 2, plat_width = 130, plat_height = 20,
        plat_color = NEON_LIME, plat_vx = - (7 / 2), passed = False, landedOn = True \<rparr>,
      \<lparr> plat_x = 558473 / 1280, plat_y = 829 / 2, plat_width = 130, plat_height = 20,
        plat_color = NEON_LIME, plat_vx = - (7 / 2), passed = False, landedOn = False \<rparr>,
      \<lparr> plat_x = 441 / 8, plat_y = 529 / 2, plat_width = 130, plat_height = 20,
        plat_color = NEON_LIME, plat_vx = 7 / 2, passed = False, landedOn = False \<rparr>,
      \<lparr> plat_x = 2157 / 20, plat_y = 229 / 2, plat_width = 130, plat_height = 20,
        plat_color = NEON_LIME, plat_vx = - (7 / 2), passed = False, landedOn = False \<rparr>,
      \<lparr> plat_x = 2157 / 20, plat_y = - (71 / 2), plat_width = 130, plat_height = 20,
        plat_color = NEON_LIME, plat_vx = - (7 / 2), passed = False, landedOn = False \<rparr>,
      \<lparr> plat_x = 6553 / 20, plat_y = - (371 / 2), plat_width = 130, plat_height = 20,
        plat_color = NEON_LIME, plat_vx = - (7 / 2), passed = False, landedOn = False \<rparr>]"
  "ply_x (player Q64) = 400"
  "ply_y (player Q64) = 360"
  "ply_vy (player Q64) = - 6"
  "ply_width (player Q64) = 40"
  "ply_height (player Q64) = 40"
  "ply_color (player Q64) = NEON_LIME"
  "jumps (player Q64) = 1"
  "currentPlatform (player Q64) = None"
  "rix Q64 = 120"
  unfolding Q64_eq tail_fields update_fall_rix preCollision_def
    afterScroll_store_list[OF Q63_scroll(4,5)]
  by (simp_all add: afterScroll_fields afterScroll_rix Q63_scroll Q63_move spawned_R1 config)

lemma Q63_first: "firstLanding R1 (Frame 1024 0) Q63 = None"
  by (simp add: Q63_fields(1) Q63_landing)

lemma wf_Q63: "wf Q63" and pinned_Q63: "pinned Q63"
  using reachable_inv[OF reachable_Q63] by simp_all

lemma Q63_loop: "loop R1 1024 0 Q63 = Inr Q64"
  by (simp add: Q64_def loop_afterFrame[OF wf_Q63 Q63_fields(1)])

lemma reachable_Q64: "reachable R1 Q64"
  by (rule reachable.step[OF reachable_Q63, of "Frame 1024 0"]) (simp_all add: Q63_loop)

lemma Q64_refs: "refs_ok (Q64\<lparr> lastTime := 1040 \<rparr>)"
  by (simp add: refs_ok_def Q64_fields)

lemma Q64_store:
  "store (update_move 0 (Q64\<lparr> lastTime := 1040 \<rparr>)) =
     [\<lparr> plat_x = 300, plat_y = 702, plat_width = 200, plat_height = 20,
        plat_color = NEON_MAGENTA, plat_vx = 0, passed = False, landedOn = False \<rparr>,
      \<lparr> plat_x = 168847 / 640, plat_y = 1129 / 2, plat_width = 130, plat_height = 20,
        plat_color = NEON_LIME, plat_vx = - (7 / 2), passed = False, landedOn = True \<rparr>,
      \<lparr> plat_x = 553769 / 1280, plat_y = 829 / 2, plat_width = 130, plat_height = 20,
        plat_color = NEON_LIME, plat_vx = - (7 / 2), passed = False, landedOn = False \<rparr>,
      \<lparr> plat_x = 294 / 5, plat_y = 529 / 2, plat_width = 130, plat_height = 20,
        plat_color = NEON_LIME, plat_vx = 7 / 2, passed = False, landedOn = False \<rparr>,
      \<lparr> plat_x = 4167 / 40, plat_y = 229 / 2, plat_width = 130, plat_height = 20,
        plat_color = NEON_LIME, plat_vx = - (7 / 2), passed = False, landedOn = False \<rparr>,
      \<lparr> plat_x = 4167 / 40, plat_y = - (71 / 2), plat_width = 130, plat_height = 20,
        plat_color = NEON_LIME, plat_vx = - (7 / 2), passed = False, landedOn = False \<rparr>,
      \<lparr> plat_x = 12959 / 40, plat_y = - (371 / 2), plat_width = 130, plat_height = 20,
        plat_color = NEON_LIME, plat_vx = - (7 / 2), passed = False, landedOn = False \<rparr>]"
  by (simp add: update_move_eq[OF Q64_refs] Q64_fields advance_def speedMultiplier_def Let_def)

lemma Q64_player:
  "ply_x (player (update_move 0 (Q64\<lparr> lastTime := 1040 \<rparr>))) = 400"
  "ply_y (player (update_move 0 (Q64\<lparr> lastTime := 1040 \<rparr>))) = 709 / 2"
  "ply_vy (player (update_move 0 (Q64\<lparr> lastTime := 1040 \<rparr>))) = - (11 / 2)"
  "ply_width (player (update_move 0 (Q64\<lparr> lastTime := 1040 \<rparr>))) = 40"
  "ply_height (player (update_move 0 (Q64\<lparr> lastTime := 1040 \<rparr>))) = 40"
  "ply_color (player (update_move 0 (Q64\<lparr> lastTime := 1040 \<rparr>))) = NEON_LIME"
  "jumps (player (update_move 0 (Q64\<lparr> lastTime := 1040 \<rparr>))) = 1"
  "currentPlatform (player (update_move 0 (Q64\<lparr> lastTime := 1040 \<rparr>))) = None"
  unfolding update_move_player_eq[OF Q64_refs] Q64_store
  by (simp_all add: Q64_fields Player_physics_def carry_def speedMultiplier_def Let_def config)

lemmas Q64_move = Q64_store Q64_player update_move_fields[OF Q64_refs] Q64_fields

lemma Q64_scroll:
  "scrolls (update_move 0 (Q64\<lparr> lastTime := 1040 \<rparr>))"
  "scrollDiff (update_move 0 (Q64\<lparr> lastTime := 1040 \<rparr>)) = 11 / 2"
  "\<not> recycles (update_move 0 (Q64\<lparr> lastTime := 1040 \<rparr>))"
  "refs_ok (update_move 0 (Q64\<lparr> lastTime := 1040 \<rparr>))"
  "platforms (update_move 0 (Q64\<lparr> lastTime := 1040 \<rparr>)) \<noteq> []"
  by (simp_all add: scrolls_def scrollDiff_def recycles_def refs_ok_def Q64_move)

lemma Q64_landing:
  "landingPlatform (preCollision R1 1040 0 Q64) = None"
  by (simp add: landingPlatform_def preCollision_def afterScroll_fields Q64_scroll Q64_move)

lemma Q65_eq:
  "Q65 = update_cosmetics (update_fall R1 (preCollision R1 1040 0 Q64))"
  using Q64_landing
  by (simp add: Q65_def afterFrame_def update_collision_eq)

lemma Q65_fields:
  "state Q65 = Playing"
  "score Q65 = 1"
  "perfectStreak Q65 = 1"
  "isFever Q65 = False"
  "viewportWidth Q65 = 800"
  "viewportHeight Q65 = 600"
  "platforms Q65 = [1, 2, 3, 4, 5, 6]"
  "notifications Q65 = [ScoreUpdate 0, ComboChange 0, FeverChange False, GameStateChange Playing, ScoreUpdate 1, ComboChange 1]"
  "store Q65 =
     [\<lparr> plat_x = 300, plat_y = 702, plat_width = 200, plat_height = 20,
        plat_color = NEON_MAGENTA, plat_vx = 0, passed = False, landedOn = False \<rparr>,
      \<lparr> plat_x = 168847 / 640, plat_y = 570, plat_width = 130, plat_height = 20,
        plat_color = NEON_LIME, plat_vx = - (7 / 2), passed = False, landedOn = True \<rparr>,
      \<lparr> plat_x = 553769 / 1280, plat_y = 420, plat_width = 130, plat_height = 20,
        plat_color = NEON_LIME, plat_vx = - (7 / 2), passed = False, landedOn = False \<rparr>,
      \<lparr> plat_x = 294 / 5, plat_y = 270, plat_width = 130, plat_height = 20,
        plat_color = NEON_LIME, plat_vx = 7 / 2, passed = False, landedOn = False \<rparr>,
      \<lparr> plat_x = 4167 / 40, plat_y = 120, plat_width = 130, plat_height = 20,
        plat_color = NEON_LIME, plat_vx = - (7 / 2), passed = False, landedOn = False \<rparr>,
      \<lparr> plat_x = 4167 / 40, plat_y = - 30, plat_width = 130, plat_height = 20,
        plat_color = NEON_LIME, plat_vx = - (7 / 2), passed = False, landedOn = False \<rparr>,
      \<lparr> plat_x = 12959 / 40, plat_y = - 180, plat_width = 130, plat_height = 20,
        plat_color = NEON_LIME, plat_vx = - (7 / 2), passed = False, landedOn = False \<rparr>]"
  "ply_x (player Q65) = 400"
  "ply_y (player Q65) = 360"
  "ply_vy (player Q65) = - (11 / 2)"
  "ply_width (player Q65) = 40"
  "ply_height (player Q65) = 40"
  "ply_color (player Q65) = NEON_LIME"
  "jumps (player Q65) = 1"
  "currentPlatform (player Q65) = None"
  "rix Q65 = 120"
  unfolding Q65_eq tail_fields update_fall_rix preCollision_def
    afterScroll_store_list[OF Q64_scroll(4,5)]
  by (simp_all add: afterScroll_fields afterScroll_rix Q64_scroll Q64_move spawned_R1 config)

lemma Q64_first: "firstLanding R1 (Frame 1040 0) Q64 = None"
  by (simp add: Q64_fields(1) Q64_landing)

lemma wf_Q64: "wf Q64" and pinned_Q64: "pinned Q64"
  using reachable_inv[OF reachable_Q64] by simp_all

lemma Q64_loop: "loop R1 1040 0 Q64 = Inr Q65"
  by (simp add: Q65_def loop_afterFrame[OF wf_Q64 Q64_fields(1)])

lemma reachable_Q65: "reachable R1 Q65"
  by (rule reachable.step[OF reachable_Q64, of "Frame 1040 0"]) (simp_all add: Q64_loop)

lemma Q65_refs: "refs_ok (Q65\<lparr> lastTime := 1056 \<rparr>)"
  by (simp add: refs_ok_def Q65_fields)

lemma Q65_store:
  "store (update_move 0 (Q65\<lparr> lastTime := 1056 \<rparr>)) =
     [\<lparr> plat_x = 300, plat_y = 702, plat_width = 200, plat_height = 20,
        plat_color = NEON_MAGENTA, plat_vx = 0, passed = False, landedOn = False \<rparr>,
      \<lparr> plat_x = 33299 / 128, plat_y = 570, plat_width = 130, plat_height = 20,
        plat_color = NEON_LIME, plat_vx = - (7 / 2), passed = False, landedOn = True \<rparr>,
      \<lparr> plat_x = 109813 / 256, plat_y = 420, plat_width = 130, plat_height = 20,
        plat_color = NEON_LIME, plat_vx = - (7 / 2), passed = False, landedOn = False \<rparr>,
      \<lparr> plat_x = 2499 / 40, plat_y = 270, plat_width = 130, plat_height = 20,
        plat_color = NEON_LIME, plat_vx = 7 / 2, passed = False, landedOn = False \<rparr>,
      \<lparr> plat_x = 201 / 2, plat_y = 120, plat_width = 130, plat_height = 20,
        plat_color = NEON_LIME, plat_vx = - (7 / 2), passed = False, landedOn = False \<rparr>,
      \<lparr> plat_x = 201 / 2, plat_y = - 30, plat_width = 130, plat_height = 20,
        plat_color = NEON_LIME, plat_vx = - (7 / 2), passed = False, landedOn = False \<rparr>,
      \<lparr> plat_x = 3203 / 10, plat_y = - 180, plat_width = 130, plat_height = 20,
        plat_color = NEON_LIME, plat_vx = - (7 / 2), passed = False, landedOn = False \<rparr>]"
  by (simp add: update_move_eq[OF Q65_refs] Q65_fields advance_def speedMultiplier_def Let_def)

lemma Q65_player:
  "ply_x (player (update_move 0 (Q65\<lparr> lastTime := 1056 \<rparr>))) = 400"
  "ply_y (player (update_move 0 (Q65\<lparr> lastTime := 1056 \<rparr>))) = 355"
  "ply_vy (player (update_move 0 (Q65\<lparr> lastTime := 1056 \<rparr>))) = - 5"
  "ply_width (player (update_move 0 (Q65\<lparr> lastTime := 1056 \<rparr>))) = 40"
  "ply_height (player (update_move 0 (Q65\<lparr> lastTime := 1056 \<rparr>))) = 40"
  "ply_color (player (update_move 0 (Q65\<lparr> lastTime := 1056 \<rparr>))) = NEON_LIME"
  "jumps (player (update_move 0 (Q65\<lparr> lastTime := 1056 \<rparr>))) = 1"
  "currentPlatform (player (update_move 0 (Q65\<lparr> lastTime := 1056 \<rparr>))) = None"
  unfolding update_move_player_eq[OF Q65_refs] Q65_store
  by (simp_all add: Q65_fields Player_physics_def carry_def speedMultiplier_def Let_def config)

lemmas Q65_move = Q65_store Q65_player update_move_fields[OF Q65_refs] Q65_fields

lemma Q65_scroll:
  "scrolls (update_move 0 (Q65\<lparr> lastTime := 1056 \<rparr>))"
  "scrollDiff (update_move 0 (Q65\<lparr> lastTime := 1056 \<rparr>)) = 5"
  "\<not> recycles (update_move 0 (Q65\<lparr> lastTime := 1056 \<rparr>))"
  "refs_ok (update_move 0 (Q65\<lparr> lastTime := 1056 \<rparr>))"
  "platforms (update_move 0 (Q65\<lparr> lastTime := 1056 \<rparr>)) \<noteq> []"
  by (simp_all add: scrolls_def scrollDiff_def recycles_def refs_ok_def Q65_move)

lemma Q65_landing:
  "landingPlatform (preCollision R1 1056 0 Q65) = None"
  by (simp add: landingPlatform_def preCollision_def afterScroll_fields Q65_scroll Q65_move)

lemma Q66_eq:
  "Q66 = update_cosmetics (update_fall R1 (preCollision R1 1056 0 Q65))"
  using Q65_landing
  by (simp add: Q66_def afterFrame_def update_collision_eq)

lemma Q66_fields:
  "state Q66 = Playing"
  "score Q66 = 1"
  "perfectStreak Q66 = 1"
  "isFever Q66 = False"
  "viewportWidth Q66 = 800"
  "viewportHeight Q66 = 600"
  "platforms Q66 = [1, 2, 3, 4, 5, 6]"
  "notifications Q66 = [ScoreUpdate 0, ComboChange 0, FeverChange False, GameStateChange Playing, ScoreUpdate 1, ComboChange 1]"
  "store Q66 =
     [\<lparr> plat_x = 300, plat_y = 702, plat_width = 200, plat_height = 20,
        plat_color = NEON_MAGENTA, plat_vx = 0, passed = False, landedOn = False \<rparr>,
      \<lparr> plat_x = 33299 / 128, plat_y = 575, plat_width = 130, plat_height = 20,
        plat_color = NEON_LIME, plat_vx = - (7 / 2), passed = False, landedOn = True \<rparr>,
      \<lparr> plat_x = 109813 / 256, plat_y = 425, plat_width = 130, plat_height = 20,
        plat_color = NEON_LIME, plat_vx = - (7 / 2), passed = False, landedOn = False \<rparr>,
      \<lparr> plat_x = 2499 / 40, plat_y = 275, plat_width = 130, plat_height = 20,
        plat_color = NEON_LIME, plat_vx = 7 / 2, passed = False, landedOn = False \<rparr>,
      \<lparr> plat_x = 201 / 2, plat_y = 125, plat_width = 130, plat_height = 20,
        plat_color = NEON_LIME, plat_vx = - (7 / 2), passed = False, landedOn = False \<rparr>,
      \<lparr> plat_x = 201 / 2, plat_y = - 25, plat_width = 130, plat_height = 20,
        plat_color = NEON_LIME, plat_vx = - (7 / 2), passed = False, landedOn = False \<rparr>,
      \<lparr> plat_x = 3203 / 10, plat_y = - 175, plat_width = 130, plat_height = 20,
        plat_color = NEON_LIME, plat_vx = - (7 / 2), passed = False, landedOn = False \<rparr>]"
  "ply_x (player Q66) = 400"
  "ply_y (player Q66) = 360"
  "ply_vy (player Q66) = - 5"
  "ply_width (player Q66) = 40"
  "ply_height (player Q66) = 40"
  "ply_color (player Q66) = NEON_LIME"
  "jumps (player Q66) = 1"
  "currentPlatform (player Q66) = None"
  "rix Q66 = 120"
  unfolding Q66_eq tail_fields update_fall_rix preCollision_def
    afterScroll_store_list[OF Q65_scroll(4,5)]
  by (simp_all add: afterScroll_fields afterScroll_rix Q65_scroll Q65_move spawned_R1 config)

lemma Q65_first: "firstLanding R1 (Frame 1056 0) Q65 = None"
  by (simp add: Q65_fields(1) Q65_landing)

lemma wf_Q65: "wf Q65" and pinned_Q65: "pinned Q65"
  using reachable_inv[OF reachable_Q65] by simp_all

lemma Q65_loop: "loop R1 1056 0 Q65 = Inr Q66"
  by (simp add: Q66_def loop_afterFrame[OF wf_Q65 Q65_fields(1)])

lemma reachable_Q66: "reachable R1 Q66"
  by (rule reachable.step[OF reachable_Q65, of "Frame 1056 0"]) (simp_all add: Q65_loop)

lemma Q66_refs: "refs_ok (Q66\<lparr> lastTime := 1072 \<rparr>)"
  by (simp add: refs_ok_def Q66_fields)

lemma Q66_store:
  "store (update_move 0 (Q66\<lparr> lastTime := 1072 \<rparr>)) =
     [\<lparr> plat_x = 300, plat_y = 702, plat_width = 200, plat_height = 20,
        plat_color = NEON_MAGENTA, plat_vx = 0, passed = False, landedOn = False \<rparr>,
      \<lparr> plat_x = 164143 / 640, plat_y = 575, plat_width = 130, plat_height = 20,
        plat_color = NEON_LIME, plat_vx = - (7 / 2), passed = False, landedOn = True \<rparr>,
      \<lparr> plat_x = 544361 / 1280, plat_y = 425, plat_width = 130, plat_height = 20,
        plat_color = NEON_LIME, plat_vx = - (7 / 2), passed = False, landedOn = False \<rparr>,
      \<lparr> plat_x = 1323 / 20, plat_y = 275, plat_width = 130, plat_height = 20,
        plat_color = NEON_LIME, plat_vx = 7 / 2, passed = False, landedOn = False \<rparr>,
      \<lparr> plat_x = 3873 / 40, plat_y = 125, plat_width = 130, plat_height = 20,
        plat_color = NEON_LIME, plat_vx = - (7 / 2), passed = False, landedOn = False \<rparr>,
      \<lparr> plat_x = 3873 / 40, plat_y = - 25, plat_width = 130, plat_height = 20,
        plat_color = NEON_LIME, plat_vx = - (7 / 2), passed = False, landedOn = False \<rparr>,
      \<lparr> plat_x = 2533 / 8, plat_y = - 175, plat_width = 130, plat_height = 20,
        plat_color = NEON_LIME, plat_vx = - (7 / 2), passed = False, landedOn = False \<rparr>]"
  by (simp add: update_move_eq[OF Q66_refs] Q66_fields advance_def speedMultiplier_def Let_def)

lemma Q66_player:
  "ply_x (player (update_move 0 (Q66\<lparr> lastTime := 1072 \<rparr>))) = 400"
  "ply_y (player (update_move 0 (Q66\<lparr> lastTime := 1072 \<rparr>))) = 711 / 2"
  "ply_vy (player (update_move 0 (Q66\<lparr> lastTime := 1072 \<rparr>))) = - (9 / 2)"
  "ply_width (player (update_move 0 (Q66\<lparr> lastTime := 1072 \<rparr>))) = 40"
  "ply_height (player (update_move 0 (Q66\<lparr> lastTime := 1072 \<rparr>))) = 40"
  "ply_color (player (update_move 0 (Q66\<lparr> lastTime := 1072 \<rparr>))) = NEON_LIME"
  "jumps (player (update_move 0 (Q66\<lparr> lastTime := 1072 \<rparr>))) = 1"
  "currentPlatform (player (update_move 0 (Q66\<lparr> lastTime := 1072 \<rparr>))) = None"
  unfolding update_move_player_eq[OF Q66_refs] Q66_store
  by (simp_all add: Q66_fields Player_physics_def carry_def speedMultiplier_def Let_def config)

lemmas Q66_move = Q66_store Q66_player update_move_fields[OF Q66_refs] Q66_fields

lemma Q66_scroll:
  "scrolls (update_move 0 (Q66\<lparr> lastTime := 1072 \<rparr>))"
  "scrollDiff (update_move 0 (Q66\<lparr> lastTime := 1072 \<rparr>)) = 9 / 2"
  "\<not> recycles (update_move 0 (Q66\<lparr> lastTime := 1072 \<rparr>))"
  "refs_ok (update_move 0 (Q66\<lparr> lastTime := 1072 \<rparr>))"
  "platforms (update_move 0 (Q66\<lparr> lastTime := 1072 \<rparr>)) \<noteq> []"
  by (simp_all add: scrolls_def scrollDiff_def recycles_def refs_ok_def Q66_move)

lemma Q66_landing:
  "landingPlatform (preCollision R1 1072 0 Q66) = None"
  by (simp add: landingPlatform_def preCollision_def afterScroll_fields Q66_scroll Q66_move)

lemma Q67_eq:
  "Q67 = update_cosmetics (update_fall R1 (preCollision R1 1072 0 Q66))"
  using Q66_landing
  by (simp add: Q67_def afterFrame_def update_collision_eq)

lemma Q67_fields:
  "state Q67 = Playing"
  "score Q67 = 1"
  "perfectStreak Q67 = 1"
  "isFever Q67 = False"
  "viewportWidth Q67 = 800"
  "viewportHeight Q67 = 600"
  "platforms Q67 = [1, 2, 3, 4, 5, 6]"
  "notifications Q67 = [ScoreUpdate 0, ComboChange 0, FeverChange False, GameStateChange Playing, ScoreUpdate 1, ComboChange 1]"
  "store Q67 =
     [\<lparr> plat_x = 300, plat_y = 702, plat_width = 200, plat_height = 20,
        plat_color = NEON_MAGENTA, plat_vx = 0, passed = False, landedOn = False \<rparr>,
      \<lparr> plat_x = 164143 / 640, plat_y = 1159 / 2, plat_width = 130, plat_height = 20,
        plat_color = NEON_LIME, plat_vx = - (7 / 2), passed = False, landedOn = True \<rparr>,
      \<lparr> plat_x = 544361 / 1280, plat_y = 859 / 2, plat_width = 130, plat_height = 20,
        plat_color = NEON_LIME, plat_vx = - (7 / 2), passed = False, landedOn = False \<rparr>,
      \<lparr> plat_x = 1323 / 20, plat_y = 559 / 2, plat_width = 130, plat_height = 20,
        plat_color = NEON_LIME, plat_vx = 7 / 2, passed = False, landedOn = False \<rparr>,
      \<lparr> plat_x = 3873 / 40, plat_y = 259 / 2, plat_width = 130, plat_height = 20,
        plat_color = NEON_LIME, plat_vx = - (7 / 2), passed = False, landedOn = False \<rparr>,
      \<lparr> plat_x = 3873 / 40, plat_y = - (41 / 2), plat_width = 130, plat_height = 20,
        plat_color = NEON_LIME, plat_vx = - (7 / 2), passed = False, landedOn = False \<rparr>,
      \<lparr> plat_x = 2533 / 8, plat_y = - (341 / 2), plat_width = 130, plat_height = 20,
        plat_color = NEON_LIME, plat_vx = - (7 / 2), passed = False, landedOn = False \<rparr>]"
  "ply_x (player Q67) = 400"
  "ply_y (player Q67) = 360"
  "ply_vy (player Q67) = - (9 / 2)"
  "ply_width (player Q67) = 40"
  "ply_height (player Q67) = 40"
  "ply_color (player Q67) = NEON_LIME"
  "jumps (player Q67) = 1"
  "currentPlatform (player Q67) = None"
  "rix Q67 = 120"
  unfolding Q67_eq tail_fields update_fall_rix preCollision_def
    afterScroll_store_list[OF Q66_scroll(4,5)]
  by (simp_all add: afterScroll_fields afterScroll_rix Q66_scroll Q66_move spawned_R1 config)

lemma Q66_first: "firstLanding R1 (Frame 1072 0) Q66 = None"
  by (simp add: Q66_fields(1) Q66_landing)

lemma wf_Q66: "wf Q66" and pinned_Q66: "pinned Q66"
  using reachable_inv[OF reachable_Q66] by simp_all

lemma Q66_loop: "loop R1 1072 0 Q66 = Inr Q67"
  by (simp add: Q67_def loop_afterFrame[OF wf_Q66 Q66_fields(1)])

lemma reachable_Q67: "reachable R1 Q67"
  by (rule reachable.step[OF reachable_Q66, of "Frame 1072 0"]) (simp_all add: Q66_loop)

lemma Q67_refs: "refs_ok (Q67\<lparr> lastTime := 1088 \<rparr>)"
  by (simp add: refs_ok_def Q67_fields)

lemma Q67_store:
  "store (update_move 0 (Q67\<lparr> lastTime := 1088 \<rparr>)) =
     [\<lparr> plat_x = 300, plat_y = 702, plat_width = 200, plat_height = 20,
        plat_color = NEON_MAGENTA, plat_vx = 0, passed = False, landedOn = False \<rparr>,
      \<lparr> plat_x = 161791 / 640, plat_y = 1159 / 2, plat_width = 130, plat_height = 20,
        plat_color = NEON_LIME, plat_vx = - (7 / 2), passed = False, landedOn = True \<rparr>,
      \<lparr> plat_x = 539657 / 1280, plat_y = 859 / 2, plat_width = 130, plat_height = 20,
        plat_color = NEON_LIME, plat_vx = - (7 / 2), passed = False, landedOn = False \<rparr>,
      \<lparr> plat_x = 2793 / 40, plat_y = 559 / 2, plat_width = 130, plat_height = 20,
        plat_color = NEON_LIME, plat_vx = 7 / 2, passed = False, landedOn = False \<rparr>,
      \<lparr> plat_x = 1863 / 20, plat_y = 259 / 2, plat_width = 130, plat_height = 20,
        plat_color = NEON_LIME, plat_vx = - (7 / 2), passed = False, landedOn = False \<rparr>,
      \<lparr> plat_x = 1863 / 20, plat_y = - (41 / 2), plat_width = 130, plat_height = 20,
        plat_color = NEON_LIME, plat_vx = - (7 / 2), passed = False, landedOn = False \<rparr>,
      \<lparr> plat_x = 6259 / 20, plat_y = - (341 / 2), plat_width = 130, plat_height = 20,
        plat_color = NEON_LIME, plat_vx = - (7 / 2), passed = False, landedOn = False \<rparr>]"
  by (simp add: update_move_eq[OF Q67_refs] Q67_fields advance_def speedMultiplier_def Let_def)

lemma Q67_player:
  "ply_x (player (update_move 0 (Q67\<lparr> lastTime := 1088 \<rparr>))) = 400"
  "ply_y (player (update_move 0 (Q67\<lparr> lastTime := 1088 \<rparr>))) = 356"
  "ply_vy (player (update_move 0 (Q67\<lparr> lastTime := 1088 \<rparr>))) = - 4"
  "ply_width (player (update_move 0 (Q67\<lparr> lastTime := 1088 \<rparr>))) = 40"
  "ply_height (player (update_move 0 (Q67\<lparr> lastTime := 1088 \<rparr>))) = 40"
  "ply_color (player (update_move 0 (Q67\<lparr> lastTime := 1088 \<rparr>))) = NEON_LIME"
  "jumps (player (update_move 0 (Q67\<lparr> lastTime := 1088 \<rparr>))) = 1"
  "currentPlatform (player (update_move 0 (Q67\<lparr> lastTime := 1088 \<rparr>))) = None"
  unfolding update_move_player_eq[OF Q67_refs] Q67_store
  by (simp_all add: Q67_fields Player_physics_def carry_def speedMultiplier_def Let_def config)

lemmas Q67_move = Q67_store Q67_player update_move_fields[OF Q67_refs] Q67_fields

lemma Q67_scroll:
  "scrolls (update_move 0 (Q67\<lparr> lastTime := 1088 \<rparr>))"
  "scrollDiff (update_move 0 (Q67\<lparr> lastTime := 1088 \<rparr>)) = 4"
  "\<not> recycles (update_move 0 (Q67\<lparr> lastTime := 1088 \<rparr>))"
  "refs_ok (update_move 0 (Q67\<lparr> lastTime := 1088 \<rparr>))"
  "platforms (update_move 0 (Q67\<lparr> lastTime := 1088 \<rparr>)) \<noteq> []"
  by (simp_all add: scrolls_def scrollDiff_def recycles_def refs_ok_def Q67_move)

lemma Q67_landing:
  "landingPlatform (preCollision R1 1088 0 Q67) = None"
  by (simp add: landingPlatform_def preCollision_def afterScroll_fields Q67_scroll Q67_move)

lemma Q68_eq:
  "Q68 = update_cosmetics (update_fall R1 (preCollision R1 1088 0 Q67))"
  using Q67_landing
  by (simp add: Q68_def afterFrame_def update_collision_eq)

lemma Q68_fields:
  "state Q68 = Playing"
  "score Q68 = 1"
  "perfectStreak Q68 = 1"
  "isFever Q68 = False"
  "viewportWidth Q68 = 800"
  "viewportHeight Q68 = 600"
  "platforms Q68 = [1, 2, 3, 4, 5, 6]"
  "notifications Q68 = [ScoreUpdate 0, ComboChange 0, FeverChange False, GameStateChange Playing, ScoreUpdate 1, ComboChange 1]"
  "store Q68 =
     [\<lparr> plat_x = 300, plat_y = 702, plat_width = 200, plat_height = 20,
        plat_color = NEON_MAGENTA, plat_vx = 0, passed = False, landedOn = False \<rparr>,
      \<lparr> plat_x = 161791 / 640, plat_y = 1167 / 2, plat_width = 130, plat_height = 20,
        plat_color = NEON_LIME, plat_vx = - (7 / 2), passed = False, landedOn = True \<rparr>,
      \<lparr> plat_x = 539657 / 1280, plat_y = 867 / 2, plat_width = 130, plat_height = 20,
        plat_color = NEON_LIME, plat_vx = - (7 / 2), passed = False, landedOn = False \<rparr>,
      \<lparr> plat_x = 2793 / 40, plat_y = 567 / 2, plat_width = 130, plat_height = 20,
        plat_color = NEON_LIME, plat_vx = 7 / 2, passed = False, landedOn = False \<rparr>,
      \<lparr> plat_x = 1863 / 20, plat_y = 267 / 2, plat_width = 130, plat_height = 20,
        plat_color = NEON_LIME, plat_vx = - (7 / 2), passed = False, landedOn = False \<rparr>,
      \<lparr> plat_x = 1863 / 20, plat_y = - (33 / 2), plat_width = 130, plat_height = 20,
        plat_color = NEON_LIME, plat_vx = - (7 / 2), passed = False, landedOn = False \<rparr>,
      \<lparr> plat_x = 6259 / 20, plat_y = - (333 / 2), plat_width = 130, plat_height = 20,
        plat_color = NEON_LIME, plat_vx = - (7 / 2), passed = False, landedOn = False \<rparr>]"
  "ply_x (player Q68) = 400"
  "ply_y (player Q68) = 360"
  "ply_vy (player Q68) = - 4"
  "ply_width (player Q68) = 40"
  "ply_height (player Q68) = 40"
  "ply_color (player Q68) = NEON_LIME"
  "jumps (player Q68) = 1"
  "currentPlatform (player Q68) = None"
  "rix Q68 = 120"
  unfolding Q68_eq tail_fields update_fall_rix preCollision_def
    afterScroll_store_list[OF Q67_scroll(4,5)]
  by (simp_all add: afterScroll_fields afterScroll_rix Q67_scroll Q67_move spawned_R1 config)

lemma Q67_first: "firstLanding R1 (Frame 1088 0) Q67 = None"
  by (simp add: Q67_fields(1) Q67_landing)

lemma wf_Q67: "wf Q67" and pinned_Q67: "pinned Q67"
  using reachable_inv[OF reachable_Q67] by simp_all

lemma Q67_loop: "loop R1 1088 0 Q67 = Inr Q68"
  by (simp add: Q68_def loop_afterFrame[OF wf_Q67 Q67_fields(1)])

lemma reachable_Q68: "reachable R1 Q68"
  by (rule reachable.step[OF reachable_Q67, of "Frame 1088 0"]) (simp_all add: Q67_loop)

lemma Q68_refs: "refs_ok (Q68\<lparr> lastTime := 1104 \<rparr>)"
  by (simp add: refs_ok_def Q68_fields)

lemma Q68_store:
  "store (update_move 0 (Q68\<lparr> lastTime := 1104 \<rparr>)) =
     [\<lparr> plat_x = 300, plat_y = 702, plat_width = 200, plat_height = 20,
        plat_color = NEON_MAGENTA, plat_vx = 0, passed = False, landedOn = False \<rparr>,
      \<lparr> plat_x = 159439 / 640, plat_y = 1167 / 2, plat_width = 130, plat_height = 20,
        plat_color = NEON_LIME, plat_vx = - (7 / 2), passed = False, landedOn = True \<rparr>,
      \<lparr> plat_x = 534953 / 1280, plat_y = 867 / 2, plat_width = 130, plat_height = 20,
        plat_color = NEON_LIME, plat_vx = - (7 / 2), passed = False, landedOn = False \<rparr>,
      \<lparr> plat_x = 147 / 2, plat_y = 567 / 2, plat_width = 130, plat_height = 20,
        plat_color = NEON_LIME, plat_vx = 7 / 2, passed = False, landedOn = False \<rparr>,
      \<lparr> plat_x = 3579 / 40, plat_y = 267 / 2, plat_width = 130, plat_height = 20,
        plat_color = NEON_LIME, plat_vx = - (7 / 2), passed = False, landedOn = False \<rparr>,
      \<lparr> plat_x = 3579 / 40, plat_y = - (33 / 2), plat_width = 130, plat_height = 20,
        plat_color = NEON_LIME, plat_vx = - (7 / 2), passed = False, landedOn = False \<rparr>,
      \<lparr> plat_x = 12371 / 40, plat_y = - (333 / 2), plat_width = 130, plat_height = 20,
        plat_color = NEON_LIME, plat_vx = - (7 / 2), passed = False, landedOn = False \<rparr>]"
  by (simp add: update_move_eq[OF Q68_refs] Q68_fields advance_def speedMultiplier_def Let_def)

lemma Q68_player:
  "ply_x (player (update_move 0 (Q68\<lparr> lastTime := 1104 \<rparr>))) = 400"
  "ply_y (player (update_move 0 (Q68\<lparr> lastTime := 1104 \<rparr>))) = 713 / 2"
  "ply_vy (player (update_move 0 (Q68\<lparr> lastTime := 1104 \<rparr>))) = - (7 / 2)"
  "ply_width (player (update_move 0 (Q68\<lparr> lastTime := 1104 \<rparr>))) = 40"
  "ply_height (player (update_move 0 (Q68\<lparr> lastTime := 1104 \<rparr>))) = 40"
  "ply_color (player (update_move 0 (Q68\<lparr> lastTime := 1104 \<rparr>))) = NEON_LIME"
  "jumps (player (update_move 0 (Q68\<lparr> lastTime := 1104 \<rparr>))) = 1"
  "currentPlatform (player (update_move 0 (Q68\<lparr> lastTime := 1104 \<rparr>))) = None"
  unfolding update_move_player_eq[OF Q68_refs] Q68_store
  by (simp_all add: Q68_fields Player_physics_def carry_def speedMultiplier_def Let_def config)

lemmas Q68_move = Q68_store Q68_player update_move_fields[OF Q68_refs] Q68_fields

lemma Q68_scroll:
  "scrolls (update_move 0 (Q68\<lparr> lastTime := 1104 \<rparr>))"
  "scrollDiff (update_move 0 (Q68\<lparr> lastTime := 1104 \<rparr>)) = 7 / 2"
  "\<not> recycles (update_move 0 (Q68\<lparr> lastTime := 1104 \<rparr>))"
  "refs_ok (update_move 0 (Q68\<lparr> lastTime := 1104 \<rparr>))"
  "platforms (update_move 0 (Q68\<lparr> lastTime := 1104 \<rparr>)) \<noteq> []"
  by (simp_all add: scrolls_def scrollDiff_def recycles_def refs_ok_def Q68_move)

lemma Q68_landing:
  "landingPlatform (preCollision R1 1104 0 Q68) = None"
  by (simp add: landingPlatform_def preCollision_def afterScroll_fields Q68_scroll Q68_move)

lemma Q69_eq:
  "Q69 = update_cosmetics (update_fall R1 (preCollision R1 1104 0 Q68))"
  using Q68_landing
  by (simp add: Q69_def afterFrame_def update_collision_eq)

lemma Q69_fields:
  "state Q69 = Playing"
  "score Q69 = 1"
  "perfectStreak Q69 = 1"
  "isFever Q69 = False"
  "viewportWidth Q69 = 800"
  "viewportHeight Q69 = 600"
  "platforms Q69 = [1, 2, 3, 4, 5, 6]"
  "notifications Q69 = [ScoreUpdate 0, ComboChange 0, FeverChange False, GameStateChange Playing, ScoreUpdate 1, ComboChange 1]"
  "store Q69 =
     [\<lparr> plat_x = 300, plat_y = 702, plat_width = 200, plat_height = 20,
        plat_color = NEON_MAGENTA, plat_vx = 0, passed = False, landedOn = False \<rparr>,
      \<lparr> plat_x = 159439 / 640, plat_y = 587, plat_width = 130, plat_height = 20,
        plat_color = NEON_LIME, plat_vx = - (7 / 2), passed = False, landedOn = True \<rparr>,
      \<lparr> plat_x = 534953 / 1280, plat_y = 437, plat_width = 130, plat_height = 20,
        plat_color = NEON_LIME, plat_vx = - (7 / 2), passed = False, landedOn = False \<rparr>,
      \<lparr> plat_x = 147 / 2, plat_y = 287, plat_width = 130, plat_height = 20,
        plat_color = NEON_LIME, plat_vx = 7 / 2, passed = False, landedOn = False \<rparr>,
      \<lparr> plat_x = 3579 / 40, plat_y = 137, plat_width = 130, plat_height = 20,
        plat_color = NEON_LIME, plat_vx = - (7 / 2), passed = False, landedOn = False \<rparr>,
      \<lparr> plat_x = 3579 / 40, plat_y = - 13, plat_width = 130, plat_height = 20,
        plat_color = NEON_LIME, plat_vx = - (7 / 2), passed = False, landedOn = False \<rparr>,
      \<lparr> plat_x = 12371 / 40, plat_y = - 163, plat_width = 130, plat_height = 20,
        plat_color = NEON_LIME, plat_vx = - (7 / 2), passed = False, landedOn = False \<rparr>]"
  "ply_x (player Q69) = 400"
  "ply_y (player Q69) = 360"
  "ply_vy (player Q69) = - (7 / 2)"
  "ply_width (player Q69) = 40"
  "ply_height (player Q69) = 40"
  "ply_color (player Q69) = NEON_LIME"
  "jumps (player Q69) = 1"
  "currentPlatform (player Q69) = None"
  "rix Q69 = 120"
  unfolding Q69_eq tail_fields update_fall_rix preCollision_def
    afterScroll_store_list[OF Q68_scroll(4,5)]
  by (simp_all add: afterScroll_fields afterScroll_rix Q68_scroll Q68_move spawned_R1 config)

lemma Q68_first: "firstLanding R1 (Frame 1104 0) Q68 = None"
  by (simp add: Q68_fields(1) Q68_landing)

lemma wf_Q68: "wf Q68" and pinned_Q68: "pinned Q68"
  using reachable_inv[OF reachable_Q68] by simp_all

lemma Q68_loop: "loop R1 1104 0 Q68 = Inr Q69"
  by (simp add: Q69_def loop_afterFrame[OF wf_Q68 Q68_fields(1)])

lemma reachable_Q69: "reachable R1 Q69"
  by (rule reachable.step[OF reachable_Q68, of "Frame 1104 0"]) (simp_all add: Q68_loop)

lemma Q69_refs: "refs_ok (Q69\<lparr> lastTime := 1120 \<rparr>)"
  by (simp add: refs_ok_def Q69_fields)

lemma Q69_store:
  "store (update_move 0 (Q69\<lparr> lastTime := 1120 \<rparr>)) =
     [\<lparr> plat_x = 300, plat_y = 702, plat_width = 200, plat_height = 20,
        plat_color = NEON_MAGENTA, plat_vx = 0, passed = False, landedOn = False \<rparr>,
      \<lparr> plat_x = 157087 / 640, plat_y = 587, plat_width = 130, plat_height = 20,
        plat_color = NEON_LIME, plat_vx = - (7 / 2), passed = False, landedOn = True \<rparr>,
      \<lparr> plat_x = 530249 / 1280, plat_y = 437, plat_width = 130, plat_height = 20,
        plat_color = NEON_LIME, plat_vx = - (7 / 2), passed = False, landedOn = False \<rparr>,
      \<lparr> plat_x = 3087 / 40, plat_y = 287, plat_width = 130, plat_height = 20,
        plat_color = NEON_LIME, plat_vx = 7 / 2, passed = False, landedOn = False \<rparr>,
      \<lparr> plat_x = 429 / 5, plat_y = 137, plat_width = 130, plat_height = 20,
        plat_color = NEON_LIME, plat_vx = - (7 / 2), passed = False, landedOn = False \<rparr>,
      \<lparr> plat_x = 429 / 5, plat_y = - 13, plat_width = 130, plat_height = 20,
        plat_color = NEON_LIME, plat_vx = - (7 / 2), passed = False, landedOn = False \<rparr>,
      \<lparr> plat_x = 1528 / 5, plat_y = - 163, plat_width = 130, plat_height = 20,
        plat_color = NEON_LIME, plat_vx = - (7 / 2), passed = False, landedOn = False \<rparr>]"
  by (simp add: update_move_eq[OF Q69_refs] Q69_fields advance_def speedMultiplier_def Let_def)

lemma Q69_player:
  "ply_x (player (update_move 0 (Q69\<lparr> lastTime := 1120 \<rparr>))) = 400"
  "ply_y (player (update_move 0 (Q69\<lparr> lastTime := 1120 \<rparr>))) = 357"
  "ply_vy (player (update_move 0 (Q69\<lparr> lastTime := 1120 \<rparr>))) = - 3"
  "ply_width (player (update_move 0 (Q69\<lparr> lastTime := 1120 \<rparr>))) = 40"
  "ply_height (player (update_move 0 (Q69\<lparr> lastTime := 1120 \<rparr>))) = 40"
  "ply_color (player (update_move 0 (Q69\<lparr> lastTime := 1120 \<rparr>))) = NEON_LIME"
  "jumps (player (update_move 0 (Q69\<lparr> lastTime := 1120 \<rparr>))) = 1"
  "currentPlatform (player (update_move 0 (Q69\<lparr> lastTime := 1120 \<rparr>))) = None"
  unfolding update_move_player_eq[OF Q69_refs] Q69_store
  by (simp_all add: Q69_fields Player_physics_def carry_def speedMultiplier_def Let_def config)

lemmas Q69_move = Q69_store Q69_player update_move_fields[OF Q69_refs] Q69_fields

lemma Q69_scroll:
  "scrolls (update_move 0 (Q69\<lparr> lastTime := 1120 \<rparr>))"
  "scrollDiff (update_move 0 (Q69\<lparr> lastTime := 1120 \<rparr>)) = 3"
  "\<not> recycles (update_move 0 (Q69\<lparr> lastTime := 1120 \<rparr>))"
  "refs_ok (update_move 0 (Q69\<lparr> lastTime := 1120 \<rparr>))"
  "platforms (update_move 0 (Q69\<lparr> lastTime := 1120 \<rparr>)) \<noteq> []"
  by (simp_all add: scrolls_def scrollDiff_def recycles_def refs_ok_def Q69_move)

lemma Q69_landing:
  "landingPlatform (preCollision R1 1120 0 Q69) = None"
  by (simp add: landingPlatform_def preCollision_def afterScroll_fields Q69_scroll Q69_move)

lemma Q70_eq:
  "Q70 = update_cosmetics (update_fall R1 (preCollision R1 1120 0 Q69))"
  using Q69_landing
  by (simp add: Q70_def afterFrame_def update_collision_eq)

lemma Q70_fields:
  "state Q70 = Playing"
  "score Q70 = 1"
  "perfectStreak Q70 = 1"
  "isFever Q70 = False"
  "viewportWidth Q70 = 800"
  "viewportHeight Q70 = 600"
  "platforms Q70 = [1, 2, 3, 4, 5, 6]"
  "notifications Q70 = [ScoreUpdate 0, ComboChange 0, FeverChange False, GameStateChange Playing, ScoreUpdate 1, ComboChange 1]"
  "store Q70 =
     [\<lparr> plat_x = 300, plat_y = 702, plat_width = 200, plat_height = 20,
        plat_color = NEON_MAGENTA, plat_vx = 0, passed = False, landedOn = False \<rparr>,
      \<lparr> plat_x = 157087 / 640, plat_y = 590, plat_width = 130, plat_height = 20,
        plat_color = NEON_LIME, plat_vx = - (7 / 2), passed = False, landedOn = True \<rparr>,
      \<lparr> plat_x = 530249 / 1280, plat_y = 440, plat_width = 130, plat_height = 20,
        plat_color = NEON_LIME, plat_vx = - (7 / 2), passed = False, landedOn = False \<rparr>,
      \<lparr> plat_x = 3087 / 40, plat_y = 290, plat_width = 130, plat_height = 20,
        plat_color = NEON_LIME, plat_vx = 7 / 2, passed = False, landedOn = False \<rparr>,
      \<lparr> plat_x = 429 / 5, plat_y = 140, plat_width = 130, plat_height = 20,
        plat_color = NEON_LIME, plat_vx = - (7 / 2), passed = False, landedOn = False \<rparr>,
      \<lparr> plat_x = 429 / 5, plat_y = - 10, plat_width = 130, plat_height = 20,
        plat_color = NEON_LIME, plat_vx = - (7 / 2), passed = False, landedOn = False \<rparr>,
      \<lparr> plat_x = 1528 / 5, plat_y = - 160, plat_width = 130, plat_height = 20,
        plat_color = NEON_LIME, plat_vx = - (7 / 2), passed = False, landedOn = False \<rparr>]"
  "ply_x (player Q70) = 400"
  "ply_y (player Q70) = 360"
  "ply_vy (player Q70) = - 3"
  "ply_width (player Q70) = 40"
  "ply_height (player Q70) = 40"
  "ply_color (player Q70) = NEON_LIME"
  "jumps (player Q70) = 1"
  "currentPlatform (player Q70) = None"
  "rix Q70 = 120"
  unfolding Q70_eq tail_fields update_fall_rix preCollision_def
    afterScroll_store_list[OF Q69_scroll(4,5)]
  by (simp_all add: afterScroll_fields afterScroll_rix Q69_scroll Q69_move spawned_R1 config)

lemma Q69_first: "firstLanding R1 (Frame 1120 0) Q69 = None"
  by (simp add: Q69_fields(1) Q69_landing)

lemma wf_Q69: "wf Q69" and pinned_Q69: "pinned Q69"
  using reachable_inv[OF reachable_Q69] by simp_all

lemma Q69_loop: "loop R1 1120 0 Q69 = Inr Q70"
  by (simp add: Q70_def loop_afterFrame[OF wf_Q69 Q69_fields(1)])

lemma reachable_Q70: "reachable R1 Q70"
  by (rule reachable.step[OF reachable_Q69, of "Frame 1120 0"]) (simp_all add: Q69_loop)

lemma Q70_refs: "refs_ok (Q70\<lparr> lastTime := 1136 \<rparr>)"
  by (simp add: refs_ok_def Q70_fields)

lemma Q70_store:
  "store (update_move 0 (Q70\<lparr> lastTime := 1136 \<rparr>)) =
     [\<lparr> plat_x = 300, plat_y = 702, plat_width = 200, plat_height = 20,
        plat_color = NEON_MAGENTA, plat_vx = 0, passed = False, landedOn = False \<rparr>,
      \<lparr> plat_x = 30947 / 128, plat_y = 590, plat_width = 130, plat_height = 20,
        plat_color = NEON_LIME, plat_vx = - (7 / 2), passed = False, landedOn = True \<rparr>,
      \<lparr> plat_x = 105109 / 256, plat_y = 440, plat_width = 130, plat_height = 20,
        plat_color = NEON_LIME, plat_vx = - (7 / 2), passed = False, landedOn = False \<rparr>,
      \<lparr> plat_x = 1617 / 20, plat_y = 290, plat_width = 130, plat_height = 20,
        plat_color = NEON_LIME, plat_vx = 7 / 2, passed = False, landedOn = False \<rparr>,
      \<lparr> plat_x = 657 / 8, plat_y = 140, plat_width = 130, plat_height = 20,
        plat_color = NEON_LIME, plat_vx = - (7 / 2), passed = False, landedOn = False \<rparr>,
      \<lparr> plat_x = 657 / 8, plat_y = - 10, plat_width = 130, plat_height = 20,
        plat_color = NEON_LIME, plat_vx = - (7 / 2), passed = False, landedOn = False \<rparr>,
      \<lparr> plat_x = 12077 / 40, plat_y = - 160, plat_width = 130, plat_height = 20,
        plat_color = NEON_LIME, plat_vx = - (7 / 2), passed = False, landedOn = False \<rparr>]"
  by (simp add: update_move_eq[OF Q70_refs] Q70_fields advance_def speedMultiplier_def Let_def)

lemma Q70_player:
  "ply_x (player (update_move 0 (Q70\<lparr> lastTime := 1136 \<rparr>))) = 400"
  "ply_y (player (update_move 0 (Q70\<lparr> lastTime := 1136 \<rparr>))) = 715 / 2"
  "ply_vy (player (update_move 0 (Q70\<lparr> lastTime := 1136 \<rparr>))) = - (5 / 2)"
  "ply_width (player (update_move 0 (Q70\<lparr> lastTime := 1136 \<rparr>))) = 40"
  "ply_height (player (update_move 0 (Q70\<lparr> lastTime := 1136 \<rparr>))) = 40"
  "ply_color (player (update_move 0 (Q70\<lparr> lastTime := 1136 \<rparr>))) = NEON_LIME"
  "jumps (player (update_move 0 (Q70\<lparr> lastTime := 1136 \<rparr>))) = 1"
  "currentPlatform (player (update_move 0 (Q70\<lparr> lastTime := 1136 \<rparr>))) = None"
  unfolding update_move_player_eq[OF Q70_refs] Q70_store
  by (simp_all add: Q70_fields Player_physics_def carry_def speedMultiplier_def Let_def config)

lemmas Q70_move = Q70_store Q70_player update_move_fields[OF Q70_refs] Q70_fields

lemma Q70_scroll:
  "scrolls (update_move 0 (Q70\<lparr> lastTime := 1136 \<rparr>))"
  "scrollDiff (update_move 0 (Q70\<lparr> lastTime := 1136 \<rparr>)) = 5 / 2"
  "\<not> recycles (update_move 0 (Q70\<lparr> lastTime := 1136 \<rparr>))"
  "refs_ok (update_move 0 (Q70\<lparr> lastTime := 1136 \<rparr>))"
  "platforms (update_move 0 (Q70\<lparr> lastTime := 1136 \<rparr>)) \<noteq> []"
  by (simp_all add: scrolls_def scrollDiff_def recycles_def refs_ok_def Q70_move)

lemma Q70_landing:
  "landingPlatform (preCollision R1 1136 0 Q70) = None"
  by (simp add: landingPlatform_def preCollision_def afterScroll_fields Q70_scroll Q70_move)

lemma Q71_eq:
  "Q71 = update_cosmetics (update_fall R1 (preCollision R1 1136 0 Q70))"
  using Q70_landing
  by (simp add: Q71_def afterFrame_def update_collision_eq)

lemma Q71_fields:
  "state Q71 = Playing"
  "score Q71 = 1"
  "perfectStreak Q71 = 1"
  "isFever Q71 = False"
  "viewportWidth Q71 = 800"
  "viewportHeight Q71 = 600"
  "platforms Q71 = [1, 2, 3, 4, 5, 6]"
  "notifications Q71 = [ScoreUpdate 0, ComboChange 0, FeverChange False, GameStateChange Playing, ScoreUpdate 1, ComboChange 1]"
  "store Q71 =
     [\<lparr> plat_x = 300, plat_y = 702, plat_width = 200, plat_height = 20,
        plat_color = NEON_MAGENTA, plat_vx = 0, passed = False, landedOn = False \<rparr>,
      \<lparr> plat_x = 30947 / 128, plat_y = 1185 / 2, plat_width = 130, plat_height = 20,
        plat_color = NEON_LIME, plat_vx = - (7 / 2), passed = False, landedOn = True \<rparr>,
      \<lparr> plat_x = 105109 / 256, plat_y = 885 / 2, plat_width = 130, plat_height = 20,
        plat_color = NEON_LIME, plat_vx = - (7 / 2), passed = False, landedOn = False \<rparr>,
      \<lparr> plat_x = 1617 / 20, plat_y = 585 / 2, plat_width = 130, plat_height = 20,
        plat_color = NEON_LIME, plat_vx = 7 / 2, passed = False, landedOn = False \<rparr>,
      \<lparr> plat_x = 657 / 8, plat_y = 285 / 2, plat_width = 130, plat_height = 20,
        plat_color = NEON_LIME, plat_vx = - (7 / 2), passed = False, landedOn = False \<rparr>,
      \<lparr> plat_x = 657 / 8, plat_y = - (15 / 2), plat_width = 130, plat_height = 20,
        plat_color = NEON_LIME, plat_vx = - (7 / 2), passed = False, landedOn = False \<rparr>,
      \<lparr> plat_x = 12077 / 40, plat_y = - (315 / 2), plat_width = 130, plat_height = 20,
        plat_color = NEON_LIME, plat_vx = - (7 / 2), passed = False, landedOn = False \<rparr>]"
  "ply_x (player Q71) = 400"
  "ply_y (player Q71) = 360"
  "ply_vy (player Q71) = - (5 / 2)"
  "ply_width (player Q71) = 40"
  "ply_height (player Q71) = 40"
  "ply_color (player Q71) = NEON_LIME"
  "jumps (player Q71) = 1"
  "currentPlatform (player Q71) = None"
  "rix Q71 = 120"
  unfolding Q71_eq tail_fields update_fall_rix preCollision_def
    afterScroll_store_list[OF Q70_scroll(4,5)]
  by (simp_all add: afterScroll_fields afterScroll_rix Q70_scroll Q70_move spawned_R1 config)

lemma Q70_first: "firstLanding R1 (Frame 1136 0) Q70 = None"
  by (simp add: Q70_fields(1) Q70_landing)

lemma wf_Q70: "wf Q70" and pinned_Q70: "pinned Q70"
  using reachable_inv[OF reachable_Q70] by simp_all

lemma Q70_loop: "loop R1 1136 0 Q70 = Inr Q71"
  by (simp add: Q71_def loop_afterFrame[OF wf_Q70 Q70_fields(1)])

lemma reachable_Q71: "reachable R1 Q71"
  by (rule reachable.step[OF reachable_Q70, of "Frame 1136 0"]) (simp_all add: Q70_loop)

lemma Q71_refs: "refs_ok (Q71\<lparr> lastTime := 1152 \<rparr>)"
  by (simp add: refs_ok_def Q71_fields)

lemma Q71_store:
  "store (update_move 0 (Q71\<lparr> lastTime := 1152 \<rparr>)) =
     [\<lparr> plat_x = 300, plat_y = 702, plat_width = 200, plat_height = 20,
        plat_color = NEON_MAGENTA, plat_vx = 0, passed = False, landedOn = False \<rparr>,
      \<lparr> plat_x = 152383 / 640, plat_y = 1185 / 2, plat_width = 130, plat_height = 20,
        plat_color = NEON_LIME, plat_vx = - (7 / 2), passed = False, landedOn = True \<rparr>,
      \<lparr> plat_x = 520841 / 1280, plat_y = 885 / 2, plat_width = 130, plat_height = 20,
        plat_color = NEON_LIME, plat_vx = - (7 / 2), passed = False, landedOn = False \<rparr>,
      \<lparr> plat_x = 3381 / 40, plat_y = 585 / 2, plat_width = 130, plat_height = 20,
        plat_color = NEON_LIME, plat_vx = 7 / 2, passed = False, landedOn = False \<rparr>,
      \<lparr> plat_x = 1569 / 20, plat_y = 285 / 2, plat_width = 130, plat_height = 20,
        plat_color = NEON_LIME, plat_vx = - (7 / 2), passed = False, landedOn = False \<rparr>,
      \<lparr> plat_x = 1569 / 20, plat_y = - (15 / 2), plat_width = 130, plat_height = 20,
        plat_color = NEON_LIME, plat_vx = - (7 / 2), passed = False, landedOn = False \<rparr>,
      \<lparr> plat_x = 1193 / 4, plat_y = - (315 / 2), plat_width = 130, plat_height = 20,
        plat_color = NEON_LIME, plat_vx = - (7 / 2), passed = False, landedOn = False \<rparr>]"
  by (simp add: update_move_eq[OF Q71_refs] Q71_fields advance_def speedMultiplier_def Let_def)

lemma Q71_player:
  "ply_x (player (update_move 0 (Q71\<lparr> lastTime := 1152 \<rparr>))) = 400"
  "ply_y (player (update_move 0 (Q71\<lparr> lastTime := 1152 \<rparr>))) = 358"
  "ply_vy (player (update_move 0 (Q71\<lparr> lastTime := 1152 \<rparr>))) = - 2"
  "ply_width (player (update_move 0 (Q71\<lparr> lastTime := 1152 \<rparr>))) = 40"
  "ply_height (player (update_move 0 (Q71\<lparr> lastTime := 1152 \<rparr>))) = 40"
  "ply_color (player (update_move 0 (Q71\<lparr> lastTime := 1152 \<rparr>))) = NEON_LIME"
  "jumps (player (update_move 0 (Q71\<lparr> lastTime := 1152 \<rparr>))) = 1"
  "currentPlatform (player (update_move 0 (Q71\<lparr> lastTime := 1152 \<rparr>))) = None"
  unfolding update_move_player_eq[OF Q71_refs] Q71_store
  by (simp_all add: Q71_fields Player_physics_def carry_def speedMultiplier_def Let_def config)

lemmas Q71_move = Q71_store Q71_player update_move_fields[OF Q71_refs] Q71_fields

lemma Q71_scroll:
  "scrolls (update_move 0 (Q71\<lparr> lastTime := 1152 \<rparr>))"
  "scrollDiff (update_move 0 (Q71\<lparr> lastTime := 1152 \<rparr>)) = 2"
  "\<not> recycles (update_move 0 (Q71\<lparr> lastTime := 1152 \<rparr>))"
  "refs_ok (update_move 0 (Q71\<lparr> lastTime := 1152 \<rparr>))"
  "platforms (update_move 0 (Q71\<lparr> lastTime := 1152 \<rparr>)) \<noteq> []"
  by (simp_all add: scrolls_def scrollDiff_def recycles_def refs_ok_def Q71_move)

lemma Q71_landing:
  "landingPlatform (preCollision R1 1152 0 Q71) = None"
  by (simp add: landingPlatform_def preCollision_def afterScroll_fields Q71_scroll Q71_move)

lemma Q72_eq:
  "Q72 = update_cosmetics (update_fall R1 (preCollision R1 1152 0 Q71))"
  using Q71_landing
  by (simp add: Q72_def afterFrame_def update_collision_eq)

lemma Q72_fields:
  "state Q72 = Playing"
  "score Q72 = 1"
  "perfectStreak Q72 = 1"
  "isFever Q72 = False"
  "viewportWidth Q72 = 800"
  "viewportHeight Q72 = 600"
  "platforms Q72 = [1, 2, 3, 4, 5, 6]"
  "notifications Q72 = [ScoreUpdate 0, ComboChange 0, FeverChange False, GameStateChange Playing, ScoreUpdate 1, ComboChange 1]"
  "store Q72 =
     [\<lparr> plat_x = 300, plat_y = 702, plat_width = 200, plat_height = 20,
        plat_color = NEON_MAGENTA, plat_vx = 0, passed = False, landedOn = False \<rparr>,
      \<lparr> plat_x = 152383 / 640, plat_y = 1189 / 2, plat_width = 130, plat_height = 20,
        plat_color = NEON_LIME, plat_vx = - (7 / 2), passed = False, landedOn = True \<rparr>,
      \<lparr> plat_x = 520841 / 1280, plat_y = 889 / 2, plat_width = 130, plat_height = 20,
        plat_color = NEON_LIME, plat_vx = - (7 / 2), passed = False, landedOn = False \<rparr>,
      \<lparr> plat_x = 3381 / 40, plat_y = 589 / 2, plat_width = 130, plat_height = 20,
        plat_color = NEON_LIME, plat_vx = 7 / 2, passed = False, landedOn = False \<rparr>,
      \<lparr> plat_x = 1569 / 20, plat_y = 289 / 2, plat_width = 130, plat_height = 20,
        plat_color = NEON_LIME, plat_vx = - (7 / 2), passed = False, landedOn = False \<rparr>,
      \<lparr> plat_x = 1569 / 20, plat_y = - (11 / 2), plat_width = 130, plat_height = 20,
        plat_color = NEON_LIME, plat_vx = - (7 / 2), passed = False, landedOn = False \<rparr>,
      \<lparr> plat_x = 1193 / 4, plat_y = - (311 / 2), plat_width = 130, plat_height = 20,
        plat_color = NEON_LIME, plat_vx = - (7 / 2), passed = False, landedOn = False \<rparr>]"
  "ply_x (player Q72) = 400"
  "ply_y (player Q72) = 360"
  "ply_vy (player Q72) = - 2"
  "ply_width (player Q72) = 40"
  "ply_height (player Q72) = 40"
  "ply_color (player Q72) = NEON_LIME"
  "jumps (player Q72) = 1"
  "currentPlatform (player Q72) = None"
  "rix Q72 = 120"
  unfolding Q72_eq tail_fields update_fall_rix preCollision_def
    afterScroll_store_list[OF Q71_scroll(4,5)]
  by (simp_all add: afterScroll_fields afterScroll_rix Q71_scroll Q71_move spawned_R1 config)

lemma Q71_first: "firstLanding R1 (Frame 1152 0) Q71 = None"
  by (simp add: Q71_fields(1) Q71_landing)

lemma wf_Q71: "wf Q71" and pinned_Q71: "pinned Q71"
  using reachable_inv[OF reachable_Q71] by simp_all

lemma Q71_loop: "loop R1 1152 0 Q71 = Inr Q72"
  by (simp add: Q72_def loop_afterFrame[OF wf_Q71 Q71_fields(1)])

lemma reachable_Q72: "reachable R1 Q72"
  by (rule reachable.step[OF reachable_Q71, of "Frame 1152 0"]) (simp_all add: Q71_loop)

lemma Q72_refs: "refs_ok (Q72\<lparr> lastTime := 1168 \<rparr>)"
  by (simp add: refs_ok_def Q72_fields)

lemma Q72_store:
  "store (update_move 0 (Q72\<lparr> lastTime := 1168 \<rparr>)) =
     [\<lparr> plat_x = 300, plat_y = 702, plat_width = 200, plat_height = 20,
        plat_color = NEON_MAGENTA, plat_vx = 0, passed = False, landedOn = False \<rparr>,
      \<lparr> plat_x = 150031 / 640, plat_y = 1189 / 2, plat_width = 130, plat_height = 20,
        plat_color = NEON_LIME, plat_vx = - (7 / 2), passed = False, landedOn = True \<rparr>,
      \<lparr> plat_x = 516137 / 1280, plat_y = 889 / 2, plat_width = 130, plat_height = 20,
        plat_color = NEON_LIME, plat_vx = - (7 / 2), passed = False, landedOn = False \<rparr>,
      \<lparr> plat_x = 441 / 5, plat_y = 589 / 2, plat_width = 130, plat_height = 20,
        plat_color = NEON_LIME, plat_vx = 7 / 2, passed = False, landedOn = False \<rparr>,
      \<lparr> plat_x = 2991 / 40, plat_y = 289 / 2, plat_width = 130, plat_height = 20,
        plat_color = NEON_LIME, plat_vx = - (7 / 2), passed = False, landedOn = False \<rparr>,
      \<lparr> plat_x = 2991 / 40, plat_y = - (11 / 2), plat_width = 130, plat_height = 20,
        plat_color = NEON_LIME, plat_vx = - (7 / 2), passed = False, landedOn = False \<rparr>,
      \<lparr> plat_x = 11783 / 40, plat_y = - (311 / 2), plat_width = 130, plat_height = 20,
        plat_color = NEON_LIME, plat_vx = - (7 / 2), passed = False, landedOn = False \<rparr>]"
  by (simp add: update_move_eq[OF Q72_refs] Q72_fields advance_def speedMultiplier_def Let_def)

lemma Q72_player:
  "ply_x (player (update_move 0 (Q72\<lparr> lastTime := 1168 \<rparr>))) = 400"
  "ply_y (player (update_move 0 (Q72\<lparr> lastTime := 1168 \<rparr>))) = 717 / 2"
  "ply_vy (player (update_move 0 (Q72\<lparr> lastTime := 1168 \<rparr>))) = - (3 / 2)"
  "ply_width (player (update_move 0 (Q72\<lparr> lastTime := 1168 \<rparr>))) = 40"
  "ply_height (player (update_move 0 (Q72\<lparr> lastTime := 1168 \<rparr>))) = 40"
  "ply_color (player (update_move 0 (Q72\<lparr> lastTime := 1168 \<rparr>))) = NEON_LIME"
  "jumps (player (update_move 0 (Q72\<lparr> lastTime := 1168 \<rparr>))) = 1"
  "currentPlatform (player (update_move 0 (Q72\<lparr> lastTime := 1168 \<rparr>))) = None"
  unfolding update_move_player_eq[OF Q72_refs] Q72_store
  by (simp_all add: Q72_fields Player_physics_def carry_def speedMultiplier_def Let_def config)

lemmas Q72_move = Q72_store Q72_player update_move_fields[OF Q72_refs] Q72_fields

lemma Q72_scroll:
  "scrolls (update_move 0 (Q72\<lparr> lastTime := 1168 \<rparr>))"
  "scrollDiff (update_move 0 (Q72\<lparr> lastTime := 1168 \<rparr>)) = 3 / 2"
  "\<not> recycles (update_move 0 (Q72\<lparr> lastTime := 1168 \<rparr>))"
  "refs_ok (update_move 0 (Q72\<lparr> lastTime := 1168 \<rparr>))"
  "platforms (update_move 0 (Q72\<lparr> lastTime := 1168 \<rparr>)) \<noteq> []"
  by (simp_all add: scrolls_def scrollDiff_def recycles_def refs_ok_def Q72_move)

lemma Q72_landing:
  "landingPlatform (preCollision R1 1168 0 Q72) = None"
  by (simp add: landingPlatform_def preCollision_def afterScroll_fields Q72_scroll Q72_move)

lemma Q73_eq:
  "Q73 = update_cosmetics (update_fall R1 (preCollision R1 1168 0 Q72))"
  using Q72_landing
  by (simp add: Q73_def afterFrame_def update_collision_eq)

lemma Q73_fields:
  "state Q73 = Playing"
  "score Q73 = 1"
  "perfectStreak Q73 = 1"
  "isFever Q73 = False"
  "viewportWidth Q73 = 800"
  "viewportHeight Q73 = 600"
  "platforms Q73 = [1, 2, 3, 4, 5, 6]"
  "notifications Q73 = [ScoreUpdate 0, ComboChange 0, FeverChange False, GameStateChange Playing, ScoreUpdate 1, ComboChange 1]"
  "store Q73 =
     [\<lparr> plat_x = 300, plat_y = 702, plat_width = 200, plat_height = 20,
        plat_color = NEON_MAGENTA, plat_vx = 0, passed = False, landedOn = False \<rparr>,
      \<lparr> plat_x = 150031 / 640, plat_y = 596, plat_width = 130, plat_height = 20,
        plat_color = NEON_LIME, plat_vx = - (7 / 2), passed = False, landedOn = True \<rparr>,
      \<lparr> plat_x = 516137 / 1280, plat_y = 446, plat_width = 130, plat_height = 20,
        plat_color = NEON_LIME, plat_vx = - (7 / 2), passed = False, landedOn = False \<rparr>,
      \<lparr> plat_x = 441 / 5, plat_y = 296, plat_width = 130, plat_height = 20,
        plat_color = NEON_LIME, plat_vx = 7 / 2, passed = False, landedOn = False \<rparr>,
      \<lparr> plat_x = 2991 / 40, plat_y = 146, plat_width = 130, plat_height = 20,
        plat_color = NEON_LIME, plat_vx = - (7 / 2), passed = False, landedOn = False \<rparr>,
      \<lparr> plat_x = 2991 / 40, plat_y = - 4, plat_width = 130, plat_height = 20,
        plat_color = NEON_LIME, plat_vx = - (7 / 2), passed = False, landedOn = False \<rparr>,
      \<lparr> plat_x = 11783 / 40, plat_y = - 154, plat_width = 130, plat_height = 20,
        plat_color = NEON_LIME, plat_vx = - (7 / 2), passed = False, landedOn = False \<rparr>]"
  "ply_x (player Q73) = 400"
  "ply_y (player Q73) = 360"
  "ply_vy (player Q73) = - (3 / 2)"
  "ply_width (player Q73) = 40"
  "ply_height (player Q73) = 40"
  "ply_color (player Q73) = NEON_LIME"
  "jumps (player Q73) = 1"
  "currentPlatform (player Q73) = None"
  "rix Q73 = 120"
  unfolding Q73_eq tail_fields update_fall_rix preCollision_def
    afterScroll_store_list[OF Q72_scroll(4,5)]
  by (simp_all add: afterScroll_fields afterScroll_rix Q72_scroll Q72_move spawned_R1 config)

lemma Q72_first: "firstLanding R1 (Frame 1168 0) Q72 = None"
  by (simp add: Q72_fields(1) Q72_landing)

lemma wf_Q72: "wf Q72" and pinned_Q72: "pinned Q72"
  using reachable_inv[OF reachable_Q72] by simp_all

lemma Q72_loop: "loop R1 1168 0 Q72 = Inr Q73"
  by (simp add: Q73_def loop_afterFrame[OF wf_Q72 Q72_fields(1)])

lemma reachable_Q73: "reachable R1 Q73"
  by (rule reachable.step[OF reachable_Q72, of "Frame 1168 0"]) (simp_all add: Q72_loop)

lemma Q73_refs: "refs_ok (Q73\<lparr> lastTime := 1184 \<rparr>)"
  by (simp add: refs_ok_def Q73_fields)

lemma Q73_store:
  "store (update_move 0 (Q73\<lparr> lastTime := 1184 \<rparr>)) =
     [\<lparr> plat_x = 300, plat_y = 702, plat_width = 200, plat_height = 20,
        plat_color = NEON_MAGENTA, plat_vx = 0, passed = False, landedOn = False \<rparr>,
      \<lparr> plat_x = 147679 / 640, plat_y = 596, plat_width = 130, plat_height = 20,
        plat_color = NEON_LIME, plat_vx = - (7 / 2), passed = False, landedOn = True \<rparr>,
      \<lparr> plat_x = 511433 / 1280, plat_y = 446, plat_width = 130, plat_height = 20,
        plat_color = NEON_LIME, plat_vx = - (7 / 2), passed = False, landedOn = False \<rparr>,
      \<lparr> plat_x = 735 / 8, plat_y = 296, plat_width = 130, plat_height = 20,
        plat_color = NEON_LIME, plat_vx = 7 / 2, passed = False, landedOn = False \<rparr>,
      \<lparr> plat_x = 711 / 10, plat_y = 146, plat_width = 130, plat_height = 20,
        plat_color = NEON_LIME, plat_vx = - (7 / 2), passed = False, landedOn = False \<rparr>,
      \<lparr> plat_x = 711 / 10, plat_y = - 4, plat_width = 130, plat_height = 20,
        plat_color = NEON_LIME, plat_vx = - (7 / 2), passed = False, landedOn = False \<rparr>,
      \<lparr> plat_x = 2909 / 10, plat_y = - 154, plat_width = 130, plat_height = 20,
        plat_color = NEON_LIME, plat_vx = - (7 / 2), passed = False, landedOn = False \<rparr>]"
  by (simp add: update_move_eq[OF Q73_refs] Q73_fields advance_def speedMultiplier_def Let_def)

lemma Q73_player:
  "ply_x (player (update_move 0 (Q73\<lparr> lastTime := 1184 \<rparr>))) = 400"
  "ply_y (player (update_move 0 (Q73\<lparr> lastTime := 1184 \<rparr>))) = 359"
  "ply_vy (player (update_move 0 (Q73\<lparr> lastTime := 1184 \<rparr>))) = - 1"
  "ply_width (player (update_move 0 (Q73\<lparr> lastTime := 1184 \<rparr>))) = 40"
  "ply_height (player (update_move 0 (Q73\<lparr> lastTime := 1184 \<rparr>))) = 40"
  "ply_color (player (update_move 0 (Q73\<lparr> lastTime := 1184 \<rparr>))) = NEON_LIME"
  "jumps (player (update_move 0 (Q73\<lparr> lastTime := 1184 \<rparr>))) = 1"
  "currentPlatform (player (update_move 0 (Q73\<lparr> lastTime := 1184 \<rparr>))) = None"
  unfolding update_move_player_eq[OF Q73_refs] Q73_store
  by (simp_all add: Q73_fields Player_physics_def carry_def speedMultiplier_def Let_def config)

lemmas Q73_move = Q73_store Q73_player update_move_fields[OF Q73_refs] Q73_fields

lemma Q73_scroll:
  "scrolls (update_move 0 (Q73\<lparr> lastTime := 1184 \<rparr>))"
  "scrollDiff (update_move 0 (Q73\<lparr> lastTime := 1184 \<rparr>)) = 1"
  "\<not> recycles (update_move 0 (Q73\<lparr> lastTime := 1184 \<rparr>))"
  "refs_ok (update_move 0 (Q73\<lparr> lastTime := 1184 \<rparr>))"
  "platforms (update_move 0 (Q73\<lparr> lastTime := 1184 \<rparr>)) \<noteq> []"
  by (simp_all add: scrolls_def scrollDiff_def recycles_def refs_ok_def Q73_move)

lemma Q73_landing:
  "landingPlatform (preCollision R1 1184 0 Q73) = None"
  by (simp add: landingPlatform_def preCollision_def afterScroll_fields Q73_scroll Q73_move)

lemma Q74_eq:
  "Q74 = update_cosmetics (update_fall R1 (preCollision R1 1184 0 Q73))"
  using Q73_landing
  by (simp add: Q74_def afterFrame_def update_collision_eq)

lemma Q74_fields:
  "state Q74 = Playing"
  "score Q74 = 1"
  "perfectStreak Q74 = 1"
  "isFever Q74 = False"
  "viewportWidth Q74 = 800"
  "viewportHeight Q74 = 600"
  "platforms Q74 = [1, 2, 3, 4, 5, 6]"
  "notifications Q74 = [ScoreUpdate 0, ComboChange 0, FeverChange False, GameStateChange Playing, ScoreUpdate 1, ComboChange 1]"
  "store Q74 =
     [\<lparr> plat_x = 300, plat_y = 702, plat_width = 200, plat_height = 20,
        plat_color = NEON_MAGENTA, plat_vx = 0, passed = False, landedOn = False \<rparr>,
      \<lparr> plat_x = 147679 / 640, plat_y = 597, plat_width = 130, plat_height = 20,
        plat_color = NEON_LIME, plat_vx = - (7 / 2), passed = False, landedOn = True \<rparr>,
      \<lparr> plat_x = 511433 / 1280, plat_y = 447, plat_width = 130, plat_height = 20,
        plat_color = NEON_LIME, plat_vx = - (7 / 2), passed = False, landedOn = False \<rparr>,
      \<lparr> plat_x = 735 / 8, plat_y = 297, plat_width = 130, plat_height = 20,
        plat_color = NEON_LIME, plat_vx = 7 / 2, passed = False, landedOn = False \<rparr>,
      \<lparr> plat_x = 711 / 10, plat_y = 147, plat_width = 130, plat_height = 20,
        plat_color = NEON_LIME, plat_vx = - (7 / 2), passed = False, landedOn = False \<rparr>,
      \<lparr> plat_x = 711 / 10, plat_y = - 3, plat_width = 130, plat_height = 20,
        plat_color = NEON_LIME, plat_vx = - (7 / 2), passed = False, landedOn = False \<rparr>,
      \<lparr> plat_x = 2909 / 10, plat_y = - 153, plat_width = 130, plat_height = 20,
        plat_color = NEON_LIME, plat_vx = - (7 / 2), passed = False, landedOn = False \<rparr>]"
  "ply_x (player Q74) = 400"
  "ply_y (player Q74) = 360"
  "ply_vy (player Q74) = - 1"
  "ply_width (player Q74) = 40"
  "ply_height (player Q74) = 40"
  "ply_color (player Q74) = NEON_LIME"
  "jumps (player Q74) = 1"
  "currentPlatform (player Q74) = None"
  "rix Q74 = 120"
  unfolding Q74_eq tail_fields update_fall_rix preCollision_def
    afterScroll_store_list[OF Q73_scroll(4,5)]
  by (simp_all add: afterScroll_fields afterScroll_rix Q73_scroll Q73_move spawned_R1 config)

lemma Q73_first: "firstLanding R1 (Frame 1184 0) Q73 = None"
  by (simp add: Q73_fields(1) Q73_landing)

lemma wf_Q73: "wf Q73" and pinned_Q73: "pinned Q73"
  using reachable_inv[OF reachable_Q73] by simp_all

lemma Q73_loop: "loop R1 1184 0 Q73 = Inr Q74"
  by (simp add: Q74_def loop_afterFrame[OF wf_Q73 Q73_fields(1)])

lemma reachable_Q74: "reachable R1 Q74"
  by (rule reachable.step[OF reachable_Q73, of "Frame 1184 0"]) (simp_all add: Q73_loop)

lemma Q74_refs: "refs_ok (Q74\<lparr> lastTime := 1200 \<rparr>)"
  by (simp add: refs_ok_def Q74_fields)

lemma Q74_store:
  "store (update_move 0 (Q74\<lparr> lastTime := 1200 \<rparr>)) =
     [\<lparr> plat_x = 300, plat_y = 702, plat_width = 200, plat_height = 20,
        plat_color = NEON_MAGENTA, plat_vx = 0, passed = False, landedOn = False \<rparr>,
      \<lparr> plat_x = 145327 / 640, plat_y = 597, plat_width = 130, plat_height = 20,
        plat_color = NEON_LIME, plat_vx = - (7 / 2), passed = False, landedOn = True \<rparr>,
      \<lparr> plat_x = 506729 / 1280, plat_y = 447, plat_width = 130, plat_height = 20,
        plat_color = NEON_LIME, plat_vx = - (7 / 2), passed = False, landedOn = False \<rparr>,
      \<lparr> plat_x = 1911 / 20, plat_y = 297, plat_width = 130, plat_height = 20,
        plat_color = NEON_LIME, plat_vx = 7 / 2, passed = False, landedOn = False \<rparr>,
      \<lparr> plat_x = 2697 / 40, plat_y = 147, plat_width = 130, plat_height = 20,
        plat_color = NEON_LIME, plat_vx = - (7 / 2), passed = False, landedOn = False \<rparr>,
      \<lparr> plat_x = 2697 / 40, plat_y = - 3, plat_width = 130, plat_height = 20,
        plat_color = NEON_LIME, plat_vx = - (7 / 2), passed = False, landedOn = False \<rparr>,
      \<lparr> plat_x = 11489 / 40, plat_y = - 153, plat_width = 130, plat_height = 20,
        plat_color = NEON_LIME, plat_vx = - (7 / 2), passed = False, landedOn = False \<rparr>]"
  by (simp add: update_move_eq[OF Q74_refs] Q74_fields advance_def speedMultiplier_def Let_def)

lemma Q74_player:
  "ply_x (player (update_move 0 (Q74\<lparr> lastTime := 1200 \<rparr>))) = 400"
  "ply_y (player (update_move 0 (Q74\<lparr> lastTime := 1200 \<rparr>))) = 719 / 2"
  "ply_vy (player (update_move 0 (Q74\<lparr> lastTime := 1200 \<rparr>))) = - (1 / 2)"
  "ply_width (player (update_move 0 (Q74\<lparr> lastTime := 1200 \<rparr>))) = 40"
  "ply_height (player (update_move 0 (Q74\<lparr> lastTime := 1200 \<rparr>))) = 40"
  "ply_color (player (update_move 0 (Q74\<lparr> lastTime := 1200 \<rparr>))) = NEON_LIME"
  "jumps (player (update_move 0 (Q74\<lparr> lastTime := 1200 \<rparr>))) = 1"
  "currentPlatform (player (update_move 0 (Q74\<lparr> lastTime := 1200 \<rparr>))) = None"
  unfolding update_move_player_eq[OF Q74_refs] Q74_store
  by (simp_all add: Q74_fields Player_physics_def carry_def speedMultiplier_def Let_def config)

lemmas Q74_move = Q74_store Q74_player update_move_fields[OF Q74_refs] Q74_fields

lemma Q74_scroll:
  "scrolls (update_move 0 (Q74\<lparr> lastTime := 1200 \<rparr>))"
  "scrollDiff (update_move 0 (Q74\<lparr> lastTime := 1200 \<rparr>)) = 1 / 2"
  "\<not> recycles (update_move 0 (Q74\<lparr> lastTime := 1200 \<rparr>))"
  "refs_ok (update_move 0 (Q74\<lparr> lastTime := 1200 \<rparr>))"
  "platforms (update_move 0 (Q74\<lparr> lastTime := 1200 \<rparr>)) \<noteq> []"
  by (simp_all add: scrolls_def scrollDiff_def recycles_def refs_ok_def Q74_move)

lemma Q74_landing:
  "landingPlatform (preCollision R1 1200 0 Q74) = None"
  by (simp add: landingPlatform_def preCollision_def afterScroll_fields Q74_scroll Q74_move)

lemma Q75_eq:
  "Q75 = update_cosmetics (update_fall R1 (preCollision R1 1200 0 Q74))"
  using Q74_landing
  by (simp add: Q75_def afterFrame_def update_collision_eq)

lemma Q75_fields:
  "state Q75 = Playing"
  "score Q75 = 1"
  "perfectStreak Q75 = 1"
  "isFever Q75 = False"
  "viewportWidth Q75 = 800"
  "viewportHeight Q75 = 600"
  "platforms Q75 = [1, 2, 3, 4, 5, 6]"
  "notifications Q75 = [ScoreUpdate 0, ComboChange 0, FeverChange False, GameStateChange Playing, ScoreUpdate 1, ComboChange 1]"
  "store Q75 =
     [\<lparr> plat_x = 300, plat_y = 702, plat_width = 200, plat_height = 20,
        plat_color = NEON_MAGENTA, plat_vx = 0, passed = False, landedOn = False \<rparr>,
      \<lparr> plat_x = 145327 / 640, plat_y = 1195 / 2, plat_width = 130, plat_height = 20,
        plat_color = NEON_LIME, plat_vx = - (7 / 2), passed = False, landedOn = True \<rparr>,
      \<lparr> plat_x = 506729 / 1280, plat_y = 895 / 2, plat_width = 130, plat_height = 20,
        plat_color = NEON_LIME, plat_vx = - (7 / 2), passed = False, landedOn = False \<rparr>,
      \<lparr> plat_x = 1911 / 20, plat_y = 595 / 2, plat_width = 130, plat_height = 20,
        plat_color = NEON_LIME, plat_vx = 7 / 2, passed = False, landedOn = False \<rparr>,
      \<lparr> plat_x = 2697 / 40, plat_y = 295 / 2, plat_width = 130, plat_height = 20,
        plat_color = NEON_LIME, plat_vx = - (7 / 2), passed = False, landedOn = False \<rparr>,
      \<lparr> plat_x = 2697 / 40, plat_y = - (5 / 2), plat_width = 130, plat_height = 20,
        plat_color = NEON_LIME, plat_vx = - (7 / 2), passed = False, landedOn = False \<rparr>,
      \<lparr> plat_x = 11489 / 40, plat_y = - (305 / 2), plat_width = 130, plat_height = 20,
        plat_color = NEON_LIME, plat_vx = - (7 / 2), passed = False, landedOn = False \<rparr>]"
  "ply_x (player Q75) = 400"
  "ply_y (player Q75) = 360"
  "ply_vy (player Q75) = - (1 / 2)"
  "ply_width (player Q75) = 40"
  "ply_height (player Q75) = 40"
  "ply_color (player Q75) = NEON_LIME"
  "jumps (player Q75) = 1"
  "currentPlatform (player Q75) = None"
  "rix Q75 = 120"
  unfolding Q75_eq tail_fields update_fall_rix preCollision_def
    afterScroll_store_list[OF Q74_scroll(4,5)]
  by (simp_all add: afterScroll_fields afterScroll_rix Q74_scroll Q74_move spawned_R1 config)

lemma Q74_first: "firstLanding R1 (Frame 1200 0) Q74 = None"
  by (simp add: Q74_fields(1) Q74_landing)

lemma wf_Q74: "wf Q74" and pinned_Q74: "pinned Q74"
  using reachable_inv[OF reachable_Q74] by simp_all

lemma Q74_loop: "loop R1 1200 0 Q74 = Inr Q75"
  by (simp add: Q75_def loop_afterFrame[OF wf_Q74 Q74_fields(1)])

lemma reachable_Q75: "reachable R1 Q75"
  by (rule reachable.step[OF reachable_Q74, of "Frame 1200 0"]) (simp_all add: Q74_loop)

lemma Q75_refs: "refs_ok (Q75\<lparr> lastTime := 1216 \<rparr>)"
  by (simp add: refs_ok_def Q75_fields)

lemma Q75_store:
  "store (update_move 0 (Q75\<lparr> lastTime := 1216 \<rparr>)) =
     [\<lparr> plat_x = 300, plat_y = 702, plat_width = 200, plat_height = 20,
        plat_color = NEON_MAGENTA, plat_vx = 0, passed = False, landedOn = False \<rparr>,
      \<lparr> plat_x = 28595 / 128, plat_y = 1195 / 2, plat_width = 130, plat_height = 20,
        plat_color = NEON_LIME, plat_vx = - (7 / 2), passed = False, landedOn = True \<rparr>,
      \<lparr> plat_x = 100405 / 256, plat_y = 895 / 2, plat_width = 130, plat_height = 20,
        plat_color = NEON_LIME, plat_vx = - (7 / 2), passed = False, landedOn = False \<rparr>,
      \<lparr> plat_x = 3969 / 40, plat_y = 595 / 2, plat_width = 130, plat_height = 20,
        plat_color = NEON_LIME, plat_vx = 7 / 2, passed = False, landedOn = False \<rparr>,
      \<lparr> plat_x = 255 / 4, plat_y = 295 / 2, plat_width = 130, plat_height = 20,
        plat_color = NEON_LIME, plat_vx = - (7 / 2), passed = False, landedOn = False \<rparr>,
      \<lparr> plat_x = 255 / 4, plat_y = - (5 / 2), plat_width = 130, plat_height = 20,
        plat_color = NEON_LIME, plat_vx = - (7 / 2), passed = False, landedOn = False \<rparr>,
      \<lparr> plat_x = 5671 / 20, plat_y = - (305 / 2), plat_width = 130, plat_height = 20,
        plat_color = NEON_LIME, plat_vx = - (7 / 2), passed = False, landedOn = False \<rparr>]"
  by (simp add: update_move_eq[OF Q75_refs] Q75_fields advance_def speedMultiplier_def Let_def)

lemma Q75_player:
  "ply_x (player (update_move 0 (Q75\<lparr> lastTime := 1216 \<rparr>))) = 400"
  "ply_y (player (update_move 0 (Q75\<lparr> lastTime := 1216 \<rparr>))) = 360"
  "ply_vy (player (update_move 0 (Q75\<lparr> lastTime := 1216 \<rparr>))) = 0"
  "ply_width (player (update_move 0 (Q75\<lparr> lastTime := 1216 \<rparr>))) = 40"
  "ply_height (player (update_move 0 (Q75\<lparr> lastTime := 1216 \<rparr>))) = 40"
  "ply_color (player (update_move 0 (Q75\<lparr> lastTime := 1216 \<rparr>))) = NEON_LIME"
  "jumps (player (update_move 0 (Q75\<lparr> lastTime := 1216 \<rparr>))) = 1"
  "currentPlatform (player (update_move 0 (Q75\<lparr> lastTime := 1216 \<rparr>))) = None"
  unfolding update_move_player_eq[OF Q75_refs] Q75_store
  by (simp_all add: Q75_fields Player_physics_def carry_def speedMultiplier_def Let_def config)

lemmas Q75_move = Q75_store Q75_player update_move_fields[OF Q75_refs] Q75_fields

lemma Q75_preCollision:
  "preCollision R1 1216 0 Q75 = update_move 0 (Q75\<lparr> lastTime := 1216 \<rparr>)"
  by (simp add: preCollision_def afterScroll_def scrolls_def Q75_move)

lemma Q75_landing:
  "landingPlatform (preCollision R1 1216 0 Q75) = None"
  by (simp add: Q75_preCollision landingPlatform_def hits_def Let_def Q75_move)

lemma Q76_eq:
  "Q76 = update_cosmetics (update_fall R1 (update_move 0 (Q75\<lparr> lastTime := 1216 \<rparr>)))"
  using Q75_landing
  by (simp add: Q76_def afterFrame_def update_collision_eq Q75_preCollision)

lemma Q76_fields:
  "state Q76 = Playing"
  "score Q76 = 1"
  "perfectStreak Q76 = 1"
  "isFever Q76 = False"
  "viewportWidth Q76 = 800"
  "viewportHeight Q76 = 600"
  "platforms Q76 = [1, 2, 3, 4, 5, 6]"
  "notifications Q76 = [ScoreUpdate 0, ComboChange 0, FeverChange False, GameStateChange Playing, ScoreUpdate 1, ComboChange 1]"
  "store Q76 =
     [\<lparr> plat_x = 300, plat_y = 702, plat_width = 200, plat_height = 20,
        plat_color = NEON_MAGENTA, plat_vx = 0, passed = False, landedOn = False \<rparr>,
      \<lparr> plat_x = 28595 / 128, plat_y = 1195 / 2, plat_width = 130, plat_height = 20,
        plat_color = NEON_LIME, plat_vx = - (7 / 2), passed = False, landedOn = True \<rparr>,
      \<lparr> plat_x = 100405 / 256, plat_y = 895 / 2, plat_width = 130, plat_height = 20,
        plat_color = NEON_LIME, plat_vx = - (7 / 2), passed = False, landedOn = False \<rparr>,
      \<lparr> plat_x = 3969 / 40, plat_y = 595 / 2, plat_width = 130, plat_height = 20,
        plat_color = NEON_LIME, plat_vx = 7 / 2, passed = False, landedOn = False \<rparr>,
      \<lparr> plat_x = 255 / 4, plat_y = 295 / 2, plat_width = 130, plat_height = 20,
        plat_color = NEON_LIME, plat_vx = - (7 / 2), passed = False, landedOn = False \<rparr>,
      \<lparr> plat_x = 255 / 4, plat_y = - (5 / 2), plat_width = 130, plat_height = 20,
        plat_color = NEON_LIME, plat_vx = - (7 / 2), passed = False, landedOn = False \<rparr>,
      \<lparr> plat_x = 5671 / 20, plat_y = - (305 / 2), plat_width = 130, plat_height = 20,
        plat_color = NEON_LIME, plat_vx = - (7 / 2), passed = False, landedOn = False \<rparr>]"
  "ply_x (player Q76) = 400"
  "ply_y (player Q76) = 360"
  "ply_vy (player Q76) = 0"
  "ply_width (player Q76) = 40"
  "ply_height (player Q76) = 40"
  "ply_color (player Q76) = NEON_LIME"
  "jumps (player Q76) = 1"
  "currentPlatform (player Q76) = None"
  "rix Q76 = 120"
  unfolding Q76_eq
  by (simp_all add: tail_fields update_fall_rix landed_fields landed_store landed_score
        landed_perfectStreak landed_isFever landed_notifications landed_player landed_rix
        land_def landingNotes_def perfectHit_def Q75_move config)

lemma Q75_first: "firstLanding R1 (Frame 1216 0) Q75 = None"
  by (simp add: Q75_fields(1) Q75_landing)

lemma wf_Q75: "wf Q75" and pinned_Q75: "pinned Q75"
  using reachable_inv[OF reachable_Q75] by simp_all

lemma Q75_loop: "loop R1 1216 0 Q75 = Inr Q76"
  by (simp add: Q76_def loop_afterFrame[OF wf_Q75 Q75_fields(1)])

lemma reachable_Q76: "reachable R1 Q76"
  by (rule reachable.step[OF reachable_Q75, of "Frame 1216 0"]) (simp_all add: Q75_loop)

lemma Q76_refs: "refs_ok (Q76\<lparr> lastTime := 1232 \<rparr>)"
  by (simp add: refs_ok_def Q76_fields)

lemma Q76_store:
  "store (update_move 0 (Q76\<lparr> lastTime := 1232 \<rparr>)) =
     [\<lparr> plat_x = 300, plat_y = 702, plat_width = 200, plat_height = 20,
        plat_color = NEON_MAGENTA, plat_vx = 0, passed = False, landedOn = False \<rparr>,
      \<lparr> plat_x = 140623 / 640, plat_y = 1195 / 2, plat_width = 130, plat_height = 20,
        plat_color = NEON_LIME, plat_vx = - (7 / 2), passed = False, landedOn = True \<rparr>,
      \<lparr> plat_x = 497321 / 1280, plat_y = 895 / 2, plat_width = 130, plat_height = 20,
        plat_color = NEON_LIME, plat_vx = - (7 / 2), passed = False, landedOn = False \<rparr>,
      \<lparr> plat_x = 1029 / 10, plat_y = 595 / 2, plat_width = 130, plat_height = 20,
        plat_color = NEON_LIME, plat_vx = 7 / 2, passed = False, landedOn = False \<rparr>,
      \<lparr> plat_x = 2403 / 40, plat_y = 295 / 2, plat_width = 130, plat_height = 20,
        plat_color = NEON_LIME, plat_vx = - (7 / 2), passed = False, landedOn = False \<rparr>,
      \<lparr> plat_x = 2403 / 40, plat_y = - (5 / 2), plat_width = 130, plat_height = 20,
        plat_color = NEON_LIME, plat_vx = - (7 / 2), passed = False, landedOn = False \<rparr>,
      \<lparr> plat_x = 2239 / 8, plat_y = - (305 / 2), plat_width = 130, plat_height = 20,
        plat_color = NEON_LIME, plat_vx = - (7 / 2), passed = False, landedOn = False \<rparr>]"
  by (simp add: update_move_eq[OF Q76_refs] Q76_fields advance_def speedMultiplier_def Let_def)

lemma Q76_player:
  "ply_x (player (update_move 0 (Q76\<lparr> lastTime := 1232 \<rparr>))) = 400"
  "ply_y (player (update_move 0 (Q76\<lparr> lastTime := 1232 \<rparr>))) = 721 / 2"
  "ply_vy (player (update_move 0 (Q76\<lparr> lastTime := 1232 \<rparr>))) = 1 / 2"
  "ply_width (player (update_move 0 (Q76\<lparr> lastTime := 1232 \<rparr>))) = 40"
  "ply_height (player (update_move 0 (Q76\<lparr> lastTime := 1232 \<rparr>))) = 40"
  "ply_color (player (update_move 0 (Q76\<lparr> lastTime := 1232 \<rparr>))) = NEON_LIME"
  "jumps (player (update_move 0 (Q76\<lparr> lastTime := 1232 \<rparr>))) = 1"
  "currentPlatform (player (update_move 0 (Q76\<lparr> lastTime := 1232 \<rparr>))) = None"
  unfolding update_move_player_eq[OF Q76_refs] Q76_store
  by (simp_all add: Q76_fields Player_physics_def carry_def speedMultiplier_def Let_def config)

lemmas Q76_move = Q76_store Q76_player update_move_fields[OF Q76_refs] Q76_fields

lemma Q76_preCollision:
  "preCollision R1 1232 0 Q76 = update_move 0 (Q76\<lparr> lastTime := 1232 \<rparr>)"
  by (simp add: preCollision_def afterScroll_def scrolls_def Q76_move)

lemma Q76_landing:
  "landingPlatform (preCollision R1 1232 0 Q76) = None"
  by (simp add: Q76_preCollision landingPlatform_def hits_def Let_def Q76_move)

lemma Q77_eq:
  "Q77 = update_cosmetics (update_fall R1 (update_move 0 (Q76\<lparr> lastTime := 1232 \<rparr>)))"
  using Q76_landing
  by (simp add: Q77_def afterFrame_def update_collision_eq Q76_preCollision)

lemma Q77_fields:
  "state Q77 = Playing"
  "score Q77 = 1"
  "perfectStreak Q77 = 1"
  "isFever Q77 = False"
  "viewportWidth Q77 = 800"
  "viewportHeight Q77 = 600"
  "platforms Q77 = [1, 2, 3, 4, 5, 6]"
  "notifications Q77 = [ScoreUpdate 0, ComboChange 0, FeverChange False, GameStateChange Playing, ScoreUpdate 1, ComboChange 1]"
  "store Q77 =
     [\<lparr> plat_x = 300, plat_y = 702, plat_width = 200, plat_height = 20,
        plat_color = NEON_MAGENTA, plat_vx = 0, passed = False, landedOn = False \<rparr>,
      \<lparr> plat_x = 140623 / 640, plat_y = 1195 / 2, plat_width = 130, plat_height = 20,
        plat_color = NEON_LIME, plat_vx = - (7 / 2), passed = False, landedOn = True \<rparr>,
      \<lparr> plat_x = 497321 / 1280, plat_y = 895 / 2, plat_width = 130, plat_height = 20,
        plat_color = NEON_LIME, plat_vx = - (7 / 2), passed = False, landedOn = False \<rparr>,
      \<lparr> plat_x = 1029 / 10, plat_y = 595 / 2, plat_width = 130, plat_height = 20,
        plat_color = NEON_LIME, plat_vx = 7 / 2, passed = False, landedOn = False \<rparr>,
      \<lparr> plat_x = 2403 / 40, plat_y = 295 / 2, plat_width = 130, plat_height = 20,
        plat_color = NEON_LIME, plat_vx = - (7 / 2), passed = False, landedOn = False \<rparr>,
      \<lparr> plat_x = 2403 / 40, plat_y = - (5 / 2), plat_width = 130, plat_height = 20,
        plat_color = NEON_LIME, plat_vx = - (7 / 2), passed = False, landedOn = False \<rparr>,
      \<lparr> plat_x = 2239 / 8, plat_y = - (305 / 2), plat_width = 130, plat_height = 20,
        plat_color = NEON_LIME, plat_vx = - (7 / 2), passed = False, landedOn = False \<rparr>]"
  "ply_x (player Q77) = 400"
  "ply_y (player Q77) = 721 / 2"
  "ply_vy (player Q77) = 1 / 2"
  "ply_width (player Q77) = 40"
  "ply_height (player Q77) = 40"
  "ply_color (player Q77) = NEON_LIME"
  "jumps (player Q77) = 1"
  "currentPlatform (player Q77) = None"
  "rix Q77 = 120"
  unfolding Q77_eq
  by (simp_all add: tail_fields update_fall_rix landed_fields landed_store landed_score
        landed_perfectStreak landed_isFever landed_notifications landed_player landed_rix
        land_def landingNotes_def perfectHit_def Q76_move config)

lemma Q76_first: "firstLanding R1 (Frame 1232 0) Q76 = None"
  by (simp add: Q76_fields(1) Q76_landing)

lemma wf_Q76: "wf Q76" and pinned_Q76: "pinned Q76"
  using reachable_inv[OF reachable_Q76] by simp_all

lemma Q76_loop: "loop R1 1232 0 Q76 = Inr Q77"
  by (simp add: Q77_def loop_afterFrame[OF wf_Q76 Q76_fields(1)])

lemma reachable_Q77: "reachable R1 Q77"
  by (rule reachable.step[OF reachable_Q76, of "Frame 1232 0"]) (simp_all add: Q76_loop)

lemma Q77_refs: "refs_ok (Q77\<lparr> lastTime := 1248 \<rparr>)"
  by (simp add: refs_ok_def Q77_fields)

lemma Q77_store:
  "store (update_move 0 (Q77\<lparr> lastTime := 1248 \<rparr>)) =
     [\<lparr> plat_x = 300, plat_y = 702, plat_width = 200, plat_height = 20,
        plat_color = NEON_MAGENTA, plat_vx = 0, passed = False, landedOn = False \<rparr>,
      \<lparr> plat_x = 138271 / 640, plat_y = 1195 / 2, plat_width = 130, plat_height = 20,
        plat_color = NEON_LIME, plat_vx = - (7 / 2), passed = False, landedOn = True \<rparr>,
      \<lparr> plat_x = 492617 / 1280, plat_y = 895 / 2, plat_width = 130, plat_height = 20,
        plat_color = NEON_LIME, plat_vx = - (7 / 2), passed = False, landedOn = False \<rparr>,
      \<lparr> plat_x = 4263 / 40, plat_y = 595 / 2, plat_width = 130, plat_height = 20,
        plat_color = NEON_LIME, plat_vx = 7 / 2, passed = False, landedOn = False \<rparr>,
      \<lparr> plat_x = 282 / 5, plat_y = 295 / 2, plat_width = 130, plat_height = 20,
        plat_color = NEON_LIME, plat_vx = - (7 / 2), passed = False, landedOn = False \<rparr>,
      \<lparr> plat_x = 282 / 5, plat_y = - (5 / 2), plat_width = 130, plat_height = 20,
        plat_color = NEON_LIME, plat_vx = - (7 / 2), passed = False, landedOn = False \<rparr>,
      \<lparr> plat_x = 1381 / 5, plat_y = - (305 / 2), plat_width = 130, plat_height = 20,
        plat_color = NEON_LIME, plat_vx = - (7 / 2), passed = False, landedOn = False \<rparr>]"
  by (simp add: update_move_eq[OF Q77_refs] Q77_fields advance_def speedMultiplier_def Let_def)

lemma Q77_player:
  "ply_x (player (update_move 0 (Q77\<lparr> lastTime := 1248 \<rparr>))) = 400"
  "ply_y (player (update_move 0 (Q77\<lparr> lastTime := 1248 \<rparr>))) = 723 / 2"
  "ply_vy (player (update_move 0 (Q77\<lparr> lastTime := 1248 \<rparr>))) = 1"
  "ply_width (player (update_move 0 (Q77\<lparr> lastTime := 1248 \<rparr>))) = 40"
  "ply_height (player (update_move 0 (Q77\<lparr> lastTime := 1248 \<rparr>))) = 40"
  "ply_color (player (update_move 0 (Q77\<lparr> lastTime := 1248 \<rparr>))) = NEON_LIME"
  "jumps (player (update_move 0 (Q77\<lparr> lastTime := 1248 \<rparr>))) = 1"
  "currentPlatform (player (update_move 0 (Q77\<lparr> lastTime := 1248 \<rparr>))) = None"
  unfolding update_move_player_eq[OF Q77_refs] Q77_store
  by (simp_all add: Q77_fields Player_physics_def carry_def speedMultiplier_def Let_def config)

lemmas Q77_move = Q77_store Q77_player update_move_fields[OF Q77_refs] Q77_fields

lemma Q77_preCollision:
  "preCollision R1 1248 0 Q77 = update_move 0 (Q77\<lparr> lastTime := 1248 \<rparr>)"
  by (simp add: preCollision_def afterScroll_def scrolls_def Q77_move)

lemma Q77_landing:
  "landingPlatform (preCollision R1 1248 0 Q77) = None"
  by (simp add: Q77_preCollision landingPlatform_def hits_def Let_def Q77_move)

lemma Q78_eq:
  "Q78 = update_cosmetics (update_fall R1 (update_move 0 (Q77\<lparr> lastTime := 1248 \<rparr>)))"
  using Q77_landing
  by (simp add: Q78_def afterFrame_def update_collision_eq Q77_preCollision)

lemma Q78_fields:
  "state Q78 = Playing"
  "score Q78 = 1"
  "perfectStreak Q78 = 1"
  "isFever Q78 = False"
  "viewportWidth Q78 = 800"
  "viewportHeight Q78 = 600"
  "platforms Q78 = [1, 2, 3, 4, 5, 6]"
  "notifications Q78 = [ScoreUpdate 0, ComboChange 0, FeverChange False, GameStateChange Playing, ScoreUpdate 1, ComboChange 1]"
  "store Q78 =
     [\<lparr> plat_x = 300, plat_y = 702, plat_width = 200, plat_height = 20,
        plat_color = NEON_MAGENTA, plat_vx = 0, passed = False, landedOn = False \<rparr>,
      \<lparr> plat_x = 138271 / 640, plat_y = 1195 / 2, plat_width = 130, plat_height = 20,
        plat_color = NEON_LIME, plat_vx = - (7 / 2), passed = False, landedOn = True \<rparr>,
      \<lparr> plat_x = 492617 / 1280, plat_y = 895 / 2, plat_width = 130, plat_height = 20,
        plat_color = NEON_LIME, plat_vx = - (7 / 2), passed = False, landedOn = False \<rparr>,
      \<lparr> plat_x = 4263 / 40, plat_y = 595 / 2, plat_width = 130, plat_height = 20,
        plat_color = NEON_LIME, plat_vx = 7 / 2, passed = False, landedOn = False \<rparr>,
      \<lparr> plat_x = 282 / 5, plat_y = 295 / 2, plat_width = 130, plat_height = 20,
        plat_color = NEON_LIME, plat_vx = - (7 / 2), passed = False, landedOn = False \<rparr>,
      \<lparr> plat_x = 282 / 5, plat_y = - (5 / 2), plat_width = 130, plat_height = 20,
        plat_color = NEON_LIME, plat_vx = - (7 / 2), passed = False, landedOn = False \<rparr>,
      \<lparr> plat_x = 1381 / 5, plat_y = - (305 / 2), plat_width = 130, plat_height = 20,
        plat_color = NEON_LIME, plat_vx = - (7 / 2), passed = False, landedOn = False \<rparr>]"
  "ply_x (player Q78) = 400"
  "ply_y (player Q78) = 723 / 2"
  "ply_vy (player Q78) = 1"
  "ply_width (player Q78) = 40"
  "ply_height (player Q78) = 40"
  "ply_color (player Q78) = NEON_LIME"
  "jumps (player Q78) = 1"
  "currentPlatform (player Q78) = None"
  "rix Q78 = 120"
  unfolding Q78_eq
  by (simp_all add: tail_fields update_fall_rix landed_fields landed_store landed_score
        landed_perfectStreak landed_isFever landed_notifications landed_player landed_rix
        land_def landingNotes_def perfectHit_def Q77_move config)

lemma Q77_first: "firstLanding R1 (Frame 1248 0) Q77 = None"
  by (simp add: Q77_fields(1) Q77_landing)

lemma wf_Q77: "wf Q77" and pinned_Q77: "pinned Q77"
  using reachable_inv[OF reachable_Q77] by simp_all

lemma Q77_loop: "loop R1 1248 0 Q77 = Inr Q78"
  by (simp add: Q78_def loop_afterFrame[OF wf_Q77 Q77_fields(1)])

lemma reachable_Q78: "reachable R1 Q78"
  by (rule reachable.step[OF reachable_Q77, of "Frame 1248 0"]) (simp_all add: Q77_loop)

lemma Q78_refs: "refs_ok (Q78\<lparr> lastTime := 1264 \<rparr>)"
  by (simp add: refs_ok_def Q78_fields)

lemma Q78_store:
  "store (update_move 0 (Q78\<lparr> lastTime := 1264 \<rparr>)) =
     [\<lparr> plat_x = 300, plat_y = 702, plat_width = 200, plat_height = 20,
        plat_color = NEON_MAGENTA, plat_vx = 0, passed = False, landedOn = False \<rparr>,
      \<lparr> plat_x = 135919 / 640, plat_y = 1195 / 2, plat_width = 130, plat_height = 20,
        plat_color = NEON_LIME, plat_vx = - (7 / 2), passed = False, landedOn = True \<rparr>,
      \<lparr> plat_x = 487913 / 1280, plat_y = 895 / 2, plat_width = 130, plat_height = 20,
        plat_color = NEON_LIME, plat_vx = - (7 / 2), passed = False, landedOn = False \<rparr>,
      \<lparr> plat_x = 441 / 4, plat_y = 595 / 2, plat_width = 130, plat_height = 20,
        plat_color = NEON_LIME, plat_vx = 7 / 2, passed = False, landedOn = False \<rparr>,
      \<lparr> plat_x = 2109 / 40, plat_y = 295 / 2, plat_width = 130, plat_height = 20,
        plat_color = NEON_LIME, plat_vx = - (7 / 2), passed = False, landedOn = False \<rparr>,
      \<lparr> plat_x = 2109 / 40, plat_y = - (5 / 2), plat_width = 130, plat_height = 20,
        plat_color = NEON_LIME, plat_vx = - (7 / 2), passed = False, landedOn = False \<rparr>,
      \<lparr> plat_x = 10901 / 40, plat_y = - (305 / 2), plat_width = 130, plat_height = 20,
        plat_color = NEON_LIME, plat_vx = - (7 / 2), passed = False, landedOn = False \<rparr>]"
  by (simp add: update_move_eq[OF Q78_refs] Q78_fields advance_def speedMultiplier_def Let_def)

lemma Q78_player:
  "ply_x (player (update_move 0 (Q78\<lparr> lastTime := 1264 \<rparr>))) = 400"
  "ply_y (player (update_move 0 (Q78\<lparr> lastTime := 1264 \<rparr>))) = 363"
  "ply_vy (player (update_move 0 (Q78\<lparr> lastTime := 1264 \<rparr>))) = 3 / 2"
  "ply_width (player (update_move 0 (Q78\<lparr> lastTime := 1264 \<rparr>))) = 40"
  "ply_height (player (update_move 0 (Q78\<lparr> lastTime := 1264 \<rparr>))) = 40"
  "ply_color (player (update_move 0 (Q78\<lparr> lastTime := 1264 \<rparr>))) = NEON_LIME"
  "jumps (player (update_move 0 (Q78\<lparr> lastTime := 1264 \<rparr>))) = 1"
  "currentPlatform (player (update_move 0 (Q78\<lparr> lastTime := 1264 \<rparr>))) = None"
  unfolding update_move_player_eq[OF Q78_refs] Q78_store
  by (simp_all add: Q78_fields Player_physics_def carry_def speedMultiplier_def Let_def config)

lemmas Q78_move = Q78_store Q78_player update_move_fields[OF Q78_refs] Q78_fields

lemma Q78_preCollision:
  "preCollision R1 1264 0 Q78 = update_move 0 (Q78\<lparr> lastTime := 1264 \<rparr>)"
  by (simp add: preCollision_def afterScroll_def scrolls_def Q78_move)

lemma Q78_landing:
  "landingPlatform (preCollision R1 1264 0 Q78) = None"
  by (simp add: Q78_preCollision landingPlatform_def hits_def Let_def Q78_move)

lemma Q79_eq:
  "Q79 = update_cosmetics (update_fall R1 (update_move 0 (Q78\<lparr> lastTime := 1264 \<rparr>)))"
  using Q78_landing
  by (simp add: Q79_def afterFrame_def update_collision_eq Q78_preCollision)

lemma Q79_fields:
  "state Q79 = Playing"
  "score Q79 = 1"
  "perfectStreak Q79 = 1"
  "isFever Q79 = False"
  "viewportWidth Q79 = 800"
  "viewportHeight Q79 = 600"
  "platforms Q79 = [1, 2, 3, 4, 5, 6]"
  "notifications Q79 = [ScoreUpdate 0, ComboChange 0, FeverChange False, GameStateChange Playing, ScoreUpdate 1, ComboChange 1]"
  "store Q79 =
     [\<lparr> plat_x = 300, plat_y = 702, plat_width = 200, plat_height = 20,
        plat_color = NEON_MAGENTA, plat_vx = 0, passed = False, landedOn = False \<rparr>,
      \<lparr> plat_x = 135919 / 640, plat_y = 1195 / 2, plat_width = 130, plat_height = 20,
        plat_color = NEON_LIME, plat_vx = - (7 / 2), passed = False, landedOn = True \<rparr>,
      \<lparr> plat_x = 487913 / 1280, plat_y = 895 / 2, plat_width = 130, plat_height = 20,
        plat_color = NEON_LIME, plat_vx = - (7 / 2), passed = False, landedOn = False \<rparr>,
      \<lparr> plat_x = 441 / 4, plat_y = 595 / 2, plat_width = 130, plat_height = 20,
        plat_color = NEON_LIME, plat_vx = 7 / 2, passed = False, landedOn = False \<rparr>,
      \<lparr> plat_x = 2109 / 40, plat_y = 295 / 2, plat_width = 130, plat_height = 20,
        plat_color = NEON_LIME, plat_vx = - (7 / 2), passed = False, landedOn = False \<rparr>,
      \<lparr> plat_x = 2109 / 40, plat_y = - (5 / 2), plat_width = 130, plat_height = 20,
        plat_color = NEON_LIME, plat_vx = - (7 / 2), passed = False, landedOn = False \<rparr>,
      \<lparr> plat_x = 10901 / 40, plat_y = - (305 / 2), plat_width = 130, plat_height = 20,
        plat_color = NEON_LIME, plat_vx = - (7 / 2), passed = False, landedOn = False \<rparr>]"
  "ply_x (player Q79) = 400"
  "ply_y (player Q79) = 363"
  "ply_vy (player Q79) = 3 / 2"
  "ply_width (player Q79) = 40"
  "ply_height (player Q79) = 40"
  "ply_color (player Q79) = NEON_LIME"
  "jumps (player Q79) = 1"
  "currentPlatform (player Q79) = None"
  "rix Q79 = 120"
  unfolding Q79_eq
  by (simp_all add: tail_fields update_fall_rix landed_fields landed_store landed_score
        landed_perfectStreak landed_isFever landed_notifications landed_player landed_rix
        land_def landingNotes_def perfectHit_def Q78_move config)

lemma Q78_first: "firstLanding R1 (Frame 1264 0) Q78 = None"
  by (simp add: Q78_fields(1) Q78_landing)

lemma wf_Q78: "wf Q78" and pinned_Q78: "pinned Q78"
  using reachable_inv[OF reachable_Q78] by simp_all

lemma Q78_loop: "loop R1 1264 0 Q78 = Inr Q79"
  by (simp add: Q79_def loop_afterFrame[OF wf_Q78 Q78_fields(1)])

lemma reachable_Q79: "reachable R1 Q79"
  by (rule reachable.step[OF reachable_Q78, of "Frame 1264 0"]) (simp_all add: Q78_loop)

lemma Q79_refs: "refs_ok (Q79\<lparr> lastTime := 1280 \<rparr>)"
  by (simp add: refs_ok_def Q79_fields)

lemma Q79_store:
  "store (update_move 0 (Q79\<lparr> lastTime := 1280 \<rparr>)) =
     [\<lparr> plat_x = 300, plat_y = 702, plat_width = 200, plat_height = 20,
        plat_color = NEON_MAGENTA, plat_vx = 0, passed = False, landedOn = False \<rparr>,
      \<lparr> plat_x = 133567 / 640, plat_y = 1195 / 2, plat_width = 130, plat_height = 20,
        plat_color = NEON_LIME, plat_vx = - (7 / 2), passed = False, landedOn = True \<rparr>,
      \<lparr> plat_x = 483209 / 1280, plat_y = 895 / 2, plat_width = 130, plat_height = 20,
        plat_color = NEON_LIME, plat_vx = - (7 / 2), passed = False, landedOn = False \<rparr>,
      \<lparr> plat_x = 4557 / 40, plat_y = 595 / 2, plat_width = 130, plat_height = 20,
        plat_color = NEON_LIME, plat_vx = 7 / 2, passed = False, landedOn = False \<rparr>,
      \<lparr> plat_x = 981 / 20, plat_y = 295 / 2, plat_width = 130, plat_height = 20,
        plat_color = NEON_LIME, plat_vx = - (7 / 2), passed = False, landedOn = False \<rparr>,
      \<lparr> plat_x = 981 / 20, plat_y = - (5 / 2), plat_width = 130, plat_height = 20,
        plat_color = NEON_LIME, plat_vx = - (7 / 2), passed = False, landedOn = False \<rparr>,
      \<lparr> plat_x = 5377 / 20, plat_y = - (305 / 2), plat_width = 130, plat_height = 20,
        plat_color = NEON_LIME, plat_vx = - (7 / 2), passed = False, landedOn = False \<rparr>]"
  by (simp add: update_move_eq[OF Q79_refs] Q79_fields advance_def speedMultiplier_def Let_def)

lemma Q79_player:
  "ply_x (player (update_move 0 (Q79\<lparr> lastTime := 1280 \<rparr>))) = 400"
  "ply_y (player (update_move 0 (Q79\<lparr> lastTime := 1280 \<rparr>))) = 365"
  "ply_vy (player (update_move 0 (Q79\<lparr> lastTime := 1280 \<rparr>))) = 2"
  "ply_width (player (update_move 0 (Q79\<lparr> lastTime := 1280 \<rparr>))) = 40"
  "ply_height (player (update_move 0 (Q79\<lparr> lastTime := 1280 \<rparr>))) = 40"
  "ply_color (player (update_move 0 (Q79\<lparr> lastTime := 1280 \<rparr>))) = NEON_LIME"
  "jumps (player (update_move 0 (Q79\<lparr> lastTime := 1280 \<rparr>))) = 1"
  "currentPlatform (player (update_move 0 (Q79\<lparr> lastTime := 1280 \<rparr>))) = None"
  unfolding update_move_player_eq[OF Q79_refs] Q79_store
  by (simp_all add: Q79_fields Player_physics_def carry_def speedMultiplier_def Let_def config)

lemmas Q79_move = Q79_store Q79_player update_move_fields[OF Q79_refs] Q79_fields

lemma Q79_preCollision:
  "preCollision R1 1280 0 Q79 = update_move 0 (Q79\<lparr> lastTime := 1280 \<rparr>)"
  by (simp add: preCollision_def afterScroll_def scrolls_def Q79_move)

lemma Q79_landing:
  "landingPlatform (preCollision R1 1280 0 Q79) = None"
  by (simp add: Q79_preCollision landingPlatform_def hits_def Let_def Q79_move)

lemma Q80_eq:
  "Q80 = update_cosmetics (update_fall R1 (update_move 0 (Q79\<lparr> lastTime := 1280 \<rparr>)))"
  using Q79_landing
  by (simp add: Q80_def afterFrame_def update_collision_eq Q79_preCollision)

lemma Q80_fields:
  "state Q80 = Playing"
  "score Q80 = 1"
  "perfectStreak Q80 = 1"
  "isFever Q80 = False"
  "viewportWidth Q80 = 800"
  "viewportHeight Q80 = 600"
  "platforms Q80 = [1, 2, 3, 4, 5, 6]"
  "notifications Q80 = [ScoreUpdate 0, ComboChange 0, FeverChange False, GameStateChange Playing, ScoreUpdate 1, ComboChange 1]"
  "store Q80 =
     [\<lparr> plat_x = 300, plat_y = 702, plat_width = 200, plat_height = 20,
        plat_color = NEON_MAGENTA, plat_vx = 0, passed = False, landedOn = False \<rparr>,
      \<lparr> plat_x = 133567 / 640, plat_y = 1195 / 2, plat_width = 130, plat_height = 20,
        plat_color = NEON_LIME, plat_vx = - (7 / 2), passed = False, landedOn = True \<rparr>,
      \<lparr> plat_x = 483209 / 1280, plat_y = 895 / 2, plat_width = 130, plat_height = 20,
        plat_color = NEON_LIME, plat_vx = - (7 / 2), passed = False, landedOn = False \<rparr>,
      \<lparr> plat_x = 4557 / 40, plat_y = 595 / 2, plat_width = 130, plat_height = 20,
        plat_color = NEON_LIME, plat_vx = 7 / 2, passed = False, landedOn = False \<rparr>,
      \<lparr> plat_x = 981 / 20, plat_y = 295 / 2, plat_width = 130, plat_height = 20,
        plat_color = NEON_LIME, plat_vx = - (7 / 2), passed = False, landedOn = False \<rparr>,
      \<lparr> plat_x = 981 / 20, plat_y = - (5 / 2), plat_width = 130, plat_height = 20,
        plat_color = NEON_LIME, plat_vx = - (7 / 2), passed = False, landedOn = False \<rparr>,
      \<lparr> plat_x = 5377 / 20, plat_y = - (305 / 2), plat_width = 130, plat_height = 20,
        plat_color = NEON_LIME, plat_vx = - (7 / 2), passed = False, landedOn = False \<rparr>]"
  "ply_x (player Q80) = 400"
  "ply_y (player Q80) = 365"
  "ply_vy (player Q80) = 2"
  "ply_width (player Q80) = 40"
  "ply_height (player Q80) = 40"
  "ply_color (player Q80) = NEON_LIME"
  "jumps (player Q80) = 1"
  "currentPlatform (player Q80) = None"
  "rix Q80 = 120"
  unfolding Q80_eq
  by (simp_all add: tail_fields update_fall_rix landed_fields landed_store landed_score
        landed_perfectStreak landed_isFever landed_notifications landed_player landed_rix
        land_def landingNotes_def perfectHit_def Q79_move config)

lemma Q79_first: "firstLanding R1 (Frame 1280 0) Q79 = None"
  by (simp add: Q79_fields(1) Q79_landing)

lemma wf_Q79: "wf Q79" and pinned_Q79: "pinned Q79"
  using reachable_inv[OF reachable_Q79] by simp_all

lemma Q79_loop: "loop R1 1280 0 Q79 = Inr Q80"
  by (simp add: Q80_def loop_afterFrame[OF wf_Q79 Q79_fields(1)])

lemma reachable_Q80: "reachable R1 Q80"
  by (rule reachable.step[OF reachable_Q79, of "Frame 1280 0"]) (simp_all add: Q79_loop)

lemma Q80_refs: "refs_ok (Q80\<lparr> lastTime := 1296 \<rparr>)"
  by (simp add: refs_ok_def Q80_fields)

lemma Q80_store:
  "store (update_move 0 (Q80\<lparr> lastTime := 1296 \<rparr>)) =
     [\<lparr> plat_x = 300, plat_y = 702, plat_width = 200, plat_height = 20,
        plat_color = NEON_MAGENTA, plat_vx = 0, passed = False, landedOn = False \<rparr>,
      \<lparr> plat_x = 26243 / 128, plat_y = 1195 / 2, plat_width = 130, plat_height = 20,
        plat_color = NEON_LIME, plat_vx = - (7 / 2), passed = False, landedOn = True \<rparr>,
      \<lparr> plat_x = 95701 / 256, plat_y = 895 / 2, plat_width = 130, plat_height = 20,
        plat_color = NEON_LIME, plat_vx = - (7 / 2), passed = False, landedOn = False \<rparr>,
      \<lparr> plat_x = 588 / 5, plat_y = 595 / 2, plat_width = 130, plat_height = 20,
        plat_color = NEON_LIME, plat_vx = 7 / 2, passed = False, landedOn = False \<rparr>,
      \<lparr> plat_x = 363 / 8, plat_y = 295 / 2, plat_width = 130, plat_height = 20,
        plat_color = NEON_LIME, plat_vx = - (7 / 2), passed = False, landedOn = False \<rparr>,
      \<lparr> plat_x = 363 / 8, plat_y = - (5 / 2), plat_width = 130, plat_height = 20,
        plat_color = NEON_LIME, plat_vx = - (7 / 2), passed = False, landedOn = False \<rparr>,
      \<lparr> plat_x = 10607 / 40, plat_y = - (305 / 2), plat_width = 130, plat_height = 20,
        plat_color = NEON_LIME, plat_vx = - (7 / 2), passed = False, landedOn = False \<rparr>]"
  by (simp add: update_move_eq[OF Q80_refs] Q80_fields advance_def speedMultiplier_def Let_def)

lemma Q80_player:
  "ply_x (player (update_move 0 (Q80\<lparr> lastTime := 1296 \<rparr>))) = 400"
  "ply_y (player (update_move 0 (Q80\<lparr> lastTime := 1296 \<rparr>))) = 735 / 2"
  "ply_vy (player (update_move 0 (Q80\<lparr> lastTime := 1296 \<rparr>))) = 5 / 2"
  "ply_width (player (update_move 0 (Q80\<lparr> lastTime := 1296 \<rparr>))) = 40"
  "ply_height (player (update_move 0 (Q80\<lparr> lastTime := 1296 \<rparr>))) = 40"
  "ply_color (player (update_move 0 (Q80\<lparr> lastTime := 1296 \<rparr>))) = NEON_LIME"
  "jumps (player (update_move 0 (Q80\<lparr> lastTime := 1296 \<rparr>))) = 1"
  "currentPlatform (player (update_move 0 (Q80\<lparr> lastTime := 1296 \<rparr>))) = None"
  unfolding update_move_player_eq[OF Q80_refs] Q80_store
  by (simp_all add: Q80_fields Player_physics_def carry_def speedMultiplier_def Let_def config)

lemmas Q80_move = Q80_store Q80_player update_move_fields[OF Q80_refs] Q80_fields

lemma Q80_preCollision:
  "preCollision R1 1296 0 Q80 = update_move 0 (Q80\<lparr> lastTime := 1296 \<rparr>)"
  by (simp add: preCollision_def afterScroll_def scrolls_def Q80_move)

lemma Q80_landing:
  "landingPlatform (preCollision R1 1296 0 Q80) = None"
  by (simp add: Q80_preCollision landingPlatform_def hits_def Let_def Q80_move)

lemma Q81_eq:
  "Q81 = update_cosmetics (update_fall R1 (update_move 0 (Q80\<lparr> lastTime := 1296 \<rparr>)))"
  using Q80_landing
  by (simp add: Q81_def afterFrame_def update_collision_eq Q80_preCollision)

lemma Q81_fields:
  "state Q81 = Playing"
  "score Q81 = 1"
  "perfectStreak Q81 = 1"
  "isFever Q81 = False"
  "viewportWidth Q81 = 800"
  "viewportHeight Q81 = 600"
  "platforms Q81 = [1, 2, 3, 4, 5, 6]"
  "notifications Q81 = [ScoreUpdate 0, ComboChange 0, FeverChange False, GameStateChange Playing, ScoreUpdate 1, ComboChange 1]"
  "store Q81 =
     [\<lparr> plat_x = 300, plat_y = 702, plat_width = 200, plat_height = 20,
        plat_color = NEON_MAGENTA, plat_vx = 0, passed = False, landedOn = False \<rparr>,
      \<lparr> plat_x = 26243 / 128, plat_y = 1195 / 2, plat_width = 130, plat_height = 20,
        plat_color = NEON_LIME, plat_vx = - (7 / 2), passed = False, landedOn = True \<rparr>,
      \<lparr> plat_x = 95701 / 256, plat_y = 895 / 2, plat_width = 130, plat_height = 20,
        plat_color = NEON_LIME, plat_vx = - (7 / 2), passed = False, landedOn = False \<rparr>,
      \<lparr> plat_x = 588 / 5, plat_y = 595 / 2, plat_width = 130, plat_height = 20,
        plat_color = NEON_LIME, plat_vx = 7 / 2, passed = False, landedOn = False \<rparr>,
      \<lparr> plat_x = 363 / 8, plat_y = 295 / 2, plat_width = 130, plat_height = 20,
        plat_color = NEON_LIME, plat_vx = - (7 / 2), passed = False, landedOn = False \<rparr>,
      \<lparr> plat_x = 363 / 8, plat_y = - (5 / 2), plat_width = 130, plat_height = 20,
        plat_color = NEON_LIME, plat_vx = - (7 / 2), passed = False, landedOn = False \<rparr>,
      \<lparr> plat_x = 10607 / 40, plat_y = - (305 / 2), plat_width = 130, plat_height = 20,
        plat_color = NEON_LIME, plat_vx = - (7 / 2), passed = False, landedOn = False \<rparr>]"
  "ply_x (player Q81) = 400"
  "ply_y (player Q81) = 735 / 2"
  "ply_vy (player Q81) = 5 / 2"
  "ply_width (player Q81) = 40"
  "ply_height (player Q81) = 40"
  "ply_color (player Q81) = NEON_LIME"
  "jumps (player Q81) = 1"
  "currentPlatform (player Q81) = None"
  "rix Q81 = 120"
  unfolding Q81_eq
  by (simp_all add: tail_fields update_fall_rix landed_fields landed_store landed_score
        landed_perfectStreak landed_isFever landed_notifications landed_player landed_rix
        land_def landingNotes_def perfectHit_def Q80_move config)

lemma Q80_first: "firstLanding R1 (Frame 1296 0) Q80 = None"
  by (simp add: Q80_fields(1) Q80_landing)

lemma wf_Q80: "wf Q80" and pinned_Q80: "pinned Q80"
  using reachable_inv[OF reachable_Q80] by simp_all

lemma Q80_loop: "loop R1 1296 0 Q80 = Inr Q81"
  by (simp add: Q81_def loop_afterFrame[OF wf_Q80 Q80_fields(1)])

lemma reachable_Q81: "reachable R1 Q81"
  by (rule reachable.step[OF reachable_Q80, of "Frame 1296 0"]) (simp_all add: Q80_loop)

lemma Q81_refs: "refs_ok (Q81\<lparr> lastTime := 1312 \<rparr>)"
  by (simp add: refs_ok_def Q81_fields)

lemma Q81_store:
  "store (update_move 0 (Q81\<lparr> lastTime := 1312 \<rparr>)) =
     [\<lparr> plat_x = 300, plat_y = 702, plat_width = 200, plat_height = 20,
        plat_color = NEON_MAGENTA, plat_vx = 0, passed = False, landedOn = False \<rparr>,
      \<lparr> plat_x = 128863 / 640, plat_y = 1195 / 2, plat_width = 130, plat_height = 20,
        plat_color = NEON_LIME, plat_vx = - (7 / 2), passed = False, landedOn = True \<rparr>,
      \<lparr> plat_x = 473801 / 1280, plat_y = 895 / 2, plat_width = 130, plat_height = 20,
        plat_color = NEON_LIME, plat_vx = - (7 / 2), passed = False, landedOn = False \<rparr>,
      \<lparr> plat_x = 4851 / 40, plat_y = 595 / 2, plat_width = 130, plat_height = 20,
        plat_color = NEON_LIME, plat_vx = 7 / 2, passed = False, landedOn = False \<rparr>,
      \<lparr> plat_x = 417 / 10, plat_y = 295 / 2, plat_width = 130, plat_height = 20,
        plat_color = NEON_LIME, plat_vx = - (7 / 2), passed = False, landedOn = False \<rparr>,
      \<lparr> plat_x = 417 / 10, plat_y = - (5 / 2), plat_width = 130, plat_height = 20,
        plat_color = NEON_LIME, plat_vx = - (7 / 2), passed = False, landedOn = False \<rparr>,
      \<lparr> plat_x = 523 / 2, plat_y = - (305 / 2), plat_width = 130, plat_height = 20,
        plat_color = NEON_LIME, plat_vx = - (7 / 2), passed = False, landedOn = False \<rparr>]"
  by (simp add: update_move_eq[OF Q81_refs] Q81_fields advance_def speedMultiplier_def Let_def)

lemma Q81_player:
  "ply_x (player (update_move 0 (Q81\<lparr> lastTime := 1312 \<rparr>))) = 400"
  "ply_y (player (update_move 0 (Q81\<lparr> lastTime := 1312 \<rparr>))) = 741 / 2"
  "ply_vy (player (update_move 0 (Q81\<lparr> lastTime := 1312 \<rparr>))) = 3"
  "ply_width (player (update_move 0 (Q81\<lparr> lastTime := 1312 \<rparr>))) = 40"
  "ply_height (player (update_move 0 (Q81\<lparr> lastTime := 1312 \<rparr>))) = 40"
  "ply_color (player (update_move 0 (Q81\<lparr> lastTime := 1312 \<rparr>))) = NEON_LIME"
  "jumps (player (update_move 0 (Q81\<lparr> lastTime := 1312 \<rparr>))) = 1"
  "currentPlatform (player (update_move 0 (Q81\<lparr> lastTime := 1312 \<rparr>))) = None"
  unfolding update_move_player_eq[OF Q81_refs] Q81_store
  by (simp_all add: Q81_fields Player_physics_def carry_def speedMultiplier_def Let_def config)

lemmas Q81_move = Q81_store Q81_player update_move_fields[OF Q81_refs] Q81_fields

lemma Q81_preCollision:
  "preCollision R1 1312 0 Q81 = update_move 0 (Q81\<lparr> lastTime := 1312 \<rparr>)"
  by (simp add: preCollision_def afterScroll_def scrolls_def Q81_move)

lemma Q81_landing:
  "landingPlatform (preCollision R1 1312 0 Q81) = None"
  by (simp add: Q81_preCollision landingPlatform_def hits_def Let_def Q81_move)

lemma Q82_eq:
  "Q82 = update_cosmetics (update_fall R1 (update_move 0 (Q81\<lparr> lastTime := 1312 \<rparr>)))"
  using Q81_landing
  by (simp add: Q82_def afterFrame_def update_collision_eq Q81_preCollision)

lemma Q82_fields:
  "state Q82 = Playing"
  "score Q82 = 1"
  "perfectStreak Q82 = 1"
  "isFever Q82 = False"
  "viewportWidth Q82 = 800"
  "viewportHeight Q82 = 600"
  "platforms Q82 = [1, 2, 3, 4, 5, 6]"
  "notifications Q82 = [ScoreUpdate 0, ComboChange 0, FeverChange False, GameStateChange Playing, ScoreUpdate 1, ComboChange 1]"
  "store Q82 =
     [\<lparr> plat_x = 300, plat_y = 702, plat_width = 200, plat_height = 20,
        plat_color = NEON_MAGENTA, plat_vx = 0, passed = False, landedOn = False \<rparr>,
      \<lparr> plat_x = 128863 / 640, plat_y = 1195 / 2, plat_width = 130, plat_height = 20,
        plat_color = NEON_LIME, plat_vx = - (7 / 2), passed = False, landedOn = True \<rparr>,
      \<lparr> plat_x = 473801 / 1280, plat_y = 895 / 2, plat_width = 130, plat_height = 20,
        plat_color = NEON_LIME, plat_vx = - (7 / 2), passed = False, landedOn = False \<rparr>,
      \<lparr> plat_x = 4851 / 40, plat_y = 595 / 2, plat_width = 130, plat_height = 20,
        plat_color = NEON_LIME, plat_vx = 7 / 2, passed = False, landedOn = False \<rparr>,
      \<lparr> plat_x = 417 / 10, plat_y = 295 / 2, plat_width = 130, plat_height = 20,
        plat_color = NEON_LIME, plat_vx = - (7 / 2), passed = False, landedOn = False \<rparr>,
      \<lparr> plat_x = 417 / 10, plat_y = - (5 / 2), plat_width = 130, plat_height = 20,
        plat_color = NEON_LIME, plat_vx = - (7 / 2), passed = False, landedOn = False \<rparr>,
      \<lparr> plat_x = 523 / 2, plat_y = - (305 / 2), plat_width = 130, plat_height = 20,
        plat_color = NEON_LIME, plat_vx = - (7 / 2), passed = False, landedOn = False \<rparr>]"
  "ply_x (player Q82) = 400"
  "ply_y (player Q82) = 741 / 2"
  "ply_vy (player Q82) = 3"
  "ply_width (player Q82) = 40"
  "ply_height (player Q82) = 40"
  "ply_color (player Q82) = NEON_LIME"
  "jumps (player Q82) = 1"
  "currentPlatform (player Q82) = None"
  "rix Q82 = 120"
  unfolding Q82_eq
  by (simp_all add: tail_fields update_fall_rix landed_fields landed_store landed_score
        landed_perfectStreak landed_isFever landed_notifications landed_player landed_rix
        land_def landingNotes_def perfectHit_def Q81_move config)

lemma Q81_first: "firstLanding R1 (Frame 1312 0) Q81 = None"
  by (simp add: Q81_fields(1) Q81_landing)

lemma wf_Q81: "wf Q81" and pinned_Q81: "pinned Q81"
  using reachable_inv[OF reachable_Q81] by simp_all

lemma Q81_loop: "loop R1 1312 0 Q81 = Inr Q82"
  by (simp add: Q82_def loop_afterFrame[OF wf_Q81 Q81_fields(1)])

lemma reachable_Q82: "reachable R1 Q82"
  by (rule reachable.step[OF reachable_Q81, of "Frame 1312 0"]) (simp_all add: Q81_loop)

lemma Q82_refs: "refs_ok (Q82\<lparr> lastTime := 1328 \<rparr>)"
  by (simp add: refs_ok_def Q82_fields)

lemma Q82_store:
  "store (update_move 0 (Q82\<lparr> lastTime := 1328 \<rparr>)) =
     [\<lparr> plat_x = 300, plat_y = 702, plat_width = 200, plat_height = 20,
        plat_color = NEON_MAGENTA, plat_vx = 0, passed = False, landedOn = False \<rparr>,
      \<lparr> plat_x = 126511 / 640, plat_y = 1195 / 2, plat_width = 130, plat_height = 20,
        plat_color = NEON_LIME, plat_vx = - (7 / 2), passed = False, landedOn = True \<rparr>,
      \<lparr> plat_x = 469097 / 1280, plat_y = 895 / 2, plat_width = 130, plat_height = 20,
        plat_color = NEON_LIME, plat_vx = - (7 / 2), passed = False, landedOn = False \<rparr>,
      \<lparr> plat_x = 2499 / 20, plat_y = 595 / 2, plat_width = 130, plat_height = 20,
        plat_color = NEON_LIME, plat_vx = 7 / 2, passed = False, landedOn = False \<rparr>,
      \<lparr> plat_x = 1521 / 40, plat_y = 295 / 2, plat_width = 130, plat_height = 20,
        plat_color = NEON_LIME, plat_vx = - (7 / 2), passed = False, landedOn = False \<rparr>,
      \<lparr> plat_x = 1521 / 40, plat_y = - (5 / 2), plat_width = 130, plat_height = 20,
        plat_color = NEON_LIME, plat_vx = - (7 / 2), passed = False, landedOn = False \<rparr>,
      \<lparr> plat_x = 10313 / 40, plat_y = - (305 / 2), plat_width = 130, plat_height = 20,
        plat_color = NEON_LIME, plat_vx = - (7 / 2), passed = False, landedOn = False \<rparr>]"
  by (simp add: update_move_eq[OF Q82_refs] Q82_fields advance_def speedMultiplier_def Let_def)

lemma Q82_player:
  "ply_x (player (update_move 0 (Q82\<lparr> lastTime := 1328 \<rparr>))) = 400"
  "ply_y (player (update_move 0 (Q82\<lparr> lastTime := 1328 \<rparr>))) = 374"
  "ply_vy (player (update_move 0 (Q82\<lparr> lastTime := 1328 \<rparr>))) = 7 / 2"
  "ply_width (player (update_move 0 (Q82\<lparr> lastTime := 1328 \<rparr>))) = 40"
  "ply_height (player (update_move 0 (Q82\<lparr> lastTime := 1328 \<rparr>))) = 40"
  "ply_color (player (update_move 0 (Q82\<lparr> lastTime := 1328 \<rparr>))) = NEON_LIME"
  "jumps (player (update_move 0 (Q82\<lparr> lastTime := 1328 \<rparr>))) = 1"
  "currentPlatform (player (update_move 0 (Q82\<lparr> lastTime := 1328 \<rparr>))) = None"
  unfolding update_move_player_eq[OF Q82_refs] Q82_store
  by (simp_all add: Q82_fields Player_physics_def carry_def speedMultiplier_def Let_def config)

lemmas Q82_move = Q82_store Q82_player update_move_fields[OF Q82_refs] Q82_fields

lemma Q82_preCollision:
  "preCollision R1 1328 0 Q82 = update_move 0 (Q82\<lparr> lastTime := 1328 \<rparr>)"
  by (simp add: preCollision_def afterScroll_def scrolls_def Q82_move)

lemma Q82_landing:
  "landingPlatform (preCollision R1 1328 0 Q82) = None"
  by (simp add: Q82_preCollision landingPlatform_def hits_def Let_def Q82_move)

lemma Q83_eq:
  "Q83 = update_cosmetics (update_fall R1 (update_move 0 (Q82\<lparr> lastTime := 1328 \<rparr>)))"
  using Q82_landing
  by (simp add: Q83_def afterFrame_def update_collision_eq Q82_preCollision)

lemma Q83_fields:
  "state Q83 = Playing"
  "score Q83 = 1"
  "perfectStreak Q83 = 1"
  "isFever Q83 = False"
  "viewportWidth Q83 = 800"
  "viewportHeight Q83 = 600"
  "platforms Q83 = [1, 2, 3, 4, 5, 6]"
  "notifications Q83 = [ScoreUpdate 0, ComboChange 0, FeverChange False, GameStateChange Playing, ScoreUpdate 1, ComboChange 1]"
  "store Q83 =
     [\<lparr> plat_x = 300, plat_y = 702, plat_width = 200, plat_height = 20,
        plat_color = NEON_MAGENTA, plat_vx = 0, passed = False, landedOn = False \<rparr>,
      \<lparr> plat_x = 126511 / 640, plat_y = 1195 / 2, plat_width = 130, plat_height = 20,
        plat_color = NEON_LIME, plat_vx = - (7 / 2), passed = False, landedOn = True \<rparr>,
      \<lparr> plat_x = 469097 / 1280, plat_y = 895 / 2, plat_width = 130, plat_height = 20,
        plat_color = NEON_LIME, plat_vx = - (7 / 2), passed = False, landedOn = False \<rparr>,
      \<lparr> plat_x = 2499 / 20, plat_y = 595 / 2, plat_width = 130, plat_height = 20,
        plat_color = NEON_LIME, plat_vx = 7 / 2, passed = False, landedOn = False \<rparr>,
      \<lparr> plat_x = 1521 / 40, plat_y = 295 / 2, plat_width = 130, plat_height = 20,
        plat_color = NEON_LIME, plat_vx = - (7 / 2), passed = False, landedOn = False \<rparr>,
      \<lparr> plat_x = 1521 / 40, plat_y = - (5 / 2), plat_width = 130, plat_height = 20,
        plat_color = NEON_LIME, plat_vx = - (7 / 2), passed = False, landedOn = False \<rparr>,
      \<lparr> plat_x = 10313 / 40, plat_y = - (305 / 2), plat_width = 130, plat_height = 20,
        plat_color = NEON_LIME, plat_vx = - (7 / 2), passed = False, landedOn = False \<rparr>]"
  "ply_x (player Q83) = 400"
  "ply_y (player Q83) = 374"
  "ply_vy (player Q83) = 7 / 2"
  "ply_width (player Q83) = 40"
  "ply_height (player Q83) = 40"
  "ply_color (player Q83) = NEON_LIME"
  "jumps (player Q83) = 1"
  "currentPlatform (player Q83) = None"
  "rix Q83 = 120"
  unfolding Q83_eq
  by (simp_all add: tail_fields update_fall_rix landed_fields landed_store landed_score
        landed_perfectStreak landed_isFever landed_notifications landed_player landed_rix
        land_def landingNotes_def perfectHit_def Q82_move config)

lemma Q82_first: "firstLanding R1 (Frame 1328 0) Q82 = None"
  by (simp add: Q82_fields(1) Q82_landing)

lemma wf_Q82: "wf Q82" and pinned_Q82: "pinned Q82"
  using reachable_inv[OF reachable_Q82] by simp_all

lemma Q82_loop: "loop R1 1328 0 Q82 = Inr Q83"
  by (simp add: Q83_def loop_afterFrame[OF wf_Q82 Q82_fields(1)])

lemma reachable_Q83: "reachable R1 Q83"
  by (rule reachable.step[OF reachable_Q82, of "Frame 1328 0"]) (simp_all add: Q82_loop)

lemma Q83_refs: "refs_ok (Q83\<lparr> lastTime := 1344 \<rparr>)"
  by (simp add: refs_ok_def Q83_fields)

lemma Q83_store:
  "store (update_move 0 (Q83\<lparr> lastTime := 1344 \<rparr>)) =
     [\<lparr> plat_x = 300, plat_y = 702, plat_width = 200, plat_height = 20,
        plat_color = NEON_MAGENTA, plat_vx = 0, passed = False, landedOn = False \<rparr>,
      \<lparr> plat_x = 124159 / 640, plat_y = 1195 / 2, plat_width = 130, plat_height = 20,
        plat_color = NEON_LIME, plat_vx = - (7 / 2), passed = False, landedOn = True \<rparr>,
      \<lparr> plat_x = 464393 / 1280, plat_y = 895 / 2, plat_width = 130, plat_height = 20,
        plat_color = NEON_LIME, plat_vx = - (7 / 2), passed = False, landedOn = False \<rparr>,
      \<lparr> plat_x = 1029 / 8, plat_y = 595 / 2, plat_width = 130, plat_height = 20,
        plat_color = NEON_LIME, plat_vx = 7 / 2, passed = False, landedOn = False \<rparr>,
      \<lparr> plat_x = 687 / 20, plat_y = 295 / 2, plat_width = 130, plat_height = 20,
        plat_color = NEON_LIME, plat_vx = - (7 / 2), passed = False, landedOn = False \<rparr>,
      \<lparr> plat_x = 687 / 20, plat_y = - (5 / 2), plat_width = 130, plat_height = 20,
        plat_color = NEON_LIME, plat_vx = - (7 / 2), passed = False, landedOn = False \<rparr>,
      \<lparr> plat_x = 5083 / 20, plat_y = - (305 / 2), plat_width = 130, plat_height = 20,
        plat_color = NEON_LIME, plat_vx = - (7 / 2), passed = False, landedOn = False \<rparr>]"
  by (simp add: update_move_eq[OF Q83_refs] Q83_fields advance_def speedMultiplier_def Let_def)

lemma Q83_player:
  "ply_x (player (update_move 0 (Q83\<lparr> lastTime := 1344 \<rparr>))) = 400"
  "ply_y (player (update_move 0 (Q83\<lparr> lastTime := 1344 \<rparr>))) = 378"
  "ply_vy (player (update_move 0 (Q83\<lparr> lastTime := 1344 \<rparr>))) = 4"
  "ply_width (player (update_move 0 (Q83\<lparr> lastTime := 1344 \<rparr>))) = 40"
  "ply_height (player (update_move 0 (Q83\<lparr> lastTime := 1344 \<rparr>))) = 40"
  "ply_color (player (update_move 0 (Q83\<lparr> lastTime := 1344 \<rparr>))) = NEON_LIME"
  "jumps (player (update_move 0 (Q83\<lparr> lastTime := 1344 \<rparr>))) = 1"
  "currentPlatform (player (update_move 0 (Q83\<lparr> lastTime := 1344 \<rparr>))) = None"
  unfolding update_move_player_eq[OF Q83_refs] Q83_store
  by (simp_all add: Q83_fields Player_physics_def carry_def speedMultiplier_def Let_def config)

lemmas Q83_move = Q83_store Q83_player update_move_fields[OF Q83_refs] Q83_fields

lemma Q83_preCollision:
  "preCollision R1 1344 0 Q83 = update_move 0 (Q83\<lparr> lastTime := 1344 \<rparr>)"
  by (simp add: preCollision_def afterScroll_def scrolls_def Q83_move)

lemma Q83_landing:
  "landingPlatform (preCollision R1 1344 0 Q83) = None"
  by (simp add: Q83_preCollision landingPlatform_def hits_def Let_def Q83_move)

lemma Q84_eq:
  "Q84 = update_cosmetics (update_fall R1 (update_move 0 (Q83\<lparr> lastTime := 1344 \<rparr>)))"
  using Q83_landing
  by (simp add: Q84_def afterFrame_def update_collision_eq Q83_preCollision)

lemma Q84_fields:
  "state Q84 = Playing"
  "score Q84 = 1"
  "perfectStreak Q84 = 1"
  "isFever Q84 = False"
  "viewportWidth Q84 = 800"
  "viewportHeight Q84 = 600"
  "platforms Q84 = [1, 2, 3, 4, 5, 6]"
  "notifications Q84 = [ScoreUpdate 0, ComboChange 0, FeverChange False, GameStateChange Playing, ScoreUpdate 1, ComboChange 1]"
  "store Q84 =
     [\<lparr> plat_x = 300, plat_y = 702, plat_width = 200, plat_height = 20,
        plat_color = NEON_MAGENTA, plat_vx = 0, passed = False, landedOn = False \<rparr>,
      \<lparr> plat_x = 124159 / 640, plat_y = 1195 / 2, plat_width = 130, plat_height = 20,
        plat_color = NEON_LIME, plat_vx = - (7 / 2), passed = False, landedOn = True \<rparr>,
      \<lparr> plat_x = 464393 / 1280, plat_y = 895 / 2, plat_width = 130, plat_height = 20,
        plat_color = NEON_LIME, plat_vx = - (7 / 2), passed = False, landedOn = False \<rparr>,
      \<lparr> plat_x = 1029 / 8, plat_y = 595 / 2, plat_width = 130, plat_height = 20,
        plat_color = NEON_LIME, plat_vx = 7 / 2, passed = False, landedOn = False \<rparr>,
      \<lparr> plat_x = 687 / 20, plat_y = 295 / 2, plat_width = 130, plat_height = 20,
        plat_color = NEON_LIME, plat_vx = - (7 / 2), passed = False, landedOn = False \<rparr>,
      \<lparr> plat_x = 687 / 20, plat_y = - (5 / 2), plat_width = 130, plat_height = 20,
        plat_color = NEON_LIME, plat_vx = - (7 / 2), passed = False, landedOn = False \<rparr>,
      \<lparr> plat_x = 5083 / 20, plat_y = - (305 / 2), plat_width = 130, plat_height = 20,
        plat_color = NEON_LIME, plat_vx = - (7 / 2), passed = False, landedOn = False \<rparr>]"
  "ply_x (player Q84) = 400"
  "ply_y (player Q84) = 378"
  "ply_vy (player Q84) = 4"
  "ply_width (player Q84) = 40"
  "ply_height (player Q84) = 40"
  "ply_color (player Q84) = NEON_LIME"
  "jumps (player Q84) = 1"
  "currentPlatform (player Q84) = None"
  "rix Q84 = 120"
  unfolding Q84_eq
  by (simp_all add: tail_fields update_fall_rix landed_fields landed_store landed_score
        landed_perfectStreak landed_isFever landed_notifications landed_player landed_rix
        land_def landingNotes_def perfectHit_def Q83_move config)

lemma Q83_first: "firstLanding R1 (Frame 1344 0) Q83 = None"
  by (simp add: Q83_fields(1) Q83_landing)

lemma wf_Q83: "wf Q83" and pinned_Q83: "pinned Q83"
  using reachable_inv[OF reachable_Q83] by simp_all

lemma Q83_loop: "loop R1 1344 0 Q83 = Inr Q84"
  by (simp add: Q84_def loop_afterFrame[OF wf_Q83 Q83_fields(1)])

lemma reachable_Q84: "reachable R1 Q84"
  by (rule reachable.step[OF reachable_Q83, of "Frame 1344 0"]) (simp_all add: Q83_loop)

lemma Q84_refs: "refs_ok (Q84\<lparr> lastTime := 1360 \<rparr>)"
  by (simp add: refs_ok_def Q84_fields)

lemma Q84_store:
  "store (update_move 0 (Q84\<lparr> lastTime := 1360 \<rparr>)) =
     [\<lparr> plat_x = 300, plat_y = 702, plat_width = 200, plat_height = 20,
        plat_color = NEON_MAGENTA, plat_vx = 0, passed = False, landedOn = False \<rparr>,
      \<lparr> plat_x = 121807 / 640, plat_y = 1195 / 2, plat_width = 130, plat_height = 20,
        plat_color = NEON_LIME, plat_vx = - (7 / 2), passed = False, landedOn = True \<rparr>,
      \<lparr> plat_x = 459689 / 1280, plat_y = 895 / 2, plat_width = 130, plat_height = 20,
        plat_color = NEON_LIME, plat_vx = - (7 / 2), passed = False, landedOn = False \<rparr>,
      \<lparr> plat_x = 1323 / 10, plat_y = 595 / 2, plat_width = 130, plat_height = 20,
        plat_color = NEON_LIME, plat_vx = 7 / 2, passed = False, landedOn = False \<rparr>,
      \<lparr> plat_x = 1227 / 40, plat_y = 295 / 2, plat_width = 130, plat_height = 20,
        plat_color = NEON_LIME, plat_vx = - (7 / 2), passed = False, landedOn = False \<rparr>,
      \<lparr> plat_x = 1227 / 40, plat_y = - (5 / 2), plat_width = 130, plat_height = 20,
        plat_color = NEON_LIME, plat_vx = - (7 / 2), passed = False, landedOn = False \<rparr>,
      \<lparr> plat_x = 10019 / 40, plat_y = - (305 / 2), plat_width = 130, plat_height = 20,
        plat_color = NEON_LIME, plat_vx = - (7 / 2), passed = False, landedOn = False \<rparr>]"
  by (simp add: update_move_eq[OF Q84_refs] Q84_fields advance_def speedMultiplier_def Let_def)

lemma Q84_player:
  "ply_x (player (update_move 0 (Q84\<lparr> lastTime := 1360 \<rparr>))) = 400"
  "ply_y (player (update_move 0 (Q84\<lparr> lastTime := 1360 \<rparr>))) = 765 / 2"
  "ply_vy (player (update_move 0 (Q84\<lparr> lastTime := 1360 \<rparr>))) = 9 / 2"
  "ply_width (player (update_move 0 (Q84\<lparr> lastTime := 1360 \<rparr>))) = 40"
  "ply_height (player (update_move 0 (Q84\<lparr> lastTime := 1360 \<rparr>))) = 40"
  "ply_color (player (update_move 0 (Q84\<lparr> lastTime := 1360 \<rparr>))) = NEON_LIME"
  "jumps (player (update_move 0 (Q84\<lparr> lastTime := 1360 \<rparr>))) = 1"
  "currentPlatform (player (update_move 0 (Q84\<lparr> lastTime := 1360 \<rparr>))) = None"
  unfolding update_move_player_eq[OF Q84_refs] Q84_store
  by (simp_all add: Q84_fields Player_physics_def carry_def speedMultiplier_def Let_def config)

lemmas Q84_move = Q84_store Q84_player update_move_fields[OF Q84_refs] Q84_fields

lemma Q84_preCollision:
  "preCollision R1 1360 0 Q84 = update_move 0 (Q84\<lparr> lastTime := 1360 \<rparr>)"
  by (simp add: preCollision_def afterScroll_def scrolls_def Q84_move)

lemma Q84_landing:
  "landingPlatform (preCollision R1 1360 0 Q84) = None"
  by (simp add: Q84_preCollision landingPlatform_def hits_def Let_def Q84_move)

lemma Q85_eq:
  "Q85 = update_cosmetics (update_fall R1 (update_move 0 (Q84\<lparr> lastTime := 1360 \<rparr>)))"
  using Q84_landing
  by (simp add: Q85_def afterFrame_def update_collision_eq Q84_preCollision)

lemma Q85_fields:
  "state Q85 = Playing"
  "score Q85 = 1"
  "perfectStreak Q85 = 1"
  "isFever Q85 = False"
  "viewportWidth Q85 = 800"
  "viewportHeight Q85 = 600"
  "platforms Q85 = [1, 2, 3, 4, 5, 6]"
  "notifications Q85 = [ScoreUpdate 0, ComboChange 0, FeverChange False, GameStateChange Playing, ScoreUpdate 1, ComboChange 1]"
  "store Q85 =
     [\<lparr> plat_x = 300, plat_y = 702, plat_width = 200, plat_height = 20,
        plat_color = NEON_MAGENTA, plat_vx = 0, passed = False, landedOn = False \<rparr>,
      \<lparr> plat_x = 121807 / 640, plat_y = 1195 / 2, plat_width = 130, plat_height = 20,
        plat_color = NEON_LIME, plat_vx = - (7 / 2), passed = False, landedOn = True \<rparr>,
      \<lparr> plat_x = 459689 / 1280, plat_y = 895 / 2, plat_width = 130, plat_height = 20,
        plat_color = NEON_LIME, plat_vx = - (7 / 2), passed = False, landedOn = False \<rparr>,
      \<lparr> plat_x = 1323 / 10, plat_y = 595 / 2, plat_width = 130, plat_height = 20,
        plat_color = NEON_LIME, plat_vx = 7 / 2, passed = False, landedOn = False \<rparr>,
      \<lparr> plat_x = 1227 / 40, plat_y = 295 / 2, plat_width = 130, plat_height = 20,
        plat_color = NEON_LIME, plat_vx = - (7 / 2), passed = False, landedOn = False \<rparr>,
      \<lparr> plat_x = 1227 / 40, plat_y = - (5 / 2), plat_width = 130, plat_height = 20,
        plat_color = NEON_LIME, plat_vx = - (7 / 2), passed = False, landedOn = False \<rparr>,
      \<lparr> plat_x = 10019 / 40, plat_y = - (305 / 2), plat_width = 130, plat_height = 20,
        plat_color = NEON_LIME, plat_vx = - (7 / 2), passed = False, landedOn = False \<rparr>]"
  "ply_x (player Q85) = 400"
  "ply_y (player Q85) = 765 / 2"
  "ply_vy (player Q85) = 9 / 2"
  "ply_width (player Q85) = 40"
  "ply_height (player Q85) = 40"
  "ply_color (player Q85) = NEON_LIME"
  "jumps (player Q85) = 1"
  "currentPlatform (player Q85) = None"
  "rix Q85 = 120"
  unfolding Q85_eq
  by (simp_all add: tail_fields update_fall_rix landed_fields landed_store landed_score
        landed_perfectStreak landed_isFever landed_notifications landed_player landed_rix
        land_def landingNotes_def perfectHit_def Q84_move config)

lemma Q84_first: "firstLanding R1 (Frame 1360 0) Q84 = None"
  by (simp add: Q84_fields(1) Q84_landing)

lemma wf_Q84: "wf Q84" and pinned_Q84: "pinned Q84"
  using reachable_inv[OF reachable_Q84] by simp_all

lemma Q84_loop: "loop R1 1360 0 Q84 = Inr Q85"
  by (simp add: Q85_def loop_afterFrame[OF wf_Q84 Q84_fields(1)])

lemma reachable_Q85: "reachable R1 Q85"
  by (rule reachable.step[OF reachable_Q84, of "Frame 1360 0"]) (simp_all add: Q84_loop)

lemma Q85_refs: "refs_ok (Q85\<lparr> lastTime := 1376 \<rparr>)"
  by (simp add: refs_ok_def Q85_fields)

lemma Q85_store:
  "store (update_move 0 (Q85\<lparr> lastTime := 1376 \<rparr>)) =
     [\<lparr> plat_x = 300, plat_y = 702, plat_width = 200, plat_height = 20,
        plat_color = NEON_MAGENTA, plat_vx = 0, passed = False, landedOn = False \<rparr>,
      \<lparr> plat_x = 23891 / 128, plat_y = 1195 / 2, plat_width = 130, plat_height = 20,
        plat_color = NEON_LIME, plat_vx = - (7 / 2), passed = False, landedOn = True \<rparr>,
      \<lparr> plat_x = 90997 / 256, plat_y = 895 / 2, plat_width = 130, plat_height = 20,
        plat_color = NEON_LIME, plat_vx = - (7 / 2), passed = False, landedOn = False \<rparr>,
      \<lparr> plat_x = 5439 / 40, plat_y = 595 / 2, plat_width = 130, plat_height = 20,
        plat_color = NEON_LIME, plat_vx = 7 / 2, passed = False, landedOn = False \<rparr>,
      \<lparr> plat_x = 27, plat_y = 295 / 2, plat_width = 130, plat_height = 20,
        plat_color = NEON_LIME, plat_vx = - (7 / 2), passed = False, landedOn = False \<rparr>,
      \<lparr> plat_x = 27, plat_y = - (5 / 2), plat_width = 130, plat_height = 20,
        plat_color = NEON_LIME, plat_vx = - (7 / 2), passed = False, landedOn = False \<rparr>,
      \<lparr> plat_x = 1234 / 5, plat_y = - (305 / 2), plat_width = 130, plat_height = 20,
        plat_color = NEON_LIME, plat_vx = - (7 / 2), passed = False, landedOn = False \<rparr>]"
  by (simp add: update_move_eq[OF Q85_refs] Q85_fields advance_def speedMultiplier_def Let_def)

lemma Q85_player:
  "ply_x (player (update_move 0 (Q85\<lparr> lastTime := 1376 \<rparr>))) = 400"
  "ply_y (player (update_move 0 (Q85\<lparr> lastTime := 1376 \<rparr>))) = 775 / 2"
  "ply_vy (player (update_move 0 (Q85\<lparr> lastTime := 1376 \<rparr>))) = 5"
  "ply_width (player (update_move 0 (Q85\<lparr> lastTime := 1376 \<rparr>))) = 40"
  "ply_height (player (update_move 0 (Q85\<lparr> lastTime := 1376 \<rparr>))) = 40"
  "ply_color (player (update_move 0 (Q85\<lparr> lastTime := 1376 \<rparr>))) = NEON_LIME"
  "jumps (player (update_move 0 (Q85\<lparr> lastTime := 1376 \<rparr>))) = 1"
  "currentPlatform (player (update_move 0 (Q85\<lparr> lastTime := 1376 \<rparr>))) = None"
  unfolding update_move_player_eq[OF Q85_refs] Q85_store
  by (simp_all add: Q85_fields Player_physics_def carry_def speedMultiplier_def Let_def config)

lemmas Q85_move = Q85_store Q85_player update_move_fields[OF Q85_refs] Q85_fields

lemma Q85_preCollision:
  "preCollision R1 1376 0 Q85 = update_move 0 (Q85\<lparr> lastTime := 1376 \<rparr>)"
  by (simp add: preCollision_def afterScroll_def scrolls_def Q85_move)

lemma Q85_landing:
  "landingPlatform (preCollision R1 1376 0 Q85) = None"
  by (simp add: Q85_preCollision landingPlatform_def hits_def Let_def Q85_move)

lemma Q86_eq:
  "Q86 = update_cosmetics (update_fall R1 (update_move 0 (Q85\<lparr> lastTime := 1376 \<rparr>)))"
  using Q85_landing
  by (simp add: Q86_def afterFrame_def update_collision_eq Q85_preCollision)

lemma Q86_fields:
  "state Q86 = Playing"
  "score Q86 = 1"
  "perfectStreak Q86 = 1"
  "isFever Q86 = False"
  "viewportWidth Q86 = 800"
  "viewportHeight Q86 = 600"
  "platforms Q86 = [1, 2, 3, 4, 5, 6]"
  "notifications Q86 = [ScoreUpdate 0, ComboChange 0, FeverChange False, GameStateChange Playing, ScoreUpdate 1, ComboChange 1]"
  "store Q86 =
     [\<lparr> plat_x = 300, plat_y = 702, plat_width = 200, plat_height = 20,
        plat_color = NEON_MAGENTA, plat_vx = 0, passed = False, landedOn = False \<rparr>,
      \<lparr> plat_x = 23891 / 128, plat_y = 1195 / 2, plat_width = 130, plat_height = 20,
        plat_color = NEON_LIME, plat_vx = - (7 / 2), passed = False, landedOn = True \<rparr>,
      \<lparr> plat_x = 90997 / 256, plat_y = 895 / 2, plat_width = 130, plat_height = 20,
        plat_color = NEON_LIME, plat_vx = - (7 / 2), passed = False, landedOn = False \<rparr>,
      \<lparr> plat_x = 5439 / 40, plat_y = 595 / 2, plat_width = 130, plat_height = 20,
        plat_color = NEON_LIME, plat_vx = 7 / 2, passed = False, landedOn = False \<rparr>,
      \<lparr> plat_x = 27, plat_y = 295 / 2, plat_width = 130, plat_height = 20,
        plat_color = NEON_LIME, plat_vx = - (7 / 2), passed = False, landedOn = False \<rparr>,
      \<lparr> plat_x = 27, plat_y = - (5 / 2), plat_width = 130, plat_height = 20,
        plat_color = NEON_LIME, plat_vx = - (7 / 2), passed = False, landedOn = False \<rparr>,
      \<lparr> plat_x = 1234 / 5, plat_y = - (305 / 2), plat_width = 130, plat_height = 20,
        plat_color = NEON_LIME, plat_vx = - (7 / 2), passed = False, landedOn = False \<rparr>]"
  "ply_x (player Q86) = 400"
  "ply_y (player Q86) = 775 / 2"
  "ply_vy (player Q86) = 5"
  "ply_width (player Q86) = 40"
  "ply_height (player Q86) = 40"
  "ply_color (player Q86) = NEON_LIME"
  "jumps (player Q86) = 1"
  "currentPlatform (player Q86) = None"
  "rix Q86 = 120"
  unfolding Q86_eq
  by (simp_all add: tail_fields update_fall_rix landed_fields landed_store landed_score
        landed_perfectStreak landed_isFever landed_notifications landed_player landed_rix
        land_def landingNotes_def perfectHit_def Q85_move config)

lemma Q85_first: "firstLanding R1 (Frame 1376 0) Q85 = None"
  by (simp add: Q85_fields(1) Q85_landing)

lemma wf_Q85: "wf Q85" and pinned_Q85: "pinned Q85"
  using reachable_inv[OF reachable_Q85] by simp_all

lemma Q85_loop: "loop R1 1376 0 Q85 = Inr Q86"
  by (simp add: Q86_def loop_afterFrame[OF wf_Q85 Q85_fields(1)])

lemma reachable_Q86: "reachable R1 Q86"
  by (rule reachable.step[OF reachable_Q85, of "Frame 1376 0"]) (simp_all add: Q85_loop)

lemma Q86_refs: "refs_ok (Q86\<lparr> lastTime := 1392 \<rparr>)"
  by (simp add: refs_ok_def Q86_fields)

lemma Q86_store:
  "store (update_move 0 (Q86\<lparr> lastTime := 1392 \<rparr>)) =
     [\<lparr> plat_x = 300, plat_y = 702, plat_width = 200, plat_height = 20,
        plat_color = NEON_MAGENTA, plat_vx = 0, passed = False, landedOn = False \<rparr>,
      \<lparr> plat_x = 117103 / 640, plat_y = 1195 / 2, plat_width = 130, plat_height = 20,
        plat_color = NEON_LIME, plat_vx = - (7 / 2), passed = False, landedOn = True \<rparr>,
      \<lparr> plat_x = 450281 / 1280, plat_y = 895 / 2, plat_width = 130, plat_height = 20,
        plat_color = NEON_LIME, plat_vx = - (7 / 2), passed = False, landedOn = False \<rparr>,
      \<lparr> plat_x = 2793 / 20, plat_y = 595 / 2, plat_width = 130, plat_height = 20,
        plat_color = NEON_LIME, plat_vx = 7 / 2, passed = False, landedOn = False \<rparr>,
      \<lparr> plat_x = 933 / 40, plat_y = 295 / 2, plat_width = 130, plat_height = 20,
        plat_color = NEON_LIME, plat_vx = - (7 / 2), passed = False, landedOn = False \<rparr>,
      \<lparr> plat_x = 933 / 40, plat_y = - (5 / 2), plat_width = 130, plat_height = 20,
        plat_color = NEON_LIME, plat_vx = - (7 / 2), passed = False, landedOn = False \<rparr>,
      \<lparr> plat_x = 1945 / 8, plat_y = - (305 / 2), plat_width = 130, plat_height = 20,
        plat_color = NEON_LIME, plat_vx = - (7 / 2), passed = False, landedOn = False \<rparr>]"
  by (simp add: update_move_eq[OF Q86_refs] Q86_fields advance_def speedMultiplier_def Let_def)

lemma Q86_player:
  "ply_x (player (update_move 0 (Q86\<lparr> lastTime := 1392 \<rparr>))) = 400"
  "ply_y (player (update_move 0 (Q86\<lparr> lastTime := 1392 \<rparr>))) = 393"
  "ply_vy (player (update_move 0 (Q86\<lparr> lastTime := 1392 \<rparr>))) = 11 / 2"
  "ply_width (player (update_move 0 (Q86\<lparr> lastTime := 1392 \<rparr>))) = 40"
  "ply_height (player (update_move 0 (Q86\<lparr> lastTime := 1392 \<rparr>))) = 40"
  "ply_color (player (update_move 0 (Q86\<lparr> lastTime := 1392 \<rparr>))) = NEON_LIME"
  "jumps (player (update_move 0 (Q86\<lparr> lastTime := 1392 \<rparr>))) = 1"
  "currentPlatform (player (update_move 0 (Q86\<lparr> lastTime := 1392 \<rparr>))) = None"
  unfolding update_move_player_eq[OF Q86_refs] Q86_store
  by (simp_all add: Q86_fields Player_physics_def carry_def speedMultiplier_def Let_def config)

lemmas Q86_move = Q86_store Q86_player update_move_fields[OF Q86_refs] Q86_fields

lemma Q86_preCollision:
  "preCollision R1 1392 0 Q86 = update_move 0 (Q86\<lparr> lastTime := 1392 \<rparr>)"
  by (simp add: preCollision_def afterScroll_def scrolls_def Q86_move)

lemma Q86_landing:
  "landingPlatform (preCollision R1 1392 0 Q86) = None"
  by (simp add: Q86_preCollision landingPlatform_def hits_def Let_def Q86_move)

lemma Q87_eq:
  "Q87 = update_cosmetics (update_fall R1 (update_move 0 (Q86\<lparr> lastTime := 1392 \<rparr>)))"
  using Q86_landing
  by (simp add: Q87_def afterFrame_def update_collision_eq Q86_preCollision)

lemma Q87_fields:
  "state Q87 = Playing"
  "score Q87 = 1"
  "perfectStreak Q87 = 1"
  "isFever Q87 = False"
  "viewportWidth Q87 = 800"
  "viewportHeight Q87 = 600"
  "platforms Q87 = [1, 2, 3, 4, 5, 6]"
  "notifications Q87 = [ScoreUpdate 0, ComboChange 0, FeverChange False, GameStateChange Playing, ScoreUpdate 1, ComboChange 1]"
  "store Q87 =
     [\<lparr> plat_x = 300, plat_y = 702, plat_width = 200, plat_height = 20,
        plat_color = NEON_MAGENTA, plat_vx = 0, passed = False, landedOn = False \<rparr>,
      \<lparr> plat_x = 117103 / 640, plat_y = 1195 / 2, plat_width = 130, plat_height = 20,
        plat_color = NEON_LIME, plat_vx = - (7 / 2), passed = False, landedOn = True \<rparr>,
      \<lparr> plat_x = 450281 / 1280, plat_y = 895 / 2, plat_width = 130, plat_height = 20,
        plat_color = NEON_LIME, plat_vx = - (7 / 2), passed = False, landedOn = False \<rparr>,
      \<lparr> plat_x = 2793 / 20, plat_y = 595 / 2, plat_width = 130, plat_height = 20,
        plat_color = NEON_LIME, plat_vx = 7 / 2, passed = False, landedOn = False \<rparr>,
      \<lparr> plat_x = 933 / 40, plat_y = 295 / 2, plat_width = 130, plat_height = 20,
        plat_color = NEON_LIME, plat_vx = - (7 / 2), passed = False, landedOn = False \<rparr>,
      \<lparr> plat_x = 933 / 40, plat_y = - (5 / 2), plat_width = 130, plat_height = 20,
        plat_color = NEON_LIME, plat_vx = - (7 / 2), passed = False, landedOn = False \<rparr>,
      \<lparr> plat_x = 1945 / 8, plat_y = - (305 / 2), plat_width = 130, plat_height = 20,
        plat_color = NEON_LIME, plat_vx = - (7 / 2), passed = False, landedOn = False \<rparr>]"
  "ply_x (player Q87) = 400"
  "ply_y (player Q87) = 393"
  "ply_vy (player Q87) = 11 / 2"
  "ply_width (player Q87) = 40"
  "ply_height (player Q87) = 40"
  "ply_color (player Q87) = NEON_LIME"
  "jumps (player Q87) = 1"
  "currentPlatform (player Q87) = None"
  "rix Q87 = 120"
  unfolding Q87_eq
  by (simp_all add: tail_fields update_fall_rix landed_fields landed_store landed_score
        landed_perfectStreak landed_isFever landed_notifications landed_player landed_rix
        land_def landingNotes_def perfectHit_def Q86_move config)

lemma Q86_first: "firstLanding R1 (Frame 1392 0) Q86 = None"
  by (simp add: Q86_fields(1) Q86_landing)

lemma wf_Q86: "wf Q86" and pinned_Q86: "pinned Q86"
  using reachable_inv[OF reachable_Q86] by simp_all

lemma Q86_loop: "loop R1 1392 0 Q86 = Inr Q87"
  by (simp add: Q87_def loop_afterFrame[OF wf_Q86 Q86_fields(1)])

lemma reachable_Q87: "reachable R1 Q87"
  by (rule reachable.step[OF reachable_Q86, of "Frame 1392 0"]) (simp_all add: Q86_loop)

lemma Q87_refs: "refs_ok (Q87\<lparr> lastTime := 1408 \<rparr>)"
  by (simp add: refs_ok_def Q87_fields)

lemma Q87_store:
  "store (update_move 0 (Q87\<lparr> lastTime := 1408 \<rparr>)) =
     [\<lparr> plat_x = 300, plat_y = 702, plat_width = 200, plat_height = 20,
        plat_color = NEON_MAGENTA, plat_vx = 0, passed = False, landedOn = False \<rparr>,
      \<lparr> plat_x = 114751 / 640, plat_y = 1195 / 2, plat_width = 130, plat_height = 20,
        plat_color = NEON_LIME, plat_vx = - (7 / 2), passed = False, landedOn = True \<rparr>,
      \<lparr> plat_x = 445577 / 1280, plat_y = 895 / 2, plat_width = 130, plat_height = 20,
        plat_color = NEON_LIME, plat_vx = - (7 / 2), passed = False, landedOn = False \<rparr>,
      \<lparr> plat_x = 5733 / 40, plat_y = 595 / 2, plat_width = 130, plat_height = 20,
        plat_color = NEON_LIME, plat_vx = 7 / 2, passed = False, landedOn = False \<rparr>,
      \<lparr> plat_x = 393 / 20, plat_y = 295 / 2, plat_width = 130, plat_height = 20,
        plat_color = NEON_LIME, plat_vx = - (7 / 2), passed = False, landedOn = False \<rparr>,
      \<lparr> plat_x = 393 / 20, plat_y = - (5 / 2), plat_width = 130, plat_height = 20,
        plat_color = NEON_LIME, plat_vx = - (7 / 2), passed = False, landedOn = False \<rparr>,
      \<lparr> plat_x = 4789 / 20, plat_y = - (305 / 2), plat_width = 130, plat_height = 20,
        plat_color = NEON_LIME, plat_vx = - (7 / 2), passed = False, landedOn = False \<rparr>]"
  by (simp add: update_move_eq[OF Q87_refs] Q87_fields advance_def speedMultiplier_def Let_def)

lemma Q87_player:
  "ply_x (player (update_move 0 (Q87\<lparr> lastTime := 1408 \<rparr>))) = 400"
  "ply_y (player (update_move 0 (Q87\<lparr> lastTime := 1408 \<rparr>))) = 399"
  "ply_vy (player (update_move 0 (Q87\<lparr> lastTime := 1408 \<rparr>))) = 6"
  "ply_width (player (update_move 0 (Q87\<lparr> lastTime := 1408 \<rparr>))) = 40"
  "ply_height (player (update_move 0 (Q87\<lparr> lastTime := 1408 \<rparr>))) = 40"
  "ply_color (player (update_move 0 (Q87\<lparr> lastTime := 1408 \<rparr>))) = NEON_LIME"
  "jumps (player (update_move 0 (Q87\<lparr> lastTime := 1408 \<rparr>))) = 1"
  "currentPlatform (player (update_move 0 (Q87\<lparr> lastTime := 1408 \<rparr>))) = None"
  unfolding update_move_player_eq[OF Q87_refs] Q87_store
  by (simp_all add: Q87_fields Player_physics_def carry_def speedMultiplier_def Let_def config)

lemmas Q87_move = Q87_store Q87_player update_move_fields[OF Q87_refs] Q87_fields

lemma Q87_preCollision:
  "preCollision R1 1408 0 Q87 = update_move 0 (Q87\<lparr> lastTime := 1408 \<rparr>)"
  by (simp add: preCollision_def afterScroll_def scrolls_def Q87_move)

lemma Q87_landing:
  "landingPlatform (preCollision R1 1408 0 Q87) = None"
  by (simp add: Q87_preCollision landingPlatform_def hits_def Let_def Q87_move)

lemma Q88_eq:
  "Q88 = update_cosmetics (update_fall R1 (update_move 0 (Q87\<lparr> lastTime := 1408 \<rparr>)))"
  using Q87_landing
  by (simp add: Q88_def afterFrame_def update_collision_eq Q87_preCollision)

lemma Q88_fields:
  "state Q88 = Playing"
  "score Q88 = 1"
  "perfectStreak Q88 = 1"
  "isFever Q88 = False"
  "viewportWidth Q88 = 800"
  "viewportHeight Q88 = 600"
  "platforms Q88 = [1, 2, 3, 4, 5, 6]"
  "notifications Q88 = [ScoreUpdate 0, ComboChange 0, FeverChange False, GameStateChange Playing, ScoreUpdate 1, ComboChange 1]"
  "store Q88 =
     [\<lparr> plat_x = 300, plat_y = 702, plat_width = 200, plat_height = 20,
        plat_color = NEON_MAGENTA, plat_vx = 0, passed = False, landedOn = False \<rparr>,
      \<lparr> plat_x = 114751 / 640, plat_y = 1195 / 2, plat_width = 130, plat_height = 20,
        plat_color = NEON_LIME, plat_vx = - (7 / 2), passed = False, landedOn = True \<rparr>,
      \<lparr> plat_x = 445577 / 1280, plat_y = 895 / 2, plat_width = 130, plat_height = 20,
        plat_color = NEON_LIME, plat_vx = - (7 / 2), passed = False, landedOn = False \<rparr>,
      \<lparr> plat_x = 5733 / 40, plat_y = 595 / 2, plat_width = 130, plat_height = 20,
        plat_color = NEON_LIME, plat_vx = 7 / 2, passed = False, landedOn = False \<rparr>,
      \<lparr> plat_x = 393 / 20, plat_y = 295 / 2, plat_width = 130, plat_height = 20,
        plat_color = NEON_LIME, plat_vx = - (7 / 2), passed = False, landedOn = False \<rparr>,
      \<lparr> plat_x = 393 / 20, plat_y = - (5 / 2), plat_width = 130, plat_height = 20,
        plat_color = NEON_LIME, plat_vx = - (7 / 2), passed = False, landedOn = False \<rparr>,
      \<lparr> plat_x = 4789 / 20, plat_y = - (305 / 2), plat_width = 130, plat_height = 20,
        plat_color = NEON_LIME, plat_vx = - (7 / 2), passed = False, landedOn = False \<rparr>]"
  "ply_x (player Q88) = 400"
  "ply_y (player Q88) = 399"
  "ply_vy (player Q88) = 6"
  "ply_width (player Q88) = 40"
  "ply_height (player Q88) = 40"
  "ply_color (player Q88) = NEON_LIME"
  "jumps (player Q88) = 1"
  "currentPlatform (player Q88) = None"
  "rix Q88 = 120"
  unfolding Q88_eq
  by (simp_all add: tail_fields update_fall_rix landed_fields landed_store landed_score
        landed_perfectStreak landed_isFever landed_notifications landed_player landed_rix
        land_def landingNotes_def perfectHit_def Q87_move config)

lemma Q87_first: "firstLanding R1 (Frame 1408 0) Q87 = None"
  by (simp add: Q87_fields(1) Q87_landing)

lemma wf_Q87: "wf Q87" and pinned_Q87: "pinned Q87"
  using reachable_inv[OF reachable_Q87] by simp_all

lemma Q87_loop: "loop R1 1408 0 Q87 = Inr Q88"
  by (simp add: Q88_def loop_afterFrame[OF wf_Q87 Q87_fields(1)])

lemma reachable_Q88: "reachable R1 Q88"
  by (rule reachable.step[OF reachable_Q87, of "Frame 1408 0"]) (simp_all add: Q87_loop)

lemma Q88_refs: "refs_ok (Q88\<lparr> lastTime := 1424 \<rparr>)"
  by (simp add: refs_ok_def Q88_fields)

lemma Q88_store:
  "store (update_move 0 (Q88\<lparr> lastTime := 1424 \<rparr>)) =
     [\<lparr> plat_x = 300, plat_y = 702, plat_width = 200, plat_height = 20,
        plat_color = NEON_MAGENTA, plat_vx = 0, passed = False, landedOn = False \<rparr>,
      \<lparr> plat_x = 112399 / 640, plat_y = 1195 / 2, plat_width = 130, plat_height = 20,
        plat_color = NEON_LIME, plat_vx = - (7 / 2), passed = False, landedOn = True \<rparr>,
      \<lparr> plat_x = 440873 / 1280, plat_y = 895 / 2, plat_width = 130, plat_height = 20,
        plat_color = NEON_LIME, plat_vx = - (7 / 2), passed = False, landedOn = False \<rparr>,
      \<lparr> plat_x = 147, plat_y = 595 / 2, plat_width = 130, plat_height = 20,
        plat_color = NEON_LIME, plat_vx = 7 / 2, passed = False, landedOn = False \<rparr>,
      \<lparr> plat_x = 639 / 40, plat_y = 295 / 2, plat_width = 130, plat_height = 20,
        plat_color = NEON_LIME, plat_vx = - (7 / 2), passed = False, landedOn = False \<rparr>,
      \<lparr> plat_x = 639 / 40, plat_y = - (5 / 2), plat_width = 130, plat_height = 20,
        plat_color = NEON_LIME, plat_vx = - (7 / 2), passed = False, landedOn = False \<rparr>,
      \<lparr> plat_x = 9431 / 40, plat_y = - (305 / 2), plat_width = 130, plat_height = 20,
        plat_color = NEON_LIME, plat_vx = - (7 / 2), passed = False, landedOn = False \<rparr>]"
  by (simp add: update_move_eq[OF Q88_refs] Q88_fields advance_def speedMultiplier_def Let_def)

lemma Q88_player:
  "ply_x (player (update_move 0 (Q88\<lparr> lastTime := 1424 \<rparr>))) = 400"
  "ply_y (player (update_move 0 (Q88\<lparr> lastTime := 1424 \<rparr>))) = 811 / 2"
  "ply_vy (player (update_move 0 (Q88\<lparr> lastTime := 1424 \<rparr>))) = 13 / 2"
  "ply_width (player (update_move 0 (Q88\<lparr> lastTime := 1424 \<rparr>))) = 40"
  "ply_height (player (update_move 0 (Q88\<lparr> lastTime := 1424 \<rparr>))) = 40"
  "ply_color (player (update_move 0 (Q88\<lparr> lastTime := 1424 \<rparr>))) = NEON_LIME"
  "jumps (player (update_move 0 (Q88\<lparr> lastTime := 1424 \<rparr>))) = 1"
  "currentPlatform (player (update_move 0 (Q88\<lparr> lastTime := 1424 \<rparr>))) = None"
  unfolding update_move_player_eq[OF Q88_refs] Q88_store
  by (simp_all add: Q88_fields Player_physics_def carry_def speedMultiplier_def Let_def config)

lemmas Q88_move = Q88_store Q88_player update_move_fields[OF Q88_refs] Q88_fields

lemma Q88_preCollision:
  "preCollision R1 1424 0 Q88 = update_move 0 (Q88\<lparr> lastTime := 1424 \<rparr>)"
  by (simp add: preCollision_def afterScroll_def scrolls_def Q88_move)

lemma Q88_landing:
  "landingPlatform (preCollision R1 1424 0 Q88) = None"
  by (simp add: Q88_preCollision landingPlatform_def hits_def Let_def Q88_move)

lemma Q89_eq:
  "Q89 = update_cosmetics (update_fall R1 (update_move 0 (Q88\<lparr> lastTime := 1424 \<rparr>)))"
  using Q88_landing
  by (simp add: Q89_def afterFrame_def update_collision_eq Q88_preCollision)

lemma Q89_fields:
  "state Q89 = Playing"
  "score Q89 = 1"
  "perfectStreak Q89 = 1"
  "isFever Q89 = False"
  "viewportWidth Q89 = 800"
  "viewportHeight Q89 = 600"
  "platforms Q89 = [1, 2, 3, 4, 5, 6]"
  "notifications Q89 = [ScoreUpdate 0, ComboChange 0, FeverChange False, GameStateChange Playing, ScoreUpdate 1, ComboChange 1]"
  "store Q89 =
     [\<lparr> plat_x = 300, plat_y = 702, plat_width = 200, plat_height = 20,
        plat_color = NEON_MAGENTA, plat_vx = 0, passed = False, landedOn = False \<rparr>,
      \<lparr> plat_x = 112399 / 640, plat_y = 1195 / 2, plat_width = 130, plat_height = 20,
        plat_color = NEON_LIME, plat_vx = - (7 / 2), passed = False, landedOn = True \<rparr>,
      \<lparr> plat_x = 440873 / 1280, plat_y = 895 / 2, plat_width = 130, plat_height = 20,
        plat_color = NEON_LIME, plat_vx = - (7 / 2), passed = False, landedOn = False \<rparr>,
      \<lparr> plat_x = 147, plat_y = 595 / 2, plat_width = 130, plat_height = 20,
        plat_color = NEON_LIME, plat_vx = 7 / 2, passed = False, landedOn = False \<rparr>,
      \<lparr> plat_x = 639 / 40, plat_y = 295 / 2, plat_width = 130, plat_height = 20,
        plat_color = NEON_LIME, plat_vx = - (7 / 2), passed = False, landedOn = False \<rparr>,
      \<lparr> plat_x = 639 / 40, plat_y = - (5 / 2), plat_width = 130, plat_height = 20,
        plat_color = NEON_LIME, plat_vx = - (7 / 2), passed = False, landedOn = False \<rparr>,
      \<lparr> plat_x = 9431 / 40, plat_y = - (305 / 2), plat_width = 130, plat_height = 20,
        plat_color = NEON_LIME, plat_vx = - (7 / 2), passed = False, landedOn = False \<rparr>]"
  "ply_x (player Q89) = 400"
  "ply_y (player Q89) = 811 / 2"
  "ply_vy (player Q89) = 13 / 2"
  "ply_width (player Q89) = 40"
  "ply_height (player Q89) = 40"
  "ply_color (player Q89) = NEON_LIME"
  "jumps (player Q89) = 1"
  "currentPlatform (player Q89) = None"
  "rix Q89 = 120"
  unfolding Q89_eq
  by (simp_all add: tail_fields update_fall_rix landed_fields landed_store landed_score
        landed_perfectStreak landed_isFever landed_notifications landed_player landed_rix
        land_def landingNotes_def perfectHit_def Q88_move config)

lemma Q88_first: "firstLanding R1 (Frame 1424 0) Q88 = None"
  by (simp add: Q88_fields(1) Q88_landing)

lemma wf_Q88: "wf Q88" and pinned_Q88: "pinned Q88"
  using reachable_inv[OF reachable_Q88] by simp_all

lemma Q88_loop: "loop R1 1424 0 Q88 = Inr Q89"
  by (simp add: Q89_def loop_afterFrame[OF wf_Q88 Q88_fields(1)])

lemma reachable_Q89: "reachable R1 Q89"
  by (rule reachable.step[OF reachable_Q88, of "Frame 1424 0"]) (simp_all add: Q88_loop)

lemma Q89_refs: "refs_ok (Q89\<lparr> lastTime := 1440 \<rparr>)"
  by (simp add: refs_ok_def Q89_fields)

lemma Q89_store:
  "store (update_move 0 (Q89\<lparr> lastTime := 1440 \<rparr>)) =
     [\<lparr> plat_x = 300, plat_y = 702, plat_width = 200, plat_height = 20,
        plat_color = NEON_MAGENTA, plat_vx = 0, passed = False, landedOn = False \<rparr>,
      \<lparr> plat_x = 110047 / 640, plat_y = 1195 / 2, plat_width = 130, plat_height = 20,
        plat_color = NEON_LIME, plat_vx = - (7 / 2), passed = False, landedOn = True \<rparr>,
      \<lparr> plat_x = 436169 / 1280, plat_y = 895 / 2, plat_width = 130, plat_height = 20,
        plat_color = NEON_LIME, plat_vx = - (7 / 2), passed = False, landedOn = False \<rparr>,
      \<lparr> plat_x = 6027 / 40, plat_y = 595 / 2, plat_width = 130, plat_height = 20,
        plat_color = NEON_LIME, plat_vx = 7 / 2, passed = False, landedOn = False \<rparr>,
      \<lparr> plat_x = 123 / 10, plat_y = 295 / 2, plat_width = 130, plat_height = 20,
        plat_color = NEON_LIME, plat_vx = - (7 / 2), passed = False, landedOn = False \<rparr>,
      \<lparr> plat_x = 123 / 10, plat_y = - (5 / 2), plat_width = 130, plat_height = 20,
        plat_color = NEON_LIME, plat_vx = - (7 / 2), passed = False, landedOn = False \<rparr>,
      \<lparr> plat_x = 2321 / 10, plat_y = - (305 / 2), plat_width = 130, plat_height = 20,
        plat_color = NEON_LIME, plat_vx = - (7 / 2), passed = False, landedOn = False \<rparr>]"
  by (simp add: update_move_eq[OF Q89_refs] Q89_fields advance_def speedMultiplier_def Let_def)

lemma Q89_player:
  "ply_x (player (update_move 0 (Q89\<lparr> lastTime := 1440 \<rparr>))) = 400"
  "ply_y (player (update_move 0 (Q89\<lparr> lastTime := 1440 \<rparr>))) = 825 / 2"
  "ply_vy (player (update_move 0 (Q89\<lparr> lastTime := 1440 \<rparr>))) = 7"
  "ply_width (player (update_move 0 (Q89\<lparr> lastTime := 1440 \<rparr>))) = 40"
  "ply_height (player (update_move 0 (Q89\<lparr> lastTime := 1440 \<rparr>))) = 40"
  "ply_color (player (update_move 0 (Q89\<lparr> lastTime := 1440 \<rparr>))) = NEON_LIME"
  "jumps (player (update_move 0 (Q89\<lparr> lastTime := 1440 \<rparr>))) = 1"
  "currentPlatform (player (update_move 0 (Q89\<lparr> lastTime := 1440 \<rparr>))) = None"
  unfolding update_move_player_eq[OF Q89_refs] Q89_store
  by (simp_all add: Q89_fields Player_physics_def carry_def speedMultiplier_def Let_def config)

lemmas Q89_move = Q89_store Q89_player update_move_fields[OF Q89_refs] Q89_fields

lemma Q89_preCollision:
  "preCollision R1 1440 0 Q89 = update_move 0 (Q89\<lparr> lastTime := 1440 \<rparr>)"
  by (simp add: preCollision_def afterScroll_def scrolls_def Q89_move)

lemma Q89_landing:
  "landingPlatform (preCollision R1 1440 0 Q89) = None"
  by (simp add: Q89_preCollision landingPlatform_def hits_def Let_def Q89_move)

lemma Q90_eq:
  "Q90 = update_cosmetics (update_fall R1 (update_move 0 (Q89\<lparr> lastTime := 1440 \<rparr>)))"
  using Q89_landing
  by (simp add: Q90_def afterFrame_def update_collision_eq Q89_preCollision)

lemma Q90_fields:
  "state Q90 = Playing"
  "score Q90 = 1"
  "perfectStreak Q90 = 1"
  "isFever Q90 = False"
  "viewportWidth Q90 = 800"
  "viewportHeight Q90 = 600"
  "platforms Q90 = [1, 2, 3, 4, 5, 6]"
  "notifications Q90 = [ScoreUpdate 0, ComboChange 0, FeverChange False, GameStateChange Playing, ScoreUpdate 1, ComboChange 1]"
  "store Q90 =
     [\<lparr> plat_x = 300, plat_y = 702, plat_width = 200, plat_height = 20,
        plat_color = NEON_MAGENTA, plat_vx = 0, passed = False, landedOn = False \<rparr>,
      \<lparr> plat_x = 110047 / 640, plat_y = 1195 / 2, plat_width = 130, plat_height = 20,
        plat_color = NEON_LIME, plat_vx = - (7 / 2), passed = False, landedOn = True \<rparr>,
      \<lparr> plat_x = 436169 / 1280, plat_y = 895 / 2, plat_width = 130, plat_height = 20,
        plat_color = NEON_LIME, plat_vx = - (7 / 2), passed = False, landedOn = False \<rparr>,
      \<lparr> plat_x = 6027 / 40, plat_y = 595 / 2, plat_width = 130, plat_height = 20,
        plat_color = NEON_LIME, plat_vx = 7 / 2, passed = False, landedOn = False \<rparr>,
      \<lparr> plat_x = 123 / 10, plat_y = 295 / 2, plat_width = 130, plat_height = 20,
        plat_color = NEON_LIME, plat_vx = - (7 / 2), passed = False, landedOn = False \<rparr>,
      \<lparr> plat_x = 123 / 10, plat_y = - (5 / 2), plat_width = 130, plat_height = 20,
        plat_color = NEON_LIME, plat_vx = - (7 / 2), passed = False, landedOn = False \<rparr>,
      \<lparr> plat_x = 2321 / 10, plat_y = - (305 / 2), plat_width = 130, plat_height = 20,
        plat_color = NEON_LIME, plat_vx = - (7 / 2), passed = False, landedOn = False \<rparr>]"
  "ply_x (player Q90) = 400"
  "ply_y (player Q90) = 825 / 2"
  "ply_vy (player Q90) = 7"
  "ply_width (player Q90) = 40"
  "ply_height (player Q90) = 40"
  "ply_color (player Q90) = NEON_LIME"
  "jumps (player Q90) = 1"
  "currentPlatform (player Q90) = None"
  "rix Q90 = 120"
  unfolding Q90_eq
  by (simp_all add: tail_fields update_fall_rix landed_fields landed_store landed_score
        landed_perfectStreak landed_isFever landed_notifications landed_player landed_rix
        land_def landingNotes_def perfectHit_def Q89_move config)

lemma Q89_first: "firstLanding R1 (Frame 1440 0) Q89 = None"
  by (simp add: Q89_fields(1) Q89_landing)

lemma wf_Q89: "wf Q89" and pinned_Q89: "pinned Q89"
  using reachable_inv[OF reachable_Q89] by simp_all

lemma Q89_loop: "loop R1 1440 0 Q89 = Inr Q90"
  by (simp add: Q90_def loop_afterFrame[OF wf_Q89 Q89_fields(1)])

lemma reachable_Q90: "reachable R1 Q90"
  by (rule reachable.step[OF reachable_Q89, of "Frame 1440 0"]) (simp_all add: Q89_loop)

lemma Q90_refs: "refs_ok (Q90\<lparr> lastTime := 1456 \<rparr>)"
  by (simp add: refs_ok_def Q90_fields)

lemma Q90_store:
  "store (update_move 0 (Q90\<lparr> lastTime := 1456 \<rparr>)) =
     [\<lparr> plat_x = 300, plat_y = 702, plat_width = 200, plat_height = 20,
        plat_color = NEON_MAGENTA, plat_vx = 0, passed = False, landedOn = False \<rparr>,
      \<lparr> plat_x = 21539 / 128, plat_y = 1195 / 2, plat_width = 130, plat_height = 20,
        plat_color = NEON_LIME, plat_vx = - (7 / 2), passed = False, landedOn = True \<rparr>,
      \<lparr> plat_x = 86293 / 256, plat_y = 895 / 2, plat_width = 130, plat_height = 20,
        plat_color = NEON_LIME, plat_vx = - (7 / 2), passed = False, landedOn = False \<rparr>,
      \<lparr> plat_x = 3087 / 20, plat_y = 595 / 2, plat_width = 130, plat_height = 20,
        plat_color = NEON_LIME, plat_vx = 7 / 2, passed = False, landedOn = False \<rparr>,
      \<lparr> plat_x = 69 / 8, plat_y = 295 / 2, plat_width = 130, plat_height = 20,
        plat_color = NEON_LIME, plat_vx = - (7 / 2), passed = False, landedOn = False \<rparr>,
      \<lparr> plat_x = 69 / 8, plat_y = - (5 / 2), plat_width = 130, plat_height = 20,
        plat_color = NEON_LIME, plat_vx = - (7 / 2), passed = False, landedOn = False \<rparr>,
      \<lparr> plat_x = 9137 / 40, plat_y = - (305 / 2), plat_width = 130, plat_height = 20,
        plat_color = NEON_LIME, plat_vx = - (7 / 2), passed = False, landedOn = False \<rparr>]"
  by (simp add: update_move_eq[OF Q90_refs] Q90_fields advance_def speedMultiplier_def Let_def)

lemma Q90_player:
  "ply_x (player (update_move 0 (Q90\<lparr> lastTime := 1456 \<rparr>))) = 400"
  "ply_y (player (update_move 0 (Q90\<lparr> lastTime := 1456 \<rparr>))) = 420"
  "ply_vy (player (update_move 0 (Q90\<lparr> lastTime := 1456 \<rparr>))) = 15 / 2"
  "ply_width (player (update_move 0 (Q90\<lparr> lastTime := 1456 \<rparr>))) = 40"
  "ply_height (player (update_move 0 (Q90\<lparr> lastTime := 1456 \<rparr>))) = 40"
  "ply_color (player (update_move 0 (Q90\<lparr> lastTime := 1456 \<rparr>))) = NEON_LIME"
  "jumps (player (update_move 0 (Q90\<lparr> lastTime := 1456 \<rparr>))) = 1"
  "currentPlatform (player (update_move 0 (Q90\<lparr> lastTime := 1456 \<rparr>))) = None"
  unfolding update_move_player_eq[OF Q90_refs] Q90_store
  by (simp_all add: Q90_fields Player_physics_def carry_def speedMultiplier_def Let_def config)

lemmas Q90_move = Q90_store Q90_player update_move_fields[OF Q90_refs] Q90_fields

lemma Q90_preCollision:
  "preCollision R1 1456 0 Q90 = update_move 0 (Q90\<lparr> lastTime := 1456 \<rparr>)"
  by (simp add: preCollision_def afterScroll_def scrolls_def Q90_move)

lemma Q90_landing:
  "landingPlatform (preCollision R1 1456 0 Q90) = None"
  by (simp add: Q90_preCollision landingPlatform_def hits_def Let_def Q90_move)

lemma Q91_eq:
  "Q91 = update_cosmetics (update_fall R1 (update_move 0 (Q90\<lparr> lastTime := 1456 \<rparr>)))"
  using Q90_landing
  by (simp add: Q91_def afterFrame_def update_collision_eq Q90_preCollision)

lemma Q91_fields:
  "state Q91 = Playing"
  "score Q91 = 1"
  "perfectStreak Q91 = 1"
  "isFever Q91 = False"
  "viewportWidth Q91 = 800"
  "viewportHeight Q91 = 600"
  "platforms Q91 = [1, 2, 3, 4, 5, 6]"
  "notifications Q91 = [ScoreUpdate 0, ComboChange 0, FeverChange False, GameStateChange Playing, ScoreUpdate 1, ComboChange 1]"
  "store Q91 =
     [\<lparr> plat_x = 300, plat_y = 702, plat_width = 200, plat_height = 20,
        plat_color = NEON_MAGENTA, plat_vx = 0, passed = False, landedOn = False \<rparr>,
      \<lparr> plat_x = 21539 / 128, plat_y = 1195 / 2, plat_width = 130, plat_height = 20,
        plat_color = NEON_LIME, plat_vx = - (7 / 2), passed = False, landedOn = True \<rparr>,
      \<lparr> plat_x = 86293 / 256, plat_y = 895 / 2, plat_width = 130, plat_height = 20,
        plat_color = NEON_LIME, plat_vx = - (7 / 2), passed = False, landedOn = False \<rparr>,
      \<lparr> plat_x = 3087 / 20, plat_y = 595 / 2, plat_width = 130, plat_height = 20,
        plat_color = NEON_LIME, plat_vx = 7 / 2, passed = False, landedOn = False \<rparr>,
      \<lparr> plat_x = 69 / 8, plat_y = 295 / 2, plat_width = 130, plat_height = 20,
        plat_color = NEON_LIME, plat_vx = - (7 / 2), passed = False, landedOn = False \<rparr>,
      \<lparr> plat_x = 69 / 8, plat_y = - (5 / 2), plat_width = 130, plat_height = 20,
        plat_color = NEON_LIME, plat_vx = - (7 / 2), passed = False, landedOn = False \<rparr>,
      \<lparr> plat_x = 9137 / 40, plat_y = - (305 / 2), plat_width = 130, plat_height = 20,
        plat_color = NEON_LIME, plat_vx = - (7 / 2), passed = False, landedOn = False \<rparr>]"
  "ply_x (player Q91) = 400"
  "ply_y (player Q91) = 420"
  "ply_vy (player Q91) = 15 / 2"
  "ply_width (player Q91) = 40"
  "ply_height (player Q91) = 40"
  "ply_color (player Q91) = NEON_LIME"
  "jumps (player Q91) = 1"
  "currentPlatform (player Q91) = None"
  "rix Q91 = 120"
  unfolding Q91_eq
  by (simp_all add: tail_fields update_fall_rix landed_fields landed_store landed_score
        landed_perfectStreak landed_isFever landed_notifications landed_player landed_rix
        land_def landingNotes_def perfectHit_def Q90_move config)

lemma Q90_first: "firstLanding R1 (Frame 1456 0) Q90 = None"
  by (simp add: Q90_fields(1) Q90_landing)

lemma wf_Q90: "wf Q90" and pinned_Q90: "pinned Q90"
  using reachable_inv[OF reachable_Q90] by simp_all

lemma Q90_loop: "loop R1 1456 0 Q90 = Inr Q91"
  by (simp add: Q91_def loop_afterFrame[OF wf_Q90 Q90_fields(1)])

lemma reachable_Q91: "reachable R1 Q91"
  by (rule reachable.step[OF reachable_Q90, of "Frame 1456 0"]) (simp_all add: Q90_loop)

lemma Q91_refs: "refs_ok (Q91\<lparr> lastTime := 1472 \<rparr>)"
  by (simp add: refs_ok_def Q91_fields)

lemma Q91_store:
  "store (update_move 0 (Q91\<lparr> lastTime := 1472 \<rparr>)) =
     [\<lparr> plat_x = 300, plat_y = 702, plat_width = 200, plat_height = 20,
        plat_color = NEON_MAGENTA, plat_vx = 0, passed = False, landedOn = False \<rparr>,
      \<lparr> plat_x = 105343 / 640, plat_y = 1195 / 2, plat_width = 130, plat_height = 20,
        plat_color = NEON_LIME, plat_vx = - (7 / 2), passed = False, landedOn = True \<rparr>,
      \<lparr> plat_x = 426761 / 1280, plat_y = 895 / 2, plat_width = 130, plat_height = 20,
        plat_color = NEON_LIME, plat_vx = - (7 / 2), passed = False, landedOn = False \<rparr>,
      \<lparr> plat_x = 6321 / 40, plat_y = 595 / 2, plat_width = 130, plat_height = 20,
        plat_color = NEON_LIME, plat_vx = 7 / 2, passed = False, landedOn = False \<rparr>,
      \<lparr> plat_x = 99 / 20, plat_y = 295 / 2, plat_width = 130, plat_height = 20,
        plat_color = NEON_LIME, plat_vx = - (7 / 2), passed = False, landedOn = False \<rparr>,
      \<lparr> plat_x = 99 / 20, plat_y = - (5 / 2), plat_width = 130, plat_height = 20,
        plat_color = NEON_LIME, plat_vx = - (7 / 2), passed = False, landedOn = False \<rparr>,
      \<lparr> plat_x = 899 / 4, plat_y = - (305 / 2), plat_width = 130, plat_height = 20,
        plat_color = NEON_LIME, plat_vx = - (7 / 2), passed = False, landedOn = False \<rparr>]"
  by (simp add: update_move_eq[OF Q91_refs] Q91_fields advance_def speedMultiplier_def Let_def)

lemma Q91_player:
  "ply_x (player (update_move 0 (Q91\<lparr> lastTime := 1472 \<rparr>))) = 400"
  "ply_y (player (update_move 0 (Q91\<lparr> lastTime := 1472 \<rparr>))) = 428"
  "ply_vy (player (update_move 0 (Q91\<lparr> lastTime := 1472 \<rparr>))) = 8"
  "ply_width (player (update_move 0 (Q91\<lparr> lastTime := 1472 \<rparr>))) = 40"
  "ply_height (player (update_move 0 (Q91\<lparr> lastTime := 1472 \<rparr>))) = 40"
  "ply_color (player (update_move 0 (Q91\<lparr> lastTime := 1472 \<rparr>))) = NEON_LIME"
  "jumps (player (update_move 0 (Q91\<lparr> lastTime := 1472 \<rparr>))) = 1"
  "currentPlatform (player (update_move 0 (Q91\<lparr> lastTime := 1472 \<rparr>))) = None"
  unfolding update_move_player_eq[OF Q91_refs] Q91_store
  by (simp_all add: Q91_fields Player_physics_def carry_def speedMultiplier_def Let_def config)

lemmas Q91_move = Q91_store Q91_player update_move_fields[OF Q91_refs] Q91_fields

lemma Q91_preCollision:
  "preCollision R1 1472 0 Q91 = update_move 0 (Q91\<lparr> lastTime := 1472 \<rparr>)"
  by (simp add: preCollision_def afterScroll_def scrolls_def Q91_move)

lemma Q91_landing:
  "landingPlatform (preCollision R1 1472 0 Q91) = Some 2"
  by (simp add: Q91_preCollision landingPlatform_def hits_def Let_def Q91_move)

lemma Q92_eq:
  "Q92 = update_cosmetics (update_fall R1 (landed R1 2 (update_move 0 (Q91\<lparr> lastTime := 1472 \<rparr>))))"
  using Q91_landing
  by (simp add: Q92_def afterFrame_def update_collision_eq Q91_preCollision)

lemma Q92_fields:
  "state Q92 = Playing"
  "score Q92 = 2"
  "perfectStreak Q92 = 2"
  "isFever Q92 = False"
  "viewportWidth Q92 = 800"
  "viewportHeight Q92 = 600"
  "platforms Q92 = [1, 2, 3, 4, 5, 6]"
  "notifications Q92 = [ScoreUpdate 0, ComboChange 0, FeverChange False, GameStateChange Playing, ScoreUpdate 1, ComboChange 1, ScoreUpdate 2, ComboChange 2]"
  "store Q92 =
     [\<lparr> plat_x = 300, plat_y = 702, plat_width = 200, plat_height = 20,
        plat_color = NEON_MAGENTA, plat_vx = 0, passed = False, landedOn = False \<rparr>,
      \<lparr> plat_x = 105343 / 640, plat_y = 1195 / 2, plat_width = 130, plat_height = 20,
        plat_color = NEON_LIME, plat_vx = - (7 / 2), passed = False, landedOn = True \<rparr>,
      \<lparr> plat_x = 426761 / 1280, plat_y = 895 / 2, plat_width = 130, plat_height = 20,
        plat_color = NEON_LIME, plat_vx = - (7 / 2), passed = False, landedOn = True \<rparr>,
      \<lparr> plat_x = 6321 / 40, plat_y = 595 / 2, plat_width = 130, plat_height = 20,
        plat_color = NEON_LIME, plat_vx = 7 / 2, passed = False, landedOn = False \<rparr>,
      \<lparr> plat_x = 99 / 20, plat_y = 295 / 2, plat_width = 130, plat_height = 20,
        plat_color = NEON_LIME, plat_vx = - (7 / 2), passed = False, landedOn = False \<rparr>,
      \<lparr> plat_x = 99 / 20, plat_y = - (5 / 2), plat_width = 130, plat_height = 20,
        plat_color = NEON_LIME, plat_vx = - (7 / 2), passed = False, landedOn = False \<rparr>,
      \<lparr> plat_x = 899 / 4, plat_y = - (305 / 2), plat_width = 130, plat_height = 20,
        plat_color = NEON_LIME, plat_vx = - (7 / 2), passed = False, landedOn = False \<rparr>]"
  "ply_x (player Q92) = 400"
  "ply_y (player Q92) = 855 / 2"
  "ply_vy (player Q92) = 0"
  "ply_width (player Q92) = 40"
  "ply_height (player Q92) = 40"
  "ply_color (player Q92) = NEON_LIME"
  "jumps (player Q92) = 0"
  "currentPlatform (player Q92) = Some 2"
  "rix Q92 = 180"
  unfolding Q92_eq
  by (simp_all add: tail_fields update_fall_rix landed_fields landed_store landed_score
        landed_perfectStreak landed_isFever landed_notifications landed_player landed_rix
        land_def landingNotes_def perfectHit_def Q91_move config)

lemma Q91_first: "firstLanding R1 (Frame 1472 0) Q91 = Some True"
  by (simp add: Q91_fields(1) Q91_landing)
     (simp add: Q91_preCollision Q91_move perfectHit_def config)

lemma wf_Q91: "wf Q91" and pinned_Q91: "pinned Q91"
  using reachable_inv[OF reachable_Q91] by simp_all

lemma Q91_loop: "loop R1 1472 0 Q91 = Inr Q92"
  by (simp add: Q92_def loop_afterFrame[OF wf_Q91 Q91_fields(1)])

lemma reachable_Q92: "reachable R1 Q92"
  by (rule reachable.step[OF reachable_Q91, of "Frame 1472 0"]) (simp_all add: Q91_loop)

lemma Q92j_fields:
  "state Q92j = Playing"
  "score Q92j = 2"
  "perfectStreak Q92j = 2"
  "isFever Q92j = False"
  "viewportWidth Q92j = 800"
  "viewportHeight Q92j = 600"
  "platforms Q92j = [1, 2, 3, 4, 5, 6]"
  "notifications Q92j = [ScoreUpdate 0, ComboChange 0, FeverChange False, GameStateChange Playing, ScoreUpdate 1, ComboChange 1, ScoreUpdate 2, ComboChange 2]"
  "store Q92j =
     [\<lparr> plat_x = 300, plat_y = 702, plat_width = 200, plat_height = 20,
        plat_color = NEON_MAGENTA, plat_vx = 0, passed = False, landedOn = False \<rparr>,
      \<lparr> plat_x = 105343 / 640, plat_y = 1195 / 2, plat_width = 130, plat_height = 20,
        plat_color = NEON_LIME, plat_vx = - (7 / 2), passed = False, landedOn = True \<rparr>,
      \<lparr> plat_x = 426761 / 1280, plat_y = 895 / 2, plat_width = 130, plat_height = 20,
        plat_color = NEON_LIME, plat_vx = - (7 / 2), passed = False, landedOn = True \<rparr>,
      \<lparr> plat_x = 6321 / 40, plat_y = 595 / 2, plat_width = 130, plat_height = 20,
        plat_color = NEON_LIME, plat_vx = 7 / 2, passed = False, landedOn = False \<rparr>,
      \<lparr> plat_x = 99 / 20, plat_y = 295 / 2, plat_width = 130, plat_height = 20,
        plat_color = NEON_LIME, plat_vx = - (7 / 2), passed = False, landedOn = False \<rparr>,
      \<lparr> plat_x = 99 / 20, plat_y = - (5 / 2), plat_width = 130, plat_height = 20,
        plat_color = NEON_LIME, plat_vx = - (7 / 2), passed = False, landedOn = False \<rparr>,
      \<lparr> plat_x = 899 / 4, plat_y = - (305 / 2), plat_width = 130, plat_height = 20,
        plat_color = NEON_LIME, plat_vx = - (7 / 2), passed = False, landedOn = False \<rparr>]"
  "ply_x (player Q92j) = 400"
  "ply_y (player Q92j) = 855 / 2"
  "ply_vy (player Q92j) = - 15"
  "ply_width (player Q92j) = 40"
  "ply_height (player Q92j) = 40"
  "ply_color (player Q92j) = NEON_LIME"
  "jumps (player Q92j) = 1"
  "currentPlatform (player Q92j) = None"
  "rix Q92j = 195"
  by (simp_all add: Q92j_def handleInput_fields handleInput_rix jump_def Q92_fields config)

lemma reachable_Q92j: "reachable R1 Q92j"
  unfolding Q92j_def
  by (rule reachable.step[OF reachable_Q92, of "Input KeyDown"]) simp_all

lemma Q92j_refs: "refs_ok (Q92j\<lparr> lastTime := 1488 \<rparr>)"
  by (simp add: refs_ok_def Q92j_fields)

lemma Q92j_store:
  "store (update_move 0 (Q92j\<lparr> lastTime := 1488 \<rparr>)) =
     [\<lparr> plat_x = 300, plat_y = 702, plat_width = 200, plat_height = 20,
        plat_color = NEON_MAGENTA, plat_vx = 0, passed = False, landedOn = False \<rparr>,
      \<lparr> plat_x = 102879 / 640, plat_y = 1195 / 2, plat_width = 130, plat_height = 20,
        plat_color = NEON_LIME, plat_vx = - (7 / 2), passed = False, landedOn = True \<rparr>,
      \<lparr> plat_x = 421833 / 1280, plat_y = 895 / 2, plat_width = 130, plat_height = 20,
        plat_color = NEON_LIME, plat_vx = - (7 / 2), passed = False, landedOn = True \<rparr>,
      \<lparr> plat_x = 1295 / 8, plat_y = 595 / 2, plat_width = 130, plat_height = 20,
        plat_color = NEON_LIME, plat_vx = 7 / 2, passed = False, landedOn = False \<rparr>,
      \<lparr> plat_x = 11 / 10, plat_y = 295 / 2, plat_width = 130, plat_height = 20,
        plat_color = NEON_LIME, plat_vx = - (7 / 2), passed = False, landedOn = False \<rparr>,
      \<lparr> plat_x = 11 / 10, plat_y = - (5 / 2), plat_width = 130, plat_height = 20,
        plat_color = NEON_LIME, plat_vx = - (7 / 2), passed = False, landedOn = False \<rparr>,
      \<lparr> plat_x = 2209 / 10, plat_y = - (305 / 2), plat_width = 130, plat_height = 20,
        plat_color = NEON_LIME, plat_vx = - (7 / 2), passed = False, landedOn = False \<rparr>]"
  by (simp add: update_move_eq[OF Q92j_refs] Q92j_fields advance_def speedMultiplier_def Let_def)

lemma Q92j_player:
  "ply_x (player (update_move 0 (Q92j\<lparr> lastTime := 1488 \<rparr>))) = 400"
  "ply_y (player (update_move 0 (Q92j\<lparr> lastTime := 1488 \<rparr>))) = 413"
  "ply_vy (player (update_move 0 (Q92j\<lparr> lastTime := 1488 \<rparr>))) = - (29 / 2)"
  "ply_width (player (update_move 0 (Q92j\<lparr> lastTime := 1488 \<rparr>))) = 40"
  "ply_height (player (update_move 0 (Q92j\<lparr> lastTime := 1488 \<rparr>))) = 40"
  "ply_color (player (update_move 0 (Q92j\<lparr> lastTime := 1488 \<rparr>))) = NEON_LIME"
  "jumps (player (update_move 0 (Q92j\<lparr> lastTime := 1488 \<rparr>))) = 1"
  "currentPlatform (player (update_move 0 (Q92j\<lparr> lastTime := 1488 \<rparr>))) = None"
  unfolding update_move_player_eq[OF Q92j_refs] Q92j_store
  by (simp_all add: Q92j_fields Player_physics_def carry_def speedMultiplier_def Let_def config)

lemmas Q92j_move = Q92j_store Q92j_player update_move_fields[OF Q92j_refs] Q92j_fields

lemma Q92j_preCollision:
  "preCollision R1 1488 0 Q92j = update_move 0 (Q92j\<lparr> lastTime := 1488 \<rparr>)"
  by (simp add: preCollision_def afterScroll_def scrolls_def Q92j_move)

lemma Q92j_landing:
  "landingPlatform (preCollision R1 1488 0 Q92j) = None"
  by (simp add: Q92j_preCollision landingPlatform_def hits_def Let_def Q92j_move)

lemma Q93_eq:
  "Q93 = update_cosmetics (update_fall R1 (update_move 0 (Q92j\<lparr> lastTime := 1488 \<rparr>)))"
  using Q92j_landing
  by (simp add: Q93_def afterFrame_def update_collision_eq Q92j_preCollision)

lemma Q93_fields:
  "state Q93 = Playing"
  "score Q93 = 2"
  "perfectStreak Q93 = 2"
  "isFever Q93 = False"
  "viewportWidth Q93 = 800"
  "viewportHeight Q93 = 600"
  "platforms Q93 = [1, 2, 3, 4, 5, 6]"
  "notifications Q93 = [ScoreUpdate 0, ComboChange 0, FeverChange False, GameStateChange Playing, ScoreUpdate 1, ComboChange 1, ScoreUpdate 2, ComboChange 2]"
  "store Q93 =
     [\<lparr> plat_x = 300, plat_y = 702, plat_width = 200, plat_height = 20,
        plat_color = NEON_MAGENTA, plat_vx = 0, passed = False, landedOn = False \<rparr>,
      \<lparr> plat_x = 102879 / 640, plat_y = 1195 / 2, plat_width = 130, plat_height = 20,
        plat_color = NEON_LIME, plat_vx = - (7 / 2), passed = False, landedOn = True \<rparr>,
      \<lparr> plat_x = 421833 / 1280, plat_y = 895 / 2, plat_width = 130, plat_height = 20,
        plat_color = NEON_LIME, plat_vx = - (7 / 2), passed = False, landedOn = True \<rparr>,
      \<lparr> plat_x = 1295 / 8, plat_y = 595 / 2, plat_width = 130, plat_height = 20,
        plat_color = NEON_LIME, plat_vx = 7 / 2, passed = False, landedOn = False \<rparr>,
      \<lparr> plat_x = 11 / 10, plat_y = 295 / 2, plat_width = 130, plat_height = 20,
        plat_color = NEON_LIME, plat_vx = - (7 / 2), passed = False, landedOn = False \<rparr>,
      \<lparr> plat_x = 11 / 10, plat_y = - (5 / 2), plat_width = 130, plat_height = 20,
        plat_color = NEON_LIME, plat_vx = - (7 / 2), passed = False, landedOn = False \<rparr>,
      \<lparr> plat_x = 2209 / 10, plat_y = - (305 / 2), plat_width = 130, plat_height = 20,
        plat_color = NEON_LIME, plat_vx = - (7 / 2), passed = False, landedOn = False \<rparr>]"
  "ply_x (player Q93) = 400"
  "ply_y (player Q93) = 413"
  "ply_vy (player Q93) = - (29 / 2)"
  "ply_width (player Q93) = 40"
  "ply_height (player Q93) = 40"
  "ply_color (player Q93) = NEON_LIME"
  "jumps (player Q93) = 1"
  "currentPlatform (player Q93) = None"
  "rix Q93 = 195"
  unfolding Q93_eq
  by (simp_all add: tail_fields update_fall_rix landed_fields landed_store landed_score
        landed_perfectStreak landed_isFever landed_notifications landed_player landed_rix
        land_def landingNotes_def perfectHit_def Q92j_move config)

lemma Q92j_first: "firstLanding R1 (Frame 1488 0) Q92j = None"
  by (simp add: Q92j_fields(1) Q92j_landing)

lemma wf_Q92j: "wf Q92j" and pinned_Q92j: "pinned Q92j"
  using reachable_inv[OF reachable_Q92j] by simp_all

lemma Q92j_loop: "loop R1 1488 0 Q92j = Inr Q93"
  by (simp add: Q93_def loop_afterFrame[OF wf_Q92j Q92j_fields(1)])

lemma reachable_Q93: "reachable R1 Q93"
  by (rule reachable.step[OF reachable_Q92j, of "Frame 1488 0"]) (simp_all add: Q92j_loop)

lemma Q93_refs: "refs_ok (Q93\<lparr> lastTime := 1504 \<rparr>)"
  by (simp add: refs_ok_def Q93_fields)

lemma Q93_store:
  "store (update_move 0 (Q93\<lparr> lastTime := 1504 \<rparr>)) =
     [\<lparr> plat_x = 300, plat_y = 702, plat_width = 200, plat_height = 20,
        plat_color = NEON_MAGENTA, plat_vx = 0, passed = False, landedOn = False \<rparr>,
      \<lparr> plat_x = 20083 / 128, plat_y = 1195 / 2, plat_width = 130, plat_height = 20,
        plat_color = NEON_LIME, plat_vx = - (7 / 2), passed = False, landedOn = True \<rparr>,
      \<lparr> plat_x = 83381 / 256, plat_y = 895 / 2, plat_width = 130, plat_height = 20,
        plat_color = NEON_LIME, plat_vx = - (7 / 2), passed = False, landedOn = True \<rparr>,
      \<lparr> plat_x = 6629 / 40, plat_y = 595 / 2, plat_width = 130, plat_height = 20,
        plat_color = NEON_LIME, plat_vx = 7 / 2, passed = False, landedOn = False \<rparr>,
      \<lparr> plat_x = 0, plat_y = 295 / 2, plat_width = 130, plat_height = 20,
        plat_color = NEON_LIME, plat_vx = 7 / 2, passed = False, landedOn = False \<rparr>,
      \<lparr> plat_x = 0, plat_y = - (5 / 2), plat_width = 130, plat_height = 20,
        plat_color = NEON_LIME, plat_vx = 7 / 2, passed = False, landedOn = False \<rparr>,
      \<lparr> plat_x = 4341 / 20, plat_y = - (305 / 2), plat_width = 130, plat_height = 20,
        plat_color = NEON_LIME, plat_vx = - (7 / 2), passed = False, landedOn = False \<rparr>]"
  by (simp add: update_move_eq[OF Q93_refs] Q93_fields advance_def speedMultiplier_def Let_def)

lemma Q93_player:
  "ply_x (player (update_move 0 (Q93\<lparr> lastTime := 1504 \<rparr>))) = 400"
  "ply_y (player (update_move 0 (Q93\<lparr> lastTime := 1504 \<rparr>))) = 399"
  "ply_vy (player (update_move 0 (Q93\<lparr> lastTime := 1504 \<rparr>))) = - 14"
  "ply_width (player (update_move 0 (Q93\<lparr> lastTime := 1504 \<rparr>))) = 40"
  "ply_height (player (update_move 0 (Q93\<lparr> lastTime := 1504 \<rparr>))) = 40"
  "ply_color (player (update_move 0 (Q93\<lparr> lastTime := 1504 \<rparr>))) = NEON_LIME"
  "jumps (player (update_move 0 (Q93\<lparr> lastTime := 1504 \<rparr>))) = 1"
  "currentPlatform (player (update_move 0 (Q93\<lparr> lastTime := 1504 \<rparr>))) = None"
  unfolding update_move_player_eq[OF Q93_refs] Q93_store
  by (simp_all add: Q93_fields Player_physics_def carry_def speedMultiplier_def Let_def config)

lemmas Q93_move = Q93_store Q93_player update_move_fields[OF Q93_refs] Q93_fields

lemma Q93_preCollision:
  "preCollision R1 1504 0 Q93 = update_move 0 (Q93\<lparr> lastTime := 1504 \<rparr>)"
  by (simp add: preCollision_def afterScroll_def scrolls_def Q93_move)

lemma Q93_landing:
  "landingPlatform (preCollision R1 1504 0 Q93) = None"
  by (simp add: Q93_preCollision landingPlatform_def hits_def Let_def Q93_move)

lemma Q94_eq:
  "Q94 = update_cosmetics (update_fall R1 (update_move 0 (Q93\<lparr> lastTime := 1504 \<rparr>)))"
  using Q93_landing
  by (simp add: Q94_def afterFrame_def update_collision_eq Q93_preCollision)

lemma Q94_fields:
  "state Q94 = Playing"
  "score Q94 = 2"
  "perfectStreak Q94 = 2"
  "isFever Q94 = False"
  "viewportWidth Q94 = 800"
  "viewportHeight Q94 = 600"
  "platforms Q94 = [1, 2, 3, 4, 5, 6]"
  "notifications Q94 = [ScoreUpdate 0, ComboChange 0, FeverChange False, GameStateChange Playing, ScoreUpdate 1, ComboChange 1, ScoreUpdate 2, ComboChange 2]"
  "store Q94 =
     [\<lparr> plat_x = 300, plat_y = 702, plat_width = 200, plat_height = 20,
        plat_color = NEON_MAGENTA, plat_vx = 0, passed = False, landedOn = False \<rparr>,
      \<lparr> plat_x = 20083 / 128, plat_y = 1195 / 2, plat_width = 130, plat_height = 20,
        plat_color = NEON_LIME, plat_vx = - (7 / 2), passed = False, landedOn = True \<rparr>,
      \<lparr> plat_x = 83381 / 256, plat_y = 895 / 2, plat_width = 130, plat_height = 20,
        plat_color = NEON_LIME, plat_vx = - (7 / 2), passed = False, landedOn = True \<rparr>,
      \<lparr> plat_x = 6629 / 40, plat_y = 595 / 2, plat_width = 130, plat_height = 20,
        plat_color = NEON_LIME, plat_vx = 7 / 2, passed = False, landedOn = False \<rparr>,
      \<lparr> plat_x = 0, plat_y = 295 / 2, plat_width = 130, plat_height = 20,
        plat_color = NEON_LIME, plat_vx = 7 / 2, passed = False, landedOn = False \<rparr>,
      \<lparr> plat_x = 0, plat_y = - (5 / 2), plat_width = 130, plat_height = 20,
        plat_color = NEON_LIME, plat_vx = 7 / 2, passed = False, landedOn = False \<rparr>,
      \<lparr> plat_x = 4341 / 20, plat_y = - (305 / 2), plat_width = 130, plat_height = 20,
        plat_color = NEON_LIME, plat_vx = - (7 / 2), passed = False, landedOn = False \<rparr>]"
  "ply_x (player Q94) = 400"
  "ply_y (player Q94) = 399"
  "ply_vy (player Q94) = - 14"
  "ply_width (player Q94) = 40"
  "ply_height (player Q94) = 40"
  "ply_color (player Q94) = NEON_LIME"
  "jumps (player Q94) = 1"
  "currentPlatform (player Q94) = None"
  "rix Q94 = 195"
  unfolding Q94_eq
  by (simp_all add: tail_fields update_fall_rix landed_fields landed_store landed_score
        landed_perfectStreak landed_isFever landed_notifications landed_player landed_rix
        land_def landingNotes_def perfectHit_def Q93_move config)

lemma Q93_first: "firstLanding R1 (Frame 1504 0) Q93 = None"
  by (simp add: Q93_fields(1) Q93_landing)

lemma wf_Q93: "wf Q93" and pinned_Q93: "pinned Q93"
  using reachable_inv[OF reachable_Q93] by simp_all

lemma Q93_loop: "loop R1 1504 0 Q93 = Inr Q94"
  by (simp add: Q94_def loop_afterFrame[OF wf_Q93 Q93_fields(1)])

lemma reachable_Q94: "reachable R1 Q94"
  by (rule reachable.step[OF reachable_Q93, of "Frame 1504 0"]) (simp_all add: Q93_loop)

lemma Q94_refs: "refs_ok (Q94\<lparr> lastTime := 1520 \<rparr>)"
  by (simp add: refs_ok_def Q94_fields)

lemma Q94_store:
  "store (update_move 0 (Q94\<lparr> lastTime := 1520 \<rparr>)) =
     [\<lparr> plat_x = 300, plat_y = 702, plat_width = 200, plat_height = 20,
        plat_color = NEON_MAGENTA, plat_vx = 0, passed = False, landedOn = False \<rparr>,
      \<lparr> plat_x = 97951 / 640, plat_y = 1195 / 2, plat_width = 130, plat_height = 20,
        plat_color = NEON_LIME, plat_vx = - (7 / 2), passed = False, landedOn = True \<rparr>,
      \<lparr> plat_x = 411977 / 1280, plat_y = 895 / 2, plat_width = 130, plat_height = 20,
        plat_color = NEON_LIME, plat_vx = - (7 / 2), passed = False, landedOn = True \<rparr>,
      \<lparr> plat_x = 6783 / 40, plat_y = 595 / 2, plat_width = 130, plat_height = 20,
        plat_color = NEON_LIME, plat_vx = 7 / 2, passed = False, landedOn = False \<rparr>,
      \<lparr> plat_x = 77 / 20, plat_y = 295 / 2, plat_width = 130, plat_height = 20,
        plat_color = NEON_LIME, plat_vx = 7 / 2, passed = False, landedOn = False \<rparr>,
      \<lparr> plat_x = 77 / 20, plat_y = - (5 / 2), plat_width = 130, plat_height = 20,
        plat_color = NEON_LIME, plat_vx = 7 / 2, passed = False, landedOn = False \<rparr>,
      \<lparr> plat_x = 1066 / 5, plat_y = - (305 / 2), plat_width = 130, plat_height = 20,
        plat_color = NEON_LIME, plat_vx = - (7 / 2), passed = False, landedOn = False \<rparr>]"
  by (simp add: update_move_eq[OF Q94_refs] Q94_fields advance_def speedMultiplier_def Let_def)

lemma Q94_player:
  "ply_x (player (update_move 0 (Q94\<lparr> lastTime := 1520 \<rparr>))) = 400"
  "ply_y (player (update_move 0 (Q94\<lparr> lastTime := 1520 \<rparr>))) = 771 / 2"
  "ply_vy (player (update_move 0 (Q94\<lparr> lastTime := 1520 \<rparr>))) = - (27 / 2)"
  "ply_width (player (update_move 0 (Q94\<lparr> lastTime := 1520 \<rparr>))) = 40"
  "ply_height (player (update_move 0 (Q94\<lparr> lastTime := 1520 \<rparr>))) = 40"
  "ply_color (player (update_move 0 (Q94\<lparr> lastTime := 1520 \<rparr>))) = NEON_LIME"
  "jumps (player (update_move 0 (Q94\<lparr> lastTime := 1520 \<rparr>))) = 1"
  "currentPlatform (player (update_move 0 (Q94\<lparr> lastTime := 1520 \<rparr>))) = None"
  unfolding update_move_player_eq[OF Q94_refs] Q94_store
  by (simp_all add: Q94_fields Player_physics_def carry_def speedMultiplier_def Let_def config)

lemmas Q94_move = Q94_store Q94_player update_move_fields[OF Q94_refs] Q94_fields

lemma Q94_preCollision:
  "preCollision R1 1520 0 Q94 = update_move 0 (Q94\<lparr> lastTime := 1520 \<rparr>)"
  by (simp add: preCollision_def afterScroll_def scrolls_def Q94_move)

lemma Q94_landing:
  "landingPlatform (preCollision R1 1520 0 Q94) = None"
  by (simp add: Q94_preCollision landingPlatform_def hits_def Let_def Q94_move)

lemma Q95_eq:
  "Q95 = update_cosmetics (update_fall R1 (update_move 0 (Q94\<lparr> lastTime := 1520 \<rparr>)))"
  using Q94_landing
  by (simp add: Q95_def afterFrame_def update_collision_eq Q94_preCollision)

lemma Q95_fields:
  "state Q95 = Playing"
  "score Q95 = 2"
  "perfectStreak Q95 = 2"
  "isFever Q95 = False"
  "viewportWidth Q95 = 800"
  "viewportHeight Q95 = 600"
  "platforms Q95 = [1, 2, 3, 4, 5, 6]"
  "notifications Q95 = [ScoreUpdate 0, ComboChange 0, FeverChange False, GameStateChange Playing, ScoreUpdate 1, ComboChange 1, ScoreUpdate 2, ComboChange 2]"
  "store Q95 =
     [\<lparr> plat_x = 300, plat_y = 702, plat_width = 200, plat_height = 20,
        plat_color = NEON_MAGENTA, plat_vx = 0, passed = False, landedOn = False \<rparr>,
      \<lparr> plat_x = 97951 / 640, plat_y = 1195 / 2, plat_width = 130, plat_height = 20,
        plat_color = NEON_LIME, plat_vx = - (7 / 2), passed = False, landedOn = True \<rparr>,
      \<lparr> plat_x = 411977 / 1280, plat_y = 895 / 2, plat_width = 130, plat_height = 20,
        plat_color = NEON_LIME, plat_vx = - (7 / 2), passed = False, landedOn = True \<rparr>,
      \<lparr> plat_x = 6783 / 40, plat_y = 595 / 2, plat_width = 130, plat_height = 20,
        plat_color = NEON_LIME, plat_vx = 7 / 2, passed = False, landedOn = False \<rparr>,
      \<lparr> plat_x = 77 / 20, plat_y = 295 / 2, plat_width = 130, plat_height = 20,
        plat_color = NEON_LIME, plat_vx = 7 / 2, passed = False, landedOn = False \<rparr>,
      \<lparr> plat_x = 77 / 20, plat_y = - (5 / 2), plat_width = 130, plat_height = 20,
        plat_color = NEON_LIME, plat_vx = 7 / 2, passed = False, landedOn = False \<rparr>,
      \<lparr> plat_x = 1066 / 5, plat_y = - (305 / 2), plat_width = 130, plat_height = 20,
        plat_color = NEON_LIME, plat_vx = - (7 / 2), passed = False, landedOn = False \<rparr>]"
  "ply_x (player Q95) = 400"
  "ply_y (player Q95) = 771 / 2"
  "ply_vy (player Q95) = - (27 / 2)"
  "ply_width (player Q95) = 40"
  "ply_height (player Q95) = 40"
  "ply_color (player Q95) = NEON_LIME"
  "jumps (player Q95) = 1"
  "currentPlatform (player Q95) = None"
  "rix Q95 = 195"
  unfolding Q95_eq
  by (simp_all add: tail_fields update_fall_rix landed_fields landed_store landed_score
        landed_perfectStreak landed_isFever landed_notifications landed_player landed_rix
        land_def landingNotes_def perfectHit_def Q94_move config)

lemma Q94_first: "firstLanding R1 (Frame 1520 0) Q94 = None"
  by (simp add: Q94_fields(1) Q94_landing)

lemma wf_Q94: "wf Q94" and pinned_Q94: "pinned Q94"
  using reachable_inv[OF reachable_Q94] by simp_all

lemma Q94_loop: "loop R1 1520 0 Q94 = Inr Q95"
  by (simp add: Q95_def loop_afterFrame[OF wf_Q94 Q94_fields(1)])

lemma reachable_Q95: "reachable R1 Q95"
  by (rule reachable.step[OF reachable_Q94, of "Frame 1520 0"]) (simp_all add: Q94_loop)

lemma Q95_refs: "refs_ok (Q95\<lparr> lastTime := 1536 \<rparr>)"
  by (simp add: refs_ok_def Q95_fields)

lemma Q95_store:
  "store (update_move 0 (Q95\<lparr> lastTime := 1536 \<rparr>)) =
     [\<lparr> plat_x = 300, plat_y = 702, plat_width = 200, plat_height = 20,
        plat_color = NEON_MAGENTA, plat_vx = 0, passed = False, landedOn = False \<rparr>,
      \<lparr> plat_x = 95487 / 640, plat_y = 1195 / 2, plat_width = 130, plat_height = 20,
        plat_color = NEON_LIME, plat_vx = - (7 / 2), passed = False, landedOn = True \<rparr>,
      \<lparr> plat_x = 407049 / 1280, plat_y = 895 / 2, plat_width = 130, plat_height = 20,
        plat_color = NEON_LIME, plat_vx = - (7 / 2), passed = False, landedOn = True \<rparr>,
      \<lparr> plat_x = 6937 / 40, plat_y = 595 / 2, plat_width = 130, plat_height = 20,
        plat_color = NEON_LIME, plat_vx = 7 / 2, passed = False, landedOn = False \<rparr>,
      \<lparr> plat_x = 77 / 10, plat_y = 295 / 2, plat_width = 130, plat_height = 20,
        plat_color = NEON_LIME, plat_vx = 7 / 2, passed = False, landedOn = False \<rparr>,
      \<lparr> plat_x = 77 / 10, plat_y = - (5 / 2), plat_width = 130, plat_height = 20,
        plat_color = NEON_LIME, plat_vx = 7 / 2, passed = False, landedOn = False \<rparr>,
      \<lparr> plat_x = 4187 / 20, plat_y = - (305 / 2), plat_width = 130, plat_height = 20,
        plat_color = NEON_LIME, plat_vx = - (7 / 2), passed = False, landedOn = False \<rparr>]"
  by (simp add: update_move_eq[OF Q95_refs] Q95_fields advance_def speedMultiplier_def Let_def)

lemma Q95_player:
  "ply_x (player (update_move 0 (Q95\<lparr> lastTime := 1536 \<rparr>))) = 400"
  "ply_y (player (update_move 0 (Q95\<lparr> lastTime := 1536 \<rparr>))) = 745 / 2"
  "ply_vy (player (update_move 0 (Q95\<lparr> lastTime := 1536 \<rparr>))) = - 13"
  "ply_width (player (update_move 0 (Q95\<lparr> lastTime := 1536 \<rparr>))) = 40"
  "ply_height (player (update_move 0 (Q95\<lparr> lastTime := 1536 \<rparr>))) = 40"
  "ply_color (player (update_move 0 (Q95\<lparr> lastTime := 1536 \<rparr>))) = NEON_LIME"
  "jumps (player (update_move 0 (Q95\<lparr> lastTime := 1536 \<rparr>))) = 1"
  "currentPlatform (player (update_move 0 (Q95\<lparr> lastTime := 1536 \<rparr>))) = None"
  unfolding update_move_player_eq[OF Q95_refs] Q95_store
  by (simp_all add: Q95_fields Player_physics_def carry_def speedMultiplier_def Let_def config)

lemmas Q95_move = Q95_store Q95_player update_move_fields[OF Q95_refs] Q95_fields

lemma Q95_preCollision:
  "preCollision R1 1536 0 Q95 = update_move 0 (Q95\<lparr> lastTime := 1536 \<rparr>)"
  by (simp add: preCollision_def afterScroll_def scrolls_def Q95_move)

lemma Q95_landing:
  "landingPlatform (preCollision R1 1536 0 Q95) = None"
  by (simp add: Q95_preCollision landingPlatform_def hits_def Let_def Q95_move)

lemma Q96_eq:
  "Q96 = update_cosmetics (update_fall R1 (update_move 0 (Q95\<lparr> lastTime := 1536 \<rparr>)))"
  using Q95_landing
  by (simp add: Q96_def afterFrame_def update_collision_eq Q95_preCollision)

lemma Q96_fields:
  "state Q96 = Playing"
  "score Q96 = 2"
  "perfectStreak Q96 = 2"
  "isFever Q96 = False"
  "viewportWidth Q96 = 800"
  "viewportHeight Q96 = 600"
  "platforms Q96 = [1, 2, 3, 4, 5, 6]"
  "notifications Q96 = [ScoreUpdate 0, ComboChange 0, FeverChange False, GameStateChange Playing, ScoreUpdate 1, ComboChange 1, ScoreUpdate 2, ComboChange 2]"
  "store Q96 =
     [\<lparr> plat_x = 300, plat_y = 702, plat_width = 200, plat_height = 20,
        plat_color = NEON_MAGENTA, plat_vx = 0, passed = False, landedOn = False \<rparr>,
      \<lparr> plat_x = 95487 / 640, plat_y = 1195 / 2, plat_width = 130, plat_height = 20,
        plat_color = NEON_LIME, plat_vx = - (7 / 2), passed = False, landedOn = True \<rparr>,
      \<lparr> plat_x = 407049 / 1280, plat_y = 895 / 2, plat_width = 130, plat_height = 20,
        plat_color = NEON_LIME, plat_vx = - (7 / 2), passed = False, landedOn = True \<rparr>,
      \<lparr> plat_x = 6937 / 40, plat_y = 595 / 2, plat_width = 130, plat_height = 20,
        plat_color = NEON_LIME, plat_vx = 7 / 2, passed = False, landedOn = False \<rparr>,
      \<lparr> plat_x = 77 / 10, plat_y = 295 / 2, plat_width = 130, plat_height = 20,
        plat_color = NEON_LIME, plat_vx = 7 / 2, passed = False, landedOn = False \<rparr>,
      \<lparr> plat_x = 77 / 10, plat_y = - (5 / 2), plat_width = 130, plat_height = 20,
        plat_color = NEON_LIME, plat_vx = 7 / 2, passed = False, landedOn = False \<rparr>,
      \<lparr> plat_x = 4187 / 20, plat_y = - (305 / 2), plat_width = 130, plat_height = 20,
        plat_color = NEON_LIME, plat_vx = - (7 / 2), passed = False, landedOn = False \<rparr>]"
  "ply_x (player Q96) = 400"
  "ply_y (player Q96) = 745 / 2"
  "ply_vy (player Q96) = - 13"
  "ply_width (player Q96) = 40"
  "ply_height (player Q96) = 40"
  "ply_color (player Q96) = NEON_LIME"
  "jumps (player Q96) = 1"
  "currentPlatform (player Q96) = None"
  "rix Q96 = 195"
  unfolding Q96_eq
  by (simp_all add: tail_fields update_fall_rix landed_fields landed_store landed_score
        landed_perfectStreak landed_isFever landed_notifications landed_player landed_rix
        land_def landingNotes_def perfectHit_def Q95_move config)

lemma Q95_first: "firstLanding R1 (Frame 1536 0) Q95 = None"
  by (simp add: Q95_fields(1) Q95_landing)

lemma wf_Q95: "wf Q95" and pinned_Q95: "pinned Q95"
  using reachable_inv[OF reachable_Q95] by simp_all

lemma Q95_loop: "loop R1 1536 0 Q95 = Inr Q96"
  by (simp add: Q96_def loop_afterFrame[OF wf_Q95 Q95_fields(1)])

lemma reachable_Q96: "reachable R1 Q96"
  by (rule reachable.step[OF reachable_Q95, of "Frame 1536 0"]) (simp_all add: Q95_loop)

lemma Q96_refs: "refs_ok (Q96\<lparr> lastTime := 1552 \<rparr>)"
  by (simp add: refs_ok_def Q96_fields)

lemma Q96_store:
  "store (update_move 0 (Q96\<lparr> lastTime := 1552 \<rparr>)) =
     [\<lparr> plat_x = 300, plat_y = 702, plat_width = 200, plat_height = 20,
        plat_color = NEON_MAGENTA, plat_vx = 0, passed = False, landedOn = False \<rparr>,
      \<lparr> plat_x = 93023 / 640, plat_y = 1195 / 2, plat_width = 130, plat_height = 20,
        plat_color = NEON_LIME, plat_vx = - (7 / 2), passed = False, landedOn = True \<rparr>,
      \<lparr> plat_x = 402121 / 1280, plat_y = 895 / 2, plat_width = 130, plat_height = 20,
        plat_color = NEON_LIME, plat_vx = - (7 / 2), passed = False, landedOn = True \<rparr>,
      \<lparr> plat_x = 7091 / 40, plat_y = 595 / 2, plat_width = 130, plat_height = 20,
        plat_color = NEON_LIME, plat_vx = 7 / 2, passed = False, landedOn = False \<rparr>,
      \<lparr> plat_x = 231 / 20, plat_y = 295 / 2, plat_width = 130, plat_height = 20,
        plat_color = NEON_LIME, plat_vx = 7 / 2, passed = False, landedOn = False \<rparr>,
      \<lparr> plat_x = 231 / 20, plat_y = - (5 / 2), plat_width = 130, plat_height = 20,
        plat_color = NEON_LIME, plat_vx = 7 / 2, passed = False, landedOn = False \<rparr>,
      \<lparr> plat_x = 411 / 2, plat_y = - (305 / 2), plat_width = 130, plat_height = 20,
        plat_color = NEON_LIME, plat_vx = - (7 / 2), passed = False, landedOn = False \<rparr>]"
  by (simp add: update_move_eq[OF Q96_refs] Q96_fields advance_def speedMultiplier_def Let_def)

lemma Q96_player:
  "ply_x (player (update_move 0 (Q96\<lparr> lastTime := 1552 \<rparr>))) = 400"
  "ply_y (player (update_move 0 (Q96\<lparr> lastTime := 1552 \<rparr>))) = 360"
  "ply_vy (player (update_move 0 (Q96\<lparr> lastTime := 1552 \<rparr>))) = - (25 / 2)"
  "ply_width (player (update_move 0 (Q96\<lparr> lastTime := 1552 \<rparr>))) = 40"
  "ply_height (player (update_move 0 (Q96\<lparr> lastTime := 1552 \<rparr>))) = 40"
  "ply_color (player (update_move 0 (Q96\<lparr> lastTime := 1552 \<rparr>))) = NEON_LIME"
  "jumps (player (update_move 0 (Q96\<lparr> lastTime := 1552 \<rparr>))) = 1"
  "currentPlatform (player (update_move 0 (Q96\<lparr> lastTime := 1552 \<rparr>))) = None"
  unfolding update_move_player_eq[OF Q96_refs] Q96_store
  by (simp_all add: Q96_fields Player_physics_def carry_def speedMultiplier_def Let_def config)

lemmas Q96_move = Q96_store Q96_player update_move_fields[OF Q96_refs] Q96_fields

lemma Q96_preCollision:
  "preCollision R1 1552 0 Q96 = update_move 0 (Q96\<lparr> lastTime := 1552 \<rparr>)"
  by (simp add: preCollision_def afterScroll_def scrolls_def Q96_move)

lemma Q96_landing:
  "landingPlatform (preCollision R1 1552 0 Q96) = None"
  by (simp add: Q96_preCollision landingPlatform_def hits_def Let_def Q96_move)

lemma Q97_eq:
  "Q97 = update_cosmetics (update_fall R1 (update_move 0 (Q96\<lparr> lastTime := 1552 \<rparr>)))"
  using Q96_landing
  by (simp add: Q97_def afterFrame_def update_collision_eq Q96_preCollision)

lemma Q97_fields:
  "state Q97 = Playing"
  "score Q97 = 2"
  "perfectStreak Q97 = 2"
  "isFever Q97 = False"
  "viewportWidth Q97 = 800"
  "viewportHeight Q97 = 600"
  "platforms Q97 = [1, 2, 3, 4, 5, 6]"
  "notifications Q97 = [ScoreUpdate 0, ComboChange 0, FeverChange False, GameStateChange Playing, ScoreUpdate 1, ComboChange 1, ScoreUpdate 2, ComboChange 2]"
  "store Q97 =
     [\<lparr> plat_x = 300, plat_y = 702, plat_width = 200, plat_height = 20,
        plat_color = NEON_MAGENTA, plat_vx = 0, passed = False, landedOn = False \<rparr>,
      \<lparr> plat_x = 93023 / 640, plat_y = 1195 / 2, plat_width = 130, plat_height = 20,
        plat_color = NEON_LIME, plat_vx = - (7 / 2), passed = False, landedOn = True \<rparr>,
      \<lparr> plat_x = 402121 / 1280, plat_y = 895 / 2, plat_width = 130, plat_height = 20,
        plat_color = NEON_LIME, plat_vx = - (7 / 2), passed = False, landedOn = True \<rparr>,
      \<lparr> plat_x = 7091 / 40, plat_y = 595 / 2, plat_width = 130, plat_height = 20,
        plat_color = NEON_LIME, plat_vx = 7 / 2, passed = False, landedOn = False \<rparr>,
      \<lparr> plat_x = 231 / 20, plat_y = 295 / 2, plat_width = 130, plat_height = 20,
        plat_color = NEON_LIME, plat_vx = 7 / 2, passed = False, landedOn = False \<rparr>,
      \<lparr> plat_x = 231 / 20, plat_y = - (5 / 2), plat_width = 130, plat_height = 20,
        plat_color = NEON_LIME, plat_vx = 7 / 2, passed = False, landedOn = False \<rparr>,
      \<lparr> plat_x = 411 / 2, plat_y = - (305 / 2), plat_width = 130, plat_height = 20,
        plat_color = NEON_LIME, plat_vx = - (7 / 2), passed = False, landedOn = False \<rparr>]"
  "ply_x (player Q97) = 400"
  "ply_y (player Q97) = 360"
  "ply_vy (player Q97) = - (25 / 2)"
  "ply_width (player Q97) = 40"
  "ply_height (player Q97) = 40"
  "ply_color (player Q97) = NEON_LIME"
  "jumps (player Q97) = 1"
  "currentPlatform (player Q97) = None"
  "rix Q97 = 195"
  unfolding Q97_eq
  by (simp_all add: tail_fields update_fall_rix landed_fields landed_store landed_score
        landed_perfectStreak landed_isFever landed_notifications landed_player landed_rix
        land_def landingNotes_def perfectHit_def Q96_move config)

lemma Q96_first: "firstLanding R1 (Frame 1552 0) Q96 = None"
  by (simp add: Q96_fields(1) Q96_landing)

lemma wf_Q96: "wf Q96" and pinned_Q96: "pinned Q96"
  using reachable_inv[OF reachable_Q96] by simp_all

lemma Q96_loop: "loop R1 1552 0 Q96 = Inr Q97"
  by (simp add: Q97_def loop_afterFrame[OF wf_Q96 Q96_fields(1)])

lemma reachable_Q97: "reachable R1 Q97"
  by (rule reachable.step[OF reachable_Q96, of "Frame 1552 0"]) (simp_all add: Q96_loop)

lemma Q97_refs: "refs_ok (Q97\<lparr> lastTime := 1568 \<rparr>)"
  by (simp add: refs_ok_def Q97_fields)

lemma Q97_store:
  "store (update_move 0 (Q97\<lparr> lastTime := 1568 \<rparr>)) =
     [\<lparr> plat_x = 300, plat_y = 702, plat_width = 200, plat_height = 20,
        plat_color = NEON_MAGENTA, plat_vx = 0, passed = False, landedOn = False \<rparr>,
      \<lparr> plat_x = 90559 / 640, plat_y = 1195 / 2, plat_width = 130, plat_height = 20,
        plat_color = NEON_LIME, plat_vx = - (7 / 2), passed = False, landedOn = True \<rparr>,
      \<lparr> plat_x = 397193 / 1280, plat_y = 895 / 2, plat_width = 130, plat_height = 20,
        plat_color = NEON_LIME, plat_vx = - (7 / 2), passed = False, landedOn = True \<rparr>,
      \<lparr> plat_x = 1449 / 8, plat_y = 595 / 2, plat_width = 130, plat_height = 20,
        plat_color = NEON_LIME, plat_vx = 7 / 2, passed = False, landedOn = False \<rparr>,
      \<lparr> plat_x = 77 / 5, plat_y = 295 / 2, plat_width = 130, plat_height = 20,
        plat_color = NEON_LIME, plat_vx = 7 / 2, passed = False, landedOn = False \<rparr>,
      \<lparr> plat_x = 77 / 5, plat_y = - (5 / 2), plat_width = 130, plat_height = 20,
        plat_color = NEON_LIME, plat_vx = 7 / 2, passed = False, landedOn = False \<rparr>,
      \<lparr> plat_x = 4033 / 20, plat_y = - (305 / 2), plat_width = 130, plat_height = 20,
        plat_color = NEON_LIME, plat_vx = - (7 / 2), passed = False, landedOn = False \<rparr>]"
  by (simp add: update_move_eq[OF Q97_refs] Q97_fields advance_def speedMultiplier_def Let_def)

lemma Q97_player:
  "ply_x (player (update_move 0 (Q97\<lparr> lastTime := 1568 \<rparr>))) = 400"
  "ply_y (player (update_move 0 (Q97\<lparr> lastTime := 1568 \<rparr>))) = 348"
  "ply_vy (player (update_move 0 (Q97\<lparr> lastTime := 1568 \<rparr>))) = - 12"
  "ply_width (player (update_move 0 (Q97\<lparr> lastTime := 1568 \<rparr>))) = 40"
  "ply_height (player (update_move 0 (Q97\<lparr> lastTime := 1568 \<rparr>))) = 40"
  "ply_color (player (update_move 0 (Q97\<lparr> lastTime := 1568 \<rparr>))) = NEON_LIME"
  "jumps (player (update_move 0 (Q97\<lparr> lastTime := 1568 \<rparr>))) = 1"
  "currentPlatform (player (update_move 0 (Q97\<lparr> lastTime := 1568 \<rparr>))) = None"
  unfolding update_move_player_eq[OF Q97_refs] Q97_store
  by (simp_all add: Q97_fields Player_physics_def carry_def speedMultiplier_def Let_def config)

lemmas Q97_move = Q97_store Q97_player update_move_fields[OF Q97_refs] Q97_fields

lemma Q97_scroll:
  "scrolls (update_move 0 (Q97\<lparr> lastTime := 1568 \<rparr>))"
  "scrollDiff (update_move 0 (Q97\<lparr> lastTime := 1568 \<rparr>)) = 12"
  "\<not> recycles (update_move 0 (Q97\<lparr> lastTime := 1568 \<rparr>))"
  "refs_ok (update_move 0 (Q97\<lparr> lastTime := 1568 \<rparr>))"
  "platforms (update_move 0 (Q97\<lparr> lastTime := 1568 \<rparr>)) \<noteq> []"
  by (simp_all add: scrolls_def scrollDiff_def recycles_def refs_ok_def Q97_move)

lemma Q97_landing:
  "landingPlatform (preCollision R1 1568 0 Q97) = None"
  by (simp add: landingPlatform_def preCollision_def afterScroll_fields Q97_scroll Q97_move)

lemma Q98_eq:
  "Q98 = update_cosmetics (update_fall R1 (preCollision R1 1568 0 Q97))"
  using Q97_landing
  by (simp add: Q98_def afterFrame_def update_collision_eq)

lemma Q98_fields:
  "state Q98 = Playing"
  "score Q98 = 2"
  "perfectStreak Q98 = 2"
  "isFever Q98 = False"
  "viewportWidth Q98 = 800"
  "viewportHeight Q98 = 600"
  "platforms Q98 = [1, 2, 3, 4, 5, 6]"
  "notifications Q98 = [ScoreUpdate 0, ComboChange 0, FeverChange False, GameStateChange Playing, ScoreUpdate 1, ComboChange 1, ScoreUpdate 2, ComboChange 2]"
  "store Q98 =
     [\<lparr> plat_x = 300, plat_y = 702, plat_width = 200, plat_height = 20,
        plat_color = NEON_MAGENTA, plat_vx = 0, passed = False, landedOn = False \<rparr>,
      \<lparr> plat_x = 90559 / 640, plat_y = 1219 / 2, plat_width = 130, plat_height = 20,
        plat_color = NEON_LIME, plat_vx = - (7 / 2), passed = False, landedOn = True \<rparr>,
      \<lparr> plat_x = 397193 / 1280, plat_y = 919 / 2, plat_width = 130, plat_height = 20,
        plat_color = NEON_LIME, plat_vx = - (7 / 2), passed = False, landedOn = True \<rparr>,
      \<lparr> plat_x = 1449 / 8, plat_y = 619 / 2, plat_width = 130, plat_height = 20,
        plat_color = NEON_LIME, plat_vx = 7 / 2, passed = False, landedOn = False \<rparr>,
      \<lparr> plat_x = 77 / 5, plat_y = 319 / 2, plat_width = 130, plat_height = 20,
        plat_color = NEON_LIME, plat_vx = 7 / 2, passed = False, landedOn = False \<rparr>,
      \<lparr> plat_x = 77 / 5, plat_y = 19 / 2, plat_width = 130, plat_height = 20,
        plat_color = NEON_LIME, plat_vx = 7 / 2, passed = False, landedOn = False \<rparr>,
      \<lparr> plat_x = 4033 / 20, plat_y = - (281 / 2), plat_width = 130, plat_height = 20,
        plat_color = NEON_LIME, plat_vx = - (7 / 2), passed = False, landedOn = False \<rparr>]"
  "ply_x (player Q98) = 400"
  "ply_y (player Q98) = 360"
  "ply_vy (player Q98) = - 12"
  "ply_width (player Q98) = 40"
  "ply_height (player Q98) = 40"
  "ply_color (player Q98) = NEON_LIME"
  "jumps (player Q98) = 1"
  "currentPlatform (player Q98) = None"
  "rix Q98 = 195"
  unfolding Q98_eq tail_fields update_fall_rix preCollision_def
    afterScroll_store_list[OF Q97_scroll(4,5)]
  by (simp_all add: afterScroll_fields afterScroll_rix Q97_scroll Q97_move spawned_R1 config)

lemma Q97_first: "firstLanding R1 (Frame 1568 0) Q97 = None"
  by (simp add: Q97_fields(1) Q97_landing)

lemma wf_Q97: "wf Q97" and pinned_Q97: "pinned Q97"
  using reachable_inv[OF reachable_Q97] by simp_all

lemma Q97_loop: "loop R1 1568 0 Q97 = Inr Q98"
  by (simp add: Q98_def loop_afterFrame[OF wf_Q97 Q97_fields(1)])

lemma reachable_Q98: "reachable R1 Q98"
  by (rule reachable.step[OF reachable_Q97, of "Frame 1568 0"]) (simp_all add: Q97_loop)

lemma Q98_refs: "refs_ok (Q98\<lparr> lastTime := 1584 \<rparr>)"
  by (simp add: refs_ok_def Q98_fields)

lemma Q98_store:
  "store (update_move 0 (Q98\<lparr> lastTime := 1584 \<rparr>)) =
     [\<lparr> plat_x = 300, plat_y = 702, plat_width = 200, plat_height = 20,
        plat_color = NEON_MAGENTA, plat_vx = 0, passed = False, landedOn = False \<rparr>,
      \<lparr> plat_x = 17619 / 128, plat_y = 1219 / 2, plat_width = 130, plat_height = 20,
        plat_color = NEON_LIME, plat_vx = - (7 / 2), passed = False, landedOn = True \<rparr>,
      \<lparr> plat_x = 78453 / 256, plat_y = 919 / 2, plat_width = 130, plat_height = 20,
        plat_color = NEON_LIME, plat_vx = - (7 / 2), passed = False, landedOn = True \<rparr>,
      \<lparr> plat_x = 7399 / 40, plat_y = 619 / 2, plat_width = 130, plat_height = 20,
        plat_color = NEON_LIME, plat_vx = 7 / 2, passed = False, landedOn = False \<rparr>,
      \<lparr> plat_x = 77 / 4, plat_y = 319 / 2, plat_width = 130, plat_height = 20,
        plat_color = NEON_LIME, plat_vx = 7 / 2, passed = False, landedOn = False \<rparr>,
      \<lparr> plat_x = 77 / 4, plat_y = 19 / 2, plat_width = 130, plat_height = 20,
        plat_color = NEON_LIME, plat_vx = 7 / 2, passed = False, landedOn = False \<rparr>,
      \<lparr> plat_x = 989 / 5, plat_y = - (281 / 2), plat_width = 130, plat_height = 20,
        plat_color = NEON_LIME, plat_vx = - (7 / 2), passed = False, landedOn = False \<rparr>]"
  by (simp add: update_move_eq[OF Q98_refs] Q98_fields advance_def speedMultiplier_def Let_def)

lemma Q98_player:
  "ply_x (player (update_move 0 (Q98\<lparr> lastTime := 1584 \<rparr>))) = 400"
  "ply_y (player (update_move 0 (Q98\<lparr> lastTime := 1584 \<rparr>))) = 697 / 2"
  "ply_vy (player (update_move 0 (Q98\<lparr> lastTime := 1584 \<rparr>))) = - (23 / 2)"
  "ply_width (player (update_move 0 (Q98\<lparr> lastTime := 1584 \<rparr>))) = 40"
  "ply_height (player (update_move 0 (Q98\<lparr> lastTime := 1584 \<rparr>))) = 40"
  "ply_color (player (update_move 0 (Q98\<lparr> lastTime := 1584 \<rparr>))) = NEON_LIME"
  "jumps (player (update_move 0 (Q98\<lparr> lastTime := 1584 \<rparr>))) = 1"
  "currentPlatform (player (update_move 0 (Q98\<lparr> lastTime := 1584 \<rparr>))) = None"
  unfolding update_move_player_eq[OF Q98_refs] Q98_store
  by (simp_all add: Q98_fields Player_physics_def carry_def speedMultiplier_def Let_def config)

lemmas Q98_move = Q98_store Q98_player update_move_fields[OF Q98_refs] Q98_fields

lemma Q98_scroll:
  "scrolls (update_move 0 (Q98\<lparr> lastTime := 1584 \<rparr>))"
  "scrollDiff (update_move 0 (Q98\<lparr> lastTime := 1584 \<rparr>)) = 23 / 2"
  "\<not> recycles (update_move 0 (Q98\<lparr> lastTime := 1584 \<rparr>))"
  "refs_ok (update_move 0 (Q98\<lparr> lastTime := 1584 \<rparr>))"
  "platforms (update_move 0 (Q98\<lparr> lastTime := 1584 \<rparr>)) \<noteq> []"
  by (simp_all add: scrolls_def scrollDiff_def recycles_def refs_ok_def Q98_move)

lemma Q98_landing:
  "landingPlatform (preCollision R1 1584 0 Q98) = None"
  by (simp add: landingPlatform_def preCollision_def afterScroll_fields Q98_scroll Q98_move)

lemma Q99_eq:
  "Q99 = update_cosmetics (update_fall R1 (preCollision R1 1584 0 Q98))"
  using Q98_landing
  by (simp add: Q99_def afterFrame_def update_collision_eq)

lemma Q99_fields:
  "state Q99 = Playing"
  "score Q99 = 2"
  "perfectStreak Q99 = 2"
  "isFever Q99 = False"
  "viewportWidth Q99 = 800"
  "viewportHeight Q99 = 600"
  "platforms Q99 = [1, 2, 3, 4, 5, 6]"
  "notifications Q99 = [ScoreUpdate 0, ComboChange 0, FeverChange False, GameStateChange Playing, ScoreUpdate 1, ComboChange 1, ScoreUpdate 2, ComboChange 2]"
  "store Q99 =
     [\<lparr> plat_x = 300, plat_y = 702, plat_width = 200, plat_height = 20,
        plat_color = NEON_MAGENTA, plat_vx = 0, passed = False, landedOn = False \<rparr>,
      \<lparr> plat_x = 17619 / 128, plat_y = 621, plat_width = 130, plat_height = 20,
        plat_color = NEON_LIME, plat_vx = - (7 / 2), passed = False, landedOn = True \<rparr>,
      \<lparr> plat_x = 78453 / 256, plat_y = 471, plat_width = 130, plat_height = 20,
        plat_color = NEON_LIME, plat_vx = - (7 / 2), passed = False, landedOn = True \<rparr>,
      \<lparr> plat_x = 7399 / 40, plat_y = 321, plat_width = 130, plat_height = 20,
        plat_color = NEON_LIME, plat_vx = 7 / 2, passed = False, landedOn = False \<rparr>,
      \<lparr> plat_x = 77 / 4, plat_y = 171, plat_width = 130, plat_height = 20,
        plat_color = NEON_LIME, plat_vx = 7 / 2, passed = False, landedOn = False \<rparr>,
      \<lparr> plat_x = 77 / 4, plat_y = 21, plat_width = 130, plat_height = 20,
        plat_color = NEON_LIME, plat_vx = 7 / 2, passed = False, landedOn = False \<rparr>,
      \<lparr> plat_x = 989 / 5, plat_y = - 129, plat_width = 130, plat_height = 20,
        plat_color = NEON_LIME, plat_vx = - (7 / 2), passed = False, landedOn = False \<rparr>]"
  "ply_x (player Q99) = 400"
  "ply_y (player Q99) = 360"
  "ply_vy (player Q99) = - (23 / 2)"
  "ply_width (player Q99) = 40"
  "ply_height (player Q99) = 40"
  "ply_color (player Q99) = NEON_LIME"
  "jumps (player Q99) = 1"
  "currentPlatform (player Q99) = None"
  "rix Q99 = 195"
  unfolding Q99_eq tail_fields update_fall_rix preCollision_def
    afterScroll_store_list[OF Q98_scroll(4,5)]
  by (simp_all add: afterScroll_fields afterScroll_rix Q98_scroll Q98_move spawned_R1 config)

lemma Q98_first: "firstLanding R1 (Frame 1584 0) Q98 = None"
  by (simp add: Q98_fields(1) Q98_landing)

lemma wf_Q98: "wf Q98" and pinned_Q98: "pinned Q98"
  using reachable_inv[OF reachable_Q98] by simp_all

lemma Q98_loop: "loop R1 1584 0 Q98 = Inr Q99"
  by (simp add: Q99_def loop_afterFrame[OF wf_Q98 Q98_fields(1)])

lemma reachable_Q99: "reachable R1 Q99"
  by (rule reachable.step[OF reachable_Q98, of "Frame 1584 0"]) (simp_all add: Q98_loop)

lemma Q99_refs: "refs_ok (Q99\<lparr> lastTime := 1600 \<rparr>)"
  by (simp add: refs_ok_def Q99_fields)

lemma Q99_store:
  "store (update_move 0 (Q99\<lparr> lastTime := 1600 \<rparr>)) =
     [\<lparr> plat_x = 300, plat_y = 702, plat_width = 200, plat_height = 20,
        plat_color = NEON_MAGENTA, plat_vx = 0, passed = False, landedOn = False \<rparr>,
      \<lparr> plat_x = 85631 / 640, plat_y = 621, plat_width = 130, plat_height = 20,
        plat_color = NEON_LIME, plat_vx = - (7 / 2), passed = False, landedOn = True \<rparr>,
      \<lparr> plat_x = 387337 / 1280, plat_y = 471, plat_width = 130, plat_height = 20,
        plat_color = NEON_LIME, plat_vx = - (7 / 2), passed = False, landedOn = True \<rparr>,
      \<lparr> plat_x = 7553 / 40, plat_y = 321, plat_width = 130, plat_height = 20,
        plat_color = NEON_LIME, plat_vx = 7 / 2, passed = False, landedOn = False \<rparr>,
      \<lparr> plat_x = 231 / 10, plat_y = 171, plat_width = 130, plat_height = 20,
        plat_color = NEON_LIME, plat_vx = 7 / 2, passed = False, landedOn = False \<rparr>,
      \<lparr> plat_x = 231 / 10, plat_y = 21, plat_width = 130, plat_height = 20,
        plat_color = NEON_LIME, plat_vx = 7 / 2, passed = False, landedOn = False \<rparr>,
      \<lparr> plat_x = 3879 / 20, plat_y = - 129, plat_width = 130, plat_height = 20,
        plat_color = NEON_LIME, plat_vx = - (7 / 2), passed = False, landedOn = False \<rparr>]"
  by (simp add: update_move_eq[OF Q99_refs] Q99_fields advance_def speedMultiplier_def Let_def)

lemma Q99_player:
  "ply_x (player (update_move 0 (Q99\<lparr> lastTime := 1600 \<rparr>))) = 400"
  "ply_y (player (update_move 0 (Q99\<lparr> lastTime := 1600 \<rparr>))) = 349"
  "ply_vy (player (update_move 0 (Q99\<lparr> lastTime := 1600 \<rparr>))) = - 11"
  "ply_width (player (update_move 0 (Q99\<lparr> lastTime := 1600 \<rparr>))) = 40"
  "ply_height (player (update_move 0 (Q99\<lparr> lastTime := 1600 \<rparr>))) = 40"
  "ply_color (player (update_move 0 (Q99\<lparr> lastTime := 1600 \<rparr>))) = NEON_LIME"
  "jumps (player (update_move 0 (Q99\<lparr> lastTime := 1600 \<rparr>))) = 1"
  "currentPlatform (player (update_move 0 (Q99\<lparr> lastTime := 1600 \<rparr>))) = None"
  unfolding update_move_player_eq[OF Q99_refs] Q99_store
  by (simp_all add: Q99_fields Player_physics_def carry_def speedMultiplier_def Let_def config)

lemmas Q99_move = Q99_store Q99_player update_move_fields[OF Q99_refs] Q99_fields

lemma Q99_scroll:
  "scrolls (update_move 0 (Q99\<lparr> lastTime := 1600 \<rparr>))"
  "scrollDiff (update_move 0 (Q99\<lparr> lastTime := 1600 \<rparr>)) = 11"
  "\<not> recycles (update_move 0 (Q99\<lparr> lastTime := 1600 \<rparr>))"
  "refs_ok (update_move 0 (Q99\<lparr> lastTime := 1600 \<rparr>))"
  "platforms (update_move 0 (Q99\<lparr> lastTime := 1600 \<rparr>)) \<noteq> []"
  by (simp_all add: scrolls_def scrollDiff_def recycles_def refs_ok_def Q99_move)

lemma Q99_landing:
  "landingPlatform (preCollision R1 1600 0 Q99) = None"
  by (simp add: landingPlatform_def preCollision_def afterScroll_fields Q99_scroll Q99_move)

lemma Q100_eq:
  "Q100 = update_cosmetics (update_fall R1 (preCollision R1 1600 0 Q99))"
  using Q99_landing
  by (simp add: Q100_def afterFrame_def update_collision_eq)

lemma Q100_fields:
  "state Q100 = Playing"
  "score Q100 = 2"
  "perfectStreak Q100 = 2"
  "isFever Q100 = False"
  "viewportWidth Q100 = 800"
  "viewportHeight Q100 = 600"
  "platforms Q100 = [1, 2, 3, 4, 5, 6]"
  "notifications Q100 = [ScoreUpdate 0, ComboChange 0, FeverChange False, GameStateChange Playing, ScoreUpdate 1, ComboChange 1, ScoreUpdate 2, ComboChange 2]"
  "store Q100 =
     [\<lparr> plat_x = 300, plat_y = 702, plat_width = 200, plat_height = 20,
        plat_color = NEON_MAGENTA, plat_vx = 0, passed = False, landedOn = False \<rparr>,
      \<lparr> plat_x = 85631 / 640, plat_y = 632, plat_width = 130, plat_height = 20,
        plat_color = NEON_LIME, plat_vx = - (7 / 2), passed = False, landedOn = True \<rparr>,
      \<lparr> plat_x = 387337 / 1280, plat_y = 482, plat_width = 130, plat_height = 20,
        plat_color = NEON_LIME, plat_vx = - (7 / 2), passed = False, landedOn = True \<rparr>,
      \<lparr> plat_x = 7553 / 40, plat_y = 332, plat_width = 130, plat_height = 20,
        plat_color = NEON_LIME, plat_vx = 7 / 2, passed = False, landedOn = False \<rparr>,
      \<lparr> plat_x = 231 / 10, plat_y = 182, plat_width = 130, plat_height = 20,
        plat_color = NEON_LIME, plat_vx = 7 / 2, passed = False, landedOn = False \<rparr>,
      \<lparr> plat_x = 231 / 10, plat_y = 32, plat_width = 130, plat_height = 20,
        plat_color = NEON_LIME, plat_vx = 7 / 2, passed = False, landedOn = False \<rparr>,
      \<lparr> plat_x = 3879 / 20, plat_y = - 118, plat_width = 130, plat_height = 20,
        plat_color = NEON_LIME, plat_vx = - (7 / 2), passed = False, landedOn = False \<rparr>]"
  "ply_x (player Q100) = 400"
  "ply_y (player Q100) = 360"
  "ply_vy (player Q100) = - 11"
  "ply_width (player Q100) = 40"
  "ply_height (player Q100) = 40"
  "ply_color (player Q100) = NEON_LIME"
  "jumps (player Q100) = 1"
  "currentPlatform (player Q100) = None"
  "rix Q100 = 195"
  unfolding Q100_eq tail_fields update_fall_rix preCollision_def
    afterScroll_store_list[OF Q99_scroll(4,5)]
  by (simp_all add: afterScroll_fields afterScroll_rix Q99_scroll Q99_move spawned_R1 config)

lemma Q99_first: "firstLanding R1 (Frame 1600 0) Q99 = None"
  by (simp add: Q99_fields(1) Q99_landing)

lemma wf_Q99: "wf Q99" and pinned_Q99: "pinned Q99"
  using reachable_inv[OF reachable_Q99] by simp_all

lemma Q99_loop: "loop R1 1600 0 Q99 = Inr Q100"
  by (simp add: Q100_def loop_afterFrame[OF wf_Q99 Q99_fields(1)])

lemma reachable_Q100: "reachable R1 Q100"
  by (rule reachable.step[OF reachable_Q99, of "Frame 1600 0"]) (simp_all add: Q99_loop)

lemma Q100_refs: "refs_ok (Q100\<lparr> lastTime := 1616 \<rparr>)"
  by (simp add: refs_ok_def Q100_fields)

lemma Q100_store:
  "store (update_move 0 (Q100\<lparr> lastTime := 1616 \<rparr>)) =
     [\<lparr> plat_x = 300, plat_y = 702, plat_width = 200, plat_height = 20,
        plat_color = NEON_MAGENTA, plat_vx = 0, passed = False, landedOn = False \<rparr>,
      \<lparr> plat_x = 83167 / 640, plat_y = 632, plat_width = 130, plat_height = 20,
        plat_color = NEON_LIME, plat_vx = - (7 / 2), passed = False, landedOn = True \<rparr>,
      \<lparr> plat_x = 382409 / 1280, plat_y = 482, plat_width = 130, plat_height = 20,
        plat_color = NEON_LIME, plat_vx = - (7 / 2), passed = False, landedOn = True \<rparr>,
      \<lparr> plat_x = 7707 / 40, plat_y = 332, plat_width = 130, plat_height = 20,
        plat_color = NEON_LIME, plat_vx = 7 / 2, passed = False, landedOn = False \<rparr>,
      \<lparr> plat_x = 539 / 20, plat_y = 182, plat_width = 130, plat_height = 20,
        plat_color = NEON_LIME, plat_vx = 7 / 2, passed = False, landedOn = False \<rparr>,
      \<lparr> plat_x = 539 / 20, plat_y = 32, plat_width = 130, plat_height = 20,
        plat_color = NEON_LIME, plat_vx = 7 / 2, passed = False, landedOn = False \<rparr>,
      \<lparr> plat_x = 1901 / 10, plat_y = - 118, plat_width = 130, plat_height = 20,
        plat_color = NEON_LIME, plat_vx = - (7 / 2), passed = False, landedOn = False \<rparr>]"
  by (simp add: update_move_eq[OF Q100_refs] Q100_fields advance_def speedMultiplier_def Let_def)

lemma Q100_player:
  "ply_x (player (update_move 0 (Q100\<lparr> lastTime := 1616 \<rparr>))) = 400"
  "ply_y (player (update_move 0 (Q100\<lparr> lastTime := 1616 \<rparr>))) = 699 / 2"
  "ply_vy (player (update_move 0 (Q100\<lparr> lastTime := 1616 \<rparr>))) = - (21 / 2)"
  "ply_width (player (update_move 0 (Q100\<lparr> lastTime := 1616 \<rparr>))) = 40"
  "ply_height (player (update_move 0 (Q100\<lparr> lastTime := 1616 \<rparr>))) = 40"
  "ply_color (player (update_move 0 (Q100\<lparr> lastTime := 1616 \<rparr>))) = NEON_LIME"
  "jumps (player (update_move 0 (Q100\<lparr> lastTime := 1616 \<rparr>))) = 1"
  "currentPlatform (player (update_move 0 (Q100\<lparr> lastTime := 1616 \<rparr>))) = None"
  unfolding update_move_player_eq[OF Q100_refs] Q100_store
  by (simp_all add: Q100_fields Player_physics_def carry_def speedMultiplier_def Let_def config)

lemmas Q100_move = Q100_store Q100_player update_move_fields[OF Q100_refs] Q100_fields

lemma Q100_scroll:
  "scrolls (update_move 0 (Q100\<lparr> lastTime := 1616 \<rparr>))"
  "scrollDiff (update_move 0 (Q100\<lparr> lastTime := 1616 \<rparr>)) = 21 / 2"
  "\<not> recycles (update_move 0 (Q100\<lparr> lastTime := 1616 \<rparr>))"
  "refs_ok (update_move 0 (Q100\<lparr> lastTime := 1616 \<rparr>))"
  "platforms (update_move 0 (Q100\<lparr> lastTime := 1616 \<rparr>)) \<noteq> []"
  by (simp_all add: scrolls_def scrollDiff_def recycles_def refs_ok_def Q100_move)

lemma Q100_landing:
  "landingPlatform (preCollision R1 1616 0 Q100) = None"
  by (simp add: landingPlatform_def preCollision_def afterScroll_fields Q100_scroll Q100_move)

lemma Q101_eq:
  "Q101 = update_cosmetics (update_fall R1 (preCollision R1 1616 0 Q100))"
  using Q100_landing
  by (simp add: Q101_def afterFrame_def update_collision_eq)

lemma Q101_fields:
  "state Q101 = Playing"
  "score Q101 = 2"
  "perfectStreak Q101 = 2"
  "isFever Q101 = False"
  "viewportWidth Q101 = 800"
  "viewportHeight Q101 = 600"
  "platforms Q101 = [1, 2, 3, 4, 5, 6]"
  "notifications Q101 = [ScoreUpdate 0, ComboChange 0, FeverChange False, GameStateChange Playing, ScoreUpdate 1, ComboChange 1, ScoreUpdate 2, ComboChange 2]"
  "store Q101 =
     [\<lparr> plat_x = 300, plat_y = 702, plat_width = 200, plat_height = 20,
        plat_color = NEON_MAGENTA, plat_vx = 0, passed = False, landedOn = False \<rparr>,
      \<lparr> plat_x = 83167 / 640, plat_y = 1285 / 2, plat_width = 130, plat_height = 20,
        plat_color = NEON_LIME, plat_vx = - (7 / 2), passed = False, landedOn = True \<rparr>,
      \<lparr> plat_x = 382409 / 1280, plat_y = 985 / 2, plat_width = 130, plat_height = 20,
        plat_color = NEON_LIME, plat_vx = - (7 / 2), passed = False, landedOn = True \<rparr>,
      \<lparr> plat_x = 7707 / 40, plat_y = 685 / 2, plat_width = 130, plat_height = 20,
        plat_color = NEON_LIME, plat_vx = 7 / 2, passed = False, landedOn = False \<rparr>,
      \<lparr> plat_x = 539 / 20, plat_y = 385 / 2, plat_width = 130, plat_height = 20,
        plat_color = NEON_LIME, plat_vx = 7 / 2, passed = False, landedOn = False \<rparr>,
      \<lparr> plat_x = 539 / 20, plat_y = 85 / 2, plat_width = 130, plat_height = 20,
        plat_color = NEON_LIME, plat_vx = 7 / 2, passed = False, landedOn = False \<rparr>,
      \<lparr> plat_x = 1901 / 10, plat_y = - (215 / 2), plat_width = 130, plat_height = 20,
        plat_color = NEON_LIME, plat_vx = - (7 / 2), passed = False, landedOn = False \<rparr>]"
  "ply_x (player Q101) = 400"
  "ply_y (player Q101) = 360"
  "ply_vy (player Q101) = - (21 / 2)"
  "ply_width (player Q101) = 40"
  "ply_height (player Q101) = 40"
  "ply_color (player Q101) = NEON_LIME"
  "jumps (player Q101) = 1"
  "currentPlatform (player Q101) = None"
  "rix Q101 = 195"
  unfolding Q101_eq tail_fields update_fall_rix preCollision_def
    afterScroll_store_list[OF Q100_scroll(4,5)]
  by (simp_all add: afterScroll_fields afterScroll_rix Q100_scroll Q100_move spawned_R1 config)

lemma Q100_first: "firstLanding R1 (Frame 1616 0) Q100 = None"
  by (simp add: Q100_fields(1) Q100_landing)

lemma wf_Q100: "wf Q100" and pinned_Q100: "pinned Q100"
  using reachable_inv[OF reachable_Q100] by simp_all

lemma Q100_loop: "loop R1 1616 0 Q100 = Inr Q101"
  by (simp add: Q101_def loop_afterFrame[OF wf_Q100 Q100_fields(1)])

lemma reachable_Q101: "reachable R1 Q101"
  by (rule reachable.step[OF reachable_Q100, of "Frame 1616 0"]) (simp_all add: Q100_loop)

lemma Q101_refs: "refs_ok (Q101\<lparr> lastTime := 1632 \<rparr>)"
  by (simp add: refs_ok_def Q101_fields)

lemma Q101_store:
  "store (update_move 0 (Q101\<lparr> lastTime := 1632 \<rparr>)) =
     [\<lparr> plat_x = 300, plat_y = 702, plat_width = 200, plat_height = 20,
        plat_color = NEON_MAGENTA, plat_vx = 0, passed = False, landedOn = False \<rparr>,
      \<lparr> plat_x = 80703 / 640, plat_y = 1285 / 2, plat_width = 130, plat_height = 20,
        plat_color = NEON_LIME, plat_vx = - (7 / 2), passed = False, landedOn = True \<rparr>,
      \<lparr> plat_x = 377481 / 1280, plat_y = 985 / 2, plat_width = 130, plat_height = 20,
        plat_color = NEON_LIME, plat_vx = - (7 / 2), passed = False, landedOn = True \<rparr>,
      \<lparr> plat_x = 7861 / 40, plat_y = 685 / 2, plat_width = 130, plat_height = 20,
        plat_color = NEON_LIME, plat_vx = 7 / 2, passed = False, landedOn = False \<rparr>,
      \<lparr> plat_x = 154 / 5, plat_y = 385 / 2, plat_width = 130, plat_height = 20,
        plat_color = NEON_LIME, plat_vx = 7 / 2, passed = False, landedOn = False \<rparr>,
      \<lparr> plat_x = 154 / 5, plat_y = 85 / 2, plat_width = 130, plat_height = 20,
        plat_color = NEON_LIME, plat_vx = 7 / 2, passed = False, landedOn = False \<rparr>,
      \<lparr> plat_x = 745 / 4, plat_y = - (215 / 2), plat_width = 130, plat_height = 20,
        plat_color = NEON_LIME, plat_vx = - (7 / 2), passed = False, landedOn = False \<rparr>]"
  by (simp add: update_move_eq[OF Q101_refs] Q101_fields advance_def speedMultiplier_def Let_def)

lemma Q101_player:
  "ply_x (player (update_move 0 (Q101\<lparr> lastTime := 1632 \<rparr>))) = 400"
  "ply_y (player (update_move 0 (Q101\<lparr> lastTime := 1632 \<rparr>))) = 350"
  "ply_vy (player (update_move 0 (Q101\<lparr> lastTime := 1632 \<rparr>))) = - 10"
  "ply_width (player (update_move 0 (Q101\<lparr> lastTime := 1632 \<rparr>))) = 40"
  "ply_height (player (update_move 0 (Q101\<lparr> lastTime := 1632 \<rparr>))) = 40"
  "ply_color (player (update_move 0 (Q101\<lparr> lastTime := 1632 \<rparr>))) = NEON_LIME"
  "jumps (player (update_move 0 (Q101\<lparr> lastTime := 1632 \<rparr>))) = 1"
  "currentPlatform (player (update_move 0 (Q101\<lparr> lastTime := 1632 \<rparr>))) = None"
  unfolding update_move_player_eq[OF Q101_refs] Q101_store
  by (simp_all add: Q101_fields Player_physics_def carry_def speedMultiplier_def Let_def config)

lemmas Q101_move = Q101_store Q101_player update_move_fields[OF Q101_refs] Q101_fields

lemma Q101_scroll:
  "scrolls (update_move 0 (Q101\<lparr> lastTime := 1632 \<rparr>))"
  "scrollDiff (update_move 0 (Q101\<lparr> lastTime := 1632 \<rparr>)) = 10"
  "\<not> recycles (update_move 0 (Q101\<lparr> lastTime := 1632 \<rparr>))"
  "refs_ok (update_move 0 (Q101\<lparr> lastTime := 1632 \<rparr>))"
  "platforms (update_move 0 (Q101\<lparr> lastTime := 1632 \<rparr>)) \<noteq> []"
  by (simp_all add: scrolls_def scrollDiff_def recycles_def refs_ok_def Q101_move)

lemma Q101_landing:
  "landingPlatform (preCollision R1 1632 0 Q101) = None"
  by (simp add: landingPlatform_def preCollision_def afterScroll_fields Q101_scroll Q101_move)

lemma Q102_eq:
  "Q102 = update_cosmetics (update_fall R1 (preCollision R1 1632 0 Q101))"
  using Q101_landing
  by (simp add: Q102_def afterFrame_def update_collision_eq)

lemma Q102_fields:
  "state Q102 = Playing"
  "score Q102 = 2"
  "perfectStreak Q102 = 2"
  "isFever Q102 = False"
  "viewportWidth Q102 = 800"
  "viewportHeight Q102 = 600"
  "platforms Q102 = [1, 2, 3, 4, 5, 6]"
  "notifications Q102 = [ScoreUpdate 0, ComboChange 0, FeverChange False, GameStateChange Playing, ScoreUpdate 1, ComboChange 1, ScoreUpdate 2, ComboChange 2]"
  "store Q102 =
     [\<lparr> plat_x = 300, plat_y = 702, plat_width = 200, plat_height = 20,
        plat_color = NEON_MAGENTA, plat_vx = 0, passed = False, landedOn = False \<rparr>,
      \<lparr> plat_x = 80703 / 640, plat_y = 1305 / 2, plat_width = 130, plat_height = 20,
        plat_color = NEON_LIME, plat_vx = - (7 / 2), passed = False, landedOn = True \<rparr>,
      \<lparr> plat_x = 377481 / 1280, plat_y = 1005 / 2, plat_width = 130, plat_height = 20,
        plat_color = NEON_LIME, plat_vx = - (7 / 2), passed = False, landedOn = True \<rparr>,
      \<lparr> plat_x = 7861 / 40, plat_y = 705 / 2, plat_width = 130, plat_height = 20,
        plat_color = NEON_LIME, plat_vx = 7 / 2, passed = False, landedOn = False \<rparr>,
      \<lparr> plat_x = 154 / 5, plat_y = 405 / 2, plat_width = 130, plat_height = 20,
        plat_color = NEON_LIME, plat_vx = 7 / 2, passed = False, landedOn = False \<rparr>,
      \<lparr> plat_x = 154 / 5, plat_y = 105 / 2, plat_width = 130, plat_height = 20,
        plat_color = NEON_LIME, plat_vx = 7 / 2, passed = False, landedOn = False \<rparr>,
      \<lparr> plat_x = 745 / 4, plat_y = - (195 / 2), plat_width = 130, plat_height = 20,
        plat_color = NEON_LIME, plat_vx = - (7 / 2), passed = False, landedOn = False \<rparr>]"
  "ply_x (player Q102) = 400"
  "ply_y (player Q102) = 360"
  "ply_vy (player Q102) = - 10"
  "ply_width (player Q102) = 40"
  "ply_height (player Q102) = 40"
  "ply_color (player Q102) = NEON_LIME"
  "jumps (player Q102) = 1"
  "currentPlatform (player Q102) = None"
  "rix Q102 = 195"
  unfolding Q102_eq tail_fields update_fall_rix preCollision_def
    afterScroll_store_list[OF Q101_scroll(4,5)]
  by (simp_all add: afterScroll_fields afterScroll_rix Q101_scroll Q101_move spawned_R1 config)

lemma Q101_first: "firstLanding R1 (Frame 1632 0) Q101 = None"
  by (simp add: Q101_fields(1) Q101_landing)

lemma wf_Q101: "wf Q101" and pinned_Q101: "pinned Q101"
  using reachable_inv[OF reachable_Q101] by simp_all

lemma Q101_loop: "loop R1 1632 0 Q101 = Inr Q102"
  by (simp add: Q102_def loop_afterFrame[OF wf_Q101 Q101_fields(1)])

lemma reachable_Q102: "reachable R1 Q102"
  by (rule reachable.step[OF reachable_Q101, of "Frame 1632 0"]) (simp_all add: Q101_loop)

lemma Q102_refs: "refs_ok (Q102\<lparr> lastTime := 1648 \<rparr>)"
  by (simp add: refs_ok_def Q102_fields)

lemma Q102_store:
  "store (update_move 0 (Q102\<lparr> lastTime := 1648 \<rparr>)) =
     [\<lparr> plat_x = 300, plat_y = 702, plat_width = 200, plat_height = 20,
        plat_color = NEON_MAGENTA, plat_vx = 0, passed = False, landedOn = False \<rparr>,
      \<lparr> plat_x = 78239 / 640, plat_y = 1305 / 2, plat_width = 130, plat_height = 20,
        plat_color = NEON_LIME, plat_vx = - (7 / 2), passed = False, landedOn = True \<rparr>,
      \<lparr> plat_x = 372553 / 1280, plat_y = 1005 / 2, plat_width = 130, plat_height = 20,
        plat_color = NEON_LIME, plat_vx = - (7 / 2), passed = False, landedOn = True \<rparr>,
      \<lparr> plat_x = 1603 / 8, plat_y = 705 / 2, plat_width = 130, plat_height = 20,
        plat_color = NEON_LIME, plat_vx = 7 / 2, passed = False, landedOn = False \<rparr>,
      \<lparr> plat_x = 693 / 20, plat_y = 405 / 2, plat_width = 130, plat_height = 20,
        plat_color = NEON_LIME, plat_vx = 7 / 2, passed = False, landedOn = False \<rparr>,
      \<lparr> plat_x = 693 / 20, plat_y = 105 / 2, plat_width = 130, plat_height = 20,
        plat_color = NEON_LIME, plat_vx = 7 / 2, passed = False, landedOn = False \<rparr>,
      \<lparr> plat_x = 912 / 5, plat_y = - (195 / 2), plat_width = 130, plat_height = 20,
        plat_color = NEON_LIME, plat_vx = - (7 / 2), passed = False, landedOn = False \<rparr>]"
  by (simp add: update_move_eq[OF Q102_refs] Q102_fields advance_def speedMultiplier_def Let_def)

lemma Q102_player:
  "ply_x (player (update_move 0 (Q102\<lparr> lastTime := 1648 \<rparr>))) = 400"
  "ply_y (player (update_move 0 (Q102\<lparr> lastTime := 1648 \<rparr>))) = 701 / 2"
  "ply_vy (player (update_move 0 (Q102\<lparr> lastTime := 1648 \<rparr>))) = - (19 / 2)"
  "ply_width (player (update_move 0 (Q102\<lparr> lastTime := 1648 \<rparr>))) = 40"
  "ply_height (player (update_move 0 (Q102\<lparr> lastTime := 1648 \<rparr>))) = 40"
  "ply_color (player (update_move 0 (Q102\<lparr> lastTime := 1648 \<rparr>))) = NEON_LIME"
  "jumps (player (update_move 0 (Q102\<lparr> lastTime := 1648 \<rparr>))) = 1"
  "currentPlatform (player (update_move 0 (Q102\<lparr> lastTime := 1648 \<rparr>))) = None"
  unfolding update_move_player_eq[OF Q102_refs] Q102_store
  by (simp_all add: Q102_fields Player_physics_def carry_def speedMultiplier_def Let_def config)

lemmas Q102_move = Q102_store Q102_player update_move_fields[OF Q102_refs] Q102_fields

lemma Q102_scroll:
  "scrolls (update_move 0 (Q102\<lparr> lastTime := 1648 \<rparr>))"
  "scrollDiff (update_move 0 (Q102\<lparr> lastTime := 1648 \<rparr>)) = 19 / 2"
  "\<not> recycles (update_move 0 (Q102\<lparr> lastTime := 1648 \<rparr>))"
  "refs_ok (update_move 0 (Q102\<lparr> lastTime := 1648 \<rparr>))"
  "platforms (update_move 0 (Q102\<lparr> lastTime := 1648 \<rparr>)) \<noteq> []"
  by (simp_all add: scrolls_def scrollDiff_def recycles_def refs_ok_def Q102_move)

lemma Q102_landing:
  "landingPlatform (preCollision R1 1648 0 Q102) = None"
  by (simp add: landingPlatform_def preCollision_def afterScroll_fields Q102_scroll Q102_move)

lemma Q103_eq:
  "Q103 = update_cosmetics (update_fall R1 (preCollision R1 1648 0 Q102))"
  using Q102_landing
  by (simp add: Q103_def afterFrame_def update_collision_eq)

lemma Q103_fields:
  "state Q103 = Playing"
  "score Q103 = 2"
  "perfectStreak Q103 = 2"
  "isFever Q103 = False"
  "viewportWidth Q103 = 800"
  "viewportHeight Q103 = 600"
  "platforms Q103 = [1, 2, 3, 4, 5, 6]"
  "notifications Q103 = [ScoreUpdate 0, ComboChange 0, FeverChange False, GameStateChange Playing, ScoreUpdate 1, ComboChange 1, ScoreUpdate 2, ComboChange 2]"
  "store Q103 =
     [\<lparr> plat_x = 300, plat_y = 702, plat_width = 200, plat_height = 20,
        plat_color = NEON_MAGENTA, plat_vx = 0, passed = False, landedOn = False \<rparr>,
      \<lparr> plat_x = 78239 / 640, plat_y = 662, plat_width = 130, plat_height = 20,
        plat_color = NEON_LIME, plat_vx = - (7 / 2), passed = False, landedOn = True \<rparr>,
      \<lparr> plat_x = 372553 / 1280, plat_y = 512, plat_width = 130, plat_height = 20,
        plat_color = NEON_LIME, plat_vx = - (7 / 2), passed = False, landedOn = True \<rparr>,
      \<lparr> plat_x = 1603 / 8, plat_y = 362, plat_width = 130, plat_height = 20,
        plat_color = NEON_LIME, plat_vx = 7 / 2, passed = False, landedOn = False \<rparr>,
      \<lparr> plat_x = 693 / 20, plat_y = 212, plat_width = 130, plat_height = 20,
        plat_color = NEON_LIME, plat_vx = 7 / 2, passed = False, landedOn = False \<rparr>,
      \<lparr> plat_x = 693 / 20, plat_y = 62, plat_width = 130, plat_height = 20,
        plat_color = NEON_LIME, plat_vx = 7 / 2, passed = False, landedOn = False \<rparr>,
      \<lparr> plat_x = 912 / 5, plat_y = - 88, plat_width = 130, plat_height = 20,
        plat_color = NEON_LIME, plat_vx = - (7 / 2), passed = False, landedOn = False \<rparr>]"
  "ply_x (player Q103) = 400"
  "ply_y (player Q103) = 360"
  "ply_vy (player Q103) = - (19 / 2)"
  "ply_width (player Q103) = 40"
  "ply_height (player Q103) = 40"
  "ply_color (player Q103) = NEON_LIME"
  "jumps (player Q103) = 1"
  "currentPlatform (player Q103) = None"
  "rix Q103 = 195"
  unfolding Q103_eq tail_fields update_fall_rix preCollision_def
    afterScroll_store_list[OF Q102_scroll(4,5)]
  by (simp_all add: afterScroll_fields afterScroll_rix Q102_scroll Q102_move spawned_R1 config)

lemma Q102_first: "firstLanding R1 (Frame 1648 0) Q102 = None"
  by (simp add: Q102_fields(1) Q102_landing)

lemma wf_Q102: "wf Q102" and pinned_Q102: "pinned Q102"
  using reachable_inv[OF reachable_Q102] by simp_all

lemma Q102_loop: "loop R1 1648 0 Q102 = Inr Q103"
  by (simp add: Q103_def loop_afterFrame[OF wf_Q102 Q102_fields(1)])

lemma reachable_Q103: "reachable R1 Q103"
  by (rule reachable.step[OF reachable_Q102, of "Frame 1648 0"]) (simp_all add: Q102_loop)

lemma Q103_refs: "refs_ok (Q103\<lparr> lastTime := 1664 \<rparr>)"
  by (simp add: refs_ok_def Q103_fields)

lemma Q103_store:
  "store (update_move 0 (Q103\<lparr> lastTime := 1664 \<rparr>)) =
     [\<lparr> plat_x = 300, plat_y = 702, plat_width = 200, plat_height = 20,
        plat_color = NEON_MAGENTA, plat_vx = 0, passed = False, landedOn = False \<rparr>,
      \<lparr> plat_x = 15155 / 128, plat_y = 662, plat_width = 130, plat_height = 20,
        plat_color = NEON_LIME, plat_vx = - (7 / 2), passed = False, landedOn = True \<rparr>,
      \<lparr> plat_x = 73525 / 256, plat_y = 512, plat_width = 130, plat_height = 20,
        plat_color = NEON_LIME, plat_vx = - (7 / 2), passed = False, landedOn = True \<rparr>,
      \<lparr> plat_x = 8169 / 40, plat_y = 362, plat_width = 130, plat_height = 20,
        plat_color = NEON_LIME, plat_vx = 7 / 2, passed = False, landedOn = False \<rparr>,
      \<lparr> plat_x = 77 / 2, plat_y = 212, plat_width = 130, plat_height = 20,
        plat_color = NEON_LIME, plat_vx = 7 / 2, passed = False, landedOn = False \<rparr>,
      \<lparr> plat_x = 77 / 2, plat_y = 62, plat_width = 130, plat_height = 20,
        plat_color = NEON_LIME, plat_vx = 7 / 2, passed = False, landedOn = False \<rparr>,
      \<lparr> plat_x = 3571 / 20, plat_y = - 88, plat_width = 130, plat_height = 20,
        plat_color = NEON_LIME, plat_vx = - (7 / 2), passed = False, landedOn = False \<rparr>]"
  by (simp add: update_move_eq[OF Q103_refs] Q103_fields advance_def speedMultiplier_def Let_def)

lemma Q103_player:
  "ply_x (player (update_move 0 (Q103\<lparr> lastTime := 1664 \<rparr>))) = 400"
  "ply_y (player (update_move 0 (Q103\<lparr> lastTime := 1664 \<rparr>))) = 351"
  "ply_vy (player (update_move 0 (Q103\<lparr> lastTime := 1664 \<rparr>))) = - 9"
  "ply_width (player (update_move 0 (Q103\<lparr> lastTime := 1664 \<rparr>))) = 40"
  "ply_height (player (update_move 0 (Q103\<lparr> lastTime := 1664 \<rparr>))) = 40"
  "ply_color (player (update_move 0 (Q103\<lparr> lastTime := 1664 \<rparr>))) = NEON_LIME"
  "jumps (player (update_move 0 (Q103\<lparr> lastTime := 1664 \<rparr>))) = 1"
  "currentPlatform (player (update_move 0 (Q103\<lparr> lastTime := 1664 \<rparr>))) = None"
  unfolding update_move_player_eq[OF Q103_refs] Q103_store
  by (simp_all add: Q103_fields Player_physics_def carry_def speedMultiplier_def Let_def config)

lemmas Q103_move = Q103_store Q103_player update_move_fields[OF Q103_refs] Q103_fields

lemma Q103_scroll:
  "scrolls (update_move 0 (Q103\<lparr> lastTime := 1664 \<rparr>))"
  "scrollDiff (update_move 0 (Q103\<lparr> lastTime := 1664 \<rparr>)) = 9"
  "\<not> recycles (update_move 0 (Q103\<lparr> lastTime := 1664 \<rparr>))"
  "refs_ok (update_move 0 (Q103\<lparr> lastTime := 1664 \<rparr>))"
  "platforms (update_move 0 (Q103\<lparr> lastTime := 1664 \<rparr>)) \<noteq> []"
  by (simp_all add: scrolls_def scrollDiff_def recycles_def refs_ok_def Q103_move)

lemma Q103_landing:
  "landingPlatform (preCollision R1 1664 0 Q103) = None"
  by (simp add: landingPlatform_def preCollision_def afterScroll_fields Q103_scroll Q103_move)

lemma Q104_eq:
  "Q104 = update_cosmetics (update_fall R1 (preCollision R1 1664 0 Q103))"
  using Q103_landing
  by (simp add: Q104_def afterFrame_def update_collision_eq)

lemma Q104_fields:
  "state Q104 = Playing"
  "score Q104 = 2"
  "perfectStreak Q104 = 2"
  "isFever Q104 = False"
  "viewportWidth Q104 = 800"
  "viewportHeight Q104 = 600"
  "platforms Q104 = [1, 2, 3, 4, 5, 6]"
  "notifications Q104 = [ScoreUpdate 0, ComboChange 0, FeverChange False, GameStateChange Playing, ScoreUpdate 1, ComboChange 1, ScoreUpdate 2, ComboChange 2]"
  "store Q104 =
     [\<lparr> plat_x = 300, plat_y = 702, plat_width = 200, plat_height = 20,
        plat_color = NEON_MAGENTA, plat_vx = 0, passed = False, landedOn = False \<rparr>,
      \<lparr> plat_x = 15155 / 128, plat_y = 671, plat_width = 130, plat_height = 20,
        plat_color = NEON_LIME, plat_vx = - (7 / 2), passed = False, landedOn = True \<rparr>,
      \<lparr> plat_x = 73525 / 256, plat_y = 521, plat_width = 130, plat_height = 20,
        plat_color = NEON_LIME, plat_vx = - (7 / 2), passed = False, landedOn = True \<rparr>,
      \<lparr> plat_x = 8169 / 40, plat_y = 371, plat_width = 130, plat_height = 20,
        plat_color = NEON_LIME, plat_vx = 7 / 2, passed = False, landedOn = False \<rparr>,
      \<lparr> plat_x = 77 / 2, plat_y = 221, plat_width = 130, plat_height = 20,
        plat_color = NEON_LIME, plat_vx = 7 / 2, passed = False, landedOn = False \<rparr>,
      \<lparr> plat_x = 77 / 2, plat_y = 71, plat_width = 130, plat_height = 20,
        plat_color = NEON_LIME, plat_vx = 7 / 2, passed = False, landedOn = False \<rparr>,
      \<lparr> plat_x = 3571 / 20, plat_y = - 79, plat_width = 130, plat_height = 20,
        plat_color = NEON_LIME, plat_vx = - (7 / 2), passed = False, landedOn = False \<rparr>]"
  "ply_x (player Q104) = 400"
  "ply_y (player Q104) = 360"
  "ply_vy (player Q104) = - 9"
  "ply_width (player Q104) = 40"
  "ply_height (player Q104) = 40"
  "ply_color (player Q104) = NEON_LIME"
  "jumps (player Q104) = 1"
  "currentPlatform (player Q104) = None"
  "rix Q104 = 195"
  unfolding Q104_eq tail_fields update_fall_rix preCollision_def
    afterScroll_store_list[OF Q103_scroll(4,5)]
  by (simp_all add: afterScroll_fields afterScroll_rix Q103_scroll Q103_move spawned_R1 config)

lemma Q103_first: "firstLanding R1 (Frame 1664 0) Q103 = None"
  by (simp add: Q103_fields(1) Q103_landing)

lemma wf_Q103: "wf Q103" and pinned_Q103: "pinned Q103"
  using reachable_inv[OF reachable_Q103] by simp_all

lemma Q103_loop: "loop R1 1664 0 Q103 = Inr Q104"
  by (simp add: Q104_def loop_afterFrame[OF wf_Q103 Q103_fields(1)])

lemma reachable_Q104: "reachable R1 Q104"
  by (rule reachable.step[OF reachable_Q103, of "Frame 1664 0"]) (simp_all add: Q103_loop)

lemma Q104_refs: "refs_ok (Q104\<lparr> lastTime := 1680 \<rparr>)"
  by (simp add: refs_ok_def Q104_fields)

lemma Q104_store:
  "store (update_move 0 (Q104\<lparr> lastTime := 1680 \<rparr>)) =
     [\<lparr> plat_x = 300, plat_y = 702, plat_width = 200, plat_height = 20,
        plat_color = NEON_MAGENTA, plat_vx = 0, passed = False, landedOn = False \<rparr>,
      \<lparr> plat_x = 73311 / 640, plat_y = 671, plat_width = 130, plat_height = 20,
        plat_color = NEON_LIME, plat_vx = - (7 / 2), passed = False, landedOn = True \<rparr>,
      \<lparr> plat_x = 362697 / 1280, plat_y = 521, plat_width = 130, plat_height = 20,
        plat_color = NEON_LIME, plat_vx = - (7 / 2), passed = False, landedOn = True \<rparr>,
      \<lparr> plat_x = 8323 / 40, plat_y = 371, plat_width = 130, plat_height = 20,
        plat_color = NEON_LIME, plat_vx = 7 / 2, passed = False, landedOn = False \<rparr>,
      \<lparr> plat_x = 847 / 20, plat_y = 221, plat_width = 130, plat_height = 20,
        plat_color = NEON_LIME, plat_vx = 7 / 2, passed = False, landedOn = False \<rparr>,
      \<lparr> plat_x = 847 / 20, plat_y = 71, plat_width = 130, plat_height = 20,
        plat_color = NEON_LIME, plat_vx = 7 / 2, passed = False, landedOn = False \<rparr>,
      \<lparr> plat_x = 1747 / 10, plat_y = - 79, plat_width = 130, plat_height = 20,
        plat_color = NEON_LIME, plat_vx = - (7 / 2), passed = False, landedOn = False \<rparr>]"
  by (simp add: update_move_eq[OF Q104_refs] Q104_fields advance_def speedMultiplier_def Let_def)

lemma Q104_player:
  "ply_x (player (update_move 0 (Q104\<lparr> lastTime := 1680 \<rparr>))) = 400"
  "ply_y (player (update_move 0 (Q104\<lparr> lastTime := 1680 \<rparr>))) = 703 / 2"
  "ply_vy (player (update_move 0 (Q104\<lparr> lastTime := 1680 \<rparr>))) = - (17 / 2)"
  "ply_width (player (update_move 0 (Q104\<lparr> lastTime := 1680 \<rparr>))) = 40"
  "ply_height (player (update_move 0 (Q104\<lparr> lastTime := 1680 \<rparr>))) = 40"
  "ply_color (player (update_move 0 (Q104\<lparr> lastTime := 1680 \<rparr>))) = NEON_LIME"
  "jumps (player (update_move 0 (Q104\<lparr> lastTime := 1680 \<rparr>))) = 1"
  "currentPlatform (player (update_move 0 (Q104\<lparr> lastTime := 1680 \<rparr>))) = None"
  unfolding update_move_player_eq[OF Q104_refs] Q104_store
  by (simp_all add: Q104_fields Player_physics_def carry_def speedMultiplier_def Let_def config)

lemmas Q104_move = Q104_store Q104_player update_move_fields[OF Q104_refs] Q104_fields

lemma Q104_scroll:
  "scrolls (update_move 0 (Q104\<lparr> lastTime := 1680 \<rparr>))"
  "scrollDiff (update_move 0 (Q104\<lparr> lastTime := 1680 \<rparr>)) = 17 / 2"
  "\<not> recycles (update_move 0 (Q104\<lparr> lastTime := 1680 \<rparr>))"
  "refs_ok (update_move 0 (Q104\<lparr> lastTime := 1680 \<rparr>))"
  "platforms (update_move 0 (Q104\<lparr> lastTime := 1680 \<rparr>)) \<noteq> []"
  by (simp_all add: scrolls_def scrollDiff_def recycles_def refs_ok_def Q104_move)

lemma Q104_landing:
  "landingPlatform (preCollision R1 1680 0 Q104) = None"
  by (simp add: landingPlatform_def preCollision_def afterScroll_fields Q104_scroll Q104_move)

lemma Q105_eq:
  "Q105 = update_cosmetics (update_fall R1 (preCollision R1 1680 0 Q104))"
  using Q104_landing
  by (simp add: Q105_def afterFrame_def update_collision_eq)

lemma Q105_fields:
  "state Q105 = Playing"
  "score Q105 = 2"
  "perfectStreak Q105 = 2"
  "isFever Q105 = False"
  "viewportWidth Q105 = 800"
  "viewportHeight Q105 = 600"
  "platforms Q105 = [1, 2, 3, 4, 5, 6]"
  "notifications Q105 = [ScoreUpdate 0, ComboChange 0, FeverChange False, GameStateChange Playing, ScoreUpdate 1, ComboChange 1, ScoreUpdate 2, ComboChange 2]"
  "store Q105 =
     [\<lparr> plat_x = 300, plat_y = 702, plat_width = 200, plat_height = 20,
        plat_color = NEON_MAGENTA, plat_vx = 0, passed = False, landedOn = False \<rparr>,
      \<lparr> plat_x = 73311 / 640, plat_y = 1359 / 2, plat_width = 130, plat_height = 20,
        plat_color = NEON_LIME, plat_vx = - (7 / 2), passed = False, landedOn = True \<rparr>,
      \<lparr> plat_x = 362697 / 1280, plat_y = 1059 / 2, plat_width = 130, plat_height = 20,
        plat_color = NEON_LIME, plat_vx = - (7 / 2), passed = False, landedOn = True \<rparr>,
      \<lparr> plat_x = 8323 / 40, plat_y = 759 / 2, plat_width = 130, plat_height = 20,
        plat_color = NEON_LIME, plat_vx = 7 / 2, passed = False, landedOn = False \<rparr>,
      \<lparr> plat_x = 847 / 20, plat_y = 459 / 2, plat_width = 130, plat_height = 20,
        plat_color = NEON_LIME, plat_vx = 7 / 2, passed = False, landedOn = False \<rparr>,
      \<lparr> plat_x = 847 / 20, plat_y = 159 / 2, plat_width = 130, plat_height = 20,
        plat_color = NEON_LIME, plat_vx = 7 / 2, passed = False, landedOn = False \<rparr>,
      \<lparr> plat_x = 1747 / 10, plat_y = - (141 / 2), plat_width = 130, plat_height = 20,
        plat_color = NEON_LIME, plat_vx = - (7 / 2), passed = False, landedOn = False \<rparr>]"
  "ply_x (player Q105) = 400"
  "ply_y (player Q105) = 360"
  "ply_vy (player Q105) = - (17 / 2)"
  "ply_width (player Q105) = 40"
  "ply_height (player Q105) = 40"
  "ply_color (player Q105) = NEON_LIME"
  "jumps (player Q105) = 1"
  "currentPlatform (player Q105) = None"
  "rix Q105 = 195"
  unfolding Q105_eq tail_fields update_fall_rix preCollision_def
    afterScroll_store_list[OF Q104_scroll(4,5)]
  by (simp_all add: afterScroll_fields afterScroll_rix Q104_scroll Q104_move spawned_R1 config)

lemma Q104_first: "firstLanding R1 (Frame 1680 0) Q104 = None"
  by (simp add: Q104_fields(1) Q104_landing)

lemma wf_Q104: "wf Q104" and pinned_Q104: "pinned Q104"
  using reachable_inv[OF reachable_Q104] by simp_all

lemma Q104_loop: "loop R1 1680 0 Q104 = Inr Q105"
  by (simp add: Q105_def loop_afterFrame[OF wf_Q104 Q104_fields(1)])

lemma reachable_Q105: "reachable R1 Q105"
  by (rule reachable.step[OF reachable_Q104, of "Frame 1680 0"]) (simp_all add: Q104_loop)

lemma Q105_refs: "refs_ok (Q105\<lparr> lastTime := 1696 \<rparr>)"
  by (simp add: refs_ok_def Q105_fields)

lemma Q105_store:
  "store (update_move 0 (Q105\<lparr> lastTime := 1696 \<rparr>)) =
     [\<lparr> plat_x = 300, plat_y = 702, plat_width = 200, plat_height = 20,
        plat_color = NEON_MAGENTA, plat_vx = 0, passed = False, landedOn = False \<rparr>,
      \<lparr> plat_x = 70847 / 640, plat_y = 1359 / 2, plat_width = 130, plat_height = 20,
        plat_color = NEON_LIME, plat_vx = - (7 / 2), passed = False, landedOn = True \<rparr>,
      \<lparr> plat_x = 357769 / 1280, plat_y = 1059 / 2, plat_width = 130, plat_height = 20,
        plat_color = NEON_LIME, plat_vx = - (7 / 2), passed = False, landedOn = True \<rparr>,
      \<lparr> plat_x = 8477 / 40, plat_y = 759 / 2, plat_width = 130, plat_height = 20,
        plat_color = NEON_LIME, plat_vx = 7 / 2, passed = False, landedOn = False \<rparr>,
      \<lparr> plat_x = 231 / 5, plat_y = 459 / 2, plat_width = 130, plat_height = 20,
        plat_color = NEON_LIME, plat_vx = 7 / 2, passed = False, landedOn = False \<rparr>,
      \<lparr> plat_x = 231 / 5, plat_y = 159 / 2, plat_width = 130, plat_height = 20,
        plat_color = NEON_LIME, plat_vx = 7 / 2, passed = False, landedOn = False \<rparr>,
      \<lparr> plat_x = 3417 / 20, plat_y = - (141 / 2), plat_width = 130, plat_height = 20,
        plat_color = NEON_LIME, plat_vx = - (7 / 2), passed = False, landedOn = False \<rparr>]"
  by (simp add: update_move_eq[OF Q105_refs] Q105_fields advance_def speedMultiplier_def Let_def)

lemma Q105_player:
  "ply_x (player (update_move 0 (Q105\<lparr> lastTime := 1696 \<rparr>))) = 400"
  "ply_y (player (update_move 0 (Q105\<lparr> lastTime := 1696 \<rparr>))) = 352"
  "ply_vy (player (update_move 0 (Q105\<lparr> lastTime := 1696 \<rparr>))) = - 8"
  "ply_width (player (update_move 0 (Q105\<lparr> lastTime := 1696 \<rparr>))) = 40"
  "ply_height (player (update_move 0 (Q105\<lparr> lastTime := 1696 \<rparr>))) = 40"
  "ply_color (player (update_move 0 (Q105\<lparr> lastTime := 1696 \<rparr>))) = NEON_LIME"
  "jumps (player (update_move 0 (Q105\<lparr> lastTime := 1696 \<rparr>))) = 1"
  "currentPlatform (player (update_move 0 (Q105\<lparr> lastTime := 1696 \<rparr>))) = None"
  unfolding update_move_player_eq[OF Q105_refs] Q105_store
  by (simp_all add: Q105_fields Player_physics_def carry_def speedMultiplier_def Let_def config)

lemmas Q105_move = Q105_store Q105_player update_move_fields[OF Q105_refs] Q105_fields

lemma Q105_scroll:
  "scrolls (update_move 0 (Q105\<lparr> lastTime := 1696 \<rparr>))"
  "scrollDiff (update_move 0 (Q105\<lparr> lastTime := 1696 \<rparr>)) = 8"
  "\<not> recycles (update_move 0 (Q105\<lparr> lastTime := 1696 \<rparr>))"
  "refs_ok (update_move 0 (Q105\<lparr> lastTime := 1696 \<rparr>))"
  "platforms (update_move 0 (Q105\<lparr> lastTime := 1696 \<rparr>)) \<noteq> []"
  by (simp_all add: scrolls_def scrollDiff_def recycles_def refs_ok_def Q105_move)

lemma Q105_landing:
  "landingPlatform (preCollision R1 1696 0 Q105) = None"
  by (simp add: landingPlatform_def preCollision_def afterScroll_fields Q105_scroll Q105_move)

lemma Q106_eq:
  "Q106 = update_cosmetics (update_fall R1 (preCollision R1 1696 0 Q105))"
  using Q105_landing
  by (simp add: Q106_def afterFrame_def update_collision_eq)

lemma Q106_fields:
  "state Q106 = Playing"
  "score Q106 = 2"
  "perfectStreak Q106 = 2"
  "isFever Q106 = False"
  "viewportWidth Q106 = 800"
  "viewportHeight Q106 = 600"
  "platforms Q106 = [1, 2, 3, 4, 5, 6]"
  "notifications Q106 = [ScoreUpdate 0, ComboChange 0, FeverChange False, GameStateChange Playing, ScoreUpdate 1, ComboChange 1, ScoreUpdate 2, ComboChange 2]"
  "store Q106 =
     [\<lparr> plat_x = 300, plat_y = 702, plat_width = 200, plat_height = 20,
        plat_color = NEON_MAGENTA, plat_vx = 0, passed = False, landedOn = False \<rparr>,
      \<lparr> plat_x = 70847 / 640, plat_y = 1375 / 2, plat_width = 130, plat_height = 20,
        plat_color = NEON_LIME, plat_vx = - (7 / 2), passed = False, landedOn = True \<rparr>,
      \<lparr> plat_x = 357769 / 1280, plat_y = 1075 / 2, plat_width = 130, plat_height = 20,
        plat_color = NEON_LIME, plat_vx = - (7 / 2), passed = False, landedOn = True \<rparr>,
      \<lparr> plat_x = 8477 / 40, plat_y = 775 / 2, plat_width = 130, plat_height = 20,
        plat_color = NEON_LIME, plat_vx = 7 / 2, passed = False, landedOn = False \<rparr>,
      \<lparr> plat_x = 231 / 5, plat_y = 475 / 2, plat_width = 130, plat_height = 20,
        plat_color = NEON_LIME, plat_vx = 7 / 2, passed = False, landedOn = False \<rparr>,
      \<lparr> plat_x = 231 / 5, plat_y = 175 / 2, plat_width = 130, plat_height = 20,
        plat_color = NEON_LIME, plat_vx = 7 / 2, passed = False, landedOn = False \<rparr>,
      \<lparr> plat_x = 3417 / 20, plat_y = - (125 / 2), plat_width = 130, plat_height = 20,
        plat_color = NEON_LIME, plat_vx = - (7 / 2), passed = False, landedOn = False \<rparr>]"
  "ply_x (player Q106) = 400"
  "ply_y (player Q106) = 360"
  "ply_vy (player Q106) = - 8"
  "ply_width (player Q106) = 40"
  "ply_height (player Q106) = 40"
  "ply_color (player Q106) = NEON_LIME"
  "jumps (player Q106) = 1"
  "currentPlatform (player Q106) = None"
  "rix Q106 = 195"
  unfolding Q106_eq tail_fields update_fall_rix preCollision_def
    afterScroll_store_list[OF Q105_scroll(4,5)]
  by (simp_all add: afterScroll_fields afterScroll_rix Q105_scroll Q105_move spawned_R1 config)

lemma Q105_first: "firstLanding R1 (Frame 1696 0) Q105 = None"
  by (simp add: Q105_fields(1) Q105_landing)

lemma wf_Q105: "wf Q105" and pinned_Q105: "pinned Q105"
  using reachable_inv[OF reachable_Q105] by simp_all

lemma Q105_loop: "loop R1 1696 0 Q105 = Inr Q106"
  by (simp add: Q106_def loop_afterFrame[OF wf_Q105 Q105_fields(1)])

lemma reachable_Q106: "reachable R1 Q106"
  by (rule reachable.step[OF reachable_Q105, of "Frame 1696 0"]) (simp_all add: Q105_loop)

lemma Q106_refs: "refs_ok (Q106\<lparr> lastTime := 1712 \<rparr>)"
  by (simp add: refs_ok_def Q106_fields)

lemma Q106_store:
  "store (update_move 0 (Q106\<lparr> lastTime := 1712 \<rparr>)) =
     [\<lparr> plat_x = 300, plat_y = 702, plat_width = 200, plat_height = 20,
        plat_color = NEON_MAGENTA, plat_vx = 0, passed = False, landedOn = False \<rparr>,
      \<lparr> plat_x = 68383 / 640, plat_y = 1375 / 2, plat_width = 130, plat_height = 20,
        plat_color = NEON_LIME, plat_vx = - (7 / 2), passed = False, landedOn = True \<rparr>,
      \<lparr> plat_x = 352841 / 1280, plat_y = 1075 / 2, plat_width = 130, plat_height = 20,
        plat_color = NEON_LIME, plat_vx = - (7 / 2), passed = False, landedOn = True \<rparr>,
      \<lparr> plat_x = 8631 / 40, plat_y = 775 / 2, plat_width = 130, plat_height = 20,
        plat_color = NEON_LIME, plat_vx = 7 / 2, passed = False, landedOn = False \<rparr>,
      \<lparr> plat_x = 1001 / 20, plat_y = 475 / 2, plat_width = 130, plat_height = 20,
        plat_color = NEON_LIME, plat_vx = 7 / 2, passed = False, landedOn = False \<rparr>,
      \<lparr> plat_x = 1001 / 20, plat_y = 175 / 2, plat_width = 130, plat_height = 20,
        plat_color = NEON_LIME, plat_vx = 7 / 2, passed = False, landedOn = False \<rparr>,
      \<lparr> plat_x = 167, plat_y = - (125 / 2), plat_width = 130, plat_height = 20,
        plat_color = NEON_LIME, plat_vx = - (7 / 2), passed = False, landedOn = False \<rparr>]"
  by (simp add: update_move_eq[OF Q106_refs] Q106_fields advance_def speedMultiplier_def Let_def)

lemma Q106_player:
  "ply_x (player (update_move 0 (Q106\<lparr> lastTime := 1712 \<rparr>))) = 400"
  "ply_y (player (update_move 0 (Q106\<lparr> lastTime := 1712 \<rparr>))) = 705 / 2"
  "ply_vy (player (update_move 0 (Q106\<lparr> lastTime := 1712 \<rparr>))) = - (15 / 2)"
  "ply_width (player (update_move 0 (Q106\<lparr> lastTime := 1712 \<rparr>))) = 40"
  "ply_height (player (update_move 0 (Q106\<lparr> lastTime := 1712 \<rparr>))) = 40"
  "ply_color (player (update_move 0 (Q106\<lparr> lastTime := 1712 \<rparr>))) = NEON_LIME"
  "jumps (player (update_move 0 (Q106\<lparr> lastTime := 1712 \<rparr>))) = 1"
  "currentPlatform (player (update_move 0 (Q106\<lparr> lastTime := 1712 \<rparr>))) = None"
  unfolding update_move_player_eq[OF Q106_refs] Q106_store
  by (simp_all add: Q106_fields Player_physics_def carry_def speedMultiplier_def Let_def config)

lemmas Q106_move = Q106_store Q106_player update_move_fields[OF Q106_refs] Q106_fields

lemma Q106_scroll:
  "scrolls (update_move 0 (Q106\<lparr> lastTime := 1712 \<rparr>))"
  "scrollDiff (update_move 0 (Q106\<lparr> lastTime := 1712 \<rparr>)) = 15 / 2"
  "\<not> recycles (update_move 0 (Q106\<lparr> lastTime := 1712 \<rparr>))"
  "refs_ok (update_move 0 (Q106\<lparr> lastTime := 1712 \<rparr>))"
  "platforms (update_move 0 (Q106\<lparr> lastTime := 1712 \<rparr>)) \<noteq> []"
  by (simp_all add: scrolls_def scrollDiff_def recycles_def refs_ok_def Q106_move)

lemma Q106_landing:
  "landingPlatform (preCollision R1 1712 0 Q106) = None"
  by (simp add: landingPlatform_def preCollision_def afterScroll_fields Q106_scroll Q106_move)

lemma Q107_eq:
  "Q107 = update_cosmetics (update_fall R1 (preCollision R1 1712 0 Q106))"
  using Q106_landing
  by (simp add: Q107_def afterFrame_def update_collision_eq)

lemma Q107_fields:
  "state Q107 = Playing"
  "score Q107 = 2"
  "perfectStreak Q107 = 2"
  "isFever Q107 = False"
  "viewportWidth Q107 = 800"
  "viewportHeight Q107 = 600"
  "platforms Q107 = [1, 2, 3, 4, 5, 6]"
  "notifications Q107 = [ScoreUpdate 0, ComboChange 0, FeverChange False, GameStateChange Playing, ScoreUpdate 1, ComboChange 1, ScoreUpdate 2, ComboChange 2]"
  "store Q107 =
     [\<lparr> plat_x = 300, plat_y = 702, plat_width = 200, plat_height = 20,
        plat_color = NEON_MAGENTA, plat_vx = 0, passed = False, landedOn = False \<rparr>,
      \<lparr> plat_x = 68383 / 640, plat_y = 695, plat_width = 130, plat_height = 20,
        plat_color = NEON_LIME, plat_vx = - (7 / 2), passed = False, landedOn = True \<rparr>,
      \<lparr> plat_x = 352841 / 1280, plat_y = 545, plat_width = 130, plat_height = 20,
        plat_color = NEON_LIME, plat_vx = - (7 / 2), passed = False, landedOn = True \<rparr>,
      \<lparr> plat_x = 8631 / 40, plat_y = 395, plat_width = 130, plat_height = 20,
        plat_color = NEON_LIME, plat_vx = 7 / 2, passed = False, landedOn = False \<rparr>,
      \<lparr> plat_x = 1001 / 20, plat_y = 245, plat_width = 130, plat_height = 20,
        plat_color = NEON_LIME, plat_vx = 7 / 2, passed = False, landedOn = False \<rparr>,
      \<lparr> plat_x = 1001 / 20, plat_y = 95, plat_width = 130, plat_height = 20,
        plat_color = NEON_LIME, plat_vx = 7 / 2, passed = False, landedOn = False \<rparr>,
      \<lparr> plat_x = 167, plat_y = - 55, plat_width = 130, plat_height = 20,
        plat_color = NEON_LIME, plat_vx = - (7 / 2), passed = False, landedOn = False \<rparr>]"
  "ply_x (player Q107) = 400"
  "ply_y (player Q107) = 360"
  "ply_vy (player Q107) = - (15 / 2)"
  "ply_width (player Q107) = 40"
  "ply_height (player Q107) = 40"
  "ply_color (player Q107) = NEON_LIME"
  "jumps (player Q107) = 1"
  "currentPlatform (player Q107) = None"
  "rix Q107 = 195"
  unfolding Q107_eq tail_fields update_fall_rix preCollision_def
    afterScroll_store_list[OF Q106_scroll(4,5)]
  by (simp_all add: afterScroll_fields afterScroll_rix Q106_scroll Q106_move spawned_R1 config)

lemma Q106_first: "firstLanding R1 (Frame 1712 0) Q106 = None"
  by (simp add: Q106_fields(1) Q106_landing)

lemma wf_Q106: "wf Q106" and pinned_Q106: "pinned Q106"
  using reachable_inv[OF reachable_Q106] by simp_all

lemma Q106_loop: "loop R1 1712 0 Q106 = Inr Q107"
  by (simp add: Q107_def loop_afterFrame[OF wf_Q106 Q106_fields(1)])

lemma reachable_Q107: "reachable R1 Q107"
  by (rule reachable.step[OF reachable_Q106, of "Frame 1712 0"]) (simp_all add: Q106_loop)

lemma Q107_refs: "refs_ok (Q107\<lparr> lastTime := 1728 \<rparr>)"
  by (simp add: refs_ok_def Q107_fields)

lemma Q107_store:
  "store (update_move 0 (Q107\<lparr> lastTime := 1728 \<rparr>)) =
     [\<lparr> plat_x = 300, plat_y = 702, plat_width = 200, plat_height = 20,
        plat_color = NEON_MAGENTA, plat_vx = 0, passed = False, landedOn = False \<rparr>,
      \<lparr> plat_x = 65919 / 640, plat_y = 695, plat_width = 130, plat_height = 20,
        plat_color = NEON_LIME, plat_vx = - (7 / 2), passed = False, landedOn = True \<rparr>,
      \<lparr> plat_x = 347913 / 1280, plat_y = 545, plat_width = 130, plat_height = 20,
        plat_color = NEON_LIME, plat_vx = - (7 / 2), passed = False, landedOn = True \<rparr>,
      \<lparr> plat_x = 1757 / 8, plat_y = 395, plat_width = 130, plat_height = 20,
        plat_color = NEON_LIME, plat_vx = 7 / 2, passed = False, landedOn = False \<rparr>,
      \<lparr> plat_x = 539 / 10, plat_y = 245, plat_width = 130, plat_height = 20,
        plat_color = NEON_LIME, plat_vx = 7 / 2, passed = False, landedOn = False \<rparr>,
      \<lparr> plat_x = 539 / 10, plat_y = 95, plat_width = 130, plat_height = 20,
        plat_color = NEON_LIME, plat_vx = 7 / 2, passed = False, landedOn = False \<rparr>,
      \<lparr> plat_x = 3263 / 20, plat_y = - 55, plat_width = 130, plat_height = 20,
        plat_color = NEON_LIME, plat_vx = - (7 / 2), passed = False, landedOn = False \<rparr>]"
  by (simp add: update_move_eq[OF Q107_refs] Q107_fields advance_def speedMultiplier_def Let_def)

lemma Q107_player:
  "ply_x (player (update_move 0 (Q107\<lparr> lastTime := 1728 \<rparr>))) = 400"
  "ply_y (player (update_move 0 (Q107\<lparr> lastTime := 1728 \<rparr>))) = 353"
  "ply_vy (player (update_move 0 (Q107\<lparr> lastTime := 1728 \<rparr>))) = - 7"
  "ply_width (player (update_move 0 (Q107\<lparr> lastTime := 1728 \<rparr>))) = 40"
  "ply_height (player (update_move 0 (Q107\<lparr> lastTime := 1728 \<rparr>))) = 40"
  "ply_color (player (update_move 0 (Q107\<lparr> lastTime := 1728 \<rparr>))) = NEON_LIME"
  "jumps (player (update_move 0 (Q107\<lparr> lastTime := 1728 \<rparr>))) = 1"
  "currentPlatform (player (update_move 0 (Q107\<lparr> lastTime := 1728 \<rparr>))) = None"
  unfolding update_move_player_eq[OF Q107_refs] Q107_store
  by (simp_all add: Q107_fields Player_physics_def carry_def speedMultiplier_def Let_def config)

lemmas Q107_move = Q107_store Q107_player update_move_fields[OF Q107_refs] Q107_fields

lemma Q107_scroll:
  "scrolls (update_move 0 (Q107\<lparr> lastTime := 1728 \<rparr>))"
  "scrollDiff (update_move 0 (Q107\<lparr> lastTime := 1728 \<rparr>)) = 7"
  "recycles (update_move 0 (Q107\<lparr> lastTime := 1728 \<rparr>))"
  "refs_ok (update_move 0 (Q107\<lparr> lastTime := 1728 \<rparr>))"
  "platforms (update_move 0 (Q107\<lparr> lastTime := 1728 \<rparr>)) \<noteq> []"
  by (simp_all add: scrolls_def scrollDiff_def recycles_def refs_ok_def Q107_move)

lemma Q107_landing:
  "landingPlatform (preCollision R1 1728 0 Q107) = None"
  by (simp add: landingPlatform_def preCollision_def afterScroll_fields Q107_scroll Q107_move)

lemma Q108_eq:
  "Q108 = update_cosmetics (update_fall R1 (preCollision R1 1728 0 Q107))"
  using Q107_landing
  by (simp add: Q108_def afterFrame_def update_collision_eq)

lemma Q108_fields:
  "state Q108 = Playing"
  "score Q108 = 2"
  "perfectStreak Q108 = 2"
  "isFever Q108 = False"
  "viewportWidth Q108 = 800"
  "viewportHeight Q108 = 600"
  "platforms Q108 = [2, 3, 4, 5, 6, 7]"
  "notifications Q108 = [ScoreUpdate 0, ComboChange 0, FeverChange False, GameStateChange Playing, ScoreUpdate 1, ComboChange 1, ScoreUpdate 2, ComboChange 2]"
  "store Q108 =
     [\<lparr> plat_x = 300, plat_y = 702, plat_width = 200, plat_height = 20,
        plat_color = NEON_MAGENTA, plat_vx = 0, passed = False, landedOn = False \<rparr>,
      \<lparr> plat_x = 65919 / 640, plat_y = 702, plat_width = 130, plat_height = 20,
        plat_color = NEON_LIME, plat_vx = - (7 / 2), passed = False, landedOn = True \<rparr>,
      \<lparr> plat_x = 347913 / 1280, plat_y = 552, plat_width = 130, plat_height = 20,
        plat_color = NEON_LIME, plat_vx = - (7 / 2), passed = False, landedOn = True \<rparr>,
      \<lparr> plat_x = 1757 / 8, plat_y = 402, plat_width = 130, plat_height = 20,
        plat_color = NEON_LIME, plat_vx = 7 / 2, passed = False, landedOn = False \<rparr>,
      \<lparr> plat_x = 539 / 10, plat_y = 252, plat_width = 130, plat_height = 20,
        plat_color = NEON_LIME, plat_vx = 7 / 2, passed = False, landedOn = False \<rparr>,
      \<lparr> plat_x = 539 / 10, plat_y = 102, plat_width = 130, plat_height = 20,
        plat_color = NEON_LIME, plat_vx = 7 / 2, passed = False, landedOn = False \<rparr>,
      \<lparr> plat_x = 3263 / 20, plat_y = - 48, plat_width = 130, plat_height = 20,
        plat_color = NEON_LIME, plat_vx = - (7 / 2), passed = False, landedOn = False \<rparr>,
      \<lparr> plat_x = 335, plat_y = - 198, plat_width = 130, plat_height = 20,
        plat_color = NEON_LIME, plat_vx = - (7 / 2), passed = False, landedOn = False \<rparr>]"
  "ply_x (player Q108) = 400"
  "ply_y (player Q108) = 360"
  "ply_vy (player Q108) = - 7"
  "ply_width (player Q108) = 40"
  "ply_height (player Q108) = 40"
  "ply_color (player Q108) = NEON_LIME"
  "jumps (player Q108) = 1"
  "currentPlatform (player Q108) = None"
  "rix Q108 = 200"
  unfolding Q108_eq tail_fields update_fall_rix preCollision_def
    afterScroll_store_list[OF Q107_scroll(4,5)]
  by (simp_all add: afterScroll_fields afterScroll_rix Q107_scroll Q107_move spawned_R1 config)

lemma Q107_first: "firstLanding R1 (Frame 1728 0) Q107 = None"
  by (simp add: Q107_fields(1) Q107_landing)

lemma wf_Q107: "wf Q107" and pinned_Q107: "pinned Q107"
  using reachable_inv[OF reachable_Q107] by simp_all

lemma Q107_loop: "loop R1 1728 0 Q107 = Inr Q108"
  by (simp add: Q108_def loop_afterFrame[OF wf_Q107 Q107_fields(1)])

lemma reachable_Q108: "reachable R1 Q108"
  by (rule reachable.step[OF reachable_Q107, of "Frame 1728 0"]) (simp_all add: Q107_loop)

lemma Q108_refs: "refs_ok (Q108\<lparr> lastTime := 1744 \<rparr>)"
  by (simp add: refs_ok_def Q108_fields)

lemma Q108_store:
  "store (update_move 0 (Q108\<lparr> lastTime := 1744 \<rparr>)) =
     [\<lparr> plat_x = 300, plat_y = 702, plat_width = 200, plat_height = 20,
        plat_color = NEON_MAGENTA, plat_vx = 0, passed = False, landedOn = False \<rparr>,
      \<lparr> plat_x = 65919 / 640, plat_y = 702, plat_width = 130, plat_height = 20,
        plat_color = NEON_LIME, plat_vx = - (7 / 2), passed = False, landedOn = True \<rparr>,
      \<lparr> plat_x = 68597 / 256, plat_y = 552, plat_width = 130, plat_height = 20,
        plat_color = NEON_LIME, plat_vx = - (7 / 2), passed = False, landedOn = True \<rparr>,
      \<lparr> plat_x = 8939 / 40, plat_y = 402, plat_width = 130, plat_height = 20,
        plat_color = NEON_LIME, plat_vx = 7 / 2, passed = False, landedOn = False \<rparr>,
      \<lparr> plat_x = 231 / 4, plat_y = 252, plat_width = 130, plat_height = 20,
        plat_color = NEON_LIME, plat_vx = 7 / 2, passed = False, landedOn = False \<rparr>,
      \<lparr> plat_x = 231 / 4, plat_y = 102, plat_width = 130, plat_height = 20,
        plat_color = NEON_LIME, plat_vx = 7 / 2, passed = False, landedOn = False \<rparr>,
      \<lparr> plat_x = 1593 / 10, plat_y = - 48, plat_width = 130, plat_height = 20,
        plat_color = NEON_LIME, plat_vx = - (7 / 2), passed = False, landedOn = False \<rparr>,
      \<lparr> plat_x = 6623 / 20, plat_y = - 198, plat_width = 130, plat_height = 20,
        plat_color = NEON_LIME, plat_vx = - (7 / 2), passed = False, landedOn = False \<rparr>]"
  by (simp add: update_move_eq[OF Q108_refs] Q108_fields advance_def speedMultiplier_def Let_def)

lemma Q108_player:
  "ply_x (player (update_move 0 (Q108\<lparr> lastTime := 1744 \<rparr>))) = 400"
  "ply_y (player (update_move 0 (Q108\<lparr> lastTime := 1744 \<rparr>))) = 707 / 2"
  "ply_vy (player (update_move 0 (Q108\<lparr> lastTime := 1744 \<rparr>))) = - (13 / 2)"
  "ply_width (player (update_move 0 (Q108\<lparr> lastTime := 1744 \<rparr>))) = 40"
  "ply_height (player (update_move 0 (Q108\<lparr> lastTime := 1744 \<rparr>))) = 40"
  "ply_color (player (update_move 0 (Q108\<lparr> lastTime := 1744 \<rparr>))) = NEON_LIME"
  "jumps (player (update_move 0 (Q108\<lparr> lastTime := 1744 \<rparr>))) = 1"
  "currentPlatform (player (update_move 0 (Q108\<lparr> lastTime := 1744 \<rparr>))) = None"
  unfolding update_move_player_eq[OF Q108_refs] Q108_store
  by (simp_all add: Q108_fields Player_physics_def carry_def speedMultiplier_def Let_def config)

lemmas Q108_move = Q108_store Q108_player update_move_fields[OF Q108_refs] Q108_fields

lemma Q108_scroll:
  "scrolls (update_move 0 (Q108\<lparr> lastTime := 1744 \<rparr>))"
  "scrollDiff (update_move 0 (Q108\<lparr> lastTime := 1744 \<rparr>)) = 13 / 2"
  "\<not> recycles (update_move 0 (Q108\<lparr> lastTime := 1744 \<rparr>))"
  "refs_ok (update_move 0 (Q108\<lparr> lastTime := 1744 \<rparr>))"
  "platforms (update_move 0 (Q108\<lparr> lastTime := 1744 \<rparr>)) \<noteq> []"
  by (simp_all add: scrolls_def scrollDiff_def recycles_def refs_ok_def Q108_move)

lemma Q108_landing:
  "landingPlatform (preCollision R1 1744 0 Q108) = None"
  by (simp add: landingPlatform_def preCollision_def afterScroll_fields Q108_scroll Q108_move)

lemma Q109_eq:
  "Q109 = update_cosmetics (update_fall R1 (preCollision R1 1744 0 Q108))"
  using Q108_landing
  by (simp add: Q109_def afterFrame_def update_collision_eq)

lemma Q109_fields:
  "state Q109 = Playing"
  "score Q109 = 2"
  "perfectStreak Q109 = 2"
  "isFever Q109 = False"
  "viewportWidth Q109 = 800"
  "viewportHeight Q109 = 600"
  "platforms Q109 = [2, 3, 4, 5, 6, 7]"
  "notifications Q109 = [ScoreUpdate 0, ComboChange 0, FeverChange False, GameStateChange Playing, ScoreUpdate 1, ComboChange 1, ScoreUpdate 2, ComboChange 2]"
  "store Q109 =
     [\<lparr> plat_x = 300, plat_y = 702, plat_width = 200, plat_height = 20,
        plat_color = NEON_MAGENTA, plat_vx = 0, passed = False, landedOn = False \<rparr>,
      \<lparr> plat_x = 65919 / 640, plat_y = 702, plat_width = 130, plat_height = 20,
        plat_color = NEON_LIME, plat_vx = - (7 / 2), passed = False, landedOn = True \<rparr>,
      \<lparr> plat_x = 68597 / 256, plat_y = 1117 / 2, plat_width = 130, plat_height = 20,
        plat_color = NEON_LIME, plat_vx = - (7 / 2), passed = False, landedOn = True \<rparr>,
      \<lparr> plat_x = 8939 / 40, plat_y = 817 / 2, plat_width = 130, plat_height = 20,
        plat_color = NEON_LIME, plat_vx = 7 / 2, passed = False, landedOn = False \<rparr>,
      \<lparr> plat_x = 231 / 4, plat_y = 517 / 2, plat_width = 130, plat_height = 20,
        plat_color = NEON_LIME, plat_vx = 7 / 2, passed = False, landedOn = False \<rparr>,
      \<lparr> plat_x = 231 / 4, plat_y = 217 / 2, plat_width = 130, plat_height = 20,
        plat_color = NEON_LIME, plat_vx = 7 / 2, passed = False, landedOn = False \<rparr>,
      \<lparr> plat_x = 1593 / 10, plat_y = - (83 / 2), plat_width = 130, plat_height = 20,
        plat_color = NEON_LIME, plat_vx = - (7 / 2), passed = False, landedOn = False \<rparr>,
      \<lparr> plat_x = 6623 / 20, plat_y = - (383 / 2), plat_width = 130, plat_height = 20,
        plat_color = NEON_LIME, plat_vx = - (7 / 2), passed = False, landedOn = False \<rparr>]"
  "ply_x (player Q109) = 400"
  "ply_y (player Q109) = 360"
  "ply_vy (player Q109) = - (13 / 2)"
  "ply_width (player Q109) = 40"
  "ply_height (player Q109) = 40"
  "ply_color (player Q109) = NEON_LIME"
  "jumps (player Q109) = 1"
  "currentPlatform (player Q109) = None"
  "rix Q109 = 200"
  unfolding Q109_eq tail_fields update_fall_rix preCollision_def
    afterScroll_store_list[OF Q108_scroll(4,5)]
  by (simp_all add: afterScroll_fields afterScroll_rix Q108_scroll Q108_move spawned_R1 config)

lemma Q108_first: "firstLanding R1 (Frame 1744 0) Q108 = None"
  by (simp add: Q108_fields(1) Q108_landing)

lemma wf_Q108: "wf Q108" and pinned_Q108: "pinned Q108"
  using reachable_inv[OF reachable_Q108] by simp_all

lemma Q108_loop: "loop R1 1744 0 Q108 = Inr Q109"
  by (simp add: Q109_def loop_afterFrame[OF wf_Q108 Q108_fields(1)])

lemma reachable_Q109: "reachable R1 Q109"
  by (rule reachable.step[OF reachable_Q108, of "Frame 1744 0"]) (simp_all add: Q108_loop)

lemma Q109_refs: "refs_ok (Q109\<lparr> lastTime := 1760 \<rparr>)"
  by (simp add: refs_ok_def Q109_fields)

lemma Q109_store:
  "store (update_move 0 (Q109\<lparr> lastTime := 1760 \<rparr>)) =
     [\<lparr> plat_x = 300, plat_y = 702, plat_width = 200, plat_height = 20,
        plat_color = NEON_MAGENTA, plat_vx = 0, passed = False, landedOn = False \<rparr>,
      \<lparr> plat_x = 65919 / 640, plat_y = 702, plat_width = 130, plat_height = 20,
        plat_color = NEON_LIME, plat_vx = - (7 / 2), passed = False, landedOn = True \<rparr>,
      \<lparr> plat_x = 338057 / 1280, plat_y = 1117 / 2, plat_width = 130, plat_height = 20,
        plat_color = NEON_LIME, plat_vx = - (7 / 2), passed = False, landedOn = True \<rparr>,
      \<lparr> plat_x = 9093 / 40, plat_y = 817 / 2, plat_width = 130, plat_height = 20,
        plat_color = NEON_LIME, plat_vx = 7 / 2, passed = False, landedOn = False \<rparr>,
      \<lparr> plat_x = 308 / 5, plat_y = 517 / 2, plat_width = 130, plat_height = 20,
        plat_color = NEON_LIME, plat_vx = 7 / 2, passed = False, landedOn = False \<rparr>,
      \<lparr> plat_x = 308 / 5, plat_y = 217 / 2, plat_width = 130, plat_height = 20,
        plat_color = NEON_LIME, plat_vx = 7 / 2, passed = False, landedOn = False \<rparr>,
      \<lparr> plat_x = 3109 / 20, plat_y = - (83 / 2), plat_width = 130, plat_height = 20,
        plat_color = NEON_LIME, plat_vx = - (7 / 2), passed = False, landedOn = False \<rparr>,
      \<lparr> plat_x = 3273 / 10, plat_y = - (383 / 2), plat_width = 130, plat_height = 20,
        plat_color = NEON_LIME, plat_vx = - (7 / 2), passed = False, landedOn = False \<rparr>]"
  by (simp add: update_move_eq[OF Q109_refs] Q109_fields advance_def speedMultiplier_def Let_def)

lemma Q109_player:
  "ply_x (player (update_move 0 (Q109\<lparr> lastTime := 1760 \<rparr>))) = 400"
  "ply_y (player (update_move 0 (Q109\<lparr> lastTime := 1760 \<rparr>))) = 354"
  "ply_vy (player (update_move 0 (Q109\<lparr> lastTime := 1760 \<rparr>))) = - 6"
  "ply_width (player (update_move 0 (Q109\<lparr> lastTime := 1760 \<rparr>))) = 40"
  "ply_height (player (update_move 0 (Q109\<lparr> lastTime := 1760 \<rparr>))) = 40"
  "ply_color (player (update_move 0 (Q109\<lparr> lastTime := 1760 \<rparr>))) = NEON_LIME"
  "jumps (player (update_move 0 (Q109\<lparr> lastTime := 1760 \<rparr>))) = 1"
  "currentPlatform (player (update_move 0 (Q109\<lparr> lastTime := 1760 \<rparr>))) = None"
  unfolding update_move_player_eq[OF Q109_refs] Q109_store
  by (simp_all add: Q109_fields Player_physics_def carry_def speedMultiplier_def Let_def config)

lemmas Q109_move = Q109_store Q109_player update_move_fields[OF Q109_refs] Q109_fields

lemma Q109_scroll:
  "scrolls (update_move 0 (Q109\<lparr> lastTime := 1760 \<rparr>))"
  "scrollDiff (update_move 0 (Q109\<lparr> lastTime := 1760 \<rparr>)) = 6"
  "\<not> recycles (update_move 0 (Q109\<lparr> lastTime := 1760 \<rparr>))"
  "refs_ok (update_move 0 (Q109\<lparr> lastTime := 1760 \<rparr>))"
  "platforms (update_move 0 (Q109\<lparr> lastTime := 1760 \<rparr>)) \<noteq> []"
  by (simp_all add: scrolls_def scrollDiff_def recycles_def refs_ok_def Q109_move)

lemma Q109_landing:
  "landingPlatform (preCollision R1 1760 0 Q109) = None"
  by (simp add: landingPlatform_def preCollision_def afterScroll_fields Q109_scroll Q109_move)

lemma Q110_eq:
  "Q110 = update_cosmetics (update_fall R1 (preCollision R1 1760 0 Q109))"
  using Q109_landing
  by (simp add: Q110_def afterFrame_def update_collision_eq)

lemma Q110_fields:
  "state Q110 = Playing"
  "score Q110 = 2"
  "perfectStreak Q110 = 2"
  "isFever Q110 = False"
  "viewportWidth Q110 = 800"
  "viewportHeight Q110 = 600"
  "platforms Q110 = [2, 3, 4, 5, 6, 7]"
  "notifications Q110 = [ScoreUpdate 0, ComboChange 0, FeverChange False, GameStateChange Playing, ScoreUpdate 1, ComboChange 1, ScoreUpdate 2, ComboChange 2]"
  "store Q110 =
     [\<lparr> plat_x = 300, plat_y = 702, plat_width = 200, plat_height = 20,
        plat_color = NEON_MAGENTA, plat_vx = 0, passed = False, landedOn = False \<rparr>,
      \<lparr> plat_x = 65919 / 640, plat_y = 702, plat_width = 130, plat_height = 20,
        plat_color = NEON_LIME, plat_vx = - (7 / 2), passed = False, landedOn = True \<rparr>,
      \<lparr> plat_x = 338057 / 1280, plat_y = 1129 / 2, plat_width = 130, plat_height = 20,
        plat_color = NEON_LIME, plat_vx = - (7 / 2), passed = False, landedOn = True \<rparr>,
      \<lparr> plat_x = 9093 / 40, plat_y = 829 / 2, plat_width = 130, plat_height = 20,
        plat_color = NEON_LIME, plat_vx = 7 / 2, passed = False, landedOn = False \<rparr>,
      \<lparr> plat_x = 308 / 5, plat_y = 529 / 2, plat_width = 130, plat_height = 20,
        plat_color = NEON_LIME, plat_vx = 7 / 2, passed = False, landedOn = False \<rparr>,
      \<lparr> plat_x = 308 / 5, plat_y = 229 / 2, plat_width = 130, plat_height = 20,
        plat_color = NEON_LIME, plat_vx = 7 / 2, passed = False, landedOn = False \<rparr>,
      \<lparr> plat_x = 3109 / 20, plat_y = - (71 / 2), plat_width = 130, plat_height = 20,
        plat_color = NEON_LIME, plat_vx = - (7 / 2), passed = False, landedOn = False \<rparr>,
      \<lparr> plat_x = 3273 / 10, plat_y = - (371 / 2), plat_width = 130, plat_height = 20,
        plat_color = NEON_LIME, plat_vx = - (7 / 2), passed = False, landedOn = False \<rparr>]"
  "ply_x (player Q110) = 400"
  "ply_y (player Q110) = 360"
  "ply_vy (player Q110) = - 6"
  "ply_width (player Q110) = 40"
  "ply_height (player Q110) = 40"
  "ply_color (player Q110) = NEON_LIME"
  "jumps (player Q110) = 1"
  "currentPlatform (player Q110) = None"
  "rix Q110 = 200"
  unfolding Q110_eq tail_fields update_fall_rix preCollision_def
    afterScroll_store_list[OF Q109_scroll(4,5)]
  by (simp_all add: afterScroll_fields afterScroll_rix Q109_scroll Q109_move spawned_R1 config)

lemma Q109_first: "firstLanding R1 (Frame 1760 0) Q109 = None"
  by (simp add: Q109_fields(1) Q109_landing)

lemma wf_Q109: "wf Q109" and pinned_Q109: "pinned Q109"
  using reachable_inv[OF reachable_Q109] by simp_all

lemma Q109_loop: "loop R1 1760 0 Q109 = Inr Q110"
  by (simp add: Q110_def loop_afterFrame[OF wf_Q109 Q109_fields(1)])

lemma reachable_Q110: "reachable R1 Q110"
  by (rule reachable.step[OF reachable_Q109, of "Frame 1760 0"]) (simp_all add: Q109_loop)

lemma Q110_refs: "refs_ok (Q110\<lparr> lastTime := 1776 \<rparr>)"
  by (simp add: refs_ok_def Q110_fields)

lemma Q110_store:
  "store (update_move 0 (Q110\<lparr> lastTime := 1776 \<rparr>)) =
     [\<lparr> plat_x = 300, plat_y = 702, plat_width = 200, plat_height = 20,
        plat_color = NEON_MAGENTA, plat_vx = 0, passed = False, landedOn = False \<rparr>,
      \<lparr> plat_x = 65919 / 640, plat_y = 702, plat_width = 130, plat_height = 20,
        plat_color = NEON_LIME, plat_vx = - (7 / 2), passed = False, landedOn = True \<rparr>,
      \<lparr> plat_x = 333129 / 1280, plat_y = 1129 / 2, plat_width = 130, plat_height = 20,
        plat_color = NEON_LIME, plat_vx = - (7 / 2), passed = False, landedOn = True \<rparr>,
      \<lparr> plat_x = 9247 / 40, plat_y = 829 / 2, plat_width = 130, plat_height = 20,
        plat_color = NEON_LIME, plat_vx = 7 / 2, passed = False, landedOn = False \<rparr>,
      \<lparr> plat_x = 1309 / 20, plat_y = 529 / 2, plat_width = 130, plat_height = 20,
        plat_color = NEON_LIME, plat_vx = 7 / 2, passed = False, landedOn = False \<rparr>,
      \<lparr> plat_x = 1309 / 20, plat_y = 229 / 2, plat_width = 130, plat_height = 20,
        plat_color = NEON_LIME, plat_vx = 7 / 2, passed = False, landedOn = False \<rparr>,
      \<lparr> plat_x = 758 / 5, plat_y = - (71 / 2), plat_width = 130, plat_height = 20,
        plat_color = NEON_LIME, plat_vx = - (7 / 2), passed = False, landedOn = False \<rparr>,
      \<lparr> plat_x = 6469 / 20, plat_y = - (371 / 2), plat_width = 130, plat_height = 20,
        plat_color = NEON_LIME, plat_vx = - (7 / 2), passed = False, landedOn = False \<rparr>]"
  by (simp add: update_move_eq[OF Q110_refs] Q110_fields advance_def speedMultiplier_def Let_def)

lemma Q110_player:
  "ply_x (player (update_move 0 (Q110\<lparr> lastTime := 1776 \<rparr>))) = 400"
  "ply_y (player (update_move 0 (Q110\<lparr> lastTime := 1776 \<rparr>))) = 709 / 2"
  "ply_vy (player (update_move 0 (Q110\<lparr> lastTime := 1776 \<rparr>))) = - (11 / 2)"
  "ply_width (player (update_move 0 (Q110\<lparr> lastTime := 1776 \<rparr>))) = 40"
  "ply_height (player (update_move 0 (Q110\<lparr> lastTime := 1776 \<rparr>))) = 40"
  "ply_color (player (update_move 0 (Q110\<lparr> lastTime := 1776 \<rparr>))) = NEON_LIME"
  "jumps (player (update_move 0 (Q110\<lparr> lastTime := 1776 \<rparr>))) = 1"
  "currentPlatform (player (update_move 0 (Q110\<lparr> lastTime := 1776 \<rparr>))) = None"
  unfolding update_move_player_eq[OF Q110_refs] Q110_store
  by (simp_all add: Q110_fields Player_physics_def carry_def speedMultiplier_def Let_def config)

lemmas Q110_move = Q110_store Q110_player update_move_fields[OF Q110_refs] Q110_fields

lemma Q110_scroll:
  "scrolls (update_move 0 (Q110\<lparr> lastTime := 1776 \<rparr>))"
  "scrollDiff (update_move 0 (Q110\<lparr> lastTime := 1776 \<rparr>)) = 11 / 2"
  "\<not> recycles (update_move 0 (Q110\<lparr> lastTime := 1776 \<rparr>))"
  "refs_ok (update_move 0 (Q110\<lparr> lastTime := 1776 \<rparr>))"
  "platforms (update_move 0 (Q110\<lparr> lastTime := 1776 \<rparr>)) \<noteq> []"
  by (simp_all add: scrolls_def scrollDiff_def recycles_def refs_ok_def Q110_move)

lemma Q110_landing:
  "landingPlatform (preCollision R1 1776 0 Q110) = None"
  by (simp add: landingPlatform_def preCollision_def afterScroll_fields Q110_scroll Q110_move)

lemma Q111_eq:
  "Q111 = update_cosmetics (update_fall R1 (preCollision R1 1776 0 Q110))"
  using Q110_landing
  by (simp add: Q111_def afterFrame_def update_collision_eq)

lemma Q111_fields:
  "state Q111 = Playing"
  "score Q111 = 2"
  "perfectStreak Q111 = 2"
  "isFever Q111 = False"
  "viewportWidth Q111 = 800"
  "viewportHeight Q111 = 600"
  "platforms Q111 = [2, 3, 4, 5, 6, 7]"
  "notifications Q111 = [ScoreUpdate 0, ComboChange 0, FeverChange False, GameStateChange Playing, ScoreUpdate 1, ComboChange 1, ScoreUpdate 2, ComboChange 2]"
  "store Q111 =
     [\<lparr> plat_x = 300, plat_y = 702, plat_width = 200, plat_height = 20,
        plat_color = NEON_MAGENTA, plat_vx = 0, passed = False, landedOn = False \<rparr>,
      \<lparr> plat_x = 65919 / 640, plat_y = 702, plat_width = 130, plat_height = 20,
        plat_color = NEON_LIME, plat_vx = - (7 / 2), passed = False, landedOn = True \<rparr>,
      \<lparr> plat_x = 333129 / 1280, plat_y = 570, plat_width = 130, plat_height = 20,
        plat_color = NEON_LIME, plat_vx = - (7 / 2), passed = False, landedOn = True \<rparr>,
      \<lparr> plat_x = 9247 / 40, plat_y = 420, plat_width = 130, plat_height = 20,
        plat_color = NEON_LIME, plat_vx = 7 / 2, passed = False, landedOn = False \<rparr>,
      \<lparr> plat_x = 1309 / 20, plat_y = 270, plat_width = 130, plat_height = 20,
        plat_color = NEON_LIME, plat_vx = 7 / 2, passed = False, landedOn = False \<rparr>,
      \<lparr> plat_x = 1309 / 20, plat_y = 120, plat_width = 130, plat_height = 20,
        plat_color = NEON_LIME, plat_vx = 7 / 2, passed = False, landedOn = False \<rparr>,
      \<lparr> plat_x = 758 / 5, plat_y = - 30, plat_width = 130, plat_height = 20,
        plat_color = NEON_LIME, plat_vx = - (7 / 2), passed = False, landedOn = False \<rparr>,
      \<lparr> plat_x = 6469 / 20, plat_y = - 180, plat_width = 130, plat_height = 20,
        plat_color = NEON_LIME, plat_vx = - (7 / 2), passed = False, landedOn = False \<rparr>]"
  "ply_x (player Q111) = 400"
  "ply_y (player Q111) = 360"
  "ply_vy (player Q111) = - (11 / 2)"
  "ply_width (player Q111) = 40"
  "ply_height (player Q111) = 40"
  "ply_color (player Q111) = NEON_LIME"
  "jumps (player Q111) = 1"
  "currentPlatform (player Q111) = None"
  "rix Q111 = 200"
  unfolding Q111_eq tail_fields update_fall_rix preCollision_def
    afterScroll_store_list[OF Q110_scroll(4,5)]
  by (simp_all add: afterScroll_fields afterScroll_rix Q110_scroll Q110_move spawned_R1 config)

lemma Q110_first: "firstLanding R1 (Frame 1776 0) Q110 = None"
  by (simp add: Q110_fields(1) Q110_landing)

lemma wf_Q110: "wf Q110" and pinned_Q110: "pinned Q110"
  using reachable_inv[OF reachable_Q110] by simp_all

lemma Q110_loop: "loop R1 1776 0 Q110 = Inr Q111"
  by (simp add: Q111_def loop_afterFrame[OF wf_Q110 Q110_fields(1)])

lemma reachable_Q111: "reachable R1 Q111"
  by (rule reachable.step[OF reachable_Q110, of "Frame 1776 0"]) (simp_all add: Q110_loop)

lemma Q111_refs: "refs_ok (Q111\<lparr> lastTime := 1792 \<rparr>)"
  by (simp add: refs_ok_def Q111_fields)

lemma Q111_store:
  "store (update_move 0 (Q111\<lparr> lastTime := 1792 \<rparr>)) =
     [\<lparr> plat_x = 300, plat_y = 702, plat_width = 200, plat_height = 20,
        plat_color = NEON_MAGENTA, plat_vx = 0, passed = False, landedOn = False \<rparr>,
      \<lparr> plat_x = 65919 / 640, plat_y = 702, plat_width = 130, plat_height = 20,
        plat_color = NEON_LIME, plat_vx = - (7 / 2), passed = False, landedOn = True \<rparr>,
      \<lparr> plat_x = 328201 / 1280, plat_y = 570, plat_width = 130, plat_height = 20,
        plat_color = NEON_LIME, plat_vx = - (7 / 2), passed = False, landedOn = True \<rparr>,
      \<lparr> plat_x = 9401 / 40, plat_y = 420, plat_width = 130, plat_height = 20,
        plat_color = NEON_LIME, plat_vx = 7 / 2, passed = False, landedOn = False \<rparr>,
      \<lparr> plat_x = 693 / 10, plat_y = 270, plat_width = 130, plat_height = 20,
        plat_color = NEON_LIME, plat_vx = 7 / 2, passed = False, landedOn = False \<rparr>,
      \<lparr> plat_x = 693 / 10, plat_y = 120, plat_width = 130, plat_height = 20,
        plat_color = NEON_LIME, plat_vx = 7 / 2, passed = False, landedOn = False \<rparr>,
      \<lparr> plat_x = 591 / 4, plat_y = - 30, plat_width = 130, plat_height = 20,
        plat_color = NEON_LIME, plat_vx = - (7 / 2), passed = False, landedOn = False \<rparr>,
      \<lparr> plat_x = 1598 / 5, plat_y = - 180, plat_width = 130, plat_height = 20,
        plat_color = NEON_LIME, plat_vx = - (7 / 2), passed = False, landedOn = False \<rparr>]"
  by (simp add: update_move_eq[OF Q111_refs] Q111_fields advance_def speedMultiplier_def Let_def)

lemma Q111_player:
  "ply_x (player (update_move 0 (Q111\<lparr> lastTime := 1792 \<rparr>))) = 400"
  "ply_y (player (update_move 0 (Q111\<lparr> lastTime := 1792 \<rparr>))) = 355"
  "ply_vy (player (update_move 0 (Q111\<lparr> lastTime := 1792 \<rparr>))) = - 5"
  "ply_width (player (update_move 0 (Q111\<lparr> lastTime := 1792 \<rparr>))) = 40"
  "ply_height (player (update_move 0 (Q111\<lparr> lastTime := 1792 \<rparr>))) = 40"
  "ply_color (player (update_move 0 (Q111\<lparr> lastTime := 1792 \<rparr>))) = NEON_LIME"
  "jumps (player (update_move 0 (Q111\<lparr> lastTime := 1792 \<rparr>))) = 1"
  "currentPlatform (player (update_move 0 (Q111\<lparr> lastTime := 1792 \<rparr>))) = None"
  unfolding update_move_player_eq[OF Q111_refs] Q111_store
  by (simp_all add: Q111_fields Player_physics_def carry_def speedMultiplier_def Let_def config)

lemmas Q111_move = Q111_store Q111_player update_move_fields[OF Q111_refs] Q111_fields

lemma Q111_scroll:
  "scrolls (update_move 0 (Q111\<lparr> lastTime := 1792 \<rparr>))"
  "scrollDiff (update_move 0 (Q111\<lparr> lastTime := 1792 \<rparr>)) = 5"
  "\<not> recycles (update_move 0 (Q111\<lparr> lastTime := 1792 \<rparr>))"
  "refs_ok (update_move 0 (Q111\<lparr> lastTime := 1792 \<rparr>))"
  "platforms (update_move 0 (Q111\<lparr> lastTime := 1792 \<rparr>)) \<noteq> []"
  by (simp_all add: scrolls_def scrollDiff_def recycles_def refs_ok_def Q111_move)

lemma Q111_landing:
  "landingPlatform (preCollision R1 1792 0 Q111) = None"
  by (simp add: landingPlatform_def preCollision_def afterScroll_fields Q111_scroll Q111_move)

lemma Q112_eq:
  "Q112 = update_cosmetics (update_fall R1 (preCollision R1 1792 0 Q111))"
  using Q111_landing
  by (simp add: Q112_def afterFrame_def update_collision_eq)

lemma Q112_fields:
  "state Q112 = Playing"
  "score Q112 = 2"
  "perfectStreak Q112 = 2"
  "isFever Q112 = False"
  "viewportWidth Q112 = 800"
  "viewportHeight Q112 = 600"
  "platforms Q112 = [2, 3, 4, 5, 6, 7]"
  "notifications Q112 = [ScoreUpdate 0, ComboChange 0, FeverChange False, GameStateChange Playing, ScoreUpdate 1, ComboChange 1, ScoreUpdate 2, ComboChange 2]"
  "store Q112 =
     [\<lparr> plat_x = 300, plat_y = 702, plat_width = 200, plat_height = 20,
        plat_color = NEON_MAGENTA, plat_vx = 0, passed = False, landedOn = False \<rparr>,
      \<lparr> plat_x = 65919 / 640, plat_y = 702, plat_width = 130, plat_height = 20,
        plat_color = NEON_LIME, plat_vx = - (7 / 2), passed = False, landedOn = True \<rparr>,
      \<lparr> plat_x = 328201 / 1280, plat_y = 575, plat_width = 130, plat_height = 20,
        plat_color = NEON_LIME, plat_vx = - (7 / 2), passed = False, landedOn = True \<rparr>,
      \<lparr> plat_x = 9401 / 40, plat_y = 425, plat_width = 130, plat_height = 20,
        plat_color = NEON_LIME, plat_vx = 7 / 2, passed = False, landedOn = False \<rparr>,
      \<lparr> plat_x = 693 / 10, plat_y = 275, plat_width = 130, plat_height = 20,
        plat_color = NEON_LIME, plat_vx = 7 / 2, passed = False, landedOn = False \<rparr>,
      \<lparr> plat_x = 693 / 10, plat_y = 125, plat_width = 130, plat_height = 20,
        plat_color = NEON_LIME, plat_vx = 7 / 2, passed = False, landedOn = False \<rparr>,
      \<lparr> plat_x = 591 / 4, plat_y = - 25, plat_width = 130, plat_height = 20,
        plat_color = NEON_LIME, plat_vx = - (7 / 2), passed = False, landedOn = False \<rparr>,
      \<lparr> plat_x = 1598 / 5, plat_y = - 175, plat_width = 130, plat_height = 20,
        plat_color = NEON_LIME, plat_vx = - (7 / 2), passed = False, landedOn = False \<rparr>]"
  "ply_x (player Q112) = 400"
  "ply_y (player Q112) = 360"
  "ply_vy (player Q112) = - 5"
  "ply_width (player Q112) = 40"
  "ply_height (player Q112) = 40"
  "ply_color (player Q112) = NEON_LIME"
  "jumps (player Q112) = 1"
  "currentPlatform (player Q112) = None"
  "rix Q112 = 200"
  unfolding Q112_eq tail_fields update_fall_rix preCollision_def
    afterScroll_store_list[OF Q111_scroll(4,5)]
  by (simp_all add: afterScroll_fields afterScroll_rix Q111_scroll Q111_move spawned_R1 config)

lemma Q111_first: "firstLanding R1 (Frame 1792 0) Q111 = None"
  by (simp add: Q111_fields(1) Q111_landing)

lemma wf_Q111: "wf Q111" and pinned_Q111: "pinned Q111"
  using reachable_inv[OF reachable_Q111] by simp_all

lemma Q111_loop: "loop R1 1792 0 Q111 = Inr Q112"
  by (simp add: Q112_def loop_afterFrame[OF wf_Q111 Q111_fields(1)])

lemma reachable_Q112: "reachable R1 Q112"
  by (rule reachable.step[OF reachable_Q111, of "Frame 1792 0"]) (simp_all add: Q111_loop)

lemma Q112_refs: "refs_ok (Q112\<lparr> lastTime := 1808 \<rparr>)"
  by (simp add: refs_ok_def Q112_fields)

lemma Q112_store:
  "store (update_move 0 (Q112\<lparr> lastTime := 1808 \<rparr>)) =
     [\<lparr> plat_x = 300, plat_y = 702, plat_width = 200, plat_height = 20,
        plat_color = NEON_MAGENTA, plat_vx = 0, passed = False, landedOn = False \<rparr>,
      \<lparr> plat_x = 65919 / 640, plat_y = 702, plat_width = 130, plat_height = 20,
        plat_color = NEON_LIME, plat_vx = - (7 / 2), passed = False, landedOn = True \<rparr>,
      \<lparr> plat_x = 323273 / 1280, plat_y = 575, plat_width = 130, plat_height = 20,
        plat_color = NEON_LIME, plat_vx = - (7 / 2), passed = False, landedOn = True \<rparr>,
      \<lparr> plat_x = 1911 / 8, plat_y = 425, plat_width = 130, plat_height = 20,
        plat_color = NEON_LIME, plat_vx = 7 / 2, passed = False, landedOn = False \<rparr>,
      \<lparr> plat_x = 1463 / 20, plat_y = 275, plat_width = 130, plat_height = 20,
        plat_color = NEON_LIME, plat_vx = 7 / 2, passed = False, landedOn = False \<rparr>,
      \<lparr> plat_x = 1463 / 20, plat_y = 125, plat_width = 130, plat_height = 20,
        plat_color = NEON_LIME, plat_vx = 7 / 2, passed = False, landedOn = False \<rparr>,
      \<lparr> plat_x = 1439 / 10, plat_y = - 25, plat_width = 130, plat_height = 20,
        plat_color = NEON_LIME, plat_vx = - (7 / 2), passed = False, landedOn = False \<rparr>,
      \<lparr> plat_x = 1263 / 4, plat_y = - 175, plat_width = 130, plat_height = 20,
        plat_color = NEON_LIME, plat_vx = - (7 / 2), passed = False, landedOn = False \<rparr>]"
  by (simp add: update_move_eq[OF Q112_refs] Q112_fields advance_def speedMultiplier_def Let_def)

lemma Q112_player:
  "ply_x (player (update_move 0 (Q112\<lparr> lastTime := 1808 \<rparr>))) = 400"
  "ply_y (player (update_move 0 (Q112\<lparr> lastTime := 1808 \<rparr>))) = 711 / 2"
  "ply_vy (player (update_move 0 (Q112\<lparr> lastTime := 1808 \<rparr>))) = - (9 / 2)"
  "ply_width (player (update_move 0 (Q112\<lparr> lastTime := 1808 \<rparr>))) = 40"
  "ply_height (player (update_move 0 (Q112\<lparr> lastTime := 1808 \<rparr>))) = 40"
  "ply_color (player (update_move 0 (Q112\<lparr> lastTime := 1808 \<rparr>))) = NEON_LIME"
  "jumps (player (update_move 0 (Q112\<lparr> lastTime := 1808 \<rparr>))) = 1"
  "currentPlatform (player (update_move 0 (Q112\<lparr> lastTime := 1808 \<rparr>))) = None"
  unfolding update_move_player_eq[OF Q112_refs] Q112_store
  by (simp_all add: Q112_fields Player_physics_def carry_def speedMultiplier_def Let_def config)

lemmas Q112_move = Q112_store Q112_player update_move_fields[OF Q112_refs] Q112_fields

lemma Q112_scroll:
  "scrolls (update_move 0 (Q112\<lparr> lastTime := 1808 \<rparr>))"
  "scrollDiff (update_move 0 (Q112\<lparr> lastTime := 1808 \<rparr>)) = 9 / 2"
  "\<not> recycles (update_move 0 (Q112\<lparr> lastTime := 1808 \<rparr>))"
  "refs_ok (update_move 0 (Q112\<lparr> lastTime := 1808 \<rparr>))"
  "platforms (update_move 0 (Q112\<lparr> lastTime := 1808 \<rparr>)) \<noteq> []"
  by (simp_all add: scrolls_def scrollDiff_def recycles_def refs_ok_def Q112_move)

lemma Q112_landing:
  "landingPlatform (preCollision R1 1808 0 Q112) = None"
  by (simp add: landingPlatform_def preCollision_def afterScroll_fields Q112_scroll Q112_move)

lemma Q113_eq:
  "Q113 = update_cosmetics (update_fall R1 (preCollision R1 1808 0 Q112))"
  using Q112_landing
  by (simp add: Q113_def afterFrame_def update_collision_eq)

lemma Q113_fields:
  "state Q113 = Playing"
  "score Q113 = 2"
  "perfectStreak Q113 = 2"
  "isFever Q113 = False"
  "viewportWidth Q113 = 800"
  "viewportHeight Q113 = 600"
  "platforms Q113 = [2, 3, 4, 5, 6, 7]"
  "notifications Q113 = [ScoreUpdate 0, ComboChange 0, FeverChange False, GameStateChange Playing, ScoreUpdate 1, ComboChange 1, ScoreUpdate 2, ComboChange 2]"
  "store Q113 =
     [\<lparr> plat_x = 300, plat_y = 702, plat_width = 200, plat_height = 20,
        plat_color = NEON_MAGENTA, plat_vx = 0, passed = False, landedOn = False \<rparr>,
      \<lparr> plat_x = 65919 / 640, plat_y = 702, plat_width = 130, plat_height = 20,
        plat_color = NEON_LIME, plat_vx = - (7 / 2), passed = False, landedOn = True \<rparr>,
      \<lparr> plat_x = 323273 / 1280, plat_y = 1159 / 2, plat_width = 130, plat_height = 20,
        plat_color = NEON_LIME, plat_vx = - (7 / 2), passed = False, landedOn = True \<rparr>,
      \<lparr> plat_x = 1911 / 8, plat_y = 859 / 2, plat_width = 130, plat_height = 20,
        plat_color = NEON_LIME, plat_vx = 7 / 2, passed = False, landedOn = False \<rparr>,
      \<lparr> plat_x = 1463 / 20, plat_y = 559 / 2, plat_width = 130, plat_height = 20,
        plat_color = NEON_LIME, plat_vx = 7 / 2, passed = False, landedOn = False \<rparr>,
      \<lparr> plat_x = 1463 / 20, plat_y = 259 / 2, plat_width = 130, plat_height = 20,
        plat_color = NEON_LIME, plat_vx = 7 / 2, passed = False, landedOn = False \<rparr>,
      \<lparr> plat_x = 1439 / 10, plat_y = - (41 / 2), plat_width = 130, plat_height = 20,
        plat_color = NEON_LIME, plat_vx = - (7 / 2), passed = False, landedOn = False \<rparr>,
      \<lparr> plat_x = 1263 / 4, plat_y = - (341 / 2), plat_width = 130, plat_height = 20,
        plat_color = NEON_LIME, plat_vx = - (7 / 2), passed = False, landedOn = False \<rparr>]"
  "ply_x (player Q113) = 400"
  "ply_y (player Q113) = 360"
  "ply_vy (player Q113) = - (9 / 2)"
  "ply_width (player Q113) = 40"
  "ply_height (player Q113) = 40"
  "ply_color (player Q113) = NEON_LIME"
  "jumps (player Q113) = 1"
  "currentPlatform (player Q113) = None"
  "rix Q113 = 200"
  unfolding Q113_eq tail_fields update_fall_rix preCollision_def
    afterScroll_store_list[OF Q112_scroll(4,5)]
  by (simp_all add: afterScroll_fields afterScroll_rix Q112_scroll Q112_move spawned_R1 config)

lemma Q112_first: "firstLanding R1 (Frame 1808 0) Q112 = None"
  by (simp add: Q112_fields(1) Q112_landing)

lemma wf_Q112: "wf Q112" and pinned_Q112: "pinned Q112"
  using reachable_inv[OF reachable_Q112] by simp_all

lemma Q112_loop: "loop R1 1808 0 Q112 = Inr Q113"
  by (simp add: Q113_def loop_afterFrame[OF wf_Q112 Q112_fields(1)])

lemma reachable_Q113: "reachable R1 Q113"
  by (rule reachable.step[OF reachable_Q112, of "Frame 1808 0"]) (simp_all add: Q112_loop)

lemma Q113_refs: "refs_ok (Q113\<lparr> lastTime := 1824 \<rparr>)"
  by (simp add: refs_ok_def Q113_fields)

lemma Q113_store:
  "store (update_move 0 (Q113\<lparr> lastTime := 1824 \<rparr>)) =
     [\<lparr> plat_x = 300, plat_y = 702, plat_width = 200, plat_height = 20,
        plat_color = NEON_MAGENTA, plat_vx = 0, passed = False, landedOn = False \<rparr>,
      \<lparr> plat_x = 65919 / 640, plat_y = 702, plat_width = 130, plat_height = 20,
        plat_color = NEON_LIME, plat_vx = - (7 / 2), passed = False, landedOn = True \<rparr>,
      \<lparr> plat_x = 63669 / 256, plat_y = 1159 / 2, plat_width = 130, plat_height = 20,
        plat_color = NEON_LIME, plat_vx = - (7 / 2), passed = False, landedOn = True \<rparr>,
      \<lparr> plat_x = 9709 / 40, plat_y = 859 / 2, plat_width = 130, plat_height = 20,
        plat_color = NEON_LIME, plat_vx = 7 / 2, passed = False, landedOn = False \<rparr>,
      \<lparr> plat_x = 77, plat_y = 559 / 2, plat_width = 130, plat_height = 20,
        plat_color = NEON_LIME, plat_vx = 7 / 2, passed = False, landedOn = False \<rparr>,
      \<lparr> plat_x = 77, plat_y = 259 / 2, plat_width = 130, plat_height = 20,
        plat_color = NEON_LIME, plat_vx = 7 / 2, passed = False, landedOn = False \<rparr>,
      \<lparr> plat_x = 2801 / 20, plat_y = - (41 / 2), plat_width = 130, plat_height = 20,
        plat_color = NEON_LIME, plat_vx = - (7 / 2), passed = False, landedOn = False \<rparr>,
      \<lparr> plat_x = 3119 / 10, plat_y = - (341 / 2), plat_width = 130, plat_height = 20,
        plat_color = NEON_LIME, plat_vx = - (7 / 2), passed = False, landedOn = False \<rparr>]"
  by (simp add: update_move_eq[OF Q113_refs] Q113_fields advance_def speedMultiplier_def Let_def)

lemma Q113_player:
  "ply_x (player (update_move 0 (Q113\<lparr> lastTime := 1824 \<rparr>))) = 400"
  "ply_y (player (update_move 0 (Q113\<lparr> lastTime := 1824 \<rparr>))) = 356"
  "ply_vy (player (update_move 0 (Q113\<lparr> lastTime := 1824 \<rparr>))) = - 4"
  "ply_width (player (update_move 0 (Q113\<lparr> lastTime := 1824 \<rparr>))) = 40"
  "ply_height (player (update_move 0 (Q113\<lparr> lastTime := 1824 \<rparr>))) = 40"
  "ply_color (player (update_move 0 (Q113\<lparr> lastTime := 1824 \<rparr>))) = NEON_LIME"
  "jumps (player (update_move 0 (Q113\<lparr> lastTime := 1824 \<rparr>))) = 1"
  "currentPlatform (player (update_move 0 (Q113\<lparr> lastTime := 1824 \<rparr>))) = None"
  unfolding update_move_player_eq[OF Q113_refs] Q113_store
  by (simp_all add: Q113_fields Player_physics_def carry_def speedMultiplier_def Let_def config)

lemmas Q113_move = Q113_store Q113_player update_move_fields[OF Q113_refs] Q113_fields

lemma Q113_scroll:
  "scrolls (update_move 0 (Q113\<lparr> lastTime := 1824 \<rparr>))"
  "scrollDiff (update_move 0 (Q113\<lparr> lastTime := 1824 \<rparr>)) = 4"
  "\<not> recycles (update_move 0 (Q113\<lparr> lastTime := 1824 \<rparr>))"
  "refs_ok (update_move 0 (Q113\<lparr> lastTime := 1824 \<rparr>))"
  "platforms (update_move 0 (Q113\<lparr> lastTime := 1824 \<rparr>)) \<noteq> []"
  by (simp_all add: scrolls_def scrollDiff_def recycles_def refs_ok_def Q113_move)

lemma Q113_landing:
  "landingPlatform (preCollision R1 1824 0 Q113) = None"
  by (simp add: landingPlatform_def preCollision_def afterScroll_fields Q113_scroll Q113_move)

lemma Q114_eq:
  "Q114 = update_cosmetics (update_fall R1 (preCollision R1 1824 0 Q113))"
  using Q113_landing
  by (simp add: Q114_def afterFrame_def update_collision_eq)

lemma Q114_fields:
  "state Q114 = Playing"
  "score Q114 = 2"
  "perfectStreak Q114 = 2"
  "isFever Q114 = False"
  "viewportWidth Q114 = 800"
  "viewportHeight Q114 = 600"
  "platforms Q114 = [2, 3, 4, 5, 6, 7]"
  "notifications Q114 = [ScoreUpdate 0, ComboChange 0, FeverChange False, GameStateChange Playing, ScoreUpdate 1, ComboChange 1, ScoreUpdate 2, ComboChange 2]"
  "store Q114 =
     [\<lparr> plat_x = 300, plat_y = 702, plat_width = 200, plat_height = 20,
        plat_color = NEON_MAGENTA, plat_vx = 0, passed = False, landedOn = False \<rparr>,
      \<lparr> plat_x = 65919 / 640, plat_y = 702, plat_width = 130, plat_height = 20,
        plat_color = NEON_LIME, plat_vx = - (7 / 2), passed = False, landedOn = True \<rparr>,
      \<lparr> plat_x = 63669 / 256, plat_y = 1167 / 2, plat_width = 130, plat_height = 20,
        plat_color = NEON_LIME, plat_vx = - (7 / 2), passed = False, landedOn = True \<rparr>,
      \<lparr> plat_x = 9709 / 40, plat_y = 867 / 2, plat_width = 130, plat_height = 20,
        plat_color = NEON_LIME, plat_vx = 7 / 2, passed = False, landedOn = False \<rparr>,
      \<lparr> plat_x = 77, plat_y = 567 / 2, plat_width = 130, plat_height = 20,
        plat_color = NEON_LIME, plat_vx = 7 / 2, passed = False, landedOn = False \<rparr>,
      \<lparr> plat_x = 77, plat_y = 267 / 2, plat_width = 130, plat_height = 20,
        plat_color = NEON_LIME, plat_vx = 7 / 2, passed = False, landedOn = False \<rparr>,
      \<lparr> plat_x = 2801 / 20, plat_y = - (33 / 2), plat_width = 130, plat_height = 20,
        plat_color = NEON_LIME, plat_vx = - (7 / 2), passed = False, landedOn = False \<rparr>,
      \<lparr> plat_x = 3119 / 10, plat_y = - (333 / 2), plat_width = 130, plat_height = 20,
        plat_color = NEON_LIME, plat_vx = - (7 / 2), passed = False, landedOn = False \<rparr>]"
  "ply_x (player Q114) = 400"
  "ply_y (player Q114) = 360"
  "ply_vy (player Q114) = - 4"
  "ply_width (player Q114) = 40"
  "ply_height (player Q114) = 40"
  "ply_color (player Q114) = NEON_LIME"
  "jumps (player Q114) = 1"
  "currentPlatform (player Q114) = None"
  "rix Q114 = 200"
  unfolding Q114_eq tail_fields update_fall_rix preCollision_def
    afterScroll_store_list[OF Q113_scroll(4,5)]
  by (simp_all add: afterScroll_fields afterScroll_rix Q113_scroll Q113_move spawned_R1 config)

lemma Q113_first: "firstLanding R1 (Frame 1824 0) Q113 = None"
  by (simp add: Q113_fields(1) Q113_landing)

lemma wf_Q113: "wf Q113" and pinned_Q113: "pinned Q113"
  using reachable_inv[OF reachable_Q113] by simp_all

lemma Q113_loop: "loop R1 1824 0 Q113 = Inr Q114"
  by (simp add: Q114_def loop_afterFrame[OF wf_Q113 Q113_fields(1)])

lemma reachable_Q114: "reachable R1 Q114"
  by (rule reachable.step[OF reachable_Q113, of "Frame 1824 0"]) (simp_all add: Q113_loop)

lemma Q114_refs: "refs_ok (Q114\<lparr> lastTime := 1840 \<rparr>)"
  by (simp add: refs_ok_def Q114_fields)

lemma Q114_store:
  "store (update_move 0 (Q114\<lparr> lastTime := 1840 \<rparr>)) =
     [\<lparr> plat_x = 300, plat_y = 702, plat_width = 200, plat_height = 20,
        plat_color = NEON_MAGENTA, plat_vx = 0, passed = False, landedOn = False \<rparr>,
      \<lparr> plat_x = 65919 / 640, plat_y = 702, plat_width = 130, plat_height = 20,
        plat_color = NEON_LIME, plat_vx = - (7 / 2), passed = False, landedOn = True \<rparr>,
      \<lparr> plat_x = 313417 / 1280, plat_y = 1167 / 2, plat_width = 130, plat_height = 20,
        plat_color = NEON_LIME, plat_vx = - (7 / 2), passed = False, landedOn = True \<rparr>,
      \<lparr> plat_x = 9863 / 40, plat_y = 867 / 2, plat_width = 130, plat_height = 20,
        plat_color = NEON_LIME, plat_vx = 7 / 2, passed = False, landedOn = False \<rparr>,
      \<lparr> plat_x = 1617 / 20, plat_y = 567 / 2, plat_width = 130, plat_height = 20,
        plat_color = NEON_LIME, plat_vx = 7 / 2, passed = False, landedOn = False \<rparr>,
      \<lparr> plat_x = 1617 / 20, plat_y = 267 / 2, plat_width = 130, plat_height = 20,
        plat_color = NEON_LIME, plat_vx = 7 / 2, passed = False, landedOn = False \<rparr>,
      \<lparr> plat_x = 681 / 5, plat_y = - (33 / 2), plat_width = 130, plat_height = 20,
        plat_color = NEON_LIME, plat_vx = - (7 / 2), passed = False, landedOn = False \<rparr>,
      \<lparr> plat_x = 6161 / 20, plat_y = - (333 / 2), plat_width = 130, plat_height = 20,
        plat_color = NEON_LIME, plat_vx = - (7 / 2), passed = False, landedOn = False \<rparr>]"
  by (simp add: update_move_eq[OF Q114_refs] Q114_fields advance_def speedMultiplier_def Let_def)

lemma Q114_player:
  "ply_x (player (update_move 0 (Q114\<lparr> lastTime := 1840 \<rparr>))) = 400"
  "ply_y (player (update_move 0 (Q114\<lparr> lastTime := 1840 \<rparr>))) = 713 / 2"
  "ply_vy (player (update_move 0 (Q114\<lparr> lastTime := 1840 \<rparr>))) = - (7 / 2)"
  "ply_width (player (update_move 0 (Q114\<lparr> lastTime := 1840 \<rparr>))) = 40"
  "ply_height (player (update_move 0 (Q114\<lparr> lastTime := 1840 \<rparr>))) = 40"
  "ply_color (player (update_move 0 (Q114\<lparr> lastTime := 1840 \<rparr>))) = NEON_LIME"
  "jumps (player (update_move 0 (Q114\<lparr> lastTime := 1840 \<rparr>))) = 1"
  "currentPlatform (player (update_move 0 (Q114\<lparr> lastTime := 1840 \<rparr>))) = None"
  unfolding update_move_player_eq[OF Q114_refs] Q114_store
  by (simp_all add: Q114_fields Player_physics_def carry_def speedMultiplier_def Let_def config)

lemmas Q114_move = Q114_store Q114_player update_move_fields[OF Q114_refs] Q114_fields

lemma Q114_scroll:
  "scrolls (update_move 0 (Q114\<lparr> lastTime := 1840 \<rparr>))"
  "scrollDiff (update_move 0 (Q114\<lparr> lastTime := 1840 \<rparr>)) = 7 / 2"
  "\<not> recycles (update_move 0 (Q114\<lparr> lastTime := 1840 \<rparr>))"
  "refs_ok (update_move 0 (Q114\<lparr> lastTime := 1840 \<rparr>))"
  "platforms (update_move 0 (Q114\<lparr> lastTime := 1840 \<rparr>)) \<noteq> []"
  by (simp_all add: scrolls_def scrollDiff_def recycles_def refs_ok_def Q114_move)

lemma Q114_landing:
  "landingPlatform (preCollision R1 1840 0 Q114) = None"
  by (simp add: landingPlatform_def preCollision_def afterScroll_fields Q114_scroll Q114_move)

lemma Q115_eq:
  "Q115 = update_cosmetics (update_fall R1 (preCollision R1 1840 0 Q114))"
  using Q114_landing
  by (simp add: Q115_def afterFrame_def update_collision_eq)

lemma Q115_fields:
  "state Q115 = Playing"
  "score Q115 = 2"
  "perfectStreak Q115 = 2"
  "isFever Q115 = False"
  "viewportWidth Q115 = 800"
  "viewportHeight Q115 = 600"
  "platforms Q115 = [2, 3, 4, 5, 6, 7]"
  "notifications Q115 = [ScoreUpdate 0, ComboChange 0, FeverChange False, GameStateChange Playing, ScoreUpdate 1, ComboChange 1, ScoreUpdate 2, ComboChange 2]"
  "store Q115 =
     [\<lparr> plat_x = 300, plat_y = 702, plat_width = 200, plat_height = 20,
        plat_color = NEON_MAGENTA, plat_vx = 0, passed = False, landedOn = False \<rparr>,
      \<lparr> plat_x = 65919 / 640, plat_y = 702, plat_width = 130, plat_height = 20,
        plat_color = NEON_LIME, plat_vx = - (7 / 2), passed = False, landedOn = True \<rparr>,
      \<lparr> plat_x = 313417 / 1280, plat_y = 587, plat_width = 130, plat_height = 20,
        plat_color = NEON_LIME, plat_vx = - (7 / 2), passed = False, landedOn = True \<rparr>,
      \<lparr> plat_x = 9863 / 40, plat_y = 437, plat_width = 130, plat_height = 20,
        plat_color = NEON_LIME, plat_vx = 7 / 2, passed = False, landedOn = False \<rparr>,
      \<lparr> plat_x = 1617 / 20, plat_y = 287, plat_width = 130, plat_height = 20,
        plat_color = NEON_LIME, plat_vx = 7 / 2, passed = False, landedOn = False \<rparr>,
      \<lparr> plat_x = 1617 / 20, plat_y = 137, plat_width = 130, plat_height = 20,
        plat_color = NEON_LIME, plat_vx = 7 / 2, passed = False, landedOn = False \<rparr>,
      \<lparr> plat_x = 681 / 5, plat_y = - 13, plat_width = 130, plat_height = 20,
        plat_color = NEON_LIME, plat_vx = - (7 / 2), passed = False, landedOn = False \<rparr>,
      \<lparr> plat_x = 6161 / 20, plat_y = - 163, plat_width = 130, plat_height = 20,
        plat_color = NEON_LIME, plat_vx = - (7 / 2), passed = False, landedOn = False \<rparr>]"
  "ply_x (player Q115) = 400"
  "ply_y (player Q115) = 360"
  "ply_vy (player Q115) = - (7 / 2)"
  "ply_width (player Q115) = 40"
  "ply_height (player Q115) = 40"
  "ply_color (player Q115) = NEON_LIME"
  "jumps (player Q115) = 1"
  "currentPlatform (player Q115) = None"
  "rix Q115 = 200"
  unfolding Q115_eq tail_fields update_fall_rix preCollision_def
    afterScroll_store_list[OF Q114_scroll(4,5)]
  by (simp_all add: afterScroll_fields afterScroll_rix Q114_scroll Q114_move spawned_R1 config)

lemma Q114_first: "firstLanding R1 (Frame 1840 0) Q114 = None"
  by (simp add: Q114_fields(1) Q114_landing)

lemma wf_Q114: "wf Q114" and pinned_Q114: "pinned Q114"
  using reachable_inv[OF reachable_Q114] by simp_all

lemma Q114_loop: "loop R1 1840 0 Q114 = Inr Q115"
  by (simp add: Q115_def loop_afterFrame[OF wf_Q114 Q114_fields(1)])

lemma reachable_Q115: "reachable R1 Q115"
  by (rule reachable.step[OF reachable_Q114, of "Frame 1840 0"]) (simp_all add: Q114_loop)

lemma Q115_refs: "refs_ok (Q115\<lparr> lastTime := 1856 \<rparr>)"
  by (simp add: refs_ok_def Q115_fields)

lemma Q115_store:
  "store (update_move 0 (Q115\<lparr> lastTime := 1856 \<rparr>)) =
     [\<lparr> plat_x = 300, plat_y = 702, plat_width = 200, plat_height = 20,
        plat_color = NEON_MAGENTA, plat_vx = 0, passed = False, landedOn = False \<rparr>,
      \<lparr> plat_x = 65919 / 640, plat_y = 702, plat_width = 130, plat_height = 20,
        plat_color = NEON_LIME, plat_vx = - (7 / 2), passed = False, landedOn = True \<rparr>,
      \<lparr> plat_x = 308489 / 1280, plat_y = 587, plat_width = 130, plat_height = 20,
        plat_color = NEON_LIME, plat_vx = - (7 / 2), passed = False, landedOn = True \<rparr>,
      \<lparr> plat_x = 10017 / 40, plat_y = 437, plat_width = 130, plat_height = 20,
        plat_color = NEON_LIME, plat_vx = 7 / 2, passed = False, landedOn = False \<rparr>,
      \<lparr> plat_x = 847 / 10, plat_y = 287, plat_width = 130, plat_height = 20,
        plat_color = NEON_LIME, plat_vx = 7 / 2, passed = False, landedOn = False \<rparr>,
      \<lparr> plat_x = 847 / 10, plat_y = 137, plat_width = 130, plat_height = 20,
        plat_color = NEON_LIME, plat_vx = 7 / 2, passed = False, landedOn = False \<rparr>,
      \<lparr> plat_x = 2647 / 20, plat_y = - 13, plat_width = 130, plat_height = 20,
        plat_color = NEON_LIME, plat_vx = - (7 / 2), passed = False, landedOn = False \<rparr>,
      \<lparr> plat_x = 1521 / 5, plat_y = - 163, plat_width = 130, plat_height = 20,
        plat_color = NEON_LIME, plat_vx = - (7 / 2), passed = False, landedOn = False \<rparr>]"
  by (simp add: update_move_eq[OF Q115_refs] Q115_fields advance_def speedMultiplier_def Let_def)

lemma Q115_player:
  "ply_x (player (update_move 0 (Q115\<lparr> lastTime := 1856 \<rparr>))) = 400"
  "ply_y (player (update_move 0 (Q115\<lparr> lastTime := 1856 \<rparr>))) = 357"
  "ply_vy (player (update_move 0 (Q115\<lparr> lastTime := 1856 \<rparr>))) = - 3"
  "ply_width (player (update_move 0 (Q115\<lparr> lastTime := 1856 \<rparr>))) = 40"
  "ply_height (player (update_move 0 (Q115\<lparr> lastTime := 1856 \<rparr>))) = 40"
  "ply_color (player (update_move 0 (Q115\<lparr> lastTime := 1856 \<rparr>))) = NEON_LIME"
  "jumps (player (update_move 0 (Q115\<lparr> lastTime := 1856 \<rparr>))) = 1"
  "currentPlatform (player (update_move 0 (Q115\<lparr> lastTime := 1856 \<rparr>))) = None"
  unfolding update_move_player_eq[OF Q115_refs] Q115_store
  by (simp_all add: Q115_fields Player_physics_def carry_def speedMultiplier_def Let_def config)

lemmas Q115_move = Q115_store Q115_player update_move_fields[OF Q115_refs] Q115_fields

lemma Q115_scroll:
  "scrolls (update_move 0 (Q115\<lparr> lastTime := 1856 \<rparr>))"
  "scrollDiff (update_move 0 (Q115\<lparr> lastTime := 1856 \<rparr>)) = 3"
  "\<not> recycles (update_move 0 (Q115\<lparr> lastTime := 1856 \<rparr>))"
  "refs_ok (update_move 0 (Q115\<lparr> lastTime := 1856 \<rparr>))"
  "platforms (update_move 0 (Q115\<lparr> lastTime := 1856 \<rparr>)) \<noteq> []"
  by (simp_all add: scrolls_def scrollDiff_def recycles_def refs_ok_def Q115_move)

lemma Q115_landing:
  "landingPlatform (preCollision R1 1856 0 Q115) = None"
  by (simp add: landingPlatform_def preCollision_def afterScroll_fields Q115_scroll Q115_move)

lemma Q116_eq:
  "Q116 = update_cosmetics (update_fall R1 (preCollision R1 1856 0 Q115))"
  using Q115_landing
  by (simp add: Q116_def afterFrame_def update_collision_eq)

lemma Q116_fields:
  "state Q116 = Playing"
  "score Q116 = 2"
  "perfectStreak Q116 = 2"
  "isFever Q116 = False"
  "viewportWidth Q116 = 800"
  "viewportHeight Q116 = 600"
  "platforms Q116 = [2, 3, 4, 5, 6, 7]"
  "notifications Q116 = [ScoreUpdate 0, ComboChange 0, FeverChange False, GameStateChange Playing, ScoreUpdate 1, ComboChange 1, ScoreUpdate 2, ComboChange 2]"
  "store Q116 =
     [\<lparr> plat_x = 300, plat_y = 702, plat_width = 200, plat_height = 20,
        plat_color = NEON_MAGENTA, plat_vx = 0, passed = False, landedOn = False \<rparr>,
      \<lparr> plat_x = 65919 / 640, plat_y = 702, plat_width = 130, plat_height = 20,
        plat_color = NEON_LIME, plat_vx = - (7 / 2), passed = False, landedOn = True \<rparr>,
      \<lparr> plat_x = 308489 / 1280, plat_y = 590, plat_width = 130, plat_height = 20,
        plat_color = NEON_LIME, plat_vx = - (7 / 2), passed = False, landedOn = True \<rparr>,
      \<lparr> plat_x = 10017 / 40, plat_y = 440, plat_width = 130, plat_height = 20,
        plat_color = NEON_LIME, plat_vx = 7 / 2, passed = False, landedOn = False \<rparr>,
      \<lparr> plat_x = 847 / 10, plat_y = 290, plat_width = 130, plat_height = 20,
        plat_color = NEON_LIME, plat_vx = 7 / 2, passed = False, landedOn = False \<rparr>,
      \<lparr> plat_x = 847 / 10, plat_y = 140, plat_width = 130, plat_height = 20,
        plat_color = NEON_LIME, plat_vx = 7 / 2, passed = False, landedOn = False \<rparr>,
      \<lparr> plat_x = 2647 / 20, plat_y = - 10, plat_width = 130, plat_height = 20,
        plat_color = NEON_LIME, plat_vx = - (7 / 2), passed = False, landedOn = False \<rparr>,
      \<lparr> plat_x = 1521 / 5, plat_y = - 160, plat_width = 130, plat_height = 20,
        plat_color = NEON_LIME, plat_vx = - (7 / 2), passed = False, landedOn = False \<rparr>]"
  "ply_x (player Q116) = 400"
  "ply_y (player Q116) = 360"
  "ply_vy (player Q116) = - 3"
  "ply_width (player Q116) = 40"
  "ply_height (player Q116) = 40"
  "ply_color (player Q116) = NEON_LIME"
  "jumps (player Q116) = 1"
  "currentPlatform (player Q116) = None"
  "rix Q116 = 200"
  unfolding Q116_eq tail_fields update_fall_rix preCollision_def
    afterScroll_store_list[OF Q115_scroll(4,5)]
  by (simp_all add: afterScroll_fields afterScroll_rix Q115_scroll Q115_move spawned_R1 config)

lemma Q115_first: "firstLanding R1 (Frame 1856 0) Q115 = None"
  by (simp add: Q115_fields(1) Q115_landing)

lemma wf_Q115: "wf Q115" and pinned_Q115: "pinned Q115"
  using reachable_inv[OF reachable_Q115] by simp_all

lemma Q115_loop: "loop R1 1856 0 Q115 = Inr Q116"
  by (simp add: Q116_def loop_afterFrame[OF wf_Q115 Q115_fields(1)])

lemma reachable_Q116: "reachable R1 Q116"
  by (rule reachable.step[OF reachable_Q115, of "Frame 1856 0"]) (simp_all add: Q115_loop)

lemma Q116_refs: "refs_ok (Q116\<lparr> lastTime := 1872 \<rparr>)"
  by (simp add: refs_ok_def Q116_fields)

lemma Q116_store:
  "store (update_move 0 (Q116\<lparr> lastTime := 1872 \<rparr>)) =
     [\<lparr> plat_x = 300, plat_y = 702, plat_width = 200, plat_height = 20,
        plat_color = NEON_MAGENTA, plat_vx = 0, passed = False, landedOn = False \<rparr>,
      \<lparr> plat_x = 65919 / 640, plat_y = 702, plat_width = 130, plat_height = 20,
        plat_color = NEON_LIME, plat_vx = - (7 / 2), passed = False, landedOn = True \<rparr>,
      \<lparr> plat_x = 303561 / 1280, plat_y = 590, plat_width = 130, plat_height = 20,
        plat_color = NEON_LIME, plat_vx = - (7 / 2), passed = False, landedOn = True \<rparr>,
      \<lparr> plat_x = 10171 / 40, plat_y = 440, plat_width = 130, plat_height = 20,
        plat_color = NEON_LIME, plat_vx = 7 / 2, passed = False, landedOn = False \<rparr>,
      \<lparr> plat_x = 1771 / 20, plat_y = 290, plat_width = 130, plat_height = 20,
        plat_color = NEON_LIME, plat_vx = 7 / 2, passed = False, landedOn = False \<rparr>,
      \<lparr> plat_x = 1771 / 20, plat_y = 140, plat_width = 130, plat_height = 20,
        plat_color = NEON_LIME, plat_vx = 7 / 2, passed = False, landedOn = False \<rparr>,
      \<lparr> plat_x = 257 / 2, plat_y = - 10, plat_width = 130, plat_height = 20,
        plat_color = NEON_LIME, plat_vx = - (7 / 2), passed = False, landedOn = False \<rparr>,
      \<lparr> plat_x = 6007 / 20, plat_y = - 160, plat_width = 130, plat_height = 20,
        plat_color = NEON_LIME, plat_vx = - (7 / 2), passed = False, landedOn = False \<rparr>]"
  by (simp add: update_move_eq[OF Q116_refs] Q116_fields advance_def speedMultiplier_def Let_def)

lemma Q116_player:
  "ply_x (player (update_move 0 (Q116\<lparr> lastTime := 1872 \<rparr>))) = 400"
  "ply_y (player (update_move 0 (Q116\<lparr> lastTime := 1872 \<rparr>))) = 715 / 2"
  "ply_vy (player (update_move 0 (Q116\<lparr> lastTime := 1872 \<rparr>))) = - (5 / 2)"
  "ply_width (player (update_move 0 (Q116\<lparr> lastTime := 1872 \<rparr>))) = 40"
  "ply_height (player (update_move 0 (Q116\<lparr> lastTime := 1872 \<rparr>))) = 40"
  "ply_color (player (update_move 0 (Q116\<lparr> lastTime := 1872 \<rparr>))) = NEON_LIME"
  "jumps (player (update_move 0 (Q116\<lparr> lastTime := 1872 \<rparr>))) = 1"
  "currentPlatform (player (update_move 0 (Q116\<lparr> lastTime := 1872 \<rparr>))) = None"
  unfolding update_move_player_eq[OF Q116_refs] Q116_store
  by (simp_all add: Q116_fields Player_physics_def carry_def speedMultiplier_def Let_def config)

lemmas Q116_move = Q116_store Q116_player update_move_fields[OF Q116_refs] Q116_fields

lemma Q116_scroll:
  "scrolls (update_move 0 (Q116\<lparr> lastTime := 1872 \<rparr>))"
  "scrollDiff (update_move 0 (Q116\<lparr> lastTime := 1872 \<rparr>)) = 5 / 2"
  "\<not> recycles (update_move 0 (Q116\<lparr> lastTime := 1872 \<rparr>))"
  "refs_ok (update_move 0 (Q116\<lparr> lastTime := 1872 \<rparr>))"
  "platforms (update_move 0 (Q116\<lparr> lastTime := 1872 \<rparr>)) \<noteq> []"
  by (simp_all add: scrolls_def scrollDiff_def recycles_def refs_ok_def Q116_move)

lemma Q116_landing:
  "landingPlatform (preCollision R1 1872 0 Q116) = None"
  by (simp add: landingPlatform_def preCollision_def afterScroll_fields Q116_scroll Q116_move)

lemma Q117_eq:
  "Q117 = update_cosmetics (update_fall R1 (preCollision R1 1872 0 Q116))"
  using Q116_landing
  by (simp add: Q117_def afterFrame_def update_collision_eq)

lemma Q117_fields:
  "state Q117 = Playing"
  "score Q117 = 2"
  "perfectStreak Q117 = 2"
  "isFever Q117 = False"
  "viewportWidth Q117 = 800"
  "viewportHeight Q117 = 600"
  "platforms Q117 = [2, 3, 4, 5, 6, 7]"
  "notifications Q117 = [ScoreUpdate 0, ComboChange 0, FeverChange False, GameStateChange Playing, ScoreUpdate 1, ComboChange 1, ScoreUpdate 2, ComboChange 2]"
  "store Q117 =
     [\<lparr> plat_x = 300, plat_y = 702, plat_width = 200, plat_height = 20,
        plat_color = NEON_MAGENTA, plat_vx = 0, passed = False, landedOn = False \<rparr>,
      \<lparr> plat_x = 65919 / 640, plat_y = 702, plat_width = 130, plat_height = 20,
        plat_color = NEON_LIME, plat_vx = - (7 / 2), passed = False, landedOn = True \<rparr>,
      \<lparr> plat_x = 303561 / 1280, plat_y = 1185 / 2, plat_width = 130, plat_height = 20,
        plat_color = NEON_LIME, plat_vx = - (7 / 2), passed = False, landedOn = True \<rparr>,
      \<lparr> plat_x = 10171 / 40, plat_y = 885 / 2, plat_width = 130, plat_height = 20,
        plat_color = NEON_LIME, plat_vx = 7 / 2, passed = False, landedOn = False \<rparr>,
      \<lparr> plat_x = 1771 / 20, plat_y = 585 / 2, plat_width = 130, plat_height = 20,
        plat_color = NEON_LIME, plat_vx = 7 / 2, passed = False, landedOn = False \<rparr>,
      \<lparr> plat_x = 1771 / 20, plat_y = 285 / 2, plat_width = 130, plat_height = 20,
        plat_color = NEON_LIME, plat_vx = 7 / 2, passed = False, landedOn = False \<rparr>,
      \<lparr> plat_x = 257 / 2, plat_y = - (15 / 2), plat_width = 130, plat_height = 20,
        plat_color = NEON_LIME, plat_vx = - (7 / 2), passed = False, landedOn = False \<rparr>,
      \<lparr> plat_x = 6007 / 20, plat_y = - (315 / 2), plat_width = 130, plat_height = 20,
        plat_color = NEON_LIME, plat_vx = - (7 / 2), passed = False, landedOn = False \<rparr>]"
  "ply_x (player Q117) = 400"
  "ply_y (player Q117) = 360"
  "ply_vy (player Q117) = - (5 / 2)"
  "ply_width (player Q117) = 40"
  "ply_height (player Q117) = 40"
  "ply_color (player Q117) = NEON_LIME"
  "jumps (player Q117) = 1"
  "currentPlatform (player Q117) = None"
  "rix Q117 = 200"
  unfolding Q117_eq tail_fields update_fall_rix preCollision_def
    afterScroll_store_list[OF Q116_scroll(4,5)]
  by (simp_all add: afterScroll_fields afterScroll_rix Q116_scroll Q116_move spawned_R1 config)

lemma Q116_first: "firstLanding R1 (Frame 1872 0) Q116 = None"
  by (simp add: Q116_fields(1) Q116_landing)

lemma wf_Q116: "wf Q116" and pinned_Q116: "pinned Q116"
  using reachable_inv[OF reachable_Q116] by simp_all

lemma Q116_loop: "loop R1 1872 0 Q116 = Inr Q117"
  by (simp add: Q117_def loop_afterFrame[OF wf_Q116 Q116_fields(1)])

lemma reachable_Q117: "reachable R1 Q117"
  by (rule reachable.step[OF reachable_Q116, of "Frame 1872 0"]) (simp_all add: Q116_loop)

lemma Q117_refs: "refs_ok (Q117\<lparr> lastTime := 1888 \<rparr>)"
  by (simp add: refs_ok_def Q117_fields)

lemma Q117_store:
  "store (update_move 0 (Q117\<lparr> lastTime := 1888 \<rparr>)) =
     [\<lparr> plat_x = 300, plat_y = 702, plat_width = 200, plat_height = 20,
        plat_color = NEON_MAGENTA, plat_vx = 0, passed = False, landedOn = False \<rparr>,
      \<lparr> plat_x = 65919 / 640, plat_y = 702, plat_width = 130, plat_height = 20,
        plat_color = NEON_LIME, plat_vx = - (7 / 2), passed = False, landedOn = True \<rparr>,
      \<lparr> plat_x = 298633 / 1280, plat_y = 1185 / 2, plat_width = 130, plat_height = 20,
        plat_color = NEON_LIME, plat_vx = - (7 / 2), passed = False, landedOn = True \<rparr>,
      \<lparr> plat_x = 2065 / 8, plat_y = 885 / 2, plat_width = 130, plat_height = 20,
        plat_color = NEON_LIME, plat_vx = 7 / 2, passed = False, landedOn = False \<rparr>,
      \<lparr> plat_x = 462 / 5, plat_y = 585 / 2, plat_width = 130, plat_height = 20,
        plat_color = NEON_LIME, plat_vx = 7 / 2, passed = False, landedOn = False \<rparr>,
      \<lparr> plat_x = 462 / 5, plat_y = 285 / 2, plat_width = 130, plat_height = 20,
        plat_color = NEON_LIME, plat_vx = 7 / 2, passed = False, landedOn = False \<rparr>,
      \<lparr> plat_x = 2493 / 20, plat_y = - (15 / 2), plat_width = 130, plat_height = 20,
        plat_color = NEON_LIME, plat_vx = - (7 / 2), passed = False, landedOn = False \<rparr>,
      \<lparr> plat_x = 593 / 2, plat_y = - (315 / 2), plat_width = 130, plat_height = 20,
        plat_color = NEON_LIME, plat_vx = - (7 / 2), passed = False, landedOn = False \<rparr>]"
  by (simp add: update_move_eq[OF Q117_refs] Q117_fields advance_def speedMultiplier_def Let_def)

lemma Q117_player:
  "ply_x (player (update_move 0 (Q117\<lparr> lastTime := 1888 \<rparr>))) = 400"
  "ply_y (player (update_move 0 (Q117\<lparr> lastTime := 1888 \<rparr>))) = 358"
  "ply_vy (player (update_move 0 (Q117\<lparr> lastTime := 1888 \<rparr>))) = - 2"
  "ply_width (player (update_move 0 (Q117\<lparr> lastTime := 1888 \<rparr>))) = 40"
  "ply_height (player (update_move 0 (Q117\<lparr> lastTime := 1888 \<rparr>))) = 40"
  "ply_color (player (update_move 0 (Q117\<lparr> lastTime := 1888 \<rparr>))) = NEON_LIME"
  "jumps (player (update_move 0 (Q117\<lparr> lastTime := 1888 \<rparr>))) = 1"
  "currentPlatform (player (update_move 0 (Q117\<lparr> lastTime := 1888 \<rparr>))) = None"
  unfolding update_move_player_eq[OF Q117_refs] Q117_store
  by (simp_all add: Q117_fields Player_physics_def carry_def speedMultiplier_def Let_def config)

lemmas Q117_move = Q117_store Q117_player update_move_fields[OF Q117_refs] Q117_fields

lemma Q117_scroll:
  "scrolls (update_move 0 (Q117\<lparr> lastTime := 1888 \<rparr>))"
  "scrollDiff (update_move 0 (Q117\<lparr> lastTime := 1888 \<rparr>)) = 2"
  "\<not> recycles (update_move 0 (Q117\<lparr> lastTime := 1888 \<rparr>))"
  "refs_ok (update_move 0 (Q117\<lparr> lastTime := 1888 \<rparr>))"
  "platforms (update_move 0 (Q117\<lparr> lastTime := 1888 \<rparr>)) \<noteq> []"
  by (simp_all add: scrolls_def scrollDiff_def recycles_def refs_ok_def Q117_move)

lemma Q117_landing:
  "landingPlatform (preCollision R1 1888 0 Q117) = None"
  by (simp add: landingPlatform_def preCollision_def afterScroll_fields Q117_scroll Q117_move)

lemma Q118_eq:
  "Q118 = update_cosmetics (update_fall R1 (preCollision R1 1888 0 Q117))"
  using Q117_landing
  by (simp add: Q118_def afterFrame_def update_collision_eq)

lemma Q118_fields:
  "state Q118 = Playing"
  "score Q118 = 2"
  "perfectStreak Q118 = 2"
  "isFever Q118 = False"
  "viewportWidth Q118 = 800"
  "viewportHeight Q118 = 600"
  "platforms Q118 = [2, 3, 4, 5, 6, 7]"
  "notifications Q118 = [ScoreUpdate 0, ComboChange 0, FeverChange False, GameStateChange Playing, ScoreUpdate 1, ComboChange 1, ScoreUpdate 2, ComboChange 2]"
  "store Q118 =
     [\<lparr> plat_x = 300, plat_y = 702, plat_width = 200, plat_height = 20,
        plat_color = NEON_MAGENTA, plat_vx = 0, passed = False, landedOn = False \<rparr>,
      \<lparr> plat_x = 65919 / 640, plat_y = 702, plat_width = 130, plat_height = 20,
        plat_color = NEON_LIME, plat_vx = - (7 / 2), passed = False, landedOn = True \<rparr>,
      \<lparr> plat_x = 298633 / 1280, plat_y = 1189 / 2, plat_width = 130, plat_height = 20,
        plat_color = NEON_LIME, plat_vx = - (7 / 2), passed = False, landedOn = True \<rparr>,
      \<lparr> plat_x = 2065 / 8, plat_y = 889 / 2, plat_width = 130, plat_height = 20,
        plat_color = NEON_LIME, plat_vx = 7 / 2, passed = False, landedOn = False \<rparr>,
      \<lparr> plat_x = 462 / 5, plat_y = 589 / 2, plat_width = 130, plat_height = 20,
        plat_color = NEON_LIME, plat_vx = 7 / 2, passed = False, landedOn = False \<rparr>,
      \<lparr> plat_x = 462 / 5, plat_y = 289 / 2, plat_width = 130, plat_height = 20,
        plat_color = NEON_LIME, plat_vx = 7 / 2, passed = False, landedOn = False \<rparr>,
      \<lparr> plat_x = 2493 / 20, plat_y = - (11 / 2), plat_width = 130, plat_height = 20,
        plat_color = NEON_LIME, plat_vx = - (7 / 2), passed = False, landedOn = False \<rparr>,
      \<lparr> plat_x = 593 / 2, plat_y = - (311 / 2), plat_width = 130, plat_height = 20,
        plat_color = NEON_LIME, plat_vx = - (7 / 2), passed = False, landedOn = False \<rparr>]"
  "ply_x (player Q118) = 400"
  "ply_y (player Q118) = 360"
  "ply_vy (player Q118) = - 2"
  "ply_width (player Q118) = 40"
  "ply_height (player Q118) = 40"
  "ply_color (player Q118) = NEON_LIME"
  "jumps (player Q118) = 1"
  "currentPlatform (player Q118) = None"
  "rix Q118 = 200"
  unfolding Q118_eq tail_fields update_fall_rix preCollision_def
    afterScroll_store_list[OF Q117_scroll(4,5)]
  by (simp_all add: afterScroll_fields afterScroll_rix Q117_scroll Q117_move spawned_R1 config)

lemma Q117_first: "firstLanding R1 (Frame 1888 0) Q117 = None"
  by (simp add: Q117_fields(1) Q117_landing)

lemma wf_Q117: "wf Q117" and pinned_Q117: "pinned Q117"
  using reachable_inv[OF reachable_Q117] by simp_all

lemma Q117_loop: "loop R1 1888 0 Q117 = Inr Q118"
  by (simp add: Q118_def loop_afterFrame[OF wf_Q117 Q117_fields(1)])

lemma reachable_Q118: "reachable R1 Q118"
  by (rule reachable.step[OF reachable_Q117, of "Frame 1888 0"]) (simp_all add: Q117_loop)

lemma Q118_refs: "refs_ok (Q118\<lparr> lastTime := 1904 \<rparr>)"
  by (simp add: refs_ok_def Q118_fields)

lemma Q118_store:
  "store (update_move 0 (Q118\<lparr> lastTime := 1904 \<rparr>)) =
     [\<lparr> plat_x = 300, plat_y = 702, plat_width = 200, plat_height = 20,
        plat_color = NEON_MAGENTA, plat_vx = 0, passed = False, landedOn = False \<rparr>,
      \<lparr> plat_x = 65919 / 640, plat_y = 702, plat_width = 130, plat_height = 20,
        plat_color = NEON_LIME, plat_vx = - (7 / 2), passed = False, landedOn = True \<rparr>,
      \<lparr> plat_x = 58741 / 256, plat_y = 1189 / 2, plat_width = 130, plat_height = 20,
        plat_color = NEON_LIME, plat_vx = - (7 / 2), passed = False, landedOn = True \<rparr>,
      \<lparr> plat_x = 10479 / 40, plat_y = 889 / 2, plat_width = 130, plat_height = 20,
        plat_color = NEON_LIME, plat_vx = 7 / 2, passed = False, landedOn = False \<rparr>,
      \<lparr> plat_x = 385 / 4, plat_y = 589 / 2, plat_width = 130, plat_height = 20,
        plat_color = NEON_LIME, plat_vx = 7 / 2, passed = False, landedOn = False \<rparr>,
      \<lparr> plat_x = 385 / 4, plat_y = 289 / 2, plat_width = 130, plat_height = 20,
        plat_color = NEON_LIME, plat_vx = 7 / 2, passed = False, landedOn = False \<rparr>,
      \<lparr> plat_x = 604 / 5, plat_y = - (11 / 2), plat_width = 130, plat_height = 20,
        plat_color = NEON_LIME, plat_vx = - (7 / 2), passed = False, landedOn = False \<rparr>,
      \<lparr> plat_x = 5853 / 20, plat_y = - (311 / 2), plat_width = 130, plat_height = 20,
        plat_color = NEON_LIME, plat_vx = - (7 / 2), passed = False, landedOn = False \<rparr>]"
  by (simp add: update_move_eq[OF Q118_refs] Q118_fields advance_def speedMultiplier_def Let_def)

lemma Q118_player:
  "ply_x (player (update_move 0 (Q118\<lparr> lastTime := 1904 \<rparr>))) = 400"
  "ply_y (player (update_move 0 (Q118\<lparr> lastTime := 1904 \<rparr>))) = 717 / 2"
  "ply_vy (player (update_move 0 (Q118\<lparr> lastTime := 1904 \<rparr>))) = - (3 / 2)"
  "ply_width (player (update_move 0 (Q118\<lparr> lastTime := 1904 \<rparr>))) = 40"
  "ply_height (player (update_move 0 (Q118\<lparr> lastTime := 1904 \<rparr>))) = 40"
  "ply_color (player (update_move 0 (Q118\<lparr> lastTime := 1904 \<rparr>))) = NEON_LIME"
  "jumps (player (update_move 0 (Q118\<lparr> lastTime := 1904 \<rparr>))) = 1"
  "currentPlatform (player (update_move 0 (Q118\<lparr> lastTime := 1904 \<rparr>))) = None"
  unfolding update_move_player_eq[OF Q118_refs] Q118_store
  by (simp_all add: Q118_fields Player_physics_def carry_def speedMultiplier_def Let_def config)

lemmas Q118_move = Q118_store Q118_player update_move_fields[OF Q118_refs] Q118_fields

lemma Q118_scroll:
  "scrolls (update_move 0 (Q118\<lparr> lastTime := 1904 \<rparr>))"
  "scrollDiff (update_move 0 (Q118\<lparr> lastTime := 1904 \<rparr>)) = 3 / 2"
  "\<not> recycles (update_move 0 (Q118\<lparr> lastTime := 1904 \<rparr>))"
  "refs_ok (update_move 0 (Q118\<lparr> lastTime := 1904 \<rparr>))"
  "platforms (update_move 0 (Q118\<lparr> lastTime := 1904 \<rparr>)) \<noteq> []"
  by (simp_all add: scrolls_def scrollDiff_def recycles_def refs_ok_def Q118_move)

lemma Q118_landing:
  "landingPlatform (preCollision R1 1904 0 Q118) = None"
  by (simp add: landingPlatform_def preCollision_def afterScroll_fields Q118_scroll Q118_move)

lemma Q119_eq:
  "Q119 = update_cosmetics (update_fall R1 (preCollision R1 1904 0 Q118))"
  using Q118_landing
  by (simp add: Q119_def afterFrame_def update_collision_eq)

lemma Q119_fields:
  "state Q119 = Playing"
  "score Q119 = 2"
  "perfectStreak Q119 = 2"
  "isFever Q119 = False"
  "viewportWidth Q119 = 800"
  "viewportHeight Q119 = 600"
  "platforms Q119 = [2, 3, 4, 5, 6, 7]"
  "notifications Q119 = [ScoreUpdate 0, ComboChange 0, FeverChange False, GameStateChange Playing, ScoreUpdate 1, ComboChange 1, ScoreUpdate 2, ComboChange 2]"
  "store Q119 =
     [\<lparr> plat_x = 300, plat_y = 702, plat_width = 200, plat_height = 20,
        plat_color = NEON_MAGENTA, plat_vx = 0, passed = False, landedOn = False \<rparr>,
      \<lparr> plat_x = 65919 / 640, plat_y = 702, plat_width = 130, plat_height = 20,
        plat_color = NEON_LIME, plat_vx = - (7 / 2), passed = False, landedOn = True \<rparr>,
      \<lparr> plat_x = 58741 / 256, plat_y = 596, plat_width = 130, plat_height = 20,
        plat_color = NEON_LIME, plat_vx = - (7 / 2), passed = False, landedOn = True \<rparr>,
      \<lparr> plat_x = 10479 / 40, plat_y = 446, plat_width = 130, plat_height = 20,
        plat_color = NEON_LIME, plat_vx = 7 / 2, passed = False, landedOn = False \<rparr>,
      \<lparr> plat_x = 385 / 4, plat_y = 296, plat_width = 130, plat_height = 20,
        plat_color = NEON_LIME, plat_vx = 7 / 2, passed = False, landedOn = False \<rparr>,
      \<lparr> plat_x = 385 / 4, plat_y = 146, plat_width = 130, plat_height = 20,
        plat_color = NEON_LIME, plat_vx = 7 / 2, passed = False, landedOn = False \<rparr>,
      \<lparr> plat_x = 604 / 5, plat_y = - 4, plat_width = 130, plat_height = 20,
        plat_color = NEON_LIME, plat_vx = - (7 / 2), passed = False, landedOn = False \<rparr>,
      \<lparr> plat_x = 5853 / 20, plat_y = - 154, plat_width = 130, plat_height = 20,
        plat_color = NEON_LIME, plat_vx = - (7 / 2), passed = False, landedOn = False \<rparr>]"
  "ply_x (player Q119) = 400"
  "ply_y (player Q119) = 360"
  "ply_vy (player Q119) = - (3 / 2)"
  "ply_width (player Q119) = 40"
  "ply_height (player Q119) = 40"
  "ply_color (player Q119) = NEON_LIME"
  "jumps (player Q119) = 1"
  "currentPlatform (player Q119) = None"
  "rix Q119 = 200"
  unfolding Q119_eq tail_fields update_fall_rix preCollision_def
    afterScroll_store_list[OF Q118_scroll(4,5)]
  by (simp_all add: afterScroll_fields afterScroll_rix Q118_scroll Q118_move spawned_R1 config)

lemma Q118_first: "firstLanding R1 (Frame 1904 0) Q118 = None"
  by (simp add: Q118_fields(1) Q118_landing)

lemma wf_Q118: "wf Q118" and pinned_Q118: "pinned Q118"
  using reachable_inv[OF reachable_Q118] by simp_all

lemma Q118_loop: "loop R1 1904 0 Q118 = Inr Q119"
  by (simp add: Q119_def loop_afterFrame[OF wf_Q118 Q118_fields(1)])

lemma reachable_Q119: "reachable R1 Q119"
  by (rule reachable.step[OF reachable_Q118, of "Frame 1904 0"]) (simp_all add: Q118_loop)

lemma Q119_refs: "refs_ok (Q119\<lparr> lastTime := 1920 \<rparr>)"
  by (simp add: refs_ok_def Q119_fields)

lemma Q119_store:
  "store (update_move 0 (Q119\<lparr> lastTime := 1920 \<rparr>)) =
     [\<lparr> plat_x = 300, plat_y = 702, plat_width = 200, plat_height = 20,
        plat_color = NEON_MAGENTA, plat_vx = 0, passed = False, landedOn = False \<rparr>,
      \<lparr> plat_x = 65919 / 640, plat_y = 702, plat_width = 130, plat_height = 20,
        plat_color = NEON_LIME, plat_vx = - (7 / 2), passed = False, landedOn = True \<rparr>,
      \<lparr> plat_x = 288777 / 1280, plat_y = 596, plat_width = 130, plat_height = 20,
        plat_color = NEON_LIME, plat_vx = - (7 / 2), passed = False, landedOn = True \<rparr>,
      \<lparr> plat_x = 10633 / 40, plat_y = 446, plat_width = 130, plat_height = 20,
        plat_color = NEON_LIME, plat_vx = 7 / 2, passed = False, landedOn = False \<rparr>,
      \<lparr> plat_x = 1001 / 10, plat_y = 296, plat_width = 130, plat_height = 20,
        plat_color = NEON_LIME, plat_vx = 7 / 2, passed = False, landedOn = False \<rparr>,
      \<lparr> plat_x = 1001 / 10, plat_y = 146, plat_width = 130, plat_height = 20,
        plat_color = NEON_LIME, plat_vx = 7 / 2, passed = False, landedOn = False \<rparr>,
      \<lparr> plat_x = 2339 / 20, plat_y = - 4, plat_width = 130, plat_height = 20,
        plat_color = NEON_LIME, plat_vx = - (7 / 2), passed = False, landedOn = False \<rparr>,
      \<lparr> plat_x = 1444 / 5, plat_y = - 154, plat_width = 130, plat_height = 20,
        plat_color = NEON_LIME, plat_vx = - (7 / 2), passed = False, landedOn = False \<rparr>]"
  by (simp add: update_move_eq[OF Q119_refs] Q119_fields advance_def speedMultiplier_def Let_def)

lemma Q119_player:
  "ply_x (player (update_move 0 (Q119\<lparr> lastTime := 1920 \<rparr>))) = 400"
  "ply_y (player (update_move 0 (Q119\<lparr> lastTime := 1920 \<rparr>))) = 359"
  "ply_vy (player (update_move 0 (Q119\<lparr> lastTime := 1920 \<rparr>))) = - 1"
  "ply_width (player (update_move 0 (Q119\<lparr> lastTime := 1920 \<rparr>))) = 40"
  "ply_height (player (update_move 0 (Q119\<lparr> lastTime := 1920 \<rparr>))) = 40"
  "ply_color (player (update_move 0 (Q119\<lparr> lastTime := 1920 \<rparr>))) = NEON_LIME"
  "jumps (player (update_move 0 (Q119\<lparr> lastTime := 1920 \<rparr>))) = 1"
  "currentPlatform (player (update_move 0 (Q119\<lparr> lastTime := 1920 \<rparr>))) = None"
  unfolding update_move_player_eq[OF Q119_refs] Q119_store
  by (simp_all add: Q119_fields Player_physics_def carry_def speedMultiplier_def Let_def config)

lemmas Q119_move = Q119_store Q119_player update_move_fields[OF Q119_refs] Q119_fields

lemma Q119_scroll:
  "scrolls (update_move 0 (Q119\<lparr> lastTime := 1920 \<rparr>))"
  "scrollDiff (update_move 0 (Q119\<lparr> lastTime := 1920 \<rparr>)) = 1"
  "\<not> recycles (update_move 0 (Q119\<lparr> lastTime := 1920 \<rparr>))"
  "refs_ok (update_move 0 (Q119\<lparr> lastTime := 1920 \<rparr>))"
  "platforms (update_move 0 (Q119\<lparr> lastTime := 1920 \<rparr>)) \<noteq> []"
  by (simp_all add: scrolls_def scrollDiff_def recycles_def refs_ok_def Q119_move)

lemma Q119_landing:
  "landingPlatform (preCollision R1 1920 0 Q119) = None"
  by (simp add: landingPlatform_def preCollision_def afterScroll_fields Q119_scroll Q119_move)

lemma Q120_eq:
  "Q120 = update_cosmetics (update_fall R1 (preCollision R1 1920 0 Q119))"
  using Q119_landing
  by (simp add: Q120_def afterFrame_def update_collision_eq)

lemma Q120_fields:
  "state Q120 = Playing"
  "score Q120 = 2"
  "perfectStreak Q120 = 2"
  "isFever Q120 = False"
  "viewportWidth Q120 = 800"
  "viewportHeight Q120 = 600"
  "platforms Q120 = [2, 3, 4, 5, 6, 7]"
  "notifications Q120 = [ScoreUpdate 0, ComboChange 0, FeverChange False, GameStateChange Playing, ScoreUpdate 1, ComboChange 1, ScoreUpdate 2, ComboChange 2]"
  "store Q120 =
     [\<lparr> plat_x = 300, plat_y = 702, plat_width = 200, plat_height = 20,
        plat_color = NEON_MAGENTA, plat_vx = 0, passed = False, landedOn = False \<rparr>,
      \<lparr> plat_x = 65919 / 640, plat_y = 702, plat_width = 130, plat_height = 20,
        plat_color = NEON_LIME, plat_vx = - (7 / 2), passed = False, landedOn = True \<rparr>,
      \<lparr> plat_x = 288777 / 1280, plat_y = 597, plat_width = 130, plat_height = 20,
        plat_color = NEON_LIME, plat_vx = - (7 / 2), passed = False, landedOn = True \<rparr>,
      \<lparr> plat_x = 10633 / 40, plat_y = 447, plat_width = 130, plat_height = 20,
        plat_color = NEON_LIME, plat_vx = 7 / 2, passed = False, landedOn = False \<rparr>,
      \<lparr> plat_x = 1001 / 10, plat_y = 297, plat_width = 130, plat_height = 20,
        plat_color = NEON_LIME, plat_vx = 7 / 2, passed = False, landedOn = False \<rparr>,
      \<lparr> plat_x = 1001 / 10, plat_y = 147, plat_width = 130, plat_height = 20,
        plat_color = NEON_LIME, plat_vx = 7 / 2, passed = False, landedOn = False \<rparr>,
      \<lparr> plat_x = 2339 / 20, plat_y = - 3, plat_width = 130, plat_height = 20,
        plat_color = NEON_LIME, plat_vx = - (7 / 2), passed = False, landedOn = False \<rparr>,
      \<lparr> plat_x = 1444 / 5, plat_y = - 153, plat_width = 130, plat_height = 20,
        plat_color = NEON_LIME, plat_vx = - (7 / 2), passed = False, landedOn = False \<rparr>]"
  "ply_x (player Q120) = 400"
  "ply_y (player Q120) = 360"
  "ply_vy (player Q120) = - 1"
  "ply_width (player Q120) = 40"
  "ply_height (player Q120) = 40"
  "ply_color (player Q120) = NEON_LIME"
  "jumps (player Q120) = 1"
  "currentPlatform (player Q120) = None"
  "rix Q120 = 200"
  unfolding Q120_eq tail_fields update_fall_rix preCollision_def
    afterScroll_store_list[OF Q119_scroll(4,5)]
  by (simp_all add: afterScroll_fields afterScroll_rix Q119_scroll Q119_move spawned_R1 config)

lemma Q119_first: "firstLanding R1 (Frame 1920 0) Q119 = None"
  by (simp add: Q119_fields(1) Q119_landing)

lemma wf_Q119: "wf Q119" and pinned_Q119: "pinned Q119"
  using reachable_inv[OF reachable_Q119] by simp_all

lemma Q119_loop: "loop R1 1920 0 Q119 = Inr Q120"
  by (simp add: Q120_def loop_afterFrame[OF wf_Q119 Q119_fields(1)])

lemma reachable_Q120: "reachable R1 Q120"
  by (rule reachable.step[OF reachable_Q119, of "Frame 1920 0"]) (simp_all add: Q119_loop)

lemma Q120_refs: "refs_ok (Q120\<lparr> lastTime := 1936 \<rparr>)"
  by (simp add: refs_ok_def Q120_fields)

lemma Q120_store:
  "store (update_move 0 (Q120\<lparr> lastTime := 1936 \<rparr>)) =
     [\<lparr> plat_x = 300, plat_y = 702, plat_width = 200, plat_height = 20,
        plat_color = NEON_MAGENTA, plat_vx = 0, passed = False, landedOn = False \<rparr>,
      \<lparr> plat_x = 65919 / 640, plat_y = 702, plat_width = 130, plat_height = 20,
        plat_color = NEON_LIME, plat_vx = - (7 / 2), passed = False, landedOn = True \<rparr>,
      \<lparr> plat_x = 283849 / 1280, plat_y = 597, plat_width = 130, plat_height = 20,
        plat_color = NEON_LIME, plat_vx = - (7 / 2), passed = False, landedOn = True \<rparr>,
      \<lparr> plat_x = 10787 / 40, plat_y = 447, plat_width = 130, plat_height = 20,
        plat_color = NEON_LIME, plat_vx = 7 / 2, passed = False, landedOn = False \<rparr>,
      \<lparr> plat_x = 2079 / 20, plat_y = 297, plat_width = 130, plat_height = 20,
        plat_color = NEON_LIME, plat_vx = 7 / 2, passed = False, landedOn = False \<rparr>,
      \<lparr> plat_x = 2079 / 20, plat_y = 147, plat_width = 130, plat_height = 20,
        plat_color = NEON_LIME, plat_vx = 7 / 2, passed = False, landedOn = False \<rparr>,
      \<lparr> plat_x = 1131 / 10, plat_y = - 3, plat_width = 130, plat_height = 20,
        plat_color = NEON_LIME, plat_vx = - (7 / 2), passed = False, landedOn = False \<rparr>,
      \<lparr> plat_x = 5699 / 20, plat_y = - 153, plat_width = 130, plat_height = 20,
        plat_color = NEON_LIME, plat_vx = - (7 / 2), passed = False, landedOn = False \<rparr>]"
  by (simp add: update_move_eq[OF Q120_refs] Q120_fields advance_def speedMultiplier_def Let_def)

lemma Q120_player:
  "ply_x (player (update_move 0 (Q120\<lparr> lastTime := 1936 \<rparr>))) = 400"
  "ply_y (player (update_move 0 (Q120\<lparr> lastTime := 1936 \<rparr>))) = 719 / 2"
  "ply_vy (player (update_move 0 (Q120\<lparr> lastTime := 1936 \<rparr>))) = - (1 / 2)"
  "ply_width (player (update_move 0 (Q120\<lparr> lastTime := 1936 \<rparr>))) = 40"
  "ply_height (player (update_move 0 (Q120\<lparr> lastTime := 1936 \<rparr>))) = 40"
  "ply_color (player (update_move 0 (Q120\<lparr> lastTime := 1936 \<rparr>))) = NEON_LIME"
  "jumps (player (update_move 0 (Q120\<lparr> lastTime := 1936 \<rparr>))) = 1"
  "currentPlatform (player (update_move 0 (Q120\<lparr> lastTime := 1936 \<rparr>))) = None"
  unfolding update_move_player_eq[OF Q120_refs] Q120_store
  by (simp_all add: Q120_fields Player_physics_def carry_def speedMultiplier_def Let_def config)

lemmas Q120_move = Q120_store Q120_player update_move_fields[OF Q120_refs] Q120_fields

lemma Q120_scroll:
  "scrolls (update_move 0 (Q120\<lparr> lastTime := 1936 \<rparr>))"
  "scrollDiff (update_move 0 (Q120\<lparr> lastTime := 1936 \<rparr>)) = 1 / 2"
  "\<not> recycles (update_move 0 (Q120\<lparr> lastTime := 1936 \<rparr>))"
  "refs_ok (update_move 0 (Q120\<lparr> lastTime := 1936 \<rparr>))"
  "platforms (update_move 0 (Q120\<lparr> lastTime := 1936 \<rparr>)) \<noteq> []"
  by (simp_all add: scrolls_def scrollDiff_def recycles_def refs_ok_def Q120_move)

lemma Q120_landing:
  "landingPlatform (preCollision R1 1936 0 Q120) = None"
  by (simp add: landingPlatform_def preCollision_def afterScroll_fields Q120_scroll Q120_move)

lemma Q121_eq:
  "Q121 = update_cosmetics (update_fall R1 (preCollision R1 1936 0 Q120))"
  using Q120_landing
  by (simp add: Q121_def afterFrame_def update_collision_eq)

lemma Q121_fields:
  "state Q121 = Playing"
  "score Q121 = 2"
  "perfectStreak Q121 = 2"
  "isFever Q121 = False"
  "viewportWidth Q121 = 800"
  "viewportHeight Q121 = 600"
  "platforms Q121 = [2, 3, 4, 5, 6, 7]"
  "notifications Q121 = [ScoreUpdate 0, ComboChange 0, FeverChange False, GameStateChange Playing, ScoreUpdate 1, ComboChange 1, ScoreUpdate 2, ComboChange 2]"
  "store Q121 =
     [\<lparr> plat_x = 300, plat_y = 702, plat_width = 200, plat_height = 20,
        plat_color = NEON_MAGENTA, plat_vx = 0, passed = False, landedOn = False \<rparr>,
      \<lparr> plat_x = 65919 / 640, plat_y = 702, plat_width = 130, plat_height = 20,
        plat_color = NEON_LIME, plat_vx = - (7 / 2), passed = False, landedOn = True \<rparr>,
      \<lparr> plat_x = 283849 / 1280, plat_y = 1195 / 2, plat_width = 130, plat_height = 20,
        plat_color = NEON_LIME, plat_vx = - (7 / 2), passed = False, landedOn = True \<rparr>,
      \<lparr> plat_x = 10787 / 40, plat_y = 895 / 2, plat_width = 130, plat_height = 20,
        plat_color = NEON_LIME, plat_vx = 7 / 2, passed = False, landedOn = False \<rparr>,
      \<lparr> plat_x = 2079 / 20, plat_y = 595 / 2, plat_width = 130, plat_height = 20,
        plat_color = NEON_LIME, plat_vx = 7 / 2, passed = False, landedOn = False \<rparr>,
      \<lparr> plat_x = 2079 / 20, plat_y = 295 / 2, plat_width = 130, plat_height = 20,
        plat_color = NEON_LIME, plat_vx = 7 / 2, passed = False, landedOn = False \<rparr>,
      \<lparr> plat_x = 1131 / 10, plat_y = - (5 / 2), plat_width = 130, plat_height = 20,
        plat_color = NEON_LIME, plat_vx = - (7 / 2), passed = False, landedOn = False \<rparr>,
      \<lparr> plat_x = 5699 / 20, plat_y = - (305 / 2), plat_width = 130, plat_height = 20,
        plat_color = NEON_LIME, plat_vx = - (7 / 2), passed = False, landedOn = False \<rparr>]"
  "ply_x (player Q121) = 400"
  "ply_y (player Q121) = 360"
  "ply_vy (player Q121) = - (1 / 2)"
  "ply_width (player Q121) = 40"
  "ply_height (player Q121) = 40"
  "ply_color (player Q121) = NEON_LIME"
  "jumps (player Q121) = 1"
  "currentPlatform (player Q121) = None"
  "rix Q121 = 200"
  unfolding Q121_eq tail_fields update_fall_rix preCollision_def
    afterScroll_store_list[OF Q120_scroll(4,5)]
  by (simp_all add: afterScroll_fields afterScroll_rix Q120_scroll Q120_move spawned_R1 config)

lemma Q120_first: "firstLanding R1 (Frame 1936 0) Q120 = None"
  by (simp add: Q120_fields(1) Q120_landing)

lemma wf_Q120: "wf Q120" and pinned_Q120: "pinned Q120"
  using reachable_inv[OF reachable_Q120] by simp_all

lemma Q120_loop: "loop R1 1936 0 Q120 = Inr Q121"
  by (simp add: Q121_def loop_afterFrame[OF wf_Q120 Q120_fields(1)])

lemma reachable_Q121: "reachable R1 Q121"
  by (rule reachable.step[OF reachable_Q120, of "Frame 1936 0"]) (simp_all add: Q120_loop)

lemma Q121_refs: "refs_ok (Q121\<lparr> lastTime := 1952 \<rparr>)"
  by (simp add: refs_ok_def Q121_fields)

lemma Q121_store:
  "store (update_move 0 (Q121\<lparr> lastTime := 1952 \<rparr>)) =
     [\<lparr> plat_x = 300, plat_y = 702, plat_width = 200, plat_height = 20,
        plat_color = NEON_MAGENTA, plat_vx = 0, passed = False, landedOn = False \<rparr>,
      \<lparr> plat_x = 65919 / 640, plat_y = 702, plat_width = 130, plat_height = 20,
        plat_color = NEON_LIME, plat_vx = - (7 / 2), passed = False, landedOn = True \<rparr>,
      \<lparr> plat_x = 278921 / 1280, plat_y = 1195 / 2, plat_width = 130, plat_height = 20,
        plat_color = NEON_LIME, plat_vx = - (7 / 2), passed = False, landedOn = True \<rparr>,
      \<lparr> plat_x = 10941 / 40, plat_y = 895 / 2, plat_width = 130, plat_height = 20,
        plat_color = NEON_LIME, plat_vx = 7 / 2, passed = False, landedOn = False \<rparr>,
      \<lparr> plat_x = 539 / 5, plat_y = 595 / 2, plat_width = 130, plat_height = 20,
        plat_color = NEON_LIME, plat_vx = 7 / 2, passed = False, landedOn = False \<rparr>,
      \<lparr> plat_x = 539 / 5, plat_y = 295 / 2, plat_width = 130, plat_height = 20,
        plat_color = NEON_LIME, plat_vx = 7 / 2, passed = False, landedOn = False \<rparr>,
      \<lparr> plat_x = 437 / 4, plat_y = - (5 / 2), plat_width = 130, plat_height = 20,
        plat_color = NEON_LIME, plat_vx = - (7 / 2), passed = False, landedOn = False \<rparr>,
      \<lparr> plat_x = 2811 / 10, plat_y = - (305 / 2), plat_width = 130, plat_height = 20,
        plat_color = NEON_LIME, plat_vx = - (7 / 2), passed = False, landedOn = False \<rparr>]"
  by (simp add: update_move_eq[OF Q121_refs] Q121_fields advance_def speedMultiplier_def Let_def)

lemma Q121_player:
  "ply_x (player (update_move 0 (Q121\<lparr> lastTime := 1952 \<rparr>))) = 400"
  "ply_y (player (update_move 0 (Q121\<lparr> lastTime := 1952 \<rparr>))) = 360"
  "ply_vy (player (update_move 0 (Q121\<lparr> lastTime := 1952 \<rparr>))) = 0"
  "ply_width (player (update_move 0 (Q121\<lparr> lastTime := 1952 \<rparr>))) = 40"
  "ply_height (player (update_move 0 (Q121\<lparr> lastTime := 1952 \<rparr>))) = 40"
  "ply_color (player (update_move 0 (Q121\<lparr> lastTime := 1952 \<rparr>))) = NEON_LIME"
  "jumps (player (update_move 0 (Q121\<lparr> lastTime := 1952 \<rparr>))) = 1"
  "currentPlatform (player (update_move 0 (Q121\<lparr> lastTime := 1952 \<rparr>))) = None"
  unfolding update_move_player_eq[OF Q121_refs] Q121_store
  by (simp_all add: Q121_fields Player_physics_def carry_def speedMultiplier_def Let_def config)

lemmas Q121_move = Q121_store Q121_player update_move_fields[OF Q121_refs] Q121_fields

lemma Q121_preCollision:
  "preCollision R1 1952 0 Q121 = update_move 0 (Q121\<lparr> lastTime := 1952 \<rparr>)"
  by (simp add: preCollision_def afterScroll_def scrolls_def Q121_move)

lemma Q121_landing:
  "landingPlatform (preCollision R1 1952 0 Q121) = None"
  by (simp add: Q121_preCollision landingPlatform_def hits_def Let_def Q121_move)

lemma Q122_eq:
  "Q122 = update_cosmetics (update_fall R1 (update_move 0 (Q121\<lparr> lastTime := 1952 \<rparr>)))"
  using Q121_landing
  by (simp add: Q122_def afterFrame_def update_collision_eq Q121_preCollision)

lemma Q122_fields:
  "state Q122 = Playing"
  "score Q122 = 2"
  "perfectStreak Q122 = 2"
  "isFever Q122 = False"
  "viewportWidth Q122 = 800"
  "viewportHeight Q122 = 600"
  "platforms Q122 = [2, 3, 4, 5, 6, 7]"
  "notifications Q122 = [ScoreUpdate 0, ComboChange 0, FeverChange False, GameStateChange Playing, ScoreUpdate 1, ComboChange 1, ScoreUpdate 2, ComboChange 2]"
  "store Q122 =
     [\<lparr> plat_x = 300, plat_y = 702, plat_width = 200, plat_height = 20,
        plat_color = NEON_MAGENTA, plat_vx = 0, passed = False, landedOn = False \<rparr>,
      \<lparr> plat_x = 65919 / 640, plat_y = 702, plat_width = 130, plat_height = 20,
        plat_color = NEON_LIME, plat_vx = - (7 / 2), passed = False, landedOn = True \<rparr>,
      \<lparr> plat_x = 278921 / 1280, plat_y = 1195 / 2, plat_width = 130, plat_height = 20,
        plat_color = NEON_LIME, plat_vx = - (7 / 2), passed = False, landedOn = True \<rparr>,
      \<lparr> plat_x = 10941 / 40, plat_y = 895 / 2, plat_width = 130, plat_height = 20,
        plat_color = NEON_LIME, plat_vx = 7 / 2, passed = False, landedOn = False \<rparr>,
      \<lparr> plat_x = 539 / 5, plat_y = 595 / 2, plat_width = 130, plat_height = 20,
        plat_color = NEON_LIME, plat_vx = 7 / 2, passed = False, landedOn = False \<rparr>,
      \<lparr> plat_x = 539 / 5, plat_y = 295 / 2, plat_width = 130, plat_height = 20,
        plat_color = NEON_LIME, plat_vx = 7 / 2, passed = False, landedOn = False \<rparr>,
      \<lparr> plat_x = 437 / 4, plat_y = - (5 / 2), plat_width = 130, plat_height = 20,
        plat_color = NEON_LIME, plat_vx = - (7 / 2), passed = False, landedOn = False \<rparr>,
      \<lparr> plat_x = 2811 / 10, plat_y = - (305 / 2), plat_width = 130, plat_height = 20,
        plat_color = NEON_LIME, plat_vx = - (7 / 2), passed = False, landedOn = False \<rparr>]"
  "ply_x (player Q122) = 400"
  "ply_y (player Q122) = 360"
  "ply_vy (player Q122) = 0"
  "ply_width (player Q122) = 40"
  "ply_height (player Q122) = 40"
  "ply_color (player Q122) = NEON_LIME"
  "jumps (player Q122) = 1"
  "currentPlatform (player Q122) = None"
  "rix Q122 = 200"
  unfolding Q122_eq
  by (simp_all add: tail_fields update_fall_rix landed_fields landed_store landed_score
        landed_perfectStreak landed_isFever landed_notifications landed_player landed_rix
        land_def landingNotes_def perfectHit_def Q121_move config)

lemma Q121_first: "firstLanding R1 (Frame 1952 0) Q121 = None"
  by (simp add: Q121_fields(1) Q121_landing)

lemma wf_Q121: "wf Q121" and pinned_Q121: "pinned Q121"
  using reachable_inv[OF reachable_Q121] by simp_all

lemma Q121_loop: "loop R1 1952 0 Q121 = Inr Q122"
  by (simp add: Q122_def loop_afterFrame[OF wf_Q121 Q121_fields(1)])

lemma reachable_Q122: "reachable R1 Q122"
  by (rule reachable.step[OF reachable_Q121, of "Frame 1952 0"]) (simp_all add: Q121_loop)

lemma Q122_refs: "refs_ok (Q122\<lparr> lastTime := 1968 \<rparr>)"
  by (simp add: refs_ok_def Q122_fields)

lemma Q122_store:
  "store (update_move 0 (Q122\<lparr> lastTime := 1968 \<rparr>)) =
     [\<lparr> plat_x = 300, plat_y = 702, plat_width = 200, plat_height = 20,
        plat_color = NEON_MAGENTA, plat_vx = 0, passed = False, landedOn = False \<rparr>,
      \<lparr> plat_x = 65919 / 640, plat_y = 702, plat_width = 130, plat_height = 20,
        plat_color = NEON_LIME, plat_vx = - (7 / 2), passed = False, landedOn = True \<rparr>,
      \<lparr> plat_x = 273993 / 1280, plat_y = 1195 / 2, plat_width = 130, plat_height = 20,
        plat_color = NEON_LIME, plat_vx = - (7 / 2), passed = False, landedOn = True \<rparr>,
      \<lparr> plat_x = 2219 / 8, plat_y = 895 / 2, plat_width = 130, plat_height = 20,
        plat_color = NEON_LIME, plat_vx = 7 / 2, passed = False, landedOn = False \<rparr>,
      \<lparr> plat_x = 2233 / 20, plat_y = 595 / 2, plat_width = 130, plat_height = 20,
        plat_color = NEON_LIME, plat_vx = 7 / 2, passed = False, landedOn = False \<rparr>,
      \<lparr> plat_x = 2233 / 20, plat_y = 295 / 2, plat_width = 130, plat_height = 20,
        plat_color = NEON_LIME, plat_vx = 7 / 2, passed = False, landedOn = False \<rparr>,
      \<lparr> plat_x = 527 / 5, plat_y = - (5 / 2), plat_width = 130, plat_height = 20,
        plat_color = NEON_LIME, plat_vx = - (7 / 2), passed = False, landedOn = False \<rparr>,
      \<lparr> plat_x = 1109 / 4, plat_y = - (305 / 2), plat_width = 130, plat_height = 20,
        plat_color = NEON_LIME, plat_vx = - (7 / 2), passed = False, landedOn = False \<rparr>]"
  by (simp add: update_move_eq[OF Q122_refs] Q122_fields advance_def speedMultiplier_def Let_def)

lemma Q122_player:
  "ply_x (player (update_move 0 (Q122\<lparr> lastTime := 1968 \<rparr>))) = 400"
  "ply_y (player (update_move 0 (Q122\<lparr> lastTime := 1968 \<rparr>))) = 721 / 2"
  "ply_vy (player (update_move 0 (Q122\<lparr> lastTime := 1968 \<rparr>))) = 1 / 2"
  "ply_width (player (update_move 0 (Q122\<lparr> lastTime := 1968 \<rparr>))) = 40"
  "ply_height (player (update_move 0 (Q122\<lparr> lastTime := 1968 \<rparr>))) = 40"
  "ply_color (player (update_move 0 (Q122\<lparr> lastTime := 1968 \<rparr>))) = NEON_LIME"
  "jumps (player (update_move 0 (Q122\<lparr> lastTime := 1968 \<rparr>))) = 1"
  "currentPlatform (player (update_move 0 (Q122\<lparr> lastTime := 1968 \<rparr>))) = None"
  unfolding update_move_player_eq[OF Q122_refs] Q122_store
  by (simp_all add: Q122_fields Player_physics_def carry_def speedMultiplier_def Let_def config)

lemmas Q122_move = Q122_store Q122_player update_move_fields[OF Q122_refs] Q122_fields

lemma Q122_preCollision:
  "preCollision R1 1968 0 Q122 = update_move 0 (Q122\<lparr> lastTime := 1968 \<rparr>)"
  by (simp add: preCollision_def afterScroll_def scrolls_def Q122_move)

lemma Q122_landing:
  "landingPlatform (preCollision R1 1968 0 Q122) = None"
  by (simp add: Q122_preCollision landingPlatform_def hits_def Let_def Q122_move)

lemma Q123_eq:
  "Q123 = update_cosmetics (update_fall R1 (update_move 0 (Q122\<lparr> lastTime := 1968 \<rparr>)))"
  using Q122_landing
  by (simp add: Q123_def afterFrame_def update_collision_eq Q122_preCollision)

lemma Q123_fields:
  "state Q123 = Playing"
  "score Q123 = 2"
  "perfectStreak Q123 = 2"
  "isFever Q123 = False"
  "viewportWidth Q123 = 800"
  "viewportHeight Q123 = 600"
  "platforms Q123 = [2, 3, 4, 5, 6, 7]"
  "notifications Q123 = [ScoreUpdate 0, ComboChange 0, FeverChange False, GameStateChange Playing, ScoreUpdate 1, ComboChange 1, ScoreUpdate 2, ComboChange 2]"
  "store Q123 =
     [\<lparr> plat_x = 300, plat_y = 702, plat_width = 200, plat_height = 20,
        plat_color = NEON_MAGENTA, plat_vx = 0, passed = False, landedOn = False \<rparr>,
      \<lparr> plat_x = 65919 / 640, plat_y = 702, plat_width = 130, plat_height = 20,
        plat_color = NEON_LIME, plat_vx = - (7 / 2), passed = False, landedOn = True \<rparr>,
      \<lparr> plat_x = 273993 / 1280, plat_y = 1195 / 2, plat_width = 130, plat_height = 20,
        plat_color = NEON_LIME, plat_vx = - (7 / 2), passed = False, landedOn = True \<rparr>,
      \<lparr> plat_x = 2219 / 8, plat_y = 895 / 2, plat_width = 130, plat_height = 20,
        plat_color = NEON_LIME, plat_vx = 7 / 2, passed = False, landedOn = False \<rparr>,
      \<lparr> plat_x = 2233 / 20, plat_y = 595 / 2, plat_width = 130, plat_height = 20,
        plat_color = NEON_LIME, plat_vx = 7 / 2, passed = False, landedOn = False \<rparr>,
      \<lparr> plat_x = 2233 / 20, plat_y = 295 / 2, plat_width = 130, plat_height = 20,
        plat_color = NEON_LIME, plat_vx = 7 / 2, passed = False, landedOn = False \<rparr>,
      \<lparr> plat_x = 527 / 5, plat_y = - (5 / 2), plat_width = 130, plat_height = 20,
        plat_color = NEON_LIME, plat_vx = - (7 / 2), passed = False, landedOn = False \<rparr>,
      \<lparr> plat_x = 1109 / 4, plat_y = - (305 / 2), plat_width = 130, plat_height = 20,
        plat_color = NEON_LIME, plat_vx = - (7 / 2), passed = False, landedOn = False \<rparr>]"
  "ply_x (player Q123) = 400"
  "ply_y (player Q123) = 721 / 2"
  "ply_vy (player Q123) = 1 / 2"
  "ply_width (player Q123) = 40"
  "ply_height (player Q123) = 40"
  "ply_color (player Q123) = NEON_LIME"
  "jumps (player Q123) = 1"
  "currentPlatform (player Q123) = None"
  "rix Q123 = 200"
  unfolding Q123_eq
  by (simp_all add: tail_fields update_fall_rix landed_fields landed_store landed_score
        landed_perfectStreak landed_isFever landed_notifications landed_player landed_rix
        land_def landingNotes_def perfectHit_def Q122_move config)

lemma Q122_first: "firstLanding R1 (Frame 1968 0) Q122 = None"
  by (simp add: Q122_fields(1) Q122_landing)

lemma wf_Q122: "wf Q122" and pinned_Q122: "pinned Q122"
  using reachable_inv[OF reachable_Q122] by simp_all

lemma Q122_loop: "loop R1 1968 0 Q122 = Inr Q123"
  by (simp add: Q123_def loop_afterFrame[OF wf_Q122 Q122_fields(1)])

lemma reachable_Q123: "reachable R1 Q123"
  by (rule reachable.step[OF reachable_Q122, of "Frame 1968 0"]) (simp_all add: Q122_loop)

lemma Q123_refs: "refs_ok (Q123\<lparr> lastTime := 1984 \<rparr>)"
  by (simp add: refs_ok_def Q123_fields)

lemma Q123_store:
  "store (update_move 0 (Q123\<lparr> lastTime := 1984 \<rparr>)) =
     [\<lparr> plat_x = 300, plat_y = 702, plat_width = 200, plat_height = 20,
        plat_color = NEON_MAGENTA, plat_vx = 0, passed = False, landedOn = False \<rparr>,
      \<lparr> plat_x = 65919 / 640, plat_y = 702, plat_width = 130, plat_height = 20,
        plat_color = NEON_LIME, plat_vx = - (7 / 2), passed = False, landedOn = True \<rparr>,
      \<lparr> plat_x = 53813 / 256, plat_y = 1195 / 2, plat_width = 130, plat_height = 20,
        plat_color = NEON_LIME, plat_vx = - (7 / 2), passed = False, landedOn = True \<rparr>,
      \<lparr> plat_x = 11249 / 40, plat_y = 895 / 2, plat_width = 130, plat_height = 20,
        plat_color = NEON_LIME, plat_vx = 7 / 2, passed = False, landedOn = False \<rparr>,
      \<lparr> plat_x = 231 / 2, plat_y = 595 / 2, plat_width = 130, plat_height = 20,
        plat_color = NEON_LIME, plat_vx = 7 / 2, passed = False, landedOn = False \<rparr>,
      \<lparr> plat_x = 231 / 2, plat_y = 295 / 2, plat_width = 130, plat_height = 20,
        plat_color = NEON_LIME, plat_vx = 7 / 2, passed = False, landedOn = False \<rparr>,
      \<lparr> plat_x = 2031 / 20, plat_y = - (5 / 2), plat_width = 130, plat_height = 20,
        plat_color = NEON_LIME, plat_vx = - (7 / 2), passed = False, landedOn = False \<rparr>,
      \<lparr> plat_x = 1367 / 5, plat_y = - (305 / 2), plat_width = 130, plat_height = 20,
        plat_color = NEON_LIME, plat_vx = - (7 / 2), passed = False, landedOn = False \<rparr>]"
  by (simp add: update_move_eq[OF Q123_refs] Q123_fields advance_def speedMultiplier_def Let_def)

lemma Q123_player:
  "ply_x (player (update_move 0 (Q123\<lparr> lastTime := 1984 \<rparr>))) = 400"
  "ply_y (player (update_move 0 (Q123\<lparr> lastTime := 1984 \<rparr>))) = 723 / 2"
  "ply_vy (player (update_move 0 (Q123\<lparr> lastTime := 1984 \<rparr>))) = 1"
  "ply_width (player (update_move 0 (Q123\<lparr> lastTime := 1984 \<rparr>))) = 40"
  "ply_height (player (update_move 0 (Q123\<lparr> lastTime := 1984 \<rparr>))) = 40"
  "ply_color (player (update_move 0 (Q123\<lparr> lastTime := 1984 \<rparr>))) = NEON_LIME"
  "jumps (player (update_move 0 (Q123\<lparr> lastTime := 1984 \<rparr>))) = 1"
  "currentPlatform (player (update_move 0 (Q123\<lparr> lastTime := 1984 \<rparr>))) = None"
  unfolding update_move_player_eq[OF Q123_refs] Q123_store
  by (simp_all add: Q123_fields Player_physics_def carry_def speedMultiplier_def Let_def config)

lemmas Q123_move = Q123_store Q123_player update_move_fields[OF Q123_refs] Q123_fields

lemma Q123_preCollision:
  "preCollision R1 1984 0 Q123 = update_move 0 (Q123\<lparr> lastTime := 1984 \<rparr>)"
  by (simp add: preCollision_def afterScroll_def scrolls_def Q123_move)

lemma Q123_landing:
  "landingPlatform (preCollision R1 1984 0 Q123) = None"
  by (simp add: Q123_preCollision landingPlatform_def hits_def Let_def Q123_move)

lemma Q124_eq:
  "Q124 = update_cosmetics (update_fall R1 (update_move 0 (Q123\<lparr> lastTime := 1984 \<rparr>)))"
  using Q123_landing
  by (simp add: Q124_def afterFrame_def update_collision_eq Q123_preCollision)

lemma Q124_fields:
  "state Q124 = Playing"
  "score Q124 = 2"
  "perfectStreak Q124 = 2"
  "isFever Q124 = False"
  "viewportWidth Q124 = 800"
  "viewportHeight Q124 = 600"
  "platforms Q124 = [2, 3, 4, 5, 6, 7]"
  "notifications Q124 = [ScoreUpdate 0, ComboChange 0, FeverChange False, GameStateChange Playing, ScoreUpdate 1, ComboChange 1, ScoreUpdate 2, ComboChange 2]"
  "store Q124 =
     [\<lparr> plat_x = 300, plat_y = 702, plat_width = 200, plat_height = 20,
        plat_color = NEON_MAGENTA, plat_vx = 0, passed = False, landedOn = False \<rparr>,
      \<lparr> plat_x = 65919 / 640, plat_y = 702, plat_width = 130, plat_height = 20,
        plat_color = NEON_LIME, plat_vx = - (7 / 2), passed = False, landedOn = True \<rparr>,
      \<lparr> plat_x = 53813 / 256, plat_y = 1195 / 2, plat_width = 130, plat_height = 20,
        plat_color = NEON_LIME, plat_vx = - (7 / 2), passed = False, landedOn = True \<rparr>,
      \<lparr> plat_x = 11249 / 40, plat_y = 895 / 2, plat_width = 130, plat_height = 20,
        plat_color = NEON_LIME, plat_vx = 7 / 2, passed = False, landedOn = False \<rparr>,
      \<lparr> plat_x = 231 / 2, plat_y = 595 / 2, plat_width = 130, plat_height = 20,
        plat_color = NEON_LIME, plat_vx = 7 / 2, passed = False, landedOn = False \<rparr>,
      \<lparr> plat_x = 231 / 2, plat_y = 295 / 2, plat_width = 130, plat_height = 20,
        plat_color = NEON_LIME, plat_vx = 7 / 2, passed = False, landedOn = False \<rparr>,
      \<lparr> plat_x = 2031 / 20, plat_y = - (5 / 2), plat_width = 130, plat_height = 20,
        plat_color = NEON_LIME, plat_vx = - (7 / 2), passed = False, landedOn = False \<rparr>,
      \<lparr> plat_x = 1367 / 5, plat_y = - (305 / 2), plat_width = 130, plat_height = 20,
        plat_color = NEON_LIME, plat_vx = - (7 / 2), passed = False, landedOn = False \<rparr>]"
  "ply_x (player Q124) = 400"
  "ply_y (player Q124) = 723 / 2"
  "ply_vy (player Q124) = 1"
  "ply_width (player Q124) = 40"
  "ply_height (player Q124) = 40"
  "ply_color (player Q124) = NEON_LIME"
  "jumps (player Q124) = 1"
  "currentPlatform (player Q124) = None"
  "rix Q124 = 200"
  unfolding Q124_eq
  by (simp_all add: tail_fields update_fall_rix landed_fields landed_store landed_score
        landed_perfectStreak landed_isFever landed_notifications landed_player landed_rix
        land_def landingNotes_def perfectHit_def Q123_move config)

lemma Q123_first: "firstLanding R1 (Frame 1984 0) Q123 = None"
  by (simp add: Q123_fields(1) Q123_landing)

lemma wf_Q123: "wf Q123" and pinned_Q123: "pinned Q123"
  using reachable_inv[OF reachable_Q123] by simp_all

lemma Q123_loop: "loop R1 1984 0 Q123 = Inr Q124"
  by (simp add: Q124_def loop_afterFrame[OF wf_Q123 Q123_fields(1)])

lemma reachable_Q124: "reachable R1 Q124"
  by (rule reachable.step[OF reachable_Q123, of "Frame 1984 0"]) (simp_all add: Q123_loop)

lemma Q124_refs: "refs_ok (Q124\<lparr> lastTime := 2000 \<rparr>)"
  by (simp add: refs_ok_def Q124_fields)

lemma Q124_store:
  "store (update_move 0 (Q124\<lparr> lastTime := 2000 \<rparr>)) =
     [\<lparr> plat_x = 300, plat_y = 702, plat_width = 200, plat_height = 20,
        plat_color = NEON_MAGENTA, plat_vx = 0, passed = False, landedOn = False \<rparr>,
      \<lparr> plat_x = 65919 / 640, plat_y = 702, plat_width = 130, plat_height = 20,
        plat_color = NEON_LIME, plat_vx = - (7 / 2), passed = False, landedOn = True \<rparr>,
      \<lparr> plat_x = 264137 / 1280, plat_y = 1195 / 2, plat_width = 130, plat_height = 20,
        plat_color = NEON_LIME, plat_vx = - (7 / 2), passed = False, landedOn = True \<rparr>,
      \<lparr> plat_x = 11403 / 40, plat_y = 895 / 2, plat_width = 130, plat_height = 20,
        plat_color = NEON_LIME, plat_vx = 7 / 2, passed = False, landedOn = False \<rparr>,
      \<lparr> plat_x = 2387 / 20, plat_y = 595 / 2, plat_width = 130, plat_height = 20,
        plat_color = NEON_LIME, plat_vx = 7 / 2, passed = False, landedOn = False \<rparr>,
      \<lparr> plat_x = 2387 / 20, plat_y = 295 / 2, plat_width = 130, plat_height = 20,
        plat_color = NEON_LIME, plat_vx = 7 / 2, passed = False, landedOn = False \<rparr>,
      \<lparr> plat_x = 977 / 10, plat_y = - (5 / 2), plat_width = 130, plat_height = 20,
        plat_color = NEON_LIME, plat_vx = - (7 / 2), passed = False, landedOn = False \<rparr>,
      \<lparr> plat_x = 5391 / 20, plat_y = - (305 / 2), plat_width = 130, plat_height = 20,
        plat_color = NEON_LIME, plat_vx = - (7 / 2), passed = False, landedOn = False \<rparr>]"
  by (simp add: update_move_eq[OF Q124_refs] Q124_fields advance_def speedMultiplier_def Let_def)

lemma Q124_player:
  "ply_x (player (update_move 0 (Q124\<lparr> lastTime := 2000 \<rparr>))) = 400"
  "ply_y (player (update_move 0 (Q124\<lparr> lastTime := 2000 \<rparr>))) = 363"
  "ply_vy (player (update_move 0 (Q124\<lparr> lastTime := 2000 \<rparr>))) = 3 / 2"
  "ply_width (player (update_move 0 (Q124\<lparr> lastTime := 2000 \<rparr>))) = 40"
  "ply_height (player (update_move 0 (Q124\<lparr> lastTime := 2000 \<rparr>))) = 40"
  "ply_color (player (update_move 0 (Q124\<lparr> lastTime := 2000 \<rparr>))) = NEON_LIME"
  "jumps (player (update_move 0 (Q124\<lparr> lastTime := 2000 \<rparr>))) = 1"
  "currentPlatform (player (update_move 0 (Q124\<lparr> lastTime := 2000 \<rparr>))) = None"
  unfolding update_move_player_eq[OF Q124_refs] Q124_store
  by (simp_all add: Q124_fields Player_physics_def carry_def speedMultiplier_def Let_def config)

lemmas Q124_move = Q124_store Q124_player update_move_fields[OF Q124_refs] Q124_fields

lemma Q124_preCollision:
  "preCollision R1 2000 0 Q124 = update_move 0 (Q124\<lparr> lastTime := 2000 \<rparr>)"
  by (simp add: preCollision_def afterScroll_def scrolls_def Q124_move)

lemma Q124_landing:
  "landingPlatform (preCollision R1 2000 0 Q124) = None"
  by (simp add: Q124_preCollision landingPlatform_def hits_def Let_def Q124_move)

lemma Q125_eq:
  "Q125 = update_cosmetics (update_fall R1 (update_move 0 (Q124\<lparr> lastTime := 2000 \<rparr>)))"
  using Q124_landing
  by (simp add: Q125_def afterFrame_def update_collision_eq Q124_preCollision)

lemma Q125_fields:
  "state Q125 = Playing"
  "score Q125 = 2"
  "perfectStreak Q125 = 2"
  "isFever Q125 = False"
  "viewportWidth Q125 = 800"
  "viewportHeight Q125 = 600"
  "platforms Q125 = [2, 3, 4, 5, 6, 7]"
  "notifications Q125 = [ScoreUpdate 0, ComboChange 0, FeverChange False, GameStateChange Playing, ScoreUpdate 1, ComboChange 1, ScoreUpdate 2, ComboChange 2]"
  "store Q125 =
     [\<lparr> plat_x = 300, plat_y = 702, plat_width = 200, plat_height = 20,
        plat_color = NEON_MAGENTA, plat_vx = 0, passed = False, landedOn = False \<rparr>,
      \<lparr> plat_x = 65919 / 640, plat_y = 702, plat_width = 130, plat_height = 20,
        plat_color = NEON_LIME, plat_vx = - (7 / 2), passed = False, landedOn = True \<rparr>,
      \<lparr> plat_x = 264137 / 1280, plat_y = 1195 / 2, plat_width = 130, plat_height = 20,
        plat_color = NEON_LIME, plat_vx = - (7 / 2), passed = False, landedOn = True \<rparr>,
      \<lparr> plat_x = 11403 / 40, plat_y = 895 / 2, plat_width = 130, plat_height = 20,
        plat_color = NEON_LIME, plat_vx = 7 / 2, passed = False, landedOn = False \<rparr>,
      \<lparr> plat_x = 2387 / 20, plat_y = 595 / 2, plat_width = 130, plat_height = 20,
        plat_color = NEON_LIME, plat_vx = 7 / 2, passed = False, landedOn = False \<rparr>,
      \<lparr> plat_x = 2387 / 20, plat_y = 295 / 2, plat_width = 130, plat_height = 20,
        plat_color = NEON_LIME, plat_vx = 7 / 2, passed = False, landedOn = False \<rparr>,
      \<lparr> plat_x = 977 / 10, plat_y = - (5 / 2), plat_width = 130, plat_height = 20,
        plat_color = NEON_LIME, plat_vx = - (7 / 2), passed = False, landedOn = False \<rparr>,
      \<lparr> plat_x = 5391 / 20, plat_y = - (305 / 2), plat_width = 130, plat_height = 20,
        plat_color = NEON_LIME, plat_vx = - (7 / 2), passed = False, landedOn = False \<rparr>]"
  "ply_x (player Q125) = 400"
  "ply_y (player Q125) = 363"
  "ply_vy (player Q125) = 3 / 2"
  "ply_width (player Q125) = 40"
  "ply_height (player Q125) = 40"
  "ply_color (player Q125) = NEON_LIME"
  "jumps (player Q125) = 1"
  "currentPlatform (player Q125) = None"
  "rix Q125 = 200"
  unfolding Q125_eq
  by (simp_all add: tail_fields update_fall_rix landed_fields landed_store landed_score
        landed_perfectStreak landed_isFever landed_notifications landed_player landed_rix
        land_def landingNotes_def perfectHit_def Q124_move config)

lemma Q124_first: "firstLanding R1 (Frame 2000 0) Q124 = None"
  by (simp add: Q124_fields(1) Q124_landing)

lemma wf_Q124: "wf Q124" and pinned_Q124: "pinned Q124"
  using reachable_inv[OF reachable_Q124] by simp_all

lemma Q124_loop: "loop R1 2000 0 Q124 = Inr Q125"
  by (simp add: Q125_def loop_afterFrame[OF wf_Q124 Q124_fields(1)])

lemma reachable_Q125: "reachable R1 Q125"
  by (rule reachable.step[OF reachable_Q124, of "Frame 2000 0"]) (simp_all add: Q124_loop)

lemma Q125_refs: "refs_ok (Q125\<lparr> lastTime := 2016 \<rparr>)"
  by (simp add: refs_ok_def Q125_fields)

lemma Q125_store:
  "store (update_move 0 (Q125\<lparr> lastTime := 2016 \<rparr>)) =
     [\<lparr> plat_x = 300, plat_y = 702, plat_width = 200, plat_height = 20,
        plat_color = NEON_MAGENTA, plat_vx = 0, passed = False, landedOn = False \<rparr>,
      \<lparr> plat_x = 65919 / 640, plat_y = 702, plat_width = 130, plat_height = 20,
        plat_color = NEON_LIME, plat_vx = - (7 / 2), passed = False, landedOn = True \<rparr>,
      \<lparr> plat_x = 259209 / 1280, plat_y = 1195 / 2, plat_width = 130, plat_height = 20,
        plat_color = NEON_LIME, plat_vx = - (7 / 2), passed = False, landedOn = True \<rparr>,
      \<lparr> plat_x = 11557 / 40, plat_y = 895 / 2, plat_width = 130, plat_height = 20,
        plat_color = NEON_LIME, plat_vx = 7 / 2, passed = False, landedOn = False \<rparr>,
      \<lparr> plat_x = 616 / 5, plat_y = 595 / 2, plat_width = 130, plat_height = 20,
        plat_color = NEON_LIME, plat_vx = 7 / 2, passed = False, landedOn = False \<rparr>,
      \<lparr> plat_x = 616 / 5, plat_y = 295 / 2, plat_width = 130, plat_height = 20,
        plat_color = NEON_LIME, plat_vx = 7 / 2, passed = False, landedOn = False \<rparr>,
      \<lparr> plat_x = 1877 / 20, plat_y = - (5 / 2), plat_width = 130, plat_height = 20,
        plat_color = NEON_LIME, plat_vx = - (7 / 2), passed = False, landedOn = False \<rparr>,
      \<lparr> plat_x = 2657 / 10, plat_y = - (305 / 2), plat_width = 130, plat_height = 20,
        plat_color = NEON_LIME, plat_vx = - (7 / 2), passed = False, landedOn = False \<rparr>]"
  by (simp add: update_move_eq[OF Q125_refs] Q125_fields advance_def speedMultiplier_def Let_def)

lemma Q125_player:
  "ply_x (player (update_move 0 (Q125\<lparr> lastTime := 2016 \<rparr>))) = 400"
  "ply_y (player (update_move 0 (Q125\<lparr> lastTime := 2016 \<rparr>))) = 365"
  "ply_vy (player (update_move 0 (Q125\<lparr> lastTime := 2016 \<rparr>))) = 2"
  "ply_width (player (update_move 0 (Q125\<lparr> lastTime := 2016 \<rparr>))) = 40"
  "ply_height (player (update_move 0 (Q125\<lparr> lastTime := 2016 \<rparr>))) = 40"
  "ply_color (player (update_move 0 (Q125\<lparr> lastTime := 2016 \<rparr>))) = NEON_LIME"
  "jumps (player (update_move 0 (Q125\<lparr> lastTime := 2016 \<rparr>))) = 1"
  "currentPlatform (player (update_move 0 (Q125\<lparr> lastTime := 2016 \<rparr>))) = None"
  unfolding update_move_player_eq[OF Q125_refs] Q125_store
  by (simp_all add: Q125_fields Player_physics_def carry_def speedMultiplier_def Let_def config)

lemmas Q125_move = Q125_store Q125_player update_move_fields[OF Q125_refs] Q125_fields

lemma Q125_preCollision:
  "preCollision R1 2016 0 Q125 = update_move 0 (Q125\<lparr> lastTime := 2016 \<rparr>)"
  by (simp add: preCollision_def afterScroll_def scrolls_def Q125_move)

lemma Q125_landing:
  "landingPlatform (preCollision R1 2016 0 Q125) = None"
  by (simp add: Q125_preCollision landingPlatform_def hits_def Let_def Q125_move)

lemma Q126_eq:
  "Q126 = update_cosmetics (update_fall R1 (update_move 0 (Q125\<lparr> lastTime := 2016 \<rparr>)))"
  using Q125_landing
  by (simp add: Q126_def afterFrame_def update_collision_eq Q125_preCollision)

lemma Q126_fields:
  "state Q126 = Playing"
  "score Q126 = 2"
  "perfectStreak Q126 = 2"
  "isFever Q126 = False"
  "viewportWidth Q126 = 800"
  "viewportHeight Q126 = 600"
  "platforms Q126 = [2, 3, 4, 5, 6, 7]"
  "notifications Q126 = [ScoreUpdate 0, ComboChange 0, FeverChange False, GameStateChange Playing, ScoreUpdate 1, ComboChange 1, ScoreUpdate 2, ComboChange 2]"
  "store Q126 =
     [\<lparr> plat_x = 300, plat_y = 702, plat_width = 200, plat_height = 20,
        plat_color = NEON_MAGENTA, plat_vx = 0, passed = False, landedOn = False \<rparr>,
      \<lparr> plat_x = 65919 / 640, plat_y = 702, plat_width = 130, plat_height = 20,
        plat_color = NEON_LIME, plat_vx = - (7 / 2), passed = False, landedOn = True \<rparr>,
      \<lparr> plat_x = 259209 / 1280, plat_y = 1195 / 2, plat_width = 130, plat_height = 20,
        plat_color = NEON_LIME, plat_vx = - (7 / 2), passed = False, landedOn = True \<rparr>,
      \<lparr> plat_x = 11557 / 40, plat_y = 895 / 2, plat_width = 130, plat_height = 20,
        plat_color = NEON_LIME, plat_vx = 7 / 2, passed = False, landedOn = False \<rparr>,
      \<lparr> plat_x = 616 / 5, plat_y = 595 / 2, plat_width = 130, plat_height = 20,
        plat_color = NEON_LIME, plat_vx = 7 / 2, passed = False, landedOn = False \<rparr>,
      \<lparr> plat_x = 616 / 5, plat_y = 295 / 2, plat_width = 130, plat_height = 20,
        plat_color = NEON_LIME, plat_vx = 7 / 2, passed = False, landedOn = False \<rparr>,
      \<lparr> plat_x = 1877 / 20, plat_y = - (5 / 2), plat_width = 130, plat_height = 20,
        plat_color = NEON_LIME, plat_vx = - (7 / 2), passed = False, landedOn = False \<rparr>,
      \<lparr> plat_x = 2657 / 10, plat_y = - (305 / 2), plat_width = 130, plat_height = 20,
        plat_color = NEON_LIME, plat_vx = - (7 / 2), passed = False, landedOn = False \<rparr>]"
  "ply_x (player Q126) = 400"
  "ply_y (player Q126) = 365"
  "ply_vy (player Q126) = 2"
  "ply_width (player Q126) = 40"
  "ply_height (player Q126) = 40"
  "ply_color (player Q126) = NEON_LIME"
  "jumps (player Q126) = 1"
  "currentPlatform (player Q126) = None"
  "rix Q126 = 200"
  unfolding Q126_eq
  by (simp_all add: tail_fields update_fall_rix landed_fields landed_store landed_score
        landed_perfectStreak landed_isFever landed_notifications landed_player landed_rix
        land_def landingNotes_def perfectHit_def Q125_move config)

lemma Q125_first: "firstLanding R1 (Frame 2016 0) Q125 = None"
  by (simp add: Q125_fields(1) Q125_landing)

lemma wf_Q125: "wf Q125" and pinned_Q125: "pinned Q125"
  using reachable_inv[OF reachable_Q125] by simp_all

lemma Q125_loop: "loop R1 2016 0 Q125 = Inr Q126"
  by (simp add: Q126_def loop_afterFrame[OF wf_Q125 Q125_fields(1)])

lemma reachable_Q126: "reachable R1 Q126"
  by (rule reachable.step[OF reachable_Q125, of "Frame 2016 0"]) (simp_all add: Q125_loop)

lemma Q126_refs: "refs_ok (Q126\<lparr> lastTime := 2032 \<rparr>)"
  by (simp add: refs_ok_def Q126_fields)

lemma Q126_store:
  "store (update_move 0 (Q126\<lparr> lastTime := 2032 \<rparr>)) =
     [\<lparr> plat_x = 300, plat_y = 702, plat_width = 200, plat_height = 20,
        plat_color = NEON_MAGENTA, plat_vx = 0, passed = False, landedOn = False \<rparr>,
      \<lparr> plat_x = 65919 / 640, plat_y = 702, plat_width = 130, plat_height = 20,
        plat_color = NEON_LIME, plat_vx = - (7 / 2), passed = False, landedOn = True \<rparr>,
      \<lparr> plat_x = 254281 / 1280, plat_y = 1195 / 2, plat_width = 130, plat_height = 20,
        plat_color = NEON_LIME, plat_vx = - (7 / 2), passed = False, landedOn = True \<rparr>,
      \<lparr> plat_x = 11711 / 40, plat_y = 895 / 2, plat_width = 130, plat_height = 20,
        plat_color = NEON_LIME, plat_vx = 7 / 2, passed = False, landedOn = False \<rparr>,
      \<lparr> plat_x = 2541 / 20, plat_y = 595 / 2, plat_width = 130, plat_height = 20,
        plat_color = NEON_LIME, plat_vx = 7 / 2, passed = False, landedOn = False \<rparr>,
      \<lparr> plat_x = 2541 / 20, plat_y = 295 / 2, plat_width = 130, plat_height = 20,
        plat_color = NEON_LIME, plat_vx = 7 / 2, passed = False, landedOn = False \<rparr>,
      \<lparr> plat_x = 90, plat_y = - (5 / 2), plat_width = 130, plat_height = 20,
        plat_color = NEON_LIME, plat_vx = - (7 / 2), passed = False, landedOn = False \<rparr>,
      \<lparr> plat_x = 5237 / 20, plat_y = - (305 / 2), plat_width = 130, plat_height = 20,
        plat_color = NEON_LIME, plat_vx = - (7 / 2), passed = False, landedOn = False \<rparr>]"
  by (simp add: update_move_eq[OF Q126_refs] Q126_fields advance_def speedMultiplier_def Let_def)

lemma Q126_player:
  "ply_x (player (update_move 0 (Q126\<lparr> lastTime := 2032 \<rparr>))) = 400"
  "ply_y (player (update_move 0 (Q126\<lparr> lastTime := 2032 \<rparr>))) = 735 / 2"
  "ply_vy (player (update_move 0 (Q126\<lparr> lastTime := 2032 \<rparr>))) = 5 / 2"
  "ply_width (player (update_move 0 (Q126\<lparr> lastTime := 2032 \<rparr>))) = 40"
  "ply_height (player (update_move 0 (Q126\<lparr> lastTime := 2032 \<rparr>))) = 40"
  "ply_color (player (update_move 0 (Q126\<lparr> lastTime := 2032 \<rparr>))) = NEON_LIME"
  "jumps (player (update_move 0 (Q126\<lparr> lastTime := 2032 \<rparr>))) = 1"
  "currentPlatform (player (update_move 0 (Q126\<lparr> lastTime := 2032 \<rparr>))) = None"
  unfolding update_move_player_eq[OF Q126_refs] Q126_store
  by (simp_all add: Q126_fields Player_physics_def carry_def speedMultiplier_def Let_def config)

lemmas Q126_move = Q126_store Q126_player update_move_fields[OF Q126_refs] Q126_fields

lemma Q126_preCollision:
  "preCollision R1 2032 0 Q126 = update_move 0 (Q126\<lparr> lastTime := 2032 \<rparr>)"
  by (simp add: preCollision_def afterScroll_def scrolls_def Q126_move)

lemma Q126_landing:
  "landingPlatform (preCollision R1 2032 0 Q126) = None"
  by (simp add: Q126_preCollision landingPlatform_def hits_def Let_def Q126_move)

lemma Q127_eq:
  "Q127 = update_cosmetics (update_fall R1 (update_move 0 (Q126\<lparr> lastTime := 2032 \<rparr>)))"
  using Q126_landing
  by (simp add: Q127_def afterFrame_def update_collision_eq Q126_preCollision)

lemma Q127_fields:
  "state Q127 = Playing"
  "score Q127 = 2"
  "perfectStreak Q127 = 2"
  "isFever Q127 = False"
  "viewportWidth Q127 = 800"
  "viewportHeight Q127 = 600"
  "platforms Q127 = [2, 3, 4, 5, 6, 7]"
  "notifications Q127 = [ScoreUpdate 0, ComboChange 0, FeverChange False, GameStateChange Playing, ScoreUpdate 1, ComboChange 1, ScoreUpdate 2, ComboChange 2]"
  "store Q127 =
     [\<lparr> plat_x = 300, plat_y = 702, plat_width = 200, plat_height = 20,
        plat_color = NEON_MAGENTA, plat_vx = 0, passed = False, landedOn = False \<rparr>,
      \<lparr> plat_x = 65919 / 640, plat_y = 702, plat_width = 130, plat_height = 20,
        plat_color = NEON_LIME, plat_vx = - (7 / 2), passed = False, landedOn = True \<rparr>,
      \<lparr> plat_x = 254281 / 1280, plat_y = 1195 / 2, plat_width = 130, plat_height = 20,
        plat_color = NEON_LIME, plat_vx = - (7 / 2), passed = False, landedOn = True \<rparr>,
      \<lparr> plat_x = 11711 / 40, plat_y = 895 / 2, plat_width = 130, plat_height = 20,
        plat_color = NEON_LIME, plat_vx = 7 / 2, passed = False, landedOn = False \<rparr>,
      \<lparr> plat_x = 2541 / 20, plat_y = 595 / 2, plat_width = 130, plat_height = 20,
        plat_color = NEON_LIME, plat_vx = 7 / 2, passed = False, landedOn = False \<rparr>,
      \<lparr> plat_x = 2541 / 20, plat_y = 295 / 2, plat_width = 130, plat_height = 20,
        plat_color = NEON_LIME, plat_vx = 7 / 2, passed = False, landedOn = False \<rparr>,
      \<lparr> plat_x = 90, plat_y = - (5 / 2), plat_width = 130, plat_height = 20,
        plat_color = NEON_LIME, plat_vx = - (7 / 2), passed = False, landedOn = False \<rparr>,
      \<lparr> plat_x = 5237 / 20, plat_y = - (305 / 2), plat_width = 130, plat_height = 20,
        plat_color = NEON_LIME, plat_vx = - (7 / 2), passed = False, landedOn = False \<rparr>]"
  "ply_x (player Q127) = 400"
  "ply_y (player Q127) = 735 / 2"
  "ply_vy (player Q127) = 5 / 2"
  "ply_width (player Q127) = 40"
  "ply_height (player Q127) = 40"
  "ply_color (player Q127) = NEON_LIME"
  "jumps (player Q127) = 1"
  "currentPlatform (player Q127) = None"
  "rix Q127 = 200"
  unfolding Q127_eq
  by (simp_all add: tail_fields update_fall_rix landed_fields landed_store landed_score
        landed_perfectStreak landed_isFever landed_notifications landed_player landed_rix
        land_def landingNotes_def perfectHit_def Q126_move config)

lemma Q126_first: "firstLanding R1 (Frame 2032 0) Q126 = None"
  by (simp add: Q126_fields(1) Q126_landing)

lemma wf_Q126: "wf Q126" and pinned_Q126: "pinned Q126"
  using reachable_inv[OF reachable_Q126] by simp_all

lemma Q126_loop: "loop R1 2032 0 Q126 = Inr Q127"
  by (simp add: Q127_def loop_afterFrame[OF wf_Q126 Q126_fields(1)])

lemma reachable_Q127: "reachable R1 Q127"
  by (rule reachable.step[OF reachable_Q126, of "Frame 2032 0"]) (simp_all add: Q126_loop)

lemma Q127_refs: "refs_ok (Q127\<lparr> lastTime := 2048 \<rparr>)"
  by (simp add: refs_ok_def Q127_fields)

lemma Q127_store:
  "store (update_move 0 (Q127\<lparr> lastTime := 2048 \<rparr>)) =
     [\<lparr> plat_x = 300, plat_y = 702, plat_width = 200, plat_height = 20,
        plat_color = NEON_MAGENTA, plat_vx = 0, passed = False, landedOn = False \<rparr>,
      \<lparr> plat_x = 65919 / 640, plat_y = 702, plat_width = 130, plat_height = 20,
        plat_color = NEON_LIME, plat_vx = - (7 / 2), passed = False, landedOn = True \<rparr>,
      \<lparr> plat_x = 249353 / 1280, plat_y = 1195 / 2, plat_width = 130, plat_height = 20,
        plat_color = NEON_LIME, plat_vx = - (7 / 2), passed = False, landedOn = True \<rparr>,
      \<lparr> plat_x = 2373 / 8, plat_y = 895 / 2, plat_width = 130, plat_height = 20,
        plat_color = NEON_LIME, plat_vx = 7 / 2, passed = False, landedOn = False \<rparr>,
      \<lparr> plat_x = 1309 / 10, plat_y = 595 / 2, plat_width = 130, plat_height = 20,
        plat_color = NEON_LIME, plat_vx = 7 / 2, passed = False, landedOn = False \<rparr>,
      \<lparr> plat_x = 1309 / 10, plat_y = 295 / 2, plat_width = 130, plat_height = 20,
        plat_color = NEON_LIME, plat_vx = 7 / 2, passed = False, landedOn = False \<rparr>,
      \<lparr> plat_x = 1723 / 20, plat_y = - (5 / 2), plat_width = 130, plat_height = 20,
        plat_color = NEON_LIME, plat_vx = - (7 / 2), passed = False, landedOn = False \<rparr>,
      \<lparr> plat_x = 258, plat_y = - (305 / 2), plat_width = 130, plat_height = 20,
        plat_color = NEON_LIME, plat_vx = - (7 / 2), passed = False, landedOn = False \<rparr>]"
  by (simp add: update_move_eq[OF Q127_refs] Q127_fields advance_def speedMultiplier_def Let_def)

lemma Q127_player:
  "ply_x (player (update_move 0 (Q127\<lparr> lastTime := 2048 \<rparr>))) = 400"
  "ply_y (player (update_move 0 (Q127\<lparr> lastTime := 2048 \<rparr>))) = 741 / 2"
  "ply_vy (player (update_move 0 (Q127\<lparr> lastTime := 2048 \<rparr>))) = 3"
  "ply_width (player (update_move 0 (Q127\<lparr> lastTime := 2048 \<rparr>))) = 40"
  "ply_height (player (update_move 0 (Q127\<lparr> lastTime := 2048 \<rparr>))) = 40"
  "ply_color (player (update_move 0 (Q127\<lparr> lastTime := 2048 \<rparr>))) = NEON_LIME"
  "jumps (player (update_move 0 (Q127\<lparr> lastTime := 2048 \<rparr>))) = 1"
  "currentPlatform (player (update_move 0 (Q127\<lparr> lastTime := 2048 \<rparr>))) = None"
  unfolding update_move_player_eq[OF Q127_refs] Q127_store
  by (simp_all add: Q127_fields Player_physics_def carry_def speedMultiplier_def Let_def config)

lemmas Q127_move = Q127_store Q127_player update_move_fields[OF Q127_refs] Q127_fields

lemma Q127_preCollision:
  "preCollision R1 2048 0 Q127 = update_move 0 (Q127\<lparr> lastTime := 2048 \<rparr>)"
  by (simp add: preCollision_def afterScroll_def scrolls_def Q127_move)

lemma Q127_landing:
  "landingPlatform (preCollision R1 2048 0 Q127) = None"
  by (simp add: Q127_preCollision landingPlatform_def hits_def Let_def Q127_move)

lemma Q128_eq:
  "Q128 = update_cosmetics (update_fall R1 (update_move 0 (Q127\<lparr> lastTime := 2048 \<rparr>)))"
  using Q127_landing
  by (simp add: Q128_def afterFrame_def update_collision_eq Q127_preCollision)

lemma Q128_fields:
  "state Q128 = Playing"
  "score Q128 = 2"
  "perfectStreak Q128 = 2"
  "isFever Q128 = False"
  "viewportWidth Q128 = 800"
  "viewportHeight Q128 = 600"
  "platforms Q128 = [2, 3, 4, 5, 6, 7]"
  "notifications Q128 = [ScoreUpdate 0, ComboChange 0, FeverChange False, GameStateChange Playing, ScoreUpdate 1, ComboChange 1, ScoreUpdate 2, ComboChange 2]"
  "store Q128 =
     [\<lparr> plat_x = 300, plat_y = 702, plat_width = 200, plat_height = 20,
        plat_color = NEON_MAGENTA, plat_vx = 0, passed = False, landedOn = False \<rparr>,
      \<lparr> plat_x = 65919 / 640, plat_y = 702, plat_width = 130, plat_height = 20,
        plat_color = NEON_LIME, plat_vx = - (7 / 2), passed = False, landedOn = True \<rparr>,
      \<lparr> plat_x = 249353 / 1280, plat_y = 1195 / 2, plat_width = 130, plat_height = 20,
        plat_color = NEON_LIME, plat_vx = - (7 / 2), passed = False, landedOn = True \<rparr>,
      \<lparr> plat_x = 2373 / 8, plat_y = 895 / 2, plat_width = 130, plat_height = 20,
        plat_color = NEON_LIME, plat_vx = 7 / 2, passed = False, landedOn = False \<rparr>,
      \<lparr> plat_x = 1309 / 10, plat_y = 595 / 2, plat_width = 130, plat_height = 20,
        plat_color = NEON_LIME, plat_vx = 7 / 2, passed = False, landedOn = False \<rparr>,
      \<lparr> plat_x = 1309 / 10, plat_y = 295 / 2, plat_width = 130, plat_height = 20,
        plat_color = NEON_LIME, plat_vx = 7 / 2, passed = False, landedOn = False \<rparr>,
      \<lparr> plat_x = 1723 / 20, plat_y = - (5 / 2), plat_width = 130, plat_height = 20,
        plat_color = NEON_LIME, plat_vx = - (7 / 2), passed = False, landedOn = False \<rparr>,
      \<lparr> plat_x = 258, plat_y = - (305 / 2), plat_width = 130, plat_height = 20,
        plat_color = NEON_LIME, plat_vx = - (7 / 2), passed = False, landedOn = False \<rparr>]"
  "ply_x (player Q128) = 400"
  "ply_y (player Q128) = 741 / 2"
  "ply_vy (player Q128) = 3"
  "ply_width (player Q128) = 40"
  "ply_height (player Q128) = 40"
  "ply_color (player Q128) = NEON_LIME"
  "jumps (player Q128) = 1"
  "currentPlatform (player Q128) = None"
  "rix Q128 = 200"
  unfolding Q128_eq
  by (simp_all add: tail_fields update_fall_rix landed_fields landed_store landed_score
        landed_perfectStreak landed_isFever landed_notifications landed_player landed_rix
        land_def landingNotes_def perfectHit_def Q127_move config)

lemma Q127_first: "firstLanding R1 (Frame 2048 0) Q127 = None"
  by (simp add: Q127_fields(1) Q127_landing)

lemma wf_Q127: "wf Q127" and pinned_Q127: "pinned Q127"
  using reachable_inv[OF reachable_Q127] by simp_all

lemma Q127_loop: "loop R1 2048 0 Q127 = Inr Q128"
  by (simp add: Q128_def loop_afterFrame[OF wf_Q127 Q127_fields(1)])

lemma reachable_Q128: "reachable R1 Q128"
  by (rule reachable.step[OF reachable_Q127, of "Frame 2048 0"]) (simp_all add: Q127_loop)

lemma Q128_refs: "refs_ok (Q128\<lparr> lastTime := 2064 \<rparr>)"
  by (simp add: refs_ok_def Q128_fields)

lemma Q128_store:
  "store (update_move 0 (Q128\<lparr> lastTime := 2064 \<rparr>)) =
     [\<lparr> plat_x = 300, plat_y = 702, plat_width = 200, plat_height = 20,
        plat_color = NEON_MAGENTA, plat_vx = 0, passed = False, landedOn = False \<rparr>,
      \<lparr> plat_x = 65919 / 640, plat_y = 702, plat_width = 130, plat_height = 20,
        plat_color = NEON_LIME, plat_vx = - (7 / 2), passed = False, landedOn = True \<rparr>,
      \<lparr> plat_x = 48885 / 256, plat_y = 1195 / 2, plat_width = 130, plat_height = 20,
        plat_color = NEON_LIME, plat_vx = - (7 / 2), passed = False, landedOn = True \<rparr>,
      \<lparr> plat_x = 12019 / 40, plat_y = 895 / 2, plat_width = 130, plat_height = 20,
        plat_color = NEON_LIME, plat_vx = 7 / 2, passed = False, landedOn = False \<rparr>,
      \<lparr> plat_x = 539 / 4, plat_y = 595 / 2, plat_width = 130, plat_height = 20,
        plat_color = NEON_LIME, plat_vx = 7 / 2, passed = False, landedOn = False \<rparr>,
      \<lparr> plat_x = 539 / 4, plat_y = 295 / 2, plat_width = 130, plat_height = 20,
        plat_color = NEON_LIME, plat_vx = 7 / 2, passed = False, landedOn = False \<rparr>,
      \<lparr> plat_x = 823 / 10, plat_y = - (5 / 2), plat_width = 130, plat_height = 20,
        plat_color = NEON_LIME, plat_vx = - (7 / 2), passed = False, landedOn = False \<rparr>,
      \<lparr> plat_x = 5083 / 20, plat_y = - (305 / 2), plat_width = 130, plat_height = 20,
        plat_color = NEON_LIME, plat_vx = - (7 / 2), passed = False, landedOn = False \<rparr>]"
  by (simp add: update_move_eq[OF Q128_refs] Q128_fields advance_def speedMultiplier_def Let_def)

lemma Q128_player:
  "ply_x (player (update_move 0 (Q128\<lparr> lastTime := 2064 \<rparr>))) = 400"
  "ply_y (player (update_move 0 (Q128\<lparr> lastTime := 2064 \<rparr>))) = 374"
  "ply_vy (player (update_move 0 (Q128\<lparr> lastTime := 2064 \<rparr>))) = 7 / 2"
  "ply_width (player (update_move 0 (Q128\<lparr> lastTime := 2064 \<rparr>))) = 40"
  "ply_height (player (update_move 0 (Q128\<lparr> lastTime := 2064 \<rparr>))) = 40"
  "ply_color (player (update_move 0 (Q128\<lparr> lastTime := 2064 \<rparr>))) = NEON_LIME"
  "jumps (player (update_move 0 (Q128\<lparr> lastTime := 2064 \<rparr>))) = 1"
  "currentPlatform (player (update_move 0 (Q128\<lparr> lastTime := 2064 \<rparr>))) = None"
  unfolding update_move_player_eq[OF Q128_refs] Q128_store
  by (simp_all add: Q128_fields Player_physics_def carry_def speedMultiplier_def Let_def config)

lemmas Q128_move = Q128_store Q128_player update_move_fields[OF Q128_refs] Q128_fields

lemma Q128_preCollision:
  "preCollision R1 2064 0 Q128 = update_move 0 (Q128\<lparr> lastTime := 2064 \<rparr>)"
  by (simp add: preCollision_def afterScroll_def scrolls_def Q128_move)

lemma Q128_landing:
  "landingPlatform (preCollision R1 2064 0 Q128) = None"
  by (simp add: Q128_preCollision landingPlatform_def hits_def Let_def Q128_move)

lemma Q129_eq:
  "Q129 = update_cosmetics (update_fall R1 (update_move 0 (Q128\<lparr> lastTime := 2064 \<rparr>)))"
  using Q128_landing
  by (simp add: Q129_def afterFrame_def update_collision_eq Q128_preCollision)

lemma Q129_fields:
  "state Q129 = Playing"
  "score Q129 = 2"
  "perfectStreak Q129 = 2"
  "isFever Q129 = False"
  "viewportWidth Q129 = 800"
  "viewportHeight Q129 = 600"
  "platforms Q129 = [2, 3, 4, 5, 6, 7]"
  "notifications Q129 = [ScoreUpdate 0, ComboChange 0, FeverChange False, GameStateChange Playing, ScoreUpdate 1, ComboChange 1, ScoreUpdate 2, ComboChange 2]"
  "store Q129 =
     [\<lparr> plat_x = 300, plat_y = 702, plat_width = 200, plat_height = 20,
        plat_color = NEON_MAGENTA, plat_vx = 0, passed = False, landedOn = False \<rparr>,
      \<lparr> plat_x = 65919 / 640, plat_y = 702, plat_width = 130, plat_height = 20,
        plat_color = NEON_LIME, plat_vx = - (7 / 2), passed = False, landedOn = True \<rparr>,
      \<lparr> plat_x = 48885 / 256, plat_y = 1195 / 2, plat_width = 130, plat_height = 20,
        plat_color = NEON_LIME, plat_vx = - (7 / 2), passed = False, landedOn = True \<rparr>,
      \<lparr> plat_x = 12019 / 40, plat_y = 895 / 2, plat_width = 130, plat_height = 20,
        plat_color = NEON_LIME, plat_vx = 7 / 2, passed = False, landedOn = False \<rparr>,
      \<lparr> plat_x = 539 / 4, plat_y = 595 / 2, plat_width = 130, plat_height = 20,
        plat_color = NEON_LIME, plat_vx = 7 / 2, passed = False, landedOn = False \<rparr>,
      \<lparr> plat_x = 539 / 4, plat_y = 295 / 2, plat_width = 130, plat_height = 20,
        plat_color = NEON_LIME, plat_vx = 7 / 2, passed = False, landedOn = False \<rparr>,
      \<lparr> plat_x = 823 / 10, plat_y = - (5 / 2), plat_width = 130, plat_height = 20,
        plat_color = NEON_LIME, plat_vx = - (7 / 2), passed = False, landedOn = False \<rparr>,
      \<lparr> plat_x = 5083 / 20, plat_y = - (305 / 2), plat_width = 130, plat_height = 20,
        plat_color = NEON_LIME, plat_vx = - (7 / 2), passed = False, landedOn = False \<rparr>]"
  "ply_x (player Q129) = 400"
  "ply_y (player Q129) = 374"
  "ply_vy (player Q129) = 7 / 2"
  "ply_width (player Q129) = 40"
  "ply_height (player Q129) = 40"
  "ply_color (player Q129) = NEON_LIME"
  "jumps (player Q129) = 1"
  "currentPlatform (player Q129) = None"
  "rix Q129 = 200"
  unfolding Q129_eq
  by (simp_all add: tail_fields update_fall_rix landed_fields landed_store landed_score
        landed_perfectStreak landed_isFever landed_notifications landed_player landed_rix
        land_def landingNotes_def perfectHit_def Q128_move config)

lemma Q128_first: "firstLanding R1 (Frame 2064 0) Q128 = None"
  by (simp add: Q128_fields(1) Q128_landing)

lemma wf_Q128: "wf Q128" and pinned_Q128: "pinned Q128"
  using reachable_inv[OF reachable_Q128] by simp_all

lemma Q128_loop: "loop R1 2064 0 Q128 = Inr Q129"
  by (simp add: Q129_def loop_afterFrame[OF wf_Q128 Q128_fields(1)])

lemma reachable_Q129: "reachable R1 Q129"
  by (rule reachable.step[OF reachable_Q128, of "Frame 2064 0"]) (simp_all add: Q128_loop)

lemma Q129_refs: "refs_ok (Q129\<lparr> lastTime := 2080 \<rparr>)"
  by (simp add: refs_ok_def Q129_fields)

lemma Q129_store:
  "store (update_move 0 (Q129\<lparr> lastTime := 2080 \<rparr>)) =
     [\<lparr> plat_x = 300, plat_y = 702, plat_width = 200, plat_height = 20,
        plat_color = NEON_MAGENTA, plat_vx = 0, passed = False, landedOn = False \<rparr>,
      \<lparr> plat_x = 65919 / 640, plat_y = 702, plat_width = 130, plat_height = 20,
        plat_color = NEON_LIME, plat_vx = - (7 / 2), passed = False, landedOn = True \<rparr>,
      \<lparr> plat_x = 239497 / 1280, plat_y = 1195 / 2, plat_width = 130, plat_height = 20,
        plat_color = NEON_LIME, plat_vx = - (7 / 2), passed = False, landedOn = True \<rparr>,
      \<lparr> plat_x = 12173 / 40, plat_y = 895 / 2, plat_width = 130, plat_height = 20,
        plat_color = NEON_LIME, plat_vx = 7 / 2, passed = False, landedOn = False \<rparr>,
      \<lparr> plat_x = 693 / 5, plat_y = 595 / 2, plat_width = 130, plat_height = 20,
        plat_color = NEON_LIME, plat_vx = 7 / 2, passed = False, landedOn = False \<rparr>,
      \<lparr> plat_x = 693 / 5, plat_y = 295 / 2, plat_width = 130, plat_height = 20,
        plat_color = NEON_LIME, plat_vx = 7 / 2, passed = False, landedOn = False \<rparr>,
      \<lparr> plat_x = 1569 / 20, plat_y = - (5 / 2), plat_width = 130, plat_height = 20,
        plat_color = NEON_LIME, plat_vx = - (7 / 2), passed = False, landedOn = False \<rparr>,
      \<lparr> plat_x = 2503 / 10, plat_y = - (305 / 2), plat_width = 130, plat_height = 20,
        plat_color = NEON_LIME, plat_vx = - (7 / 2), passed = False, landedOn = False \<rparr>]"
  by (simp add: update_move_eq[OF Q129_refs] Q129_fields advance_def speedMultiplier_def Let_def)

lemma Q129_player:
  "ply_x (player (update_move 0 (Q129\<lparr> lastTime := 2080 \<rparr>))) = 400"
  "ply_y (player (update_move 0 (Q129\<lparr> lastTime := 2080 \<rparr>))) = 378"
  "ply_vy (player (update_move 0 (Q129\<lparr> lastTime := 2080 \<rparr>))) = 4"
  "ply_width (player (update_move 0 (Q129\<lparr> lastTime := 2080 \<rparr>))) = 40"
  "ply_height (player (update_move 0 (Q129\<lparr> lastTime := 2080 \<rparr>))) = 40"
  "ply_color (player (update_move 0 (Q129\<lparr> lastTime := 2080 \<rparr>))) = NEON_LIME"
  "jumps (player (update_move 0 (Q129\<lparr> lastTime := 2080 \<rparr>))) = 1"
  "currentPlatform (player (update_move 0 (Q129\<lparr> lastTime := 2080 \<rparr>))) = None"
  unfolding update_move_player_eq[OF Q129_refs] Q129_store
  by (simp_all add: Q129_fields Player_physics_def carry_def speedMultiplier_def Let_def config)

lemmas Q129_move = Q129_store Q129_player update_move_fields[OF Q129_refs] Q129_fields

lemma Q129_preCollision:
  "preCollision R1 2080 0 Q129 = update_move 0 (Q129\<lparr> lastTime := 2080 \<rparr>)"
  by (simp add: preCollision_def afterScroll_def scrolls_def Q129_move)

lemma Q129_landing:
  "landingPlatform (preCollision R1 2080 0 Q129) = None"
  by (simp add: Q129_preCollision landingPlatform_def hits_def Let_def Q129_move)

lemma Q130_eq:
  "Q130 = update_cosmetics (update_fall R1 (update_move 0 (Q129\<lparr> lastTime := 2080 \<rparr>)))"
  using Q129_landing
  by (simp add: Q130_def afterFrame_def update_collision_eq Q129_preCollision)

lemma Q130_fields:
  "state Q130 = Playing"
  "score Q130 = 2"
  "perfectStreak Q130 = 2"
  "isFever Q130 = False"
  "viewportWidth Q130 = 800"
  "viewportHeight Q130 = 600"
  "platforms Q130 = [2, 3, 4, 5, 6, 7]"
  "notifications Q130 = [ScoreUpdate 0, ComboChange 0, FeverChange False, GameStateChange Playing, ScoreUpdate 1, ComboChange 1, ScoreUpdate 2, ComboChange 2]"
  "store Q130 =
     [\<lparr> plat_x = 300, plat_y = 702, plat_width = 200, plat_height = 20,
        plat_color = NEON_MAGENTA, plat_vx = 0, passed = False, landedOn = False \<rparr>,
      \<lparr> plat_x = 65919 / 640, plat_y = 702, plat_width = 130, plat_height = 20,
        plat_color = NEON_LIME, plat_vx = - (7 / 2), passed = False, landedOn = True \<rparr>,
      \<lparr> plat_x = 239497 / 1280, plat_y = 1195 / 2, plat_width = 130, plat_height = 20,
        plat_color = NEON_LIME, plat_vx = - (7 / 2), passed = False, landedOn = True \<rparr>,
      \<lparr> plat_x = 12173 / 40, plat_y = 895 / 2, plat_width = 130, plat_height = 20,
        plat_color = NEON_LIME, plat_vx = 7 / 2, passed = False, landedOn = False \<rparr>,
      \<lparr> plat_x = 693 / 5, plat_y = 595 / 2, plat_width = 130, plat_height = 20,
        plat_color = NEON_LIME, plat_vx = 7 / 2, passed = False, landedOn = False \<rparr>,
      \<lparr> plat_x = 693 / 5, plat_y = 295 / 2, plat_width = 130, plat_height = 20,
        plat_color = NEON_LIME, plat_vx = 7 / 2, passed = False, landedOn = False \<rparr>,
      \<lparr> plat_x = 1569 / 20, plat_y = - (5 / 2), plat_width = 130, plat_height = 20,
        plat_color = NEON_LIME, plat_vx = - (7 / 2), passed = False, landedOn = False \<rparr>,
      \<lparr> plat_x = 2503 / 10, plat_y = - (305 / 2), plat_width = 130, plat_height = 20,
        plat_color = NEON_LIME, plat_vx = - (7 / 2), passed = False, landedOn = False \<rparr>]"
  "ply_x (player Q130) = 400"
  "ply_y (player Q130) = 378"
  "ply_vy (player Q130) = 4"
  "ply_width (player Q130) = 40"
  "ply_height (player Q130) = 40"
  "ply_color (player Q130) = NEON_LIME"
  "jumps (player Q130) = 1"
  "currentPlatform (player Q130) = None"
  "rix Q130 = 200"
  unfolding Q130_eq
  by (simp_all add: tail_fields update_fall_rix landed_fields landed_store landed_score
        landed_perfectStreak landed_isFever landed_notifications landed_player landed_rix
        land_def landingNotes_def perfectHit_def Q129_move config)

lemma Q129_first: "firstLanding R1 (Frame 2080 0) Q129 = None"
  by (simp add: Q129_fields(1) Q129_landing)

lemma wf_Q129: "wf Q129" and pinned_Q129: "pinned Q129"
  using reachable_inv[OF reachable_Q129] by simp_all

lemma Q129_loop: "loop R1 2080 0 Q129 = Inr Q130"
  by (simp add: Q130_def loop_afterFrame[OF wf_Q129 Q129_fields(1)])

lemma reachable_Q130: "reachable R1 Q130"
  by (rule reachable.step[OF reachable_Q129, of "Frame 2080 0"]) (simp_all add: Q129_loop)

lemma Q130_refs: "refs_ok (Q130\<lparr> lastTime := 2096 \<rparr>)"
  by (simp add: refs_ok_def Q130_fields)

lemma Q130_store:
  "store (update_move 0 (Q130\<lparr> lastTime := 2096 \<rparr>)) =
     [\<lparr> plat_x = 300, plat_y = 702, plat_width = 200, plat_height = 20,
        plat_color = NEON_MAGENTA, plat_vx = 0, passed = False, landedOn = False \<rparr>,
      \<lparr> plat_x = 65919 / 640, plat_y = 702, plat_width = 130, plat_height = 20,
        plat_color = NEON_LIME, plat_vx = - (7 / 2), passed = False, landedOn = True \<rparr>,
      \<lparr> plat_x = 234569 / 1280, plat_y = 1195 / 2, plat_width = 130, plat_height = 20,
        plat_color = NEON_LIME, plat_vx = - (7 / 2), passed = False, landedOn = True \<rparr>,
      \<lparr> plat_x = 12327 / 40, plat_y = 895 / 2, plat_width = 130, plat_height = 20,
        plat_color = NEON_LIME, plat_vx = 7 / 2, passed = False, landedOn = False \<rparr>,
      \<lparr> plat_x = 2849 / 20, plat_y = 595 / 2, plat_width = 130, plat_height = 20,
        plat_color = NEON_LIME, plat_vx = 7 / 2, passed = False, landedOn = False \<rparr>,
      \<lparr> plat_x = 2849 / 20, plat_y = 295 / 2, plat_width = 130, plat_height = 20,
        plat_color = NEON_LIME, plat_vx = 7 / 2, passed = False, landedOn = False \<rparr>,
      \<lparr> plat_x = 373 / 5, plat_y = - (5 / 2), plat_width = 130, plat_height = 20,
        plat_color = NEON_LIME, plat_vx = - (7 / 2), passed = False, landedOn = False \<rparr>,
      \<lparr> plat_x = 4929 / 20, plat_y = - (305 / 2), plat_width = 130, plat_height = 20,
        plat_color = NEON_LIME, plat_vx = - (7 / 2), passed = False, landedOn = False \<rparr>]"
  by (simp add: update_move_eq[OF Q130_refs] Q130_fields advance_def speedMultiplier_def Let_def)

lemma Q130_player:
  "ply_x (player (update_move 0 (Q130\<lparr> lastTime := 2096 \<rparr>))) = 400"
  "ply_y (player (update_move 0 (Q130\<lparr> lastTime := 2096 \<rparr>))) = 765 / 2"
  "ply_vy (player (update_move 0 (Q130\<lparr> lastTime := 2096 \<rparr>))) = 9 / 2"
  "ply_width (player (update_move 0 (Q130\<lparr> lastTime := 2096 \<rparr>))) = 40"
  "ply_height (player (update_move 0 (Q130\<lparr> lastTime := 2096 \<rparr>))) = 40"
  "ply_color (player (update_move 0 (Q130\<lparr> lastTime := 2096 \<rparr>))) = NEON_LIME"
  "jumps (player (update_move 0 (Q130\<lparr> lastTime := 2096 \<rparr>))) = 1"
  "currentPlatform (player (update_move 0 (Q130\<lparr> lastTime := 2096 \<rparr>))) = None"
  unfolding update_move_player_eq[OF Q130_refs] Q130_store
  by (simp_all add: Q130_fields Player_physics_def carry_def speedMultiplier_def Let_def config)

lemmas Q130_move = Q130_store Q130_player update_move_fields[OF Q130_refs] Q130_fields

lemma Q130_preCollision:
  "preCollision R1 2096 0 Q130 = update_move 0 (Q130\<lparr> lastTime := 2096 \<rparr>)"
  by (simp add: preCollision_def afterScroll_def scrolls_def Q130_move)

lemma Q130_landing:
  "landingPlatform (preCollision R1 2096 0 Q130) = None"
  by (simp add: Q130_preCollision landingPlatform_def hits_def Let_def Q130_move)

lemma Q131_eq:
  "Q131 = update_cosmetics (update_fall R1 (update_move 0 (Q130\<lparr> lastTime := 2096 \<rparr>)))"
  using Q130_landing
  by (simp add: Q131_def afterFrame_def update_collision_eq Q130_preCollision)

lemma Q131_fields:
  "state Q131 = Playing"
  "score Q131 = 2"
  "perfectStreak Q131 = 2"
  "isFever Q131 = False"
  "viewportWidth Q131 = 800"
  "viewportHeight Q131 = 600"
  "platforms Q131 = [2, 3, 4, 5, 6, 7]"
  "notifications Q131 = [ScoreUpdate 0, ComboChange 0, FeverChange False, GameStateChange Playing, ScoreUpdate 1, ComboChange 1, ScoreUpdate 2, ComboChange 2]"
  "store Q131 =
     [\<lparr> plat_x = 300, plat_y = 702, plat_width = 200, plat_height = 20,
        plat_color = NEON_MAGENTA, plat_vx = 0, passed = False, landedOn = False \<rparr>,
      \<lparr> plat_x = 65919 / 640, plat_y = 702, plat_width = 130, plat_height = 20,
        plat_color = NEON_LIME, plat_vx = - (7 / 2), passed = False, landedOn = True \<rparr>,
      \<lparr> plat_x = 234569 / 1280, plat_y = 1195 / 2, plat_width = 130, plat_height = 20,
        plat_color = NEON_LIME, plat_vx = - (7 / 2), passed = False, landedOn = True \<rparr>,
      \<lparr> plat_x = 12327 / 40, plat_y = 895 / 2, plat_width = 130, plat_height = 20,
        plat_color = NEON_LIME, plat_vx = 7 / 2, passed = False, landedOn = False \<rparr>,
      \<lparr> plat_x = 2849 / 20, plat_y = 595 / 2, plat_width = 130, plat_height = 20,
        plat_color = NEON_LIME, plat_vx = 7 / 2, passed = False, landedOn = False \<rparr>,
      \<lparr> plat_x = 2849 / 20, plat_y = 295 / 2, plat_width = 130, plat_height = 20,
        plat_color = NEON_LIME, plat_vx = 7 / 2, passed = False, landedOn = False \<rparr>,
      \<lparr> plat_x = 373 / 5, plat_y = - (5 / 2), plat_width = 130, plat_height = 20,
        plat_color = NEON_LIME, plat_vx = - (7 / 2), passed = False, landedOn = False \<rparr>,
      \<lparr> plat_x = 4929 / 20, plat_y = - (305 / 2), plat_width = 130, plat_height = 20,
        plat_color = NEON_LIME, plat_vx = - (7 / 2), passed = False, landedOn = False \<rparr>]"
  "ply_x (player Q131) = 400"
  "ply_y (player Q131) = 765 / 2"
  "ply_vy (player Q131) = 9 / 2"
  "ply_width (player Q131) = 40"
  "ply_height (player Q131) = 40"
  "ply_color (player Q131) = NEON_LIME"
  "jumps (player Q131) = 1"
  "currentPlatform (player Q131) = None"
  "rix Q131 = 200"
  unfolding Q131_eq
  by (simp_all add: tail_fields update_fall_rix landed_fields landed_store landed_score
        landed_perfectStreak landed_isFever landed_notifications landed_player landed_rix
        land_def landingNotes_def perfectHit_def Q130_move config)

lemma Q130_first: "firstLanding R1 (Frame 2096 0) Q130 = None"
  by (simp add: Q130_fields(1) Q130_landing)

lemma wf_Q130: "wf Q130" and pinned_Q130: "pinned Q130"
  using reachable_inv[OF reachable_Q130] by simp_all

lemma Q130_loop: "loop R1 2096 0 Q130 = Inr Q131"
  by (simp add: Q131_def loop_afterFrame[OF wf_Q130 Q130_fields(1)])

lemma reachable_Q131: "reachable R1 Q131"
  by (rule reachable.step[OF reachable_Q130, of "Frame 2096 0"]) (simp_all add: Q130_loop)

lemma Q131_refs: "refs_ok (Q131\<lparr> lastTime := 2112 \<rparr>)"
  by (simp add: refs_ok_def Q131_fields)

lemma Q131_store:
  "store (update_move 0 (Q131\<lparr> lastTime := 2112 \<rparr>)) =
     [\<lparr> plat_x = 300, plat_y = 702, plat_width = 200, plat_height = 20,
        plat_color = NEON_MAGENTA, plat_vx = 0, passed = False, landedOn = False \<rparr>,
      \<lparr> plat_x = 65919 / 640, plat_y = 702, plat_width = 130, plat_height = 20,
        plat_color = NEON_LIME, plat_vx = - (7 / 2), passed = False, landedOn = True \<rparr>,
      \<lparr> plat_x = 229641 / 1280, plat_y = 1195 / 2, plat_width = 130, plat_height = 20,
        plat_color = NEON_LIME, plat_vx = - (7 / 2), passed = False, landedOn = True \<rparr>,
      \<lparr> plat_x = 12481 / 40, plat_y = 895 / 2, plat_width = 130, plat_height = 20,
        plat_color = NEON_LIME, plat_vx = 7 / 2, passed = False, landedOn = False \<rparr>,
      \<lparr> plat_x = 1463 / 10, plat_y = 595 / 2, plat_width = 130, plat_height = 20,
        plat_color = NEON_LIME, plat_vx = 7 / 2, passed = False, landedOn = False \<rparr>,
      \<lparr> plat_x = 1463 / 10, plat_y = 295 / 2, plat_width = 130, plat_height = 20,
        plat_color = NEON_LIME, plat_vx = 7 / 2, passed = False, landedOn = False \<rparr>,
      \<lparr> plat_x = 283 / 4, plat_y = - (5 / 2), plat_width = 130, plat_height = 20,
        plat_color = NEON_LIME, plat_vx = - (7 / 2), passed = False, landedOn = False \<rparr>,
      \<lparr> plat_x = 1213 / 5, plat_y = - (305 / 2), plat_width = 130, plat_height = 20,
        plat_color = NEON_LIME, plat_vx = - (7 / 2), passed = False, landedOn = False \<rparr>]"
  by (simp add: update_move_eq[OF Q131_refs] Q131_fields advance_def speedMultiplier_def Let_def)

lemma Q131_player:
  "ply_x (player (update_move 0 (Q131\<lparr> lastTime := 2112 \<rparr>))) = 400"
  "ply_y (player (update_move 0 (Q131\<lparr> lastTime := 2112 \<rparr>))) = 775 / 2"
  "ply_vy (player (update_move 0 (Q131\<lparr> lastTime := 2112 \<rparr>))) = 5"
  "ply_width (player (update_move 0 (Q131\<lparr> lastTime := 2112 \<rparr>))) = 40"
  "ply_height (player (update_move 0 (Q131\<lparr> lastTime := 2112 \<rparr>))) = 40"
  "ply_color (player (update_move 0 (Q131\<lparr> lastTime := 2112 \<rparr>))) = NEON_LIME"
  "jumps (player (update_move 0 (Q131\<lparr> lastTime := 2112 \<rparr>))) = 1"
  "currentPlatform (player (update_move 0 (Q131\<lparr> lastTime := 2112 \<rparr>))) = None"
  unfolding update_move_player_eq[OF Q131_refs] Q131_store
  by (simp_all add: Q131_fields Player_physics_def carry_def speedMultiplier_def Let_def config)

lemmas Q131_move = Q131_store Q131_player update_move_fields[OF Q131_refs] Q131_fields

lemma Q131_preCollision:
  "preCollision R1 2112 0 Q131 = update_move 0 (Q131\<lparr> lastTime := 2112 \<rparr>)"
  by (simp add: preCollision_def afterScroll_def scrolls_def Q131_move)

lemma Q131_landing:
  "landingPlatform (preCollision R1 2112 0 Q131) = None"
  by (simp add: Q131_preCollision landingPlatform_def hits_def Let_def Q131_move)

lemma Q132_eq:
  "Q132 = update_cosmetics (update_fall R1 (update_move 0 (Q131\<lparr> lastTime := 2112 \<rparr>)))"
  using Q131_landing
  by (simp add: Q132_def afterFrame_def update_collision_eq Q131_preCollision)

lemma Q132_fields:
  "state Q132 = Playing"
  "score Q132 = 2"
  "perfectStreak Q132 = 2"
  "isFever Q132 = False"
  "viewportWidth Q132 = 800"
  "viewportHeight Q132 = 600"
  "platforms Q132 = [2, 3, 4, 5, 6, 7]"
  "notifications Q132 = [ScoreUpdate 0, ComboChange 0, FeverChange False, GameStateChange Playing, ScoreUpdate 1, ComboChange 1, ScoreUpdate 2, ComboChange 2]"
  "store Q132 =
     [\<lparr> plat_x = 300, plat_y = 702, plat_width = 200, plat_height = 20,
        plat_color = NEON_MAGENTA, plat_vx = 0, passed = False, landedOn = False \<rparr>,
      \<lparr> plat_x = 65919 / 640, plat_y = 702, plat_width = 130, plat_height = 20,
        plat_color = NEON_LIME, plat_vx = - (7 / 2), passed = False, landedOn = True \<rparr>,
      \<lparr> plat_x = 229641 / 1280, plat_y = 1195 / 2, plat_width = 130, plat_height = 20,
        plat_color = NEON_LIME, plat_vx = - (7 / 2), passed = False, landedOn = True \<rparr>,
      \<lparr> plat_x = 12481 / 40, plat_y = 895 / 2, plat_width = 130, plat_height = 20,
        plat_color = NEON_LIME, plat_vx = 7 / 2, passed = False, landedOn = False \<rparr>,
      \<lparr> plat_x = 1463 / 10, plat_y = 595 / 2, plat_width = 130, plat_height = 20,
        plat_color = NEON_LIME, plat_vx = 7 / 2, passed = False, landedOn = False \<rparr>,
      \<lparr> plat_x = 1463 / 10, plat_y = 295 / 2, plat_width = 130, plat_height = 20,
        plat_color = NEON_LIME, plat_vx = 7 / 2, passed = False, landedOn = False \<rparr>,
      \<lparr> plat_x = 283 / 4, plat_y = - (5 / 2), plat_width = 130, plat_height = 20,
        plat_color = NEON_LIME, plat_vx = - (7 / 2), passed = False, landedOn = False \<rparr>,
      \<lparr> plat_x = 1213 / 5, plat_y = - (305 / 2), plat_width = 130, plat_height = 20,
        plat_color = NEON_LIME, plat_vx = - (7 / 2), passed = False, landedOn = False \<rparr>]"
  "ply_x (player Q132) = 400"
  "ply_y (player Q132) = 775 / 2"
  "ply_vy (player Q132) = 5"
  "ply_width (player Q132) = 40"
  "ply_height (player Q132) = 40"
  "ply_color (player Q132) = NEON_LIME"
  "jumps (player Q132) = 1"
  "currentPlatform (player Q132) = None"
  "rix Q132 = 200"
  unfolding Q132_eq
  by (simp_all add: tail_fields update_fall_rix landed_fields landed_store landed_score
        landed_perfectStreak landed_isFever landed_notifications landed_player landed_rix
        land_def landingNotes_def perfectHit_def Q131_move config)

lemma Q131_first: "firstLanding R1 (Frame 2112 0) Q131 = None"
  by (simp add: Q131_fields(1) Q131_landing)

lemma wf_Q131: "wf Q131" and pinned_Q131: "pinned Q131"
  using reachable_inv[OF reachable_Q131] by simp_all

lemma Q131_loop: "loop R1 2112 0 Q131 = Inr Q132"
  by (simp add: Q132_def loop_afterFrame[OF wf_Q131 Q131_fields(1)])

lemma reachable_Q132: "reachable R1 Q132"
  by (rule reachable.step[OF reachable_Q131, of "Frame 2112 0"]) (simp_all add: Q131_loop)

lemma Q132_refs: "refs_ok (Q132\<lparr> lastTime := 2128 \<rparr>)"
  by (simp add: refs_ok_def Q132_fields)

lemma Q132_store:
  "store (update_move 0 (Q132\<lparr> lastTime := 2128 \<rparr>)) =
     [\<lparr> plat_x = 300, plat_y = 702, plat_width = 200, plat_height = 20,
        plat_color = NEON_MAGENTA, plat_vx = 0, passed = False, landedOn = False \<rparr>,
      \<lparr> plat_x = 65919 / 640, plat_y = 702, plat_width = 130, plat_height = 20,
        plat_color = NEON_LIME, plat_vx = - (7 / 2), passed = False, landedOn = True \<rparr>,
      \<lparr> plat_x = 224713 / 1280, plat_y = 1195 / 2, plat_width = 130, plat_height = 20,
        plat_color = NEON_LIME, plat_vx = - (7 / 2), passed = False, landedOn = True \<rparr>,
      \<lparr> plat_x = 2527 / 8, plat_y = 895 / 2, plat_width = 130, plat_height = 20,
        plat_color = NEON_LIME, plat_vx = 7 / 2, passed = False, landedOn = False \<rparr>,
      \<lparr> plat_x = 3003 / 20, plat_y = 595 / 2, plat_width = 130, plat_height = 20,
        plat_color = NEON_LIME, plat_vx = 7 / 2, passed = False, landedOn = False \<rparr>,
      \<lparr> plat_x = 3003 / 20, plat_y = 295 / 2, plat_width = 130, plat_height = 20,
        plat_color = NEON_LIME, plat_vx = 7 / 2, passed = False, landedOn = False \<rparr>,
      \<lparr> plat_x = 669 / 10, plat_y = - (5 / 2), plat_width = 130, plat_height = 20,
        plat_color = NEON_LIME, plat_vx = - (7 / 2), passed = False, landedOn = False \<rparr>,
      \<lparr> plat_x = 955 / 4, plat_y = - (305 / 2), plat_width = 130, plat_height = 20,
        plat_color = NEON_LIME, plat_vx = - (7 / 2), passed = False, landedOn = False \<rparr>]"
  by (simp add: update_move_eq[OF Q132_refs] Q132_fields advance_def speedMultiplier_def Let_def)

lemma Q132_player:
  "ply_x (player (update_move 0 (Q132\<lparr> lastTime := 2128 \<rparr>))) = 400"
  "ply_y (player (update_move 0 (Q132\<lparr> lastTime := 2128 \<rparr>))) = 393"
  "ply_vy (player (update_move 0 (Q132\<lparr> lastTime := 2128 \<rparr>))) = 11 / 2"
  "ply_width (player (update_move 0 (Q132\<lparr> lastTime := 2128 \<rparr>))) = 40"
  "ply_height (player (update_move 0 (Q132\<lparr> lastTime := 2128 \<rparr>))) = 40"
  "ply_color (player (update_move 0 (Q132\<lparr> lastTime := 2128 \<rparr>))) = NEON_LIME"
  "jumps (player (update_move 0 (Q132\<lparr> lastTime := 2128 \<rparr>))) = 1"
  "currentPlatform (player (update_move 0 (Q132\<lparr> lastTime := 2128 \<rparr>))) = None"
  unfolding update_move_player_eq[OF Q132_refs] Q132_store
  by (simp_all add: Q132_fields Player_physics_def carry_def speedMultiplier_def Let_def config)

lemmas Q132_move = Q132_store Q132_player update_move_fields[OF Q132_refs] Q132_fields

lemma Q132_preCollision:
  "preCollision R1 2128 0 Q132 = update_move 0 (Q132\<lparr> lastTime := 2128 \<rparr>)"
  by (simp add: preCollision_def afterScroll_def scrolls_def Q132_move)

lemma Q132_landing:
  "landingPlatform (preCollision R1 2128 0 Q132) = None"
  by (simp add: Q132_preCollision landingPlatform_def hits_def Let_def Q132_move)

lemma Q133_eq:
  "Q133 = update_cosmetics (update_fall R1 (update_move 0 (Q132\<lparr> lastTime := 2128 \<rparr>)))"
  using Q132_landing
  by (simp add: Q133_def afterFrame_def update_collision_eq Q132_preCollision)

lemma Q133_fields:
  "state Q133 = Playing"
  "score Q133 = 2"
  "perfectStreak Q133 = 2"
  "isFever Q133 = False"
  "viewportWidth Q133 = 800"
  "viewportHeight Q133 = 600"
  "platforms Q133 = [2, 3, 4, 5, 6, 7]"
  "notifications Q133 = [ScoreUpdate 0, ComboChange 0, FeverChange False, GameStateChange Playing, ScoreUpdate 1, ComboChange 1, ScoreUpdate 2, ComboChange 2]"
  "store Q133 =
     [\<lparr> plat_x = 300, plat_y = 702, plat_width = 200, plat_height = 20,
        plat_color = NEON_MAGENTA, plat_vx = 0, passed = False, landedOn = False \<rparr>,
      \<lparr> plat_x = 65919 / 640, plat_y = 702, plat_width = 130, plat_height = 20,
        plat_color = NEON_LIME, plat_vx = - (7 / 2), passed = False, landedOn = True \<rparr>,
      \<lparr> plat_x = 224713 / 1280, plat_y = 1195 / 2, plat_width = 130, plat_height = 20,
        plat_color = NEON_LIME, plat_vx = - (7 / 2), passed = False, landedOn = True \<rparr>,
      \<lparr> plat_x = 2527 / 8, plat_y = 895 / 2, plat_width = 130, plat_height = 20,
        plat_color = NEON_LIME, plat_vx = 7 / 2, passed = False, landedOn = False \<rparr>,
      \<lparr> plat_x = 3003 / 20, plat_y = 595 / 2, plat_width = 130, plat_height = 20,
        plat_color = NEON_LIME, plat_vx = 7 / 2, passed = False, landedOn = False \<rparr>,
      \<lparr> plat_x = 3003 / 20, plat_y = 295 / 2, plat_width = 130, plat_height = 20,
        plat_color = NEON_LIME, plat_vx = 7 / 2, passed = False, landedOn = False \<rparr>,
      \<lparr> plat_x = 669 / 10, plat_y = - (5 / 2), plat_width = 130, plat_height = 20,
        plat_color = NEON_LIME, plat_vx = - (7 / 2), passed = False, landedOn = False \<rparr>,
      \<lparr> plat_x = 955 / 4, plat_y = - (305 / 2), plat_width = 130, plat_height = 20,
        plat_color = NEON_LIME, plat_vx = - (7 / 2), passed = False, landedOn = False \<rparr>]"
  "ply_x (player Q133) = 400"
  "ply_y (player Q133) = 393"
  "ply_vy (player Q133) = 11 / 2"
  "ply_width (player Q133) = 40"
  "ply_height (player Q133) = 40"
  "ply_color (player Q133) = NEON_LIME"
  "jumps (player Q133) = 1"
  "currentPlatform (player Q133) = None"
  "rix Q133 = 200"
  unfolding Q133_eq
  by (simp_all add: tail_fields update_fall_rix landed_fields landed_store landed_score
        landed_perfectStreak landed_isFever landed_notifications landed_player landed_rix
        land_def landingNotes_def perfectHit_def Q132_move config)

lemma Q132_first: "firstLanding R1 (Frame 2128 0) Q132 = None"
  by (simp add: Q132_fields(1) Q132_landing)

lemma wf_Q132: "wf Q132" and pinned_Q132: "pinned Q132"
  using reachable_inv[OF reachable_Q132] by simp_all

lemma Q132_loop: "loop R1 2128 0 Q132 = Inr Q133"
  by (simp add: Q133_def loop_afterFrame[OF wf_Q132 Q132_fields(1)])

lemma reachable_Q133: "reachable R1 Q133"
  by (rule reachable.step[OF reachable_Q132, of "Frame 2128 0"]) (simp_all add: Q132_loop)

lemma Q133_refs: "refs_ok (Q133\<lparr> lastTime := 2144 \<rparr>)"
  by (simp add: refs_ok_def Q133_fields)

lemma Q133_store:
  "store (update_move 0 (Q133\<lparr> lastTime := 2144 \<rparr>)) =
     [\<lparr> plat_x = 300, plat_y = 702, plat_width = 200, plat_height = 20,
        plat_color = NEON_MAGENTA, plat_vx = 0, passed = False, landedOn = False \<rparr>,
      \<lparr> plat_x = 65919 / 640, plat_y = 702, plat_width = 130, plat_height = 20,
        plat_color = NEON_LIME, plat_vx = - (7 / 2), passed = False, landedOn = True \<rparr>,
      \<lparr> plat_x = 43957 / 256, plat_y = 1195 / 2, plat_width = 130, plat_height = 20,
        plat_color = NEON_LIME, plat_vx = - (7 / 2), passed = False, landedOn = True \<rparr>,
      \<lparr> plat_x = 12789 / 40, plat_y = 895 / 2, plat_width = 130, plat_height = 20,
        plat_color = NEON_LIME, plat_vx = 7 / 2, passed = False, landedOn = False \<rparr>,
      \<lparr> plat_x = 154, plat_y = 595 / 2, plat_width = 130, plat_height = 20,
        plat_color = NEON_LIME, plat_vx = 7 / 2, passed = False, landedOn = False \<rparr>,
      \<lparr> plat_x = 154, plat_y = 295 / 2, plat_width = 130, plat_height = 20,
        plat_color = NEON_LIME, plat_vx = 7 / 2, passed = False, landedOn = False \<rparr>,
      \<lparr> plat_x = 1261 / 20, plat_y = - (5 / 2), plat_width = 130, plat_height = 20,
        plat_color = NEON_LIME, plat_vx = - (7 / 2), passed = False, landedOn = False \<rparr>,
      \<lparr> plat_x = 2349 / 10, plat_y = - (305 / 2), plat_width = 130, plat_height = 20,
        plat_color = NEON_LIME, plat_vx = - (7 / 2), passed = False, landedOn = False \<rparr>]"
  by (simp add: update_move_eq[OF Q133_refs] Q133_fields advance_def speedMultiplier_def Let_def)

lemma Q133_player:
  "ply_x (player (update_move 0 (Q133\<lparr> lastTime := 2144 \<rparr>))) = 400"
  "ply_y (player (update_move 0 (Q133\<lparr> lastTime := 2144 \<rparr>))) = 399"
  "ply_vy (player (update_move 0 (Q133\<lparr> lastTime := 2144 \<rparr>))) = 6"
  "ply_width (player (update_move 0 (Q133\<lparr> lastTime := 2144 \<rparr>))) = 40"
  "ply_height (player (update_move 0 (Q133\<lparr> lastTime := 2144 \<rparr>))) = 40"
  "ply_color (player (update_move 0 (Q133\<lparr> lastTime := 2144 \<rparr>))) = NEON_LIME"
  "jumps (player (update_move 0 (Q133\<lparr> lastTime := 2144 \<rparr>))) = 1"
  "currentPlatform (player (update_move 0 (Q133\<lparr> lastTime := 2144 \<rparr>))) = None"
  unfolding update_move_player_eq[OF Q133_refs] Q133_store
  by (simp_all add: Q133_fields Player_physics_def carry_def speedMultiplier_def Let_def config)

lemmas Q133_move = Q133_store Q133_player update_move_fields[OF Q133_refs] Q133_fields

lemma Q133_preCollision:
  "preCollision R1 2144 0 Q133 = update_move 0 (Q133\<lparr> lastTime := 2144 \<rparr>)"
  by (simp add: preCollision_def afterScroll_def scrolls_def Q133_move)

lemma Q133_landing:
  "landingPlatform (preCollision R1 2144 0 Q133) = None"
  by (simp add: Q133_preCollision landingPlatform_def hits_def Let_def Q133_move)

lemma Q134_eq:
  "Q134 = update_cosmetics (update_fall R1 (update_move 0 (Q133\<lparr> lastTime := 2144 \<rparr>)))"
  using Q133_landing
  by (simp add: Q134_def afterFrame_def update_collision_eq Q133_preCollision)

lemma Q134_fields:
  "state Q134 = Playing"
  "score Q134 = 2"
  "perfectStreak Q134 = 2"
  "isFever Q134 = False"
  "viewportWidth Q134 = 800"
  "viewportHeight Q134 = 600"
  "platforms Q134 = [2, 3, 4, 5, 6, 7]"
  "notifications Q134 = [ScoreUpdate 0, ComboChange 0, FeverChange False, GameStateChange Playing, ScoreUpdate 1, ComboChange 1, ScoreUpdate 2, ComboChange 2]"
  "store Q134 =
     [\<lparr> plat_x = 300, plat_y = 702, plat_width = 200, plat_height = 20,
        plat_color = NEON_MAGENTA, plat_vx = 0, passed = False, landedOn = False \<rparr>,
      \<lparr> plat_x = 65919 / 640, plat_y = 702, plat_width = 130, plat_height = 20,
        plat_color = NEON_LIME, plat_vx = - (7 / 2), passed = False, landedOn = True \<rparr>,
      \<lparr> plat_x = 43957 / 256, plat_y = 1195 / 2, plat_width = 130, plat_height = 20,
        plat_color = NEON_LIME, plat_vx = - (7 / 2), passed = False, landedOn = True \<rparr>,
      \<lparr> plat_x = 12789 / 40, plat_y = 895 / 2, plat_width = 130, plat_height = 20,
        plat_color = NEON_LIME, plat_vx = 7 / 2, passed = False, landedOn = False \<rparr>,
      \<lparr> plat_x = 154, plat_y = 595 / 2, plat_width = 130, plat_height = 20,
        plat_color = NEON_LIME, plat_vx = 7 / 2, passed = False, landedOn = False \<rparr>,
      \<lparr> plat_x = 154, plat_y = 295 / 2, plat_width = 130, plat_height = 20,
        plat_color = NEON_LIME, plat_vx = 7 / 2, passed = False, landedOn = False \<rparr>,
      \<lparr> plat_x = 1261 / 20, plat_y = - (5 / 2), plat_width = 130, plat_height = 20,
        plat_color = NEON_LIME, plat_vx = - (7 / 2), passed = False, landedOn = False \<rparr>,
      \<lparr> plat_x = 2349 / 10, plat_y = - (305 / 2), plat_width = 130, plat_height = 20,
        plat_color = NEON_LIME, plat_vx = - (7 / 2), passed = False, landedOn = False \<rparr>]"
  "ply_x (player Q134) = 400"
  "ply_y (player Q134) = 399"
  "ply_vy (player Q134) = 6"
  "ply_width (player Q134) = 40"
  "ply_height (player Q134) = 40"
  "ply_color (player Q134) = NEON_LIME"
  "jumps (player Q134) = 1"
  "currentPlatform (player Q134) = None"
  "rix Q134 = 200"
  unfolding Q134_eq
  by (simp_all add: tail_fields update_fall_rix landed_fields landed_store landed_score
        landed_perfectStreak landed_isFever landed_notifications landed_player landed_rix
        land_def landingNotes_def perfectHit_def Q133_move config)

lemma Q133_first: "firstLanding R1 (Frame 2144 0) Q133 = None"
  by (simp add: Q133_fields(1) Q133_landing)

lemma wf_Q133: "wf Q133" and pinned_Q133: "pinned Q133"
  using reachable_inv[OF reachable_Q133] by simp_all

lemma Q133_loop: "loop R1 2144 0 Q133 = Inr Q134"
  by (simp add: Q134_def loop_afterFrame[OF wf_Q133 Q133_fields(1)])

lemma reachable_Q134: "reachable R1 Q134"
  by (rule reachable.step[OF reachable_Q133, of "Frame 2144 0"]) (simp_all add: Q133_loop)

lemma Q134_refs: "refs_ok (Q134\<lparr> lastTime := 2160 \<rparr>)"
  by (simp add: refs_ok_def Q134_fields)

lemma Q134_store:
  "store (update_move 0 (Q134\<lparr> lastTime := 2160 \<rparr>)) =
     [\<lparr> plat_x = 300, plat_y = 702, plat_width = 200, plat_height = 20,
        plat_color = NEON_MAGENTA, plat_vx = 0, passed = False, landedOn = False \<rparr>,
      \<lparr> plat_x = 65919 / 640, plat_y = 702, plat_width = 130, plat_height = 20,
        plat_color = NEON_LIME, plat_vx = - (7 / 2), passed = False, landedOn = True \<rparr>,
      \<lparr> plat_x = 214857 / 1280, plat_y = 1195 / 2, plat_width = 130, plat_height = 20,
        plat_color = NEON_LIME, plat_vx = - (7 / 2), passed = False, landedOn = True \<rparr>,
      \<lparr> plat_x = 12943 / 40, plat_y = 895 / 2, plat_width = 130, plat_height = 20,
        plat_color = NEON_LIME, plat_vx = 7 / 2, passed = False, landedOn = False \<rparr>,
      \<lparr> plat_x = 3157 / 20, plat_y = 595 / 2, plat_width = 130, plat_height = 20,
        plat_color = NEON_LIME, plat_vx = 7 / 2, passed = False, landedOn = False \<rparr>,
      \<lparr> plat_x = 3157 / 20, plat_y = 295 / 2, plat_width = 130, plat_height = 20,
        plat_color = NEON_LIME, plat_vx = 7 / 2, passed = False, landedOn = False \<rparr>,
      \<lparr> plat_x = 296 / 5, plat_y = - (5 / 2), plat_width = 130, plat_height = 20,
        plat_color = NEON_LIME, plat_vx = - (7 / 2), passed = False, landedOn = False \<rparr>,
      \<lparr> plat_x = 4621 / 20, plat_y = - (305 / 2), plat_width = 130, plat_height = 20,
        plat_color = NEON_LIME, plat_vx = - (7 / 2), passed = False, landedOn = False \<rparr>]"
  by (simp add: update_move_eq[OF Q134_refs] Q134_fields advance_def speedMultiplier_def Let_def)

lemma Q134_player:
  "ply_x (player (update_move 0 (Q134\<lparr> lastTime := 2160 \<rparr>))) = 400"
  "ply_y (player (update_move 0 (Q134\<lparr> lastTime := 2160 \<rparr>))) = 811 / 2"
  "ply_vy (player (update_move 0 (Q134\<lparr> lastTime := 2160 \<rparr>))) = 13 / 2"
  "ply_width (player (update_move 0 (Q134\<lparr> lastTime := 2160 \<rparr>))) = 40"
  "ply_height (player (update_move 0 (Q134\<lparr> lastTime := 2160 \<rparr>))) = 40"
  "ply_color (player (update_move 0 (Q134\<lparr> lastTime := 2160 \<rparr>))) = NEON_LIME"
  "jumps (player (update_move 0 (Q134\<lparr> lastTime := 2160 \<rparr>))) = 1"
  "currentPlatform (player (update_move 0 (Q134\<lparr> lastTime := 2160 \<rparr>))) = None"
  unfolding update_move_player_eq[OF Q134_refs] Q134_store
  by (simp_all add: Q134_fields Player_physics_def carry_def speedMultiplier_def Let_def config)

lemmas Q134_move = Q134_store Q134_player update_move_fields[OF Q134_refs] Q134_fields

lemma Q134_preCollision:
  "preCollision R1 2160 0 Q134 = update_move 0 (Q134\<lparr> lastTime := 2160 \<rparr>)"
  by (simp add: preCollision_def afterScroll_def scrolls_def Q134_move)

lemma Q134_landing:
  "landingPlatform (preCollision R1 2160 0 Q134) = None"
  by (simp add: Q134_preCollision landingPlatform_def hits_def Let_def Q134_move)

lemma Q135_eq:
  "Q135 = update_cosmetics (update_fall R1 (update_move 0 (Q134\<lparr> lastTime := 2160 \<rparr>)))"
  using Q134_landing
  by (simp add: Q135_def afterFrame_def update_collision_eq Q134_preCollision)

lemma Q135_fields:
  "state Q135 = Playing"
  "score Q135 = 2"
  "perfectStreak Q135 = 2"
  "isFever Q135 = False"
  "viewportWidth Q135 = 800"
  "viewportHeight Q135 = 600"
  "platforms Q135 = [2, 3, 4, 5, 6, 7]"
  "notifications Q135 = [ScoreUpdate 0, ComboChange 0, FeverChange False, GameStateChange Playing, ScoreUpdate 1, ComboChange 1, ScoreUpdate 2, ComboChange 2]"
  "store Q135 =
     [\<lparr> plat_x = 300, plat_y = 702, plat_width = 200, plat_height = 20,
        plat_color = NEON_MAGENTA, plat_vx = 0, passed = False, landedOn = False \<rparr>,
      \<lparr> plat_x = 65919 / 640, plat_y = 702, plat_width = 130, plat_height = 20,
        plat_color = NEON_LIME, plat_vx = - (7 / 2), passed = False, landedOn = True \<rparr>,
      \<lparr> plat_x = 214857 / 1280, plat_y = 1195 / 2, plat_width = 130, plat_height = 20,
        plat_color = NEON_LIME, plat_vx = - (7 / 2), passed = False, landedOn = True \<rparr>,
      \<lparr> plat_x = 12943 / 40, plat_y = 895 / 2, plat_width = 130, plat_height = 20,
        plat_color = NEON_LIME, plat_vx = 7 / 2, passed = False, landedOn = False \<rparr>,
      \<lparr> plat_x = 3157 / 20, plat_y = 595 / 2, plat_width = 130, plat_height = 20,
        plat_color = NEON_LIME, plat_vx = 7 / 2, passed = False, landedOn = False \<rparr>,
      \<lparr> plat_x = 3157 / 20, plat_y = 295 / 2, plat_width = 130, plat_height = 20,
        plat_color = NEON_LIME, plat_vx = 7 / 2, passed = False, landedOn = False \<rparr>,
      \<lparr> plat_x = 296 / 5, plat_y = - (5 / 2), plat_width = 130, plat_height = 20,
        plat_color = NEON_LIME, plat_vx = - (7 / 2), passed = False, landedOn = False \<rparr>,
      \<lparr> plat_x = 4621 / 20, plat_y = - (305 / 2), plat_width = 130, plat_height = 20,
        plat_color = NEON_LIME, plat_vx = - (7 / 2), passed = False, landedOn = False \<rparr>]"
  "ply_x (player Q135) = 400"
  "ply_y (player Q135) = 811 / 2"
  "ply_vy (player Q135) = 13 / 2"
  "ply_width (player Q135) = 40"
  "ply_height (player Q135) = 40"
  "ply_color (player Q135) = NEON_LIME"
  "jumps (player Q135) = 1"
  "currentPlatform (player Q135) = None"
  "rix Q135 = 200"
  unfolding Q135_eq
  by (simp_all add: tail_fields update_fall_rix landed_fields landed_store landed_score
        landed_perfectStreak landed_isFever landed_notifications landed_player landed_rix
        land_def landingNotes_def perfectHit_def Q134_move config)

lemma Q134_first: "firstLanding R1 (Frame 2160 0) Q134 = None"
  by (simp add: Q134_fields(1) Q134_landing)

lemma wf_Q134: "wf Q134" and pinned_Q134: "pinned Q134"
  using reachable_inv[OF reachable_Q134] by simp_all

lemma Q134_loop: "loop R1 2160 0 Q134 = Inr Q135"
  by (simp add: Q135_def loop_afterFrame[OF wf_Q134 Q134_fields(1)])

lemma reachable_Q135: "reachable R1 Q135"
  by (rule reachable.step[OF reachable_Q134, of "Frame 2160 0"]) (simp_all add: Q134_loop)

lemma Q135_refs: "refs_ok (Q135\<lparr> lastTime := 2176 \<rparr>)"
  by (simp add: refs_ok_def Q135_fields)

lemma Q135_store:
  "store (update_move 0 (Q135\<lparr> lastTime := 2176 \<rparr>)) =
     [\<lparr> plat_x = 300, plat_y = 702, plat_width = 200, plat_height = 20,
        plat_color = NEON_MAGENTA, plat_vx = 0, passed = False, landedOn = False \<rparr>,
      \<lparr> plat_x = 65919 / 640, plat_y = 702, plat_width = 130, plat_height = 20,
        plat_color = NEON_LIME, plat_vx = - (7 / 2), passed = False, landedOn = True \<rparr>,
      \<lparr> plat_x = 209929 / 1280, plat_y = 1195 / 2, plat_width = 130, plat_height = 20,
        plat_color = NEON_LIME, plat_vx = - (7 / 2), passed = False, landedOn = True \<rparr>,
      \<lparr> plat_x = 13097 / 40, plat_y = 895 / 2, plat_width = 130, plat_height = 20,
        plat_color = NEON_LIME, plat_vx = 7 / 2, passed = False, landedOn = False \<rparr>,
      \<lparr> plat_x = 1617 / 10, plat_y = 595 / 2, plat_width = 130, plat_height = 20,
        plat_color = NEON_LIME, plat_vx = 7 / 2, passed = False, landedOn = False \<rparr>,
      \<lparr> plat_x = 1617 / 10, plat_y = 295 / 2, plat_width = 130, plat_height = 20,
        plat_color = NEON_LIME, plat_vx = 7 / 2, passed = False, landedOn = False \<rparr>,
      \<lparr> plat_x = 1107 / 20, plat_y = - (5 / 2), plat_width = 130, plat_height = 20,
        plat_color = NEON_LIME, plat_vx = - (7 / 2), passed = False, landedOn = False \<rparr>,
      \<lparr> plat_x = 1136 / 5, plat_y = - (305 / 2), plat_width = 130, plat_height = 20,
        plat_color = NEON_LIME, plat_vx = - (7 / 2), passed = False, landedOn = False \<rparr>]"
  by (simp add: update_move_eq[OF Q135_refs] Q135_fields advance_def speedMultiplier_def Let_def)

lemma Q135_player:
  "ply_x (player (update_move 0 (Q135\<lparr> lastTime := 2176 \<rparr>))) = 400"
  "ply_y (player (update_move 0 (Q135\<lparr> lastTime := 2176 \<rparr>))) = 825 / 2"
  "ply_vy (player (update_move 0 (Q135\<lparr> lastTime := 2176 \<rparr>))) = 7"
  "ply_width (player (update_move 0 (Q135\<lparr> lastTime := 2176 \<rparr>))) = 40"
  "ply_height (player (update_move 0 (Q135\<lparr> lastTime := 2176 \<rparr>))) = 40"
  "ply_color (player (update_move 0 (Q135\<lparr> lastTime := 2176 \<rparr>))) = NEON_LIME"
  "jumps (player (update_move 0 (Q135\<lparr> lastTime := 2176 \<rparr>))) = 1"
  "currentPlatform (player (update_move 0 (Q135\<lparr> lastTime := 2176 \<rparr>))) = None"
  unfolding update_move_player_eq[OF Q135_refs] Q135_store
  by (simp_all add: Q135_fields Player_physics_def carry_def speedMultiplier_def Let_def config)

lemmas Q135_move = Q135_store Q135_player update_move_fields[OF Q135_refs] Q135_fields

lemma Q135_preCollision:
  "preCollision R1 2176 0 Q135 = update_move 0 (Q135\<lparr> lastTime := 2176 \<rparr>)"
  by (simp add: preCollision_def afterScroll_def scrolls_def Q135_move)

lemma Q135_landing:
  "landingPlatform (preCollision R1 2176 0 Q135) = None"
  by (simp add: Q135_preCollision landingPlatform_def hits_def Let_def Q135_move)

lemma Q136_eq:
  "Q136 = update_cosmetics (update_fall R1 (update_move 0 (Q135\<lparr> lastTime := 2176 \<rparr>)))"
  using Q135_landing
  by (simp add: Q136_def afterFrame_def update_collision_eq Q135_preCollision)

lemma Q136_fields:
  "state Q136 = Playing"
  "score Q136 = 2"
  "perfectStreak Q136 = 2"
  "isFever Q136 = False"
  "viewportWidth Q136 = 800"
  "viewportHeight Q136 = 600"
  "platforms Q136 = [2, 3, 4, 5, 6, 7]"
  "notifications Q136 = [ScoreUpdate 0, ComboChange 0, FeverChange False, GameStateChange Playing, ScoreUpdate 1, ComboChange 1, ScoreUpdate 2, ComboChange 2]"
  "store Q136 =
     [\<lparr> plat_x = 300, plat_y = 702, plat_width = 200, plat_height = 20,
        plat_color = NEON_MAGENTA, plat_vx = 0, passed = False, landedOn = False \<rparr>,
      \<lparr> plat_x = 65919 / 640, plat_y = 702, plat_width = 130, plat_height = 20,
        plat_color = NEON_LIME, plat_vx = - (7 / 2), passed = False, landedOn = True \<rparr>,
      \<lparr> plat_x = 209929 / 1280, plat_y = 1195 / 2, plat_width = 130, plat_height = 20,
        plat_color = NEON_LIME, plat_vx = - (7 / 2), passed = False, landedOn = True \<rparr>,
      \<lparr> plat_x = 13097 / 40, plat_y = 895 / 2, plat_width = 130, plat_height = 20,
        plat_color = NEON_LIME, plat_vx = 7 / 2, passed = False, landedOn = False \<rparr>,
      \<lparr> plat_x = 1617 / 10, plat_y = 595 / 2, plat_width = 130, plat_height = 20,
        plat_color = NEON_LIME, plat_vx = 7 / 2, passed = False, landedOn = False \<rparr>,
      \<lparr> plat_x = 1617 / 10, plat_y = 295 / 2, plat_width = 130, plat_height = 20,
        plat_color = NEON_LIME, plat_vx = 7 / 2, passed = False, landedOn = False \<rparr>,
      \<lparr> plat_x = 1107 / 20, plat_y = - (5 / 2), plat_width = 130, plat_height = 20,
        plat_color = NEON_LIME, plat_vx = - (7 / 2), passed = False, landedOn = False \<rparr>,
      \<lparr> plat_x = 1136 / 5, plat_y = - (305 / 2), plat_width = 130, plat_height = 20,
        plat_color = NEON_LIME, plat_vx = - (7 / 2), passed = False, landedOn = False \<rparr>]"
  "ply_x (player Q136) = 400"
  "ply_y (player Q136) = 825 / 2"
  "ply_vy (player Q136) = 7"
  "ply_width (player Q136) = 40"
  "ply_height (player Q136) = 40"
  "ply_color (player Q136) = NEON_LIME"
  "jumps (player Q136) = 1"
  "currentPlatform (player Q136) = None"
  "rix Q136 = 200"
  unfolding Q136_eq
  by (simp_all add: tail_fields update_fall_rix landed_fields landed_store landed_score
        landed_perfectStreak landed_isFever landed_notifications landed_player landed_rix
        land_def landingNotes_def perfectHit_def Q135_move config)

lemma Q135_first: "firstLanding R1 (Frame 2176 0) Q135 = None"
  by (simp add: Q135_fields(1) Q135_landing)

lemma wf_Q135: "wf Q135" and pinned_Q135: "pinned Q135"
  using reachable_inv[OF reachable_Q135] by simp_all

lemma Q135_loop: "loop R1 2176 0 Q135 = Inr Q136"
  by (simp add: Q136_def loop_afterFrame[OF wf_Q135 Q135_fields(1)])

lemma reachable_Q136: "reachable R1 Q136"
  by (rule reachable.step[OF reachable_Q135, of "Frame 2176 0"]) (simp_all add: Q135_loop)

lemma Q136_refs: "refs_ok (Q136\<lparr> lastTime := 2192 \<rparr>)"
  by (simp add: refs_ok_def Q136_fields)

lemma Q136_store:
  "store (update_move 0 (Q136\<lparr> lastTime := 2192 \<rparr>)) =
     [\<lparr> plat_x = 300, plat_y = 702, plat_width = 200, plat_height = 20,
        plat_color = NEON_MAGENTA, plat_vx = 0, passed = False, landedOn = False \<rparr>,
      \<lparr> plat_x = 65919 / 640, plat_y = 702, plat_width = 130, plat_height = 20,
        plat_color = NEON_LIME, plat_vx = - (7 / 2), passed = False, landedOn = True \<rparr>,
      \<lparr> plat_x = 205001 / 1280, plat_y = 1195 / 2, plat_width = 130, plat_height = 20,
        plat_color = NEON_LIME, plat_vx = - (7 / 2), passed = False, landedOn = True \<rparr>,
      \<lparr> plat_x = 13251 / 40, plat_y = 895 / 2, plat_width = 130, plat_height = 20,
        plat_color = NEON_LIME, plat_vx = 7 / 2, passed = False, landedOn = False \<rparr>,
      \<lparr> plat_x = 3311 / 20, plat_y = 595 / 2, plat_width = 130, plat_height = 20,
        plat_color = NEON_LIME, plat_vx = 7 / 2, passed = False, landedOn = False \<rparr>,
      \<lparr> plat_x = 3311 / 20, plat_y = 295 / 2, plat_width = 130, plat_height = 20,
        plat_color = NEON_LIME, plat_vx = 7 / 2, passed = False, landedOn = False \<rparr>,
      \<lparr> plat_x = 103 / 2, plat_y = - (5 / 2), plat_width = 130, plat_height = 20,
        plat_color = NEON_LIME, plat_vx = - (7 / 2), passed = False, landedOn = False \<rparr>,
      \<lparr> plat_x = 4467 / 20, plat_y = - (305 / 2), plat_width = 130, plat_height = 20,
        plat_color = NEON_LIME, plat_vx = - (7 / 2), passed = False, landedOn = False \<rparr>]"
  by (simp add: update_move_eq[OF Q136_refs] Q136_fields advance_def speedMultiplier_def Let_def)

lemma Q136_player:
  "ply_x (player (update_move 0 (Q136\<lparr> lastTime := 2192 \<rparr>))) = 400"
  "ply_y (player (update_move 0 (Q136\<lparr> lastTime := 2192 \<rparr>))) = 420"
  "ply_vy (player (update_move 0 (Q136\<lparr> lastTime := 2192 \<rparr>))) = 15 / 2"
  "ply_width (player (update_move 0 (Q136\<lparr> lastTime := 2192 \<rparr>))) = 40"
  "ply_height (player (update_move 0 (Q136\<lparr> lastTime := 2192 \<rparr>))) = 40"
  "ply_color (player (update_move 0 (Q136\<lparr> lastTime := 2192 \<rparr>))) = NEON_LIME"
  "jumps (player (update_move 0 (Q136\<lparr> lastTime := 2192 \<rparr>))) = 1"
  "currentPlatform (player (update_move 0 (Q136\<lparr> lastTime := 2192 \<rparr>))) = None"
  unfolding update_move_player_eq[OF Q136_refs] Q136_store
  by (simp_all add: Q136_fields Player_physics_def carry_def speedMultiplier_def Let_def config)

lemmas Q136_move = Q136_store Q136_player update_move_fields[OF Q136_refs] Q136_fields

lemma Q136_preCollision:
  "preCollision R1 2192 0 Q136 = update_move 0 (Q136\<lparr> lastTime := 2192 \<rparr>)"
  by (simp add: preCollision_def afterScroll_def scrolls_def Q136_move)

lemma Q136_landing:
  "landingPlatform (preCollision R1 2192 0 Q136) = None"
  by (simp add: Q136_preCollision landingPlatform_def hits_def Let_def Q136_move)

lemma Q137_eq:
  "Q137 = update_cosmetics (update_fall R1 (update_move 0 (Q136\<lparr> lastTime := 2192 \<rparr>)))"
  using Q136_landing
  by (simp add: Q137_def afterFrame_def update_collision_eq Q136_preCollision)

lemma Q137_fields:
  "state Q137 = Playing"
  "score Q137 = 2"
  "perfectStreak Q137 = 2"
  "isFever Q137 = False"
  "viewportWidth Q137 = 800"
  "viewportHeight Q137 = 600"
  "platforms Q137 = [2, 3, 4, 5, 6, 7]"
  "notifications Q137 = [ScoreUpdate 0, ComboChange 0, FeverChange False, GameStateChange Playing, ScoreUpdate 1, ComboChange 1, ScoreUpdate 2, ComboChange 2]"
  "store Q137 =
     [\<lparr> plat_x = 300, plat_y = 702, plat_width = 200, plat_height = 20,
        plat_color = NEON_MAGENTA, plat_vx = 0, passed = False, landedOn = False \<rparr>,
      \<lparr> plat_x = 65919 / 640, plat_y = 702, plat_width = 130, plat_height = 20,
        plat_color = NEON_LIME, plat_vx = - (7 / 2), passed = False, landedOn = True \<rparr>,
      \<lparr> plat_x = 205001 / 1280, plat_y = 1195 / 2, plat_width = 130, plat_height = 20,
        plat_color = NEON_LIME, plat_vx = - (7 / 2), passed = False, landedOn = True \<rparr>,
      \<lparr> plat_x = 13251 / 40, plat_y = 895 / 2, plat_width = 130, plat_height = 20,
        plat_color = NEON_LIME, plat_vx = 7 / 2, passed = False, landedOn = False \<rparr>,
      \<lparr> plat_x = 3311 / 20, plat_y = 595 / 2, plat_width = 130, plat_height = 20,
        plat_color = NEON_LIME, plat_vx = 7 / 2, passed = False, landedOn = False \<rparr>,
      \<lparr> plat_x = 3311 / 20, plat_y = 295 / 2, plat_width = 130, plat_height = 20,
        plat_color = NEON_LIME, plat_vx = 7 / 2, passed = False, landedOn = False \<rparr>,
      \<lparr> plat_x = 103 / 2, plat_y = - (5 / 2), plat_width = 130, plat_height = 20,
        plat_color = NEON_LIME, plat_vx = - (7 / 2), passed = False, landedOn = False \<rparr>,
      \<lparr> plat_x = 4467 / 20, plat_y = - (305 / 2), plat_width = 130, plat_height = 20,
        plat_color = NEON_LIME, plat_vx = - (7 / 2), passed = False, landedOn = False \<rparr>]"
  "ply_x (player Q137) = 400"
  "ply_y (player Q137) = 420"
  "ply_vy (player Q137) = 15 / 2"
  "ply_width (player Q137) = 40"
  "ply_height (player Q137) = 40"
  "ply_color (player Q137) = NEON_LIME"
  "jumps (player Q137) = 1"
  "currentPlatform (player Q137) = None"
  "rix Q137 = 200"
  unfolding Q137_eq
  by (simp_all add: tail_fields update_fall_rix landed_fields landed_store landed_score
        landed_perfectStreak landed_isFever landed_notifications landed_player landed_rix
        land_def landingNotes_def perfectHit_def Q136_move config)

lemma Q136_first: "firstLanding R1 (Frame 2192 0) Q136 = None"
  by (simp add: Q136_fields(1) Q136_landing)

lemma wf_Q136: "wf Q136" and pinned_Q136: "pinned Q136"
  using reachable_inv[OF reachable_Q136] by simp_all

lemma Q136_loop: "loop R1 2192 0 Q136 = Inr Q137"
  by (simp add: Q137_def loop_afterFrame[OF wf_Q136 Q136_fields(1)])

lemma reachable_Q137: "reachable R1 Q137"
  by (rule reachable.step[OF reachable_Q136, of "Frame 2192 0"]) (simp_all add: Q136_loop)

lemma Q137_refs: "refs_ok (Q137\<lparr> lastTime := 2208 \<rparr>)"
  by (simp add: refs_ok_def Q137_fields)

lemma Q137_store:
  "store (update_move 0 (Q137\<lparr> lastTime := 2208 \<rparr>)) =
     [\<lparr> plat_x = 300, plat_y = 702, plat_width = 200, plat_height = 20,
        plat_color = NEON_MAGENTA, plat_vx = 0, passed = False, landedOn = False \<rparr>,
      \<lparr> plat_x = 65919 / 640, plat_y = 702, plat_width = 130, plat_height = 20,
        plat_color = NEON_LIME, plat_vx = - (7 / 2), passed = False, landedOn = True \<rparr>,
      \<lparr> plat_x = 200073 / 1280, plat_y = 1195 / 2, plat_width = 130, plat_height = 20,
        plat_color = NEON_LIME, plat_vx = - (7 / 2), passed = False, landedOn = True \<rparr>,
      \<lparr> plat_x = 2681 / 8, plat_y = 895 / 2, plat_width = 130, plat_height = 20,
        plat_color = NEON_LIME, plat_vx = 7 / 2, passed = False, landedOn = False \<rparr>,
      \<lparr> plat_x = 847 / 5, plat_y = 595 / 2, plat_width = 130, plat_height = 20,
        plat_color = NEON_LIME, plat_vx = 7 / 2, passed = False, landedOn = False \<rparr>,
      \<lparr> plat_x = 847 / 5, plat_y = 295 / 2, plat_width = 130, plat_height = 20,
        plat_color = NEON_LIME, plat_vx = 7 / 2, passed = False, landedOn = False \<rparr>,
      \<lparr> plat_x = 953 / 20, plat_y = - (5 / 2), plat_width = 130, plat_height = 20,
        plat_color = NEON_LIME, plat_vx = - (7 / 2), passed = False, landedOn = False \<rparr>,
      \<lparr> plat_x = 439 / 2, plat_y = - (305 / 2), plat_width = 130, plat_height = 20,
        plat_color = NEON_LIME, plat_vx = - (7 / 2), passed = False, landedOn = False \<rparr>]"
  by (simp add: update_move_eq[OF Q137_refs] Q137_fields advance_def speedMultiplier_def Let_def)

lemma Q137_player:
  "ply_x (player (update_move 0 (Q137\<lparr> lastTime := 2208 \<rparr>))) = 400"
  "ply_y (player (update_move 0 (Q137\<lparr> lastTime := 2208 \<rparr>))) = 428"
  "ply_vy (player (update_move 0 (Q137\<lparr> lastTime := 2208 \<rparr>))) = 8"
  "ply_width (player (update_move 0 (Q137\<lparr> lastTime := 2208 \<rparr>))) = 40"
  "ply_height (player (update_move 0 (Q137\<lparr> lastTime := 2208 \<rparr>))) = 40"
  "ply_color (player (update_move 0 (Q137\<lparr> lastTime := 2208 \<rparr>))) = NEON_LIME"
  "jumps (player (update_move 0 (Q137\<lparr> lastTime := 2208 \<rparr>))) = 1"
  "currentPlatform (player (update_move 0 (Q137\<lparr> lastTime := 2208 \<rparr>))) = None"
  unfolding update_move_player_eq[OF Q137_refs] Q137_store
  by (simp_all add: Q137_fields Player_physics_def carry_def speedMultiplier_def Let_def config)

lemmas Q137_move = Q137_store Q137_player update_move_fields[OF Q137_refs] Q137_fields

lemma Q137_preCollision:
  "preCollision R1 2208 0 Q137 = update_move 0 (Q137\<lparr> lastTime := 2208 \<rparr>)"
  by (simp add: preCollision_def afterScroll_def scrolls_def Q137_move)

lemma Q137_landing:
  "landingPlatform (preCollision R1 2208 0 Q137) = Some 3"
  by (simp add: Q137_preCollision landingPlatform_def hits_def Let_def Q137_move)

lemma Q138_eq:
  "Q138 = update_cosmetics (update_fall R1 (landed R1 3 (update_move 0 (Q137\<lparr> lastTime := 2208 \<rparr>))))"
  using Q137_landing
  by (simp add: Q138_def afterFrame_def update_collision_eq Q137_preCollision)

lemma Q138_fields:
  "state Q138 = Playing"
  "score Q138 = 3"
  "perfectStreak Q138 = 3"
  "isFever Q138 = True"
  "viewportWidth Q138 = 800"
  "viewportHeight Q138 = 600"
  "platforms Q138 = [2, 3, 4, 5, 6, 7]"
  "notifications Q138 = [ScoreUpdate 0, ComboChange 0, FeverChange False, GameStateChange Playing, ScoreUpdate 1, ComboChange 1, ScoreUpdate 2, ComboChange 2, ScoreUpdate 3, ComboChange 3, FeverChange True]"
  "store Q138 =
     [\<lparr> plat_x = 300, plat_y = 702, plat_width = 200, plat_height = 20,
        plat_color = NEON_MAGENTA, plat_vx = 0, passed = False, landedOn = False \<rparr>,
      \<lparr> plat_x = 65919 / 640, plat_y = 702, plat_width = 130, plat_height = 20,
        plat_color = NEON_LIME, plat_vx = - (7 / 2), passed = False, landedOn = True \<rparr>,
      \<lparr> plat_x = 200073 / 1280, plat_y = 1195 / 2, plat_width = 130, plat_height = 20,
        plat_color = NEON_LIME, plat_vx = - (7 / 2), passed = False, landedOn = True \<rparr>,
      \<lparr> plat_x = 2681 / 8, plat_y = 895 / 2, plat_width = 130, plat_height = 20,
        plat_color = NEON_LIME, plat_vx = 7 / 2, passed = False, landedOn = True \<rparr>,
      \<lparr> plat_x = 847 / 5, plat_y = 595 / 2, plat_width = 130, plat_height = 20,
        plat_color = NEON_LIME, plat_vx = 7 / 2, passed = False, landedOn = False \<rparr>,
      \<lparr> plat_x = 847 / 5, plat_y = 295 / 2, plat_width = 130, plat_height = 20,
        plat_color = NEON_LIME, plat_vx = 7 / 2, passed = False, landedOn = False \<rparr>,
      \<lparr> plat_x = 953 / 20, plat_y = - (5 / 2), plat_width = 130, plat_height = 20,
        plat_color = NEON_LIME, plat_vx = - (7 / 2), passed = False, landedOn = False \<rparr>,
      \<lparr> plat_x = 439 / 2, plat_y = - (305 / 2), plat_width = 130, plat_height = 20,
        plat_color = NEON_LIME, plat_vx = - (7 / 2), passed = False, landedOn = False \<rparr>]"
  "ply_x (player Q138) = 400"
  "ply_y (player Q138) = 855 / 2"
  "ply_vy (player Q138) = 0"
  "ply_width (player Q138) = 40"
  "ply_height (player Q138) = 40"
  "ply_color (player Q138) = NEON_LIME"
  "jumps (player Q138) = 0"
  "currentPlatform (player Q138) = Some 3"
  "rix Q138 = 260"
  unfolding Q138_eq
  by (simp_all add: tail_fields update_fall_rix landed_fields landed_store landed_score
        landed_perfectStreak landed_isFever landed_notifications landed_player landed_rix
        land_def landingNotes_def perfectHit_def Q137_move config)

lemma Q137_first: "firstLanding R1 (Frame 2208 0) Q137 = Some True"
  by (simp add: Q137_fields(1) Q137_landing)
     (simp add: Q137_preCollision Q137_move perfectHit_def config)

lemma wf_Q137: "wf Q137" and pinned_Q137: "pinned Q137"
  using reachable_inv[OF reachable_Q137] by simp_all

lemma Q137_loop: "loop R1 2208 0 Q137 = Inr Q138"
  by (simp add: Q138_def loop_afterFrame[OF wf_Q137 Q137_fields(1)])

lemma reachable_Q138: "reachable R1 Q138"
  by (rule reachable.step[OF reachable_Q137, of "Frame 2208 0"]) (simp_all add: Q137_loop)

lemmas Q_loop = Q0j_loop Q1_loop Q2_loop Q3_loop Q4_loop Q5_loop Q6_loop Q7_loop Q8_loop
  Q9_loop Q10_loop Q11_loop Q12_loop Q13_loop Q14_loop Q15_loop Q16_loop Q17_loop Q18_loop
  Q19_loop Q20_loop Q21_loop Q22_loop Q23_loop Q24_loop Q25_loop Q26_loop Q27_loop Q28_loop
  Q29_loop Q30_loop Q31_loop Q32_loop Q33_loop Q34_loop Q35_loop Q36_loop Q37_loop Q38_loop
  Q39_loop Q40_loop Q41_loop Q42_loop Q43_loop Q44_loop Q45_loop Q46j_loop Q47_loop Q48_loop
  Q49_loop Q50_loop Q51_loop Q52_loop Q53_loop Q54_loop Q55_loop Q56_loop Q57_loop Q58_loop
  Q59_loop Q60_loop Q61_loop Q62_loop Q63_loop Q64_loop Q65_loop Q66_loop Q67_loop Q68_loop
  Q69_loop Q70_loop Q71_loop Q72_loop Q73_loop Q74_loop Q75_loop Q76_loop Q77_loop Q78_loop
  Q79_loop Q80_loop Q81_loop Q82_loop Q83_loop Q84_loop Q85_loop Q86_loop Q87_loop Q88_loop
  Q89_loop Q90_loop Q91_loop Q92j_loop Q93_loop Q94_loop Q95_loop Q96_loop Q97_loop Q98_loop
  Q99_loop Q100_loop Q101_loop Q102_loop Q103_loop Q104_loop Q105_loop Q106_loop Q107_loop
  Q108_loop Q109_loop Q110_loop Q111_loop Q112_loop Q113_loop Q114_loop Q115_loop Q116_loop
  Q117_loop Q118_loop Q119_loop Q120_loop Q121_loop Q122_loop Q123_loop Q124_loop Q125_loop
  Q126_loop Q127_loop Q128_loop Q129_loop Q130_loop Q131_loop Q132_loop Q133_loop Q134_loop
  Q135_loop Q136_loop Q137_loop

lemmas Q_first = Q0j_first Q1_first Q2_first Q3_first Q4_first Q5_first Q6_first Q7_first
  Q8_first Q9_first Q10_first Q11_first Q12_first Q13_first Q14_first Q15_first Q16_first
  Q17_first Q18_first Q19_first Q20_first Q21_first Q22_first Q23_first Q24_first Q25_first
  Q26_first Q27_first Q28_first Q29_first Q30_first Q31_first Q32_first Q33_first Q34_first
  Q35_first Q36_first Q37_first Q38_first Q39_first Q40_first Q41_first Q42_first Q43_first
  Q44_first Q45_first Q46j_first Q47_first Q48_first Q49_first Q50_first Q51_first Q52_first
  Q53_first Q54_first Q55_first Q56_first Q57_first Q58_first Q59_first Q60_first Q61_first
  Q62_first Q63_first Q64_first Q65_first Q66_first Q67_first Q68_first Q69_first Q70_first
  Q71_first Q72_first Q73_first Q74_first Q75_first Q76_first Q77_first Q78_first Q79_first
  Q80_first Q81_first Q82_first Q83_first Q84_first Q85_first Q86_first Q87_first Q88_first
  Q89_first Q90_first Q91_first Q92j_first Q93_first Q94_first Q95_first Q96_first Q97_first
  Q98_first Q99_first Q100_first Q101_first Q102_first Q103_first Q104_first Q105_first
  Q106_first Q107_first Q108_first Q109_first Q110_first Q111_first Q112_first Q113_first
  Q114_first Q115_first Q116_first Q117_first Q118_first Q119_first Q120_first Q121_first
  Q122_first Q123_first Q124_first Q125_first Q126_first Q127_first Q128_first Q129_first
  Q130_first Q131_first Q132_first Q133_first Q134_first Q135_first Q136_first Q137_first


subsection \<open>The played game as a run\<close>

lemma R1_range: "0 \<le> R1 k \<and> R1 k < 1"
  by (simp add: R1_def)

lemma frames_Cons:
  "numeral a < b \<Longrightarrow>
   frames (numeral a) b = Frame (16 * real (numeral a)) 0 # frames (numeral a + 1) b"
  "Suc 0 < b \<Longrightarrow> frames (Suc 0) b = Frame 16 0 # frames 2 b"
  by (simp_all add: frames_def upt_conv_Cons numeral_2_eq_2)

lemma frames_Nil: "frames a a = []"
  by (simp add: frames_def)

lemma run_append:
  "run R (xs @ ys) e = (case run R xs e of Inl err \<Rightarrow> Inl err | Inr e' \<Rightarrow> run R ys e')"
  by (induction xs arbitrary: e) (simp_all split: sum.splits)

lemma landings_append:
  "landings R (xs @ ys) e =
     landings R xs e @ (case run R xs e of Inl err \<Rightarrow> [] | Inr e' \<Rightarrow> landings R ys e')"
  by (induction xs arbitrary: e) (simp_all split: sum.splits)

lemma frames_1_47:
  "run R1 (frames 1 47) Q0j = Inr Q46" "landings R1 (frames 1 47) Q0j = [True]"
  by (simp_all add: frames_Cons frames_Nil Q_loop Q_first del: firstLanding.simps)

lemma frames_47_93:
  "run R1 (frames 47 93) Q46j = Inr Q92" "landings R1 (frames 47 93) Q46j = [True]"
  by (simp_all add: frames_Cons frames_Nil Q_loop Q_first del: firstLanding.simps)

lemma frames_93_139:
  "run R1 (frames 93 139) Q92j = Inr Q138" "landings R1 (frames 93 139) Q92j = [True]"
  by (simp_all add: frames_Cons frames_Nil Q_loop Q_first del: firstLanding.simps)

lemma run_played: "run R1 played G0 = Inr Q138"
  by (simp add: played_def run_append frames_1_47[unfolded One_nat_def] frames_47_93 frames_93_139
        Q0_def[symmetric] Q0j_def[symmetric] Q46j_def[symmetric] Q92j_def[symmetric])

lemma landings_played: "landings R1 played G0 = [True, True, True]"
  by (simp add: played_def run_append landings_append
        frames_1_47[unfolded One_nat_def] frames_47_93 frames_93_139
        Q0_def[symmetric] Q0j_def[symmetric] Q46j_def[symmetric] Q92j_def[symmetric])

lemma frames_1_46: "run R1 (frames 1 46) Q0j = Inr Q45"
  by (simp add: frames_Cons frames_Nil Q_loop)

lemma run_Q45: "run R1 (StartGame # Input KeyDown # frames 1 46) G0 = Inr Q45"
  by (simp add: frames_1_46[unfolded One_nat_def] Q0_def[symmetric] Q0j_def[symmetric])

section \<open>C5: the number of platforms\<close>

text \<open>
  C5, as the specification has it: whenever the bottom-most platform's y exceeds the viewport height plus the
  margin, it is removed and replaced.  The clean-up sits inside the branch of the world
  scroll.  After the window has shrunk to a height of 300, the base platform at y = 520 lies
  below 300 + 100; the player rests on it at y = 500, which is not above the scroll
  threshold 180, so the frame neither scrolls nor removes the platform.
\<close>

theorem bottom_platform_kept_without_scroll:
  "viewportHeight E0r + 100 < plat_y (store E0r ! hd (platforms E0r)) \<and>
   exec R0 (Frame 16 0) E0r = Inr E1r \<and>
   platforms E1r = platforms E0r \<and>
   viewportHeight E1r + 100 < plat_y (store E1r ! hd (platforms E1r))"
proof -
  have "plat_y (store E1r ! 0) = map plat_y (store E1r) ! 0"
    using E1r_fields(4) by (intro nth_map[symmetric]) (metis length_map length_Cons zero_less_Suc)
  then have y: "plat_y (store E1r ! 0) = 520" by (simp add: E1r_fields)
  have l: "loop R0 16 0 E0r = Inr E1r"
    by (simp add: E1r_def loop_afterFrame[OF wf_E0r E0r_fields(1)])
  show ?thesis
    using y by (simp add: l E0r_fields E0_fields E1r_fields)
qed

text \<open>
  C5, as the code has it: a reset leaves six platforms, and every frame from a reachable state
  succeeds and preserves the length of the platform array.  In the playing phase the array
  changes only in a frame that scrolls the world and in which the bottom-most platform's y,
  after the scroll, exceeds the viewport height plus 100: then that platform is removed and
  exactly one new platform is appended, whose y is that of the previous topmost platform
  minus \<open>PLATFORM_SPACING\<close>.  (\<open>recycles\<close> is that condition, on the state after the platform
  and player movement of the frame.)
\<close>

theorem platform_count_invariant:
  assumes "reachable R e"
  shows "length (platforms (startGame R e)) = 6 \<and>
         (\<exists>e'. loop R time now e = Inr e' \<and>
               length (platforms e') = length (platforms e) \<and>
               (state e = Playing \<longrightarrow>
                  (if recycles (update_move now (e\<lparr> lastTime := time \<rparr>))
                   then platforms e' = tl (platforms e) @ [length (store e)] \<and>
                        plat_y (store e' ! length (store e)) =
                          plat_y (store e' ! last (platforms e)) - PLATFORM_SPACING
                   else platforms e' = platforms e)))"
proof -
  have w: "wf e" using reachable_inv[OF assms] by simp
  have six: "length (platforms (startGame R e)) = 6" by (simp add: startGame_fields)
  show ?thesis
  proof (cases "state e = Playing")
    case False
    then show ?thesis using six by (simp add: loop_idle)
  next
    case True
    let ?e2 = "update_move now (e\<lparr> lastTime := time \<rparr>)"
    let ?e3 = "preCollision R time now e"
    let ?e' = "afterFrame R time now e"
    have len6: "length (platforms e) = 6" using w True by (simp add: wf_def)
    have ps: "platforms ?e' =
                (if recycles ?e2 then tl (platforms e) @ [length (store e)] else platforms e)"
      by (simp add: afterFrame_fields preCollision_platforms[OF w])
    have len: "length (platforms ?e') = length (platforms e)"
      using len6 by (simp add: ps)
    have new: "plat_y (store ?e' ! length (store e)) =
                 plat_y (store ?e' ! last (platforms e)) - PLATFORM_SPACING" if rc: "recycles ?e2"
    proof -
      have w1: "wf (e\<lparr> lastTime := time \<rparr>)" using w by (simp add: wf_def refs_ok_def)
      then have r1: "refs_ok (e\<lparr> lastTime := time \<rparr>)" by (simp add: wf_def)
      from update_move_wf[OF w1, of now] have r2: "refs_ok ?e2" by (simp add: wf_def)
      have ne: "platforms ?e2 \<noteq> []" using len6 r1 by auto
      from afterScroll_new(1)[OF r2 rc ne, of R]
      show ?thesis
        using r1 by (simp add: afterFrame_fields update_collision_store_fields preCollision_def)
    qed
    show ?thesis
      using six len ps new by (simp add: loop_afterFrame[OF w True])
  qed
qed

theorem platform_count_invariant_witness:
  "length (platforms (startGame R0 E0)) = 6 \<and>
   loop R0 16 0 E0 = Inr E1 \<and> length (platforms E1) = 6 \<and> platforms E1 = platforms E0 \<and>
   \<not> recycles (update_move 0 (E0\<lparr> lastTime := 16 \<rparr>)) \<and>
   reachable R1 Q61 \<and> state Q61 = Playing \<and>
   recycles (update_move 0 (Q61\<lparr> lastTime := 992 \<rparr>)) \<and>
   loop R1 992 0 Q61 = Inr Q62 \<and>
   platforms Q61 = [0, 1, 2, 3, 4, 5] \<and> length (store Q61) = 6 \<and>
   platforms Q62 = [1, 2, 3, 4, 5, 6] \<and> length (platforms Q62) = 6 \<and>
   plat_y (store Q62 ! 6) = plat_y (store Q62 ! 5) - PLATFORM_SPACING"
proof -
  have nr: "\<not> recycles (update_move 0 (E0\<lparr> lastTime := 16 \<rparr>))"
    by (simp add: recycles_def scrolls_def E0_move)
  have l: "loop R0 16 0 E0 = Inr E1"
    by (simp add: E1_afterFrame loop_afterFrame[OF wf_E0 E0_fields(1)])
  from platform_count_invariant[OF reachable_E0, of 16 0]
  have a: "length (platforms (startGame R0 E0)) = 6 \<and>
           length (platforms E1) = 6 \<and> platforms E1 = platforms E0"
    using nr l by (simp add: E0_fields)
  have rc: "recycles (update_move 0 (Q61\<lparr> lastTime := 992 \<rparr>))"
    by (rule Q61_scroll(3))
  have q: "platforms Q61 = [0, 1, 2, 3, 4, 5]" "length (store Q61) = 6"
    "state Q61 = Playing"
    by (simp_all add: Q61_fields)
  from platform_count_invariant[OF reachable_Q61, of 992 0]
  have b: "platforms Q62 = [1, 2, 3, 4, 5, 6] \<and> length (platforms Q62) = 6 \<and>
           plat_y (store Q62 ! 6) = plat_y (store Q62 ! 5) - PLATFORM_SPACING"
    using rc q by (simp add: Q61_loop)
  show ?thesis
    using a b nr l rc q reachable_Q61 Q61_loop by blast
qed

subsection \<open>The staircase world, frame by frame\<close>

lemma W0_fields:
  "state W0 = Playing"
  "score W0 = 0"
  "perfectStreak W0 = 0"
  "isFever W0 = False"
  "viewportWidth W0 = 800"
  "viewportHeight W0 = 600"
  "platforms W0 = [0, 1, 2, 3, 4, 5]"
  "notifications W0 = []"
  "store W0 =
     [\<lparr> plat_x = 399, plat_y = 1003 / 2, plat_width = 2, plat_height = 20,
        plat_color = NEON_MAGENTA, plat_vx = 0, passed = False, landedOn = False \<rparr>,
      \<lparr> plat_x = 399, plat_y = 501, plat_width = 2, plat_height = 20,
        plat_color = NEON_YELLOW, plat_vx = 0, passed = False, landedOn = False \<rparr>,
      \<lparr> plat_x = 399, plat_y = 1001 / 2, plat_width = 2, plat_height = 20,
        plat_color = NEON_LIME, plat_vx = 0, passed = False, landedOn = False \<rparr>,
      \<lparr> plat_x = 399, plat_y = 500, plat_width = 2, plat_height = 20,
        plat_color = NEON_MAGENTA, plat_vx = 0, passed = False, landedOn = False \<rparr>,
      \<lparr> plat_x = 335, plat_y = 350, plat_width = 130, plat_height = 20,
        plat_color = NEON_LIME, plat_vx = - (7 / 2), passed = False, landedOn = False \<rparr>,
      \<lparr> plat_x = 335, plat_y = 200, plat_width = 130, plat_height = 20,
        plat_color = NEON_LIME, plat_vx = - (7 / 2), passed = False, landedOn = False \<rparr>]"
  "ply_x (player W0) = 410"
  "ply_y (player W0) = 941 / 2"
  "ply_vy (player W0) = 9"
  "ply_width (player W0) = 40"
  "ply_height (player W0) = 40"
  "ply_color (player W0) = NEON_CYAN"
  "jumps (player W0) = 1"
  "currentPlatform (player W0) = None"
  by (simp_all add: W0_def)

lemma wf_W0: "wf W0" and pinned_W0: "pinned W0"
  by (simp_all add: wf_def refs_ok_def pinned_def W0_fields config)

lemma W0_move:
  "platforms (update_move 0 (W0\<lparr> lastTime := 16 \<rparr>)) = [0, 1, 2, 3, 4, 5]"
  "viewportWidth (update_move 0 (W0\<lparr> lastTime := 16 \<rparr>)) = 800"
  "viewportHeight (update_move 0 (W0\<lparr> lastTime := 16 \<rparr>)) = 600"
  "state (update_move 0 (W0\<lparr> lastTime := 16 \<rparr>)) = Playing"
  "score (update_move 0 (W0\<lparr> lastTime := 16 \<rparr>)) = 0"
  "perfectStreak (update_move 0 (W0\<lparr> lastTime := 16 \<rparr>)) = 0"
  "isFever (update_move 0 (W0\<lparr> lastTime := 16 \<rparr>)) = False"
  "notifications (update_move 0 (W0\<lparr> lastTime := 16 \<rparr>)) = []"
  "store (update_move 0 (W0\<lparr> lastTime := 16 \<rparr>)) =
     [\<lparr> plat_x = 399, plat_y = 1003 / 2, plat_width = 2, plat_height = 20,
        plat_color = NEON_MAGENTA, plat_vx = 0, passed = False, landedOn = False \<rparr>,
      \<lparr> plat_x = 399, plat_y = 501, plat_width = 2, plat_height = 20,
        plat_color = NEON_YELLOW, plat_vx = 0, passed = False, landedOn = False \<rparr>,
      \<lparr> plat_x = 399, plat_y = 1001 / 2, plat_width = 2, plat_height = 20,
        plat_color = NEON_LIME, plat_vx = 0, passed = False, landedOn = False \<rparr>,
      \<lparr> plat_x = 399, plat_y = 500, plat_width = 2, plat_height = 20,
        plat_color = NEON_MAGENTA, plat_vx = 0, passed = False, landedOn = False \<rparr>,
      \<lparr> plat_x = 663 / 2, plat_y = 350, plat_width = 130, plat_height = 20,
        plat_color = NEON_LIME, plat_vx = - (7 / 2), passed = False, landedOn = False \<rparr>,
      \<lparr> plat_x = 663 / 2, plat_y = 200, plat_width = 130, plat_height = 20,
        plat_color = NEON_LIME, plat_vx = - (7 / 2), passed = False, landedOn = False \<rparr>]"
  "ply_x (player (update_move 0 (W0\<lparr> lastTime := 16 \<rparr>))) = 410"
  "ply_y (player (update_move 0 (W0\<lparr> lastTime := 16 \<rparr>))) = 480"
  "ply_vy (player (update_move 0 (W0\<lparr> lastTime := 16 \<rparr>))) = 19 / 2"
  "ply_width (player (update_move 0 (W0\<lparr> lastTime := 16 \<rparr>))) = 40"
  "ply_height (player (update_move 0 (W0\<lparr> lastTime := 16 \<rparr>))) = 40"
  "ply_color (player (update_move 0 (W0\<lparr> lastTime := 16 \<rparr>))) = NEON_CYAN"
  "jumps (player (update_move 0 (W0\<lparr> lastTime := 16 \<rparr>))) = 1"
  "currentPlatform (player (update_move 0 (W0\<lparr> lastTime := 16 \<rparr>))) = None"
proof -
  have r: "refs_ok (W0\<lparr> lastTime := 16 \<rparr>)"
    by (simp add: refs_ok_def W0_fields)
  show st: "store (update_move 0 (W0\<lparr> lastTime := 16 \<rparr>)) =
     [\<lparr> plat_x = 399, plat_y = 1003 / 2, plat_width = 2, plat_height = 20,
        plat_color = NEON_MAGENTA, plat_vx = 0, passed = False, landedOn = False \<rparr>,
      \<lparr> plat_x = 399, plat_y = 501, plat_width = 2, plat_height = 20,
        plat_color = NEON_YELLOW, plat_vx = 0, passed = False, landedOn = False \<rparr>,
      \<lparr> plat_x = 399, plat_y = 1001 / 2, plat_width = 2, plat_height = 20,
        plat_color = NEON_LIME, plat_vx = 0, passed = False, landedOn = False \<rparr>,
      \<lparr> plat_x = 399, plat_y = 500, plat_width = 2, plat_height = 20,
        plat_color = NEON_MAGENTA, plat_vx = 0, passed = False, landedOn = False \<rparr>,
      \<lparr> plat_x = 663 / 2, plat_y = 350, plat_width = 130, plat_height = 20,
        plat_color = NEON_LIME, plat_vx = - (7 / 2), passed = False, landedOn = False \<rparr>,
      \<lparr> plat_x = 663 / 2, plat_y = 200, plat_width = 130, plat_height = 20,
        plat_color = NEON_LIME, plat_vx = - (7 / 2), passed = False, landedOn = False \<rparr>]"
    by (simp add: update_move_eq[OF r] W0_fields advance_def speedMultiplier_def Let_def)
  show
    "platforms (update_move 0 (W0\<lparr> lastTime := 16 \<rparr>)) = [0, 1, 2, 3, 4, 5]"
    "viewportWidth (update_move 0 (W0\<lparr> lastTime := 16 \<rparr>)) = 800"
    "viewportHeight (update_move 0 (W0\<lparr> lastTime := 16 \<rparr>)) = 600"
    "state (update_move 0 (W0\<lparr> lastTime := 16 \<rparr>)) = Playing"
    "score (update_move 0 (W0\<lparr> lastTime := 16 \<rparr>)) = 0"
    "perfectStreak (update_move 0 (W0\<lparr> lastTime := 16 \<rparr>)) = 0"
    "isFever (update_move 0 (W0\<lparr> lastTime := 16 \<rparr>)) = False"
    "notifications (update_move 0 (W0\<lparr> lastTime := 16 \<rparr>)) = []"
    using r by (simp_all add: W0_fields)
  show
    "ply_x (player (update_move 0 (W0\<lparr> lastTime := 16 \<rparr>))) = 410"
    "ply_y (player (update_move 0 (W0\<lparr> lastTime := 16 \<rparr>))) = 480"
    "ply_vy (player (update_move 0 (W0\<lparr> lastTime := 16 \<rparr>))) = 19 / 2"
    "ply_width (player (update_move 0 (W0\<lparr> lastTime := 16 \<rparr>))) = 40"
    "ply_height (player (update_move 0 (W0\<lparr> lastTime := 16 \<rparr>))) = 40"
    "ply_color (player (update_move 0 (W0\<lparr> lastTime := 16 \<rparr>))) = NEON_CYAN"
    "jumps (player (update_move 0 (W0\<lparr> lastTime := 16 \<rparr>))) = 1"
    "currentPlatform (player (update_move 0 (W0\<lparr> lastTime := 16 \<rparr>))) = None"
    unfolding update_move_player_eq[OF r] st
    by (simp_all add: W0_fields Player_physics_def carry_def speedMultiplier_def Let_def config)
qed

lemma W0_preCollision:
  "preCollision R0 16 0 W0 = update_move 0 (W0\<lparr> lastTime := 16 \<rparr>)"
  by (simp add: preCollision_def afterScroll_def scrolls_def W0_move)

lemma W0_landing:
  "landingPlatform (preCollision R0 16 0 W0) = Some 3"
  by (simp add: W0_preCollision landingPlatform_def hits_def Let_def W0_move)

lemma W1_eq:
  "W1 = update_cosmetics (update_fall R0 (landed R0 3 (update_move 0 (W0\<lparr> lastTime := 16 \<rparr>))))"
  using W0_landing
  by (simp add: W1_def afterFrame_def update_collision_eq W0_preCollision)

lemma W1_fields:
  "state W1 = Playing"
  "score W1 = 1"
  "perfectStreak W1 = 1"
  "isFever W1 = False"
  "viewportWidth W1 = 800"
  "viewportHeight W1 = 600"
  "platforms W1 = [0, 1, 2, 3, 4, 5]"
  "notifications W1 = [ScoreUpdate 1, ComboChange 1]"
  "store W1 =
     [\<lparr> plat_x = 399, plat_y = 1003 / 2, plat_width = 2, plat_height = 20,
        plat_color = NEON_MAGENTA, plat_vx = 0, passed = False, landedOn = False \<rparr>,
      \<lparr> plat_x = 399, plat_y = 501, plat_width = 2, plat_height = 20,
        plat_color = NEON_YELLOW, plat_vx = 0, passed = False, landedOn = False \<rparr>,
      \<lparr> plat_x = 399, plat_y = 1001 / 2, plat_width = 2, plat_height = 20,
        plat_color = NEON_LIME, plat_vx = 0, passed = False, landedOn = False \<rparr>,
      \<lparr> plat_x = 399, plat_y = 500, plat_width = 2, plat_height = 20,
        plat_color = NEON_MAGENTA, plat_vx = 0, passed = False, landedOn = True \<rparr>,
      \<lparr> plat_x = 663 / 2, plat_y = 350, plat_width = 130, plat_height = 20,
        plat_color = NEON_LIME, plat_vx = - (7 / 2), passed = False, landedOn = False \<rparr>,
      \<lparr> plat_x = 663 / 2, plat_y = 200, plat_width = 130, plat_height = 20,
        plat_color = NEON_LIME, plat_vx = - (7 / 2), passed = False, landedOn = False \<rparr>]"
  "ply_x (player W1) = 410"
  "ply_y (player W1) = 480"
  "ply_vy (player W1) = 0"
  "ply_width (player W1) = 40"
  "ply_height (player W1) = 40"
  "ply_color (player W1) = NEON_MAGENTA"
  "jumps (player W1) = 0"
  "currentPlatform (player W1) = Some 3"
  unfolding W1_eq
  by (simp_all add: tail_fields landed_fields landed_store landed_score landed_perfectStreak
        landed_isFever landed_notifications landed_player land_def landingNotes_def
        perfectHit_def W0_move config)

lemma W0_loop: "loop R0 16 0 W0 = Inr W1"
  by (simp add: W1_def loop_afterFrame[OF wf_W0 W0_fields(1)])

lemma wf_W1: "wf W1" and pinned_W1: "pinned W1"
  using loop_inv[OF wf_W0 pinned_W0, of R0 16 0] by (simp_all add: W0_loop)

lemma W1_move:
  "platforms (update_move 0 (W1\<lparr> lastTime := 32 \<rparr>)) = [0, 1, 2, 3, 4, 5]"
  "viewportWidth (update_move 0 (W1\<lparr> lastTime := 32 \<rparr>)) = 800"
  "viewportHeight (update_move 0 (W1\<lparr> lastTime := 32 \<rparr>)) = 600"
  "state (update_move 0 (W1\<lparr> lastTime := 32 \<rparr>)) = Playing"
  "score (update_move 0 (W1\<lparr> lastTime := 32 \<rparr>)) = 1"
  "perfectStreak (update_move 0 (W1\<lparr> lastTime := 32 \<rparr>)) = 1"
  "isFever (update_move 0 (W1\<lparr> lastTime := 32 \<rparr>)) = False"
  "notifications (update_move 0 (W1\<lparr> lastTime := 32 \<rparr>)) = [ScoreUpdate 1, ComboChange 1]"
  "store (update_move 0 (W1\<lparr> lastTime := 32 \<rparr>)) =
     [\<lparr> plat_x = 399, plat_y = 1003 / 2, plat_width = 2, plat_height = 20,
        plat_color = NEON_MAGENTA, plat_vx = 0, passed = False, landedOn = False \<rparr>,
      \<lparr> plat_x = 399, plat_y = 501, plat_width = 2, plat_height = 20,
        plat_color = NEON_YELLOW, plat_vx = 0, passed = False, landedOn = False \<rparr>,
      \<lparr> plat_x = 399, plat_y = 1001 / 2, plat_width = 2, plat_height = 20,
        plat_color = NEON_LIME, plat_vx = 0, passed = False, landedOn = False \<rparr>,
      \<lparr> plat_x = 399, plat_y = 500, plat_width = 2, plat_height = 20,
        plat_color = NEON_MAGENTA, plat_vx = 0, passed = False, landedOn = True \<rparr>,
      \<lparr> plat_x = 13113 / 40, plat_y = 350, plat_width = 130, plat_height = 20,
        plat_color = NEON_LIME, plat_vx = - (7 / 2), passed = False, landedOn = False \<rparr>,
      \<lparr> plat_x = 13113 / 40, plat_y = 200, plat_width = 130, plat_height = 20,
        plat_color = NEON_LIME, plat_vx = - (7 / 2), passed = False, landedOn = False \<rparr>]"
  "ply_x (player (update_move 0 (W1\<lparr> lastTime := 32 \<rparr>))) = 410"
  "ply_y (player (update_move 0 (W1\<lparr> lastTime := 32 \<rparr>))) = 480"
  "ply_vy (player (update_move 0 (W1\<lparr> lastTime := 32 \<rparr>))) = 0"
  "ply_width (player (update_move 0 (W1\<lparr> lastTime := 32 \<rparr>))) = 40"
  "ply_height (player (update_move 0 (W1\<lparr> lastTime := 32 \<rparr>))) = 40"
  "ply_color (player (update_move 0 (W1\<lparr> lastTime := 32 \<rparr>))) = NEON_MAGENTA"
  "jumps (player (update_move 0 (W1\<lparr> lastTime := 32 \<rparr>))) = 0"
  "currentPlatform (player (update_move 0 (W1\<lparr> lastTime := 32 \<rparr>))) = None"
proof -
  have r: "refs_ok (W1\<lparr> lastTime := 32 \<rparr>)"
    by (simp add: refs_ok_def W1_fields)
  show st: "store (update_move 0 (W1\<lparr> lastTime := 32 \<rparr>)) =
     [\<lparr> plat_x = 399, plat_y = 1003 / 2, plat_width = 2, plat_height = 20,
        plat_color = NEON_MAGENTA, plat_vx = 0, passed = False, landedOn = False \<rparr>,
      \<lparr> plat_x = 399, plat_y = 501, plat_width = 2, plat_height = 20,
        plat_color = NEON_YELLOW, plat_vx = 0, passed = False, landedOn = False \<rparr>,
      \<lparr> plat_x = 399, plat_y = 1001 / 2, plat_width = 2, plat_height = 20,
        plat_color = NEON_LIME, plat_vx = 0, passed = False, landedOn = False \<rparr>,
      \<lparr> plat_x = 399, plat_y = 500, plat_width = 2, plat_height = 20,
        plat_color = NEON_MAGENTA, plat_vx = 0, passed = False, landedOn = True \<rparr>,
      \<lparr> plat_x = 13113 / 40, plat_y = 350, plat_width = 130, plat_height = 20,
        plat_color = NEON_LIME, plat_vx = - (7 / 2), passed = False, landedOn = False \<rparr>,
      \<lparr> plat_x = 13113 / 40, plat_y = 200, plat_width = 130, plat_height = 20,
        plat_color = NEON_LIME, plat_vx = - (7 / 2), passed = False, landedOn = False \<rparr>]"
    by (simp add: update_move_eq[OF r] W1_fields advance_def speedMultiplier_def Let_def)
  show
    "platforms (update_move 0 (W1\<lparr> lastTime := 32 \<rparr>)) = [0, 1, 2, 3, 4, 5]"
    "viewportWidth (update_move 0 (W1\<lparr> lastTime := 32 \<rparr>)) = 800"
    "viewportHeight (update_move 0 (W1\<lparr> lastTime := 32 \<rparr>)) = 600"
    "state (update_move 0 (W1\<lparr> lastTime := 32 \<rparr>)) = Playing"
    "score (update_move 0 (W1\<lparr> lastTime := 32 \<rparr>)) = 1"
    "perfectStreak (update_move 0 (W1\<lparr> lastTime := 32 \<rparr>)) = 1"
    "isFever (update_move 0 (W1\<lparr> lastTime := 32 \<rparr>)) = False"
    "notifications (update_move 0 (W1\<lparr> lastTime := 32 \<rparr>)) = [ScoreUpdate 1, ComboChange 1]"
    using r by (simp_all add: W1_fields)
  show
    "ply_x (player (update_move 0 (W1\<lparr> lastTime := 32 \<rparr>))) = 410"
    "ply_y (player (update_move 0 (W1\<lparr> lastTime := 32 \<rparr>))) = 480"
    "ply_vy (player (update_move 0 (W1\<lparr> lastTime := 32 \<rparr>))) = 0"
    "ply_width (player (update_move 0 (W1\<lparr> lastTime := 32 \<rparr>))) = 40"
    "ply_height (player (update_move 0 (W1\<lparr> lastTime := 32 \<rparr>))) = 40"
    "ply_color (player (update_move 0 (W1\<lparr> lastTime := 32 \<rparr>))) = NEON_MAGENTA"
    "jumps (player (update_move 0 (W1\<lparr> lastTime := 32 \<rparr>))) = 0"
    "currentPlatform (player (update_move 0 (W1\<lparr> lastTime := 32 \<rparr>))) = None"
    unfolding update_move_player_eq[OF r] st
    by (simp_all add: W1_fields Player_physics_def carry_def speedMultiplier_def Let_def config)
qed

lemma W1_preCollision:
  "preCollision R0 32 0 W1 = update_move 0 (W1\<lparr> lastTime := 32 \<rparr>)"
  by (simp add: preCollision_def afterScroll_def scrolls_def W1_move)

lemma W1_landing:
  "landingPlatform (preCollision R0 32 0 W1) = None"
  by (simp add: W1_preCollision landingPlatform_def hits_def Let_def W1_move)

lemma W2_eq:
  "W2 = update_cosmetics (update_fall R0 (update_move 0 (W1\<lparr> lastTime := 32 \<rparr>)))"
  using W1_landing
  by (simp add: W2_def afterFrame_def update_collision_eq W1_preCollision)

lemma W2_fields:
  "state W2 = Playing"
  "score W2 = 1"
  "perfectStreak W2 = 1"
  "isFever W2 = False"
  "viewportWidth W2 = 800"
  "viewportHeight W2 = 600"
  "platforms W2 = [0, 1, 2, 3, 4, 5]"
  "notifications W2 = [ScoreUpdate 1, ComboChange 1]"
  "store W2 =
     [\<lparr> plat_x = 399, plat_y = 1003 / 2, plat_width = 2, plat_height = 20,
        plat_color = NEON_MAGENTA, plat_vx = 0, passed = False, landedOn = False \<rparr>,
      \<lparr> plat_x = 399, plat_y = 501, plat_width = 2, plat_height = 20,
        plat_color = NEON_YELLOW, plat_vx = 0, passed = False, landedOn = False \<rparr>,
      \<lparr> plat_x = 399, plat_y = 1001 / 2, plat_width = 2, plat_height = 20,
        plat_color = NEON_LIME, plat_vx = 0, passed = False, landedOn = False \<rparr>,
      \<lparr> plat_x = 399, plat_y = 500, plat_width = 2, plat_height = 20,
        plat_color = NEON_MAGENTA, plat_vx = 0, passed = False, landedOn = True \<rparr>,
      \<lparr> plat_x = 13113 / 40, plat_y = 350, plat_width = 130, plat_height = 20,
        plat_color = NEON_LIME, plat_vx = - (7 / 2), passed = False, landedOn = False \<rparr>,
      \<lparr> plat_x = 13113 / 40, plat_y = 200, plat_width = 130, plat_height = 20,
        plat_color = NEON_LIME, plat_vx = - (7 / 2), passed = False, landedOn = False \<rparr>]"
  "ply_x (player W2) = 410"
  "ply_y (player W2) = 480"
  "ply_vy (player W2) = 0"
  "ply_width (player W2) = 40"
  "ply_height (player W2) = 40"
  "ply_color (player W2) = NEON_MAGENTA"
  "jumps (player W2) = 0"
  "currentPlatform (player W2) = None"
  unfolding W2_eq
  by (simp_all add: tail_fields landed_fields landed_store landed_score landed_perfectStreak
        landed_isFever landed_notifications landed_player land_def landingNotes_def
        perfectHit_def W1_move config)

lemma W1_loop: "loop R0 32 0 W1 = Inr W2"
  by (simp add: W2_def loop_afterFrame[OF wf_W1 W1_fields(1)])

lemma wf_W2: "wf W2" and pinned_W2: "pinned W2"
  using loop_inv[OF wf_W1 pinned_W1, of R0 32 0] by (simp_all add: W1_loop)

lemma W2_move:
  "platforms (update_move 0 (W2\<lparr> lastTime := 48 \<rparr>)) = [0, 1, 2, 3, 4, 5]"
  "viewportWidth (update_move 0 (W2\<lparr> lastTime := 48 \<rparr>)) = 800"
  "viewportHeight (update_move 0 (W2\<lparr> lastTime := 48 \<rparr>)) = 600"
  "state (update_move 0 (W2\<lparr> lastTime := 48 \<rparr>)) = Playing"
  "score (update_move 0 (W2\<lparr> lastTime := 48 \<rparr>)) = 1"
  "perfectStreak (update_move 0 (W2\<lparr> lastTime := 48 \<rparr>)) = 1"
  "isFever (update_move 0 (W2\<lparr> lastTime := 48 \<rparr>)) = False"
  "notifications (update_move 0 (W2\<lparr> lastTime := 48 \<rparr>)) = [ScoreUpdate 1, ComboChange 1]"
  "store (update_move 0 (W2\<lparr> lastTime := 48 \<rparr>)) =
     [\<lparr> plat_x = 399, plat_y = 1003 / 2, plat_width = 2, plat_height = 20,
        plat_color = NEON_MAGENTA, plat_vx = 0, passed = False, landedOn = False \<rparr>,
      \<lparr> plat_x = 399, plat_y = 501, plat_width = 2, plat_height = 20,
        plat_color = NEON_YELLOW, plat_vx = 0, passed = False, landedOn = False \<rparr>,
      \<lparr> plat_x = 399, plat_y = 1001 / 2, plat_width = 2, plat_height = 20,
        plat_color = NEON_LIME, plat_vx = 0, passed = False, landedOn = False \<rparr>,
      \<lparr> plat_x = 399, plat_y = 500, plat_width = 2, plat_height = 20,
        plat_color = NEON_MAGENTA, plat_vx = 0, passed = False, landedOn = True \<rparr>,
      \<lparr> plat_x = 6483 / 20, plat_y = 350, plat_width = 130, plat_height = 20,
        plat_color = NEON_LIME, plat_vx = - (7 / 2), passed = False, landedOn = False \<rparr>,
      \<lparr> plat_x = 6483 / 20, plat_y = 200, plat_width = 130, plat_height = 20,
        plat_color = NEON_LIME, plat_vx = - (7 / 2), passed = False, landedOn = False \<rparr>]"
  "ply_x (player (update_move 0 (W2\<lparr> lastTime := 48 \<rparr>))) = 410"
  "ply_y (player (update_move 0 (W2\<lparr> lastTime := 48 \<rparr>))) = 961 / 2"
  "ply_vy (player (update_move 0 (W2\<lparr> lastTime := 48 \<rparr>))) = 1 / 2"
  "ply_width (player (update_move 0 (W2\<lparr> lastTime := 48 \<rparr>))) = 40"
  "ply_height (player (update_move 0 (W2\<lparr> lastTime := 48 \<rparr>))) = 40"
  "ply_color (player (update_move 0 (W2\<lparr> lastTime := 48 \<rparr>))) = NEON_MAGENTA"
  "jumps (player (update_move 0 (W2\<lparr> lastTime := 48 \<rparr>))) = 0"
  "currentPlatform (player (update_move 0 (W2\<lparr> lastTime := 48 \<rparr>))) = None"
proof -
  have r: "refs_ok (W2\<lparr> lastTime := 48 \<rparr>)"
    by (simp add: refs_ok_def W2_fields)
  show st: "store (update_move 0 (W2\<lparr> lastTime := 48 \<rparr>)) =
     [\<lparr> plat_x = 399, plat_y = 1003 / 2, plat_width = 2, plat_height = 20,
        plat_color = NEON_MAGENTA, plat_vx = 0, passed = False, landedOn = False \<rparr>,
      \<lparr> plat_x = 399, plat_y = 501, plat_width = 2, plat_height = 20,
        plat_color = NEON_YELLOW, plat_vx = 0, passed = False, landedOn = False \<rparr>,
      \<lparr> plat_x = 399, plat_y = 1001 / 2, plat_width = 2, plat_height = 20,
        plat_color = NEON_LIME, plat_vx = 0, passed = False, landedOn = False \<rparr>,
      \<lparr> plat_x = 399, plat_y = 500, plat_width = 2, plat_height = 20,
        plat_color = NEON_MAGENTA, plat_vx = 0, passed = False, landedOn = True \<rparr>,
      \<lparr> plat_x = 6483 / 20, plat_y = 350, plat_width = 130, plat_height = 20,
        plat_color = NEON_LIME, plat_vx = - (7 / 2), passed = False, landedOn = False \<rparr>,
      \<lparr> plat_x = 6483 / 20, plat_y = 200, plat_width = 130, plat_height = 20,
        plat_color = NEON_LIME, plat_vx = - (7 / 2), passed = False, landedOn = False \<rparr>]"
    by (simp add: update_move_eq[OF r] W2_fields advance_def speedMultiplier_def Let_def)
  show
    "platforms (update_move 0 (W2\<lparr> lastTime := 48 \<rparr>)) = [0, 1, 2, 3, 4, 5]"
    "viewportWidth (update_move 0 (W2\<lparr> lastTime := 48 \<rparr>)) = 800"
    "viewportHeight (update_move 0 (W2\<lparr> lastTime := 48 \<rparr>)) = 600"
    "state (update_move 0 (W2\<lparr> lastTime := 48 \<rparr>)) = Playing"
    "score (update_move 0 (W2\<lparr> lastTime := 48 \<rparr>)) = 1"
    "perfectStreak (update_move 0 (W2\<lparr> lastTime := 48 \<rparr>)) = 1"
    "isFever (update_move 0 (W2\<lparr> lastTime := 48 \<rparr>)) = False"
    "notifications (update_move 0 (W2\<lparr> lastTime := 48 \<rparr>)) = [ScoreUpdate 1, ComboChange 1]"
    using r by (simp_all add: W2_fields)
  show
    "ply_x (player (update_move 0 (W2\<lparr> lastTime := 48 \<rparr>))) = 410"
    "ply_y (player (update_move 0 (W2\<lparr> lastTime := 48 \<rparr>))) = 961 / 2"
    "ply_vy (player (update_move 0 (W2\<lparr> lastTime := 48 \<rparr>))) = 1 / 2"
    "ply_width (player (update_move 0 (W2\<lparr> lastTime := 48 \<rparr>))) = 40"
    "ply_height (player (update_move 0 (W2\<lparr> lastTime := 48 \<rparr>))) = 40"
    "ply_color (player (update_move 0 (W2\<lparr> lastTime := 48 \<rparr>))) = NEON_MAGENTA"
    "jumps (player (update_move 0 (W2\<lparr> lastTime := 48 \<rparr>))) = 0"
    "currentPlatform (player (update_move 0 (W2\<lparr> lastTime := 48 \<rparr>))) = None"
    unfolding update_move_player_eq[OF r] st
    by (simp_all add: W2_fields Player_physics_def carry_def speedMultiplier_def Let_def config)
qed

lemma W2_preCollision:
  "preCollision R0 48 0 W2 = update_move 0 (W2\<lparr> lastTime := 48 \<rparr>)"
  by (simp add: preCollision_def afterScroll_def scrolls_def W2_move)

lemma W2_landing:
  "landingPlatform (preCollision R0 48 0 W2) = Some 2"
  by (simp add: W2_preCollision landingPlatform_def hits_def Let_def W2_move)

lemma W3_eq:
  "W3 = update_cosmetics (update_fall R0 (landed R0 2 (update_move 0 (W2\<lparr> lastTime := 48 \<rparr>))))"
  using W2_landing
  by (simp add: W3_def afterFrame_def update_collision_eq W2_preCollision)

lemma W3_fields:
  "state W3 = Playing"
  "score W3 = 2"
  "perfectStreak W3 = 2"
  "isFever W3 = False"
  "viewportWidth W3 = 800"
  "viewportHeight W3 = 600"
  "platforms W3 = [0, 1, 2, 3, 4, 5]"
  "notifications W3 = [ScoreUpdate 1, ComboChange 1, ScoreUpdate 2, ComboChange 2]"
  "store W3 =
     [\<lparr> plat_x = 399, plat_y = 1003 / 2, plat_width = 2, plat_height = 20,
        plat_color = NEON_MAGENTA, plat_vx = 0, passed = False, landedOn = False \<rparr>,
      \<lparr> plat_x = 399, plat_y = 501, plat_width = 2, plat_height = 20,
        plat_color = NEON_YELLOW, plat_vx = 0, passed = False, landedOn = False \<rparr>,
      \<lparr> plat_x = 399, plat_y = 1001 / 2, plat_width = 2, plat_height = 20,
        plat_color = NEON_LIME, plat_vx = 0, passed = False, landedOn = True \<rparr>,
      \<lparr> plat_x = 399, plat_y = 500, plat_width = 2, plat_height = 20,
        plat_color = NEON_MAGENTA, plat_vx = 0, passed = False, landedOn = True \<rparr>,
      \<lparr> plat_x = 6483 / 20, plat_y = 350, plat_width = 130, plat_height = 20,
        plat_color = NEON_LIME, plat_vx = - (7 / 2), passed = False, landedOn = False \<rparr>,
      \<lparr> plat_x = 6483 / 20, plat_y = 200, plat_width = 130, plat_height = 20,
        plat_color = NEON_LIME, plat_vx = - (7 / 2), passed = False, landedOn = False \<rparr>]"
  "ply_x (player W3) = 410"
  "ply_y (player W3) = 961 / 2"
  "ply_vy (player W3) = 0"
  "ply_width (player W3) = 40"
  "ply_height (player W3) = 40"
  "ply_color (player W3) = NEON_LIME"
  "jumps (player W3) = 0"
  "currentPlatform (player W3) = Some 2"
  unfolding W3_eq
  by (simp_all add: tail_fields landed_fields landed_store landed_score landed_perfectStreak
        landed_isFever landed_notifications landed_player land_def landingNotes_def
        perfectHit_def W2_move config)

lemma W2_loop: "loop R0 48 0 W2 = Inr W3"
  by (simp add: W3_def loop_afterFrame[OF wf_W2 W2_fields(1)])

lemma wf_W3: "wf W3" and pinned_W3: "pinned W3"
  using loop_inv[OF wf_W2 pinned_W2, of R0 48 0] by (simp_all add: W2_loop)

lemma W3_move:
  "platforms (update_move 0 (W3\<lparr> lastTime := 64 \<rparr>)) = [0, 1, 2, 3, 4, 5]"
  "viewportWidth (update_move 0 (W3\<lparr> lastTime := 64 \<rparr>)) = 800"
  "viewportHeight (update_move 0 (W3\<lparr> lastTime := 64 \<rparr>)) = 600"
  "state (update_move 0 (W3\<lparr> lastTime := 64 \<rparr>)) = Playing"
  "score (update_move 0 (W3\<lparr> lastTime := 64 \<rparr>)) = 2"
  "perfectStreak (update_move 0 (W3\<lparr> lastTime := 64 \<rparr>)) = 2"
  "isFever (update_move 0 (W3\<lparr> lastTime := 64 \<rparr>)) = False"
  "notifications (update_move 0 (W3\<lparr> lastTime := 64 \<rparr>)) = [ScoreUpdate 1, ComboChange 1, ScoreUpdate 2, ComboChange 2]"
  "store (update_move 0 (W3\<lparr> lastTime := 64 \<rparr>)) =
     [\<lparr> plat_x = 399, plat_y = 1003 / 2, plat_width = 2, plat_height = 20,
        plat_color = NEON_MAGENTA, plat_vx = 0, passed = False, landedOn = False \<rparr>,
      \<lparr> plat_x = 399, plat_y = 501, plat_width = 2, plat_height = 20,
        plat_color = NEON_YELLOW, plat_vx = 0, passed = False, landedOn = False \<rparr>,
      \<lparr> plat_x = 399, plat_y = 1001 / 2, plat_width = 2, plat_height = 20,
        plat_color = NEON_LIME, plat_vx = 0, passed = False, landedOn = True \<rparr>,
      \<lparr> plat_x = 399, plat_y = 500, plat_width = 2, plat_height = 20,
        plat_color = NEON_MAGENTA, plat_vx = 0, passed = False, landedOn = True \<rparr>,
      \<lparr> plat_x = 3203 / 10, plat_y = 350, plat_width = 130, plat_height = 20,
        plat_color = NEON_LIME, plat_vx = - (7 / 2), passed = False, landedOn = False \<rparr>,
      \<lparr> plat_x = 3203 / 10, plat_y = 200, plat_width = 130, plat_height = 20,
        plat_color = NEON_LIME, plat_vx = - (7 / 2), passed = False, landedOn = False \<rparr>]"
  "ply_x (player (update_move 0 (W3\<lparr> lastTime := 64 \<rparr>))) = 410"
  "ply_y (player (update_move 0 (W3\<lparr> lastTime := 64 \<rparr>))) = 961 / 2"
  "ply_vy (player (update_move 0 (W3\<lparr> lastTime := 64 \<rparr>))) = 0"
  "ply_width (player (update_move 0 (W3\<lparr> lastTime := 64 \<rparr>))) = 40"
  "ply_height (player (update_move 0 (W3\<lparr> lastTime := 64 \<rparr>))) = 40"
  "ply_color (player (update_move 0 (W3\<lparr> lastTime := 64 \<rparr>))) = NEON_LIME"
  "jumps (player (update_move 0 (W3\<lparr> lastTime := 64 \<rparr>))) = 0"
  "currentPlatform (player (update_move 0 (W3\<lparr> lastTime := 64 \<rparr>))) = None"
proof -
  have r: "refs_ok (W3\<lparr> lastTime := 64 \<rparr>)"
    by (simp add: refs_ok_def W3_fields)
  show st: "store (update_move 0 (W3\<lparr> lastTime := 64 \<rparr>)) =
     [\<lparr> plat_x = 399, plat_y = 1003 / 2, plat_width = 2, plat_height = 20,
        plat_color = NEON_MAGENTA, plat_vx = 0, passed = False, landedOn = False \<rparr>,
      \<lparr> plat_x = 399, plat_y = 501, plat_width = 2, plat_height = 20,
        plat_color = NEON_YELLOW, plat_vx = 0, passed = False, landedOn = False \<rparr>,
      \<lparr> plat_x = 399, plat_y = 1001 / 2, plat_width = 2, plat_height = 20,
        plat_color = NEON_LIME, plat_vx = 0, passed = False, landedOn = True \<rparr>,
      \<lparr> plat_x = 399, plat_y = 500, plat_width = 2, plat_height = 20,
        plat_color = NEON_MAGENTA, plat_vx = 0, passed = False, landedOn = True \<rparr>,
      \<lparr> plat_x = 3203 / 10, plat_y = 350, plat_width = 130, plat_height = 20,
        plat_color = NEON_LIME, plat_vx = - (7 / 2), passed = False, landedOn = False \<rparr>,
      \<lparr> plat_x = 3203 / 10, plat_y = 200, plat_width = 130, plat_height = 20,
        plat_color = NEON_LIME, plat_vx = - (7 / 2), passed = False, landedOn = False \<rparr>]"
    by (simp add: update_move_eq[OF r] W3_fields advance_def speedMultiplier_def Let_def)
  show
    "platforms (update_move 0 (W3\<lparr> lastTime := 64 \<rparr>)) = [0, 1, 2, 3, 4, 5]"
    "viewportWidth (update_move 0 (W3\<lparr> lastTime := 64 \<rparr>)) = 800"
    "viewportHeight (update_move 0 (W3\<lparr> lastTime := 64 \<rparr>)) = 600"
    "state (update_move 0 (W3\<lparr> lastTime := 64 \<rparr>)) = Playing"
    "score (update_move 0 (W3\<lparr> lastTime := 64 \<rparr>)) = 2"
    "perfectStreak (update_move 0 (W3\<lparr> lastTime := 64 \<rparr>)) = 2"
    "isFever (update_move 0 (W3\<lparr> lastTime := 64 \<rparr>)) = False"
    "notifications (update_move 0 (W3\<lparr> lastTime := 64 \<rparr>)) = [ScoreUpdate 1, ComboChange 1, ScoreUpdate 2, ComboChange 2]"
    using r by (simp_all add: W3_fields)
  show
    "ply_x (player (update_move 0 (W3\<lparr> lastTime := 64 \<rparr>))) = 410"
    "ply_y (player (update_move 0 (W3\<lparr> lastTime := 64 \<rparr>))) = 961 / 2"
    "ply_vy (player (update_move 0 (W3\<lparr> lastTime := 64 \<rparr>))) = 0"
    "ply_width (player (update_move 0 (W3\<lparr> lastTime := 64 \<rparr>))) = 40"
    "ply_height (player (update_move 0 (W3\<lparr> lastTime := 64 \<rparr>))) = 40"
    "ply_color (player (update_move 0 (W3\<lparr> lastTime := 64 \<rparr>))) = NEON_LIME"
    "jumps (player (update_move 0 (W3\<lparr> lastTime := 64 \<rparr>))) = 0"
    "currentPlatform (player (update_move 0 (W3\<lparr> lastTime := 64 \<rparr>))) = None"
    unfolding update_move_player_eq[OF r] st
    by (simp_all add: W3_fields Player_physics_def carry_def speedMultiplier_def Let_def config)
qed

lemma W3_preCollision:
  "preCollision R0 64 0 W3 = update_move 0 (W3\<lparr> lastTime := 64 \<rparr>)"
  by (simp add: preCollision_def afterScroll_def scrolls_def W3_move)

lemma W3_landing:
  "landingPlatform (preCollision R0 64 0 W3) = None"
  by (simp add: W3_preCollision landingPlatform_def hits_def Let_def W3_move)

lemma W4_eq:
  "W4 = update_cosmetics (update_fall R0 (update_move 0 (W3\<lparr> lastTime := 64 \<rparr>)))"
  using W3_landing
  by (simp add: W4_def afterFrame_def update_collision_eq W3_preCollision)

lemma W4_fields:
  "state W4 = Playing"
  "score W4 = 2"
  "perfectStreak W4 = 2"
  "isFever W4 = False"
  "viewportWidth W4 = 800"
  "viewportHeight W4 = 600"
  "platforms W4 = [0, 1, 2, 3, 4, 5]"
  "notifications W4 = [ScoreUpdate 1, ComboChange 1, ScoreUpdate 2, ComboChange 2]"
  "store W4 =
     [\<lparr> plat_x = 399, plat_y = 1003 / 2, plat_width = 2, plat_height = 20,
        plat_color = NEON_MAGENTA, plat_vx = 0, passed = False, landedOn = False \<rparr>,
      \<lparr> plat_x = 399, plat_y = 501, plat_width = 2, plat_height = 20,
        plat_color = NEON_YELLOW, plat_vx = 0, passed = False, landedOn = False \<rparr>,
      \<lparr> plat_x = 399, plat_y = 1001 / 2, plat_width = 2, plat_height = 20,
        plat_color = NEON_LIME, plat_vx = 0, passed = False, landedOn = True \<rparr>,
      \<lparr> plat_x = 399, plat_y = 500, plat_width = 2, plat_height = 20,
        plat_color = NEON_MAGENTA, plat_vx = 0, passed = False, landedOn = True \<rparr>,
      \<lparr> plat_x = 3203 / 10, plat_y = 350, plat_width = 130, plat_height = 20,
        plat_color = NEON_LIME, plat_vx = - (7 / 2), passed = False, landedOn = False \<rparr>,
      \<lparr> plat_x = 3203 / 10, plat_y = 200, plat_width = 130, plat_height = 20,
        plat_color = NEON_LIME, plat_vx = - (7 / 2), passed = False, landedOn = False \<rparr>]"
  "ply_x (player W4) = 410"
  "ply_y (player W4) = 961 / 2"
  "ply_vy (player W4) = 0"
  "ply_width (player W4) = 40"
  "ply_height (player W4) = 40"
  "ply_color (player W4) = NEON_LIME"
  "jumps (player W4) = 0"
  "currentPlatform (player W4) = None"
  unfolding W4_eq
  by (simp_all add: tail_fields landed_fields landed_store landed_score landed_perfectStreak
        landed_isFever landed_notifications landed_player land_def landingNotes_def
        perfectHit_def W3_move config)

lemma W3_loop: "loop R0 64 0 W3 = Inr W4"
  by (simp add: W4_def loop_afterFrame[OF wf_W3 W3_fields(1)])

lemma wf_W4: "wf W4" and pinned_W4: "pinned W4"
  using loop_inv[OF wf_W3 pinned_W3, of R0 64 0] by (simp_all add: W3_loop)

lemma W4_move:
  "platforms (update_move 0 (W4\<lparr> lastTime := 80 \<rparr>)) = [0, 1, 2, 3, 4, 5]"
  "viewportWidth (update_move 0 (W4\<lparr> lastTime := 80 \<rparr>)) = 800"
  "viewportHeight (update_move 0 (W4\<lparr> lastTime := 80 \<rparr>)) = 600"
  "state (update_move 0 (W4\<lparr> lastTime := 80 \<rparr>)) = Playing"
  "score (update_move 0 (W4\<lparr> lastTime := 80 \<rparr>)) = 2"
  "perfectStreak (update_move 0 (W4\<lparr> lastTime := 80 \<rparr>)) = 2"
  "isFever (update_move 0 (W4\<lparr> lastTime := 80 \<rparr>)) = False"
  "notifications (update_move 0 (W4\<lparr> lastTime := 80 \<rparr>)) = [ScoreUpdate 1, ComboChange 1, ScoreUpdate 2, ComboChange 2]"
  "store (update_move 0 (W4\<lparr> lastTime := 80 \<rparr>)) =
     [\<lparr> plat_x = 399, plat_y = 1003 / 2, plat_width = 2, plat_height = 20,
        plat_color = NEON_MAGENTA, plat_vx = 0, passed = False, landedOn = False \<rparr>,
      \<lparr> plat_x = 399, plat_y = 501, plat_width = 2, plat_height = 20,
        plat_color = NEON_YELLOW, plat_vx = 0, passed = False, landedOn = False \<rparr>,
      \<lparr> plat_x = 399, plat_y = 1001 / 2, plat_width = 2, plat_height = 20,
        plat_color = NEON_LIME, plat_vx = 0, passed = False, landedOn = True \<rparr>,
      \<lparr> plat_x = 399, plat_y = 500, plat_width = 2, plat_height = 20,
        plat_color = NEON_MAGENTA, plat_vx = 0, passed = False, landedOn = True \<rparr>,
      \<lparr> plat_x = 6329 / 20, plat_y = 350, plat_width = 130, plat_height = 20,
        plat_color = NEON_LIME, plat_vx = - (7 / 2), passed = False, landedOn = False \<rparr>,
      \<lparr> plat_x = 6329 / 20, plat_y = 200, plat_width = 130, plat_height = 20,
        plat_color = NEON_LIME, plat_vx = - (7 / 2), passed = False, landedOn = False \<rparr>]"
  "ply_x (player (update_move 0 (W4\<lparr> lastTime := 80 \<rparr>))) = 410"
  "ply_y (player (update_move 0 (W4\<lparr> lastTime := 80 \<rparr>))) = 481"
  "ply_vy (player (update_move 0 (W4\<lparr> lastTime := 80 \<rparr>))) = 1 / 2"
  "ply_width (player (update_move 0 (W4\<lparr> lastTime := 80 \<rparr>))) = 40"
  "ply_height (player (update_move 0 (W4\<lparr> lastTime := 80 \<rparr>))) = 40"
  "ply_color (player (update_move 0 (W4\<lparr> lastTime := 80 \<rparr>))) = NEON_LIME"
  "jumps (player (update_move 0 (W4\<lparr> lastTime := 80 \<rparr>))) = 0"
  "currentPlatform (player (update_move 0 (W4\<lparr> lastTime := 80 \<rparr>))) = None"
proof -
  have r: "refs_ok (W4\<lparr> lastTime := 80 \<rparr>)"
    by (simp add: refs_ok_def W4_fields)
  show st: "store (update_move 0 (W4\<lparr> lastTime := 80 \<rparr>)) =
     [\<lparr> plat_x = 399, plat_y = 1003 / 2, plat_width = 2, plat_height = 20,
        plat_color = NEON_MAGENTA, plat_vx = 0, passed = False, landedOn = False \<rparr>,
      \<lparr> plat_x = 399, plat_y = 501, plat_width = 2, plat_height = 20,
        plat_color = NEON_YELLOW, plat_vx = 0, passed = False, landedOn = False \<rparr>,
      \<lparr> plat_x = 399, plat_y = 1001 / 2, plat_width = 2, plat_height = 20,
        plat_color = NEON_LIME, plat_vx = 0, passed = False, landedOn = True \<rparr>,
      \<lparr> plat_x = 399, plat_y = 500, plat_width = 2, plat_height = 20,
        plat_color = NEON_MAGENTA, plat_vx = 0, passed = False, landedOn = True \<rparr>,
      \<lparr> plat_x = 6329 / 20, plat_y = 350, plat_width = 130, plat_height = 20,
        plat_color = NEON_LIME, plat_vx = - (7 / 2), passed = False, landedOn = False \<rparr>,
      \<lparr> plat_x = 6329 / 20, plat_y = 200, plat_width = 130, plat_height = 20,
        plat_color = NEON_LIME, plat_vx = - (7 / 2), passed = False, landedOn = False \<rparr>]"
    by (simp add: update_move_eq[OF r] W4_fields advance_def speedMultiplier_def Let_def)
  show
    "platforms (update_move 0 (W4\<lparr> lastTime := 80 \<rparr>)) = [0, 1, 2, 3, 4, 5]"
    "viewportWidth (update_move 0 (W4\<lparr> lastTime := 80 \<rparr>)) = 800"
    "viewportHeight (update_move 0 (W4\<lparr> lastTime := 80 \<rparr>)) = 600"
    "state (update_move 0 (W4\<lparr> lastTime := 80 \<rparr>)) = Playing"
    "score (update_move 0 (W4\<lparr> lastTime := 80 \<rparr>)) = 2"
    "perfectStreak (update_move 0 (W4\<lparr> lastTime := 80 \<rparr>)) = 2"
    "isFever (update_move 0 (W4\<lparr> lastTime := 80 \<rparr>)) = False"
    "notifications (update_move 0 (W4\<lparr> lastTime := 80 \<rparr>)) = [ScoreUpdate 1, ComboChange 1, ScoreUpdate 2, ComboChange 2]"
    using r by (simp_all add: W4_fields)
  show
    "ply_x (player (update_move 0 (W4\<lparr> lastTime := 80 \<rparr>))) = 410"
    "ply_y (player (update_move 0 (W4\<lparr> lastTime := 80 \<rparr>))) = 481"
    "ply_vy (player (update_move 0 (W4\<lparr> lastTime := 80 \<rparr>))) = 1 / 2"
    "ply_width (player (update_move 0 (W4\<lparr> lastTime := 80 \<rparr>))) = 40"
    "ply_height (player (update_move 0 (W4\<lparr> lastTime := 80 \<rparr>))) = 40"
    "ply_color (player (update_move 0 (W4\<lparr> lastTime := 80 \<rparr>))) = NEON_LIME"
    "jumps (player (update_move 0 (W4\<lparr> lastTime := 80 \<rparr>))) = 0"
    "currentPlatform (player (update_move 0 (W4\<lparr> lastTime := 80 \<rparr>))) = None"
    unfolding update_move_player_eq[OF r] st
    by (simp_all add: W4_fields Player_physics_def carry_def speedMultiplier_def Let_def config)
qed

lemma W4_preCollision:
  "preCollision R0 80 0 W4 = update_move 0 (W4\<lparr> lastTime := 80 \<rparr>)"
  by (simp add: preCollision_def afterScroll_def scrolls_def W4_move)

lemma W4_landing:
  "landingPlatform (preCollision R0 80 0 W4) = Some 1"
  by (simp add: W4_preCollision landingPlatform_def hits_def Let_def W4_move)

lemma W5_eq:
  "W5 = update_cosmetics (update_fall R0 (landed R0 1 (update_move 0 (W4\<lparr> lastTime := 80 \<rparr>))))"
  using W4_landing
  by (simp add: W5_def afterFrame_def update_collision_eq W4_preCollision)

lemma W5_fields:
  "state W5 = Playing"
  "score W5 = 3"
  "perfectStreak W5 = 3"
  "isFever W5 = True"
  "viewportWidth W5 = 800"
  "viewportHeight W5 = 600"
  "platforms W5 = [0, 1, 2, 3, 4, 5]"
  "notifications W5 = [ScoreUpdate 1, ComboChange 1, ScoreUpdate 2, ComboChange 2, ScoreUpdate 3, ComboChange 3, FeverChange True]"
  "store W5 =
     [\<lparr> plat_x = 399, plat_y = 1003 / 2, plat_width = 2, plat_height = 20,
        plat_color = NEON_MAGENTA, plat_vx = 0, passed = False, landedOn = False \<rparr>,
      \<lparr> plat_x = 399, plat_y = 501, plat_width = 2, plat_height = 20,
        plat_color = NEON_YELLOW, plat_vx = 0, passed = False, landedOn = True \<rparr>,
      \<lparr> plat_x = 399, plat_y = 1001 / 2, plat_width = 2, plat_height = 20,
        plat_color = NEON_LIME, plat_vx = 0, passed = False, landedOn = True \<rparr>,
      \<lparr> plat_x = 399, plat_y = 500, plat_width = 2, plat_height = 20,
        plat_color = NEON_MAGENTA, plat_vx = 0, passed = False, landedOn = True \<rparr>,
      \<lparr> plat_x = 6329 / 20, plat_y = 350, plat_width = 130, plat_height = 20,
        plat_color = NEON_LIME, plat_vx = - (7 / 2), passed = False, landedOn = False \<rparr>,
      \<lparr> plat_x = 6329 / 20, plat_y = 200, plat_width = 130, plat_height = 20,
        plat_color = NEON_LIME, plat_vx = - (7 / 2), passed = False, landedOn = False \<rparr>]"
  "ply_x (player W5) = 410"
  "ply_y (player W5) = 481"
  "ply_vy (player W5) = 0"
  "ply_width (player W5) = 40"
  "ply_height (player W5) = 40"
  "ply_color (player W5) = NEON_YELLOW"
  "jumps (player W5) = 0"
  "currentPlatform (player W5) = Some 1"
  unfolding W5_eq
  by (simp_all add: tail_fields landed_fields landed_store landed_score landed_perfectStreak
        landed_isFever landed_notifications landed_player land_def landingNotes_def
        perfectHit_def W4_move config)

lemma W4_loop: "loop R0 80 0 W4 = Inr W5"
  by (simp add: W5_def loop_afterFrame[OF wf_W4 W4_fields(1)])

lemma wf_W5: "wf W5" and pinned_W5: "pinned W5"
  using loop_inv[OF wf_W4 pinned_W4, of R0 80 0] by (simp_all add: W4_loop)

lemma W5_move:
  "platforms (update_move 0 (W5\<lparr> lastTime := 96 \<rparr>)) = [0, 1, 2, 3, 4, 5]"
  "viewportWidth (update_move 0 (W5\<lparr> lastTime := 96 \<rparr>)) = 800"
  "viewportHeight (update_move 0 (W5\<lparr> lastTime := 96 \<rparr>)) = 600"
  "state (update_move 0 (W5\<lparr> lastTime := 96 \<rparr>)) = Playing"
  "score (update_move 0 (W5\<lparr> lastTime := 96 \<rparr>)) = 3"
  "perfectStreak (update_move 0 (W5\<lparr> lastTime := 96 \<rparr>)) = 3"
  "isFever (update_move 0 (W5\<lparr> lastTime := 96 \<rparr>)) = True"
  "notifications (update_move 0 (W5\<lparr> lastTime := 96 \<rparr>)) = [ScoreUpdate 1, ComboChange 1, ScoreUpdate 2, ComboChange 2, ScoreUpdate 3, ComboChange 3, FeverChange True]"
  "store (update_move 0 (W5\<lparr> lastTime := 96 \<rparr>)) =
     [\<lparr> plat_x = 399, plat_y = 1003 / 2, plat_width = 2, plat_height = 20,
        plat_color = NEON_MAGENTA, plat_vx = 0, passed = False, landedOn = False \<rparr>,
      \<lparr> plat_x = 399, plat_y = 501, plat_width = 2, plat_height = 20,
        plat_color = NEON_YELLOW, plat_vx = 0, passed = False, landedOn = True \<rparr>,
      \<lparr> plat_x = 399, plat_y = 1001 / 2, plat_width = 2, plat_height = 20,
        plat_color = NEON_LIME, plat_vx = 0, passed = False, landedOn = True \<rparr>,
      \<lparr> plat_x = 399, plat_y = 500, plat_width = 2, plat_height = 20,
        plat_color = NEON_MAGENTA, plat_vx = 0, passed = False, landedOn = True \<rparr>,
      \<lparr> plat_x = 12497 / 40, plat_y = 350, plat_width = 130, plat_height = 20,
        plat_color = NEON_LIME, plat_vx = - (7 / 2), passed = False, landedOn = False \<rparr>,
      \<lparr> plat_x = 12497 / 40, plat_y = 200, plat_width = 130, plat_height = 20,
        plat_color = NEON_LIME, plat_vx = - (7 / 2), passed = False, landedOn = False \<rparr>]"
  "ply_x (player (update_move 0 (W5\<lparr> lastTime := 96 \<rparr>))) = 410"
  "ply_y (player (update_move 0 (W5\<lparr> lastTime := 96 \<rparr>))) = 481"
  "ply_vy (player (update_move 0 (W5\<lparr> lastTime := 96 \<rparr>))) = 0"
  "ply_width (player (update_move 0 (W5\<lparr> lastTime := 96 \<rparr>))) = 40"
  "ply_height (player (update_move 0 (W5\<lparr> lastTime := 96 \<rparr>))) = 40"
  "ply_color (player (update_move 0 (W5\<lparr> lastTime := 96 \<rparr>))) = NEON_YELLOW"
  "jumps (player (update_move 0 (W5\<lparr> lastTime := 96 \<rparr>))) = 0"
  "currentPlatform (player (update_move 0 (W5\<lparr> lastTime := 96 \<rparr>))) = None"
proof -
  have r: "refs_ok (W5\<lparr> lastTime := 96 \<rparr>)"
    by (simp add: refs_ok_def W5_fields)
  show st: "store (update_move 0 (W5\<lparr> lastTime := 96 \<rparr>)) =
     [\<lparr> plat_x = 399, plat_y = 1003 / 2, plat_width = 2, plat_height = 20,
        plat_color = NEON_MAGENTA, plat_vx = 0, passed = False, landedOn = False \<rparr>,
      \<lparr> plat_x = 399, plat_y = 501, plat_width = 2, plat_height = 20,
        plat_color = NEON_YELLOW, plat_vx = 0, passed = False, landedOn = True \<rparr>,
      \<lparr> plat_x = 399, plat_y = 1001 / 2, plat_width = 2, plat_height = 20,
        plat_color = NEON_LIME, plat_vx = 0, passed = False, landedOn = True \<rparr>,
      \<lparr> plat_x = 399, plat_y = 500, plat_width = 2, plat_height = 20,
        plat_color = NEON_MAGENTA, plat_vx = 0, passed = False, landedOn = True \<rparr>,
      \<lparr> plat_x = 12497 / 40, plat_y = 350, plat_width = 130, plat_height = 20,
        plat_color = NEON_LIME, plat_vx = - (7 / 2), passed = False, landedOn = False \<rparr>,
      \<lparr> plat_x = 12497 / 40, plat_y = 200, plat_width = 130, plat_height = 20,
        plat_color = NEON_LIME, plat_vx = - (7 / 2), passed = False, landedOn = False \<rparr>]"
    by (simp add: update_move_eq[OF r] W5_fields advance_def speedMultiplier_def Let_def)
  show
    "platforms (update_move 0 (W5\<lparr> lastTime := 96 \<rparr>)) = [0, 1, 2, 3, 4, 5]"
    "viewportWidth (update_move 0 (W5\<lparr> lastTime := 96 \<rparr>)) = 800"
    "viewportHeight (update_move 0 (W5\<lparr> lastTime := 96 \<rparr>)) = 600"
    "state (update_move 0 (W5\<lparr> lastTime := 96 \<rparr>)) = Playing"
    "score (update_move 0 (W5\<lparr> lastTime := 96 \<rparr>)) = 3"
    "perfectStreak (update_move 0 (W5\<lparr> lastTime := 96 \<rparr>)) = 3"
    "isFever (update_move 0 (W5\<lparr> lastTime := 96 \<rparr>)) = True"
    "notifications (update_move 0 (W5\<lparr> lastTime := 96 \<rparr>)) = [ScoreUpdate 1, ComboChange 1, ScoreUpdate 2, ComboChange 2, ScoreUpdate 3, ComboChange 3, FeverChange True]"
    using r by (simp_all add: W5_fields)
  show
    "ply_x (player (update_move 0 (W5\<lparr> lastTime := 96 \<rparr>))) = 410"
    "ply_y (player (update_move 0 (W5\<lparr> lastTime := 96 \<rparr>))) = 481"
    "ply_vy (player (update_move 0 (W5\<lparr> lastTime := 96 \<rparr>))) = 0"
    "ply_width (player (update_move 0 (W5\<lparr> lastTime := 96 \<rparr>))) = 40"
    "ply_height (player (update_move 0 (W5\<lparr> lastTime := 96 \<rparr>))) = 40"
    "ply_color (player (update_move 0 (W5\<lparr> lastTime := 96 \<rparr>))) = NEON_YELLOW"
    "jumps (player (update_move 0 (W5\<lparr> lastTime := 96 \<rparr>))) = 0"
    "currentPlatform (player (update_move 0 (W5\<lparr> lastTime := 96 \<rparr>))) = None"
    unfolding update_move_player_eq[OF r] st
    by (simp_all add: W5_fields Player_physics_def carry_def speedMultiplier_def Let_def config)
qed

lemma W5_preCollision:
  "preCollision R0 96 0 W5 = update_move 0 (W5\<lparr> lastTime := 96 \<rparr>)"
  by (simp add: preCollision_def afterScroll_def scrolls_def W5_move)

lemma W5_landing:
  "landingPlatform (preCollision R0 96 0 W5) = None"
  by (simp add: W5_preCollision landingPlatform_def hits_def Let_def W5_move)

lemma W6_eq:
  "W6 = update_cosmetics (update_fall R0 (update_move 0 (W5\<lparr> lastTime := 96 \<rparr>)))"
  using W5_landing
  by (simp add: W6_def afterFrame_def update_collision_eq W5_preCollision)

lemma W6_fields:
  "state W6 = Playing"
  "score W6 = 3"
  "perfectStreak W6 = 3"
  "isFever W6 = True"
  "viewportWidth W6 = 800"
  "viewportHeight W6 = 600"
  "platforms W6 = [0, 1, 2, 3, 4, 5]"
  "notifications W6 = [ScoreUpdate 1, ComboChange 1, ScoreUpdate 2, ComboChange 2, ScoreUpdate 3, ComboChange 3, FeverChange True]"
  "store W6 =
     [\<lparr> plat_x = 399, plat_y = 1003 / 2, plat_width = 2, plat_height = 20,
        plat_color = NEON_MAGENTA, plat_vx = 0, passed = False, landedOn = False \<rparr>,
      \<lparr> plat_x = 399, plat_y = 501, plat_width = 2, plat_height = 20,
        plat_color = NEON_YELLOW, plat_vx = 0, passed = False, landedOn = True \<rparr>,
      \<lparr> plat_x = 399, plat_y = 1001 / 2, plat_width = 2, plat_height = 20,
        plat_color = NEON_LIME, plat_vx = 0, passed = False, landedOn = True \<rparr>,
      \<lparr> plat_x = 399, plat_y = 500, plat_width = 2, plat_height = 20,
        plat_color = NEON_MAGENTA, plat_vx = 0, passed = False, landedOn = True \<rparr>,
      \<lparr> plat_x = 12497 / 40, plat_y = 350, plat_width = 130, plat_height = 20,
        plat_color = NEON_LIME, plat_vx = - (7 / 2), passed = False, landedOn = False \<rparr>,
      \<lparr> plat_x = 12497 / 40, plat_y = 200, plat_width = 130, plat_height = 20,
        plat_color = NEON_LIME, plat_vx = - (7 / 2), passed = False, landedOn = False \<rparr>]"
  "ply_x (player W6) = 410"
  "ply_y (player W6) = 481"
  "ply_vy (player W6) = 0"
  "ply_width (player W6) = 40"
  "ply_height (player W6) = 40"
  "ply_color (player W6) = NEON_YELLOW"
  "jumps (player W6) = 0"
  "currentPlatform (player W6) = None"
  unfolding W6_eq
  by (simp_all add: tail_fields landed_fields landed_store landed_score landed_perfectStreak
        landed_isFever landed_notifications landed_player land_def landingNotes_def
        perfectHit_def W5_move config)

lemma W5_loop: "loop R0 96 0 W5 = Inr W6"
  by (simp add: W6_def loop_afterFrame[OF wf_W5 W5_fields(1)])

lemma wf_W6: "wf W6" and pinned_W6: "pinned W6"
  using loop_inv[OF wf_W5 pinned_W5, of R0 96 0] by (simp_all add: W5_loop)

lemma W6_move:
  "platforms (update_move 0 (W6\<lparr> lastTime := 112 \<rparr>)) = [0, 1, 2, 3, 4, 5]"
  "viewportWidth (update_move 0 (W6\<lparr> lastTime := 112 \<rparr>)) = 800"
  "viewportHeight (update_move 0 (W6\<lparr> lastTime := 112 \<rparr>)) = 600"
  "state (update_move 0 (W6\<lparr> lastTime := 112 \<rparr>)) = Playing"
  "score (update_move 0 (W6\<lparr> lastTime := 112 \<rparr>)) = 3"
  "perfectStreak (update_move 0 (W6\<lparr> lastTime := 112 \<rparr>)) = 3"
  "isFever (update_move 0 (W6\<lparr> lastTime := 112 \<rparr>)) = True"
  "notifications (update_move 0 (W6\<lparr> lastTime := 112 \<rparr>)) = [ScoreUpdate 1, ComboChange 1, ScoreUpdate 2, ComboChange 2, ScoreUpdate 3, ComboChange 3, FeverChange True]"
  "store (update_move 0 (W6\<lparr> lastTime := 112 \<rparr>)) =
     [\<lparr> plat_x = 399, plat_y = 1003 / 2, plat_width = 2, plat_height = 20,
        plat_color = NEON_MAGENTA, plat_vx = 0, passed = False, landedOn = False \<rparr>,
      \<lparr> plat_x = 399, plat_y = 501, plat_width = 2, plat_height = 20,
        plat_color = NEON_YELLOW, plat_vx = 0, passed = False, landedOn = True \<rparr>,
      \<lparr> plat_x = 399, plat_y = 1001 / 2, plat_width = 2, plat_height = 20,
        plat_color = NEON_LIME, plat_vx = 0, passed = False, landedOn = True \<rparr>,
      \<lparr> plat_x = 399, plat_y = 500, plat_width = 2, plat_height = 20,
        plat_color = NEON_MAGENTA, plat_vx = 0, passed = False, landedOn = True \<rparr>,
      \<lparr> plat_x = 1542 / 5, plat_y = 350, plat_width = 130, plat_height = 20,
        plat_color = NEON_LIME, plat_vx = - (7 / 2), passed = False, landedOn = False \<rparr>,
      \<lparr> plat_x = 1542 / 5, plat_y = 200, plat_width = 130, plat_height = 20,
        plat_color = NEON_LIME, plat_vx = - (7 / 2), passed = False, landedOn = False \<rparr>]"
  "ply_x (player (update_move 0 (W6\<lparr> lastTime := 112 \<rparr>))) = 410"
  "ply_y (player (update_move 0 (W6\<lparr> lastTime := 112 \<rparr>))) = 963 / 2"
  "ply_vy (player (update_move 0 (W6\<lparr> lastTime := 112 \<rparr>))) = 1 / 2"
  "ply_width (player (update_move 0 (W6\<lparr> lastTime := 112 \<rparr>))) = 40"
  "ply_height (player (update_move 0 (W6\<lparr> lastTime := 112 \<rparr>))) = 40"
  "ply_color (player (update_move 0 (W6\<lparr> lastTime := 112 \<rparr>))) = NEON_YELLOW"
  "jumps (player (update_move 0 (W6\<lparr> lastTime := 112 \<rparr>))) = 0"
  "currentPlatform (player (update_move 0 (W6\<lparr> lastTime := 112 \<rparr>))) = None"
proof -
  have r: "refs_ok (W6\<lparr> lastTime := 112 \<rparr>)"
    by (simp add: refs_ok_def W6_fields)
  show st: "store (update_move 0 (W6\<lparr> lastTime := 112 \<rparr>)) =
     [\<lparr> plat_x = 399, plat_y = 1003 / 2, plat_width = 2, plat_height = 20,
        plat_color = NEON_MAGENTA, plat_vx = 0, passed = False, landedOn = False \<rparr>,
      \<lparr> plat_x = 399, plat_y = 501, plat_width = 2, plat_height = 20,
        plat_color = NEON_YELLOW, plat_vx = 0, passed = False, landedOn = True \<rparr>,
      \<lparr> plat_x = 399, plat_y = 1001 / 2, plat_width = 2, plat_height = 20,
        plat_color = NEON_LIME, plat_vx = 0, passed = False, landedOn = True \<rparr>,
      \<lparr> plat_x = 399, plat_y = 500, plat_width = 2, plat_height = 20,
        plat_color = NEON_MAGENTA, plat_vx = 0, passed = False, landedOn = True \<rparr>,
      \<lparr> plat_x = 1542 / 5, plat_y = 350, plat_width = 130, plat_height = 20,
        plat_color = NEON_LIME, plat_vx = - (7 / 2), passed = False, landedOn = False \<rparr>,
      \<lparr> plat_x = 1542 / 5, plat_y = 200, plat_width = 130, plat_height = 20,
        plat_color = NEON_LIME, plat_vx = - (7 / 2), passed = False, landedOn = False \<rparr>]"
    by (simp add: update_move_eq[OF r] W6_fields advance_def speedMultiplier_def Let_def)
  show
    "platforms (update_move 0 (W6\<lparr> lastTime := 112 \<rparr>)) = [0, 1, 2, 3, 4, 5]"
    "viewportWidth (update_move 0 (W6\<lparr> lastTime := 112 \<rparr>)) = 800"
    "viewportHeight (update_move 0 (W6\<lparr> lastTime := 112 \<rparr>)) = 600"
    "state (update_move 0 (W6\<lparr> lastTime := 112 \<rparr>)) = Playing"
    "score (update_move 0 (W6\<lparr> lastTime := 112 \<rparr>)) = 3"
    "perfectStreak (update_move 0 (W6\<lparr> lastTime := 112 \<rparr>)) = 3"
    "isFever (update_move 0 (W6\<lparr> lastTime := 112 \<rparr>)) = True"
    "notifications (update_move 0 (W6\<lparr> lastTime := 112 \<rparr>)) = [ScoreUpdate 1, ComboChange 1, ScoreUpdate 2, ComboChange 2, ScoreUpdate 3, ComboChange 3, FeverChange True]"
    using r by (simp_all add: W6_fields)
  show
    "ply_x (player (update_move 0 (W6\<lparr> lastTime := 112 \<rparr>))) = 410"
    "ply_y (player (update_move 0 (W6\<lparr> lastTime := 112 \<rparr>))) = 963 / 2"
    "ply_vy (player (update_move 0 (W6\<lparr> lastTime := 112 \<rparr>))) = 1 / 2"
    "ply_width (player (update_move 0 (W6\<lparr> lastTime := 112 \<rparr>))) = 40"
    "ply_height (player (update_move 0 (W6\<lparr> lastTime := 112 \<rparr>))) = 40"
    "ply_color (player (update_move 0 (W6\<lparr> lastTime := 112 \<rparr>))) = NEON_YELLOW"
    "jumps (player (update_move 0 (W6\<lparr> lastTime := 112 \<rparr>))) = 0"
    "currentPlatform (player (update_move 0 (W6\<lparr> lastTime := 112 \<rparr>))) = None"
    unfolding update_move_player_eq[OF r] st
    by (simp_all add: W6_fields Player_physics_def carry_def speedMultiplier_def Let_def config)
qed

lemma W6_preCollision:
  "preCollision R0 112 0 W6 = update_move 0 (W6\<lparr> lastTime := 112 \<rparr>)"
  by (simp add: preCollision_def afterScroll_def scrolls_def W6_move)

lemma W6_landing:
  "landingPlatform (preCollision R0 112 0 W6) = Some 0"
  by (simp add: W6_preCollision landingPlatform_def hits_def Let_def W6_move)

lemma W7_eq:
  "W7 = update_cosmetics (update_fall R0 (landed R0 0 (update_move 0 (W6\<lparr> lastTime := 112 \<rparr>))))"
  using W6_landing
  by (simp add: W7_def afterFrame_def update_collision_eq W6_preCollision)

lemma W7_fields:
  "state W7 = Playing"
  "score W7 = 4"
  "perfectStreak W7 = 4"
  "isFever W7 = True"
  "viewportWidth W7 = 800"
  "viewportHeight W7 = 600"
  "platforms W7 = [0, 1, 2, 3, 4, 5]"
  "notifications W7 = [ScoreUpdate 1, ComboChange 1, ScoreUpdate 2, ComboChange 2, ScoreUpdate 3, ComboChange 3, FeverChange True, ScoreUpdate 8, ComboChange 4, FeverChange True]"
  "store W7 =
     [\<lparr> plat_x = 399, plat_y = 1003 / 2, plat_width = 2, plat_height = 20,
        plat_color = NEON_MAGENTA, plat_vx = 0, passed = False, landedOn = True \<rparr>,
      \<lparr> plat_x = 399, plat_y = 501, plat_width = 2, plat_height = 20,
        plat_color = NEON_YELLOW, plat_vx = 0, passed = False, landedOn = True \<rparr>,
      \<lparr> plat_x = 399, plat_y = 1001 / 2, plat_width = 2, plat_height = 20,
        plat_color = NEON_LIME, plat_vx = 0, passed = False, landedOn = True \<rparr>,
      \<lparr> plat_x = 399, plat_y = 500, plat_width = 2, plat_height = 20,
        plat_color = NEON_MAGENTA, plat_vx = 0, passed = False, landedOn = True \<rparr>,
      \<lparr> plat_x = 1542 / 5, plat_y = 350, plat_width = 130, plat_height = 20,
        plat_color = NEON_LIME, plat_vx = - (7 / 2), passed = False, landedOn = False \<rparr>,
      \<lparr> plat_x = 1542 / 5, plat_y = 200, plat_width = 130, plat_height = 20,
        plat_color = NEON_LIME, plat_vx = - (7 / 2), passed = False, landedOn = False \<rparr>]"
  "ply_x (player W7) = 410"
  "ply_y (player W7) = 963 / 2"
  "ply_vy (player W7) = 0"
  "ply_width (player W7) = 40"
  "ply_height (player W7) = 40"
  "ply_color (player W7) = NEON_MAGENTA"
  "jumps (player W7) = 0"
  "currentPlatform (player W7) = Some 0"
  unfolding W7_eq
  by (simp_all add: tail_fields landed_fields landed_store landed_score landed_perfectStreak
        landed_isFever landed_notifications landed_player land_def landingNotes_def
        perfectHit_def W6_move config)

lemma W6_loop: "loop R0 112 0 W6 = Inr W7"
  by (simp add: W7_def loop_afterFrame[OF wf_W6 W6_fields(1)])

lemma wf_W7: "wf W7" and pinned_W7: "pinned W7"
  using loop_inv[OF wf_W6 pinned_W6, of R0 112 0] by (simp_all add: W6_loop)


subsection \<open>Two more example states\<close>

lemma P0_fields:
  "state P0 = Playing"
  "score P0 = 2"
  "perfectStreak P0 = 0"
  "isFever P0 = False"
  "viewportWidth P0 = 800"
  "viewportHeight P0 = 600"
  "platforms P0 = [0, 1, 2, 3, 4, 5]"
  "notifications P0 = [ScoreUpdate 0, ComboChange 0, FeverChange False, GameStateChange Playing, ScoreUpdate 1, ScoreUpdate 2]"
  "store P0 =
     [\<lparr> plat_x = 300, plat_y = 520, plat_width = 200, plat_height = 20,
        plat_color = NEON_MAGENTA, plat_vx = 0, passed = False, landedOn = True \<rparr>,
      \<lparr> plat_x = 335, plat_y = 410, plat_width = 130, plat_height = 20,
        plat_color = NEON_LIME, plat_vx = - (7 / 2), passed = False, landedOn = True \<rparr>,
      \<lparr> plat_x = 2, plat_y = 220, plat_width = 130, plat_height = 20,
        plat_color = NEON_CYAN, plat_vx = - (7 / 2), passed = False, landedOn = False \<rparr>,
      \<lparr> plat_x = 668, plat_y = 70, plat_width = 130, plat_height = 20,
        plat_color = NEON_YELLOW, plat_vx = 7 / 2, passed = False, landedOn = False \<rparr>,
      \<lparr> plat_x = 335, plat_y = - 80, plat_width = 130, plat_height = 20,
        plat_color = NEON_LIME, plat_vx = - (7 / 2), passed = False, landedOn = False \<rparr>,
      \<lparr> plat_x = 335, plat_y = - 230, plat_width = 130, plat_height = 20,
        plat_color = NEON_LIME, plat_vx = - (7 / 2), passed = False, landedOn = False \<rparr>]"
  "ply_x (player P0) = 400"
  "ply_y (player P0) = 390"
  "ply_vy (player P0) = 0"
  "ply_width (player P0) = 40"
  "ply_height (player P0) = 40"
  "ply_color (player P0) = NEON_CYAN"
  "jumps (player P0) = 0"
  "currentPlatform (player P0) = Some 1"
  by (simp_all add: P0_def)

lemma wf_P0: "wf P0" and pinned_P0: "pinned P0"
  by (simp_all add: wf_def refs_ok_def pinned_def P0_fields config)

lemma P0_move:
  "platforms (update_move 0 (P0\<lparr> lastTime := 16 \<rparr>)) = [0, 1, 2, 3, 4, 5]"
  "viewportWidth (update_move 0 (P0\<lparr> lastTime := 16 \<rparr>)) = 800"
  "viewportHeight (update_move 0 (P0\<lparr> lastTime := 16 \<rparr>)) = 600"
  "state (update_move 0 (P0\<lparr> lastTime := 16 \<rparr>)) = Playing"
  "score (update_move 0 (P0\<lparr> lastTime := 16 \<rparr>)) = 2"
  "perfectStreak (update_move 0 (P0\<lparr> lastTime := 16 \<rparr>)) = 0"
  "isFever (update_move 0 (P0\<lparr> lastTime := 16 \<rparr>)) = False"
  "notifications (update_move 0 (P0\<lparr> lastTime := 16 \<rparr>)) = [ScoreUpdate 0, ComboChange 0, FeverChange False, GameStateChange Playing, ScoreUpdate 1, ScoreUpdate 2]"
  "store (update_move 0 (P0\<lparr> lastTime := 16 \<rparr>)) =
     [\<lparr> plat_x = 300, plat_y = 520, plat_width = 200, plat_height = 20,
        plat_color = NEON_MAGENTA, plat_vx = 0, passed = False, landedOn = True \<rparr>,
      \<lparr> plat_x = 6623 / 20, plat_y = 410, plat_width = 130, plat_height = 20,
        plat_color = NEON_LIME, plat_vx = - (7 / 2), passed = False, landedOn = True \<rparr>,
      \<lparr> plat_x = 0, plat_y = 220, plat_width = 130, plat_height = 20,
        plat_color = NEON_CYAN, plat_vx = 7 / 2, passed = False, landedOn = False \<rparr>,
      \<lparr> plat_x = 670, plat_y = 70, plat_width = 130, plat_height = 20,
        plat_color = NEON_YELLOW, plat_vx = - (7 / 2), passed = False, landedOn = False \<rparr>,
      \<lparr> plat_x = 6623 / 20, plat_y = - 80, plat_width = 130, plat_height = 20,
        plat_color = NEON_LIME, plat_vx = - (7 / 2), passed = False, landedOn = False \<rparr>,
      \<lparr> plat_x = 6623 / 20, plat_y = - 230, plat_width = 130, plat_height = 20,
        plat_color = NEON_LIME, plat_vx = - (7 / 2), passed = False, landedOn = False \<rparr>]"
  "ply_x (player (update_move 0 (P0\<lparr> lastTime := 16 \<rparr>))) = 7923 / 20"
  "ply_y (player (update_move 0 (P0\<lparr> lastTime := 16 \<rparr>))) = 390"
  "ply_vy (player (update_move 0 (P0\<lparr> lastTime := 16 \<rparr>))) = 0"
  "ply_width (player (update_move 0 (P0\<lparr> lastTime := 16 \<rparr>))) = 40"
  "ply_height (player (update_move 0 (P0\<lparr> lastTime := 16 \<rparr>))) = 40"
  "ply_color (player (update_move 0 (P0\<lparr> lastTime := 16 \<rparr>))) = NEON_CYAN"
  "jumps (player (update_move 0 (P0\<lparr> lastTime := 16 \<rparr>))) = 0"
  "currentPlatform (player (update_move 0 (P0\<lparr> lastTime := 16 \<rparr>))) = Some 1"
proof -
  have r: "refs_ok (P0\<lparr> lastTime := 16 \<rparr>)"
    by (simp add: refs_ok_def P0_fields)
  show st: "store (update_move 0 (P0\<lparr> lastTime := 16 \<rparr>)) =
     [\<lparr> plat_x = 300, plat_y = 520, plat_width = 200, plat_height = 20,
        plat_color = NEON_MAGENTA, plat_vx = 0, passed = False, landedOn = True \<rparr>,
      \<lparr> plat_x = 6623 / 20, plat_y = 410, plat_width = 130, plat_height = 20,
        plat_color = NEON_LIME, plat_vx = - (7 / 2), passed = False, landedOn = True \<rparr>,
      \<lparr> plat_x = 0, plat_y = 220, plat_width = 130, plat_height = 20,
        plat_color = NEON_CYAN, plat_vx = 7 / 2, passed = False, landedOn = False \<rparr>,
      \<lparr> plat_x = 670, plat_y = 70, plat_width = 130, plat_height = 20,
        plat_color = NEON_YELLOW, plat_vx = - (7 / 2), passed = False, landedOn = False \<rparr>,
      \<lparr> plat_x = 6623 / 20, plat_y = - 80, plat_width = 130, plat_height = 20,
        plat_color = NEON_LIME, plat_vx = - (7 / 2), passed = False, landedOn = False \<rparr>,
      \<lparr> plat_x = 6623 / 20, plat_y = - 230, plat_width = 130, plat_height = 20,
        plat_color = NEON_LIME, plat_vx = - (7 / 2), passed = False, landedOn = False \<rparr>]"
    by (simp add: update_move_eq[OF r] P0_fields advance_def speedMultiplier_def Let_def)
  show
    "platforms (update_move 0 (P0\<lparr> lastTime := 16 \<rparr>)) = [0, 1, 2, 3, 4, 5]"
    "viewportWidth (update_move 0 (P0\<lparr> lastTime := 16 \<rparr>)) = 800"
    "viewportHeight (update_move 0 (P0\<lparr> lastTime := 16 \<rparr>)) = 600"
    "state (update_move 0 (P0\<lparr> lastTime := 16 \<rparr>)) = Playing"
    "score (update_move 0 (P0\<lparr> lastTime := 16 \<rparr>)) = 2"
    "perfectStreak (update_move 0 (P0\<lparr> lastTime := 16 \<rparr>)) = 0"
    "isFever (update_move 0 (P0\<lparr> lastTime := 16 \<rparr>)) = False"
    "notifications (update_move 0 (P0\<lparr> lastTime := 16 \<rparr>)) = [ScoreUpdate 0, ComboChange 0, FeverChange False, GameStateChange Playing, ScoreUpdate 1, ScoreUpdate 2]"
    using r by (simp_all add: P0_fields)
  show
    "ply_x (player (update_move 0 (P0\<lparr> lastTime := 16 \<rparr>))) = 7923 / 20"
    "ply_y (player (update_move 0 (P0\<lparr> lastTime := 16 \<rparr>))) = 390"
    "ply_vy (player (update_move 0 (P0\<lparr> lastTime := 16 \<rparr>))) = 0"
    "ply_width (player (update_move 0 (P0\<lparr> lastTime := 16 \<rparr>))) = 40"
    "ply_height (player (update_move 0 (P0\<lparr> lastTime := 16 \<rparr>))) = 40"
    "ply_color (player (update_move 0 (P0\<lparr> lastTime := 16 \<rparr>))) = NEON_CYAN"
    "jumps (player (update_move 0 (P0\<lparr> lastTime := 16 \<rparr>))) = 0"
    "currentPlatform (player (update_move 0 (P0\<lparr> lastTime := 16 \<rparr>))) = Some 1"
    unfolding update_move_player_eq[OF r] st
    by (simp_all add: P0_fields Player_physics_def carry_def speedMultiplier_def Let_def config)
qed

lemma P0_preCollision:
  "preCollision R0 16 0 P0 = update_move 0 (P0\<lparr> lastTime := 16 \<rparr>)"
  by (simp add: preCollision_def afterScroll_def scrolls_def P0_move)

lemma P0_landing:
  "landingPlatform (preCollision R0 16 0 P0) = None"
  by (simp add: P0_preCollision landingPlatform_def hits_def Let_def P0_move)

lemma P1_eq:
  "P1 = update_cosmetics (update_fall R0 (update_move 0 (P0\<lparr> lastTime := 16 \<rparr>)))"
  using P0_landing
  by (simp add: P1_def afterFrame_def update_collision_eq P0_preCollision)

lemma P1_fields:
  "state P1 = Playing"
  "score P1 = 2"
  "perfectStreak P1 = 0"
  "isFever P1 = False"
  "viewportWidth P1 = 800"
  "viewportHeight P1 = 600"
  "platforms P1 = [0, 1, 2, 3, 4, 5]"
  "notifications P1 = [ScoreUpdate 0, ComboChange 0, FeverChange False, GameStateChange Playing, ScoreUpdate 1, ScoreUpdate 2]"
  "store P1 =
     [\<lparr> plat_x = 300, plat_y = 520, plat_width = 200, plat_height = 20,
        plat_color = NEON_MAGENTA, plat_vx = 0, passed = False, landedOn = True \<rparr>,
      \<lparr> plat_x = 6623 / 20, plat_y = 410, plat_width = 130, plat_height = 20,
        plat_color = NEON_LIME, plat_vx = - (7 / 2), passed = False, landedOn = True \<rparr>,
      \<lparr> plat_x = 0, plat_y = 220, plat_width = 130, plat_height = 20,
        plat_color = NEON_CYAN, plat_vx = 7 / 2, passed = False, landedOn = False \<rparr>,
      \<lparr> plat_x = 670, plat_y = 70, plat_width = 130, plat_height = 20,
        plat_color = NEON_YELLOW, plat_vx = - (7 / 2), passed = False, landedOn = False \<rparr>,
      \<lparr> plat_x = 6623 / 20, plat_y = - 80, plat_width = 130, plat_height = 20,
        plat_color = NEON_LIME, plat_vx = - (7 / 2), passed = False, landedOn = False \<rparr>,
      \<lparr> plat_x = 6623 / 20, plat_y = - 230, plat_width = 130, plat_height = 20,
        plat_color = NEON_LIME, plat_vx = - (7 / 2), passed = False, landedOn = False \<rparr>]"
  "ply_x (player P1) = 7923 / 20"
  "ply_y (player P1) = 390"
  "ply_vy (player P1) = 0"
  "ply_width (player P1) = 40"
  "ply_height (player P1) = 40"
  "ply_color (player P1) = NEON_CYAN"
  "jumps (player P1) = 0"
  "currentPlatform (player P1) = Some 1"
  unfolding P1_eq
  by (simp_all add: tail_fields landed_fields landed_store landed_score landed_perfectStreak
        landed_isFever landed_notifications landed_player land_def landingNotes_def
        perfectHit_def P0_move config)

lemma P0_loop: "loop R0 16 0 P0 = Inr P1"
  by (simp add: P1_def loop_afterFrame[OF wf_P0 P0_fields(1)])

lemma wf_P1: "wf P1" and pinned_P1: "pinned P1"
  using loop_inv[OF wf_P0 pinned_P0, of R0 16 0] by (simp_all add: P0_loop)

lemma V0_fields:
  "state V0 = Playing"
  "score V0 = 1"
  "perfectStreak V0 = 0"
  "isFever V0 = False"
  "viewportWidth V0 = 800"
  "viewportHeight V0 = 600"
  "platforms V0 = [0, 1, 2, 3, 4, 5]"
  "notifications V0 = [ScoreUpdate 1]"
  "store V0 =
     [\<lparr> plat_x = 399, plat_y = 1003 / 2, plat_width = 2, plat_height = 20,
        plat_color = NEON_MAGENTA, plat_vx = 0, passed = False, landedOn = False \<rparr>,
      \<lparr> plat_x = 399, plat_y = 501, plat_width = 2, plat_height = 20,
        plat_color = NEON_YELLOW, plat_vx = 0, passed = False, landedOn = False \<rparr>,
      \<lparr> plat_x = 399, plat_y = 1001 / 2, plat_width = 2, plat_height = 20,
        plat_color = NEON_LIME, plat_vx = 0, passed = False, landedOn = False \<rparr>,
      \<lparr> plat_x = 399, plat_y = 500, plat_width = 2, plat_height = 20,
        plat_color = NEON_MAGENTA, plat_vx = 0, passed = False, landedOn = True \<rparr>,
      \<lparr> plat_x = 335, plat_y = 350, plat_width = 130, plat_height = 20,
        plat_color = NEON_LIME, plat_vx = - (7 / 2), passed = False, landedOn = False \<rparr>,
      \<lparr> plat_x = 335, plat_y = 200, plat_width = 130, plat_height = 20,
        plat_color = NEON_LIME, plat_vx = - (7 / 2), passed = False, landedOn = False \<rparr>]"
  "ply_x (player V0) = 410"
  "ply_y (player V0) = 941 / 2"
  "ply_vy (player V0) = 9"
  "ply_width (player V0) = 40"
  "ply_height (player V0) = 40"
  "ply_color (player V0) = NEON_CYAN"
  "jumps (player V0) = 1"
  "currentPlatform (player V0) = None"
  by (simp_all add: V0_def)

lemma wf_V0: "wf V0" and pinned_V0: "pinned V0"
  by (simp_all add: wf_def refs_ok_def pinned_def V0_fields config)

lemma V0_move:
  "platforms (update_move 0 (V0\<lparr> lastTime := 16 \<rparr>)) = [0, 1, 2, 3, 4, 5]"
  "viewportWidth (update_move 0 (V0\<lparr> lastTime := 16 \<rparr>)) = 800"
  "viewportHeight (update_move 0 (V0\<lparr> lastTime := 16 \<rparr>)) = 600"
  "state (update_move 0 (V0\<lparr> lastTime := 16 \<rparr>)) = Playing"
  "score (update_move 0 (V0\<lparr> lastTime := 16 \<rparr>)) = 1"
  "perfectStreak (update_move 0 (V0\<lparr> lastTime := 16 \<rparr>)) = 0"
  "isFever (update_move 0 (V0\<lparr> lastTime := 16 \<rparr>)) = False"
  "notifications (update_move 0 (V0\<lparr> lastTime := 16 \<rparr>)) = [ScoreUpdate 1]"
  "store (update_move 0 (V0\<lparr> lastTime := 16 \<rparr>)) =
     [\<lparr> plat_x = 399, plat_y = 1003 / 2, plat_width = 2, plat_height = 20,
        plat_color = NEON_MAGENTA, plat_vx = 0, passed = False, landedOn = False \<rparr>,
      \<lparr> plat_x = 399, plat_y = 501, plat_width = 2, plat_height = 20,
        plat_color = NEON_YELLOW, plat_vx = 0, passed = False, landedOn = False \<rparr>,
      \<lparr> plat_x = 399, plat_y = 1001 / 2, plat_width = 2, plat_height = 20,
        plat_color = NEON_LIME, plat_vx = 0, passed = False, landedOn = False \<rparr>,
      \<lparr> plat_x = 399, plat_y = 500, plat_width = 2, plat_height = 20,
        plat_color = NEON_MAGENTA, plat_vx = 0, passed = False, landedOn = True \<rparr>,
      \<lparr> plat_x = 13253 / 40, plat_y = 350, plat_width = 130, plat_height = 20,
        plat_color = NEON_LIME, plat_vx = - (7 / 2), passed = False, landedOn = False \<rparr>,
      \<lparr> plat_x = 13253 / 40, plat_y = 200, plat_width = 130, plat_height = 20,
        plat_color = NEON_LIME, plat_vx = - (7 / 2), passed = False, landedOn = False \<rparr>]"
  "ply_x (player (update_move 0 (V0\<lparr> lastTime := 16 \<rparr>))) = 410"
  "ply_y (player (update_move 0 (V0\<lparr> lastTime := 16 \<rparr>))) = 480"
  "ply_vy (player (update_move 0 (V0\<lparr> lastTime := 16 \<rparr>))) = 19 / 2"
  "ply_width (player (update_move 0 (V0\<lparr> lastTime := 16 \<rparr>))) = 40"
  "ply_height (player (update_move 0 (V0\<lparr> lastTime := 16 \<rparr>))) = 40"
  "ply_color (player (update_move 0 (V0\<lparr> lastTime := 16 \<rparr>))) = NEON_CYAN"
  "jumps (player (update_move 0 (V0\<lparr> lastTime := 16 \<rparr>))) = 1"
  "currentPlatform (player (update_move 0 (V0\<lparr> lastTime := 16 \<rparr>))) = None"
proof -
  have r: "refs_ok (V0\<lparr> lastTime := 16 \<rparr>)"
    by (simp add: refs_ok_def V0_fields)
  show st: "store (update_move 0 (V0\<lparr> lastTime := 16 \<rparr>)) =
     [\<lparr> plat_x = 399, plat_y = 1003 / 2, plat_width = 2, plat_height = 20,
        plat_color = NEON_MAGENTA, plat_vx = 0, passed = False, landedOn = False \<rparr>,
      \<lparr> plat_x = 399, plat_y = 501, plat_width = 2, plat_height = 20,
        plat_color = NEON_YELLOW, plat_vx = 0, passed = False, landedOn = False \<rparr>,
      \<lparr> plat_x = 399, plat_y = 1001 / 2, plat_width = 2, plat_height = 20,
        plat_color = NEON_LIME, plat_vx = 0, passed = False, landedOn = False \<rparr>,
      \<lparr> plat_x = 399, plat_y = 500, plat_width = 2, plat_height = 20,
        plat_color = NEON_MAGENTA, plat_vx = 0, passed = False, landedOn = True \<rparr>,
      \<lparr> plat_x = 13253 / 40, plat_y = 350, plat_width = 130, plat_height = 20,
        plat_color = NEON_LIME, plat_vx = - (7 / 2), passed = False, landedOn = False \<rparr>,
      \<lparr> plat_x = 13253 / 40, plat_y = 200, plat_width = 130, plat_height = 20,
        plat_color = NEON_LIME, plat_vx = - (7 / 2), passed = False, landedOn = False \<rparr>]"
    by (simp add: update_move_eq[OF r] V0_fields advance_def speedMultiplier_def Let_def)
  show
    "platforms (update_move 0 (V0\<lparr> lastTime := 16 \<rparr>)) = [0, 1, 2, 3, 4, 5]"
    "viewportWidth (update_move 0 (V0\<lparr> lastTime := 16 \<rparr>)) = 800"
    "viewportHeight (update_move 0 (V0\<lparr> lastTime := 16 \<rparr>)) = 600"
    "state (update_move 0 (V0\<lparr> lastTime := 16 \<rparr>)) = Playing"
    "score (update_move 0 (V0\<lparr> lastTime := 16 \<rparr>)) = 1"
    "perfectStreak (update_move 0 (V0\<lparr> lastTime := 16 \<rparr>)) = 0"
    "isFever (update_move 0 (V0\<lparr> lastTime := 16 \<rparr>)) = False"
    "notifications (update_move 0 (V0\<lparr> lastTime := 16 \<rparr>)) = [ScoreUpdate 1]"
    using r by (simp_all add: V0_fields)
  show
    "ply_x (player (update_move 0 (V0\<lparr> lastTime := 16 \<rparr>))) = 410"
    "ply_y (player (update_move 0 (V0\<lparr> lastTime := 16 \<rparr>))) = 480"
    "ply_vy (player (update_move 0 (V0\<lparr> lastTime := 16 \<rparr>))) = 19 / 2"
    "ply_width (player (update_move 0 (V0\<lparr> lastTime := 16 \<rparr>))) = 40"
    "ply_height (player (update_move 0 (V0\<lparr> lastTime := 16 \<rparr>))) = 40"
    "ply_color (player (update_move 0 (V0\<lparr> lastTime := 16 \<rparr>))) = NEON_CYAN"
    "jumps (player (update_move 0 (V0\<lparr> lastTime := 16 \<rparr>))) = 1"
    "currentPlatform (player (update_move 0 (V0\<lparr> lastTime := 16 \<rparr>))) = None"
    unfolding update_move_player_eq[OF r] st
    by (simp_all add: V0_fields Player_physics_def carry_def speedMultiplier_def Let_def config)
qed

lemma V0_preCollision:
  "preCollision R0 16 0 V0 = update_move 0 (V0\<lparr> lastTime := 16 \<rparr>)"
  by (simp add: preCollision_def afterScroll_def scrolls_def V0_move)

lemma V0_landing:
  "landingPlatform (preCollision R0 16 0 V0) = Some 3"
  by (simp add: V0_preCollision landingPlatform_def hits_def Let_def V0_move)

lemma V1_eq:
  "V1 = update_cosmetics (update_fall R0 (landed R0 3 (update_move 0 (V0\<lparr> lastTime := 16 \<rparr>))))"
  using V0_landing
  by (simp add: V1_def afterFrame_def update_collision_eq V0_preCollision)

lemma V1_fields:
  "state V1 = Playing"
  "score V1 = 1"
  "perfectStreak V1 = 0"
  "isFever V1 = False"
  "viewportWidth V1 = 800"
  "viewportHeight V1 = 600"
  "platforms V1 = [0, 1, 2, 3, 4, 5]"
  "notifications V1 = [ScoreUpdate 1]"
  "store V1 =
     [\<lparr> plat_x = 399, plat_y = 1003 / 2, plat_width = 2, plat_height = 20,
        plat_color = NEON_MAGENTA, plat_vx = 0, passed = False, landedOn = False \<rparr>,
      \<lparr> plat_x = 399, plat_y = 501, plat_width = 2, plat_height = 20,
        plat_color = NEON_YELLOW, plat_vx = 0, passed = False, landedOn = False \<rparr>,
      \<lparr> plat_x = 399, plat_y = 1001 / 2, plat_width = 2, plat_height = 20,
        plat_color = NEON_LIME, plat_vx = 0, passed = False, landedOn = False \<rparr>,
      \<lparr> plat_x = 399, plat_y = 500, plat_width = 2, plat_height = 20,
        plat_color = NEON_MAGENTA, plat_vx = 0, passed = False, landedOn = True \<rparr>,
      \<lparr> plat_x = 13253 / 40, plat_y = 350, plat_width = 130, plat_height = 20,
        plat_color = NEON_LIME, plat_vx = - (7 / 2), passed = False, landedOn = False \<rparr>,
      \<lparr> plat_x = 13253 / 40, plat_y = 200, plat_width = 130, plat_height = 20,
        plat_color = NEON_LIME, plat_vx = - (7 / 2), passed = False, landedOn = False \<rparr>]"
  "ply_x (player V1) = 410"
  "ply_y (player V1) = 480"
  "ply_vy (player V1) = 0"
  "ply_width (player V1) = 40"
  "ply_height (player V1) = 40"
  "ply_color (player V1) = NEON_CYAN"
  "jumps (player V1) = 0"
  "currentPlatform (player V1) = Some 3"
  unfolding V1_eq
  by (simp_all add: tail_fields landed_fields landed_store landed_score landed_perfectStreak
        landed_isFever landed_notifications landed_player land_def landingNotes_def
        perfectHit_def V0_move config)

lemma V0_loop: "loop R0 16 0 V0 = Inr V1"
  by (simp add: V1_def loop_afterFrame[OF wf_V0 V0_fields(1)])

lemma wf_V1: "wf V1" and pinned_V1: "pinned V1"
  using loop_inv[OF wf_V0 pinned_V0, of R0 16 0] by (simp_all add: V0_loop)


section \<open>Horizontal motion of the platforms, in exact arithmetic\<close>

lemma afterFrame_player_x:
  assumes "wf e"
  shows "ply_x (player (afterFrame R time now e)) =
           ply_x (carry (speedMultiplier e) (platforms e) (store e) (player e))"
proof -
  have r1: "refs_ok (e\<lparr> lastTime := time \<rparr>)" using assms by (simp add: wf_def refs_ok_def)
  have "ply_x (player (afterFrame R time now e)) =
          ply_x (player (update_move now (e\<lparr> lastTime := time \<rparr>)))"
    by (simp add: afterFrame_fields update_collision_player preCollision_def afterScroll_fields)
  then show ?thesis
    by (simp add: update_move_player(1)[OF r1] speedMultiplier_def)
qed

lemma afterFrame_store_x:
  assumes "wf e" "r \<in> set (platforms e)"
  shows "plat_x (store (afterFrame R time now e) ! r) =
           plat_x (advance (speedMultiplier e) (viewportWidth e) (store e ! r))"
    and "plat_vx (store (afterFrame R time now e) ! r) =
           plat_vx (advance (speedMultiplier e) (viewportWidth e) (store e ! r))"
proof -
  have k: "r < length (store e)" using assms by (simp add: wf_def refs_ok_def)
  show "plat_x (store (afterFrame R time now e) ! r) =
           plat_x (advance (speedMultiplier e) (viewportWidth e) (store e ! r))"
    and "plat_vx (store (afterFrame R time now e) ! r) =
           plat_vx (advance (speedMultiplier e) (viewportWidth e) (store e ! r))"
    using assms(2)
    by (simp_all add: afterFrame_fields update_collision_store_fields
          preCollision_store[OF assms(1) k] Let_def)
qed

text \<open>
  The horizontal motion of C9, over exact real arithmetic (the source computes in double
  precision, whose rounding this development does not model, so the statement below says
  nothing about which branch the program takes when a platform comes within rounding
  distance of an edge): in a frame of the playing phase, every platform of the array with
  nonzero horizontal velocity \<open>v\<close> is advanced by \<open>m = v * (1 + score * 0.05)\<close>; if the new
  position is at or beyond the left edge it is clamped to 0, otherwise if its right end is
  at or beyond the viewport width it is clamped to width minus platform width, and in both
  cases the velocity changes sign; a player resting on the platform is displaced by the same
  \<open>m\<close>, also when the platform is clamped.  The values on the right are those before the
  frame, the ones on the left those after it.
\<close>

theorem platform_motion:
  assumes "wf e" "state e = Playing" "loop R time now e = Inr e'"
    and "r \<in> set (platforms e)" "plat_vx (store e ! r) \<noteq> 0"
  shows "let p = store e ! r; m = plat_vx p * (1 + real (score e) * 0.05) in
           plat_x (store e' ! r) =
             (if plat_x p + m \<le> 0 then 0
              else if plat_x p + m + plat_width p \<ge> viewportWidth e
              then viewportWidth e - plat_width p
              else plat_x p + m) \<and>
           plat_vx (store e' ! r) =
             (if plat_x p + m \<le> 0 \<or> plat_x p + m + plat_width p \<ge> viewportWidth e
              then - plat_vx p else plat_vx p) \<and>
           (currentPlatform (player e) = Some r \<longrightarrow>
              ply_x (player e') = ply_x (player e) + m)"
proof -
  have e': "e' = afterFrame R time now e"
    using assms(3) by (simp add: loop_afterFrame[OF assms(1,2)])
  show ?thesis
    unfolding e' Let_def afterFrame_store_x[OF assms(1,4)] afterFrame_player_x[OF assms(1)]
    using assms(4,5)
    by (simp add: advance_def carry_def speedMultiplier_def Let_def)
qed

theorem platform_motion_witness:
  "plat_x (store P1 ! 1) = 335 - 3.5 * 1.1 \<and> plat_vx (store P1 ! 1) = - 3.5 \<and>
   ply_x (player P1) = 400 - 3.5 * 1.1 \<and>
   plat_x (store P1 ! 2) = 0 \<and> plat_vx (store P1 ! 2) = 3.5 \<and>
   plat_x (store P1 ! 3) = 800 - 130 \<and> plat_vx (store P1 ! 3) = - 3.5"
proof -
  have 1: "(1::nat) \<in> set (platforms P0)" "plat_vx (store P0 ! 1) \<noteq> 0"
    and 2: "(2::nat) \<in> set (platforms P0)" "plat_vx (store P0 ! 2) \<noteq> 0"
    and 3: "(3::nat) \<in> set (platforms P0)" "plat_vx (store P0 ! 3) \<noteq> 0"
    by (simp_all add: P0_fields)
  note t = platform_motion[OF wf_P0 P0_fields(1) P0_loop]
  show ?thesis
    using t[OF 1] t[OF 2] t[OF 3] by (simp add: P0_fields Let_def)
qed

section \<open>C6: first landings and the raw score\<close>

text \<open>
  C6: no operation of the engine ever clears a platform's \<open>landedOn\<close> flag, so the flag goes
  from false to true at most once; and any operation other than a start adds to the raw
  score exactly the number of platforms whose flag it has set (a platform constructed by
  the operation counts as not landed on before).  Landing on a platform whose flag is
  already set changes neither.
\<close>

theorem landedOn_once_and_score:
  assumes "wf e" "exec R op e = Inr e'"
  shows "length (store e) \<le> length (store e') \<and>
         (\<forall>k < length (store e). landedOn (store e ! k) \<longrightarrow> landedOn (store e' ! k)) \<and>
         (op \<noteq> StartGame \<longrightarrow>
            score e' = score e +
              card {k. k < length (store e') \<and>
                       \<not> (k < length (store e) \<and> landedOn (store e ! k)) \<and>
                       landedOn (store e' ! k)})"
proof (cases op)
  case (Resize w h)
  then show ?thesis using assms(2) by (auto simp: resize_def)
next
  case (StartLoop t)
  then show ?thesis using assms(2) by (auto simp: startLoop_def)
next
  case StartGame
  then show ?thesis using assms(2) by (auto simp: startGame_fields nth_append)
next
  case (Input ev)
  then show ?thesis using assms(2) by (auto simp: handleInput_fields)
next
  case (Frame time now)
  show ?thesis
  proof (cases "state e = Playing")
    case False
    then show ?thesis using assms(2) Frame by (auto simp: loop_idle)
  next
    case True
    let ?e3 = "preCollision R time now e"
    have e': "e' = afterFrame R time now e"
      using assms(2) Frame by (simp add: loop_afterFrame[OF assms(1) True])
    have ns: "state e \<noteq> Start" using True by simp
    have r3: "refs_ok ?e3"
      using preCollision_inv(1)[OF assms(1) ns, of R time now] by (simp add: wf_def)
    have len': "length (store e') = length (store ?e3)"
      by (simp add: e' afterFrame_fields update_collision_fields)
    have len: "length (store e) \<le> length (store ?e3)"
      by (simp add: preCollision_platforms(2)[OF assms(1)])
    have before: "landedOn (store ?e3 ! k) = (k < length (store e) \<and> landedOn (store e ! k))"
      if "k < length (store ?e3)" for k
      using preCollision_landedOn[OF assms(1) ns that] .
    have after: "landedOn (store e' ! k) =
                   (landedOn (store ?e3 ! k) \<or> landingPlatform ?e3 = Some k)"
      if "k < length (store ?e3)" for k
      using update_collision_landedOn[OF r3 that, of R] by (simp add: e' afterFrame_fields)
    have mono: "\<forall>k < length (store e). landedOn (store e ! k) \<longrightarrow> landedOn (store e' ! k)"
      using len before after by auto
    have sc: "score e' = score e +
                (case landingPlatform ?e3 of
                   None \<Rightarrow> 0 | Some r \<Rightarrow> if landedOn (store ?e3 ! r) then 0 else 1)"
      by (simp add: e' afterFrame_fields update_collision_scoring preCollision_fields[OF assms(1)])
    have set_eq: "{k. k < length (store e') \<and>
                      \<not> (k < length (store e) \<and> landedOn (store e ! k)) \<and>
                      landedOn (store e' ! k)} =
                  {k. k < length (store ?e3) \<and> \<not> landedOn (store ?e3 ! k) \<and>
                      landingPlatform ?e3 = Some k}"
      using before after len' by auto
    have card_eq: "card {k. k < length (store ?e3) \<and> \<not> landedOn (store ?e3 ! k) \<and>
                      landingPlatform ?e3 = Some k} =
                   (case landingPlatform ?e3 of
                      None \<Rightarrow> 0 | Some r \<Rightarrow> if landedOn (store ?e3 ! r) then 0 else 1)"
    proof (cases "landingPlatform ?e3")
      case None
      then show ?thesis by simp
    next
      case (Some r)
      have "r < length (store ?e3)"
        using landingPlatform_Some(1)[OF Some] r3 by (simp add: refs_ok_def)
      then have "{k. k < length (store ?e3) \<and> \<not> landedOn (store ?e3 ! k) \<and>
                      landingPlatform ?e3 = Some k} =
                 (if landedOn (store ?e3 ! r) then {} else {r})"
        using Some by auto
      then show ?thesis using Some by simp
    qed
    have final: "score e' = score e +
              card {k. k < length (store e') \<and>
                       \<not> (k < length (store e) \<and> landedOn (store e ! k)) \<and>
                       landedOn (store e' ! k)}"
      unfolding set_eq card_eq by (rule sc)
    have l2: "length (store e) \<le> length (store e')" using len len' by simp
    show ?thesis
      using mono l2 final by blast
  qed
qed

theorem landedOn_once_and_score_witness:
  "\<not> landedOn (store W0 ! 3) \<and> landedOn (store W1 ! 3) \<and> score W1 = score W0 + 1 \<and>
   card {k. k < length (store W1) \<and>
            \<not> (k < length (store W0) \<and> landedOn (store W0 ! k)) \<and>
            landedOn (store W1 ! k)} = 1 \<and>
   landedOn (store V0 ! 3) \<and> currentPlatform (player V1) = Some 3 \<and>
   landedOn (store V1 ! 3) \<and> score V1 = score V0 \<and>
   card {k. k < length (store V1) \<and>
            \<not> (k < length (store V0) \<and> landedOn (store V0 ! k)) \<and>
            landedOn (store V1 ! k)} = 0"
proof -
  have w: "exec R0 (Frame 16 0) W0 = Inr W1" by (simp add: W0_loop)
  have v: "exec R0 (Frame 16 0) V0 = Inr V1" by (simp add: V0_loop)
  have a: "score W1 = score W0 +
              card {k. k < length (store W1) \<and>
                       \<not> (k < length (store W0) \<and> landedOn (store W0 ! k)) \<and>
                       landedOn (store W1 ! k)}"
    using landedOn_once_and_score[OF wf_W0 w] by simp
  have b: "score V1 = score V0 +
              card {k. k < length (store V1) \<and>
                       \<not> (k < length (store V0) \<and> landedOn (store V0 ! k)) \<and>
                       landedOn (store V1 ! k)}"
    using landedOn_once_and_score[OF wf_V0 v] by simp
  have sw: "score W1 = 1" "score W0 = 0" "score V1 = 1" "score V0 = 1"
    by (simp_all add: W1_fields W0_fields V1_fields V0_fields)
  have fl: "\<not> landedOn (store W0 ! 3)" "landedOn (store W1 ! 3)"
    "landedOn (store V0 ! 3)" "landedOn (store V1 ! 3)" "currentPlatform (player V1) = Some 3"
    by (simp_all add: W1_fields W0_fields V1_fields V0_fields)
  show ?thesis
    using a b fl unfolding sw by simp
qed

section \<open>C1: a perfect landing\<close>

text \<open>
  C1, as the specification has it: the platform takes the actor's colour.  In the played
  game (window 800 by 600, start, jump, 45 frames) the cyan player comes down in frame 46
  on the lime platform 1, which it has not landed on before, less than 15 from its centre:
  afterwards the platform is still lime and the player has become lime.
\<close>

theorem landing_colours_the_player:
  "run R1 (StartGame # Input KeyDown # frames 1 46) G0 = Inr Q45 \<and> reachable R1 Q45 \<and>
   loop R1 736 0 Q45 = Inr Q46 \<and>
   landingPlatform (preCollision R1 736 0 Q45) = Some 1 \<and>
   \<not> landedOn (store (preCollision R1 736 0 Q45) ! 1) \<and>
   perfectHit (preCollision R1 736 0 Q45) 1 \<and>
   ply_color (player Q45) = NEON_CYAN \<and> plat_color (store Q45 ! 1) = NEON_LIME \<and>
   plat_color (store Q46 ! 1) \<noteq> ply_color (player Q45) \<and>
   plat_color (store Q46 ! 1) = NEON_LIME \<and> ply_color (player Q46) = NEON_LIME"
proof -
  have a: "\<not> landedOn (store (preCollision R1 736 0 Q45) ! 1)"
    and b: "perfectHit (preCollision R1 736 0 Q45) 1"
    by (simp_all add: Q45_preCollision Q45_move perfectHit_def config)
  have c: "plat_color (store Q46 ! 1) \<noteq> ply_color (player Q45)"
    by (simp add: Q45_fields Q46_fields NEON_LIME_def NEON_CYAN_def)
  have d: "ply_color (player Q45) = NEON_CYAN" "plat_color (store Q45 ! 1) = NEON_LIME"
    "plat_color (store Q46 ! 1) = NEON_LIME" "ply_color (player Q46) = NEON_LIME"
    by (simp_all add: Q45_fields Q46_fields)
  show ?thesis
    by (intro conjI run_Q45 reachable_Q45 Q45_loop Q45_landing a b c d)
qed

text \<open>
  C1, as the code has it: on a first landing on platform \<open>r\<close> whose centre is horizontally less than
  the perfect tolerance (15) away from the player's centre, the streak counter is
  incremented, the streak notification fires with the new value right after the score
  notification, and the player's colour becomes the platform's colour; the platform keeps
  its colour.
\<close>

theorem perfect_landing:
  assumes "wf e" "state e = Playing" "loop R time now e = Inr e'"
    and "landingPlatform (preCollision R time now e) = Some r"
    and "\<not> landedOn (store (preCollision R time now e) ! r)"
    and "perfectHit (preCollision R time now e) r"
  shows "perfectStreak e' = perfectStreak e + 1 \<and>
         notifications e' =
           notifications e @
           [ScoreUpdate ((score e + 1) * (if isFever e then FEVER_MULTIPLIER else 1)),
            ComboChange (perfectStreak e + 1)] @
           (if perfectStreak e + 1 \<ge> FEVER_THRESHOLD then [FeverChange True] else []) @
           (if ply_y (player e') > viewportHeight e' + 100
            then [GameStateChange GameOver] else []) \<and>
         ply_color (player e') = plat_color (store (preCollision R time now e) ! r) \<and>
         plat_color (store e' ! r) = plat_color (store (preCollision R time now e) ! r) \<and>
         PERFECT_TOLERANCE = 15"
proof -
  have e': "e' = afterFrame R time now e"
    using assms(3) by (simp add: loop_afterFrame[OF assms(1,2)])
  have n: "notifications e' =
     notifications (update_collision R (preCollision R time now e)) @
     (if ply_y (player e') > viewportHeight e' + 100 then [GameStateChange GameOver] else [])"
    unfolding e' by (rule afterFrame_fields(10))
  show ?thesis
    unfolding n
    using assms(4,5,6)
    by (simp add: e' afterFrame_fields update_collision_scoring update_collision_player
          update_collision_store_fields landingNotes_def preCollision_fields[OF assms(1)] config)
qed

theorem perfect_landing_witness:
  "perfectStreak W1 = perfectStreak W0 + 1 \<and>
   notifications W1 = notifications W0 @ [ScoreUpdate 1, ComboChange 1] \<and>
   ply_color (player W1) = plat_color (store W0 ! 3) \<and>
   plat_color (store W1 ! 3) = plat_color (store W0 ! 3)"
proof -
  have l: "landingPlatform (preCollision R0 16 0 W0) = Some 3"
    and f: "\<not> landedOn (store (preCollision R0 16 0 W0) ! 3)"
    and p: "perfectHit (preCollision R0 16 0 W0) 3"
    by (simp_all add: W0_landing)
      (simp_all add: W0_preCollision W0_move perfectHit_def config)
  from perfect_landing[OF wf_W0 W0_fields(1) W0_loop l f p]
  show ?thesis
    by (simp add: W0_fields W1_fields W0_preCollision W0_move config)
qed


section \<open>C8: falling out ends the game\<close>

lemma run_frames_idle:
  assumes "state e \<noteq> Playing"
  shows "run R (map (\<lambda>(t, n). Frame t n) fs) e =
           Inr (if fs = [] then e else e\<lparr> lastTime := fst (last fs) \<rparr>)"
  using assms
proof (induction fs arbitrary: e)
  case Nil
  show ?case by simp
next
  case (Cons f fs)
  obtain t n where f: "f = (t, n)" by (cases f)
  have "state (e\<lparr> lastTime := t \<rparr>) \<noteq> Playing" using Cons.prems by simp
  from Cons.IH[OF this]
  show ?case using Cons.prems by (simp add: f loop_idle)
qed

lemma landingNotes_no_phase:
  "filter (\<lambda>n. n = GameStateChange s) (landingNotes e r) = []"
  by (simp add: landingNotes_def)

lemma exec_game_over:
  assumes "state e = GameOver" "op \<noteq> StartGame"
  shows "\<exists>e2. exec R op e = Inr e2 \<and> state e2 = GameOver \<and> simulation e2 = simulation e"
proof (cases op)
  case (Resize w h)
  then show ?thesis using assms by (simp add: resize_def simulation_def)
next
  case (StartLoop t)
  then show ?thesis using assms by (simp add: startLoop_def simulation_def)
next
  case StartGame
  then show ?thesis using assms by simp
next
  case (Input ev)
  then show ?thesis using assms by (simp add: handleInput_def)
next
  case (Frame t n)
  then show ?thesis using assms by (simp add: loop_idle simulation_def)
qed

lemma run_game_over:
  assumes "state e = GameOver" "StartGame \<notin> set ops"
  shows "\<exists>e2. run R ops e = Inr e2 \<and> state e2 = GameOver \<and> simulation e2 = simulation e"
  using assms
proof (induction ops arbitrary: e)
  case Nil
  then show ?case by simp
next
  case (Cons op ops)
  have "op \<noteq> StartGame" using Cons.prems(2) by auto
  from exec_game_over[OF Cons.prems(1) this, of R]
  obtain e1 where e1: "exec R op e = Inr e1" "state e1 = GameOver"
    "simulation e1 = simulation e" by blast
  have "StartGame \<notin> set ops" using Cons.prems(2) by simp
  from Cons.IH[OF e1(2) this]
  show ?case using e1 by simp
qed

text \<open>
  C8: in a frame of the playing phase the phase becomes GameOver exactly if the player's
  vertical position, as the frame leaves it, exceeds the viewport height plus 100, and
  otherwise stays Playing.  When it becomes GameOver, the frame sends the phase notification
  exactly once.  From then on, whatever the host does short of starting a new game (frames,
  input, resizing, restarting the loop, in any order and number), the phase stays GameOver
  and the simulation state stays as that frame left it; in particular every tick in the
  phase GameOver, at every state so reached, writes the time stamp of the frame and nothing
  else: it runs no physics, no collision, no scoring, no platform update and not even the
  cosmetic updates.
\<close>

theorem game_over_once_and_frozen:
  assumes "wf e" "state e = Playing" "loop R time now e = Inr e'"
  shows "(state e' = GameOver \<longleftrightarrow> ply_y (player e') > viewportHeight e' + 100) \<and>
         (state e' \<noteq> GameOver \<longrightarrow> state e' = Playing) \<and>
         (state e' = GameOver \<longrightarrow>
            take (length (notifications e)) (notifications e') = notifications e \<and>
            filter (\<lambda>n. n = GameStateChange GameOver)
              (drop (length (notifications e)) (notifications e')) = [GameStateChange GameOver] \<and>
            (\<forall>fs. run R (map (\<lambda>(t, n). Frame t n) fs) e' =
                    Inr (if fs = [] then e' else e'\<lparr> lastTime := fst (last fs) \<rparr>)) \<and>
            (\<forall>ops. StartGame \<notin> set ops \<longrightarrow>
               (\<exists>e2. run R ops e' = Inr e2 \<and> state e2 = GameOver \<and>
                     simulation e2 = simulation e' \<and>
                     (\<forall>t n. loop R t n e2 = Inr (e2\<lparr> lastTime := t \<rparr>)))))"
proof -
  have e': "e' = afterFrame R time now e"
    using assms(3) by (simp add: loop_afterFrame[OF assms(1,2)])
  have s: "state e' =
     (if ply_y (player e') > viewportHeight e' + 100 then GameOver else Playing)"
    unfolding e'
    by (subst afterFrame_fields(9)) (simp add: preCollision_fields[OF assms(1)] assms(2))
  have n: "notifications e' =
     notifications e @
     (case landingPlatform (preCollision R time now e) of
        None \<Rightarrow> [] | Some r \<Rightarrow> landingNotes (preCollision R time now e) r) @
     (if ply_y (player e') > viewportHeight e' + 100 then [GameStateChange GameOver] else [])"
    unfolding e'
    by (subst afterFrame_fields(10))
       (simp add: update_collision_scoring preCollision_fields[OF assms(1)])
  have frozen: "run R (map (\<lambda>(t, n). Frame t n) fs) e' =
                  Inr (if fs = [] then e' else e'\<lparr> lastTime := fst (last fs) \<rparr>)"
    if "state e' = GameOver" for fs
    using that by (intro run_frames_idle) simp
  have every: "\<exists>e2. run R ops e' = Inr e2 \<and> state e2 = GameOver \<and>
                 simulation e2 = simulation e' \<and>
                 (\<forall>t n. loop R t n e2 = Inr (e2\<lparr> lastTime := t \<rparr>))"
    if g: "state e' = GameOver" and o: "StartGame \<notin> set ops" for ops
  proof -
    from run_game_over[OF g o, of R]
    obtain e2 where e2: "run R ops e' = Inr e2" "state e2 = GameOver"
      "simulation e2 = simulation e'" by blast
    have "loop R t n e2 = Inr (e2\<lparr> lastTime := t \<rparr>)" for t n
      using e2(2) by (simp add: loop_idle)
    then show ?thesis using e2 by blast
  qed
  have once: "filter (\<lambda>n. n = GameStateChange GameOver)
                (drop (length (notifications e)) (notifications e')) = [GameStateChange GameOver]"
    if "state e' = GameOver"
  proof -
    have "ply_y (player e') > viewportHeight e' + 100"
      using that s by (simp split: if_splits)
    then show ?thesis
      unfolding n by (simp add: landingNotes_no_phase split: option.splits)
  qed
  have pre: "take (length (notifications e)) (notifications e') = notifications e"
    unfolding n by simp
  have a: "state e' = GameOver \<longleftrightarrow> ply_y (player e') > viewportHeight e' + 100"
    using s by (simp split: if_splits)
  have b: "state e' \<noteq> GameOver \<longrightarrow> state e' = Playing"
    using s by (simp split: if_splits)
  show ?thesis
    using a b frozen once pre every by blast
qed

theorem game_over_once_and_frozen_witness:
  "state E0r = Playing \<and> loop R0 16 0 E0r = Inr E1r \<and>
   ply_y (player E1r) > viewportHeight E1r + 100 \<and> state E1r = GameOver \<and>
   filter (\<lambda>n. n = GameStateChange GameOver)
     (drop (length (notifications E0r)) (notifications E1r)) = [GameStateChange GameOver] \<and>
   run R0 [Frame 32 0, Frame 48 0] E1r = Inr (E1r\<lparr> lastTime := 48 \<rparr>) \<and>
   run R0 [Frame 32 0, Resize 640 900, Input KeyDown, StartLoop 40, Frame 48 0] E1r =
     Inr (E1r\<lparr> viewportWidth := 640, viewportHeight := 900, lastTime := 48 \<rparr>) \<and>
   simulation (E1r\<lparr> viewportWidth := 640, viewportHeight := 900, lastTime := 48 \<rparr>) = simulation E1r \<and>
   loop R0 64 0 (E1r\<lparr> viewportWidth := 640, viewportHeight := 900, lastTime := 48 \<rparr>) =
     Inr (E1r\<lparr> viewportWidth := 640, viewportHeight := 900, lastTime := 64 \<rparr>)"
proof -
  have l: "loop R0 16 0 E0r = Inr E1r"
    by (simp add: E1r_def loop_afterFrame[OF wf_E0r E0r_fields(1)])
  have g: "state E1r = GameOver" by (simp add: E1r_fields)
  note t = game_over_once_and_frozen[OF wf_E0r E0r_fields(1) l]
  have a: "\<forall>fs. run R0 (map (\<lambda>(t, n). Frame t n) fs) E1r =
               Inr (if fs = [] then E1r else E1r\<lparr> lastTime := fst (last fs) \<rparr>)"
    and f: "filter (\<lambda>n. n = GameStateChange GameOver)
     (drop (length (notifications E0r)) (notifications E1r)) = [GameStateChange GameOver]"
    and o: "\<forall>ops. StartGame \<notin> set ops \<longrightarrow>
               (\<exists>e2. run R0 ops E1r = Inr e2 \<and> state e2 = GameOver \<and>
                     simulation e2 = simulation E1r \<and>
                     (\<forall>t n. loop R0 t n e2 = Inr (e2\<lparr> lastTime := t \<rparr>)))"
    using t g by simp_all
  have "run R0 (map (\<lambda>(t, n). Frame t n) [(32, 0), (48, 0)]) E1r =
               Inr (E1r\<lparr> lastTime := 48 \<rparr>)"
    using a[rule_format, of "[(32, 0), (48, 0)]"] by simp
  then have b: "run R0 [Frame 32 0, Frame 48 0] E1r = Inr (E1r\<lparr> lastTime := 48 \<rparr>)"
    by simp
  have r: "run R0 [Frame 32 0, Resize 640 900, Input KeyDown, StartLoop 40, Frame 48 0] E1r =
     Inr (E1r\<lparr> viewportWidth := 640, viewportHeight := 900, lastTime := 48 \<rparr>)"
    using g by (simp add: loop_idle resize_def startLoop_def handleInput_def)
  from o[rule_format, of "[Frame 32 0, Resize 640 900, Input KeyDown, StartLoop 40, Frame 48 0]"]
  have c: "simulation (E1r\<lparr> viewportWidth := 640, viewportHeight := 900, lastTime := 48 \<rparr>) = simulation E1r"
    and d: "loop R0 64 0 (E1r\<lparr> viewportWidth := 640, viewportHeight := 900, lastTime := 48 \<rparr>) =
     Inr (E1r\<lparr> viewportWidth := 640, viewportHeight := 900, lastTime := 64 \<rparr>)"
    unfolding r by simp_all
  have y: "ply_y (player E1r) > viewportHeight E1r + 100" by (simp add: E1r_fields)
  show ?thesis
    using l g f b r c d y E0r_fields(1) by blast
qed

section \<open>Which platforms are stationary, in exact arithmetic\<close>

lemma spawned_moving:
  assumes "0 \<le> R (k + 4)" "R (k + 4) < 1"
  shows "moving (spawned R k vw y)"
  using assms by (simp add: moving_def)

lemma advance_moving:
  "moving (advance sm vw p) = moving p"
  "plat_vx (advance sm vw p) = 0 \<longleftrightarrow> plat_vx p = 0"
  by (simp_all add: moving_def advance_def Let_def)

lemma afterFrame_store_old:
  assumes "wf e" "r \<in> set (platforms e)"
  shows "moving (store (afterFrame R time now e) ! r) = moving (store e ! r)"
    and "plat_vx (store (afterFrame R time now e) ! r) = 0 \<longleftrightarrow> plat_vx (store e ! r) = 0"
    and "plat_width (store (afterFrame R time now e) ! r) = plat_width (store e ! r)"
proof -
  have k: "r < length (store e)" using assms by (simp add: wf_def refs_ok_def)
  have w: "plat_width (store (afterFrame R time now e) ! r) = plat_width (store e ! r)"
    using assms(2)
    by (simp add: afterFrame_fields update_collision_store_fields
          preCollision_store[OF assms(1) k] Let_def)
  have v: "plat_vx (store (afterFrame R time now e) ! r) =
             plat_vx (advance (speedMultiplier e) (viewportWidth e) (store e ! r))"
    by (rule afterFrame_store_x(2)[OF assms])
  show "moving (store (afterFrame R time now e) ! r) = moving (store e ! r)"
    using advance_moving(1)[of "speedMultiplier e" "viewportWidth e" "store e ! r"]
    by (simp add: moving_def v)
  show "plat_vx (store (afterFrame R time now e) ! r) = 0 \<longleftrightarrow> plat_vx (store e ! r) = 0"
    unfolding v by (rule advance_moving(2))
  show "plat_width (store (afterFrame R time now e) ! r) = plat_width (store e ! r)"
    by (rule w)
qed

lemma afterFrame_store_new:
  assumes "wf e" "state e \<noteq> Start" "recycles (update_move now (e\<lparr> lastTime := time \<rparr>))"
    and "0 \<le> R (rix e + 4)" "R (rix e + 4) < 1"
  shows "moving (store (afterFrame R time now e) ! length (store e))"
proof -
  let ?e2 = "update_move now (e\<lparr> lastTime := time \<rparr>)"
  have w1: "wf (e\<lparr> lastTime := time \<rparr>)" using assms(1) by (simp add: wf_def refs_ok_def)
  then have r1: "refs_ok (e\<lparr> lastTime := time \<rparr>)" by (simp add: wf_def)
  from update_move_wf[OF w1, of now] have w2: "wf ?e2" .
  then have r2: "refs_ok ?e2" by (simp add: wf_def)
  have ne: "platforms ?e2 \<noteq> []" using w2 assms(2) r1 by (auto simp: wf_def)
  have "plat_vx (store (afterFrame R time now e) ! length (store e)) =
          plat_vx (store (afterScroll R ?e2) ! length (store ?e2))"
    using r1 by (simp add: afterFrame_fields update_collision_store_fields preCollision_def)
  also have "\<dots> = plat_vx (spawned R (rix e) (viewportWidth ?e2)
             (plat_y (store ?e2 ! last (platforms ?e2)) + scrollDiff ?e2 - PLATFORM_SPACING))"
    using afterScroll_new(2)[OF r2 assms(3) ne, of R] r1 by simp
  finally show ?thesis
    using spawned_moving[of R "rix e", OF assms(4,5)] by (simp add: moving_def)
qed

lemma afterFrame_speeds:
  assumes "wf e" "state e = Playing" "speeds_ok e" "0 \<le> R (rix e + 4)" "R (rix e + 4) < 1"
  shows "speeds_ok (afterFrame R time now e)"
proof -
  let ?e' = "afterFrame R time now e"
  let ?rc = "recycles (update_move now (e\<lparr> lastTime := time \<rparr>))"
  have len: "length (platforms e) = 6" using assms(1,2) by (simp add: wf_def)
  then obtain b r1 rest where ps: "platforms e = b # r1 # rest"
    by (cases "platforms e"; cases "tl (platforms e)") auto
  have p': "platforms ?e' = (if ?rc then tl (platforms e) @ [length (store e)] else platforms e)"
    by (simp add: afterFrame_fields preCollision_platforms[OF assms(1)])
  have old: "moving (store ?e' ! r)" if "r \<in> set (tl (platforms e))" for r
  proof -
    have "r \<in> set (platforms e)" using that ps by auto
    from afterFrame_store_old(1)[OF assms(1) this, of R time now]
    show ?thesis using assms(3) that by (simp add: speeds_ok_def)
  qed
  have hd_ok: "(plat_vx (store ?e' ! b) = 0 \<and> plat_width (store ?e' ! b) = 200) \<or>
               moving (store ?e' ! b)"
  proof -
    have "b \<in> set (platforms e)" using ps by simp
    from afterFrame_store_old[OF assms(1) this, of R time now]
    show ?thesis using assms(3) ps by (simp add: speeds_ok_def)
  qed
  show ?thesis
  proof (cases ?rc)
    case False
    then show ?thesis using old hd_ok ps by (simp add: speeds_ok_def p')
  next
    case True
    have ns: "state e \<noteq> Start" using assms(2) by simp
    have new: "moving (store ?e' ! length (store e))"
      using assms(1) ns True assms(4,5) by (rule afterFrame_store_new)
    show ?thesis
      using True old new ps by (auto simp: speeds_ok_def p')
  qed
qed

lemma startGame_speeds:
  assumes "\<forall>k. 0 \<le> R k \<and> R k < 1"
  shows "speeds_ok (startGame R e)"
  using assms
  by (simp add: speeds_ok_def startGame_fields nth_append spawned_moving)

lemma exec_speeds:
  assumes "\<forall>k. 0 \<le> R k \<and> R k < 1" "wf e" "speeds_ok e" "exec R op e = Inr e'"
  shows "speeds_ok e'"
proof (cases op)
  case (Resize w h)
  then show ?thesis using assms by (auto simp: resize_def speeds_ok_def)
next
  case (StartLoop t)
  then show ?thesis using assms by (auto simp: startLoop_def speeds_ok_def)
next
  case StartGame
  then show ?thesis using assms startGame_speeds[of R e] by auto
next
  case (Input ev)
  then show ?thesis using assms by (auto simp: handleInput_fields speeds_ok_def)
next
  case (Frame time now)
  show ?thesis
  proof (cases "state e = Playing")
    case True
    have "e' = afterFrame R time now e"
      using assms(4) Frame by (simp add: loop_afterFrame[OF assms(2) True])
    then show ?thesis
      using afterFrame_speeds[OF assms(2) True assms(3), of R time now] assms(1) by simp
  next
    case False
    then show ?thesis using assms Frame by (auto simp: loop_idle speeds_ok_def)
  qed
qed

lemma reachable_speeds:
  assumes "\<forall>k. 0 \<le> R k \<and> R k < 1" "reachable R e"
  shows "speeds_ok e"
  using assms(2)
proof (induction rule: reachable.induct)
  case (init w h)
  show ?case by (simp add: speeds_ok_def GameEngine_def)
next
  case (step e op e')
  have "wf e" using reachable_inv[OF step.hyps(1)] by simp
  from exec_speeds[OF assms(1) this step.IH step.hyps(3)]
  show ?case .
qed

text \<open>
  The velocities of C10, over exact real arithmetic (the source computes
  \<open>2 + Math.random() * 3\<close> in double precision, whose rounding this development does not
  model, so the open upper bound below is a statement about the model only): with every
  draw of \<open>Math.random\<close> in \<open>[0, 1)\<close>, in every reachable state every platform of the array
  but the first has a horizontal velocity of magnitude in \<open>[2, 5)\<close>, and the first either
  has one too or is stationary with width 200; a start makes the first platform a
  stationary one of width 200, horizontally centred under the player, who rests on it; and
  every platform that \<open>spawnPlatform\<close> constructs has a velocity of magnitude in \<open>[2, 5)\<close>.
\<close>

theorem only_base_stationary:
  assumes "\<forall>k. 0 \<le> R k \<and> R k < 1" "reachable R e"
  shows "(\<forall>r \<in> set (tl (platforms e)). moving (store e ! r)) \<and>
         (platforms e \<noteq> [] \<longrightarrow>
            (plat_vx (store e ! hd (platforms e)) = 0 \<and>
             plat_width (store e ! hd (platforms e)) = 200) \<or>
            moving (store e ! hd (platforms e))) \<and>
         (let e' = startGame R e; b = hd (platforms e')
          in length (platforms e') = 6 \<and>
             plat_vx (store e' ! b) = 0 \<and> plat_width (store e' ! b) = 200 \<and>
             plat_x (store e' ! b) + plat_width (store e' ! b) / 2 = viewportWidth e / 2 \<and>
             ply_x (player e') = viewportWidth e / 2 \<and>
             currentPlatform (player e') = Some b) \<and>
         (\<forall>y. moving (store (spawnPlatform R y e) ! length (store e)))"
proof -
  have "speeds_ok e" by (rule reachable_speeds[OF assms])
  moreover have "\<forall>y. moving (store (spawnPlatform R y e) ! length (store e))"
    using assms(1) by (simp add: spawnPlatform_eq spawned_moving)
  ultimately show ?thesis
    by (simp add: speeds_ok_def startGame_fields Let_def nth_append)
qed

theorem only_base_stationary_witness:
  "platforms E0 = [0, 1, 2, 3, 4, 5] \<and>
   plat_vx (store E0 ! 0) = 0 \<and> plat_width (store E0 ! 0) = 200 \<and>
   moving (store E0 ! 1) \<and> moving (store E0 ! 2) \<and> moving (store E0 ! 3) \<and>
   moving (store E0 ! 4) \<and> moving (store E0 ! 5) \<and>
   moving (store (spawnPlatform R0 0 E0) ! length (store E0))"
proof -
  have r: "\<forall>k. 0 \<le> R0 k \<and> R0 k < 1" by (simp add: R0_def)
  from only_base_stationary[OF r reachable_E0]
  show ?thesis by (simp add: E0_fields)
qed


section \<open>Notifications along a run\<close>

lemma reports_append [simp]:
  "scoreReports (xs @ ys) = scoreReports xs @ scoreReports ys"
  "comboReports (xs @ ys) = comboReports xs @ comboReports ys"
  "feverReports (xs @ ys) = feverReports xs @ feverReports ys"
  "phaseReports (xs @ ys) = phaseReports xs @ phaseReports ys"
proof -
  show "scoreReports (xs @ ys) = scoreReports xs @ scoreReports ys"
    by (induction xs rule: scoreReports.induct) simp_all
  show "comboReports (xs @ ys) = comboReports xs @ comboReports ys"
    by (induction xs rule: comboReports.induct) simp_all
  show "feverReports (xs @ ys) = feverReports xs @ feverReports ys"
    by (induction xs rule: feverReports.induct) simp_all
  show "phaseReports (xs @ ys) = phaseReports xs @ phaseReports ys"
    by (induction xs rule: phaseReports.induct) simp_all
qed

lemma lastOf_append [simp]: "lastOf (xs @ [x]) = Some x"
  by (induction xs rule: lastOf.induct) simp_all

lemma landingOut_reports:
  "scoreReports (landingOut b s k f) = [(s + 1) * (if f then FEVER_MULTIPLIER else 1)]"
  "comboReports (landingOut b s k f) = (if b then [k + 1] else if k > 0 then [0] else [])"
  "feverReports (landingOut b s k f) =
     (if b then (if k + 1 \<ge> FEVER_THRESHOLD then [True] else [])
      else if f then [False] else [])"
  "phaseReports (landingOut b s k f) = []"
  "filter (\<lambda>n. \<not> isPhaseNote n) (landingOut b s k f) = landingOut b s k f"
  by simp_all

lemma landingNotes_landingOut:
  "landingNotes e r =
     (if landedOn (store e ! r) then []
      else landingOut (perfectHit e r) (score e) (perfectStreak e) (isFever e))"
  by (simp add: landingNotes_def)

text \<open>What one operation other than a start adds to the log and does to the scoring state.\<close>

lemma exec_notes:
  assumes "wf e" "op \<noteq> StartGame" "exec R op e = Inr e'"
  shows "notifications e' =
           notifications e @
           (case firstLanding R op e of
              None \<Rightarrow> []
            | Some b \<Rightarrow> landingOut b (score e) (perfectStreak e) (isFever e)) @
           (if state e = Playing \<and> state e' = GameOver then [GameStateChange GameOver] else [])"
    and "score e' = (case firstLanding R op e of None \<Rightarrow> score e | Some b \<Rightarrow> score e + 1)"
    and "perfectStreak e' =
           (case firstLanding R op e of
              None \<Rightarrow> perfectStreak e
            | Some b \<Rightarrow> if b then perfectStreak e + 1 else 0)"
    and "isFever e' =
           (case firstLanding R op e of
              None \<Rightarrow> isFever e
            | Some b \<Rightarrow> b \<and> (isFever e \<or> perfectStreak e + 1 \<ge> FEVER_THRESHOLD))"
    and "state e' = state e \<or> (state e = Playing \<and> state e' = GameOver)"
proof -
  have all: "notifications e' =
           notifications e @
           (case firstLanding R op e of
              None \<Rightarrow> []
            | Some b \<Rightarrow> landingOut b (score e) (perfectStreak e) (isFever e)) @
           (if state e = Playing \<and> state e' = GameOver then [GameStateChange GameOver] else []) \<and>
         score e' = (case firstLanding R op e of None \<Rightarrow> score e | Some b \<Rightarrow> score e + 1) \<and>
         perfectStreak e' =
           (case firstLanding R op e of
              None \<Rightarrow> perfectStreak e
            | Some b \<Rightarrow> if b then perfectStreak e + 1 else 0) \<and>
         isFever e' =
           (case firstLanding R op e of
              None \<Rightarrow> isFever e
            | Some b \<Rightarrow> b \<and> (isFever e \<or> perfectStreak e + 1 \<ge> FEVER_THRESHOLD)) \<and>
         (state e' = state e \<or> (state e = Playing \<and> state e' = GameOver))"
  proof (cases op)
    case (Resize w h)
    then show ?thesis using assms(3) by (auto simp: resize_def)
  next
    case (StartLoop t)
    then show ?thesis using assms(3) by (auto simp: startLoop_def)
  next
    case StartGame
    then show ?thesis using assms(2) by simp
  next
    case (Input ev)
    then show ?thesis using assms(3) by (auto simp: handleInput_fields)
  next
    case (Frame time now)
    show ?thesis
    proof (cases "state e = Playing")
      case False
      then show ?thesis using assms(3) Frame by (auto simp: loop_idle)
    next
      case True
      let ?e3 = "preCollision R time now e"
      have e': "e' = afterFrame R time now e"
        using assms(3) Frame by (simp add: loop_afterFrame[OF assms(1) True])
      have s: "state e' =
         (if ply_y (player e') > viewportHeight e' + 100 then GameOver else Playing)"
        unfolding e'
        by (subst afterFrame_fields(9)) (simp add: preCollision_fields[OF assms(1)] True)
      have n: "notifications e' =
         notifications (update_collision R ?e3) @
         (if ply_y (player e') > viewportHeight e' + 100 then [GameStateChange GameOver] else [])"
        unfolding e' by (rule afterFrame_fields(10))
      have ph: "(if ply_y (player e') > viewportHeight e' + 100
                 then [GameStateChange GameOver] else []) =
                (if state e = Playing \<and> state e' = GameOver
                 then [GameStateChange GameOver] else [])"
        using s True by simp
      have sc: "score e' = score (update_collision R ?e3)"
        "perfectStreak e' = perfectStreak (update_collision R ?e3)"
        "isFever e' = isFever (update_collision R ?e3)"
        by (simp_all add: e' afterFrame_fields)
      have st: "state e' = state e \<or> (state e = Playing \<and> state e' = GameOver)"
        using s True by simp
      show ?thesis
        unfolding n ph sc
        using st True Frame
        by (simp add: update_collision_scoring landingNotes_landingOut
              preCollision_fields[OF assms(1)] split: option.splits)
    qed
  qed
  show "notifications e' =
           notifications e @
           (case firstLanding R op e of
              None \<Rightarrow> []
            | Some b \<Rightarrow> landingOut b (score e) (perfectStreak e) (isFever e)) @
           (if state e = Playing \<and> state e' = GameOver then [GameStateChange GameOver] else [])"
    and "score e' = (case firstLanding R op e of None \<Rightarrow> score e | Some b \<Rightarrow> score e + 1)"
    and "perfectStreak e' =
           (case firstLanding R op e of
              None \<Rightarrow> perfectStreak e
            | Some b \<Rightarrow> if b then perfectStreak e + 1 else 0)"
    and "isFever e' =
           (case firstLanding R op e of
              None \<Rightarrow> isFever e
            | Some b \<Rightarrow> b \<and> (isFever e \<or> perfectStreak e + 1 \<ge> FEVER_THRESHOLD))"
    and "state e' = state e \<or> (state e = Playing \<and> state e' = GameOver)"
    using all by blast+
qed

lemma run_notes:
  assumes "wf e" "pinned e" "StartGame \<notin> set ops" "\<forall>op \<in> set ops. valid_op op"
    and "run R ops e = Inr e'"
  shows "\<exists>new. notifications e' = notifications e @ new \<and>
           filter (\<lambda>n. \<not> isPhaseNote n) new =
             notesOf (landings R ops e) (score e) (perfectStreak e) (isFever e)"
    and "(score e', perfectStreak e', isFever e') =
           scoringAfter (landings R ops e) (score e, perfectStreak e, isFever e)"
proof -
  have "(\<exists>new. notifications e' = notifications e @ new \<and>
           filter (\<lambda>n. \<not> isPhaseNote n) new =
             notesOf (landings R ops e) (score e) (perfectStreak e) (isFever e)) \<and>
        (score e', perfectStreak e', isFever e') =
           scoringAfter (landings R ops e) (score e, perfectStreak e, isFever e)"
    using assms
  proof (induction ops arbitrary: e)
    case Nil
    then show ?case by simp
  next
    case (Cons op ops)
    obtain e1 where e1: "exec R op e = Inr e1" and r1: "run R ops e1 = Inr e'"
      using Cons.prems(5) by (auto split: sum.splits)
    have ns: "op \<noteq> StartGame" and v: "valid_op op" using Cons.prems(3,4) by auto
    have inv1: "wf e1" "pinned e1"
      using exec_inv[OF Cons.prems(1,2) v e1] by simp_all
    have rest: "StartGame \<notin> set ops" "\<forall>op \<in> set ops. valid_op op"
      using Cons.prems(3,4) by auto
    from Cons.IH[OF inv1 rest r1]
    obtain new where new: "notifications e' = notifications e1 @ new"
      "filter (\<lambda>n. \<not> isPhaseNote n) new =
         notesOf (landings R ops e1) (score e1) (perfectStreak e1) (isFever e1)"
      and fin: "(score e', perfectStreak e', isFever e') =
         scoringAfter (landings R ops e1) (score e1, perfectStreak e1, isFever e1)"
      by blast
    note step = exec_notes[OF Cons.prems(1) ns e1]
    show ?case
    proof (cases "firstLanding R op e")
      case None
      have "notifications e' =
              notifications e @
              ((if state e = Playing \<and> state e1 = GameOver
                then [GameStateChange GameOver] else []) @ new)"
        using step(1) new(1) None by simp
      moreover have "filter (\<lambda>n. \<not> isPhaseNote n)
              ((if state e = Playing \<and> state e1 = GameOver
                then [GameStateChange GameOver] else []) @ new) =
            notesOf (landings R (op # ops) e) (score e) (perfectStreak e) (isFever e)"
        using new(2) step(2,3,4) None e1 by simp
      moreover have "(score e', perfectStreak e', isFever e') =
           scoringAfter (landings R (op # ops) e) (score e, perfectStreak e, isFever e)"
        using fin step(2,3,4) None e1 by simp
      ultimately show ?thesis by blast
    next
      case (Some b)
      have "notifications e' =
              notifications e @
              (landingOut b (score e) (perfectStreak e) (isFever e) @
               (if state e = Playing \<and> state e1 = GameOver
                then [GameStateChange GameOver] else []) @ new)"
        using step(1) new(1) Some by simp
      moreover have "filter (\<lambda>n. \<not> isPhaseNote n)
              (landingOut b (score e) (perfectStreak e) (isFever e) @
               (if state e = Playing \<and> state e1 = GameOver
                then [GameStateChange GameOver] else []) @ new) =
            notesOf (landings R (op # ops) e) (score e) (perfectStreak e) (isFever e)"
        using new(2) step(2,3,4) Some e1
        by (simp add: landingOut_reports(5) del: landingOut.simps)
      moreover have "(score e', perfectStreak e', isFever e') =
           scoringAfter (landings R (op # ops) e) (score e, perfectStreak e, isFever e)"
        using fin step(2,3,4) Some e1 by simp
      ultimately show ?thesis by blast
    qed
  qed
  then show "\<exists>new. notifications e' = notifications e @ new \<and>
           filter (\<lambda>n. \<not> isPhaseNote n) new =
             notesOf (landings R ops e) (score e) (perfectStreak e) (isFever e)"
    and "(score e', perfectStreak e', isFever e') =
           scoringAfter (landings R ops e) (score e, perfectStreak e, isFever e)"
    by blast+
qed

lemma notesOf_fever:
  assumes "2 \<le> k"
  shows "notesOf (replicate n True) s k True =
           concat (map (\<lambda>i. [ScoreUpdate (FEVER_MULTIPLIER * (s + 1 + i)),
                              ComboChange (k + 1 + i), FeverChange True]) [0..<n])"
  using assms
proof (induction n arbitrary: s k)
  case 0
  show ?case by simp
next
  case (Suc n)
  let ?g = "\<lambda>s k i. [ScoreUpdate (FEVER_MULTIPLIER * (s + 1 + i)),
                       ComboChange (k + 1 + i), FeverChange True]"
  have "2 \<le> k + 1" using Suc.prems by simp
  from Suc.IH[OF this, of "s + 1"]
  have IH: "notesOf (replicate n True) (s + 1) (k + 1) True =
              concat (map (?g (s + 1) (k + 1)) [0..<n])" .
  have 1: "notesOf (replicate (Suc n) True) s k True =
             ?g s k 0 @ notesOf (replicate n True) (s + 1) (k + 1) True"
    using Suc.prems by (simp add: config)
  have u: "[0..<Suc n] = 0 # map Suc [0..<n]"
    by (simp add: upt_conv_Cons map_Suc_upt del: upt_Suc)
  have 2: "concat (map (?g s k) [0..<Suc n]) =
             ?g s k 0 @ concat (map (\<lambda>i. ?g s k (Suc i)) [0..<n])"
    unfolding u by (simp add: comp_def)
  have 3: "(\<lambda>i. ?g s k (Suc i)) = ?g (s + 1) (k + 1)"
    by (intro ext) simp
  show ?case
    unfolding 1 2 3 IH by (rule refl)
qed

lemma scoringAfter_fever:
  assumes "2 \<le> k"
  shows "scoringAfter (replicate n True) (s, k, True) = (s + n, k + n, True)"
  using assms by (induction n arbitrary: s k) (simp_all add: config)


section \<open>C2: three perfect landings in a row\<close>

lemma W_first:
  "firstLanding R0 (Frame 16 0) W0 = Some True"
  "firstLanding R0 (Frame 32 0) W1 = None"
  "firstLanding R0 (Frame 48 0) W2 = Some True"
  "firstLanding R0 (Frame 64 0) W3 = None"
  "firstLanding R0 (Frame 80 0) W4 = Some True"
  "firstLanding R0 (Frame 96 0) W5 = None"
  "firstLanding R0 (Frame 112 0) W6 = Some True"
proof -
  show "firstLanding R0 (Frame 16 0) W0 = Some True"
    by (simp add: W0_fields(1) W0_landing)
       (simp add: W0_preCollision W0_move perfectHit_def config)
  show "firstLanding R0 (Frame 32 0) W1 = None"
    by (simp add: W1_fields(1) W1_landing)
  show "firstLanding R0 (Frame 48 0) W2 = Some True"
    by (simp add: W2_fields(1) W2_landing)
       (simp add: W2_preCollision W2_move perfectHit_def config)
  show "firstLanding R0 (Frame 64 0) W3 = None"
    by (simp add: W3_fields(1) W3_landing)
  show "firstLanding R0 (Frame 80 0) W4 = Some True"
    by (simp add: W4_fields(1) W4_landing)
       (simp add: W4_preCollision W4_move perfectHit_def config)
  show "firstLanding R0 (Frame 96 0) W5 = None"
    by (simp add: W5_fields(1) W5_landing)
  show "firstLanding R0 (Frame 112 0) W6 = Some True"
    by (simp add: W6_fields(1) W6_landing)
       (simp add: W6_preCollision W6_move perfectHit_def config)
qed

lemmas W_loop = W0_loop W1_loop W2_loop W3_loop W4_loop W5_loop W6_loop

text \<open>
  C2, as the specification has it: the score notification of the third landing already
  carries the multiplier.  In the played game (window 800 by 600; start, jump, and a jump
  after each landing) the first landings are three perfect ones, in frames 46, 92 and 138,
  on the platforms 1, 2 and 3, starting from streak 0 with fever off; the fever flag is set
  by the third, but its score notification, sent before the flag is set, reports the raw
  score 3 and not 3 times the multiplier.
\<close>

theorem third_landing_score_not_multiplied:
  "perfectStreak G0 = 0 \<and> \<not> isFever G0 \<and> score G0 = 0 \<and> notifications G0 = [] \<and>
   run R1 played G0 = Inr Q138 \<and> reachable R1 Q138 \<and>
   landings R1 played G0 = [True, True, True] \<and>
   \<not> isFever Q137 \<and> isFever Q138 \<and> score Q138 = 3 \<and>
   notifications Q138 =
     [ScoreUpdate 0, ComboChange 0, FeverChange False, GameStateChange Playing,
      ScoreUpdate 1, ComboChange 1, ScoreUpdate 2, ComboChange 2,
      ScoreUpdate 3, ComboChange 3, FeverChange True] \<and>
   last (scoreReports (notifications Q138)) \<noteq> score Q138 * FEVER_MULTIPLIER"
proof -
  have a: "perfectStreak G0 = 0" "\<not> isFever G0" "score G0 = 0" "notifications G0 = []"
    by (simp_all add: G0_fields)
  have b: "\<not> isFever Q137" "isFever Q138" "score Q138 = 3"
    by (simp_all add: Q137_fields Q138_fields)
  have c: "notifications Q138 =
     [ScoreUpdate 0, ComboChange 0, FeverChange False, GameStateChange Playing,
      ScoreUpdate 1, ComboChange 1, ScoreUpdate 2, ComboChange 2,
      ScoreUpdate 3, ComboChange 3, FeverChange True]"
    by (simp add: Q138_fields)
  have d: "last (scoreReports (notifications Q138)) \<noteq> score Q138 * FEVER_MULTIPLIER"
    by (simp add: Q138_fields config)
  show ?thesis
    by (intro conjI run_played reachable_Q138 landings_played a b c d)
qed

text \<open>
  C2, as the code has it: in any run without a restart whose first landings are three perfect ones
  followed by \<open>n\<close> more perfect ones, starting from streak 0 with fever off and raw score
  \<open>s\<close>, the fever flag is true at the end, it is reported right after the streak
  notification of the third landing, the score notifications of the first three landings
  report the raw scores \<open>s + 1\<close>, \<open>s + 2\<close>, \<open>s + 3\<close>, and those of the later landings
  report the raw score times the fever multiplier.
\<close>

theorem three_perfect_landings:
  assumes "wf e" "pinned e" "perfectStreak e = 0" "\<not> isFever e"
    and "StartGame \<notin> set ops" "\<forall>op \<in> set ops. valid_op op"
    and "run R ops e = Inr e'"
    and "landings R ops e = [True, True, True] @ replicate n True"
  shows "isFever e' \<and> score e' = score e + 3 + n \<and> perfectStreak e' = 3 + n \<and>
         take (length (notifications e)) (notifications e') = notifications e \<and>
         filter (\<lambda>n. \<not> isPhaseNote n) (drop (length (notifications e)) (notifications e')) =
           [ScoreUpdate (score e + 1), ComboChange 1,
            ScoreUpdate (score e + 2), ComboChange 2,
            ScoreUpdate (score e + 3), ComboChange 3, FeverChange True] @
           concat (map (\<lambda>i. [ScoreUpdate (FEVER_MULTIPLIER * (score e + 4 + i)),
                              ComboChange (4 + i), FeverChange True]) [0..<n])"
proof -
  from run_notes(1)[OF assms(1,2,5,6,7)]
  obtain new where new: "notifications e' = notifications e @ new"
    "filter (\<lambda>n. \<not> isPhaseNote n) new =
       notesOf (landings R ops e) (score e) (perfectStreak e) (isFever e)"
    by blast
  have fin: "(score e', perfectStreak e', isFever e') =
               scoringAfter (landings R ops e) (score e, perfectStreak e, isFever e)"
    by (rule run_notes(2)[OF assms(1,2,5,6,7)])
  have tail: "notesOf (replicate n True) (score e + 3) 3 True =
           concat (map (\<lambda>i. [ScoreUpdate (FEVER_MULTIPLIER * (score e + 3 + 1 + i)),
                              ComboChange (3 + 1 + i), FeverChange True]) [0..<n])"
    by (rule notesOf_fever) simp
  have tail2: "scoringAfter (replicate n True) (score e + 3, 3, True) = (score e + 3 + n, 3 + n, True)"
    by (rule scoringAfter_fever) simp
  have a: "notesOf ([True, True, True] @ replicate n True) (score e) 0 False =
           [ScoreUpdate (score e + 1), ComboChange 1,
            ScoreUpdate (score e + 2), ComboChange 2,
            ScoreUpdate (score e + 3), ComboChange 3, FeverChange True] @
           notesOf (replicate n True) (score e + 3) 3 True"
    by (simp add: config numeral_3_eq_3 add.assoc)
  have b: "scoringAfter ([True, True, True] @ replicate n True) (score e, 0, False) =
           scoringAfter (replicate n True) (score e + 3, 3, True)"
    by (simp add: config numeral_3_eq_3 add.assoc)
  have "(score e', perfectStreak e', isFever e') = (score e + 3 + n, 3 + n, True)"
    using fin unfolding assms(8) assms(3) using assms(4) by (simp only: b tail2 simp_thms)
  moreover have "filter (\<lambda>n. \<not> isPhaseNote n) new =
           [ScoreUpdate (score e + 1), ComboChange 1,
            ScoreUpdate (score e + 2), ComboChange 2,
            ScoreUpdate (score e + 3), ComboChange 3, FeverChange True] @
           concat (map (\<lambda>i. [ScoreUpdate (FEVER_MULTIPLIER * (score e + 4 + i)),
                              ComboChange (4 + i), FeverChange True]) [0..<n])"
    using new(2) unfolding assms(8) assms(3) using assms(4)
    by (simp only: a tail simp_thms) (simp add: ac_simps)
  ultimately show ?thesis
    using new(1) by simp
qed

theorem three_perfect_landings_witness:
  "run R0 [Frame 16 0, Frame 32 0, Frame 48 0, Frame 64 0, Frame 80 0, Frame 96 0,
           Frame 112 0] W0 = Inr W7 \<and>
   landings R0 [Frame 16 0, Frame 32 0, Frame 48 0, Frame 64 0, Frame 80 0, Frame 96 0,
                Frame 112 0] W0 = [True, True, True, True] \<and>
   isFever W7 \<and> score W7 = 4 \<and> perfectStreak W7 = 4 \<and>
   notifications W7 =
     [ScoreUpdate 1, ComboChange 1, ScoreUpdate 2, ComboChange 2,
      ScoreUpdate 3, ComboChange 3, FeverChange True,
      ScoreUpdate 8, ComboChange 4, FeverChange True]"
proof -
  let ?ops = "[Frame 16 0, Frame 32 0, Frame 48 0, Frame 64 0, Frame 80 0, Frame 96 0,
               Frame 112 0]"
  have r: "run R0 ?ops W0 = Inr W7" by (simp add: W_loop)
  have l: "landings R0 ?ops W0 = [True, True, True] @ replicate 1 True"
    by (simp add: W_loop W_first del: firstLanding.simps)
  have s: "StartGame \<notin> set ?ops" and v: "\<forall>op \<in> set ?ops. valid_op op" by simp_all
  have 0: "perfectStreak W0 = 0" "\<not> isFever W0" by (simp_all add: W0_fields)
  from three_perfect_landings[OF wf_W0 pinned_W0 0 s v r l]
  have "isFever W7 \<and> score W7 = 4 \<and> perfectStreak W7 = 4"
    by (simp add: W0_fields)
  then show ?thesis
    using r l by (simp add: W7_fields)
qed

section \<open>C3: notifications and changes\<close>

lemma startGame_log_ok: "log_ok (startGame R e)"
  by (simp add: log_ok_def startGame_fields)

lemma exec_log_ok:
  assumes "wf e" "log_ok e" "exec R op e = Inr e'"
  shows "log_ok e'"
proof (cases "op = StartGame")
  case True
  then show ?thesis using assms(3) startGame_log_ok by auto
next
  case False
  note step = exec_notes[OF assms(1) False assms(3)]
  have inv: "isFever e \<longrightarrow> 3 \<le> perfectStreak e" "perfectStreak e \<le> score e"
    using assms(2) by (simp_all add: log_ok_def)
  show ?thesis
  proof (cases "firstLanding R op e")
    case None
    have sc: "score e' = score e" "perfectStreak e' = perfectStreak e" "isFever e' = isFever e"
      using step(2,3,4) None by simp_all
    show ?thesis
    proof (cases "state e = Playing \<and> state e' = GameOver")
      case True
      then have n: "notifications e' = notifications e @ [GameStateChange GameOver]"
        using step(1) None by simp
      show ?thesis
        using assms(2) True unfolding log_ok_def sc n by simp
    next
      case False
      then have n: "notifications e' = notifications e" "state e' = state e"
        using step(1,5) None by auto
      show ?thesis
        using assms(2) unfolding log_ok_def sc n by simp
    qed
  next
    case (Some b)
    have n: "notifications e' =
               (notifications e @ landingOut b (score e) (perfectStreak e) (isFever e)) @
               (if state e = Playing \<and> state e' = GameOver then [GameStateChange GameOver] else [])"
      using step(1) Some by simp
    have sc: "score e' = score e + 1"
      "perfectStreak e' = (if b then perfectStreak e + 1 else 0)"
      "isFever e' = (b \<and> (isFever e \<or> perfectStreak e + 1 \<ge> FEVER_THRESHOLD))"
      using step(2,3,4) Some by simp_all
    have ph: "case lastOf (phaseReports (notifications e')) of
                None \<Rightarrow> True | Some v \<Rightarrow> v = state e'"
      using assms(2) step(5)
      by (auto simp: n log_ok_def landingOut_reports(4) simp del: landingOut.simps
            split: option.splits)
    have s: "case lastOf (scoreReports (notifications e')) of
        None \<Rightarrow> True
      | Some v \<Rightarrow> v = score e' \<or> (v = 2 * score e' \<and> 4 \<le> score e')"
      using inv
      by (auto simp: n sc landingOut_reports(1) config simp del: landingOut.simps
            split: option.splits)
    have c: "case lastOf (comboReports (notifications e')) of
        None \<Rightarrow> True | Some v \<Rightarrow> v = perfectStreak e'"
      using assms(2)
      by (auto simp: n sc landingOut_reports(2) log_ok_def simp del: landingOut.simps
            split: option.splits)
    have f: "case lastOf (feverReports (notifications e')) of
        None \<Rightarrow> True | Some v \<Rightarrow> v = isFever e'"
      using assms(2) inv
      by (auto simp: n sc landingOut_reports(3) log_ok_def config simp del: landingOut.simps
            split: option.splits)
    have i: "isFever e' \<longrightarrow> 3 \<le> perfectStreak e'" "perfectStreak e' \<le> score e'"
      using inv by (auto simp: sc config)
    show ?thesis
      unfolding log_ok_def using ph s c f i by blast
  qed
qed

lemma reachable_log_ok:
  assumes "reachable R e"
  shows "log_ok e"
  using assms
proof (induction rule: reachable.induct)
  case (init w h)
  show ?case by (simp add: log_ok_def GameEngine_def)
next
  case (step e op e')
  have "wf e" using reachable_inv[OF step.hyps(1)] by simp
  from exec_log_ok[OF this step.IH step.hyps(3)] show ?case .
qed

text \<open>
  C3, as the specification has it: no callback is ever invoked with the value it last reported.  The game
  is started, the window shrinks so that the player is out of view, one frame ends the
  game, and the game is started again: the score channel reports 0 twice in a row (and so
  do the streak and the fever channel).
\<close>

theorem restart_repeats_notifications:
  "reachable R0 (startGame R0 E1r) \<and>
   notifications (startGame R0 E1r) =
     [ScoreUpdate 0, ComboChange 0, FeverChange False, GameStateChange Playing,
      GameStateChange GameOver,
      ScoreUpdate 0, ComboChange 0, FeverChange False, GameStateChange Playing] \<and>
   scoreReports (notifications (startGame R0 E1r)) = [0, 0] \<and>
   \<not> changes_only (notifications (startGame R0 E1r))"
proof -
  have l: "exec R0 (Frame 16 0) E0r = Inr E1r"
    by (simp add: E1r_def loop_afterFrame[OF wf_E0r E0r_fields(1)])
  have "reachable R0 E1r"
    by (rule reachable.step[OF reachable_E0r _ l]) simp
  then have "reachable R0 (startGame R0 E1r)"
    by (rule reachable.step[of R0 E1r StartGame]) simp_all
  then show ?thesis
    by (simp add: startGame_fields E1r_fields E0_fields changes_only_def)
qed

text \<open>
  C3, as the code has it: a start or restart reports score 0, streak 0, fever false and the phase
  Playing, whatever was reported before.  In every other operation, from a reachable state,
  each score, streak and phase notification, and each fever notification in an operation
  that reports fever false, carries a value different from the one last reported on its
  channel.
\<close>

theorem notifications_on_change:
  assumes "reachable R e" "valid_op op" "exec R op e = Inr e'"
  shows "take (length (notifications e)) (notifications e') = notifications e \<and>
         (op = StartGame \<longrightarrow>
            drop (length (notifications e)) (notifications e') =
              [ScoreUpdate 0, ComboChange 0, FeverChange False, GameStateChange Playing]) \<and>
         (op \<noteq> StartGame \<longrightarrow>
            fresh (lastOf (scoreReports (notifications e)))
              (scoreReports (drop (length (notifications e)) (notifications e'))) \<and>
            fresh (lastOf (comboReports (notifications e)))
              (comboReports (drop (length (notifications e)) (notifications e'))) \<and>
            fresh (lastOf (phaseReports (notifications e)))
              (phaseReports (drop (length (notifications e)) (notifications e'))) \<and>
            (False \<in> set (feverReports (drop (length (notifications e)) (notifications e'))) \<longrightarrow>
               fresh (lastOf (feverReports (notifications e)))
                 (feverReports (drop (length (notifications e)) (notifications e')))))"
proof (cases "op = StartGame")
  case True
  then show ?thesis using assms(3) by (auto simp: startGame_fields)
next
  case False
  have w: "wf e" using reachable_inv[OF assms(1)] by simp
  have lg: "log_ok e" by (rule reachable_log_ok[OF assms(1)])
  note step = exec_notes[OF w False assms(3)]
  have inv: "isFever e \<longrightarrow> 3 \<le> perfectStreak e" "perfectStreak e \<le> score e"
    using lg by (simp_all add: log_ok_def)
  let ?L = "case firstLanding R op e of
              None \<Rightarrow> []
            | Some b \<Rightarrow> landingOut b (score e) (perfectStreak e) (isFever e)"
  let ?P = "if state e = Playing \<and> state e' = GameOver then [GameStateChange GameOver] else []"
  have n: "notifications e' = notifications e @ ?L @ ?P" by (rule step(1))
  have d: "drop (length (notifications e)) (notifications e') = ?L @ ?P"
    unfolding n by simp
  have t: "take (length (notifications e)) (notifications e') = notifications e"
    unfolding n by simp
  have s: "fresh (lastOf (scoreReports (notifications e))) (scoreReports (?L @ ?P))"
    using lg inv
    by (auto simp: log_ok_def landingOut_reports(1) config simp del: landingOut.simps
          split: option.splits)
  have c: "fresh (lastOf (comboReports (notifications e))) (comboReports (?L @ ?P))"
    using lg
    by (auto simp: log_ok_def landingOut_reports(2) simp del: landingOut.simps
          split: option.splits)
  have p: "fresh (lastOf (phaseReports (notifications e))) (phaseReports (?L @ ?P))"
    using lg
    by (auto simp: log_ok_def landingOut_reports(4) simp del: landingOut.simps
          split: option.splits)
  have f: "False \<in> set (feverReports (?L @ ?P)) \<longrightarrow>
           fresh (lastOf (feverReports (notifications e))) (feverReports (?L @ ?P))"
    using lg
    by (auto simp: log_ok_def landingOut_reports(3) simp del: landingOut.simps
          split: option.splits if_splits)
  show ?thesis
    unfolding d using False t s c p f by blast
qed

theorem notifications_on_change_witness:
  "exec R0 (Frame 16 0) E0r = Inr E1r \<and>
   drop (length (notifications E0r)) (notifications E1r) = [GameStateChange GameOver] \<and>
   lastOf (phaseReports (notifications E0r)) = Some Playing \<and>
   fresh (lastOf (phaseReports (notifications E0r)))
     (phaseReports (drop (length (notifications E0r)) (notifications E1r))) \<and>
   drop (length (notifications E1r)) (notifications (startGame R0 E1r)) =
     [ScoreUpdate 0, ComboChange 0, FeverChange False, GameStateChange Playing]"
proof -
  have l: "exec R0 (Frame 16 0) E0r = Inr E1r"
    by (simp add: E1r_def loop_afterFrame[OF wf_E0r E0r_fields(1)])
  have r1: "reachable R0 E1r"
    by (rule reachable.step[OF reachable_E0r _ l]) simp
  have a: "fresh (lastOf (phaseReports (notifications E0r)))
     (phaseReports (drop (length (notifications E0r)) (notifications E1r)))"
    using notifications_on_change[OF reachable_E0r _ l] by simp
  have b: "drop (length (notifications E1r)) (notifications (startGame R0 E1r)) =
     [ScoreUpdate 0, ComboChange 0, FeverChange False, GameStateChange Playing]"
    using notifications_on_change[OF r1, of StartGame "startGame R0 E1r"] by simp
  have c: "drop (length (notifications E0r)) (notifications E1r) = [GameStateChange GameOver]"
    "lastOf (phaseReports (notifications E0r)) = Some Playing"
    by (simp_all add: E1r_fields E0r_fields E0_fields)
  show ?thesis using l a b c by blast
qed


end
